(* ===== verification/Prelude.thy ===== *)
theory Prelude
  imports Main "HOL-Library.AList" "HOL-Library.Sublist" "HOL-Library.Multiset"
begin

text \<open>
  The part of the JavaScript language and its standard library that every component of the
  model uses: strings, arrays, ordered maps and sets, stable sorting.

  A JavaScript string is modelled by an Isabelle \<open>string\<close>: a list of code units below 256
  (the Latin-1 range). Lengths, slices and comparisons therefore count code units, as the
  source does. The two literals of the source that hold a larger code unit are spelled by
  their UTF-8 bytes (\<open>em_dash\<close>, \<open>right_arrow\<close>).
  A JavaScript \<open>Map\<close> keeps insertion order: it is an association list with
  \<open>AList.update\<close> (overwrite in place, else append) and \<open>AList.delete\<close>.
\<close>

section \<open>Collections of facts\<close>

named_theorems js_str \<open>equations that evaluate the string functions on literals\<close>
named_theorems js_map \<open>lookup laws of ordered maps\<close>

section \<open>Characters and literals\<close>

abbreviation LF :: char where "LF \<equiv> CHR 0x0A"
abbreviation CR :: char where "CR \<equiv> CHR 0x0D"
abbreviation SQ :: char where "SQ \<equiv> CHR 0x27"
abbreviation DQ :: char where "DQ \<equiv> CHR 0x22"
abbreviation BS :: char where "BS \<equiv> CHR 0x5C"
abbreviation BQ :: char where "BQ \<equiv> CHR 0x60"
abbreviation ESC :: char where "ESC \<equiv> CHR 0x1B"

definition em_dash :: string where
  "em_dash = [CHR 0xE2, CHR 0x80, CHR 0x94]"

definition right_arrow :: string where
  "right_arrow = [CHR 0xE2, CHR 0x86, CHR 0x92]"

definition code :: "char \<Rightarrow> nat" where
  "code c = of_char c"

lemma code_less_256: "code c < 256"
  by (simp add: code_def)

definition in_range :: "nat \<Rightarrow> nat \<Rightarrow> char \<Rightarrow> bool" where
  "in_range lo hi c \<longleftrightarrow> lo \<le> code c \<and> code c \<le> hi"

definition is_digit :: "char \<Rightarrow> bool" where
  "is_digit c \<longleftrightarrow> in_range 48 57 c"

definition is_lower :: "char \<Rightarrow> bool" where
  "is_lower c \<longleftrightarrow> in_range 97 122 c"

definition is_upper :: "char \<Rightarrow> bool" where
  "is_upper c \<longleftrightarrow> in_range 65 90 c"

definition is_alpha :: "char \<Rightarrow> bool" where
  "is_alpha c \<longleftrightarrow> is_lower c \<or> is_upper c"

definition is_alnum :: "char \<Rightarrow> bool" where
  "is_alnum c \<longleftrightarrow> is_alpha c \<or> is_digit c"

text \<open>White space as \<open>String.prototype.trim\<close> and the regular expression class \<open>\s\<close> see it.\<close>

definition is_space :: "char \<Rightarrow> bool" where
  "is_space c \<longleftrightarrow> in_range 9 13 c \<or> code c = 32 \<or> code c = 160"

text \<open>The ASCII control characters, as in the class \<open>[\u0000-\u001f\u007f]\<close>.\<close>

definition is_control :: "char \<Rightarrow> bool" where
  "is_control c \<longleftrightarrow> code c \<le> 31 \<or> code c = 127"

lemmas char_class_defs =
  in_range_def is_digit_def is_lower_def is_upper_def is_alpha_def is_alnum_def
  is_space_def is_control_def code_def

text \<open>\<open>toLowerCase\<close> on a Latin-1 code unit: A-Z and the accented capitals but the
  multiplication sign.\<close>

definition char_lower :: "char \<Rightarrow> char" where
  "char_lower c =
     (if in_range 65 90 c \<or> (in_range 192 222 c \<and> code c \<noteq> 215) then char_of (code c + 32) else c)"

definition to_lower :: "string \<Rightarrow> string" where
  "to_lower s = map char_lower s"

text \<open>\<open>toUpperCase\<close> on the code units the source applies it to (ASCII letters).\<close>

definition char_upper :: "char \<Rightarrow> char" where
  "char_upper c = (if is_lower c then char_of (code c - 32) else c)"

definition to_upper :: "string \<Rightarrow> string" where
  "to_upper s = map char_upper s"

lemma length_to_lower [simp]: "length (to_lower s) = length s"
  by (simp add: to_lower_def)

lemma to_lower_append [simp]: "to_lower (s @ t) = to_lower s @ to_lower t"
  by (simp add: to_lower_def)

lemma to_lower_Nil [simp]: "to_lower [] = []"
  by (simp add: to_lower_def)

lemma code_char_of [simp]: "n < 256 \<Longrightarrow> code (char_of n) = n"
  by (simp add: code_def)

lemma code_eq_iff: "code c = code d \<longleftrightarrow> c = d"
  by (simp add: code_def)

lemma char_lower_idem: "char_lower (char_lower c) = char_lower c"
proof (cases "in_range 65 90 c \<or> (in_range 192 222 c \<and> code c \<noteq> 215)")
  case True
  then have b: "code c + 32 < 256" by (auto simp: in_range_def)
  then have "code (char_lower c) = code c + 32" using True by (simp add: char_lower_def)
  with True have "\<not> (in_range 65 90 (char_lower c)
      \<or> (in_range 192 222 (char_lower c) \<and> code (char_lower c) \<noteq> 215))"
    by (auto simp: in_range_def)
  then show ?thesis by (subst char_lower_def) (simp only: if_False)
next
  case False
  then have "char_lower c = c" by (simp only: char_lower_def if_False)
  then show ?thesis by simp
qed

lemma to_lower_idem [simp]: "to_lower (to_lower s) = to_lower s"
  by (simp add: to_lower_def char_lower_idem)

section \<open>String functions\<close>

text \<open>\<open>s.startsWith(p)\<close>, \<open>s.endsWith(p)\<close>, \<open>s.includes(p)\<close> of JavaScript strings.\<close>

definition starts_with :: "string \<Rightarrow> string \<Rightarrow> bool" where
  "starts_with s p = prefix p s"

definition ends_with :: "string \<Rightarrow> string \<Rightarrow> bool" where
  "ends_with s p = prefix (rev p) (rev s)"

fun includes_str :: "'a list \<Rightarrow> 'a list \<Rightarrow> bool" where
  "includes_str [] p = (p = [])"
| "includes_str (c # s) p = (prefix p (c # s) \<or> includes_str s p)"

lemma includes_str_sublist: "includes_str s p \<longleftrightarrow> sublist p s"
  by (induction s) (auto simp: sublist_Cons_right)

lemma ends_with_suffix: "ends_with s p \<longleftrightarrow> suffix p s"
  by (simp add: ends_with_def suffix_to_prefix)

text \<open>\<open>s.indexOf(p)\<close> and \<open>s.lastIndexOf(c)\<close>; \<open>None\<close> stands for -1.\<close>

fun index_of :: "'a list \<Rightarrow> 'a list \<Rightarrow> nat option" where
  "index_of p [] = (if p = [] then Some 0 else None)"
| "index_of p (c # s) = (if prefix p (c # s) then Some 0 else map_option Suc (index_of p s))"

definition last_index_of :: "'a \<Rightarrow> 'a list \<Rightarrow> nat option" where
  "last_index_of c s =
     (case index_of [c] (rev s) of None \<Rightarrow> None | Some i \<Rightarrow> Some (length s - 1 - i))"

text \<open>\<open>s.trim()\<close>.\<close>

definition trim_start :: "string \<Rightarrow> string" where
  "trim_start s = dropWhile is_space s"

definition trim_end :: "string \<Rightarrow> string" where
  "trim_end s = rev (dropWhile is_space (rev s))"

definition trim :: "string \<Rightarrow> string" where
  "trim s = trim_end (trim_start s)"

text \<open>\<open>s.replace(/c+$/, "")\<close> for one character, such as \<open>replace(/\/+$/, "")\<close>.\<close>

definition strip_trailing :: "char \<Rightarrow> string \<Rightarrow> string" where
  "strip_trailing c s = rev (dropWhile (\<lambda>x. x = c) (rev s))"

text \<open>\<open>s.replace(p, "")\<close> for a prefix anchored with \<open>^\<close>.\<close>

definition strip_prefix :: "string \<Rightarrow> string \<Rightarrow> string" where
  "strip_prefix p s = (if prefix p s then drop (length p) s else s)"

text \<open>\<open>s.slice(0, n)\<close> is \<open>take n s\<close>; \<open>s.slice(n)\<close> is \<open>drop n s\<close>.\<close>

text \<open>\<open>s.replace(/c/g, r)\<close> for one character: every occurrence is replaced.\<close>

definition replace_char :: "char \<Rightarrow> string \<Rightarrow> string \<Rightarrow> string" where
  "replace_char c r s = concat (map (\<lambda>x. if x = c then r else [x]) s)"

lemma replace_char_Nil [simp]: "replace_char c r [] = []"
  by (simp add: replace_char_def)

lemma replace_char_Cons [simp]:
  "replace_char c r (x # s) = (if x = c then r else [x]) @ replace_char c r s"
  by (simp add: replace_char_def)

lemma replace_char_append: "replace_char c r (s @ t) = replace_char c r s @ replace_char c r t"
  by (simp add: replace_char_def)

lemma replace_char_id: "c \<notin> set s \<Longrightarrow> replace_char c r s = s"
  by (induction s) auto

subsection \<open>Splitting and joining\<close>

text \<open>
  \<open>break_at sep s\<close> is the text before and after the first occurrence of \<open>sep\<close>;
  \<open>split_str\<close> is \<open>s.split(sep)\<close>.
\<close>

fun break_at :: "'a list \<Rightarrow> 'a list \<Rightarrow> ('a list \<times> 'a list) option" where
  "break_at sep [] = (if sep = [] then Some ([], []) else None)"
| "break_at sep (c # s) =
     (if prefix sep (c # s) then Some ([], drop (length sep) (c # s))
      else map_option (\<lambda>(a, b). (c # a, b)) (break_at sep s))"

lemma break_at_Some: "break_at sep s = Some (a, b) \<Longrightarrow> s = a @ sep @ b"
proof (induction s arbitrary: a)
  case Nil
  then show ?case by (auto split: if_splits)
next
  case (Cons c s)
  show ?case
  proof (cases "prefix sep (c # s)")
    case True
    with Cons.prems show ?thesis by (auto simp: prefix_def)
  next
    case False
    with Cons.prems obtain a' where "break_at sep s = Some (a', b)" and "a = c # a'"
      by auto
    with Cons.IH show ?thesis by simp
  qed
qed

lemma break_at_None: "break_at sep s = None \<longleftrightarrow> \<not> sublist sep s"
  by (induction s) (auto simp: sublist_Cons_right)

lemma break_at_first:
  "break_at sep s = Some (a, b) \<Longrightarrow> sep \<noteq> [] \<Longrightarrow> \<not> sublist sep a"
proof (induction s arbitrary: a)
  case Nil
  then show ?case by (auto split: if_splits)
next
  case (Cons c s)
  show ?case
  proof (cases "prefix sep (c # s)")
    case True
    with Cons.prems show ?thesis by auto
  next
    case False
    with Cons.prems obtain a' where a': "break_at sep s = Some (a', b)" and [simp]: "a = c # a'"
      by auto
    from a' have "s = a' @ sep @ b" by (rule break_at_Some)
    with False have "\<not> prefix sep (c # a')"
      using prefix_prefix [of sep "c # a'" "sep @ b"] by auto
    with Cons.IH [OF a' Cons.prems(2)] show ?thesis by (simp add: sublist_Cons_right)
  qed
qed

function split_str :: "'a list \<Rightarrow> 'a list \<Rightarrow> 'a list list" where
  "split_str sep s =
     (if sep = [] then map (\<lambda>c. [c]) s
      else case break_at sep s of None \<Rightarrow> [s] | Some (a, b) \<Rightarrow> a # split_str sep b)"
  by pat_completeness auto
termination
proof (relation "measure (\<lambda>(sep, s). length s)", goal_cases)
  case (2 sep s x a b)
  then have "s = a @ sep @ b" using break_at_Some by blast
  with 2 show ?case by simp
qed simp

declare split_str.simps [simp del]

fun join_str :: "'a list \<Rightarrow> 'a list list \<Rightarrow> 'a list" where
  "join_str sep [] = []"
| "join_str sep [x] = x"
| "join_str sep (x # y # ys) = x @ sep @ join_str sep (y # ys)"

lemma split_str_nonempty: "sep \<noteq> [] \<Longrightarrow> split_str sep s \<noteq> []"
  by (subst split_str.simps) (auto split: option.split)

lemma join_str_Cons: "xs \<noteq> [] \<Longrightarrow> join_str sep (x # xs) = x @ sep @ join_str sep xs"
  by (cases xs) auto

lemma join_split_str: "sep \<noteq> [] \<Longrightarrow> join_str sep (split_str sep s) = s"
proof (induction sep s rule: split_str.induct)
  case (1 sep s)
  show ?case
  proof (cases "break_at sep s")
    case None
    with 1 show ?thesis by (simp add: split_str.simps [of sep s])
  next
    case (Some ab)
    obtain a b where ab: "ab = (a, b)" by force
    from Some ab have s: "s = a @ sep @ b" by (simp add: break_at_Some)
    from Some ab 1 have "split_str sep s = a # split_str sep b"
      by (simp add: split_str.simps [of sep s])
    moreover have "join_str sep (split_str sep b) = b"
      using 1 Some ab by simp
    ultimately show ?thesis
      using s 1 by (simp add: join_str_Cons split_str_nonempty)
  qed
qed

lemma split_str_pieces: "sep \<noteq> [] \<Longrightarrow> x \<in> set (split_str sep s) \<Longrightarrow> \<not> sublist sep x"
proof (induction sep s rule: split_str.induct)
  case (1 sep s)
  show ?case
  proof (cases "break_at sep s")
    case None
    with 1 show ?thesis by (simp add: split_str.simps [of sep s] break_at_None [symmetric])
  next
    case (Some ab)
    obtain a b where ab: "ab = (a, b)" by force
    from Some ab 1 have "x = a \<or> x \<in> set (split_str sep b)"
      by (simp add: split_str.simps [of sep s])
    with Some ab 1 show ?thesis by (auto dest: break_at_first)
  qed
qed

text \<open>Splitting at one character is a structural recursion, the form proofs use.\<close>

lemma split_char_Nil [simp, js_str]: "split_str [c] [] = [[]]"
  by (simp add: split_str.simps)

lemma split_char_Cons [simp, js_str]:
  "split_str [c] (x # s) =
     (if x = c then [] # split_str [c] s
      else (x # hd (split_str [c] s)) # tl (split_str [c] s))"
proof (cases "x = c")
  case True
  then have "split_str [c] (x # s) = [] # split_str [c] s"
    by (subst split_str.simps) simp
  with True show ?thesis by simp
next
  case False
  then have np: "\<not> prefix [c] (x # s)" by simp
  show ?thesis
  proof (cases "break_at [c] s")
    case None
    with False np show ?thesis
      by (simp add: split_str.simps [of "[c]" "x # s"] split_str.simps [of "[c]" s])
  next
    case (Some ab)
    with False np show ?thesis
      by (cases ab)
        (simp add: split_str.simps [of "[c]" "x # s"] split_str.simps [of "[c]" s])
  qed
qed

lemma split_char_absent: "c \<notin> set s \<Longrightarrow> split_str [c] s = [s]"
  by (induction s) auto

lemma split_char_append:
  "c \<notin> set a \<Longrightarrow> split_str [c] (a @ c # b) = a # split_str [c] b"
  by (induction a) auto

lemma split_join_char:
  "xs \<noteq> [] \<Longrightarrow> \<forall>x \<in> set xs. c \<notin> set x \<Longrightarrow> split_str [c] (join_str [c] xs) = xs"
proof (induction xs)
  case (Cons x xs)
  then show ?case by (cases xs) (auto simp: split_char_absent split_char_append)
qed simp

lemma split_char_pieces: "x \<in> set (split_str [c] s) \<Longrightarrow> c \<notin> set x"
  using split_str_pieces [of "[c]" x s] by (auto simp: sublist_def in_set_conv_decomp)

lemma set_split_char: "x \<in> set (split_str [c] s) \<Longrightarrow> set x \<subseteq> set s"
proof (induction s arbitrary: x)
  case Nil
  then show ?case by simp
next
  case (Cons a s)
  have ne: "split_str [c] s \<noteq> []" by (simp add: split_str_nonempty)
  show ?case
  proof (cases "a = c")
    case True
    with Cons show ?thesis by auto
  next
    case False
    from ne have "hd (split_str [c] s) \<in> set (split_str [c] s)" by simp
    with Cons.IH have "set (hd (split_str [c] s)) \<subseteq> set s" by blast
    moreover from ne have "set (tl (split_str [c] s)) \<subseteq> set (split_str [c] s)"
      by (cases "split_str [c] s") auto
    ultimately show ?thesis using Cons False by fastforce
  qed
qed

text \<open>\<open>s.split(/\r?\n/)\<close>.\<close>

fun split_lines :: "string \<Rightarrow> string list" where
  "split_lines [] = [[]]"
| "split_lines (c # s) =
     (if c = LF then [] # split_lines s
      else if c = CR \<and> s \<noteq> [] \<and> hd s = LF then split_lines s
      else (c # hd (split_lines s)) # tl (split_lines s))"

lemma split_lines_nonempty: "split_lines s \<noteq> []"
  by (induction s rule: split_lines.induct) auto

text \<open>Linear equations to evaluate with: the recursive result is used once.\<close>

fun on_head :: "('a \<Rightarrow> 'a) \<Rightarrow> 'a list \<Rightarrow> 'a list" where
  "on_head f [] = []"
| "on_head f (x # xs) = f x # xs"

lemma on_head_nonempty: "xs \<noteq> [] \<Longrightarrow> on_head f xs = f (hd xs) # tl xs"
  by (cases xs) simp_all

lemma split_lines_code [code]:
  "split_lines [] = [[]]"
  "split_lines (c # s) =
     (if c = LF then [] # split_lines s
      else if c = CR \<and> s \<noteq> [] \<and> hd s = LF then split_lines s
      else on_head (Cons c) (split_lines s))"
  by (simp_all add: on_head_nonempty split_lines_nonempty)

lemma split_char_eval:
  "split_str [c] [] = [[]]"
  "split_str [c] (x # s) = (if x = c then [] # split_str [c] s else on_head (Cons x) (split_str [c] s))"
  by (simp_all add: on_head_nonempty split_str_nonempty)

lemma split_lines_plain:
  "LF \<notin> set a \<Longrightarrow> CR \<notin> set a \<Longrightarrow> split_lines (a @ LF # s) = a # split_lines s"
  by (induction a) auto

lemma split_lines_single: "LF \<notin> set a \<Longrightarrow> CR \<notin> set a \<Longrightarrow> split_lines a = [a]"
  by (induction a) auto

text \<open>\<open>xs.join("\n") + "\n"\<close> is read back line by line, plus the empty text after the last one.\<close>

lemma split_lines_join:
  "\<forall>x \<in> set xs. LF \<notin> set x \<and> CR \<notin> set x \<Longrightarrow> xs \<noteq> [] \<Longrightarrow>
    split_lines (join_str [LF] xs @ [LF]) = xs @ [[]]"
proof (induction xs)
  case (Cons x xs)
  then show ?case by (cases xs) (auto simp: split_lines_plain)
qed simp

lemma split_lines_no_LF: "x \<in> set (split_lines s) \<Longrightarrow> LF \<notin> set x"
proof (induction s arbitrary: x rule: split_lines.induct)
  case (2 c s)
  have ne: "split_lines s \<noteq> []" by (rule split_lines_nonempty)
  then have "hd (split_lines s) \<in> set (split_lines s)" by simp
  moreover have "set (tl (split_lines s)) \<subseteq> set (split_lines s)"
    by (cases "split_lines s") auto
  ultimately show ?case using 2 by (auto split: if_splits)
qed simp

section \<open>Numbers as text\<close>

text \<open>The decimal digits of a natural number, as a template literal prints an integer.\<close>

fun nat_str :: "nat \<Rightarrow> string" where
  "nat_str n = (if n < 10 then [char_of (48 + n)] else nat_str (n div 10) @ [char_of (48 + n mod 10)])"

declare nat_str.simps [simp del]

definition int_str :: "int \<Rightarrow> string" where
  "int_str i = (if i < 0 then ''-'' @ nat_str (nat (- i)) else nat_str (nat i))"

lemma nat_str_digits: "\<forall>c \<in> set (nat_str n). is_digit c"
proof (induction n rule: nat_str.induct)
  case (1 n)
  have d: "m < 10 \<Longrightarrow> is_digit (char_of (48 + m :: nat))" for m :: nat
    by (auto simp: is_digit_def in_range_def)
  show ?case
  proof (cases "n < 10")
    case True
    then show ?thesis by (subst nat_str.simps) (simp add: d)
  next
    case False
    then show ?thesis using "1.IH" d [of "n mod 10"]
      by (subst nat_str.simps) simp
  qed
qed

lemma nat_str_nonempty [simp]: "nat_str n \<noteq> []"
  by (subst nat_str.simps) simp

text \<open>The value of a digit string, as \<open>Number\<close> reads it.\<close>

definition nat_of_digits :: "string \<Rightarrow> nat" where
  "nat_of_digits s = foldl (\<lambda>n c. n * 10 + (code c - 48)) 0 s"

lemma nat_of_digits_nat_str [simp]: "nat_of_digits (nat_str n) = n"
proof (induction n rule: nat_str.induct)
  case (1 n)
  show ?case
  proof (cases "n < 10")
    case True
    then show ?thesis by (subst nat_str.simps) (simp add: nat_of_digits_def)
  next
    case False
    have m: "n mod 10 < 10" by simp
    then have "code (char_of (48 + n mod 10)) = 48 + n mod 10"
      by (intro code_char_of) linarith
    then show ?thesis using False "1.IH"
      by (subst nat_str.simps) (simp add: nat_of_digits_def)
  qed
qed

lemma nat_str_inject [simp]: "nat_str m = nat_str n \<longleftrightarrow> m = n"
  by (metis nat_of_digits_nat_str)

section \<open>Trimming\<close>

lemma trim_ident:
  "s \<noteq> [] \<Longrightarrow> \<not> is_space (hd s) \<Longrightarrow> \<not> is_space (last s) \<Longrightarrow> trim s = s"
proof -
  assume ne: "s \<noteq> []" and h: "\<not> is_space (hd s)" and l: "\<not> is_space (last s)"
  have "trim_start s = s" using ne h by (cases s) (simp_all add: trim_start_def)
  moreover have "trim_end s = s" using ne l by (cases s rule: rev_cases) (simp_all add: trim_end_def)
  ultimately show ?thesis by (simp add: trim_def)
qed

lemma dropWhile_all_append: "list_all P a \<Longrightarrow> dropWhile P (a @ b) = dropWhile P b"
  by (induction a) auto

lemma trim_end_snoc: "is_space c \<Longrightarrow> trim_end (s @ [c]) = trim_end s"
  by (simp add: trim_end_def)

lemma trim_snoc_space: "is_space c \<Longrightarrow> trim (s @ [c]) = trim s"
proof (cases "list_all is_space s")
  case True
  assume "is_space c"
  then have "dropWhile is_space (s @ [c]) = []" and "dropWhile is_space s = []"
    using True by (simp_all add: dropWhile_eq_Nil_conv list_all_iff)
  then show ?thesis unfolding trim_def trim_start_def by (simp only:)
next
  case False
  moreover assume "is_space c"
  moreover have "dropWhile is_space (s @ [c]) = dropWhile is_space s @ [c]"
    using False by (induction s) auto
  ultimately show ?thesis by (simp add: trim_def trim_start_def trim_end_snoc)
qed

lemma trim_split: "\<exists>sp. dropWhile is_space s = trim s @ sp"
proof -
  let ?t = "dropWhile is_space s"
  have "?t = rev (dropWhile is_space (rev ?t)) @ rev (takeWhile is_space (rev ?t))"
    by (metis rev_append rev_rev_ident takeWhile_dropWhile_id)
  then show ?thesis by (auto simp: trim_def trim_start_def trim_end_def)
qed

lemma trim_ends:
  assumes "trim s \<noteq> []"
  shows "\<not> is_space (hd (trim s))" and "\<not> is_space (last (trim s))"
proof -
  let ?t = "dropWhile is_space s"
  obtain sp where sp: "?t = trim s @ sp" using trim_split by blast
  with assms have "hd (trim s) = hd ?t" "?t \<noteq> []" by auto
  then show "\<not> is_space (hd (trim s))" by (simp add: hd_dropWhile)
  have "dropWhile is_space (rev ?t) \<noteq> []" using assms by (simp add: trim_def trim_start_def trim_end_def)
  then show "\<not> is_space (last (trim s))"
    by (simp add: trim_def trim_start_def trim_end_def last_rev hd_dropWhile)
qed

lemma trim_trim [simp]: "trim (trim s) = trim s"
proof (cases "trim s = []")
  case False
  then show ?thesis using trim_ident trim_ends by blast
next
  case True
  moreover have "trim [] = []" by (simp add: trim_def trim_start_def trim_end_def)
  ultimately show ?thesis by simp
qed

lemma set_trim: "set (trim s) \<subseteq> set s"
  by (auto simp: trim_def trim_start_def trim_end_def dest!: set_dropWhileD)

section \<open>Ordered sets and maps\<close>

text \<open>\<open>[...new Set(xs)]\<close>: the first occurrence of every element, in order.\<close>

fun uniq :: "'a list \<Rightarrow> 'a list" where
  "uniq [] = []"
| "uniq (x # xs) = x # filter (\<lambda>y. y \<noteq> x) (uniq xs)"

lemma set_uniq [simp]: "set (uniq xs) = set xs"
  by (induction xs) auto

lemma distinct_uniq [simp]: "distinct (uniq xs)"
  by (induction xs) auto

lemma uniq_id: "distinct xs \<Longrightarrow> uniq xs = xs"
  by (induction xs) (auto intro: filter_True)

lemma uniq_Nil_iff [simp]: "uniq xs = [] \<longleftrightarrow> xs = []"
  by (cases xs) auto

lemma hd_uniq [simp]: "xs \<noteq> [] \<Longrightarrow> hd (uniq xs) = hd xs"
  by (cases xs) auto

text \<open>\<open>new Map(pairs)\<close>: later pairs overwrite the value of earlier ones with the same key.\<close>

definition map_of_pairs :: "('k \<times> 'v) list \<Rightarrow> ('k \<times> 'v) list" where
  "map_of_pairs ps = fold (\<lambda>(k, v) m. AList.update k v m) ps []"

lemma map_of_fold_update:
  "map_of (fold (\<lambda>(k, v) m. AList.update k v m) ps m0) = map_of m0 ++ map_of (rev ps)"
  by (induction ps arbitrary: m0) (auto simp: update_conv' split: prod.splits)

lemma map_of_map_of_pairs: "map_of (map_of_pairs ps) = map_of (rev ps)"
  by (simp add: map_of_pairs_def map_of_fold_update)

lemma distinct_fold_update:
  "distinct (map fst m) \<Longrightarrow>
    distinct (map fst (fold (\<lambda>(k, v) m. AList.update k v m) ps m))"
  by (induction ps arbitrary: m) (auto simp: distinct_update split: prod.splits)

lemma distinct_map_of_pairs: "distinct (map fst (map_of_pairs ps))"
  by (simp add: map_of_pairs_def distinct_fold_update)

text \<open>Deleting every entry that satisfies a condition, as the sweep loops of the source do.\<close>

definition sweep_entries :: "('v \<Rightarrow> bool) \<Rightarrow> ('k \<times> 'v) list \<Rightarrow> ('k \<times> 'v) list" where
  "sweep_entries dead m = filter (\<lambda>(k, v). \<not> dead v) m"

lemma map_of_sweep_entries [js_map]:
  "distinct (map fst m) \<Longrightarrow>
    map_of (sweep_entries dead m) k = (case map_of m k of None \<Rightarrow> None | Some v \<Rightarrow> if dead v then None else Some v)"
proof (induction m)
  case (Cons p m)
  obtain k' v' where p: "p = (k', v')" by force
  from Cons.prems p have "map_of m k' = None"
    by (auto simp: map_of_eq_None_iff)
  with Cons p show ?case by (auto simp: sweep_entries_def split: option.splits)
qed (simp add: sweep_entries_def)

lemma distinct_sweep_entries: "distinct (map fst m) \<Longrightarrow> distinct (map fst (sweep_entries dead m))"
  by (induction m) (auto simp: sweep_entries_def)

lemma length_sweep_entries: "length (sweep_entries dead m) \<le> length m"
  by (simp add: sweep_entries_def)

lemma length_update_le: "length (AList.update k v m) \<le> Suc (length m)"
  by (induction m) auto

lemma map_of_update [js_map]: "map_of (AList.update k v m) k' = (if k' = k then Some v else map_of m k')"
  by (simp add: update_conv')

lemma map_of_delete [js_map]: "map_of (AList.delete k m) k' = (if k' = k then None else map_of m k')"
  by (simp add: delete_conv')

section \<open>Stable sorting\<close>

text \<open>
  \<open>xs.sort(cmp)\<close>: a comparison function returns a negative number, zero or a positive number.
  The language requires the sort to be stable, so for a consistent comparison the result is
  determined: \<open>sort_by\<close> computes it by insertion.
\<close>

fun insert_by :: "('a \<Rightarrow> 'a \<Rightarrow> int) \<Rightarrow> 'a \<Rightarrow> 'a list \<Rightarrow> 'a list" where
  "insert_by cmp x [] = [x]"
| "insert_by cmp x (y # ys) = (if cmp x y \<le> 0 then x # y # ys else y # insert_by cmp x ys)"

definition sort_by :: "('a \<Rightarrow> 'a \<Rightarrow> int) \<Rightarrow> 'a list \<Rightarrow> 'a list" where
  "sort_by cmp xs = foldr (insert_by cmp) xs []"

lemma sort_by_Nil [simp]: "sort_by cmp [] = []"
  by (simp add: sort_by_def)

lemma sort_by_Cons [simp]: "sort_by cmp (x # xs) = insert_by cmp x (sort_by cmp xs)"
  by (simp add: sort_by_def)

lemma mset_insert_by [simp]: "mset (insert_by cmp x xs) = add_mset x (mset xs)"
  by (induction xs) auto

lemma mset_sort_by [simp]: "mset (sort_by cmp xs) = mset xs"
  by (induction xs) auto

lemma set_sort_by [simp]: "set (sort_by cmp xs) = set xs"
  by (rule mset_eq_setD) simp

lemma length_sort_by [simp]: "length (sort_by cmp xs) = length xs"
  by (rule mset_eq_length) simp

lemma sort_by_eq_Nil [simp]: "sort_by cmp xs = [] \<longleftrightarrow> xs = []"
  by (simp flip: length_0_conv)

lemma distinct_sort_by [simp]: "distinct (sort_by cmp xs) = distinct xs"
  by (rule mset_eq_imp_distinct_iff) simp

text \<open>The contract a comparison function has to keep for a sort to be meaningful.\<close>

locale comparison =
  fixes cmp :: "'a \<Rightarrow> 'a \<Rightarrow> int"
  assumes total: "cmp x y \<le> 0 \<or> cmp y x \<le> 0"
    and trans: "cmp x y \<le> 0 \<Longrightarrow> cmp y z \<le> 0 \<Longrightarrow> cmp x z \<le> 0"
begin

lemma refl: "cmp x x \<le> 0"
  using total [of x x] by simp

lemma sorted_insert_by:
  "sorted_wrt (\<lambda>a b. cmp a b \<le> 0) ys \<Longrightarrow> sorted_wrt (\<lambda>a b. cmp a b \<le> 0) (insert_by cmp x ys)"
proof (induction ys)
  case (Cons y ys)
  show ?case
  proof (cases "cmp x y \<le> 0")
    case True
    with Cons.prems have "\<forall>z \<in> set ys. cmp x z \<le> 0" by (auto dest: trans [of x y])
    with True Cons.prems show ?thesis by simp
  next
    case False
    with total have yx: "cmp y x \<le> 0" by blast
    have "set (insert_by cmp x ys) = insert x (set ys)"
      by (metis mset_insert_by set_mset_add_mset_insert set_mset_mset)
    with Cons False yx show ?thesis by simp
  qed
qed simp

lemma sorted_sort_by: "sorted_wrt (\<lambda>a b. cmp a b \<le> 0) (sort_by cmp xs)"
  by (induction xs) (auto intro: sorted_insert_by)

lemma hd_sort_by_least: "x \<in> set xs \<Longrightarrow> cmp (hd (sort_by cmp xs)) x \<le> 0"
proof -
  assume x: "x \<in> set xs"
  then have "sort_by cmp xs \<noteq> []" by auto
  then obtain y ys where s: "sort_by cmp xs = y # ys" by (cases "sort_by cmp xs") auto
  have "x \<in> set (y # ys)" using x set_sort_by [of cmp xs] s by auto
  moreover have "sorted_wrt (\<lambda>a b. cmp a b \<le> 0) (y # ys)"
    using sorted_sort_by [of xs] s by simp
  ultimately show ?thesis using s refl [of y] by auto
qed

text \<open>Everything kept by \<open>slice(0, n)\<close> of a sorted list comes before everything dropped.\<close>

lemma take_sort_by_least:
  "x \<in> set (take n (sort_by cmp xs)) \<Longrightarrow> y \<in> set (drop n (sort_by cmp xs)) \<Longrightarrow> cmp x y \<le> 0"
proof -
  assume x: "x \<in> set (take n (sort_by cmp xs))" and y: "y \<in> set (drop n (sort_by cmp xs))"
  have "sorted_wrt (\<lambda>a b. cmp a b \<le> 0) (take n (sort_by cmp xs) @ drop n (sort_by cmp xs))"
    using sorted_sort_by by (simp only: append_take_drop_id)
  then show ?thesis using x y by (simp only: sorted_wrt_append)
qed

text \<open>Stability: elements that compare equal to \<open>x\<close> keep their order.\<close>

lemma insert_by_stable:
  "sorted_wrt (\<lambda>a b. cmp a b \<le> 0) ys \<Longrightarrow>
    filter (\<lambda>y. cmp x y \<le> 0 \<and> cmp y x \<le> 0) (insert_by cmp z ys) =
    filter (\<lambda>y. cmp x y \<le> 0 \<and> cmp y x \<le> 0) (z # ys)"
proof (induction ys)
  case (Cons y ys)
  show ?case
  proof (cases "cmp z y \<le> 0")
    case True
    then show ?thesis by simp
  next
    case False
    then have "\<not> (cmp x z \<le> 0 \<and> cmp z x \<le> 0 \<and> cmp x y \<le> 0 \<and> cmp y x \<le> 0)"
      using trans by blast
    with False Cons show ?thesis by auto
  qed
qed simp

lemma sort_by_stable:
  "filter (\<lambda>y. cmp x y \<le> 0 \<and> cmp y x \<le> 0) (sort_by cmp xs) =
   filter (\<lambda>y. cmp x y \<le> 0 \<and> cmp y x \<le> 0) xs"
  by (induction xs) (simp_all add: insert_by_stable sorted_sort_by)

end

text \<open>\<open>a || b\<close> of two comparison results: the first that is not zero.\<close>

definition or_else :: "int \<Rightarrow> int \<Rightarrow> int" where
  "or_else a b = (if a = 0 then b else a)"

text \<open>Comparison by a number, as in \<open>(a, b) => key(a) - key(b)\<close>.\<close>

definition cmp_key :: "('a \<Rightarrow> int) \<Rightarrow> 'a \<Rightarrow> 'a \<Rightarrow> int" where
  "cmp_key k a b = k a - k b"

interpretation by_key: comparison "cmp_key k"
  by unfold_locales (auto simp: cmp_key_def)

lemma comparison_by: "comparison cmp \<Longrightarrow> comparison (\<lambda>a b. cmp (f a) (f b))"
  unfolding comparison_def by blast

lemma comparison_or_else:
  assumes "comparison cmp"
  shows "comparison (\<lambda>a b. or_else (k a - k b) (cmp a b))"
proof
  show "or_else (k x - k y) (cmp x y) \<le> 0 \<or> or_else (k y - k x) (cmp y x) \<le> 0" for x y
    using comparison.total [OF assms] by (auto simp: or_else_def)
  show "or_else (k x - k z) (cmp x z) \<le> 0"
    if "or_else (k x - k y) (cmp x y) \<le> 0" "or_else (k y - k z) (cmp y z) \<le> 0" for x y z
    using that comparison.trans [OF assms, of x y z] by (auto simp: or_else_def split: if_splits)
qed

text \<open>The default order of \<open>xs.sort()\<close>: strings by code units.\<close>

fun cmp_units :: "string \<Rightarrow> string \<Rightarrow> int" where
  "cmp_units [] [] = 0"
| "cmp_units [] (_ # _) = -1"
| "cmp_units (_ # _) [] = 1"
| "cmp_units (a # as) (b # bs) =
     (if code a < code b then -1 else if code b < code a then 1 else cmp_units as bs)"

lemma cmp_units_refl [simp]: "cmp_units a a = 0"
  by (induction a) auto

lemma cmp_units_antisym: "cmp_units a b = - cmp_units b a"
  by (induction a b rule: cmp_units.induct) auto

lemma cmp_units_zero: "cmp_units a b = 0 \<longleftrightarrow> a = b"
  by (induction a b rule: cmp_units.induct) (auto simp: code_eq_iff [symmetric])

lemma cmp_units_trans: "cmp_units a b \<le> 0 \<Longrightarrow> cmp_units b c \<le> 0 \<Longrightarrow> cmp_units a c \<le> 0"
proof (induction a arbitrary: b c)
  case Nil
  then show ?case by (cases c) auto
next
  case (Cons x xs)
  from Cons.prems(1) obtain y ys where b: "b = y # ys" by (cases b) auto
  with Cons.prems(2) obtain z zs where c: "c = z # zs" by (cases c) auto
  have xy: "code x < code y \<or> code x = code y \<and> cmp_units xs ys \<le> 0"
    using Cons.prems(1) b by (simp split: if_splits)
  have yz: "code y < code z \<or> code y = code z \<and> cmp_units ys zs \<le> 0"
    using Cons.prems(2) b c by (simp split: if_splits)
  show ?case using xy yz c Cons.IH [of ys zs] by auto
qed

interpretation units: comparison cmp_units
proof
  fix x y z :: string
  show "cmp_units x y \<le> 0 \<or> cmp_units y x \<le> 0"
    using cmp_units_antisym [of x y] by linarith
  show "cmp_units x y \<le> 0 \<Longrightarrow> cmp_units y z \<le> 0 \<Longrightarrow> cmp_units x z \<le> 0"
    by (rule cmp_units_trans)
qed

text \<open>Sorting texts depends on their multiset only: equal keys are equal texts.\<close>

lemma sort_units_unique:
  assumes "mset xs = mset ys"
  shows "sort_by cmp_units xs = sort_by cmp_units ys"
proof -
  have "xs = ys" if "mset xs = mset ys" "sorted_wrt (\<lambda>a b. cmp_units a b \<le> 0) xs" "sorted_wrt (\<lambda>a b. cmp_units a b \<le> 0) ys"
    for xs ys :: "string list"
    using that
  proof (induction xs arbitrary: ys)
    case (Cons x xs)
    then obtain y ys' where ys: "ys = y # ys'" by (cases ys) auto
    have "x \<in> set ys" "y \<in> set (x # xs)"
      using Cons.prems(1) ys mset_eq_setD by fastforce+
    then have "cmp_units x y \<le> 0" "cmp_units y x \<le> 0"
      using Cons.prems(2,3) ys by auto
    then have "x = y"
      using cmp_units_antisym [of x y] cmp_units_zero [of x y] by simp
    with Cons ys show ?case by auto
  qed simp
  then show ?thesis
    using assms units.sorted_sort_by by (metis mset_sort_by)
qed

text \<open>The sort reversed: \<open>(a, b) => cmp(b, a)\<close>.\<close>

definition descending :: "('a \<Rightarrow> 'a \<Rightarrow> int) \<Rightarrow> 'a \<Rightarrow> 'a \<Rightarrow> int" where
  "descending cmp a b = cmp b a"

section \<open>Truthiness and defaults\<close>

text \<open>
  JavaScript's tests on nullable columns: a \<open>string | null\<close> is truthy when it is a non-empty string, a
  \<open>number | null\<close> when it is a number other than 0; \<open>x ?? d\<close> is \<open>default\<close>.
\<close>

definition str_truthy :: "string option \<Rightarrow> bool" where
  "str_truthy x = (case x of None \<Rightarrow> False | Some s \<Rightarrow> s \<noteq> [])"

definition int_truthy :: "int option \<Rightarrow> bool" where
  "int_truthy x = (case x of None \<Rightarrow> False | Some n \<Rightarrow> n \<noteq> 0)"

definition default :: "'a \<Rightarrow> 'a option \<Rightarrow> 'a" where
  "default d x = (case x of None \<Rightarrow> d | Some v \<Rightarrow> v)"

lemma truthy_simps [simp]:
  "str_truthy None = False" "str_truthy (Some s) = (s \<noteq> [])"
  "int_truthy None = False" "int_truthy (Some n) = (n \<noteq> 0)"
  "default d None = d" "default d (Some v) = v"
  by (simp_all add: str_truthy_def int_truthy_def default_def)

text \<open>
  A number of a \<open>real\<close> column: \<open>Decimal m e\<close> is m / 10^e, and \<open>decimal_str\<close> is what a template
  literal makes of it (no exponent: the values between 10^-6 and 10^21).
\<close>

datatype decimal = Decimal nat nat

definition pad_zeros :: "nat \<Rightarrow> string \<Rightarrow> string" where
  "pad_zeros n s = replicate (n - length s) (CHR ''0'') @ s"

fun decimal_str :: "decimal \<Rightarrow> string" where
  "decimal_str (Decimal m e) =
    (let frac = strip_trailing (CHR ''0'') (pad_zeros e (nat_str (m mod 10 ^ e)))
     in nat_str (m div 10 ^ e) @ (if e = 0 \<or> frac = [] then [] else ''.'' @ frac))"

fun decimal_nonzero :: "decimal \<Rightarrow> bool" where
  "decimal_nonzero (Decimal m e) = (m \<noteq> 0)"

end
