(* ===== verification/JsRegex.thy ===== *)
theory JsRegex
  imports Prelude
begin

text \<open>
  Regular expressions, as the source writes them in anchored tests \<open>/^...$/.test(s)\<close>.
  A pattern is a term of the datatype \<open>rx\<close>; \<open>accepts\<close> is the language it denotes and
  \<open>rx_test\<close> the executable test, by derivatives. \<open>rx_test_accepts\<close> shows that they agree,
  \<open>accepts_within\<close> turns a syntactic check of the pattern's classes into a fact about every
  character of every accepted text.
\<close>

section \<open>Patterns and the language they denote\<close>

datatype rx =
    RNone
  | REps
  | RCls "char \<Rightarrow> bool"
  | RSeq rx rx
  | RAlt rx rx
  | RStar rx

inductive accepts :: "rx \<Rightarrow> string \<Rightarrow> bool" where
  eps: "accepts REps []"
| cls: "p c \<Longrightarrow> accepts (RCls p) [c]"
| seq: "accepts r s \<Longrightarrow> accepts q t \<Longrightarrow> accepts (RSeq r q) (s @ t)"
| alt_left: "accepts r s \<Longrightarrow> accepts (RAlt r q) s"
| alt_right: "accepts q s \<Longrightarrow> accepts (RAlt r q) s"
| star_stop: "accepts (RStar r) []"
| star_step: "accepts r (c # s) \<Longrightarrow> accepts (RStar r) t \<Longrightarrow> accepts (RStar r) (c # s @ t)"

inductive_simps accepts_RNone [simp]: "accepts RNone s"
inductive_simps accepts_REps [simp]: "accepts REps s"
inductive_simps accepts_RCls [simp]: "accepts (RCls p) s"
inductive_simps accepts_RSeq: "accepts (RSeq r q) s"
inductive_simps accepts_RAlt [simp]: "accepts (RAlt r q) s"

inductive_cases accepts_RStarE: "accepts (RStar r) s"

section \<open>Building blocks\<close>

definition one_of :: "string \<Rightarrow> char \<Rightarrow> bool" where
  "one_of cs c \<longleftrightarrow> c \<in> set cs"

primrec rx_seq :: "rx list \<Rightarrow> rx" where
  "rx_seq [] = REps"
| "rx_seq (r # rs) = RSeq r (rx_seq rs)"

primrec rx_alt :: "rx list \<Rightarrow> rx" where
  "rx_alt [] = RNone"
| "rx_alt (r # rs) = RAlt r (rx_alt rs)"

primrec rx_lit :: "string \<Rightarrow> rx" where
  "rx_lit [] = REps"
| "rx_lit (c # s) = RSeq (RCls (\<lambda>x. x = c)) (rx_lit s)"

definition rx_opt :: "rx \<Rightarrow> rx" where
  "rx_opt r = RAlt r REps"

definition rx_plus :: "rx \<Rightarrow> rx" where
  "rx_plus r = RSeq r (RStar r)"

text \<open>\<open>r{0,n}\<close>, \<open>r{n}\<close> and \<open>r{n,m}\<close>.\<close>

primrec rx_upto :: "nat \<Rightarrow> rx \<Rightarrow> rx" where
  "rx_upto 0 r = REps"
| "rx_upto (Suc n) r = RAlt (RSeq r (rx_upto n r)) REps"

primrec rx_times :: "nat \<Rightarrow> rx \<Rightarrow> rx" where
  "rx_times 0 r = REps"
| "rx_times (Suc n) r = RSeq r (rx_times n r)"

definition rx_between :: "nat \<Rightarrow> nat \<Rightarrow> rx \<Rightarrow> rx" where
  "rx_between n m r = RSeq (rx_times n r) (rx_upto (m - n) r)"

section \<open>The executable test\<close>

primrec nullable :: "rx \<Rightarrow> bool" where
  "nullable RNone = False"
| "nullable REps = True"
| "nullable (RCls p) = False"
| "nullable (RSeq r q) = (nullable r \<and> nullable q)"
| "nullable (RAlt r q) = (nullable r \<or> nullable q)"
| "nullable (RStar r) = True"

fun mk_seq :: "rx \<Rightarrow> rx \<Rightarrow> rx" where
  "mk_seq RNone q = RNone"
| "mk_seq REps q = q"
| "mk_seq r q = RSeq r q"

fun mk_alt :: "rx \<Rightarrow> rx \<Rightarrow> rx" where
  "mk_alt RNone q = q"
| "mk_alt r RNone = r"
| "mk_alt r q = RAlt r q"

primrec deriv :: "char \<Rightarrow> rx \<Rightarrow> rx" where
  "deriv c RNone = RNone"
| "deriv c REps = RNone"
| "deriv c (RCls p) = (if p c then REps else RNone)"
| "deriv c (RSeq r q) =
     (if nullable r then mk_alt (mk_seq (deriv c r) q) (deriv c q) else mk_seq (deriv c r) q)"
| "deriv c (RAlt r q) = mk_alt (deriv c r) (deriv c q)"
| "deriv c (RStar r) = mk_seq (deriv c r) (RStar r)"

primrec rx_test :: "rx \<Rightarrow> string \<Rightarrow> bool" where
  "rx_test r [] = nullable r"
| "rx_test r (c # s) = rx_test (deriv c r) s" for s

lemma accepts_mk_seq [simp]: "accepts (mk_seq r q) s = accepts (RSeq r q) s"
  by (cases r) (simp_all add: accepts_RSeq)

lemma accepts_mk_alt [simp]: "accepts (mk_alt r q) s = accepts (RAlt r q) s"
  by (induction r q rule: mk_alt.induct) auto

lemma accepts_Nil: "accepts r [] = nullable r"
proof (induction r)
  case (RStar r)
  then show ?case by (auto intro: star_stop)
qed (auto simp: accepts_RSeq)

lemma accepts_RStar_Cons:
  "accepts (RStar r) (c # s) = (\<exists>t u. s = t @ u \<and> accepts r (c # t) \<and> accepts (RStar r) u)"
proof
  assume "accepts (RStar r) (c # s)"
  then show "\<exists>t u. s = t @ u \<and> accepts r (c # t) \<and> accepts (RStar r) u"
    by (cases rule: accepts_RStarE) auto
qed (auto intro: star_step)

lemma accepts_RSeq_Cons:
  "accepts (RSeq r q) (c # s) =
    ((\<exists>t u. s = t @ u \<and> accepts r (c # t) \<and> accepts q u) \<or> nullable r \<and> accepts q (c # s))"
  (is "?l = ?r")
proof
  assume ?l
  then obtain t u where tu: "c # s = t @ u" "accepts r t" "accepts q u"
    by (auto simp: accepts_RSeq)
  then show ?r by (cases t) (auto simp: accepts_Nil)
next
  assume ?r
  then show ?l
    by (metis accepts.seq accepts_Nil append_Cons append_Nil)
qed

lemma accepts_deriv: "accepts (deriv c r) s = accepts r (c # s)"
proof (induction r arbitrary: s)
  case (RSeq r q)
  then show ?case
    by (auto simp: accepts_RSeq_Cons accepts_RSeq [of "deriv c r"])
next
  case (RStar r)
  then show ?case by (auto simp: accepts_RStar_Cons accepts_RSeq)
qed auto

theorem rx_test_accepts: "rx_test r s = accepts r s"
  by (induction s arbitrary: r) (simp_all add: accepts_Nil accepts_deriv)

section \<open>Reading facts off a pattern\<close>

text \<open>Every class of the pattern lies within a class.\<close>

primrec rx_within :: "(char \<Rightarrow> bool) \<Rightarrow> rx \<Rightarrow> bool" where
  "rx_within P RNone = True"
| "rx_within P REps = True"
| "rx_within P (RCls p) = (\<forall>c. p c \<longrightarrow> P c)"
| "rx_within P (RSeq r q) = (rx_within P r \<and> rx_within P q)"
| "rx_within P (RAlt r q) = (rx_within P r \<and> rx_within P q)"
| "rx_within P (RStar r) = rx_within P r"

lemma accepts_within: "accepts r s \<Longrightarrow> rx_within P r \<Longrightarrow> c \<in> set s \<Longrightarrow> P c"
  by (induction rule: accepts.induct) auto

lemma rx_test_within: "rx_test r s \<Longrightarrow> rx_within P r \<Longrightarrow> c \<in> set s \<Longrightarrow> P c"
  by (simp add: rx_test_accepts accepts_within)

lemma rx_within_opt [simp]: "rx_within P (rx_opt r) = rx_within P r"
  by (simp add: rx_opt_def)

lemma rx_within_plus [simp]: "rx_within P (rx_plus r) = rx_within P r"
  by (simp add: rx_plus_def)

lemma rx_within_upto [simp]: "rx_within P (rx_upto n r) = (n = 0 \<or> rx_within P r)"
  by (induction n) auto

lemma rx_within_times [simp]: "rx_within P (rx_times n r) = (n = 0 \<or> rx_within P r)"
  by (induction n) auto

lemma rx_within_between: "rx_within P r \<Longrightarrow> rx_within P (rx_between n m r)"
  by (simp add: rx_between_def)

lemma rx_within_lit [simp]: "rx_within P (rx_lit s) = (\<forall>c \<in> set s. P c)"
  by (induction s) auto

lemma accepts_cls_seq [simp]:
  "accepts (RSeq (RCls p) q) s = (\<exists>c t. s = c # t \<and> p c \<and> accepts q t)"
  by (cases s) (auto simp: accepts_RSeq_Cons accepts_Nil)

text \<open>Literals, repetition of one class, and sequences, in closed form.\<close>

lemma accepts_rx_lit [simp]: "accepts (rx_lit s) t = (t = s)"
  by (induction s arbitrary: t) auto

lemma accepts_rx_opt [simp]: "accepts (rx_opt r) s = (s = [] \<or> accepts r s)"
  by (auto simp: rx_opt_def)

lemma accepts_star_cls [simp]: "accepts (RStar (RCls p)) s = (\<forall>c \<in> set s. p c)"
proof
  assume "accepts (RStar (RCls p)) s"
  then show "\<forall>c \<in> set s. p c" using accepts_within [of "RStar (RCls p)" s p] by auto
next
  assume "\<forall>c \<in> set s. p c"
  then show "accepts (RStar (RCls p)) s"
    by (induction s) (auto simp: accepts_RStar_Cons intro: star_stop)
qed

lemma accepts_plus_cls [simp]: "accepts (rx_plus (RCls p)) s = (s \<noteq> [] \<and> (\<forall>c \<in> set s. p c))"
  by (cases s) (auto simp: rx_plus_def)

lemma accepts_upto_cls [simp]:
  "accepts (rx_upto n (RCls p)) s = (length s \<le> n \<and> (\<forall>c \<in> set s. p c))"
proof (induction n arbitrary: s)
  case (Suc n)
  then show ?case by (cases s) auto
qed auto

lemma accepts_times_cls [simp]:
  "accepts (rx_times n (RCls p)) s = (length s = n \<and> (\<forall>c \<in> set s. p c))"
proof (induction n arbitrary: s)
  case (Suc n)
  then show ?case by (cases s) auto
qed auto

lemma accepts_between_cls [simp]:
  assumes "n \<le> m"
  shows "accepts (rx_between n m (RCls p)) s \<longleftrightarrow>
    n \<le> length s \<and> length s \<le> m \<and> (\<forall>c \<in> set s. p c)"
proof
  assume "accepts (rx_between n m (RCls p)) s"
  then show "n \<le> length s \<and> length s \<le> m \<and> (\<forall>c \<in> set s. p c)"
    using assms by (auto simp: rx_between_def accepts_RSeq)
next
  assume h: "n \<le> length s \<and> length s \<le> m \<and> (\<forall>c \<in> set s. p c)"
  have "accepts (RSeq (rx_times n (RCls p)) (rx_upto (m - n) (RCls p))) (take n s @ drop n s)"
    using h assms by (intro seq) (auto dest: in_set_takeD in_set_dropD)
  then show "accepts (rx_between n m (RCls p)) s"
    by (simp add: rx_between_def)
qed

end
