(* ===== verification/Shell.thy ===== *)
theory Shell
  imports JsRegex
begin

text \<open>
  Quoting for POSIX shells and the checks on text that ends up in commands: \<open>shellQuote\<close>,
  \<open>parseDockerOptions\<close> and the validators of packages/shared/src/shell.ts.

  The contract of quoting is stated against a reader: \<open>sh_run\<close> is the part of the POSIX
  shell's token recognition that the commands of the program rely on (quotes, backslash,
  blanks, operators, active characters). The locale \<open>quoting_reader\<close> says what a reader has
  to do with quoted text; the shell reader and the program's own tokenizer of the "extra docker
  options" field are both instances.
\<close>

section \<open>shellQuote\<close>

definition shellQuote :: "string \<Rightarrow> string" where
  "shellQuote value = [SQ] @ replace_char SQ [SQ, BS, SQ, SQ] value @ [SQ]"

definition quoteAll :: "string list \<Rightarrow> string" where
  "quoteAll words = join_str '' '' (map shellQuote words)"

text \<open>Characters that stand for themselves in every reader.\<close>

definition plain_char :: "char \<Rightarrow> bool" where
  "plain_char c \<longleftrightarrow> is_alnum c \<or> c \<in> set ''-_./=:,@%+''"

definition opt_list :: "'a list option \<Rightarrow> 'a list" where
  "opt_list cur = (case cur of None \<Rightarrow> [] | Some w \<Rightarrow> w)"

lemma opt_list_simps [simp]: "opt_list None = []" "opt_list (Some w) = w"
  by (simp_all add: opt_list_def)

locale quoting_reader =
  fixes run :: "string \<Rightarrow> 's \<Rightarrow> 's"
    and outside :: "'t list \<Rightarrow> 'p list option \<Rightarrow> 's"
    and lit :: "char \<Rightarrow> 'p"
    and tok :: "'p list \<Rightarrow> 't"
  assumes run_Nil: "run [] st = st"
    and run_quote:
      "run (shellQuote v @ rest) (outside ts cur) =
       run rest (outside ts (Some (opt_list cur @ map lit v)))"
    and run_blank:
      "run (CHR '' '' # rest) (outside ts cur) =
       run rest (outside (case cur of None \<Rightarrow> ts | Some w \<Rightarrow> ts @ [tok w]) None)"
    and run_plain:
      "plain_char c \<Longrightarrow>
       run (c # rest) (outside ts cur) = run rest (outside ts (Some (opt_list cur @ [lit c])))"
begin

lemma run_plain_text:
  "\<forall>c \<in> set s. plain_char c \<Longrightarrow> s \<noteq> [] \<Longrightarrow>
    run (s @ rest) (outside ts cur) = run rest (outside ts (Some (opt_list cur @ map lit s)))"
proof (induction s arbitrary: cur)
  case (Cons c s)
  show ?case
  proof (cases "s = []")
    case True
    with Cons.prems show ?thesis by (simp add: run_plain)
  next
    case False
    with Cons.prems Cons.IH [of "Some (opt_list cur @ [lit c])"] show ?thesis
      by (simp add: run_plain)
  qed
qed simp

lemma run_plain_word:
  assumes "\<forall>c \<in> set s. plain_char c" and "s \<noteq> []"
  shows "run (s @ CHR '' '' # rest) (outside ts None) = run rest (outside (ts @ [tok (map lit s)]) None)"
  using assms by (simp add: run_plain_text run_blank)

lemma run_quoted_word:
  "run (shellQuote v @ CHR '' '' # rest) (outside ts None) =
   run rest (outside (ts @ [tok (map lit v)]) None)"
  by (simp add: run_quote run_blank)

text \<open>Any list of words, quoted and separated by blanks, is read back word for word.\<close>

lemma run_quoteAll:
  "words \<noteq> [] \<Longrightarrow>
    run (quoteAll words @ rest) (outside ts None) =
    run rest (outside (ts @ map (tok \<circ> map lit) (butlast words)) (Some (map lit (last words))))"
proof (induction words arbitrary: ts)
  case (Cons v vs)
  show ?case
  proof (cases vs)
    case Nil
    then show ?thesis by (simp add: quoteAll_def run_quote)
  next
    case (Cons v' vs')
    then have "quoteAll (v # vs) @ rest = shellQuote v @ CHR '' '' # (quoteAll vs @ rest)"
      by (simp add: quoteAll_def)
    then show ?thesis
      using Cons.IH [of "ts @ [tok (map lit v)]"] Cons
      by (simp add: run_quoted_word)
  qed
qed simp

lemma run_quoteAll_blank:
  "words \<noteq> [] \<Longrightarrow>
    run (quoteAll words @ CHR '' '' # rest) (outside ts None) =
    run rest (outside (ts @ map (tok \<circ> map lit) words) None)"
proof -
  assume ne: "words \<noteq> []"
  then have "map (tok \<circ> map lit) (butlast words) @ [tok (map lit (last words))]
      = map (tok \<circ> map lit) words"
    using ne by (cases words rule: rev_cases) auto
  with ne show ?thesis by (simp add: run_quoteAll run_blank)
qed

end

section \<open>What a POSIX shell reads\<close>

text \<open>
  A word is a list of pieces: \<open>Lit c\<close> is a character the shell takes literally (quoted, escaped
  or without a meaning), \<open>Act c\<close> one it interprets (an expansion or a pattern). An operator
  character outside quotes is a token of its own. Comments, here-documents and the recombination
  of operator characters (\<open>&&\<close>, \<open>2>&1\<close>) are not part of this reader.
\<close>

datatype piece = Lit char | Act char

datatype sh_token = Word "piece list" | Op char

datatype quote_mode = Bare | Single | Double

record sh_state =
  sh_toks :: "sh_token list"
  sh_cur :: "piece list option"
  sh_mode :: quote_mode

definition sh_outside :: "sh_token list \<Rightarrow> piece list option \<Rightarrow> sh_state" where
  "sh_outside ts w = \<lparr>sh_toks = ts, sh_cur = w, sh_mode = Bare\<rparr>"

definition sh_push :: "piece \<Rightarrow> sh_state \<Rightarrow> sh_state" where
  "sh_push p st = st\<lparr>sh_cur := Some (opt_list (sh_cur st) @ [p])\<rparr>"

definition sh_open :: "quote_mode \<Rightarrow> sh_state \<Rightarrow> sh_state" where
  "sh_open m st = st\<lparr>sh_cur := Some (opt_list (sh_cur st)), sh_mode := m\<rparr>"

definition sh_end_word :: "sh_state \<Rightarrow> sh_state" where
  "sh_end_word st =
     (case sh_cur st of None \<Rightarrow> st | Some w \<Rightarrow> st\<lparr>sh_toks := sh_toks st @ [Word w], sh_cur := None\<rparr>)"

definition sh_operator :: "char \<Rightarrow> bool" where
  "sh_operator c \<longleftrightarrow> c \<in> set '';&|<>()'' \<or> c = LF"

definition sh_active :: "char \<Rightarrow> bool" where
  "sh_active c \<longleftrightarrow> c = CHR ''$'' \<or> c = BQ \<or> c \<in> set ''*?[]#~!{}''"

fun sh_run :: "string \<Rightarrow> sh_state \<Rightarrow> sh_state" where
  "sh_run [] st = st"
| "sh_run (c # s) st =
     (case sh_mode st of
        Single \<Rightarrow> sh_run s (if c = SQ then st\<lparr>sh_mode := Bare\<rparr> else sh_push (Lit c) st)
      | Double \<Rightarrow>
          (if c = DQ then sh_run s (st\<lparr>sh_mode := Bare\<rparr>)
           else if c = BS \<and> s \<noteq> [] \<and> hd s \<in> {CHR ''$'', BQ, DQ, BS}
             then sh_run (tl s) (sh_push (Lit (hd s)) st)
           else if c = BS \<and> s \<noteq> [] \<and> hd s = LF then sh_run (tl s) st
           else sh_run s (sh_push (if c = CHR ''$'' \<or> c = BQ then Act c else Lit c) st))
      | Bare \<Rightarrow>
          (if c = SQ then sh_run s (sh_open Single st)
           else if c = DQ then sh_run s (sh_open Double st)
           else if c = BS \<and> s \<noteq> [] then
             sh_run (tl s) (if hd s = LF then st else sh_push (Lit (hd s)) st)
           else if c = CHR '' '' \<or> c = CHR 0x09 then sh_run s (sh_end_word st)
           else if sh_operator c then
             sh_run s (let st' = sh_end_word st in st'\<lparr>sh_toks := sh_toks st' @ [Op c]\<rparr>)
           else sh_run s (sh_push (if sh_active c then Act c else Lit c) st)))"

definition sh_tokens :: "string \<Rightarrow> sh_token list option" where
  "sh_tokens s =
     (let st = sh_end_word (sh_run s (sh_outside [] None))
      in if sh_mode st = Bare then Some (sh_toks st) else None)"

abbreviation lit_word :: "string \<Rightarrow> sh_token" where
  "lit_word w \<equiv> Word (map Lit w)"

lemma sh_run_replaced:
  "sh_run (replace_char SQ [SQ, BS, SQ, SQ] v @ rest) \<lparr>sh_toks = ts, sh_cur = Some w, sh_mode = Single\<rparr> =
   sh_run rest \<lparr>sh_toks = ts, sh_cur = Some (w @ map Lit v), sh_mode = Single\<rparr>"
  by (induction v arbitrary: w) (auto simp: sh_push_def sh_open_def)

lemma plain_char_sh: "plain_char c \<Longrightarrow>
  c \<noteq> SQ \<and> c \<noteq> DQ \<and> c \<noteq> BS \<and> c \<noteq> CHR '' '' \<and> c \<noteq> CHR 0x09 \<and> \<not> sh_operator c \<and> \<not> sh_active c"
  by (auto simp: plain_char_def sh_operator_def sh_active_def char_class_defs)

interpretation sh: quoting_reader sh_run sh_outside Lit Word
proof
  fix v rest ts and cur :: "piece list option"
  show "sh_run (shellQuote v @ rest) (sh_outside ts cur) =
    sh_run rest (sh_outside ts (Some (opt_list cur @ map Lit v)))"
    by (simp add: shellQuote_def sh_outside_def sh_open_def sh_run_replaced)
  show "sh_run (CHR '' '' # rest) (sh_outside ts cur) =
    sh_run rest (sh_outside (case cur of None \<Rightarrow> ts | Some w \<Rightarrow> ts @ [Word w]) None)"
    by (cases cur) (simp_all add: sh_outside_def sh_end_word_def)
  fix c assume "plain_char c"
  then show "sh_run (c # rest) (sh_outside ts cur) =
    sh_run rest (sh_outside ts (Some (opt_list cur @ [Lit c])))"
    using plain_char_sh [of c] by (simp add: sh_outside_def sh_push_def)
qed simp

lemma sh_end_word_outside:
  "sh_end_word (sh_outside ts cur) = sh_outside (case cur of None \<Rightarrow> ts | Some w \<Rightarrow> ts @ [Word w]) None"
  by (cases cur) (simp_all add: sh_outside_def sh_end_word_def)

lemma sh_outside_sel [simp]: "sh_toks (sh_outside ts w) = ts" "sh_mode (sh_outside ts w) = Bare"
  by (simp_all add: sh_outside_def)

lemma sh_run_operator:
  "sh_operator c \<Longrightarrow>
    sh_run (c # rest) (sh_outside ts cur) =
    sh_run rest (sh_outside ((case cur of None \<Rightarrow> ts | Some w \<Rightarrow> ts @ [Word w]) @ [Op c]) None)"
  by (cases cur) (auto simp: sh_operator_def sh_outside_def sh_end_word_def)

text \<open>The rules that evaluate the shell reader on a command, text by text.\<close>

lemmas sh_reads = sh.run_quote sh.run_blank sh_run_operator sh.run_plain sh_end_word_outside

section \<open>Commands read piece by piece\<close>

text \<open>
  \<open>reads s toks\<close>: between words, the text \<open>s\<close> gives the tokens \<open>toks\<close> and ends between words again.
  Texts compose by \<open>reads_append\<close>; a constant text is evaluated once (\<open>reads_const\<close>).
\<close>

definition reads :: "string \<Rightarrow> sh_token list \<Rightarrow> bool" where
  "reads s toks \<longleftrightarrow>
    (\<forall>ts rest. sh_run (s @ rest) (sh_outside ts None) = sh_run rest (sh_outside (ts @ toks) None))"

definition sh_shift :: "sh_token list \<Rightarrow> sh_state \<Rightarrow> sh_state" where
  "sh_shift ts st = st\<lparr>sh_toks := ts @ sh_toks st\<rparr>"

lemma sh_shift_simps:
  "sh_mode (sh_shift ts st) = sh_mode st"
  "sh_push p (sh_shift ts st) = sh_shift ts (sh_push p st)"
  "sh_open m (sh_shift ts st) = sh_shift ts (sh_open m st)"
  "sh_end_word (sh_shift ts st) = sh_shift ts (sh_end_word st)"
  "(sh_shift ts st)\<lparr>sh_mode := m\<rparr> = sh_shift ts (st\<lparr>sh_mode := m\<rparr>)"
  "(sh_shift ts st)\<lparr>sh_toks := sh_toks (sh_shift ts st) @ xs\<rparr> = sh_shift ts (st\<lparr>sh_toks := sh_toks st @ xs\<rparr>)"
  by (simp_all add: sh_shift_def sh_push_def sh_open_def sh_end_word_def split: option.split)

lemma sh_run_shift: "BS \<notin> set s \<Longrightarrow> sh_run s (sh_shift ts st) = sh_shift ts (sh_run s st)"
proof (induction s arbitrary: st)
  case (Cons c s)
  then have "c \<noteq> BS" and IH: "\<And>st. sh_run s (sh_shift ts st) = sh_shift ts (sh_run s st)" by auto
  then show ?case
    by (cases "sh_mode st") (simp_all add: sh_shift_simps Let_def IH)
qed simp

lemma sh_run_append: "BS \<notin> set s \<Longrightarrow> sh_run (s @ rest) st = sh_run rest (sh_run s st)"
proof (induction s arbitrary: st)
  case (Cons c s)
  then have "c \<noteq> BS" and IH: "\<And>st. sh_run (s @ rest) st = sh_run rest (sh_run s st)" by auto
  then show ?case
    by (cases "sh_mode st") (simp_all add: IH)
qed simp

lemma reads_const:
  assumes "BS \<notin> set s" and "sh_run s (sh_outside [] None) = sh_outside toks None"
  shows "reads s toks"
proof -
  have shift: "sh_outside (ts @ toks') None = sh_shift ts (sh_outside toks' None)" for ts toks'
    by (simp add: sh_outside_def sh_shift_def)
  show ?thesis
    unfolding reads_def
  proof (intro allI)
    fix ts rest
    have "sh_run (s @ rest) (sh_outside (ts @ []) None) = sh_run rest (sh_shift ts (sh_run s (sh_outside [] None)))"
      unfolding shift by (simp only: sh_run_append [OF assms(1)] sh_run_shift [OF assms(1)])
    then show "sh_run (s @ rest) (sh_outside ts None) = sh_run rest (sh_outside (ts @ toks) None)"
      by (simp only: assms(2) shift append_Nil2)
  qed
qed

lemma reads_Nil [intro, simp]: "reads [] []"
  by (simp add: reads_def)

lemma reads_append [intro]: "reads s xs \<Longrightarrow> reads t ys \<Longrightarrow> reads (s @ t) (xs @ ys)"
  by (simp add: reads_def)

lemma reads_quoted: "reads (shellQuote v @ '' '') [lit_word v]"
  by (simp add: reads_def sh.run_quoted_word)

lemma reads_plain: "list_all plain_char w \<Longrightarrow> w \<noteq> [] \<Longrightarrow> reads (w @ '' '') [lit_word w]"
  by (simp add: reads_def sh.run_plain_word list_all_iff)

lemma reads_quoted_pair: "reads (shellQuote a @ '':'' @ shellQuote b @ '' '') [lit_word (a @ '':'' @ b)]"
proof -
  have "plain_char (CHR '':'')" by (simp add: plain_char_def)
  then show ?thesis by (simp add: reads_def sh.run_quote sh.run_blank sh.run_plain del: sh_run.simps)
qed

lemma reads_quoteAll: "ws \<noteq> [] \<Longrightarrow> reads (join_str '' '' (map shellQuote ws) @ '' '') (map lit_word ws)"
  using sh.run_quoteAll_blank [of ws] by (simp add: reads_def quoteAll_def comp_def)

lemma reads_concat: "(\<And>x. x \<in> set xs \<Longrightarrow> reads (f x) (g x)) \<Longrightarrow> reads (concat (map f xs)) (concat (map g xs))"
  by (induction xs) (auto intro!: reads_append)

text \<open>The last word of a command has no blank after it.\<close>

lemma sh_tokens_last_quoted: "reads s toks \<Longrightarrow> sh_tokens (s @ shellQuote v) = Some (toks @ [lit_word v])"
  using sh.run_quote [of v "[]" toks None] by (simp add: sh_tokens_def reads_def sh_end_word_outside)

section \<open>parseDockerOptions\<close>

text \<open>The loop's local variables: \<open>args\<close>, \<open>current\<close>, \<open>inWord\<close> and \<open>quote\<close>.\<close>

record dk_state =
  dk_args :: "string list"
  dk_current :: string
  dk_inWord :: bool
  dk_quote :: quote_mode

definition dk_add :: "char \<Rightarrow> dk_state \<Rightarrow> dk_state" where
  "dk_add ch st = st\<lparr>dk_current := dk_current st @ [ch]\<rparr>"

fun dk_loop :: "string \<Rightarrow> dk_state \<Rightarrow> dk_state" where
  "dk_loop [] st = st"
| "dk_loop (ch # s) st =
     (case dk_quote st of
        Single \<Rightarrow> dk_loop s (if ch = SQ then st\<lparr>dk_quote := Bare\<rparr> else dk_add ch st)
      | Double \<Rightarrow>
          (if ch = DQ then dk_loop s (st\<lparr>dk_quote := Bare\<rparr>)
           else if ch = BS \<and> s \<noteq> [] \<and> hd s \<in> {DQ, CHR ''$'', BQ}
             then dk_loop (tl s) (dk_add (hd s) st)
           else dk_loop s (dk_add ch st))
      | Bare \<Rightarrow>
          (if ch = SQ \<or> ch = DQ
             then dk_loop s (st\<lparr>dk_quote := (if ch = SQ then Single else Double), dk_inWord := True\<rparr>)
           else if ch = BS \<and> s \<noteq> [] then dk_loop (tl s) ((dk_add (hd s) st)\<lparr>dk_inWord := True\<rparr>)
           else if is_space ch then
             dk_loop s (if dk_inWord st
                        then st\<lparr>dk_args := dk_args st @ [dk_current st], dk_current := [], dk_inWord := False\<rparr>
                        else st)
           else dk_loop s ((dk_add ch st)\<lparr>dk_inWord := True\<rparr>)))"

definition RESERVED_DOCKER_FLAGS :: "string list" where
  "RESERVED_DOCKER_FLAGS = [''--name'', ''-d'', ''--detach'', ''--rm'', ''--env-file'', ''--restart'']"

definition flag_of :: "string \<Rightarrow> string" where
  "flag_of arg = hd (split_str ''='' arg)"

fun check_reserved :: "string list \<Rightarrow> string option" where
  "check_reserved [] = None"
| "check_reserved (arg # args) =
     (if flag_of arg \<in> set RESERVED_DOCKER_FLAGS
      then Some (''the '' @ flag_of arg @ '' option is managed by yeah and cannot be overridden here'')
      else check_reserved args)"

definition parseDockerOptions :: "string \<Rightarrow> string + string list" where
  "parseDockerOptions input =
     (let st = dk_loop input \<lparr>dk_args = [], dk_current = [], dk_inWord = False, dk_quote = Bare\<rparr>
      in if dk_quote st \<noteq> Bare then Inl ''unclosed quote in the docker options''
         else let args = (if dk_inWord st then dk_args st @ [dk_current st] else dk_args st)
              in case check_reserved args of Some e \<Rightarrow> Inl e | None \<Rightarrow> Inr args)"

definition dk_outside :: "string list \<Rightarrow> string option \<Rightarrow> dk_state" where
  "dk_outside args w =
     \<lparr>dk_args = args, dk_current = opt_list w, dk_inWord = (w \<noteq> None), dk_quote = Bare\<rparr>"

lemma dk_outside_sel:
  "dk_args (dk_outside as w) = as" "dk_current (dk_outside as w) = opt_list w"
  "dk_inWord (dk_outside as w) = (w \<noteq> None)" "dk_quote (dk_outside as w) = Bare"
  by (simp_all add: dk_outside_def)

lemma dk_loop_replaced:
  "dk_loop (replace_char SQ [SQ, BS, SQ, SQ] v @ rest)
     \<lparr>dk_args = as, dk_current = w, dk_inWord = True, dk_quote = Single\<rparr> =
   dk_loop rest \<lparr>dk_args = as, dk_current = w @ v, dk_inWord = True, dk_quote = Single\<rparr>"
  by (induction v arbitrary: w) (auto simp: dk_add_def)

lemma plain_char_not_space: "plain_char c \<Longrightarrow> \<not> is_space c"
  by (auto simp: plain_char_def char_class_defs)

interpretation dk: quoting_reader dk_loop dk_outside id id
proof
  fix v rest ts and cur :: "string option"
  show "dk_loop (shellQuote v @ rest) (dk_outside ts cur) =
    dk_loop rest (dk_outside ts (Some (opt_list cur @ map id v)))"
    by (simp add: shellQuote_def dk_outside_def dk_loop_replaced)
  show "dk_loop (CHR '' '' # rest) (dk_outside ts cur) =
    dk_loop rest (dk_outside (case cur of None \<Rightarrow> ts | Some w \<Rightarrow> ts @ [id w]) None)"
    by (cases cur) (simp_all add: dk_outside_def char_class_defs)
  fix c assume "plain_char c"
  then show "dk_loop (c # rest) (dk_outside ts cur) =
    dk_loop rest (dk_outside ts (Some (opt_list cur @ [id c])))"
    using plain_char_sh [of c] plain_char_not_space [of c] by (simp add: dk_outside_def dk_add_def)
qed simp

lemma check_reserved_None:
  "check_reserved args = None \<longleftrightarrow> (\<forall>a \<in> set args. flag_of a \<notin> set RESERVED_DOCKER_FLAGS)"
  by (induction args) auto

text \<open>What was accepted holds no reserved flag.\<close>

lemma parseDockerOptions_not_reserved:
  "parseDockerOptions input = Inr args \<Longrightarrow> a \<in> set args \<Longrightarrow> flag_of a \<notin> set RESERVED_DOCKER_FLAGS"
  by (auto simp: parseDockerOptions_def Let_def check_reserved_None split: if_splits option.splits)

text \<open>Quoting the words and parsing the result gives the words back, up to the reserved flags.\<close>

lemma parseDockerOptions_quoteAll:
  "parseDockerOptions (quoteAll args) =
     (case check_reserved args of Some e \<Rightarrow> Inl e | None \<Rightarrow> Inr args)"
proof (cases "args = []")
  case True
  then show ?thesis by (simp add: parseDockerOptions_def quoteAll_def)
next
  case False
  have init: "\<lparr>dk_args = [], dk_current = [], dk_inWord = False, dk_quote = Bare\<rparr> = dk_outside [] None"
    by (simp add: dk_outside_def)
  have "dk_loop (quoteAll args) (dk_outside [] None) = dk_outside (butlast args) (Some (last args))"
    using dk.run_quoteAll [OF False, of "[]" "[]"] by simp
  then show ?thesis using False
    by (simp add: parseDockerOptions_def init dk_outside_sel)
qed

section \<open>Names and references\<close>

definition slug_char :: "char \<Rightarrow> bool" where
  "slug_char c \<longleftrightarrow> is_lower c \<or> is_digit c"

text \<open>\<open>replace(/[^a-z0-9]+/g, "-")\<close>: every maximal run of other characters becomes one dash.\<close>

fun slug_runs :: "bool \<Rightarrow> string \<Rightarrow> string" where
  "slug_runs inrun [] = []"
| "slug_runs inrun (c # s) =
     (if slug_char c then c # slug_runs False s
      else if inrun then slug_runs True s else CHR ''-'' # slug_runs True s)"

text \<open>\<open>replace(/^-+|-+$/g, "")\<close>.\<close>

definition strip_dashes :: "string \<Rightarrow> string" where
  "strip_dashes s = strip_trailing (CHR ''-'') (dropWhile (\<lambda>c. c = CHR ''-'') s)"

definition resourceSlug :: "string \<Rightarrow> string" where
  "resourceSlug name = strip_dashes (slug_runs False (to_lower name))"

definition shell_unsafe :: "char \<Rightarrow> bool" where
  "shell_unsafe c \<longleftrightarrow> c = DQ \<or> c = SQ \<or> c = BQ \<or> c \<in> set ''$;&|<>''"

definition isSafePublishDirectory :: "string \<Rightarrow> bool" where
  "isSafePublishDirectory dir =
     (if dir = ''.'' \<or> dir = [] then True
      else if starts_with dir ''/'' \<or> BS \<in> set dir \<or> list_ex (\<lambda>c. shell_unsafe c \<or> is_space c) dir then False
      else \<not> List.member (split_str ''/'' dir) ''..'')"

definition hex_lower :: "char \<Rightarrow> bool" where
  "hex_lower c \<longleftrightarrow> in_range 97 102 c \<or> is_digit c"

definition has_digest :: "string \<Rightarrow> bool" where
  "has_digest img \<longleftrightarrow>
     (72 \<le> length img \<and> starts_with (drop (length img - 72) img) ''@sha256:''
      \<and> list_all hex_lower (drop (length img - 64) img))"

definition image_char :: "char \<Rightarrow> bool" where
  "image_char c \<longleftrightarrow> is_alnum c \<or> c \<in> set ''._/:-''"

definition isValidDockerImage :: "string \<Rightarrow> bool" where
  "isValidDockerImage img =
     (if length img = 0 \<or> 512 < length img then False
      else let ref = (if has_digest img then take (length img - 72) img else img)
           in if \<not> rx_test (RSeq (RCls is_alnum) (RStar (RCls image_char))) ref then False
              else let lastSegment = last (split_str ''/'' ref)
                   in length (filter (\<lambda>c. c = CHR '':'') lastSegment) \<le> 1
                      \<and> \<not> ends_with lastSegment '':'' \<and> \<not> includes_str ref ''//'')"

definition word_char :: "char \<Rightarrow> bool" where
  "word_char c \<longleftrightarrow> is_alnum c \<or> c = CHR ''_''"

definition isSshGitUrl :: "string \<Rightarrow> bool" where
  "isSshGitUrl url =
     rx_test
       (RAlt
         (rx_seq [rx_lit ''git@'', rx_plus (RCls (\<lambda>c. word_char c \<or> c \<in> set ''.-'')), rx_lit '':'',
                  rx_plus (RCls (\<lambda>c. \<not> is_space c))])
         (rx_seq [rx_lit ''ssh://'', rx_plus (RCls (\<lambda>c. \<not> is_space c))]))
       url"

definition isSafeHostPath :: "string \<Rightarrow> bool" where
  "isSafeHostPath path =
     (if \<not> starts_with path ''/'' \<or> path = ''/'' \<or> 512 < length path then False
      else if list_ex (\<lambda>c. shell_unsafe c \<or> is_space c \<or> c = BS) path \<or> list_ex (\<lambda>c. code c \<le> 31) path then False
      else \<not> List.member (split_str ''/'' path) ''..'')"

definition isSafeMountPath :: "string \<Rightarrow> bool" where
  "isSafeMountPath path \<longleftrightarrow>
     starts_with path ''/'' \<and> length path \<le> 512
     \<and> \<not> list_ex (\<lambda>c. shell_unsafe c \<or> c = BS) path \<and> \<not> list_ex (\<lambda>c. code c \<le> 31) path"

section \<open>Facts about the names\<close>

lemma slug_char_lower: "slug_char c \<Longrightarrow> char_lower c = c"
  by (auto simp: slug_char_def char_lower_def char_class_defs)

lemma slug_runs_chars: "c \<in> set (slug_runs b s) \<Longrightarrow> slug_char c \<or> c = CHR ''-''"
  by (induction s arbitrary: b) (auto split: if_splits)

lemma slug_char_dash [simp]: "\<not> slug_char (CHR ''-'')"
  by (simp add: slug_char_def char_class_defs)

lemma slug_runs_no_double:
  "\<not> sublist ''--'' (slug_runs b s) \<and> (b \<longrightarrow> \<not> prefix ''-'' (slug_runs b s))"
proof (induction s arbitrary: b)
  case (Cons c s)
  show ?case
  proof (cases "slug_char c")
    case True
    then have "c \<noteq> CHR ''-''" by auto
    with True Cons.IH [of False] show ?thesis by (simp add: sublist_Cons_right)
  next
    case False
    with Cons.IH [of True] show ?thesis by (simp add: sublist_Cons_right)
  qed
qed simp

lemma slug_runs_id:
  "\<forall>c \<in> set r. slug_char c \<or> c = CHR ''-'' \<Longrightarrow> \<not> sublist ''--'' r \<Longrightarrow>
    (b \<longrightarrow> \<not> prefix ''-'' r) \<Longrightarrow> slug_runs b r = r"
proof (induction r arbitrary: b)
  case (Cons c r)
  have r: "\<not> sublist ''--'' r" using Cons.prems by (auto simp: sublist_Cons_right)
  show ?case
  proof (cases "slug_char c")
    case True
    with Cons r show ?thesis by simp
  next
    case False
    with Cons.prems have c: "c = CHR ''-''" by simp
    with Cons.prems have "\<not> prefix ''-'' r" by (auto simp: sublist_Cons_right)
    with Cons r c show ?thesis by simp
  qed
qed simp

text \<open>What a slug is: lower-case words separated by single dashes, possibly nothing at all.\<close>

definition is_slug :: "string \<Rightarrow> bool" where
  "is_slug r \<longleftrightarrow>
     list_all (\<lambda>c. slug_char c \<or> c = CHR ''-'') r \<and> \<not> includes_str r ''--''
     \<and> \<not> starts_with r ''-'' \<and> \<not> ends_with r ''-''"

lemma dropWhile_sublist: "sublist (dropWhile P s) s"
  by (rule suffix_imp_sublist [OF suffix_dropWhile])

lemma strip_trailing_sublist: "sublist (strip_trailing c s) s"
  using dropWhile_sublist [of "\<lambda>x. x = c" "rev s"]
  by (simp add: strip_trailing_def sublist_rev_left)

lemma strip_dashes_sublist: "sublist (strip_dashes s) s"
  unfolding strip_dashes_def
  by (rule sublist_order.order_trans [OF strip_trailing_sublist dropWhile_sublist])

lemma strip_trailing_ends: "\<not> suffix [c] (strip_trailing c s)"
proof
  assume "suffix [c] (strip_trailing c s)"
  then have "prefix [c] (dropWhile (\<lambda>x. x = c) (rev s))"
    by (simp add: strip_trailing_def suffix_to_prefix)
  then obtain zs where "dropWhile (\<lambda>x. x = c) (rev s) = c # zs"
    by (auto simp: prefix_def)
  then show False by (simp add: dropWhile_eq_Cons_conv)
qed

lemma strip_trailing_starts:
  "prefix p (strip_trailing c s) \<Longrightarrow> prefix p s"
proof -
  have "prefix (strip_trailing c s) s"
    using suffix_dropWhile [of "\<lambda>x. x = c" "rev s"]
    by (simp add: strip_trailing_def suffix_to_prefix)
  then show "prefix p (strip_trailing c s) \<Longrightarrow> prefix p s"
    using prefix_order.order_trans by blast
qed

lemma is_slug_resourceSlug: "is_slug (resourceSlug name)"
proof -
  let ?r = "slug_runs False (to_lower name)"
  have sub: "sublist (resourceSlug name) ?r"
    by (simp add: resourceSlug_def strip_dashes_sublist)
  then have "set (resourceSlug name) \<subseteq> set ?r" by (auto simp: sublist_def)
  then have "list_all (\<lambda>c. slug_char c \<or> c = CHR ''-'') (resourceSlug name)"
    using slug_runs_chars by (auto simp: list_all_iff)
  moreover have "\<not> sublist ''--'' (resourceSlug name)"
    using sub slug_runs_no_double [of False "to_lower name"] sublist_order.order_trans by blast
  moreover have "\<not> prefix ''-'' (resourceSlug name)"
  proof
    assume "prefix ''-'' (resourceSlug name)"
    then have "prefix ''-'' (dropWhile (\<lambda>c. c = CHR ''-'') ?r)"
      unfolding resourceSlug_def strip_dashes_def by (rule strip_trailing_starts)
    then obtain zs where "dropWhile (\<lambda>c. c = CHR ''-'') ?r = CHR ''-'' # zs"
      by (auto simp: prefix_def)
    then show False by (simp add: dropWhile_eq_Cons_conv)
  qed
  moreover have "\<not> suffix ''-'' (resourceSlug name)"
    unfolding resourceSlug_def strip_dashes_def by (rule strip_trailing_ends)
  ultimately show ?thesis
    by (simp add: is_slug_def includes_str_sublist starts_with_def ends_with_suffix)
qed

lemma strip_trailing_id: "\<not> suffix [c] s \<Longrightarrow> strip_trailing c s = s"
  by (cases s rule: rev_cases) (auto simp: strip_trailing_def suffix_def)

lemma resourceSlug_id: "is_slug r \<Longrightarrow> resourceSlug r = r"
proof -
  assume r: "is_slug r"
  have "char_lower (CHR ''-'') = CHR ''-''"
    by (simp add: char_lower_def in_range_def code_def)
  then have "to_lower r = r"
    using r by (auto simp: is_slug_def to_lower_def list_all_iff slug_char_lower intro!: map_idI)
  moreover have "slug_runs False r = r"
    using r by (intro slug_runs_id) (auto simp: is_slug_def list_all_iff includes_str_sublist)
  moreover have "dropWhile (\<lambda>c. c = CHR ''-'') r = r"
    using r by (cases r) (auto simp: is_slug_def starts_with_def)
  moreover have "strip_trailing (CHR ''-'') r = r"
    using r by (simp add: is_slug_def ends_with_suffix strip_trailing_id)
  ultimately show ?thesis by (simp add: resourceSlug_def strip_dashes_def)
qed

lemma valid_image_chars:
  assumes "isValidDockerImage img" and "c \<in> set img"
  shows "plain_char c"
proof (cases "has_digest img")
  case False
  with assms have "rx_test (RSeq (RCls is_alnum) (RStar (RCls image_char))) img"
    by (auto simp: isValidDockerImage_def Let_def split: if_splits)
  from rx_test_within [OF this _ assms(2), of plain_char] show ?thesis
    by (auto simp: plain_char_def image_char_def)
next
  case True
  let ?n = "length img - 72"
  have ref: "rx_test (RSeq (RCls is_alnum) (RStar (RCls image_char))) (take ?n img)"
    using assms(1) True by (auto simp: isValidDockerImage_def Let_def split: if_splits)
  have len: "72 \<le> length img" using True by (simp add: has_digest_def)
  have "prefix ''@sha256:'' (drop ?n img)"
    using True by (simp add: has_digest_def starts_with_def)
  then obtain t where t: "drop ?n img = ''@sha256:'' @ t" by (auto simp: prefix_def)
  have "drop (length img - 64) img = drop 8 (drop ?n img)"
    using len by simp
  then have "list_all hex_lower t"
    using True t by (simp add: has_digest_def)
  then have hex: "\<forall>x \<in> set t. plain_char x"
    by (auto simp: list_all_iff hex_lower_def plain_char_def char_class_defs)
  have img: "img = take ?n img @ ''@sha256:'' @ t"
    using t by (metis append_take_drop_id)
  have "c \<in> set (take ?n img) \<or> c \<in> set ''@sha256:'' \<or> c \<in> set t"
    using assms(2) by (subst (asm) img) auto
  then show ?thesis
  proof (elim disjE)
    assume "c \<in> set (take ?n img)"
    from rx_test_within [OF ref _ this, of plain_char] show ?thesis
      by (auto simp: plain_char_def image_char_def)
  next
    have "list_all plain_char ''@sha256:''" by code_simp
    moreover assume "c \<in> set ''@sha256:''"
    ultimately show ?thesis unfolding list_all_iff by blast
  next
    assume "c \<in> set t"
    with hex show ?thesis by blast
  qed
qed

section \<open>Properties\<close>

text \<open>
  C1: Quoting is safe for every text. A shell that reads any list of words, each passed through
  shellQuote and joined by blanks, recognises exactly those words, every character literal: no
  expansion, no operator and no word boundary can come out of the quoted text.
\<close>

theorem shell_reads_quoted_words:
  "sh_tokens (quoteAll words) = Some (map lit_word words)"
proof (cases "words = []")
  case True
  then show ?thesis by (simp add: sh_tokens_def quoteAll_def sh_end_word_outside)
next
  case False
  have "map lit_word (butlast words) @ [lit_word (last words)] = map lit_word words"
    using False by (cases words rule: rev_cases) auto
  with sh.run_quoteAll [OF False, of "[]" "[]"] show ?thesis
    by (simp add: sh_tokens_def sh_end_word_outside comp_def)
qed

text \<open>
  The tokenizer of the "extra docker options" field inverts quoting: for every list of words it
  answers exactly those words, unless one of them is a flag that the deploy manages itself, and
  then it answers the error that names the first such flag.
\<close>

theorem docker_options_roundtrip:
  "parseDockerOptions (quoteAll args) =
     (case find (\<lambda>a. flag_of a \<in> set RESERVED_DOCKER_FLAGS) args of
        None \<Rightarrow> Inr args
      | Some a \<Rightarrow> Inl (''the '' @ flag_of a @ '' option is managed by yeah and cannot be overridden here''))"
proof -
  have "check_reserved args =
    map_option (\<lambda>a. ''the '' @ flag_of a @ '' option is managed by yeah and cannot be overridden here'')
      (find (\<lambda>a. flag_of a \<in> set RESERVED_DOCKER_FLAGS) args)"
    by (induction args) auto
  then show ?thesis
    by (simp add: parseDockerOptions_quoteAll split: option.split)
qed

text \<open>
  A resource's slug is a list of lower-case alphanumeric words separated by single dashes (or
  empty), whatever the name, and taking the slug of a slug changes nothing. The slug is what the
  wildcard domain and the network aliases are made of.
\<close>

theorem resource_slug_canonical:
  "is_slug (resourceSlug name) \<and> resourceSlug (resourceSlug name) = resourceSlug name"
  by (simp add: is_slug_resourceSlug resourceSlug_id)

text \<open>
  An accepted Docker image reference is read by a shell as one literal word even without
  quotes, and it starts with a letter or digit, so it can never be taken for an option.
\<close>

theorem valid_image_is_one_word:
  assumes "isValidDockerImage img"
  shows "sh_tokens img = Some [lit_word img] \<and> img \<noteq> [] \<and> is_alnum (hd img)"
proof -
  have ne: "img \<noteq> []" using assms by (auto simp: isValidDockerImage_def)
  have "sh_run (img @ []) (sh_outside [] None) = sh_run [] (sh_outside [] (Some (map Lit img)))"
    using sh.run_plain_text [of img "[]" "[]" None] valid_image_chars [OF assms] ne by simp
  then have toks: "sh_tokens img = Some [lit_word img]"
    by (simp add: sh_tokens_def sh_end_word_outside)
  have "\<exists>ref. ref \<noteq> [] \<and> prefix ref img \<and> is_alnum (hd ref)"
  proof (intro exI conjI)
    let ?ref = "if has_digest img then take (length img - 72) img else img"
    have a: "accepts (RSeq (RCls is_alnum) (RStar (RCls image_char))) ?ref"
      using assms by (auto simp: isValidDockerImage_def Let_def rx_test_accepts split: if_splits)
    then show "?ref \<noteq> []" and "is_alnum (hd ?ref)" by (auto split: if_splits)
    show "prefix ?ref img" by (simp add: take_is_prefix)
  qed
  then have "is_alnum (hd img)" by (auto simp: prefix_def)
  with toks ne show ?thesis by simp
qed

theorem valid_image_is_one_word_witness:
  "isValidDockerImage ''ghcr.io/org/app:1.2'' \<and>
   sh_tokens ''ghcr.io/org/app:1.2'' = Some [lit_word ''ghcr.io/org/app:1.2'']"
proof -
  have v: "isValidDockerImage ''ghcr.io/org/app:1.2''" by code_simp
  with valid_image_is_one_word [OF v] show ?thesis by simp
qed

text \<open>
  The tokenizer's comment says that quotes are read "the way a shell would". Inside double quotes a
  shell also lets a backslash escape a backslash; the tokenizer does not, so a text that a shell
  reads as one word is refused here.
\<close>

lemma docker_options_backslash_divergence:
  "sh_tokens [DQ, CHR ''a'', BS, BS, DQ] = Some [lit_word [CHR ''a'', BS]] \<and>
   parseDockerOptions [DQ, CHR ''a'', BS, BS, DQ] = Inl ''unclosed quote in the docker options''"
  by (simp add: sh_tokens_def sh_outside_def sh_end_word_def sh_push_def sh_open_def sh_operator_def
    sh_active_def parseDockerOptions_def dk_add_def is_space_def in_range_def code_def)

end
