(* ===== verification/EnvFile.thy ===== *)
theory EnvFile
  imports JsRegex
begin

text \<open>
  The ".env" text an application carries (packages/shared/src/env.ts): parsing, rendering, the
  references to shared variables and the editing of one variable in place; and the redaction of
  secret values from logs (packages/shared/src/redact.ts).

  The regular expressions of the source are read by hand-written recognisers, because their
  groups are used: \<open>parse_line\<close> is \<open>LINE\<close>, \<open>match_ref\<close> is \<open>REFERENCE\<close> at one position,
  \<open>own_line\<close> is the expression built in \<open>setEnvVariable\<close>.
\<close>

section \<open>Data\<close>

datatype EnvAvailability = Runtime | Build | BothTimes

record EnvEntry =
  env_key :: string
  env_value :: string
  env_avail :: EnvAvailability

datatype SharedVariableScope = TeamScope | ProjectScope | EnvironmentScope

record SharedVariableValue =
  sv_scope :: SharedVariableScope
  sv_key :: string
  sv_value :: string

fun scope_str :: "SharedVariableScope \<Rightarrow> string" where
  "scope_str TeamScope = ''team''"
| "scope_str ProjectScope = ''project''"
| "scope_str EnvironmentScope = ''environment''"

definition SHARED_VARIABLE_SCOPES :: "SharedVariableScope list" where
  "SHARED_VARIABLE_SCOPES = [TeamScope, ProjectScope, EnvironmentScope]"

section \<open>Parsing and rendering\<close>

definition key_start :: "char \<Rightarrow> bool" where
  "key_start c \<longleftrightarrow> is_alpha c \<or> c = CHR ''_''"

definition key_char :: "char \<Rightarrow> bool" where
  "key_char c \<longleftrightarrow> is_alnum c \<or> c = CHR ''_''"

definition is_key :: "string \<Rightarrow> bool" where
  "is_key k \<longleftrightarrow> rx_test (RSeq (RCls key_start) (RStar (RCls key_char))) k"

text \<open>The class \<open>.\<close>: anything but a line terminator.\<close>

definition one_line :: "string \<Rightarrow> bool" where
  "one_line s \<longleftrightarrow> LF \<notin> set s \<and> CR \<notin> set s"

definition split_availability :: "string \<Rightarrow> EnvAvailability \<times> string" where
  "split_availability line =
     (if prefix ''build:'' line then (Build, drop 6 line)
      else if prefix ''both:'' line then (BothTimes, drop 5 line)
      else (Runtime, line))"

text \<open>\<open>LINE.exec(line)\<close>: the optional prefix, a key, the first equals sign, the rest of the line.\<close>

definition parse_line :: "string \<Rightarrow> EnvEntry option" where
  "parse_line line =
     (case split_availability line of (a, body) \<Rightarrow>
        case break_at ''='' body of
          None \<Rightarrow> None
        | Some (k, v) \<Rightarrow>
            if is_key k \<and> one_line v then Some \<lparr>env_key = k, env_value = v, env_avail = a\<rparr> else None)"

definition parse_raw :: "string \<Rightarrow> EnvEntry option" where
  "parse_raw raw =
     (let line = trim raw in if line = [] \<or> starts_with line ''#'' then None else parse_line line)"

definition parseEnvContent :: "string \<Rightarrow> EnvEntry list" where
  "parseEnvContent content = List.map_filter parse_raw (split_lines content)"

definition entry_line :: "EnvEntry \<Rightarrow> string" where
  "entry_line e = env_key e @ ''='' @ env_value e"

definition renderRuntimeEnv :: "EnvEntry list \<Rightarrow> string" where
  "renderRuntimeEnv entries =
     (let lines = map entry_line (filter (\<lambda>e. env_avail e \<noteq> Build) entries)
      in if 0 < length lines then join_str [LF] lines @ [LF] else [])"

definition buildTimeEntries :: "EnvEntry list \<Rightarrow> EnvEntry list" where
  "buildTimeEntries entries = filter (\<lambda>e. env_avail e \<noteq> Runtime) entries"

fun avail_prefix :: "EnvAvailability \<Rightarrow> string" where
  "avail_prefix Runtime = []"
| "avail_prefix Build = ''build:''"
| "avail_prefix BothTimes = ''both:''"

definition serializeEnvEntries :: "EnvEntry list \<Rightarrow> string" where
  "serializeEnvEntries entries =
     (let lines = map (\<lambda>e. avail_prefix (env_avail e) @ entry_line e) entries
      in if 0 < length lines then join_str [LF] lines @ [LF] else [])"

section \<open>References to shared variables\<close>

text \<open>\<open>\{\{\s*(team|project|environment)\.(NAME)\s*\}\}\<close> at the start of a text: the scope, the
  name and what follows.\<close>

definition match_scope :: "string \<Rightarrow> (SharedVariableScope \<times> string) option" where
  "match_scope s =
     (if prefix ''team.'' s then Some (TeamScope, drop 5 s)
      else if prefix ''project.'' s then Some (ProjectScope, drop 8 s)
      else if prefix ''environment.'' s then Some (EnvironmentScope, drop 12 s)
      else None)"

definition match_ref :: "string \<Rightarrow> (SharedVariableScope \<times> string \<times> string) option" where
  "match_ref s =
     (if \<not> prefix ''{{'' s then None
      else case match_scope (dropWhile is_space (drop 2 s)) of
        None \<Rightarrow> None
      | Some (sc, t) \<Rightarrow>
          let name = takeWhile key_char t; u = dropWhile is_space (dropWhile key_char t)
          in if name \<noteq> [] \<and> key_start (hd name) \<and> prefix ''}}'' u then Some (sc, name, drop 2 u) else None)"

lemma match_ref_shorter: "match_ref s = Some (sc, name, rest) \<Longrightarrow> length rest < length s"
proof -
  assume m: "match_ref s = Some (sc, name, rest)"
  let ?t = "dropWhile is_space (drop 2 s)"
  from m obtain t where p: "prefix ''{{'' s" and t: "match_scope ?t = Some (sc, t)"
    and rest: "rest = drop 2 (dropWhile is_space (dropWhile key_char t))"
    by (auto simp: match_ref_def Let_def split: if_splits option.splits)
  have "length rest \<le> length t"
    using length_dropWhile_le [of is_space "dropWhile key_char t"] length_dropWhile_le [of key_char t]
    by (simp add: rest)
  also have "length t \<le> length ?t" using t by (auto simp: match_scope_def split: if_splits)
  also have "length ?t \<le> length s - 2" using length_dropWhile_le [of is_space "drop 2 s"] by simp
  finally show ?thesis using prefix_length_le [OF p] by simp
qed

definition ref_key :: "SharedVariableScope \<Rightarrow> string \<Rightarrow> string" where
  "ref_key sc name = scope_str sc @ ''.'' @ name"

text \<open>\<open>value.replace(REFERENCE, ...)\<close>: the new text and the references that were not found, in
  order. What a reference is replaced by is not scanned again.\<close>

function expand_text :: "(string \<Rightarrow> string option) \<Rightarrow> string \<Rightarrow> string \<times> string list" where
  "expand_text lookup s =
     (case match_ref s of
        Some (sc, name, rest) \<Rightarrow>
          (case expand_text lookup rest of (out, miss) \<Rightarrow>
             case lookup (ref_key sc name) of
               Some found \<Rightarrow> (found @ out, miss)
             | None \<Rightarrow> (out, ref_key sc name # miss))
      | None \<Rightarrow>
          (case s of
             [] \<Rightarrow> ([], [])
           | c # cs \<Rightarrow> (case expand_text lookup cs of (out, miss) \<Rightarrow> (c # out, miss))))"
  by pat_completeness auto
termination
  by (relation "measure (\<lambda>(lookup, s). length s)") (auto dest: match_ref_shorter)

declare expand_text.simps [simp del]

definition variable_lookup :: "SharedVariableValue list \<Rightarrow> string \<Rightarrow> string option" where
  "variable_lookup variables =
     map_of (map_of_pairs (map (\<lambda>v. (ref_key (sv_scope v) (sv_key v), sv_value v)) variables))"

definition expand_entry :: "(string \<Rightarrow> string option) \<Rightarrow> EnvEntry \<Rightarrow> EnvEntry" where
  "expand_entry lookup e = e\<lparr>env_value := fst (expand_text lookup (env_value e))\<rparr>"

definition expandReferences ::
  "EnvEntry list \<Rightarrow> SharedVariableValue list \<Rightarrow> EnvEntry list \<times> string list" where
  "expandReferences entries variables =
     (let lookup = variable_lookup variables
      in (map (expand_entry lookup) entries,
          uniq (concat (map (\<lambda>e. snd (expand_text lookup (env_value e))) entries))))"

definition isValidVariableKey :: "string \<Rightarrow> bool" where
  "isValidVariableKey key \<longleftrightarrow> is_key key \<and> length key \<le> 255"

section \<open>Editing one variable\<close>

text \<open>\<open>own.test(line)\<close> for a valid key.\<close>

definition own_line :: "string \<Rightarrow> string \<Rightarrow> bool" where
  "own_line key line =
     (let l = dropWhile is_space line
      in prefix (key @ ''='') l \<or> prefix (''build:'' @ key @ ''='') l \<or> prefix (''both:'' @ key @ ''='') l)"

fun set_loop :: "string \<Rightarrow> string \<Rightarrow> bool \<Rightarrow> string list \<Rightarrow> string list \<times> bool" where
  "set_loop key new_line replaced [] = ([], replaced)"
| "set_loop key new_line replaced (line # lines) =
     (if own_line key line then
        (let rest = set_loop key new_line True lines
         in (if replaced then fst rest else new_line # fst rest, snd rest))
      else (let rest = set_loop key new_line replaced lines in (line # fst rest, snd rest)))"

definition pop_empty :: "string list \<Rightarrow> string list" where
  "pop_empty ls = rev (dropWhile (\<lambda>l. l = []) (rev ls))"

definition setEnvVariable :: "string \<Rightarrow> string \<Rightarrow> string \<Rightarrow> string" where
  "setEnvVariable content key val =
     (let lines = (if content = [] then [] else split_lines content);
          new_line = key @ ''='' @ val;
          (next, replaced) = set_loop key new_line False lines;
          next1 = (if replaced then next else pop_empty next @ [new_line])
      in join_str [LF] (pop_empty next1) @ [LF])"

section \<open>Redaction\<close>

definition REDACTED :: string where "REDACTED = ''***''"

definition MIN_SECRET_LENGTH :: nat where "MIN_SECRET_LENGTH = 6"

definition secretValues :: "string list \<Rightarrow> string list" where
  "secretValues vals =
     sort_by (\<lambda>a b. int (length b) - int (length a))
       (uniq (filter (\<lambda>v. MIN_SECRET_LENGTH \<le> length v) (map trim vals)))"

fun redactSecrets :: "string \<Rightarrow> string list \<Rightarrow> string" where
  "redactSecrets text [] = text"
| "redactSecrets text (secret # secrets) =
     redactSecrets (if includes_str text secret then join_str REDACTED (split_str secret text) else text) secrets"

section \<open>Lemmas on lines and keys\<close>

definition wf_entry :: "EnvEntry \<Rightarrow> bool" where
  "wf_entry e \<longleftrightarrow>
     is_key (env_key e) \<and> one_line (env_value e)
     \<and> (env_value e \<noteq> [] \<longrightarrow> \<not> is_space (last (env_value e)))"

lemma is_key_iff: "is_key k \<longleftrightarrow> (\<exists>c t. k = c # t \<and> key_start c \<and> list_all key_char t)"
  by (auto simp: is_key_def rx_test_accepts list_all_iff)

lemma key_start_char: "key_start c \<Longrightarrow> key_char c"
  by (auto simp: key_start_def key_char_def is_alnum_def)

lemma is_key_chars: "is_key k \<Longrightarrow> c \<in> set k \<Longrightarrow> key_char c"
  by (auto simp: is_key_iff list_all_iff key_start_char)

lemma not_key_char [simp]:
  "\<not> key_char (CHR '':'')" "\<not> key_char (CHR ''='')" "\<not> key_char LF" "\<not> key_char CR"
  "\<not> key_char (CHR ''}'')" "\<not> key_char (CHR ''#'')" "\<not> key_char (CHR ''.'')"
  by (simp_all add: key_char_def char_class_defs)

lemma key_char_not_space: "key_char c \<Longrightarrow> \<not> is_space c"
  by (auto simp: key_char_def char_class_defs)

lemma is_key_no:
  assumes "is_key k"
  shows "CHR '':'' \<notin> set k" "CHR ''='' \<notin> set k" "LF \<notin> set k" "CR \<notin> set k"
  using is_key_chars [OF assms] not_key_char by blast+

lemma is_key_nonempty: "is_key k \<Longrightarrow> k \<noteq> []"
  by (auto simp: is_key_iff)

lemma break_at_char: "c \<notin> set a \<Longrightarrow> break_at [c] (a @ c # b) = Some (a, b)"
  by (induction a) auto

text \<open>The optional availability prefix is recognised in exactly one way.\<close>

lemma prefix_key_absurd:
  "prefix (p @ [CHR '':'']) (k @ CHR ''='' # v) \<Longrightarrow> CHR '':'' \<notin> set k \<Longrightarrow> CHR ''='' \<notin> set p \<Longrightarrow> False"
proof (induction p arbitrary: k)
  case Nil
  then show ?case by (cases k) auto
next
  case (Cons c p)
  then show ?case by (cases k) auto
qed

lemma split_availability_prefix:
  "CHR '':'' \<notin> set k \<Longrightarrow>
    split_availability (avail_prefix a @ k @ CHR ''='' # v) = (a, k @ CHR ''='' # v)"
proof (cases a)
  case Runtime
  moreover assume "CHR '':'' \<notin> set k"
  ultimately show ?thesis
    using prefix_key_absurd [of "''build''" k v] prefix_key_absurd [of "''both''" k v]
    by (auto simp: split_availability_def)
qed (simp_all add: split_availability_def)

lemma split_availability_inverse: "split_availability l = (a, b) \<Longrightarrow> l = avail_prefix a @ b"
  by (auto simp: split_availability_def prefix_def split: if_splits)

lemma parse_line_entry:
  "is_key k \<Longrightarrow> one_line v \<Longrightarrow>
    parse_line (avail_prefix a @ k @ CHR ''='' # v) = Some \<lparr>env_key = k, env_value = v, env_avail = a\<rparr>"
  by (simp add: parse_line_def split_availability_prefix is_key_no break_at_char)

lemma parse_line_Some:
  "parse_line l = Some e \<Longrightarrow>
    l = avail_prefix (env_avail e) @ env_key e @ CHR ''='' # env_value e
    \<and> is_key (env_key e) \<and> one_line (env_value e)"
  by (auto simp: parse_line_def dest!: split_availability_inverse break_at_Some
    split: prod.splits option.splits if_splits)

lemma parse_raw_Nil [simp]: "parse_raw [] = None"
  by (simp add: parse_raw_def trim_def trim_start_def trim_end_def)

lemma entry_line_ends:
  assumes "wf_entry e"
  shows "\<not> is_space (hd (avail_prefix a @ entry_line e))"
    and "\<not> is_space (last (avail_prefix a @ entry_line e))"
    and "\<not> starts_with (avail_prefix a @ entry_line e) ''#''"
proof -
  obtain c t where k: "env_key e = c # t" "key_start c"
    using assms by (auto simp: wf_entry_def is_key_iff)
  have c: "\<not> is_space c" "c \<noteq> CHR ''#''"
    using k key_start_char key_char_not_space not_key_char by blast+
  show "\<not> is_space (hd (avail_prefix a @ entry_line e))"
    using c k by (cases a) (auto simp: entry_line_def char_class_defs)
  show "\<not> is_space (last (avail_prefix a @ entry_line e))"
    using assms by (auto simp: entry_line_def wf_entry_def char_class_defs)
  show "\<not> starts_with (avail_prefix a @ entry_line e) ''#''"
    using c k by (cases a) (auto simp: entry_line_def starts_with_def)
qed

lemma parse_raw_entry:
  assumes "wf_entry e"
  shows "parse_raw (avail_prefix a @ entry_line e) = Some (e\<lparr>env_avail := a\<rparr>)"
proof -
  have ne: "avail_prefix a @ entry_line e \<noteq> []" by (simp add: entry_line_def)
  have "trim (avail_prefix a @ entry_line e) = avail_prefix a @ entry_line e"
    using ne entry_line_ends [OF assms] by (intro trim_ident) auto
  then show ?thesis
    using assms ne entry_line_ends(3) [OF assms, of a]
    by (simp add: parse_raw_def Let_def wf_entry_def entry_line_def parse_line_entry)
qed

lemma map_filter_Cons:
  "List.map_filter f (x # xs) = (case f x of None \<Rightarrow> [] | Some y \<Rightarrow> [y]) @ List.map_filter f xs"
  by (simp add: List.map_filter_def split: option.split)

lemma map_filter_Nil [simp]: "List.map_filter f [] = []"
  by (simp add: List.map_filter_def)

lemma map_filter_append:
  "List.map_filter f (xs @ ys) = List.map_filter f xs @ List.map_filter f ys"
  by (simp add: List.map_filter_def)

lemma map_filter_all: "\<forall>x \<in> set xs. f (g x) = Some (h x) \<Longrightarrow> List.map_filter f (map g xs) = map h xs"
  by (induction xs) (auto simp: map_filter_Cons)

lemma entry_line_one_line: "wf_entry e \<Longrightarrow> one_line (avail_prefix a @ entry_line e)"
  by (cases a) (auto simp: wf_entry_def one_line_def entry_line_def dest: is_key_no)

lemma parse_rendered:
  assumes "\<forall>e \<in> set es. wf_entry e"
  shows "parseEnvContent (if 0 < length (map (\<lambda>e. avail_prefix (f e) @ entry_line e) es)
      then join_str [LF] (map (\<lambda>e. avail_prefix (f e) @ entry_line e) es) @ [LF] else [])
    = map (\<lambda>e. e\<lparr>env_avail := f e\<rparr>) es"
proof (cases "es = []")
  case True
  then show ?thesis by (simp add: parseEnvContent_def map_filter_Cons)
next
  case False
  have "split_lines (join_str [LF] (map (\<lambda>e. avail_prefix (f e) @ entry_line e) es) @ [LF])
      = map (\<lambda>e. avail_prefix (f e) @ entry_line e) es @ [[]]"
    using assms False entry_line_one_line by (intro split_lines_join) (auto simp: one_line_def)
  then show ?thesis using False assms
    by (simp add: parseEnvContent_def map_filter_append map_filter_Cons map_filter_all parse_raw_entry)
qed

section \<open>Lemmas on setEnvVariable\<close>

definition chomp :: "string \<Rightarrow> string" where
  "chomp l = (if l \<noteq> [] \<and> last l = CR then butlast l else l)"

lemma parse_raw_chomp [simp]: "parse_raw (chomp l) = parse_raw l"
proof (cases l rule: rev_cases)
  case (snoc t c)
  then show ?thesis
    using trim_snoc_space [of CR t] by (simp add: chomp_def parse_raw_def char_class_defs)
qed (simp add: chomp_def)

lemma split_lines_chomp: "LF \<notin> set l \<Longrightarrow> split_lines (l @ LF # s) = chomp l # split_lines s"
proof (induction l)
  case (Cons c l)
  then show ?case by (cases l) (auto simp: chomp_def)
qed (simp add: chomp_def)

lemma parse_join:
  "\<forall>l \<in> set ls. LF \<notin> set l \<Longrightarrow> ls \<noteq> [] \<Longrightarrow>
    parseEnvContent (join_str [LF] ls @ [LF]) = List.map_filter parse_raw ls"
proof (induction ls)
  case (Cons l ls)
  have "split_lines (join_str [LF] (l # ls) @ [LF]) =
    chomp l # (if ls = [] then [[]] else split_lines (join_str [LF] ls @ [LF]))"
    using Cons.prems by (cases ls) (auto simp: split_lines_chomp)
  with Cons show ?case
    by (auto simp: parseEnvContent_def map_filter_Cons split: option.splits)
qed simp

lemma map_filter_dropWhile_rev:
  "f [] = None \<Longrightarrow> List.map_filter f (rev (dropWhile (\<lambda>l. l = []) (rev ls))) = List.map_filter f ls"
proof (induction ls rule: rev_induct)
  case (snoc x xs)
  then show ?case by (cases x) (auto simp: map_filter_append map_filter_Cons)
qed simp

lemma map_filter_pop_empty [simp]: "List.map_filter parse_raw (pop_empty ls) = List.map_filter parse_raw ls"
  by (simp add: pop_empty_def map_filter_dropWhile_rev)

lemma own_line_iff:
  "own_line key l \<longleftrightarrow> (\<exists>a w. dropWhile is_space l = avail_prefix a @ key @ CHR ''='' # w)"
proof
  assume "own_line key l"
  then consider "prefix (avail_prefix Runtime @ key @ ''='') (dropWhile is_space l)"
    | "prefix (avail_prefix Build @ key @ ''='') (dropWhile is_space l)"
    | "prefix (avail_prefix BothTimes @ key @ ''='') (dropWhile is_space l)"
    by (auto simp: own_line_def Let_def)
  then have "\<exists>a. prefix (avail_prefix a @ key @ ''='') (dropWhile is_space l)"
    by cases blast+
  then show "\<exists>a w. dropWhile is_space l = avail_prefix a @ key @ CHR ''='' # w"
    by (auto simp: prefix_def)
next
  assume "\<exists>a w. dropWhile is_space l = avail_prefix a @ key @ CHR ''='' # w"
  then obtain a w where "dropWhile is_space l = avail_prefix a @ key @ CHR ''='' # w" by blast
  then show "own_line key l" by (cases a) (auto simp: own_line_def Let_def)
qed

lemma own_line_parse:
  assumes "is_key key" and "parse_raw l = Some e"
  shows "own_line key l \<longleftrightarrow> env_key e = key"
proof -
  have t: "trim l = avail_prefix (env_avail e) @ env_key e @ CHR ''='' # env_value e"
    and k: "is_key (env_key e)"
    using assms(2) by (auto simp: parse_raw_def Let_def dest: parse_line_Some split: if_splits)
  obtain sp where sp: "dropWhile is_space l = trim l @ sp" using trim_split by blast
  have d: "dropWhile is_space l = avail_prefix (env_avail e) @ env_key e @ CHR ''='' # (env_value e @ sp)"
    by (simp add: sp t)
  show ?thesis
  proof
    assume "own_line key l"
    then obtain a w where w: "dropWhile is_space l = avail_prefix a @ key @ CHR ''='' # w"
      by (auto simp: own_line_iff)
    have "(a, key @ CHR ''='' # w) = (env_avail e, env_key e @ CHR ''='' # (env_value e @ sp))"
      using split_availability_prefix [of key a w] split_availability_prefix [of "env_key e" "env_avail e" "env_value e @ sp"]
        assms(1) k w d by (simp add: is_key_no)
    then have "break_at ''='' (key @ CHR ''='' # w) = break_at ''='' (env_key e @ CHR ''='' # (env_value e @ sp))"
      by simp
    then show "env_key e = key" using assms(1) k by (simp add: is_key_no break_at_char)
  next
    assume "env_key e = key"
    with d show "own_line key l" by (auto simp: own_line_iff)
  qed
qed

lemma set_loop_replaced: "snd (set_loop key nl r ls) = (r \<or> list_ex (own_line key) ls)"
  by (induction ls arbitrary: r) (auto simp: Let_def)

lemma set_loop_parse:
  assumes "is_key key" and "parse_raw nl = Some e" and "env_key e = key"
  shows "filter (\<lambda>x. env_key x \<noteq> key) (List.map_filter parse_raw (fst (set_loop key nl r ls)))
      = filter (\<lambda>x. env_key x \<noteq> key) (List.map_filter parse_raw ls)"
    and "filter (\<lambda>x. env_key x = key) (List.map_filter parse_raw (fst (set_loop key nl r ls)))
      = (if \<not> r \<and> list_ex (own_line key) ls then [e] else [])"
  using assms
  by (induction ls arbitrary: r)
    (auto simp: map_filter_Cons own_line_parse Let_def split: option.splits)

lemma set_loop_lines: "x \<in> set (fst (set_loop key nl r ls)) \<Longrightarrow> x = nl \<or> x \<in> set ls"
  by (induction ls arbitrary: r) (auto simp: Let_def split: if_splits)

lemma set_pop_empty: "set (pop_empty ls) \<subseteq> set ls"
  by (auto simp: pop_empty_def dest: set_dropWhileD)

section \<open>Lemmas on expansion\<close>

lemma match_ref_inside:
  assumes "\<not> sublist ''{{'' a" and "a = c # u"
  shows "match_ref (a @ ''{{'' @ x) = None"
proof (cases u)
  case Nil
  have "\<not> is_space (CHR ''{'')" by (simp add: char_class_defs)
  then have "match_scope (dropWhile is_space (CHR ''{'' # x)) = None"
    by (simp add: match_scope_def)
  with Nil show ?thesis
    using assms(2) \<open>\<not> is_space (CHR ''{'')\<close> by (auto simp: match_ref_def)
next
  case (Cons d u')
  then have "\<not> prefix ''{{'' (a @ ''{{'' @ x)"
    using assms by (auto simp: sublist_Cons_right)
  then show ?thesis by (simp add: match_ref_def)
qed

lemma match_ref_none: "\<not> sublist ''{{'' a \<Longrightarrow> match_ref a = None"
  by (auto simp: match_ref_def dest: prefix_imp_sublist)

lemma expand_plain: "\<not> sublist ''{{'' s \<Longrightarrow> expand_text lookup s = (s, [])"
proof (induction s)
  case (Cons c s)
  then have "\<not> sublist ''{{'' s" by (auto simp: sublist_Cons_right)
  with Cons show ?case by (simp add: expand_text.simps [of _ "c # s"] match_ref_none)
qed (simp add: expand_text.simps match_ref_def)

lemma expand_text_step:
  assumes "match_ref s = Some (sc, name, rest)"
  shows "expand_text lookup s =
    (case lookup (ref_key sc name) of
       Some found \<Rightarrow> (found @ fst (expand_text lookup rest), snd (expand_text lookup rest))
     | None \<Rightarrow> (fst (expand_text lookup rest), ref_key sc name # snd (expand_text lookup rest)))"
  using assms by (subst expand_text.simps) (simp split: prod.split option.split)

lemma expand_before:
  "\<not> sublist ''{{'' a \<Longrightarrow>
    expand_text lookup (a @ ''{{'' @ x) =
    (a @ fst (expand_text lookup (''{{'' @ x)), snd (expand_text lookup (''{{'' @ x)))"
proof (induction a)
  case (Cons c a)
  then have a: "\<not> sublist ''{{'' a" by (auto simp: sublist_Cons_right)
  have "match_ref ((c # a) @ ''{{'' @ x) = None"
    using Cons.prems by (rule match_ref_inside) simp
  then have "expand_text lookup ((c # a) @ ''{{'' @ x) =
      (c # fst (expand_text lookup (a @ ''{{'' @ x)), snd (expand_text lookup (a @ ''{{'' @ x)))"
    by (subst expand_text.simps) (simp split: prod.split)
  with Cons.IH [OF a] show ?case by simp
qed simp

lemma match_ref_reference:
  assumes "list_all is_space sp1" and "list_all is_space sp2" and "is_key name"
  shows "match_ref (''{{'' @ sp1 @ ref_key sc name @ sp2 @ ''}}'' @ rest) = Some (sc, name, rest)"
proof -
  have "dropWhile is_space (sp1 @ ref_key sc name @ y) = ref_key sc name @ y" for y
    using assms(1) by (cases sc) (simp_all add: dropWhile_all_append ref_key_def char_class_defs)
  moreover have "match_scope (ref_key sc name @ y) = Some (sc, name @ y)" for y
    by (cases sc) (simp_all add: match_scope_def ref_key_def)
  moreover have nk: "takeWhile key_char (sp2 @ ''}}'' @ rest) = []"
    using assms(2) by (cases sp2) (auto dest: key_char_not_space)
  have all: "list_all key_char name" using is_key_chars [OF assms(3)] by (simp add: list_all_iff)
  then have "takeWhile key_char (name @ sp2 @ ''}}'' @ rest) = name"
    using nk by (simp add: takeWhile_append2 list_all_iff)
  moreover have "dropWhile key_char (name @ sp2 @ ''}}'' @ rest) = sp2 @ ''}}'' @ rest"
    using all nk by (simp add: dropWhile_append2 list_all_iff)
      (metis append.assoc append_Cons append_Nil dropWhile_eq_self_iff takeWhile_eq_Nil_iff)
  moreover have "dropWhile is_space (sp2 @ ''}}'' @ rest) = ''}}'' @ rest"
    using assms(2) by (simp add: dropWhile_all_append char_class_defs)
  moreover have "name \<noteq> []" "key_start (hd name)" using assms(3) by (auto simp: is_key_iff)
  ultimately show ?thesis by (simp add: match_ref_def Let_def)
qed

section \<open>Lemmas on redaction\<close>

lemma sublist_across:
  "sublist s (x @ c # y) \<Longrightarrow> c \<notin> set s \<Longrightarrow> sublist s x \<or> sublist s y"
proof -
  assume s: "sublist s (x @ c # y)" and c: "c \<notin> set s"
  from s consider "sublist s x" | "sublist s (c # y)"
    | s1 s2 where "s = s1 @ s2" "suffix s1 x" "prefix s2 (c # y)"
    by (auto simp: sublist_append)
  then show ?thesis
  proof cases
    case 2
    with c show ?thesis by (cases s) (auto simp: sublist_Cons_right)
  next
    case 3
    with c have "s2 = []" by (cases s2) auto
    with 3 show ?thesis by (auto dest: suffix_imp_sublist)
  qed simp
qed

lemma sublist_stars:
  "CHR ''*'' \<notin> set s \<Longrightarrow> sublist s (x @ REDACTED @ y) \<Longrightarrow> s \<noteq> [] \<Longrightarrow> sublist s x \<or> sublist s y"
proof -
  assume c: "CHR ''*'' \<notin> set s" and "sublist s (x @ REDACTED @ y)" and ne: "s \<noteq> []"
  then have "sublist s x \<or> sublist s (''**'' @ y)"
    using sublist_across [of s x "CHR ''*''" "''**'' @ y"] by (simp add: REDACTED_def)
  then show ?thesis
    using sublist_across [of s "[]" "CHR ''*''" "''*'' @ y"] sublist_across [of s "[]" "CHR ''*''" y] c ne
    by auto
qed

lemma join_keeps_absent:
  "CHR ''*'' \<notin> set s \<Longrightarrow> s \<noteq> [] \<Longrightarrow> \<forall>x \<in> set xs. \<not> sublist s x \<Longrightarrow> \<not> sublist s (join_str REDACTED xs)"
proof (induction xs)
  case (Cons x xs)
  then show ?case
    using sublist_stars [of s x "join_str REDACTED xs"] by (cases xs) auto
qed simp

lemma split_pieces_sublist: "x \<in> set (split_str sep t) \<Longrightarrow> sublist x t"
proof (induction sep t rule: split_str.induct)
  case (1 sep t)
  show ?case
  proof (cases "sep = []")
    case True
    with "1.prems" obtain c where "x = [c]" "c \<in> set t"
      by (auto simp: split_str.simps [of "[]" t])
    then show ?thesis by (auto simp: sublist_def in_set_conv_decomp)
  next
    case False
    show ?thesis
    proof (cases "break_at sep t")
      case None
      with "1.prems" False show ?thesis by (simp add: split_str.simps [of sep t])
    next
      case (Some ab)
      obtain a b where ab: "ab = (a, b)" by force
      with Some have t: "t = a @ sep @ b" by (simp add: break_at_Some)
      from "1.prems" False Some ab have "x = a \<or> x \<in> set (split_str sep b)"
        by (simp add: split_str.simps [of sep t])
      then show ?thesis
      proof
        assume "x \<in> set (split_str sep b)"
        with 1 False Some ab have "sublist x b" by simp
        with t show ?thesis by (simp add: sublist_append)
      qed (simp add: t)
    qed
  qed
qed

lemma redact_keeps_absent:
  "\<not> sublist s t \<Longrightarrow> CHR ''*'' \<notin> set s \<Longrightarrow> s \<noteq> [] \<Longrightarrow> \<not> sublist s (redactSecrets t secrets)"
proof (induction secrets arbitrary: t)
  case (Cons x xs)
  have "\<not> sublist s (join_str REDACTED (split_str x t))"
  proof (rule join_keeps_absent)
    show "\<forall>y \<in> set (split_str x t). \<not> sublist s y"
      using Cons.prems(1) split_pieces_sublist sublist_order.order_trans by blast
  qed (use Cons.prems in simp_all)
  with Cons show ?case by simp
qed simp

lemma redact_removes:
  "s \<in> set secrets \<Longrightarrow> CHR ''*'' \<notin> set s \<Longrightarrow> s \<noteq> [] \<Longrightarrow> \<not> sublist s (redactSecrets t secrets)"
proof (induction secrets arbitrary: t)
  case (Cons x xs)
  show ?case
  proof (cases "s = x")
    case True
    have "\<not> sublist s (join_str REDACTED (split_str s t))"
      using Cons.prems(2,3) split_str_pieces [OF Cons.prems(3)] by (intro join_keeps_absent) auto
    moreover have "\<not> includes_str t s \<Longrightarrow> \<not> sublist s t" by (simp add: includes_str_sublist)
    ultimately have "\<not> sublist s (redactSecrets t (s # xs))"
      using Cons.prems(2,3) by (simp add: redact_keeps_absent)
    with True show ?thesis by simp
  next
    case False
    with Cons show ?thesis by simp
  qed
qed simp

section \<open>Properties\<close>

text \<open>
  C2: Parsing inverts serialising. The table editor's text for any list of well-formed entries
  (a valid name, a one-line value without trailing blanks) is parsed back to the same entries,
  availabilities included.
\<close>

theorem env_roundtrip:
  assumes "\<forall>e \<in> set es. wf_entry e"
  shows "parseEnvContent (serializeEnvEntries es) = es"
  using parse_rendered [OF assms, of env_avail] by (simp add: serializeEnvEntries_def Let_def)

definition env_sample :: "EnvEntry list" where
  "env_sample =
     [\<lparr>env_key = ''A'', env_value = ''1 2'', env_avail = Runtime\<rparr>,
      \<lparr>env_key = ''B_2'', env_value = [], env_avail = Build\<rparr>,
      \<lparr>env_key = ''C'', env_value = ''x=y'', env_avail = BothTimes\<rparr>]"

lemma env_sample_wf: "\<forall>e \<in> set env_sample. wf_entry e"
proof -
  have "list_all wf_entry env_sample" by code_simp
  then show ?thesis by (simp add: list_all_iff)
qed

theorem env_roundtrip_witness:
  "length env_sample = 3 \<and> parseEnvContent (serializeEnvEntries env_sample) = env_sample"
  using env_roundtrip [OF env_sample_wf] by (simp add: env_sample_def)

text \<open>
  The container's env file holds exactly the runtime entries. Parsing what renderRuntimeEnv
  writes gives the entries that are not build-only, in order, as plain runtime variables: a
  build-only value never reaches the running container.
\<close>

theorem runtime_env_excludes_build:
  assumes "\<forall>e \<in> set es. wf_entry e"
  shows "parseEnvContent (renderRuntimeEnv es)
    = map (\<lambda>e. e\<lparr>env_avail := Runtime\<rparr>) (filter (\<lambda>e. env_avail e \<noteq> Build) es)"
proof -
  have "\<forall>e \<in> set (filter (\<lambda>e. env_avail e \<noteq> Build) es). wf_entry e" using assms by simp
  from parse_rendered [OF this, of "\<lambda>_. Runtime"] show ?thesis
    by (simp add: renderRuntimeEnv_def Let_def split: if_splits)
qed

theorem runtime_env_excludes_build_witness:
  "map env_key (parseEnvContent (renderRuntimeEnv env_sample)) = [''A'', ''C'']"
  using runtime_env_excludes_build [OF env_sample_wf] by (simp add: env_sample_def)

text \<open>
  Setting a variable in the raw text. Afterwards the text defines the key exactly once, with
  the new value and at run time, wherever and however often it was defined before; and every
  entry with another key is what it was, in the same order.
\<close>

theorem set_variable_correct:
  assumes "isValidVariableKey key" and "one_line val" and "val \<noteq> [] \<longrightarrow> \<not> is_space (last val)"
  shows "filter (\<lambda>e. env_key e = key) (parseEnvContent (setEnvVariable content key val))
      = [\<lparr>env_key = key, env_value = val, env_avail = Runtime\<rparr>] \<and>
    filter (\<lambda>e. env_key e \<noteq> key) (parseEnvContent (setEnvVariable content key val))
      = filter (\<lambda>e. env_key e \<noteq> key) (parseEnvContent content)"
proof -
  let ?e = "\<lparr>env_key = key, env_value = val, env_avail = Runtime\<rparr>"
  let ?nl = "key @ ''='' @ val"
  let ?lines = "if content = [] then [] else split_lines content"
  let ?next = "fst (set_loop key ?nl False ?lines)"
  let ?final = "if list_ex (own_line key) ?lines then ?next else pop_empty ?next @ [?nl]"
  have k: "is_key key" using assms(1) by (simp add: isValidVariableKey_def)
  have wf: "wf_entry ?e" using assms k by (simp add: wf_entry_def)
  have nl: "parse_raw ?nl = Some ?e"
    using parse_raw_entry [OF wf, of Runtime] by (simp add: entry_line_def)
  have content: "List.map_filter parse_raw ?lines = parseEnvContent content"
    by (simp add: parseEnvContent_def map_filter_Cons)
  have set: "setEnvVariable content key val = join_str [LF] (pop_empty ?final) @ [LF]"
    by (simp add: setEnvVariable_def Let_def set_loop_replaced split: prod.split)
      (metis fst_conv set_loop_replaced snd_conv)
  have nlLF: "LF \<notin> set ?nl"
    using entry_line_one_line [OF wf, of Runtime] by (simp add: entry_line_def one_line_def)
  have noLF: "\<forall>l \<in> set (pop_empty ?final). LF \<notin> set l"
  proof
    fix l assume "l \<in> set (pop_empty ?final)"
    then have "l \<in> set ?final" using set_pop_empty by blast
    then have "l = ?nl \<or> l \<in> set ?lines"
      using set_pop_empty [of ?next] set_loop_lines [of l key ?nl False ?lines]
      by (auto split: if_splits)
    then show "LF \<notin> set l" using nlLF split_lines_no_LF by (auto split: if_splits)
  qed
  have parsed: "parseEnvContent (setEnvVariable content key val) = List.map_filter parse_raw ?final"
  proof (cases "pop_empty ?final = []")
    case True
    then have "List.map_filter parse_raw ?final = []"
      using map_filter_pop_empty [of ?final] by simp
    with True show ?thesis by (simp add: set parseEnvContent_def map_filter_Cons)
  next
    case False
    with noLF show ?thesis by (simp add: set parse_join)
  qed
  show ?thesis
    using set_loop_parse [OF k nl, of False ?lines] content nl
    by (auto simp: parsed map_filter_append map_filter_Cons)
qed

theorem set_variable_correct_witness:
  "filter (\<lambda>e. env_key e = ''PORT'')
     (parseEnvContent (setEnvVariable (''A=1'' @ [LF] @ ''build:PORT=2'' @ [LF]) ''PORT'' ''80''))
   = [\<lparr>env_key = ''PORT'', env_value = ''80'', env_avail = Runtime\<rparr>]"
proof -
  have k: "isValidVariableKey ''PORT''" by code_simp
  have v: "one_line ''80''" by code_simp
  have l: "''80'' \<noteq> [] \<longrightarrow> \<not> is_space (last ''80'')" by code_simp
  show ?thesis using set_variable_correct [OF k v l] by blast
qed

text \<open>
  A reference to a shared variable, with any blanks inside the braces, is replaced by the
  value of the variable it names (the last one defined under that scope and name), or reported
  as missing and replaced by nothing; the text before it is kept and the replacement is not
  scanned again.
\<close>

theorem expand_reference_correct:
  assumes "\<not> includes_str before ''{{''" and "is_key name"
    and "list_all is_space sp1" and "list_all is_space sp2"
  shows "expand_text (variable_lookup vars) (before @ ''{{'' @ sp1 @ ref_key sc name @ sp2 @ ''}}'' @ rest) =
    (let after = expand_text (variable_lookup vars) rest
     in case find (\<lambda>v. ref_key (sv_scope v) (sv_key v) = ref_key sc name) (rev vars) of
          Some v \<Rightarrow> (before @ sv_value v @ fst after, snd after)
        | None \<Rightarrow> (before @ fst after, ref_key sc name # snd after))"
proof -
  have look: "variable_lookup vars k =
      map_option sv_value (find (\<lambda>v. ref_key (sv_scope v) (sv_key v) = k) (rev vars))" for k
  proof -
    have "map_of (map (\<lambda>v. (ref_key (sv_scope v) (sv_key v), sv_value v)) vs) k =
        map_option sv_value (find (\<lambda>v. ref_key (sv_scope v) (sv_key v) = k) vs)" for vs
      by (induction vs) auto
    from this [of "rev vars"] show ?thesis
      by (simp add: variable_lookup_def map_of_map_of_pairs rev_map)
  qed
  have "\<not> sublist ''{{'' before" using assms(1) by (simp add: includes_str_sublist)
  from expand_before [OF this, of "variable_lookup vars" "sp1 @ ref_key sc name @ sp2 @ ''}}'' @ rest"]
    expand_text_step [OF match_ref_reference [OF assms(3,4,2), of sc rest], of "variable_lookup vars"]
  show ?thesis by (simp add: look Let_def split: option.split)
qed

theorem expand_reference_correct_witness:
  "fst (expand_text
     (variable_lookup [\<lparr>sv_scope = TeamScope, sv_key = ''DB'', sv_value = ''pg''\<rparr>])
     ''x={{ team.DB }}'') = ''x=pg''"
proof -
  have a: "\<not> includes_str ''x='' ''{{''" and b: "is_key ''DB''"
    and c: "list_all is_space '' ''" by code_simp+
  show ?thesis
    using expand_reference_correct [OF a b c c, of
        "[\<lparr>sv_scope = TeamScope, sv_key = ''DB'', sv_value = ''pg''\<rparr>]" TeamScope "[]"]
    by (simp add: ref_key_def Let_def expand_plain)
qed



end
