(* ===== verification/Rows.thy ===== *)
theory Rows
  imports Shell EnvFile
begin

text \<open>
  The rows of the database the job handlers work on, with the columns of packages/db/src/schema and
  the enumerations of packages/shared/src/types.ts, and the small helpers of types.ts on them. A
  nullable column is an option; ids and times are strings and milliseconds.
\<close>

section \<open>Enumerations\<close>

datatype BuildPack = Dockerfile | Static | Nixpacks | Railpack | Image | DockerfileInline | DockerCompose

datatype ApplicationStatus = AppIdle | AppDeploying | AppRunning | AppStopped | AppError

datatype DeploymentStatus = DepQueued | DepRunning | DepSuccess | DepFailed

datatype ServerStatus = ServerPending | ServerConnected | ServerError

datatype ProxyStatus = ProxyInactive | ProxyProvisioning | ProxyActive | ProxyError

datatype VolumeKind = NamedVolume | BindVolume | FileVolume | DatabaseVolume

datatype Priority = Critical | Normal | Low

datatype WwwRedirect = NoRedirect | WwwToRoot | RootToWww

datatype GitProvider = Gitlab | Bitbucket | Gitea

datatype DatabaseStatus = DbIdle | DbProvisioning | DbRunning | DbError

datatype ServiceStatus = ServiceIdle | ServiceProvisioning | ServiceRunning | ServiceStopped | ServiceError

datatype BackupExecutionStatus = ExecutionQueued | ExecutionRunning | ExecutionSuccess | ExecutionFailed

datatype PlatformOperationKind = PlatformUpdate | SystemUpdate

datatype PlatformOperationStatus = OpQueued | OpRunning | OpSuccess | OpFailed

datatype TaskExecutionStatus = TaskRunning | TaskSuccess | TaskFailed

datatype DatabaseEngine = PostgreSQL | MySQL | MariaDB | Redis | KeyDB | Dragonfly | MongoDB | ClickHouse | SQLite

datatype VolumeBackupOwner = ApplicationOwner | ServiceOwner

datatype VolumeBackupOperation = BackupOperation | RestoreOperation

datatype NotificationChannelType = Discord | Slack | Telegram | Webhook | Email | Ntfy | Pushover

datatype LogDrainKind = Loki | Axiom | NewRelic | FluentBitHttp | CloudWatch

datatype TeamRole = OwnerRole | AdminRole | MemberRole

datatype TaggableType = TagApplication | TagDatabase | TagService

datatype ApiTokenPermission = ReadToken | FullToken

datatype NotificationLevel = LevelInfo | LevelWarning | LevelError

definition buildPackUsesGit :: "BuildPack \<Rightarrow> bool" where
  "buildPackUsesGit bp \<longleftrightarrow>
    bp = Dockerfile \<or> bp = Static \<or> bp = Nixpacks \<or> bp = Railpack \<or> bp = DockerCompose"

text \<open>The enumerations as the text stored and sent.\<close>

fun app_status_str :: "ApplicationStatus \<Rightarrow> string" where
  "app_status_str AppIdle = ''idle''"
| "app_status_str AppDeploying = ''deploying''"
| "app_status_str AppRunning = ''running''"
| "app_status_str AppStopped = ''stopped''"
| "app_status_str AppError = ''error''"

fun svc_status_str :: "ServiceStatus \<Rightarrow> string" where
  "svc_status_str ServiceIdle = ''idle''"
| "svc_status_str ServiceProvisioning = ''provisioning''"
| "svc_status_str ServiceRunning = ''running''"
| "svc_status_str ServiceStopped = ''stopped''"
| "svc_status_str ServiceError = ''error''"

fun priority_str :: "Priority \<Rightarrow> string" where
  "priority_str Critical = ''critical''"
| "priority_str Normal = ''normal''"
| "priority_str Low = ''low''"

fun engine_str :: "DatabaseEngine \<Rightarrow> string" where
  "engine_str PostgreSQL = ''postgresql''"
| "engine_str MySQL = ''mysql''"
| "engine_str MariaDB = ''mariadb''"
| "engine_str Redis = ''redis''"
| "engine_str KeyDB = ''keydb''"
| "engine_str Dragonfly = ''dragonfly''"
| "engine_str MongoDB = ''mongodb''"
| "engine_str ClickHouse = ''clickhouse''"
| "engine_str SQLite = ''sqlite''"

fun db_status_str :: "DatabaseStatus \<Rightarrow> string" where
  "db_status_str DbIdle = ''idle''"
| "db_status_str DbProvisioning = ''provisioning''"
| "db_status_str DbRunning = ''running''"
| "db_status_str DbError = ''error''"

fun dep_status_str :: "DeploymentStatus \<Rightarrow> string" where
  "dep_status_str DepQueued = ''queued''"
| "dep_status_str DepRunning = ''running''"
| "dep_status_str DepSuccess = ''success''"
| "dep_status_str DepFailed = ''failed''"

fun server_status_str :: "ServerStatus \<Rightarrow> string" where
  "server_status_str ServerPending = ''pending''"
| "server_status_str ServerConnected = ''connected''"
| "server_status_str ServerError = ''error''"

fun proxy_status_str :: "ProxyStatus \<Rightarrow> string" where
  "proxy_status_str ProxyInactive = ''inactive''"
| "proxy_status_str ProxyProvisioning = ''provisioning''"
| "proxy_status_str ProxyActive = ''active''"
| "proxy_status_str ProxyError = ''error''"

fun channel_type_str :: "NotificationChannelType \<Rightarrow> string" where
  "channel_type_str Discord = ''discord''"
| "channel_type_str Slack = ''slack''"
| "channel_type_str Telegram = ''telegram''"
| "channel_type_str Webhook = ''webhook''"
| "channel_type_str Email = ''email''"
| "channel_type_str Ntfy = ''ntfy''"
| "channel_type_str Pushover = ''pushover''"

section \<open>Tables\<close>

record ResourceLimits =
  memoryLimitMb :: "int option"
  cpuLimit :: "decimal option"

record PatchPackage =
  pp_name :: string
  pp_version :: string
  pp_security :: bool
  pp_risky :: bool

text \<open>
  Each table is a record of its columns, and \<open>new_...\<close> is an insert: the columns without a default are
  its arguments.
\<close>

record Application = ResourceLimits +
  app_id :: string
  app_teamId :: string
  app_environmentId :: string
  app_serverId :: string
  app_buildServerId :: "string option"
  app_name :: string
  app_repoUrl :: string
  app_branch :: string
  app_buildPack :: BuildPack
  app_port :: int
  app_envContent :: string
  app_domain :: "string option"
  app_githubInstallationId :: "int option"
  app_githubRepo :: "string option"
  app_dockerImage :: "string option"
  app_dockerfileContent :: "string option"
  app_publishDirectory :: string
  app_staticSpa :: bool
  app_sleepAfterMinutes :: "int option"
  app_basicAuthUser :: "string option"
  app_basicAuthHash :: "string option"
  app_redactEnvInLogs :: bool
  app_maintenanceMode :: bool
  app_maintenanceMessage :: "string option"
  app_preDeployCommand :: "string option"
  app_postDeployCommand :: "string option"
  app_priority :: Priority
  app_shedByGuard :: bool
  app_extraDomains :: "string list"
  app_wwwRedirect :: WwwRedirect
  app_deployedConfig :: "(string \<times> string) list option"
  app_previewEnabled :: bool
  app_previewOfId :: "string option"
  app_prNumber :: "int option"
  app_gitSourceId :: "string option"
  app_gitRepo :: "string option"
  app_registryId :: "string option"
  app_registryImage :: "string option"
  app_composeFile :: string
  app_composeService :: "string option"
  app_deployKey :: "string option"
  app_deployKeyPublic :: "string option"
  app_healthPath :: "string option"
  app_healthIntervalSeconds :: int
  app_healthTimeoutSeconds :: int
  app_healthRetries :: int
  app_healthStartPeriodSeconds :: int
  app_dockerOptions :: string
  app_stopGraceSeconds :: int
  app_rollbackImages :: int
  app_deployTokenHash :: "string option"
  app_status :: ApplicationStatus
  app_createdAt :: int

definition new_application ::
  "string \<Rightarrow> int \<Rightarrow> string \<Rightarrow> string \<Rightarrow> string \<Rightarrow> string \<Rightarrow> string \<Rightarrow> Application" where
  "new_application i now teamId environmentId serverId name repoUrl =
    \<lparr>memoryLimitMb = None, cpuLimit = None, app_id = i, app_teamId = teamId,
     app_environmentId = environmentId, app_serverId = serverId, app_buildServerId = None,
     app_name = name, app_repoUrl = repoUrl, app_branch = ''main'', app_buildPack = Dockerfile,
     app_port = 3000, app_envContent = [], app_domain = None, app_githubInstallationId = None,
     app_githubRepo = None, app_dockerImage = None, app_dockerfileContent = None,
     app_publishDirectory = ''.'', app_staticSpa = False, app_sleepAfterMinutes = None,
     app_basicAuthUser = None, app_basicAuthHash = None, app_redactEnvInLogs = False,
     app_maintenanceMode = False, app_maintenanceMessage = None, app_preDeployCommand = None,
     app_postDeployCommand = None, app_priority = Normal, app_shedByGuard = False, app_extraDomains = [],
     app_wwwRedirect = NoRedirect, app_deployedConfig = None, app_previewEnabled = False,
     app_previewOfId = None, app_prNumber = None, app_gitSourceId = None, app_gitRepo = None,
     app_registryId = None, app_registryImage = None, app_composeFile = ''docker-compose.yml'',
     app_composeService = None, app_deployKey = None, app_deployKeyPublic = None, app_healthPath = None,
     app_healthIntervalSeconds = 30, app_healthTimeoutSeconds = 5, app_healthRetries = 3,
     app_healthStartPeriodSeconds = 30, app_dockerOptions = [], app_stopGraceSeconds = 10,
     app_rollbackImages = 0, app_deployTokenHash = None, app_status = AppIdle, app_createdAt = now\<rparr>"

record Server =
  srv_id :: string
  srv_teamId :: string
  srv_name :: string
  srv_host :: string
  srv_port :: int
  srv_sshUser :: string
  srv_privateKey :: string
  srv_sshKeyId :: "string option"
  srv_sshTimeoutSeconds :: int
  srv_status :: ServerStatus
  srv_dockerVersion :: "string option"
  srv_lastCheckedAt :: "int option"
  srv_wildcardDomain :: "string option"
  srv_acmeEmail :: "string option"
  srv_proxyStatus :: ProxyStatus
  srv_cloudflareTunnelToken :: "string option"
  srv_cloudflareTunnelStatus :: ProxyStatus
  srv_cloudflareTunnelError :: "string option"
  srv_trafficAnalyticsEnabled :: bool
  srv_errorPageEnabled :: bool
  srv_errorPageTitle :: "string option"
  srv_errorPageMessage :: "string option"
  srv_terminalEnabled :: bool
  srv_memoryGuardEnabled :: bool
  srv_memoryGuardThreshold :: int
  srv_memoryGuardRecover :: int
  srv_cpuPercent :: "decimal option"
  srv_memPercent :: "decimal option"
  srv_diskPercent :: "decimal option"
  srv_memTotalMb :: "int option"
  srv_metricsCheckedAt :: "int option"
  srv_metricsEnabled :: bool
  srv_isPlatformHost :: bool
  srv_patchCheckedAt :: "int option"
  srv_patchUpdates :: "int option"
  srv_patchSecurity :: "int option"
  srv_patchRebootRequired :: bool
  srv_patchPackages :: "PatchPackage list option"
  srv_patchNotifiedSecurity :: int
  srv_autoSecurityUpdates :: bool
  srv_createdAt :: int

definition new_server ::
  "string \<Rightarrow> int \<Rightarrow> string \<Rightarrow> string \<Rightarrow> string \<Rightarrow> string \<Rightarrow> Server" where
  "new_server i now teamId name host privateKey =
    \<lparr>srv_id = i, srv_teamId = teamId, srv_name = name, srv_host = host, srv_port = 22,
     srv_sshUser = ''root'', srv_privateKey = privateKey, srv_sshKeyId = None, srv_sshTimeoutSeconds = 15,
     srv_status = ServerPending, srv_dockerVersion = None, srv_lastCheckedAt = None,
     srv_wildcardDomain = None, srv_acmeEmail = None, srv_proxyStatus = ProxyInactive,
     srv_cloudflareTunnelToken = None, srv_cloudflareTunnelStatus = ProxyInactive,
     srv_cloudflareTunnelError = None, srv_trafficAnalyticsEnabled = False, srv_errorPageEnabled = False,
     srv_errorPageTitle = None, srv_errorPageMessage = None, srv_terminalEnabled = True,
     srv_memoryGuardEnabled = False, srv_memoryGuardThreshold = 92, srv_memoryGuardRecover = 80,
     srv_cpuPercent = None, srv_memPercent = None, srv_diskPercent = None, srv_memTotalMb = None,
     srv_metricsCheckedAt = None, srv_metricsEnabled = True, srv_isPlatformHost = False,
     srv_patchCheckedAt = None, srv_patchUpdates = None, srv_patchSecurity = None,
     srv_patchRebootRequired = False, srv_patchPackages = None, srv_patchNotifiedSecurity = 0,
     srv_autoSecurityUpdates = False, srv_createdAt = now\<rparr>"

record Deployment =
  dep_id :: string
  dep_applicationId :: string
  dep_status :: DeploymentStatus
  dep_log :: string
  dep_commitSha :: "string option"
  dep_rollbackImage :: "string option"
  dep_startedAt :: "int option"
  dep_finishedAt :: "int option"
  dep_createdAt :: int

definition new_deployment ::
  "string \<Rightarrow> int \<Rightarrow> string \<Rightarrow> Deployment" where
  "new_deployment i now applicationId =
    \<lparr>dep_id = i, dep_applicationId = applicationId, dep_status = DepQueued, dep_log = [],
     dep_commitSha = None, dep_rollbackImage = None, dep_startedAt = None, dep_finishedAt = None,
     dep_createdAt = now\<rparr>"

record Registry =
  reg_id :: string
  reg_teamId :: string
  reg_name :: string
  reg_host :: string
  reg_username :: string
  reg_password :: string
  reg_createdAt :: int

definition new_registry ::
  "string \<Rightarrow> int \<Rightarrow> string \<Rightarrow> string \<Rightarrow> string \<Rightarrow> string \<Rightarrow> string \<Rightarrow> Registry" where
  "new_registry i now teamId name host username password =
    \<lparr>reg_id = i, reg_teamId = teamId, reg_name = name, reg_host = host, reg_username = username,
     reg_password = password, reg_createdAt = now\<rparr>"

record GitSource =
  gs_id :: string
  gs_teamId :: string
  gs_provider :: GitProvider
  gs_name :: string
  gs_baseUrl :: string
  gs_username :: string
  gs_token :: string
  gs_webhookSecret :: string
  gs_createdAt :: int

definition new_gitSource ::
  "string \<Rightarrow> int \<Rightarrow> string \<Rightarrow> GitProvider \<Rightarrow> string \<Rightarrow> string \<Rightarrow> string \<Rightarrow> string \<Rightarrow> GitSource" where
  "new_gitSource i now teamId provider name baseUrl token webhookSecret =
    \<lparr>gs_id = i, gs_teamId = teamId, gs_provider = provider, gs_name = name, gs_baseUrl = baseUrl,
     gs_username = [], gs_token = token, gs_webhookSecret = webhookSecret, gs_createdAt = now\<rparr>"

record ApplicationVolume =
  vol_id :: string
  vol_applicationId :: string
  vol_name :: string
  vol_mountPath :: string
  vol_kind :: VolumeKind
  vol_hostPath :: "string option"
  vol_fileContent :: "string option"
  vol_createdAt :: int

definition new_applicationVolume ::
  "string \<Rightarrow> int \<Rightarrow> string \<Rightarrow> string \<Rightarrow> string \<Rightarrow> ApplicationVolume" where
  "new_applicationVolume i now applicationId name mountPath =
    \<lparr>vol_id = i, vol_applicationId = applicationId, vol_name = name, vol_mountPath = mountPath,
     vol_kind = NamedVolume, vol_hostPath = None, vol_fileContent = None, vol_createdAt = now\<rparr>"

record SharedVariable =
  shv_id :: string
  shv_teamId :: string
  shv_scope :: SharedVariableScope
  shv_projectId :: "string option"
  shv_environmentId :: "string option"
  shv_key :: string
  shv_value :: string
  shv_createdAt :: int

definition new_sharedVariable ::
  "string \<Rightarrow> int \<Rightarrow> string \<Rightarrow> SharedVariableScope \<Rightarrow> string \<Rightarrow> string \<Rightarrow> SharedVariable" where
  "new_sharedVariable i now teamId scope key value =
    \<lparr>shv_id = i, shv_teamId = teamId, shv_scope = scope, shv_projectId = None, shv_environmentId = None,
     shv_key = key, shv_value = value, shv_createdAt = now\<rparr>"

record Environment =
  envt_id :: string
  envt_projectId :: string
  envt_name :: string
  envt_createdAt :: int

definition new_environment ::
  "string \<Rightarrow> int \<Rightarrow> string \<Rightarrow> string \<Rightarrow> Environment" where
  "new_environment i now projectId name =
    \<lparr>envt_id = i, envt_projectId = projectId, envt_name = name, envt_createdAt = now\<rparr>"


section \<open>Docker flags of limits and volumes\<close>

definition LOG_ROTATION_FLAGS :: string where
  "LOG_ROTATION_FLAGS = ''--log-opt max-size=10m --log-opt max-file=3 ''"

definition limit_flags :: "('a) ResourceLimits_scheme \<Rightarrow> string list" where
  "limit_flags limits =
    (case memoryLimitMb limits of
       Some mb \<Rightarrow> if mb \<noteq> 0 then [''--memory='' @ int_str mb @ ''m''] else [] | None \<Rightarrow> []) @
    (case cpuLimit limits of
       Some cpu \<Rightarrow> if decimal_nonzero cpu then [''--cpus='' @ decimal_str cpu] else [] | None \<Rightarrow> [])"

definition resourceLimitFlags :: "('a) ResourceLimits_scheme \<Rightarrow> string" where
  "resourceLimitFlags limits =
    (let flags = limit_flags limits in if flags = [] then [] else join_str '' '' flags @ '' '')"

definition volumeFilePath :: "string \<Rightarrow> string \<Rightarrow> string" where
  "volumeFilePath applicationId volumeId = ''/opt/yeah-apps/'' @ applicationId @ ''/files/'' @ volumeId"

definition volumeName :: "string \<Rightarrow> string" where
  "volumeName volumeId = ''yeah-vol-'' @ volumeId"

definition volume_source :: "string option \<Rightarrow> ApplicationVolume \<Rightarrow> string" where
  "volume_source applicationId v =
    (if vol_kind v = DatabaseVolume \<and> str_truthy (vol_hostPath v) then the (vol_hostPath v)
     else if vol_kind v = BindVolume \<and> str_truthy (vol_hostPath v) then the (vol_hostPath v)
     else if vol_kind v = FileVolume \<and> str_truthy applicationId
       then volumeFilePath (the applicationId) (vol_id v)
     else volumeName (vol_id v))"

definition volumeFlags :: "ApplicationVolume list \<Rightarrow> string option \<Rightarrow> string" where
  "volumeFlags volumes applicationId =
    (if volumes = [] then []
     else concat (map (\<lambda>v. ''-v '' @ shellQuote (volume_source applicationId v) @ '':'' @
                            shellQuote (vol_mountPath v) @ '' '') volumes))"

end
