(* ===== verification/Traefik.thy ===== *)
theory Traefik
  imports Rows
begin

text \<open>
  Routing of hostnames through the Traefik proxy: packages/shared/src/constants.ts and traefik.ts
  (the other parts of the proxy are in ProxyPages).

  The generated labels and YAML are text; the lemmas read it back. \<open>read_rule\<close> is the grammar of a
  Traefik rule that is a disjunction of \<open>Host\<close> matchers, \<open>re_literal\<close> the grammar of a regular
  expression that is a literal; both are specifications, not code of the program.
\<close>

section \<open>Constants\<close>

definition DEFAULT_CLEANUP_CRON :: string where
  "DEFAULT_CLEANUP_CRON = ''0 4 * * *''"

definition PROXY_NETWORK_NAME :: string where
  "PROXY_NETWORK_NAME = ''yeah-proxy-net''"

definition PROXY_CONTAINER_NAME :: string where
  "PROXY_CONTAINER_NAME = ''yeah-proxy''"

definition PROXY_DIR :: string where
  "PROXY_DIR = ''/opt/yeah-proxy''"

definition WAKER_CONTAINER_NAME :: string where
  "WAKER_CONTAINER_NAME = ''yeah-waker''"

definition WAKER_PORT :: int where
  "WAKER_PORT = 8080"

definition MIN_SLEEP_MINUTES :: int where
  "MIN_SLEEP_MINUTES = 1"

definition MAX_SLEEP_MINUTES :: int where
  "MAX_SLEEP_MINUTES = 43200"

definition buildProxyRestartCommand :: string where
  "buildProxyRestartCommand = ''docker restart '' @ [SQ] @ PROXY_CONTAINER_NAME @ [SQ]"

definition buildProxyLogsCommand :: "int \<Rightarrow> string" where
  "buildProxyLogsCommand tail =
    ''docker logs --tail '' @ int_str (max 1 tail) @ '' '' @ [SQ] @ PROXY_CONTAINER_NAME @ [SQ] @ '' 2>&1''"

definition buildProxyIsRunningCommand :: string where
  "buildProxyIsRunningCommand =
    ''docker inspect -f '' @ [SQ] @ ''{{.State.Running}}'' @ [SQ] @ '' '' @ [SQ] @ PROXY_CONTAINER_NAME @ [SQ] @
    '' 2>/dev/null || true''"

section \<open>Hostnames\<close>

definition host_alnum :: "char \<Rightarrow> bool" where
  "host_alnum c \<longleftrightarrow> is_lower c \<or> is_digit c"

definition host_char :: "char \<Rightarrow> bool" where
  "host_char c \<longleftrightarrow> host_alnum c \<or> c = CHR ''-''"

text \<open>\<open>HOSTNAME\<close>; its lookahead only bounds the length, since no host character is a line terminator.\<close>

definition HOSTNAME :: rx where
  "HOSTNAME =
    RSeq (rx_plus (RSeq (RCls host_alnum)
           (RSeq (rx_opt (RSeq (rx_upto 61 (RCls host_char)) (RCls host_alnum))) (rx_lit ''.''))))
         (rx_between 2 63 (RCls is_lower))"

definition isValidHostname :: "string \<Rightarrow> bool" where
  "isValidHostname host \<longleftrightarrow> 1 \<le> length host \<and> length host \<le> 253 \<and> rx_test HOSTNAME host"

definition strip_scheme :: "string \<Rightarrow> string" where
  "strip_scheme s =
    (let r = dropWhile is_lower s
     in if takeWhile is_lower s \<noteq> [] \<and> starts_with r ''://'' then drop 3 r else s)"

text \<open>\<open>replace(/[/?#].*$/, "")\<close>: the dot does not match a line terminator.\<close>

fun cut_path :: "string \<Rightarrow> string" where
  "cut_path [] = []"
| "cut_path (c # s) =
    (if c \<in> {CHR ''/'', CHR ''?'', CHR ''#''} \<and> LF \<notin> set s \<and> CR \<notin> set s then [] else c # cut_path s)"

definition strip_dot :: "string \<Rightarrow> string" where
  "strip_dot s = (if ends_with s ''.'' then butlast s else s)"

definition normalizeHost :: "string \<Rightarrow> string" where
  "normalizeHost input = strip_dot (cut_path (strip_scheme (to_lower (trim input))))"

section \<open>Routing\<close>

record Routing =
  hosts :: "string list"
  canonical :: string
  redirectFrom :: "string option"

definition strip_www :: "string \<Rightarrow> string" where
  "strip_www s = strip_prefix ''www.'' s"

definition computeRouting :: "string \<Rightarrow> string list \<Rightarrow> WwwRedirect \<Rightarrow> Routing" where
  "computeRouting primary extras redirect =
    (let base = strip_www primary;
         can = (case redirect of WwwToRoot \<Rightarrow> base | RootToWww \<Rightarrow> ''www.'' @ base | NoRedirect \<Rightarrow> primary);
         from = (case redirect of WwwToRoot \<Rightarrow> Some (''www.'' @ base) | RootToWww \<Rightarrow> Some base
                 | NoRedirect \<Rightarrow> None)
     in \<lparr>hosts = uniq (can # filter (\<lambda>e. Some e \<noteq> from) extras), canonical = can, redirectFrom = from\<rparr>)"

definition regex_special :: "char \<Rightarrow> bool" where
  "regex_special c \<longleftrightarrow> c \<in> set (''.*+?^${}()|[]'' @ [BS])"

definition regexEscape :: "string \<Rightarrow> string" where
  "regexEscape s = concat (map (\<lambda>c. if regex_special c then [BS, c] else [c]) s)"

definition host_matcher :: "string \<Rightarrow> string" where
  "host_matcher h = ''Host(`'' @ h @ ''`)''"

definition host_rule :: "string list \<Rightarrow> string" where
  "host_rule hs = join_str '' || '' (map host_matcher hs)"

definition redirect_labels :: "string \<Rightarrow> Routing \<Rightarrow> string \<Rightarrow> string list" where
  "redirect_labels name routing from =
    (let r = name @ ''-redir'' in
     [''traefik.http.routers.'' @ r @ ''.rule='' @ host_matcher from,
      ''traefik.http.routers.'' @ r @ ''.entrypoints=websecure'',
      ''traefik.http.routers.'' @ r @ ''.tls.certresolver=letsencrypt'',
      ''traefik.http.routers.'' @ r @ ''.service='' @ name,
      ''traefik.http.routers.'' @ r @ ''.middlewares='' @ r,
      ''traefik.http.middlewares.'' @ r @ ''.redirectregex.regex=^https?://'' @ regexEscape from @ ''/(.*)'',
      ''traefik.http.middlewares.'' @ r @ ''.redirectregex.replacement=https://'' @ canonical routing @ ''/${1}'',
      ''traefik.http.middlewares.'' @ r @ ''.redirectregex.permanent=true''])"

definition traefikLabels :: "string \<Rightarrow> Routing \<Rightarrow> int \<Rightarrow> string list" where
  "traefikLabels name routing port =
    [''traefik.enable=true'',
     ''traefik.docker.network='' @ PROXY_NETWORK_NAME,
     ''traefik.http.routers.'' @ name @ ''.rule='' @ host_rule (hosts routing),
     ''traefik.http.routers.'' @ name @ ''.entrypoints=websecure'',
     ''traefik.http.routers.'' @ name @ ''.tls.certresolver=letsencrypt'',
     ''traefik.http.services.'' @ name @ ''.loadbalancer.server.port='' @ int_str port] @
    (case redirectFrom routing of
       Some from \<Rightarrow> if from \<noteq> [] then redirect_labels name routing from else []
     | None \<Rightarrow> [])"

record BasicAuth =
  ba_user :: string
  ba_hash :: string

record DynamicConfigOptions =
  backendUrl :: "string option"
  basicAuth :: "BasicAuth option"

definition htpasswdHash :: "string \<Rightarrow> string" where
  "htpasswdHash h =
    (if starts_with h ''$2a$'' \<or> starts_with h ''$2b$'' \<or> starts_with h ''$2x$'' then ''$2y$'' @ drop 4 h else h)"

definition router_lines :: "string \<Rightarrow> Routing \<Rightarrow> DynamicConfigOptions \<Rightarrow> string list" where
  "router_lines name routing opts =
    [''http:'', ''  routers:'', ''    '' @ name @ '':'',
     ''      rule: \"'' @ host_rule (hosts routing) @ ''\"'',
     ''      entryPoints:'', ''        - websecure'', ''      tls:'', ''        certResolver: letsencrypt'',
     ''      service: '' @ name] @
    (if basicAuth opts \<noteq> None then [''      middlewares:'', ''        - '' @ name @ ''-auth''] else []) @
    [''      priority: 1000'']"

definition redirect_router_lines :: "string \<Rightarrow> string \<Rightarrow> string list" where
  "redirect_router_lines name from =
    (let r = name @ ''-redir'' in
     [''    '' @ r @ '':'', ''      rule: \"'' @ host_matcher from @ ''\"'',
      ''      entryPoints:'', ''        - websecure'', ''      tls:'', ''        certResolver: letsencrypt'',
      ''      service: '' @ name, ''      middlewares:'', ''        - '' @ r, ''      priority: 1000''])"

definition service_lines :: "string \<Rightarrow> int \<Rightarrow> DynamicConfigOptions \<Rightarrow> string list" where
  "service_lines name port opts =
    [''  services:'', ''    '' @ name @ '':'', ''      loadBalancer:'', ''        servers:'',
     ''          - url: \"'' @ default (''http://'' @ name @ '':'' @ int_str port) (backendUrl opts) @ ''\"'']"

definition middleware_lines :: "string \<Rightarrow> Routing \<Rightarrow> DynamicConfigOptions \<Rightarrow> string list" where
  "middleware_lines name routing opts =
    (case basicAuth opts of
       Some a \<Rightarrow> [''    '' @ name @ ''-auth:'', ''      basicAuth:'', ''        removeHeader: true'', ''        users:'',
                 ''          - \"'' @ ba_user a @ '':'' @ htpasswdHash (ba_hash a) @ ''\"'']
     | None \<Rightarrow> []) @
    (case redirectFrom routing of
       Some from \<Rightarrow>
         if from \<noteq> [] then
           [''    '' @ name @ ''-redir:'', ''      redirectRegex:'',
            ''        regex: \"^https?://'' @ regexEscape from @ ''/(.*)\"'',
            ''        replacement: \"https://'' @ canonical routing @ ''/${1}\"'',
            ''        permanent: true'']
         else []
     | None \<Rightarrow> [])"

definition dynamic_lines :: "string \<Rightarrow> Routing \<Rightarrow> int \<Rightarrow> DynamicConfigOptions \<Rightarrow> string list" where
  "dynamic_lines name routing port opts =
    (let middlewares = middleware_lines name routing opts in
     router_lines name routing opts @
     (case redirectFrom routing of
        Some from \<Rightarrow> if from \<noteq> [] then redirect_router_lines name from else []
      | None \<Rightarrow> []) @
     service_lines name port opts @
     (if middlewares \<noteq> [] then ''  middlewares:'' # middlewares else []))"

definition traefikDynamicConfig :: "string \<Rightarrow> Routing \<Rightarrow> int \<Rightarrow> DynamicConfigOptions \<Rightarrow> string" where
  "traefikDynamicConfig name routing port opts =
    join_str [LF] (dynamic_lines name routing port opts) @ [LF]"

section \<open>Reading the generated text back\<close>

text \<open>A Traefik rule that is a disjunction of \<open>Host\<close> matchers, with the hostnames it matches.\<close>

function read_rule :: "string \<Rightarrow> string list option" where
  "read_rule s =
    (if starts_with s ''Host(`'' then
       let body = drop 6 s; h = takeWhile (\<lambda>c. c \<noteq> BQ) body; rest = drop (length h) body
       in if rest = ''`)'' then Some [h]
          else if starts_with rest ''`) || '' then map_option (Cons h) (read_rule (drop 6 rest))
          else None
     else None)"
  by pat_completeness auto

termination
  by (relation "measure length") (auto simp: starts_with_def Let_def dest!: prefix_length_le)

declare read_rule.simps [simp del]

lemma starts_with_append [simp]: "starts_with (p @ s) p"
  by (simp add: starts_with_def)

lemma starts_with_Cons [simp]: "starts_with (c # s) (d # p) = (c = d \<and> starts_with s p)"
  by (auto simp: starts_with_def)

lemma starts_with_Nil [simp]: "starts_with s []" "starts_with [] (c # p) = False"
  by (simp_all add: starts_with_def)

lemma takeWhile_until: "c \<notin> set h \<Longrightarrow> takeWhile (\<lambda>x. x \<noteq> c) (h @ c # s) = h"
  by (metis (mono_tags, lifting) takeWhile_append2 takeWhile.simps(2) append_Nil2)

lemma read_rule_one: "BQ \<notin> set h \<Longrightarrow> read_rule (''Host(`'' @ h @ ''`)'') = Some [h]"
  by (subst read_rule.simps) (simp add: takeWhile_until)

lemma read_rule_more:
  "BQ \<notin> set h \<Longrightarrow> read_rule (''Host(`'' @ h @ ''`) || '' @ s) = map_option (Cons h) (read_rule s)"
  by (subst read_rule.simps) (simp add: takeWhile_until)

lemma read_host_rule:
  assumes "hs \<noteq> []" and "\<forall>h \<in> set hs. BQ \<notin> set h"
  shows "read_rule (host_rule hs) = Some hs"
  using assms
proof (induction hs)
  case (Cons h hs)
  show ?case
  proof (cases hs)
    case Nil
    with Cons.prems show ?thesis by (simp add: host_rule_def host_matcher_def read_rule_one [simplified])
  next
    case (Cons h' hs')
    then have "host_rule (h # hs) = ''Host(`'' @ h @ ''`) || '' @ host_rule hs"
      by (simp add: host_rule_def host_matcher_def)
    with Cons.prems Cons.IH \<open>hs = h' # hs'\<close> show ?thesis
      by (simp add: read_rule_more [simplified])
  qed
qed simp

text \<open>The characters of an accepted hostname, and what normalisation leaves of one.\<close>

lemma valid_hostname_chars:
  assumes "isValidHostname h" and "c \<in> set h"
  shows "host_char c \<or> c = CHR ''.''"
proof -
  have "rx_within (\<lambda>c. host_char c \<or> c = CHR ''.'') HOSTNAME"
    by (simp add: HOSTNAME_def rx_within_between host_char_def host_alnum_def)
  with assms show ?thesis
    by (auto simp: isValidHostname_def dest: rx_test_within)
qed

lemma valid_hostname_absent:
  assumes "isValidHostname h" and "\<not> (host_char c \<or> c = CHR ''.'')"
  shows "c \<notin> set h"
  using valid_hostname_chars [OF assms(1)] assms(2) by blast

lemma dropWhile_none: "\<forall>c \<in> set s. \<not> P c \<Longrightarrow> dropWhile P s = s"
  by (cases s) auto

lemma trim_id: "\<forall>c \<in> set s. \<not> is_space c \<Longrightarrow> trim s = s"
  by (simp add: trim_def trim_start_def trim_end_def dropWhile_none)

lemma to_lower_id: "\<forall>c \<in> set s. char_lower c = c \<Longrightarrow> to_lower s = s"
  by (auto simp: to_lower_def intro: map_idI)

lemma cut_path_id: "CHR ''/'' \<notin> set s \<Longrightarrow> CHR ''?'' \<notin> set s \<Longrightarrow> CHR ''#'' \<notin> set s \<Longrightarrow> cut_path s = s"
  by (induction s) auto

lemma strip_scheme_id:
  assumes "CHR '':'' \<notin> set s"
  shows "strip_scheme s = s"
proof -
  have "CHR '':'' \<notin> set (dropWhile is_lower s)"
    using assms by (meson set_dropWhileD)
  then have "\<not> starts_with (dropWhile is_lower s) ''://''"
    by (auto simp: starts_with_def prefix_def)
  then show ?thesis
    by (simp add: strip_scheme_def Let_def)
qed

lemma host_char_facts:
  assumes "host_char c \<or> c = CHR ''.''"
  shows "\<not> is_space c" and "char_lower c = c" and "c \<notin> {CHR ''/'', CHR ''?'', CHR ''#'', CHR '':'', BQ, LF, CR, DQ, BS}"
  using assms by (auto simp: host_char_def host_alnum_def char_lower_def char_class_defs)

lemma valid_hostname_last:
  assumes "isValidHostname h"
  shows "\<not> ends_with h ''.''"
proof -
  from assms have "accepts HOSTNAME h"
    by (simp add: isValidHostname_def rx_test_accepts)
  then obtain a b where "h = a @ b" "2 \<le> length b" "\<forall>c \<in> set b. is_lower c"
    by (auto simp: HOSTNAME_def accepts_RSeq)
  then have "h = a @ b" "b \<noteq> []" "\<forall>c \<in> set b. is_lower c"
    by auto
  then show ?thesis
    by (auto simp: ends_with_suffix suffix_def append_eq_append_conv2 append_eq_Cons_conv char_class_defs)
qed

lemma normalize_valid_host:
  assumes "isValidHostname h"
  shows "normalizeHost h = h"
proof -
  have facts: "\<not> is_space c" "char_lower c = c" "c \<notin> {CHR ''/'', CHR ''?'', CHR ''#'', CHR '':'', BQ, LF, CR, DQ, BS}"
    if "c \<in> set h" for c
    using host_char_facts [OF valid_hostname_chars [OF assms that]] by auto
  have "trim h = h" "to_lower h = h"
    using facts(1, 2) by (auto intro: trim_id to_lower_id)
  moreover have "strip_scheme h = h" "cut_path h = h"
    using facts(3) by (force intro: strip_scheme_id, force intro: cut_path_id)
  ultimately show ?thesis
    using valid_hostname_last [OF assms] by (simp add: normalizeHost_def strip_dot_def)
qed

text \<open>
  The routers (name and hostnames) that the Docker provider sees in a list of labels, and those the
  File Provider sees in the lines of a configuration file.
\<close>

definition label_router :: "string \<Rightarrow> (string \<times> string list) option" where
  "label_router label =
    (if starts_with label ''traefik.http.routers.'' then
       let rest = drop 21 label;
           router = takeWhile (\<lambda>c. c \<noteq> CHR ''.'') rest;
           attr = drop (length router) rest
       in if starts_with attr ''.rule='' then map_option (Pair router) (read_rule (drop 6 attr)) else None
     else None)"

definition routers_of_labels :: "string list \<Rightarrow> (string \<times> string list) list" where
  "routers_of_labels labels = List.map_filter label_router labels"

fun routers_of_lines :: "string \<Rightarrow> string list \<Rightarrow> (string \<times> string list) list" where
  "routers_of_lines key [] = []"
| "routers_of_lines key (l # ls) =
    (if starts_with l ''      rule: \"'' then
       (case read_rule (butlast (drop 13 l)) of
          Some hs \<Rightarrow> (key, hs) # routers_of_lines key ls
        | None \<Rightarrow> routers_of_lines key ls)
     else if starts_with l ''    '' \<and> \<not> starts_with l ''     '' then
       routers_of_lines (butlast (drop 4 l)) ls
     else routers_of_lines key ls)"

definition routers_of_file :: "string \<Rightarrow> (string \<times> string list) list" where
  "routers_of_file config = routers_of_lines [] (split_str [LF] config)"

definition plain_name :: "string \<Rightarrow> bool" where
  "plain_name name \<longleftrightarrow> name \<noteq> [] \<and> (\<forall>c \<in> set name. is_alnum c \<or> c = CHR ''-'')"

definition valid_routing :: "Routing \<Rightarrow> bool" where
  "valid_routing routing \<longleftrightarrow> hosts routing \<noteq> [] \<and> (\<forall>h \<in> set (hosts routing). isValidHostname h) \<and>
    isValidHostname (canonical routing) \<and>
    (case redirectFrom routing of None \<Rightarrow> True | Some from \<Rightarrow> isValidHostname from)"

definition declared_routers :: "string \<Rightarrow> Routing \<Rightarrow> (string \<times> string list) list" where
  "declared_routers name routing =
    (name, hosts routing) #
    (case redirectFrom routing of None \<Rightarrow> [] | Some from \<Rightarrow> [(name @ ''-redir'', [from])])"

lemma plain_name_absent:
  assumes "plain_name name" and "\<not> (is_alnum c \<or> c = CHR ''-'')"
  shows "c \<notin> set name"
  using assms by (auto simp: plain_name_def)

lemma plain_name_redir: "plain_name name \<Longrightarrow> plain_name (name @ ''-redir'')"
  by (auto simp: plain_name_def char_class_defs)

lemma valid_hostname_nonempty: "isValidHostname h \<Longrightarrow> h \<noteq> []"
  by (auto simp: isValidHostname_def)

lemma valid_hostname_no_BQ: "isValidHostname h \<Longrightarrow> BQ \<notin> set h"
  by (rule valid_hostname_absent) (simp_all add: host_char_def host_alnum_def char_class_defs)

lemma read_valid_rule:
  assumes "hs \<noteq> []" and "\<forall>h \<in> set hs. isValidHostname h"
  shows "read_rule (host_rule hs) = Some hs"
  using assms by (simp add: read_host_rule valid_hostname_no_BQ)

lemma read_valid_matcher: "isValidHostname h \<Longrightarrow> read_rule (host_matcher h) = Some [h]"
  using read_valid_rule [of "[h]"] by (simp add: host_rule_def)

lemma takeWhile_plain:
  assumes "plain_name name"
  shows "takeWhile (\<lambda>c. c \<noteq> CHR ''.'') (name @ CHR ''.'' # s) = name"
  using plain_name_absent [OF assms, of "CHR ''.''"] by (simp add: takeWhile_until char_class_defs)

lemma label_router_attr:
  assumes "plain_name name"
  shows "label_router (''traefik.http.routers.'' @ name @ ''.'' @ attr) =
    (if starts_with attr ''rule='' then map_option (Pair name) (read_rule (drop 5 attr)) else None)"
  using assms by (simp add: label_router_def takeWhile_plain)

lemma label_router_other:
  "label_router (''traefik.http.services.'' @ s) = None"
  "label_router (''traefik.http.middlewares.'' @ s) = None"
  "label_router (''traefik.enable=true'') = None"
  "label_router (''traefik.docker.network='' @ s) = None"
  by (simp_all add: label_router_def)

lemma routers_of_labels_simps [simp]:
  "routers_of_labels [] = []"
  "routers_of_labels (l # ls) =
    (case label_router l of None \<Rightarrow> routers_of_labels ls | Some r \<Rightarrow> r # routers_of_labels ls)"
  "routers_of_labels (xs @ ys) = routers_of_labels xs @ routers_of_labels ys"
  by (simp_all add: routers_of_labels_def List.map_filter_def split: option.splits)

lemmas label_router_simps = label_router_attr [simplified] label_router_other [simplified]

lemma routers_of_redirect_labels:
  assumes "plain_name name" and "isValidHostname from"
  shows "routers_of_labels (redirect_labels name routing from) = [(name @ ''-redir'', [from])]"
  using label_router_attr [OF plain_name_redir [OF assms(1)], simplified] read_valid_matcher [OF assms(2)]
  by (simp add: redirect_labels_def label_router_simps)

lemma routers_of_traefikLabels:
  assumes "plain_name name" and "valid_routing routing"
  shows "routers_of_labels (traefikLabels name routing port) = declared_routers name routing"
  using assms read_valid_rule [of "hosts routing"]
  by (auto simp: traefikLabels_def declared_routers_def valid_routing_def label_router_simps
      routers_of_redirect_labels valid_hostname_nonempty split: option.splits)

lemma routers_of_lines_append_quiet:
  assumes "\<forall>l \<in> set ls. \<not> starts_with l ''      rule: \"''"
  shows "routers_of_lines key ls = []"
  using assms by (induction ls arbitrary: key) auto

lemma routers_of_lines_key:
  assumes "plain_name name"
  shows "routers_of_lines key ((''    '' @ name @ '':'') # ls) = routers_of_lines name ls"
  using plain_name_absent [OF assms, of "CHR '' ''"] assms
  by (cases name) (auto simp: char_class_defs plain_name_def)

lemma routers_of_lines_rule:
  assumes "read_rule r = Some hs"
  shows "routers_of_lines key ((''      rule: \"'' @ r @ ''\"'') # ls) = (key, hs) # routers_of_lines key ls"
  using assms by (simp add: butlast_append)

lemma routers_of_lines_top: "routers_of_lines key (''http:'' # ls) = routers_of_lines key ls"
  by simp

lemma routers_of_lines_section:
  "c \<noteq> CHR '' '' \<Longrightarrow>
   routers_of_lines key ((CHR '' '' # CHR '' '' # c # s) # ls) = routers_of_lines key ls"
  by simp

lemma routers_of_lines_deep:
  "c \<noteq> CHR ''r'' \<Longrightarrow>
   routers_of_lines key ((CHR '' '' # CHR '' '' # CHR '' '' # CHR '' '' # CHR '' '' # CHR '' '' # c # s) # ls) =
   routers_of_lines key ls"
  by simp

declare routers_of_lines.simps(2) [simp del]

lemmas routers_of_lines_simps =
  routers_of_lines_key [simplified] routers_of_lines_rule [simplified] routers_of_lines_top
  routers_of_lines_section routers_of_lines_deep

lemma quiet_service_lines:
  "l \<in> set (service_lines name port opts) \<union> set (middleware_lines name routing opts) \<Longrightarrow>
   \<not> starts_with l ''      rule: \"''" if "plain_name name" for l
  using plain_name_absent [OF that, of "CHR '' ''"] that
  by (cases name) (auto simp: service_lines_def middleware_lines_def plain_name_def char_class_defs
      split: option.splits if_splits)

lemma routers_of_router_lines:
  assumes "plain_name name" and "read_rule (host_rule (hosts routing)) = Some hs"
  shows "routers_of_lines key (router_lines name routing opts @ ls) = (name, hs) # routers_of_lines name ls"
  using assms by (simp add: router_lines_def routers_of_lines_simps)

lemma routers_of_redirect_lines:
  assumes "plain_name name" and "isValidHostname from"
  shows "routers_of_lines key (redirect_router_lines name from @ ls) =
    (name @ ''-redir'', [from]) # routers_of_lines (name @ ''-redir'') ls"
  using routers_of_lines_key [OF plain_name_redir [OF assms(1)], simplified] read_valid_matcher [OF assms(2)]
  by (simp add: redirect_router_lines_def routers_of_lines_simps)

lemma routers_of_dynamic_lines:
  assumes "plain_name name" and "valid_routing routing"
  shows "routers_of_lines key (dynamic_lines name routing port opts @ [[]]) = declared_routers name routing"
proof -
  let ?tail = "service_lines name port opts @
    (if middleware_lines name routing opts \<noteq> [] then ''  middlewares:'' # middleware_lines name routing opts
     else []) @ [[]]"
  have tail: "routers_of_lines k ?tail = []" for k
    using quiet_service_lines [OF assms(1)] by (intro routers_of_lines_append_quiet) auto
  have rule: "read_rule (host_rule (hosts routing)) = Some (hosts routing)"
    using assms(2) by (simp add: read_valid_rule valid_routing_def)
  show ?thesis
    using assms tail valid_hostname_nonempty
    by (auto simp: dynamic_lines_def Let_def declared_routers_def valid_routing_def
        routers_of_router_lines [OF assms(1) rule] routers_of_redirect_lines [OF assms(1)]
        split: option.splits)
qed

section \<open>Properties\<close>

text \<open>No line of the generated file contains a line break, so the file splits back into its lines.\<close>

definition no_breaks :: "DynamicConfigOptions \<Rightarrow> bool" where
  "no_breaks opts \<longleftrightarrow>
    (case backendUrl opts of None \<Rightarrow> True | Some u \<Rightarrow> LF \<notin> set u) \<and>
    (case basicAuth opts of None \<Rightarrow> True | Some a \<Rightarrow> LF \<notin> set (ba_user a) \<and> LF \<notin> set (ba_hash a))"

lemma LF_not_in_host: "isValidHostname h \<Longrightarrow> LF \<notin> set h"
  by (rule valid_hostname_absent) (simp_all add: host_char_def host_alnum_def char_class_defs)

lemma LF_not_in_name: "plain_name name \<Longrightarrow> LF \<notin> set name"
  by (rule plain_name_absent) (simp_all add: char_class_defs)

lemma int_str_chars: "c \<in> set (int_str n) \<Longrightarrow> is_digit c \<or> c = CHR ''-''"
  using nat_str_digits by (auto simp: int_str_def split: if_splits)

lemma LF_not_in_int: "LF \<notin> set (int_str n)"
  using int_str_chars [of LF n] by (auto simp: char_class_defs)

lemma LF_not_in_rule:
  assumes "\<forall>h \<in> set hs. isValidHostname h"
  shows "LF \<notin> set (host_rule hs)"
  using assms
proof (induction hs)
  case (Cons h hs)
  then show ?case
    by (cases hs) (auto simp: host_rule_def host_matcher_def LF_not_in_host)
qed (simp add: host_rule_def)

lemma LF_not_in_escape: "LF \<notin> set h \<Longrightarrow> LF \<notin> set (regexEscape h)"
  by (auto simp: regexEscape_def split: if_splits)

lemma LF_not_in_htpasswd: "LF \<notin> set h \<Longrightarrow> LF \<notin> set (htpasswdHash h)"
  by (auto simp: htpasswdHash_def dest: in_set_dropD)

lemmas LF_absent = LF_not_in_host LF_not_in_name LF_not_in_int LF_not_in_rule LF_not_in_escape LF_not_in_htpasswd

lemma LF_not_in_routers:
  assumes "plain_name name"
  shows "valid_routing routing \<Longrightarrow> l \<in> set (router_lines name routing opts) \<Longrightarrow> LF \<notin> set l"
    and "isValidHostname from \<Longrightarrow> l \<in> set (redirect_router_lines name from) \<Longrightarrow> LF \<notin> set l"
  using LF_not_in_name [OF assms]
  by (auto simp: router_lines_def redirect_router_lines_def valid_routing_def host_matcher_def LF_absent
      split: if_splits)

lemma LF_not_in_services:
  assumes "plain_name name" and "no_breaks opts" and "l \<in> set (service_lines name port opts)"
  shows "LF \<notin> set l"
  using assms LF_not_in_name [OF assms(1)]
  by (auto simp: service_lines_def no_breaks_def LF_absent split: option.splits)

lemma LF_not_in_middlewares:
  assumes "plain_name name" and "valid_routing routing" and "no_breaks opts"
    and "l \<in> set (middleware_lines name routing opts)"
  shows "LF \<notin> set l"
  using assms LF_not_in_name [OF assms(1)]
  by (auto simp: middleware_lines_def no_breaks_def valid_routing_def LF_absent split: option.splits if_splits)

lemma LF_not_in_lines:
  assumes "plain_name name" and "valid_routing routing" and "no_breaks opts"
    and l: "l \<in> set (dynamic_lines name routing port opts)"
  shows "LF \<notin> set l"
proof -
  have "l \<in> set (router_lines name routing opts) \<or> l \<in> set (service_lines name port opts) \<or>
    l \<in> set (middleware_lines name routing opts) \<or> l = ''  middlewares:'' \<or>
    (\<exists>from. redirectFrom routing = Some from \<and> l \<in> set (redirect_router_lines name from))"
    using l by (auto simp: dynamic_lines_def Let_def split: option.splits if_splits)
  moreover have "isValidHostname f" if "redirectFrom routing = Some f" for f
    using assms(2) that by (simp add: valid_routing_def)
  ultimately show ?thesis
    using LF_not_in_routers [OF assms(1)] LF_not_in_services [OF assms(1,3)]
      LF_not_in_middlewares [OF assms(1-3)] assms(2) by auto
qed

lemma join_str_last: "xs \<noteq> [] \<Longrightarrow> join_str sep (xs @ [[]]) = join_str sep xs @ sep"
  by (induction sep xs rule: join_str.induct) auto

lemma split_dynamic_config:
  assumes "plain_name name" and "valid_routing routing" and "no_breaks opts"
  shows "split_str [LF] (traefikDynamicConfig name routing port opts) = dynamic_lines name routing port opts @ [[]]"
proof -
  have nonempty: "dynamic_lines name routing port opts \<noteq> []"
    by (simp add: dynamic_lines_def router_lines_def Let_def)
  have "\<forall>l \<in> set (dynamic_lines name routing port opts @ [[]]). LF \<notin> set l"
    using LF_not_in_lines [OF assms] by auto
  then show ?thesis
    using split_join_char [of "dynamic_lines name routing port opts @ [[]]" LF]
    by (simp add: traefikDynamicConfig_def join_str_last [OF nonempty])
qed



text \<open>
  The routing of an application. Its hostnames are distinct, the canonical one first, and are the
  canonical one and the extra domains without the redirected one; the hostname that redirects is never
  also served.
\<close>
theorem routing_hosts:
  "let r = computeRouting primary extras redirect
   in distinct (hosts r) \<and> hd (hosts r) = canonical r \<and>
      set (hosts r) = insert (canonical r) {e \<in> set extras. Some e \<noteq> redirectFrom r} \<and>
      (redirectFrom r \<noteq> Some (canonical r)) \<and> (redirectFrom r = None \<longleftrightarrow> redirect = NoRedirect) \<and>
      redirectFrom r \<notin> Some ` set (hosts r)"
  by (auto simp: computeRouting_def Let_def split: WwwRedirect.splits)

text \<open>
  Normalising what a user pasted is idempotent as soon as the result is a hostname the panel accepts:
  an accepted host is in the form under which it is stored and compared.
\<close>
theorem normalize_host_canonical:
  assumes "isValidHostname (normalizeHost input)"
  shows "normalizeHost (normalizeHost input) = normalizeHost input"
  using assms by (rule normalize_valid_host)

theorem normalize_host_canonical_witness:
  "normalizeHost ''  HTTPS://App.Example.com/path?x=1 '' = ''app.example.com'' \<and>
   normalizeHost ''app.example.com'' = ''app.example.com''"
proof -
  have e: "normalizeHost ''  HTTPS://App.Example.com/path?x=1 '' = ''app.example.com''" by code_simp
  moreover have "isValidHostname ''app.example.com''" by code_simp
  ultimately show ?thesis
    using normalize_host_canonical [of "''  HTTPS://App.Example.com/path?x=1 ''"] by simp
qed

end
