(* ===== verification/JsValue.thy ===== *)
theory JsValue
  imports Prelude
begin

text \<open>
  Values whose shape is only known at run time (a webhook payload, a parsed YAML document) and their
  JSON text. \<open>JNum\<close> is an integer number, \<open>JNonInt\<close> any other number (a fraction, an infinity or NaN);
  an object keeps its own keys in order.
\<close>

datatype jv =
    JUndef
  | JNull
  | JBool bool
  | JNum int
  | JNonInt
  | JStr string
  | JArr "jv list"
  | JObj "(string \<times> jv) list"

text \<open>\<open>v?.k\<close> on values without inherited properties.\<close>

definition jget :: "string \<Rightarrow> jv \<Rightarrow> jv" where
  "jget k v = (case v of JObj kvs \<Rightarrow> (case map_of kvs k of Some x \<Rightarrow> x | None \<Rightarrow> JUndef) | _ \<Rightarrow> JUndef)"

definition as_str :: "jv \<Rightarrow> string option" where
  "as_str v = (case v of JStr s \<Rightarrow> Some s | _ \<Rightarrow> None)"

definition as_int :: "jv \<Rightarrow> int option" where
  "as_int v = (case v of JNum n \<Rightarrow> Some n | _ \<Rightarrow> None)"

definition as_obj :: "jv \<Rightarrow> (string \<times> jv) list option" where
  "as_obj v = (case v of JObj kvs \<Rightarrow> Some kvs | _ \<Rightarrow> None)"

definition jtruthy :: "jv \<Rightarrow> bool" where
  "jtruthy v = (case v of JUndef \<Rightarrow> False | JNull \<Rightarrow> False | JBool b \<Rightarrow> b | JNum n \<Rightarrow> n \<noteq> 0 | JStr s \<Rightarrow> s \<noteq> [] | _ \<Rightarrow> True)"

lemma jget_simps [simp]:
  "jget k (JObj kvs) = (case map_of kvs k of Some x \<Rightarrow> x | None \<Rightarrow> JUndef)"
  "jget k JUndef = JUndef" "jget k JNull = JUndef" "jget k (JStr s) = JUndef"
  by (simp_all add: jget_def)

lemma as_str_Some [simp]: "as_str v = Some s \<longleftrightarrow> v = JStr s"
  by (cases v) (simp_all add: as_str_def)

lemma as_int_Some [simp]: "as_int v = Some n \<longleftrightarrow> v = JNum n"
  by (cases v) (simp_all add: as_int_def)

lemma as_obj_Some [simp]: "as_obj v = Some kvs \<longleftrightarrow> v = JObj kvs"
  by (cases v) (simp_all add: as_obj_def)

section \<open>JSON.stringify\<close>

definition hex_digit :: "nat \<Rightarrow> char" where
  "hex_digit n = ''0123456789abcdef'' ! n"

definition json_char :: "char \<Rightarrow> string" where
  "json_char c =
    (if c = DQ then [BS, DQ]
     else if c = BS then [BS, BS]
     else if code c = 8 then [BS, CHR ''b'']
     else if code c = 9 then [BS, CHR ''t'']
     else if code c = 10 then [BS, CHR ''n'']
     else if code c = 12 then [BS, CHR ''f'']
     else if code c = 13 then [BS, CHR ''r'']
     else if code c < 32 then [BS] @ ''u00'' @ [hex_digit (code c div 16), hex_digit (code c mod 16)]
     else [c])"

definition json_str :: "string \<Rightarrow> string" where
  "json_str s = [DQ] @ concat (map json_char s) @ [DQ]"

definition indent :: "nat \<Rightarrow> string" where
  "indent n = replicate n (CHR '' '')"

text \<open>\<open>JSON.stringify(v, null, 2)\<close> at nesting depth \<open>d\<close>; no \<open>undefined\<close> inside objects and arrays.\<close>

fun json_render :: "nat \<Rightarrow> jv \<Rightarrow> string" where
  "json_render d JUndef = ''null''"
| "json_render d JNull = ''null''"
| "json_render d JNonInt = ''null''"
| "json_render d (JBool b) = (if b then ''true'' else ''false'')"
| "json_render d (JNum n) = int_str n"
| "json_render d (JStr s) = json_str s"
| "json_render d (JArr xs) =
    (if xs = [] then ''[]''
     else [CHR ''['', LF] @ join_str [CHR '','', LF] (map (\<lambda>x. indent (2 * d + 2) @ json_render (Suc d) x) xs) @
          [LF] @ indent (2 * d) @ '']'')"
| "json_render d (JObj kvs) =
    (if kvs = [] then ''{}''
     else [CHR ''{'', LF] @
          join_str [CHR '','', LF]
            (map (\<lambda>kv. indent (2 * d + 2) @ json_str (fst kv) @ '': '' @ json_render (Suc d) (snd kv)) kvs) @
          [LF] @ indent (2 * d) @ ''}'')"

text \<open>\<open>JSON.stringify(v)\<close> without indentation.\<close>

fun json_compact :: "jv \<Rightarrow> string" where
  "json_compact JUndef = ''null''"
| "json_compact JNull = ''null''"
| "json_compact JNonInt = ''null''"
| "json_compact (JBool b) = (if b then ''true'' else ''false'')"
| "json_compact (JNum n) = int_str n"
| "json_compact (JStr s) = json_str s"
| "json_compact (JArr xs) = ''['' @ join_str '','' (map json_compact xs) @ '']''"
| "json_compact (JObj kvs) =
    ''{'' @ join_str '','' (map (\<lambda>kv. json_str (fst kv) @ '':'' @ json_compact (snd kv)) kvs) @ ''}''"

section \<open>Reading a JSON string\<close>

text \<open>The inverse the JSON and YAML grammars give to a double-quoted string: the text and what follows it.\<close>

definition hex_value :: "char \<Rightarrow> nat" where
  "hex_value c = (if is_digit c then code c - 48 else code c - 87)"

fun read_json_chars :: "string \<Rightarrow> (string \<times> string) option" where
  "read_json_chars [] = None"
| "read_json_chars (c # s) =
    (if c = DQ then Some ([], s)
     else if c = BS then
       (case s of
          [] \<Rightarrow> None
        | e # s' \<Rightarrow>
            if e = CHR ''u'' then
              (case s' of
                 _ # _ # h # l # s'' \<Rightarrow> map_option (apfst (Cons (char_of (16 * hex_value h + hex_value l)))) (read_json_chars s'')
               | _ \<Rightarrow> None)
            else map_option (apfst (Cons
                (if e = CHR ''b'' then char_of (8::nat) else if e = CHR ''t'' then char_of (9::nat)
                 else if e = CHR ''n'' then char_of (10::nat) else if e = CHR ''f'' then char_of (12::nat)
                 else if e = CHR ''r'' then char_of (13::nat) else e))) (read_json_chars s'))
     else map_option (apfst (Cons c)) (read_json_chars s))"

definition read_json_str :: "string \<Rightarrow> (string \<times> string) option" where
  "read_json_str s = (case s of c # s' \<Rightarrow> if c = DQ then read_json_chars s' else None | [] \<Rightarrow> None)"

lemma hex_value_digit: "n < 16 \<Longrightarrow> hex_value (hex_digit n) = n"
proof -
  have "\<forall>n \<in> set [0..<16]. hex_value (hex_digit n) = n" by code_simp
  then show "n < 16 \<Longrightarrow> hex_value (hex_digit n) = n" by simp
qed

lemma code_not_special: "32 \<le> code c \<Longrightarrow> c \<noteq> DQ \<Longrightarrow> c \<noteq> BS \<Longrightarrow>
    read_json_chars (c # s) = map_option (apfst (Cons c)) (read_json_chars s)"
  by simp

lemma char_of_code: "code c = n \<Longrightarrow> char_of n = c"
  by (auto simp: code_def)

lemma read_json_char: "read_json_chars (json_char c @ s) = map_option (apfst (Cons c)) (read_json_chars s)"
proof -
  have "code c div 16 < 16" "code c mod 16 < 16" using code_less_256 [of c] by auto
  moreover have "16 * (code c div 16) + code c mod 16 = code c" by simp
  ultimately show ?thesis
    by (auto simp: json_char_def hex_value_digit char_of_code)
qed

lemma read_json_str_inverse: "read_json_str (json_str s @ rest) = Some (s, rest)"
proof -
  have "read_json_chars (concat (map json_char s) @ DQ # rest) = Some (s, rest)"
    by (induction s) (simp_all add: read_json_char)
  then show ?thesis by (simp add: read_json_str_def json_str_def)
qed

end
