(* ===== verification/Docker.thy ===== *)
theory Docker
  imports Rows
begin

text \<open>
  Docker images and registries: packages/shared/src/registry.ts, the image part of serverOps.ts,
  rollbackImages.ts, and the network and SQLite names of databaseConnection.ts.
  \<open>localeCompare\<close> depends on the collation tables of the runtime, so the functions that sort
  with it take the comparison as a parameter; what they need of it is the locale \<open>comparison\<close>.
\<close>

section \<open>Registries\<close>

definition port_suffix :: rx where
  "port_suffix = rx_opt (RSeq (RCls (one_of '':'')) (rx_between 1 5 (RCls is_digit)))"

definition registry_host_rx :: rx where
  "registry_host_rx =
    RSeq (RCls is_alnum)
      (RSeq (rx_opt (RSeq (RStar (RCls (\<lambda>c. is_alnum c \<or> c = CHR ''.'' \<or> c = CHR ''-''))) (RCls is_alnum)))
            port_suffix)"

definition isValidRegistryHost :: "string \<Rightarrow> bool" where
  "isValidRegistryHost host \<longleftrightarrow> length host \<le> 253 \<and> rx_test registry_host_rx host"

definition low_alnum :: "char \<Rightarrow> bool" where
  "low_alnum c \<longleftrightarrow> is_lower c \<or> is_digit c"

definition repo_component :: rx where
  "repo_component =
    RSeq (rx_plus (RCls low_alnum)) (RStar (RSeq (RCls (one_of ''._-'')) (rx_plus (RCls low_alnum))))"

definition isValidRegistryRepository :: "string \<Rightarrow> bool" where
  "isValidRegistryRepository repo \<longleftrightarrow> length repo \<le> 255 \<and>
    rx_test (RSeq repo_component (RStar (RSeq (RCls (one_of ''/'')) repo_component))) repo"

definition isValidRegistryUsername :: "string \<Rightarrow> bool" where
  "isValidRegistryUsername user \<longleftrightarrow> 1 \<le> length user \<and> length user \<le> 255 \<and>
    user \<noteq> [] \<and> (\<forall>c \<in> set user. \<not> is_space c \<and> 31 < code c)"

definition is_hex :: "char \<Rightarrow> bool" where
  "is_hex c \<longleftrightarrow> is_digit c \<or> in_range 97 102 c \<or> in_range 65 70 c"

definition is_commit_sha :: "string \<Rightarrow> bool" where
  "is_commit_sha s \<longleftrightarrow> 7 \<le> length s \<and> length s \<le> 40 \<and> (\<forall>c \<in> set s. is_hex c)"

definition short_id :: "string \<Rightarrow> string" where
  "short_id i = take 12 (filter (\<lambda>c. c \<noteq> CHR ''-'') i)"

definition registryTag :: "string option \<Rightarrow> string \<Rightarrow> string option \<Rightarrow> string" where
  "registryTag commitSha deploymentId variant =
    (let base = (case map_option trim commitSha of
                   Some sha \<Rightarrow> if is_commit_sha sha then to_lower (take 12 sha) else ''d-'' @ short_id deploymentId
                 | None \<Rightarrow> ''d-'' @ short_id deploymentId)
     in if str_truthy variant then base @ ''-'' @ the variant else base)"

definition registryRef :: "string \<Rightarrow> string \<Rightarrow> string \<Rightarrow> string" where
  "registryRef host repository tag = host @ ''/'' @ repository @ '':'' @ tag"

definition registryLoginCommand :: "string \<Rightarrow> string \<Rightarrow> string \<Rightarrow> string" where
  "registryLoginCommand host username passwordFile =
    ''docker login '' @ shellQuote host @ '' -u '' @ shellQuote username @ '' --password-stdin < '' @
    shellQuote passwordFile @ ''; rc=$?; rm -f '' @ shellQuote passwordFile @ ''; exit $rc''"

definition registryLogoutCommand :: "string \<Rightarrow> string" where
  "registryLogoutCommand host = ''docker logout '' @ shellQuote host @ '' >/dev/null 2>&1 || true''"

definition registryExistsCommand :: "string \<Rightarrow> string" where
  "registryExistsCommand ref = ''docker pull -q '' @ shellQuote ref @ '' >/dev/null 2>&1''"

definition registryTagLocalCommand :: "string \<Rightarrow> string \<Rightarrow> string" where
  "registryTagLocalCommand ref localImage = ''docker tag '' @ shellQuote ref @ '' '' @ shellQuote localImage"

definition registryPushCommand :: "string \<Rightarrow> string \<Rightarrow> string" where
  "registryPushCommand localImage ref =
    ''docker tag '' @ shellQuote localImage @ '' '' @ shellQuote ref @ '' && docker push '' @ shellQuote ref"

section \<open>Names on the environment network\<close>

definition environmentNetworkName :: "string \<Rightarrow> string" where
  "environmentNetworkName environmentId = ''yeah-env-'' @ environmentId"

definition ensureNetworkCommand :: "string \<Rightarrow> string" where
  "ensureNetworkCommand network =
    ''docker network inspect '' @ [SQ] @ network @ [SQ] @ '' >/dev/null 2>&1 || docker network create '' @
    [SQ] @ network @ [SQ] @ '' >/dev/null''"

definition internalHostName :: "string \<Rightarrow> string" where
  "internalHostName resourceName =
    (let s = resourceSlug resourceName in if s \<noteq> [] then s else ''resource'')"

section \<open>Images on a server\<close>

record DockerImageInfo =
  img_id :: string
  img_repository :: string
  img_tag :: string
  img_ref :: string
  img_size :: string
  img_created :: string
  img_inUse :: bool

definition dockerImagesCommand :: string where
  "dockerImagesCommand =
    ''docker image ls -a --no-trunc --format '' @ [SQ] @
    ''IMG|{{.ID}}|{{.Repository}}|{{.Tag}}|{{.Size}}|{{.CreatedSince}}'' @ [SQ] @ ''; '' @
    ''docker ps -a -q | xargs -r docker inspect --format '' @ [SQ] @ ''USED|{{.Image}}'' @ [SQ]"

definition image_of_parts :: "string list \<Rightarrow> DockerImageInfo" where
  "image_of_parts parts =
    (let repository = trim (parts ! 2); tag = trim (parts ! 3);
         i = take 12 (strip_prefix ''sha256:'' (trim (parts ! 1)))
     in \<lparr>img_id = i, img_repository = repository, img_tag = tag,
         img_ref = (if repository = ''<none>'' \<or> tag = ''<none>'' then i else repository @ '':'' @ tag),
         img_size = trim (parts ! 4), img_created = trim (parts ! 5), img_inUse = False\<rparr>)"

definition is_img_line :: "string list \<Rightarrow> bool" where
  "is_img_line parts \<longleftrightarrow> parts ! 0 = ''IMG'' \<and> 6 \<le> length parts"

definition marked_ids :: "string \<Rightarrow> string list list \<Rightarrow> string list" where
  "marked_ids mark rows =
    [trim (parts ! 1). parts \<leftarrow> rows, parts ! 0 = mark \<and> 2 \<le> length parts \<and> parts ! 1 \<noteq> []]"

definition rows_of :: "string \<Rightarrow> string list list" where
  "rows_of output = map (split_str ''|'') (split_lines output)"

definition parseDockerImages :: "string \<Rightarrow> DockerImageInfo list" where
  "parseDockerImages output =
    (let used = marked_ids ''USED'' (rows_of output)
     in map (\<lambda>parts. (image_of_parts parts)\<lparr>img_inUse := trim (parts ! 1) \<in> set used\<rparr>)
            (filter is_img_line (rows_of output)))"

definition isSafeImageRef :: "string \<Rightarrow> bool" where
  "isSafeImageRef ref \<longleftrightarrow>
    rx_test (RSeq (RCls is_alnum) (rx_upto 254 (RCls (\<lambda>c. is_alnum c \<or> one_of ''._/:@-'' c)))) ref"

definition dockerImageRemoveCommand :: "string \<Rightarrow> string" where
  "dockerImageRemoveCommand ref = ''docker image rm '' @ shellQuote ref @ '' 2>&1''"

section \<open>Rollback images\<close>

definition MAX_ROLLBACK_IMAGES :: int where
  "MAX_ROLLBACK_IMAGES = 20"

text \<open>The argument is \<open>None\<close> for a value that is not an integer number.\<close>

definition validateRollbackImages :: "int option \<Rightarrow> string option" where
  "validateRollbackImages v =
    (case v of
       Some n \<Rightarrow> if n < 0 \<or> n > MAX_ROLLBACK_IMAGES
         then Some (''the number of rollback images must be an integer between 0 and '' @ int_str MAX_ROLLBACK_IMAGES)
         else None
     | None \<Rightarrow> Some (''the number of rollback images must be an integer between 0 and '' @ int_str MAX_ROLLBACK_IMAGES))"

definition appImageRepository :: "string \<Rightarrow> string" where
  "appImageRepository applicationId = ''yeah-app-'' @ applicationId"

definition deploymentImageTag :: "string \<Rightarrow> string" where
  "deploymentImageTag deploymentId = ''dep-'' @ to_lower (short_id deploymentId)"

definition deploymentImageRef :: "string \<Rightarrow> string \<Rightarrow> string" where
  "deploymentImageRef applicationId deploymentId =
    appImageRepository applicationId @ '':'' @ deploymentImageTag deploymentId"

definition tagDeploymentImageCommand :: "string \<Rightarrow> string \<Rightarrow> string" where
  "tagDeploymentImageCommand applicationId deploymentId =
    ''docker tag '' @ shellQuote (appImageRepository applicationId) @ '' '' @
    shellQuote (deploymentImageRef applicationId deploymentId)"

definition imageExistsCommand :: "string \<Rightarrow> string" where
  "imageExistsCommand ref = ''docker image inspect '' @ shellQuote ref @ '' >/dev/null 2>&1''"

record AppImage =
  ai_id :: string
  ai_ref :: string
  ai_tag :: string
  ai_size :: string
  ai_created :: string
  ai_deploymentTag :: "string option"
  ai_running :: bool

definition appImagesCommand :: "string \<Rightarrow> string" where
  "appImagesCommand applicationId =
    ''docker image ls -a --no-trunc --filter '' @ shellQuote (''reference='' @ appImageRepository applicationId) @ '' '' @
    ''--format '' @ [SQ] @ ''IMG|{{.ID}}|{{.Repository}}|{{.Tag}}|{{.Size}}|{{.CreatedSince}}'' @ [SQ] @ ''; '' @
    ''docker inspect --format '' @ [SQ] @ ''RUN|{{.Image}}'' @ [SQ] @ '' '' @ shellQuote (appImageRepository applicationId) @
    '' 2>/dev/null || true''"

definition is_deployment_tag :: "string \<Rightarrow> bool" where
  "is_deployment_tag t \<longleftrightarrow> starts_with t ''dep-'' \<and> length t = 16 \<and>
    (\<forall>c \<in> set (drop 4 t). is_digit c \<or> in_range 97 102 c)"

definition app_image_line :: "string \<Rightarrow> string \<Rightarrow> bool" where
  "app_image_line repo line \<longleftrightarrow>
    (let parts = split_str ''|'' line
     in parts ! 0 = ''IMG'' \<and> 6 \<le> length parts \<and> trim (parts ! 2) = repo)"

definition parseAppImages :: "string \<Rightarrow> string \<Rightarrow> AppImage list" where
  "parseAppImages output applicationId =
    (let repo = appImageRepository applicationId;
         running = marked_ids ''RUN'' (rows_of output);
         imgLines = filter (app_image_line repo) (split_lines output);
         fullIds = map (\<lambda>line. trim (split_str ''|'' line ! 1)) imgLines
     in map (\<lambda>(i, info).
          \<lparr>ai_id = img_id info, ai_ref = img_ref info, ai_tag = img_tag info, ai_size = img_size info,
           ai_created = img_created info,
           ai_deploymentTag = (if is_deployment_tag (img_tag info) then Some (img_tag info) else None),
           ai_running = (i < length fullIds \<and> fullIds ! i \<in> set running)\<rparr>)
        (List.enumerate 0 (parseDockerImages (join_str [LF] imgLines))))"

record DeploymentLike =
  dl_id :: string
  dl_status :: string
  dl_commitSha :: "string option"
  dl_createdAt :: string

record RollbackImageEntry =
  rie_image :: AppImage
  rie_deploymentId :: "string option"
  rie_commitSha :: "string option"
  rie_deploymentCreatedAt :: "string option"

definition rollback_entry :: "(string \<times> DeploymentLike) list \<Rightarrow> AppImage \<Rightarrow> RollbackImageEntry" where
  "rollback_entry byTag img =
    (let d = Option.bind (ai_deploymentTag img) (map_of byTag)
     in \<lparr>rie_image = img, rie_deploymentId = map_option dl_id d,
         rie_commitSha = Option.bind d dl_commitSha, rie_deploymentCreatedAt = map_option dl_createdAt d\<rparr>)"

definition matchImagesToDeployments ::
  "(string \<Rightarrow> string \<Rightarrow> int) \<Rightarrow> AppImage list \<Rightarrow> DeploymentLike list \<Rightarrow> RollbackImageEntry list" where
  "matchImagesToDeployments localeCompare images deployments =
    (let byTag = map_of_pairs (map (\<lambda>d. (deploymentImageTag (dl_id d), d)) deployments);
         taggedIds = map ai_id (filter (\<lambda>i. ai_deploymentTag i \<noteq> None) images);
         kept = filter (\<lambda>i. ai_deploymentTag i \<noteq> None \<or> ai_id i \<notin> set taggedIds) images
     in sort_by (\<lambda>a b. localeCompare (default [] (rie_deploymentCreatedAt b)) (default [] (rie_deploymentCreatedAt a)))
          (map (rollback_entry byTag) kept))"

definition deploymentsToRetain ::
  "(string \<Rightarrow> string \<Rightarrow> int) \<Rightarrow> DeploymentLike list \<Rightarrow> int \<Rightarrow> DeploymentLike list" where
  "deploymentsToRetain localeCompare deployments keep =
    (if keep \<le> 0 then []
     else take (nat keep)
       (sort_by (\<lambda>a b. localeCompare (dl_createdAt b) (dl_createdAt a))
         (filter (\<lambda>d. dl_status d = ''success'') deployments)))"

definition staleDeploymentRefs :: "AppImage list \<Rightarrow> DeploymentLike list \<Rightarrow> string list" where
  "staleDeploymentRefs images retained =
    (let keepTags = map (\<lambda>d. deploymentImageTag (dl_id d)) retained
     in map ai_ref (filter (\<lambda>i. case ai_deploymentTag i of Some t \<Rightarrow> t \<notin> set keepTags | None \<Rightarrow> False) images))"

definition removeRefsCommand :: "string list \<Rightarrow> string option" where
  "removeRefsCommand refs =
    (if refs = [] then None
     else Some (''docker image rm '' @ join_str '' '' (map shellQuote refs) @ '' >/dev/null 2>&1 || true''))"

definition selectImagesToRemove :: "DockerImageInfo list \<Rightarrow> string list \<Rightarrow> string list" where
  "selectImagesToRemove images protectedRefs =
    (let protectedIds = map img_id (filter (\<lambda>i. img_ref i \<in> set protectedRefs) images);
         inUseIds = map img_id (filter img_inUse images)
     in uniq (map img_id (filter (\<lambda>i. img_id i \<notin> set inUseIds \<and> img_id i \<notin> set protectedIds) images)))"

section \<open>What pruning keeps\<close>

text \<open>A comparison read backwards through a key is a comparison: newest first.\<close>

lemma comparison_newest_first:
  assumes "comparison cmp"
  shows "comparison (\<lambda>a b. cmp (k b) (k a))"
  using assms unfolding comparison_def by blast

lemma retained_newest:
  assumes "comparison loc" and "0 < keep" and "d \<in> set ds" and "dl_status d = ''success''"
    and newest: "\<forall>e \<in> set ds. e \<noteq> d \<longrightarrow> \<not> loc (dl_createdAt d) (dl_createdAt e) \<le> 0"
  shows "d \<in> set (deploymentsToRetain loc ds keep)"
proof -
  let ?cmp = "\<lambda>a b. loc (dl_createdAt b) (dl_createdAt a)"
  let ?ok = "filter (\<lambda>d. dl_status d = ''success'') ds"
  have c: "comparison ?cmp" by (rule comparison_newest_first) (rule assms)
  have d: "d \<in> set ?ok" using assms by simp
  then have ne: "sort_by ?cmp ?ok \<noteq> []" by (metis empty_iff list.set(1) sort_by_eq_Nil)
  have "hd (sort_by ?cmp ?ok) = d"
  proof (rule ccontr)
    assume neq: "hd (sort_by ?cmp ?ok) \<noteq> d"
    have "hd (sort_by ?cmp ?ok) \<in> set ds"
      using ne hd_in_set [OF ne] set_sort_by by fastforce
    with newest neq comparison.hd_sort_by_least [OF c d] show False by blast
  qed
  moreover have "hd (sort_by ?cmp ?ok) \<in> set (take (nat keep) (sort_by ?cmp ?ok))"
    using ne assms(2) by (cases "nat keep"; cases "sort_by ?cmp ?ok") auto
  ultimately show ?thesis
    using assms(2) by (simp add: deploymentsToRetain_def)
qed

text \<open>The rows of the two listings: each image row of the application comes back from the second parse.\<close>

lemma split_lines_plain_join:
  assumes "\<forall>x \<in> set xs. LF \<notin> set x \<and> CR \<notin> set x" and "xs \<noteq> []"
  shows "split_lines (join_str [LF] xs) = xs"
  using assms
proof (induction xs)
  case (Cons x xs)
  then show ?case by (cases xs) (auto simp: split_lines_plain split_lines_single)
qed simp

lemma split_lines_chars: "x \<in> set (split_lines s) \<Longrightarrow> c \<in> set x \<Longrightarrow> c \<in> set s"
proof (induction s arbitrary: x rule: split_lines.induct)
  case (2 c' s)
  have ne: "split_lines s \<noteq> []" by (rule split_lines_nonempty)
  then have "hd (split_lines s) \<in> set (split_lines s)" by simp
  then have "c \<in> set (hd (split_lines s)) \<Longrightarrow> c \<in> set s"
    using 2 by blast
  moreover have "set (tl (split_lines s)) \<subseteq> set (split_lines s)"
    by (cases "split_lines s") auto
  ultimately show ?case using 2 by (auto split: if_splits)
qed simp

lemma snd_enumerate: "p \<in> set (List.enumerate n xs) \<Longrightarrow> snd p \<in> set xs"
  by (auto simp: in_set_enumerate_eq) (metis add.commute less_diff_conv2 nth_mem)

lemma parseDockerImages_app_rows:
  assumes "CR \<notin> set out" and "info \<in> set (parseDockerImages (join_str [LF] (filter (app_image_line repo) (split_lines out))))"
  shows "img_repository info = repo"
    and "img_ref info = (if repo = ''<none>'' \<or> img_tag info = ''<none>'' then img_id info else repo @ '':'' @ img_tag info)"
proof -
  let ?ls = "filter (app_image_line repo) (split_lines out)"
  have plain: "\<forall>x \<in> set ?ls. LF \<notin> set x \<and> CR \<notin> set x"
    using assms(1) split_lines_no_LF split_lines_chars by fastforce
  obtain parts b where parts: "parts \<in> set (rows_of (join_str [LF] ?ls))" "is_img_line parts"
    and info: "info = (image_of_parts parts)\<lparr>img_inUse := b\<rparr>"
    using assms(2) by (auto simp: parseDockerImages_def Let_def)
  have "trim (parts ! 2) = repo"
  proof (cases "?ls = []")
    case True
    with parts show ?thesis by (simp add: rows_of_def is_img_line_def)
  next
    case False
    then have "split_lines (join_str [LF] ?ls) = ?ls"
      using plain by (intro split_lines_plain_join) auto
    with parts(1) show ?thesis by (auto simp: rows_of_def app_image_line_def Let_def)
  qed
  then show "img_repository info = repo"
    and "img_ref info = (if repo = ''<none>'' \<or> img_tag info = ''<none>'' then img_id info else repo @ '':'' @ img_tag info)"
    by (simp_all add: info image_of_parts_def Let_def)
qed

lemma app_image_ref:
  assumes "CR \<notin> set out" and "i \<in> set (parseAppImages out app)" and "ai_deploymentTag i = Some t"
  shows "ai_ref i = appImageRepository app @ '':'' @ t"
proof -
  let ?text = "join_str [LF] (filter (app_image_line (appImageRepository app)) (split_lines out))"
  obtain p where p: "p \<in> set (List.enumerate 0 (parseDockerImages ?text))" and "ai_ref i = img_ref (snd p)"
    "ai_deploymentTag i = (if is_deployment_tag (img_tag (snd p)) then Some (img_tag (snd p)) else None)"
    using assms(2) by (fastforce simp: parseAppImages_def Let_def)
  then obtain info where "info \<in> set (parseDockerImages ?text)" "ai_ref i = img_ref info"
    "ai_deploymentTag i = (if is_deployment_tag (img_tag info) then Some (img_tag info) else None)"
    using snd_enumerate by blast
  moreover from this have "img_tag info = t" "is_deployment_tag t"
    using assms(3) by (auto split: if_splits)
  moreover from this have "t \<noteq> ''<none>''" by (auto simp: is_deployment_tag_def)
  moreover have "appImageRepository app \<noteq> ''<none>''" by (simp add: appImageRepository_def)
  ultimately show ?thesis
    using parseDockerImages_app_rows(2) [OF assms(1)] by simp
qed

lemma stale_refs_not_retained:
  assumes "CR \<notin> set out" and "i \<in> set (parseAppImages out app)"
    and "ai_deploymentTag i = Some (deploymentImageTag (dl_id d))" and "d \<in> set retained"
  shows "ai_ref i \<notin> set (staleDeploymentRefs (parseAppImages out app) retained)"
  using assms app_image_ref [OF assms(1)]
  by (auto simp: staleDeploymentRefs_def Let_def split: option.splits)

lemma stale_refs_own:
  assumes "CR \<notin> set out" and "ref \<in> set (staleDeploymentRefs (parseAppImages out app) retained)"
  shows "starts_with ref (appImageRepository app @ '':'')"
proof -
  obtain i t where "i \<in> set (parseAppImages out app)" "ai_deploymentTag i = Some t" "ref = ai_ref i"
    using assms(2) by (auto simp: staleDeploymentRefs_def Let_def split: option.splits)
  then show ?thesis
    using app_image_ref [OF assms(1)] by (simp add: starts_with_def)
qed

text \<open>
  Trimming rollback images never untags the image of the deployment that just ran. When the
  retention count is above 0 and the current deployment is the newest successful one, it is among the
  retained ones, and no reference of an image that carries its tag is in the list to remove; every
  listed reference belongs to the application's own repository.
\<close>
theorem trim_keeps_current_image:
  assumes "comparison localeCompare" and "0 < keep" and "d \<in> set deployments" and "dl_status d = ''success''"
    and "\<forall>e \<in> set deployments. e \<noteq> d \<longrightarrow> \<not> localeCompare (dl_createdAt d) (dl_createdAt e) \<le> 0"
    and "CR \<notin> set output"
  shows "let images = parseAppImages output app; stale = staleDeploymentRefs images (deploymentsToRetain localeCompare deployments keep)
    in (\<forall>i \<in> set images. ai_deploymentTag i = Some (deploymentImageTag (dl_id d)) \<longrightarrow> ai_ref i \<notin> set stale) \<and>
       (\<forall>ref \<in> set stale. starts_with ref (appImageRepository app @ '':''))"
  using stale_refs_not_retained [OF assms(6) _ _ retained_newest [OF assms(1-5)]] stale_refs_own [OF assms(6)]
  by (simp add: Let_def)

theorem trim_keeps_current_image_witness:
  "let d1 = \<lparr>dl_id = ''11111111-1111'', dl_status = ''success'', dl_commitSha = None, dl_createdAt = ''2026-01-01''\<rparr>;
       d2 = \<lparr>dl_id = ''22222222-2222'', dl_status = ''success'', dl_commitSha = None, dl_createdAt = ''2026-01-02''\<rparr>;
       out = ''IMG|sha256:aa|yeah-app-7|dep-111111111111|1MB|old'' @ [LF] @ ''IMG|sha256:bb|yeah-app-7|dep-222222222222|1MB|new'' @ [LF];
       images = parseAppImages out ''7''; stale = staleDeploymentRefs images (deploymentsToRetain cmp_units [d1, d2] 1)
   in stale = [''yeah-app-7:dep-111111111111''] \<and>
      (\<forall>i \<in> set images. ai_deploymentTag i = Some (deploymentImageTag (dl_id d2)) \<longrightarrow> ai_ref i \<notin> set stale)"
proof -
  define d1 d2 where "d1 = \<lparr>dl_id = ''11111111-1111'', dl_status = ''success'', dl_commitSha = None, dl_createdAt = ''2026-01-01''\<rparr>"
    and "d2 = \<lparr>dl_id = ''22222222-2222'', dl_status = ''success'', dl_commitSha = None, dl_createdAt = ''2026-01-02''\<rparr>"
  define out where "out = ''IMG|sha256:aa|yeah-app-7|dep-111111111111|1MB|old'' @ [LF] @ ''IMG|sha256:bb|yeah-app-7|dep-222222222222|1MB|new'' @ [LF]"
  have "\<forall>e \<in> set [d1, d2]. e \<noteq> d2 \<longrightarrow> \<not> cmp_units (dl_createdAt d2) (dl_createdAt e) \<le> 0"
    unfolding d1_def d2_def by code_simp
  moreover have "CR \<notin> set out" by (simp add: out_def)
  moreover have "staleDeploymentRefs (parseAppImages out ''7'') (deploymentsToRetain cmp_units [d1, d2] 1) = [''yeah-app-7:dep-111111111111'']"
    unfolding d1_def d2_def out_def by code_simp
  moreover have "0 < (1::int)" "d2 \<in> set [d1, d2]" "dl_status d2 = ''success''"
    by (simp_all add: d2_def)
  ultimately show ?thesis
    using trim_keeps_current_image [OF units.comparison_axioms, of 1 d2 "[d1, d2]" out "''7''"]
    unfolding Let_def d1_def [symmetric] d2_def [symmetric] out_def [symmetric] by blast
qed

text \<open>
  An image cleanup under protection removes exactly the images that no container uses and none of
  whose references is protected, each once: an id stays when any of its rows is in use or protected.
\<close>
theorem cleanup_selects_unprotected:
  "distinct (selectImagesToRemove images protectedRefs) \<and>
   set (selectImagesToRemove images protectedRefs) =
     img_id ` set images - {img_id i | i. i \<in> set images \<and> (img_inUse i \<or> img_ref i \<in> set protectedRefs)}"
  by (auto simp: selectImagesToRemove_def Let_def image_iff)

end
