(* ===== verification/Compose.thy ===== *)
theory Compose
  imports Traefik JsValue Docker
begin

text \<open>
  Docker Compose projects: packages/shared/src/compose.ts (applications built from a compose file),
  composeStack.ts (services as stacks, with the override that attaches them to the proxy) and
  stackFiles.ts (the configuration files that ship with a template).

  Bun's YAML parser is not part of the repository: it is the parameter \<open>yaml\<close>, which gives a document
  or the message of its error. Compose's own reading of the override (a double-quoted YAML scalar, then
  \<open>$$\<close> for a literal dollar) is the specification \<open>compose_reads\<close>.
\<close>

section \<open>compose.ts\<close>

definition DEFAULT_COMPOSE_FILE :: string where
  "DEFAULT_COMPOSE_FILE = ''docker-compose.yml''"

definition compose_unsafe :: "char \<Rightarrow> bool" where
  "compose_unsafe c \<longleftrightarrow> c \<in> set ([DQ, SQ, BQ] @ ''$;&|<>'') \<or> is_space c"

definition isSafeComposeFile :: "string \<Rightarrow> bool" where
  "isSafeComposeFile path =
    (if path = [] \<or> path = ''.'' then False
     else if starts_with path ''/'' \<or> includes_str path [BS] \<or> list_ex compose_unsafe path then False
     else ''..'' \<notin> set (split_str ''/'' path))"

definition service_char :: "char \<Rightarrow> bool" where
  "service_char c \<longleftrightarrow> is_alnum c \<or> one_of ''._-'' c"

definition isValidComposeService :: "string \<Rightarrow> bool" where
  "isValidComposeService name = rx_test (RSeq (RCls is_alnum) (rx_upto 63 (RCls service_char))) name"

definition composeProjectName :: "string \<Rightarrow> string" where
  "composeProjectName applicationId = ''yeah-app-'' @ applicationId"

definition stackProject :: "string \<Rightarrow> string" where
  "stackProject serviceId = ''yeah-svc-'' @ serviceId"

definition projectFilter :: "string \<Rightarrow> string option \<Rightarrow> string" where
  "projectFilter project service =
    (let p = ''--filter '' @ shellQuote (''label=com.docker.compose.project='' @ project)
     in if str_truthy service
        then p @ '' --filter '' @ shellQuote (''label=com.docker.compose.service='' @ the service) else p)"

definition composeContainerIds :: "string \<Rightarrow> string option \<Rightarrow> string" where
  "composeContainerIds project service = ''$(docker ps -aq '' @ projectFilter project service @ '')''"

definition composeLogsCommand :: "string \<Rightarrow> int \<Rightarrow> string" where
  "composeLogsCommand project tail =
    ''ids=$(docker ps -aq '' @ projectFilter project None @ ''); '' @
    ''[ -n \"$ids\" ] || { echo \"no container for the compose project '' @ em_dash @ '' deploy first\"; exit 1; }; '' @
    ''for c in $ids; do n=$(docker inspect -f '' @ [SQ] @ ''{{.Name}}'' @ [SQ] @ '' $c | sed '' @ [SQ] @ ''s#^/##'' @ [SQ] @ ''); '' @
    ''docker logs --tail '' @ int_str tail @ '' --timestamps $c 2>&1 | sed \"s#^#[$n] #\"; done''"

datatype LifecycleAction = StartAction | StopAction | RestartAction

definition composeLifecycleCommand :: "LifecycleAction \<Rightarrow> string \<Rightarrow> int \<Rightarrow> string" where
  "composeLifecycleCommand action project graceSeconds =
    (let ids = ''ids=$(docker ps -aq '' @ projectFilter project None @
           ''); [ -n \"$ids\" ] || { echo \"no container for the compose project\"; exit 1; }; '';
         grace = int_str (max 0 graceSeconds)
     in case action of
          StartAction \<Rightarrow> ids @ ''docker start $ids''
        | StopAction \<Rightarrow> ids @ ''docker stop -t '' @ grace @ '' $ids''
        | RestartAction \<Rightarrow> ids @ ''docker restart -t '' @ grace @ '' $ids'')"

definition composeTeardownCommand :: "string \<Rightarrow> string" where
  "composeTeardownCommand project =
    (let f = projectFilter project None in
     ''docker ps -aq '' @ f @ '' | xargs -r docker rm -f >/dev/null 2>&1; '' @
     ''docker network ls -q '' @ f @ '' | xargs -r docker network rm >/dev/null 2>&1; '' @
     ''docker volume ls -q '' @ f @ '' | xargs -r docker volume rm >/dev/null 2>&1 || true'')"

definition composeExecCommand :: "string \<Rightarrow> string option \<Rightarrow> string \<Rightarrow> string" where
  "composeExecCommand project service command =
    ''c=$(docker ps -q '' @ projectFilter project service @ '' | head -n 1); '' @
    ''[ -n \"$c\" ] || { echo \"no running container'' @
    (if str_truthy service then '' for service '' @ the service else []) @ ''\"; exit 1; }; '' @
    ''docker exec \"$c\" sh -c '' @ shellQuote command"

definition composeProxyOverride :: "string \<Rightarrow> string list \<Rightarrow> string" where
  "composeProxyOverride service labels =
    join_str [LF]
      ([''services:'', ''  '' @ service @ '':'', ''    networks:'', ''      - default'',
        ''      - '' @ json_str PROXY_NETWORK_NAME, ''    labels:''] @
       map (\<lambda>l. ''      - '' @ json_str (join_str ''$'' (split_str ''$'' l))) labels @
       [''networks:'', ''  '' @ json_str PROXY_NETWORK_NAME @ '':'', ''    external: true'', []])"

section \<open>composeStack.ts\<close>

record StackDomain =
  sd_service :: string
  sd_domain :: string
  sd_port :: jv

definition MAX_COMPOSE_BYTES :: nat where
  "MAX_COMPOSE_BYTES = 200000"

fun check_services :: "(string \<times> jv) list \<Rightarrow> string option" where
  "check_services [] = None"
| "check_services ((name, def) # rest) =
    (if \<not> isValidComposeService name then Some (''invalid service name: '' @ name)
     else case as_obj def of
       None \<Rightarrow> Some (''service '' @ name @ '' must be an object'')
     | Some d \<Rightarrow>
         if jget ''build'' def \<noteq> JUndef then
           Some (''service '' @ name @ '' uses \"build\": only \"image\" is supported here (there is no source code to build)'')
         else (case as_str (jget ''image'' def) of
                 Some img \<Rightarrow> if trim img = [] then Some (''service '' @ name @ '' needs an \"image\"'') else check_services rest
               | None \<Rightarrow> Some (''service '' @ name @ '' needs an \"image\"'')))"

definition parseComposeStack :: "(string \<Rightarrow> string + jv) \<Rightarrow> string \<Rightarrow> string + (string \<times> jv) list" where
  "parseComposeStack yaml content =
    (if content = [] then Inl ''the compose file is empty''
     else if MAX_COMPOSE_BYTES < length content then Inl ''the compose file is too large (maximum 200 KB)''
     else case yaml content of
       Inl err \<Rightarrow> Inl (''Invalid YAML: '' @ err)
     | Inr doc \<Rightarrow>
         if as_obj doc = None then Inl ''the compose file must be a YAML object with a \"services\" key''
         else (case as_obj (jget ''services'' doc) of
                 None \<Rightarrow> Inl ''the compose file needs at least one service under \"services\"''
               | Some services \<Rightarrow>
                   if services = [] then Inl ''the compose file needs at least one service under \"services\"''
                   else (case check_services services of Some e \<Rightarrow> Inl e | None \<Rightarrow> Inr services)))"

fun check_domains :: "string list \<Rightarrow> string list \<Rightarrow> StackDomain list \<Rightarrow> string option" where
  "check_domains serviceNames seen [] = None"
| "check_domains serviceNames seen (d # ds) =
    (let host = normalizeHost (sd_domain d) in
     if sd_service d \<notin> set serviceNames then Some (''service \"'' @ sd_service d @ ''\" does not exist in the compose file'')
     else if \<not> isValidHostname host then Some (''invalid domain: '' @ sd_domain d)
     else if (case as_int (sd_port d) of None \<Rightarrow> True | Some p \<Rightarrow> p < 1 \<or> p > 65535)
       then Some (''invalid port for domain '' @ host)
     else if host \<in> set seen then Some (''the domain '' @ host @ '' appears more than once'')
     else check_domains serviceNames (host # seen) ds)"

definition validateStackDomains :: "StackDomain list \<Rightarrow> string list \<Rightarrow> string option" where
  "validateStackDomains domains serviceNames =
    (if 20 < length domains then Some ''at most 20 domains per service'' else check_domains serviceNames [] domains)"

definition escape_label :: "string \<Rightarrow> string" where
  "escape_label s = json_str (join_str ''$$'' (split_str ''$'' s))"

definition port_number :: "jv \<Rightarrow> int" where
  "port_number v = default 0 (as_int v)"

definition stack_labels :: "string \<Rightarrow> string \<Rightarrow> StackDomain list \<Rightarrow> string list" where
  "stack_labels project name domains =
    concat (map (\<lambda>(i, d).
      if sd_service d \<noteq> name then []
      else traefikLabels (project @ ''-'' @ name @ ''-'' @ nat_str i)
             (computeRouting (normalizeHost (sd_domain d)) [] NoRedirect) (port_number (sd_port d)))
      (List.enumerate 0 domains))"

definition service_override :: "string \<Rightarrow> StackDomain list \<Rightarrow> string \<Rightarrow> string list" where
  "service_override project domains name =
    [''  '' @ name @ '':'', ''    networks:'', ''      default: {}'',
     ''      '' @ escape_label PROXY_NETWORK_NAME @ '': {}'', ''    labels:''] @
    map (\<lambda>l. ''      - '' @ escape_label l) (stack_labels project name domains)"

definition composeStackOverride :: "(string \<times> jv) list \<Rightarrow> string \<Rightarrow> StackDomain list \<Rightarrow> string" where
  "composeStackOverride services project domains =
    (let routed = filter (\<lambda>(name, def). jget ''network_mode'' def = JUndef \<and>
                            list_ex (\<lambda>d. sd_service d = name) domains) services
     in if routed = [] then ''services: {}'' @ [LF]
        else join_str [LF]
          (''services:'' # concat (map (service_override project domains \<circ> fst) routed) @
           [''networks:'', ''  '' @ escape_label PROXY_NETWORK_NAME @ '':'', ''    external: true'', []]))"

definition stackNetworkJoinCommand :: "string \<Rightarrow> string \<Rightarrow> string \<Rightarrow> string option \<Rightarrow> string" where
  "stackNetworkJoinCommand project envNetwork slug mainService =
    (let q = (\<lambda>s. [SQ] @ s @ [SQ]); main = default [] mainService in
     ''for c in $(docker ps -q --filter '' @ q (''label=com.docker.compose.project='' @ project) @ ''); do '' @
     ''s=$(docker inspect -f '' @ q ''{{index .Config.Labels \"com.docker.compose.service\"}}'' @ '' \"$c\"); '' @
     ''extra=\"\"; [ \"$s\" = '' @ q main @ '' ] && extra=\"--alias '' @ slug @ ''\"; '' @
     ''docker network disconnect -f '' @ q envNetwork @ '' \"$c\" >/dev/null 2>&1; '' @
     ''docker network connect --alias \"'' @ slug @ ''-$s\" $extra '' @ q envNetwork @ '' \"$c\" || true; '' @
     ''done'')"

record StackVolume =
  stv_key :: string
  stv_dockerName :: string

definition stack_volume :: "string \<Rightarrow> string \<times> jv \<Rightarrow> StackVolume option" where
  "stack_volume project kd =
    (case kd of (key, def) \<Rightarrow>
       if \<not> isValidComposeService key then None
       else
         let explicit = (case as_str (jget ''name'' def) of
                           Some n \<Rightarrow> if trim n \<noteq> [] then Some (trim n) else None | None \<Rightarrow> None)
         in Some \<lparr>stv_key = key,
              stv_dockerName = default (if jtruthy (jget ''external'' def) then key else project @ ''_'' @ key) explicit\<rparr>)"

definition composeNamedVolumes :: "(string \<Rightarrow> string + jv) \<Rightarrow> string \<Rightarrow> string \<Rightarrow> StackVolume list" where
  "composeNamedVolumes yaml content project =
    (case yaml content of
       Inl err \<Rightarrow> []
     | Inr doc \<Rightarrow> (case as_obj (jget ''volumes'' doc) of
         None \<Rightarrow> []
       | Some volumes \<Rightarrow> List.map_filter (stack_volume project) volumes))"

text \<open>\<open>/(?<!\$)\$\{(NAME):?\?/g\<close>: the names, in order; the flag says whether the character before is a dollar.\<close>

definition word_name :: "string \<Rightarrow> string" where
  "word_name s = (case s of [] \<Rightarrow> [] | c # _ \<Rightarrow> if key_start c then takeWhile key_char s else [])"

definition required_at :: "string \<Rightarrow> string option" where
  "required_at s =
    (if starts_with s ''${'' then
       let name = word_name (drop 2 s); rest = drop (2 + length name) s
       in if name \<noteq> [] \<and> (starts_with rest ''?'' \<or> starts_with rest '':?'') then Some name else None
     else None)"

fun required_names :: "bool \<Rightarrow> string \<Rightarrow> string list" where
  "required_names after_dollar [] = []"
| "required_names after_dollar (c # s) =
    (case (if after_dollar then None else required_at (c # s)) of
       Some name \<Rightarrow> name # required_names (c = CHR ''$'') s
     | None \<Rightarrow> required_names (c = CHR ''$'') s)"

text \<open>\<open>/^\s*(NAME)=(.*)$/\<close> on one line, with the value trimmed.\<close>

definition env_assignment :: "string \<Rightarrow> (string \<times> string) option" where
  "env_assignment line =
    (let s = trim_start line; name = word_name s; rest = drop (length name) s
     in if name \<noteq> [] \<and> starts_with rest ''='' \<and> one_line (tl rest) then Some (name, trim (tl rest)) else None)"

definition missingRequiredVars :: "string \<Rightarrow> string \<Rightarrow> string list" where
  "missingRequiredVars compose envContent =
    (let required = uniq (required_names False compose);
         values = map_of_pairs (List.map_filter env_assignment (split_lines envContent))
     in filter (\<lambda>name. \<not> str_truthy (map_of values name)) required)"

section \<open>stackFiles.ts\<close>

record StackFiles =
  stf_files :: "(string \<times> string) list"
  stf_dirs :: "string list"

definition MAX_STACK_FILES :: nat where
  "MAX_STACK_FILES = 100"

definition MAX_STACK_FILE_BYTES :: nat where
  "MAX_STACK_FILE_BYTES = 512 * 1024"

definition stack_path_char :: "char \<Rightarrow> bool" where
  "stack_path_char c \<longleftrightarrow> is_alnum c \<or> one_of ''._-/'' c"

definition isSafeStackPath :: "string \<Rightarrow> bool" where
  "isSafeStackPath path =
    (if path = [] \<or> 200 < length path \<or> starts_with path ''/'' then False
     else if \<not> list_all stack_path_char path then False
     else list_all (\<lambda>segment. segment \<noteq> [] \<and> segment \<noteq> ''.'' \<and> segment \<noteq> ''..'') (split_str ''/'' path))"

text \<open>\<open>Buffer.byteLength(content, "utf8")\<close>: a code unit from 128 to 255 takes two bytes.\<close>

definition byte_length :: "string \<Rightarrow> nat" where
  "byte_length s = sum_list (map (\<lambda>c. if code c < 128 then 1 else 2) s)"

definition validateStackFiles :: "StackFiles \<Rightarrow> string option" where
  "validateStackFiles stack =
    (let paths = map fst (stf_files stack) in
     if MAX_STACK_FILES < length paths then Some (''at most '' @ nat_str MAX_STACK_FILES @ '' files'')
     else case find (\<lambda>p. \<not> isSafeStackPath p) (paths @ stf_dirs stack) of
       Some p \<Rightarrow> Some (''invalid file path: '' @ p)
     | None \<Rightarrow> (case find (\<lambda>(p, content). MAX_STACK_FILE_BYTES < byte_length content) (stf_files stack) of
         Some (p, content) \<Rightarrow> Some (''the file '' @ p @ '' exceeds '' @ nat_str (MAX_STACK_FILE_BYTES div 1024) @ '' KB'')
       | None \<Rightarrow> None))"

text \<open>
  The environment is an ordinary object, so \<open>env[name]\<close> also finds what every object inherits; the
  replacement text is then the inherited value converted to a string, here by the runtime's \<open>inherited\<close>.
\<close>

definition env_lookup :: "(string \<Rightarrow> string option) \<Rightarrow> (string \<times> string) list \<Rightarrow> string \<Rightarrow> string option" where
  "env_lookup inherited env name = (case map_of env name of Some v \<Rightarrow> Some v | None \<Rightarrow> inherited name)"

text \<open>One match of \<open>/\$\{(NAME)(?::?-([^}]*))?\}/\<close> at the start of the text: whole, name, fallback.\<close>

definition stack_ref :: "string \<Rightarrow> (string \<times> string \<times> string option) option" where
  "stack_ref s =
    (if starts_with s ''${'' then
       let name = word_name (drop 2 s); rest = drop (2 + length name) s;
           fb = (if starts_with rest '':-'' then Some (drop 2 rest)
                 else if starts_with rest ''-'' then Some (drop 1 rest) else None)
       in if name = [] then None
          else case fb of
            None \<Rightarrow> if starts_with rest ''}'' then Some (''${'' @ name @ ''}'', name, None) else None
          | Some r \<Rightarrow>
              let body = takeWhile (\<lambda>c. c \<noteq> CHR ''}'') r in
              if starts_with (drop (length body) r) ''}''
              then Some (take (length s - length r) s @ body @ ''}'', name, Some body) else None
     else None)"

definition stack_value :: "(string \<Rightarrow> string option) \<Rightarrow> (string \<times> string) list \<Rightarrow> string \<Rightarrow> string \<Rightarrow> string option \<Rightarrow> string" where
  "stack_value inherited env whole name fallback =
    (let v = env_lookup inherited env name in
     if str_truthy v then the v
     else case fallback of Some f \<Rightarrow> f | None \<Rightarrow> (case v of Some x \<Rightarrow> x | None \<Rightarrow> whole))"

function renderStackFile :: "(string \<Rightarrow> string option) \<Rightarrow> (string \<times> string) list \<Rightarrow> string \<Rightarrow> string" where
  "renderStackFile inherited env content =
    (case content of
       [] \<Rightarrow> []
     | c # s \<Rightarrow>
         (case stack_ref content of
            Some (whole, name, fallback) \<Rightarrow>
              stack_value inherited env whole name fallback @
              renderStackFile inherited env (drop (length whole - 1) s)
          | None \<Rightarrow> c # renderStackFile inherited env s))"
  by pat_completeness auto
termination by (relation "measure (\<lambda>(i, e, c). length c)") auto

declare renderStackFile.simps [simp del]

record StackFileWrite =
  sfw_path :: string
  sfw_content :: string
  sfw_executable :: bool

definition stackFileWrites :: "(string \<Rightarrow> string option) \<Rightarrow> StackFiles \<Rightarrow> (string \<times> string) list \<Rightarrow> StackFileWrite list" where
  "stackFileWrites inherited stack env =
    map (\<lambda>path. let content = renderStackFile inherited env (the (map_of (stf_files stack) path))
                in \<lparr>sfw_path = path, sfw_content = content, sfw_executable = starts_with content ''#!''\<rparr>)
      (sort_by cmp_units (map fst (stf_files stack)))"

definition parent_dir :: "string \<Rightarrow> string option" where
  "parent_dir path = (case last_index_of (CHR ''/'') path of Some i \<Rightarrow> if 0 < i then Some (take i path) else None | None \<Rightarrow> None)"

definition stackDirsCommand :: "string \<Rightarrow> StackFiles \<Rightarrow> string" where
  "stackDirsCommand base stack =
    (let dirs = uniq (stf_dirs stack @ List.map_filter parent_dir (map fst (stf_files stack))) in
     if dirs = [] then ''true''
     else ''mkdir -p '' @ join_str '' '' (map (\<lambda>d. shellQuote (base @ ''/'' @ d)) (sort_by cmp_units dirs)))"

section \<open>Paths stay inside their directory\<close>

text \<open>How a path is resolved, segment by segment, from a directory given by its own segments.\<close>

fun resolve :: "string list \<Rightarrow> string list \<Rightarrow> string list" where
  "resolve dir [] = dir"
| "resolve dir (seg # segs) =
    (if seg = [] \<or> seg = ''.'' then resolve dir segs
     else if seg = ''..'' then resolve (butlast dir) segs
     else resolve (dir @ [seg]) segs)"

lemma resolve_inside: "''..'' \<notin> set segs \<Longrightarrow> \<exists>below. resolve dir segs = dir @ below"
proof (induction segs arbitrary: dir)
  case (Cons seg segs)
  then show ?case by (cases "seg = [] \<or> seg = ''.''") (auto, metis append.assoc append_Cons append_Nil)
qed simp

text \<open>
  C5: no accepted path leaves the directory it is joined to. For a compose file, a publish directory and
  a stack file path the resolved location lies under the base, whatever the base; and none of the three
  is an absolute path.
\<close>
theorem safe_paths_stay_inside:
  assumes "isSafeComposeFile path \<or> isSafePublishDirectory path \<or> isSafeStackPath path"
  shows "\<not> starts_with path ''/'' \<and> (\<exists>below. resolve base (split_str ''/'' path) = base @ below)"
proof (cases "isSafePublishDirectory path \<and> (path = [] \<or> path = ''.'')")
  case True
  then show ?thesis by auto
next
  case False
  with assms have "\<not> starts_with path ''/''" "''..'' \<notin> set (split_str ''/'' path)"
    by (auto simp: isSafeComposeFile_def isSafePublishDirectory_def isSafeStackPath_def
        list_all_iff split: if_splits)
  then show ?thesis by (simp add: resolve_inside)
qed

theorem safe_paths_stay_inside_witness:
  "\<not> starts_with ''deploy/./compose.yml'' ''/'' \<and>
   (\<exists>below. resolve [''opt'', ''repo''] (split_str ''/'' ''deploy/./compose.yml'') = [''opt'', ''repo''] @ below)"
proof -
  have "isSafeComposeFile ''deploy/./compose.yml''" by code_simp
  then show ?thesis using safe_paths_stay_inside by blast
qed

section \<open>Labels as Compose reads them\<close>

text \<open>
  Compose's interpolation of a scalar: \<open>$$\<close> is a dollar, any other dollar starts a variable (\<open>None\<close> here:
  the text would not come out literally).
\<close>

fun interpolate :: "string \<Rightarrow> string option" where
  "interpolate [] = Some []"
| "interpolate [c] = (if c = CHR ''$'' then None else Some [c])"
| "interpolate (c # d # s) =
    (if c = CHR ''$'' then (if d = CHR ''$'' then map_option (Cons c) (interpolate s) else None)
     else map_option (Cons c) (interpolate (d # s)))"

definition compose_reads :: "string \<Rightarrow> string option" where
  "compose_reads scalar = (case read_json_str scalar of Some (s, []) \<Rightarrow> interpolate s | _ \<Rightarrow> None)"

lemma join_split_replace: "join_str r (split_str [c] s) = replace_char c r s"
proof (induction s)
  case (Cons x s)
  have "split_str [c] s \<noteq> []" by (simp add: split_str_nonempty)
  then obtain p ps where "split_str [c] s = p # ps" by (cases "split_str [c] s") auto
  with Cons show ?case by (cases ps) (auto simp: join_str_Cons)
qed simp

lemma interpolate_plain: "c \<noteq> CHR ''$'' \<Longrightarrow> interpolate (c # s) = map_option (Cons c) (interpolate s)"
  by (cases s) simp_all

lemma interpolate_escaped: "interpolate (replace_char (CHR ''$'') ''$$'' s) = Some s"
  by (induction s) (simp_all add: interpolate_plain)

lemma interpolate_length: "interpolate s = Some t \<Longrightarrow> length t \<le> length s"
  by (induction s arbitrary: t rule: interpolate.induct) (fastforce split: if_splits)+

lemma interpolate_no_dollar: "interpolate s = Some s \<Longrightarrow> CHR ''$'' \<notin> set s"
proof (induction s rule: interpolate.induct)
  case (3 c d s)
  then show ?case using interpolate_length [of s "c # s"] by (auto split: if_splits)
qed (auto split: if_splits)

lemma compose_reads_json: "compose_reads (json_str s) = interpolate s"
  using read_json_str_inverse [of s "[]"] by (simp add: compose_reads_def)

text \<open>
  What Compose reads back from an override. In a stack override every label comes out exactly as
  written, dollars and quotes included. In the proxy override of a compose application it comes out as
  written only when it has no dollar: the escape there replaces a dollar by itself, so the
  replacement label of a www redirect, whose text holds a dollar, is never read literally.
\<close>
theorem override_labels_read_back:
  "compose_reads (escape_label label) = Some label \<and>
   (compose_reads (json_str (join_str ''$'' (split_str ''$'' label))) = Some label \<longleftrightarrow> CHR ''$'' \<notin> set label)"
proof -
  have "interpolate s = Some s" if "\<forall>c \<in> set s. c \<noteq> CHR ''$''" for s
    using that by (induction s) (simp_all add: interpolate_plain)
  then have "interpolate label = Some label \<longleftrightarrow> CHR ''$'' \<notin> set label"
    using interpolate_no_dollar by blast
  then show ?thesis
    using join_split_str [of "''$''" label]
    by (auto simp: escape_label_def join_split_replace compose_reads_json interpolate_escaped)
qed

section \<open>Domains of a stack\<close>

lemma check_domains_None:
  assumes "check_domains names seen ds = None"
  shows "(\<forall>d \<in> set ds. sd_service d \<in> set names \<and> isValidHostname (normalizeHost (sd_domain d)) \<and>
            (\<exists>p. sd_port d = JNum p \<and> 1 \<le> p \<and> p \<le> 65535)) \<and>
         distinct (map (normalizeHost \<circ> sd_domain) ds) \<and>
         set (map (normalizeHost \<circ> sd_domain) ds) \<inter> set seen = {}"
  using assms
proof (induction ds arbitrary: seen)
  case (Cons d ds)
  from Cons.prems have rest: "check_domains names (normalizeHost (sd_domain d) # seen) ds = None"
    and "sd_service d \<in> set names" "isValidHostname (normalizeHost (sd_domain d))"
      "normalizeHost (sd_domain d) \<notin> set seen"
      "\<exists>p. sd_port d = JNum p \<and> 1 \<le> p \<and> p \<le> 65535"
    by (auto simp: Let_def split: if_splits option.splits)
  with Cons.IH [OF rest] show ?case by auto
qed simp

text \<open>
  C6: domains accepted for a stack route without conflicts: each one names a service of the compose file
  and a port from 1 to 65535, is a valid hostname once normalised, and no two of them are the same
  hostname, so every router of the override answers for its own hostname.
\<close>
theorem stack_domains_valid:
  assumes "validateStackDomains domains serviceNames = None"
  shows "(\<forall>d \<in> set domains. sd_service d \<in> set serviceNames \<and> isValidHostname (normalizeHost (sd_domain d)) \<and>
            (\<exists>p. sd_port d = JNum p \<and> 1 \<le> p \<and> p \<le> 65535)) \<and>
         distinct (map (normalizeHost \<circ> sd_domain) domains) \<and> length domains \<le> 20"
  using assms check_domains_None [of serviceNames "[]" domains]
  by (auto simp: validateStackDomains_def split: if_splits)

theorem stack_domains_valid_witness:
  "let d1 = \<lparr>sd_service = ''web'', sd_domain = ''https://App.Example.com/'', sd_port = JNum 80\<rparr>;
       d2 = \<lparr>sd_service = ''api'', sd_domain = ''api.example.com'', sd_port = JNum 8080\<rparr>
   in distinct (map (normalizeHost \<circ> sd_domain) [d1, d2]) \<and> sd_service d2 \<in> set [''web'', ''api'']"
proof -
  have "validateStackDomains
     [\<lparr>sd_service = ''web'', sd_domain = ''https://App.Example.com/'', sd_port = JNum 80\<rparr>,
      \<lparr>sd_service = ''api'', sd_domain = ''api.example.com'', sd_port = JNum 8080\<rparr>] [''web'', ''api''] = None"
    by code_simp
  from stack_domains_valid [OF this] show ?thesis by (simp add: Let_def)
qed

end
