(* ===== verification/DeployCommands.thy ===== *)
theory DeployCommands
  imports Compose
begin

text \<open>
  The commands of a deployment: packages/shared/src/deployCommands.ts (the commands a user runs around
  it), apps/worker/src/jobs/deployApplication.commands.ts (clone, build, run, health wait) and
  apps/worker/src/lib/waker.commands.ts (scale to zero).

  \<open>reads_as s ws\<close> says that the shell reads the text \<open>s\<close> (which ends a word) as the literal words
  \<open>ws\<close>; it composes over concatenation, so the words of a whole command follow from its pieces.
\<close>

section \<open>Commands around a deployment\<close>

definition DEPLOY_COMMAND_MAX_LENGTH :: nat where
  "DEPLOY_COMMAND_MAX_LENGTH = 1000"

definition DEPLOY_COMMAND_TIMEOUT_SECONDS :: int where
  "DEPLOY_COMMAND_TIMEOUT_SECONDS = 600"

definition bad_command_char :: "char \<Rightarrow> bool" where
  "bad_command_char c \<longleftrightarrow> code c \<le> 8 \<or> (10 \<le> code c \<and> code c \<le> 31) \<or> code c = 127"

definition normalizeDeployCommand :: "string option \<Rightarrow> string + string option" where
  "normalizeDeployCommand input =
    (let command = trim (default [] input) in
     if command = [] then Inr None
     else if DEPLOY_COMMAND_MAX_LENGTH < length command then
       Inl (''a command can be at most '' @ nat_str DEPLOY_COMMAND_MAX_LENGTH @ '' characters'')
     else if list_ex bad_command_char command then
       Inl ''write the command on one line (chain steps with && or ;)''
     else Inr (Some command))"

record PreDeployContext =
  pdc_applicationId :: string
  pdc_imageRef :: string
  pdc_envFile :: string
  pdc_network :: string
  pdc_mirrorFlags :: string

definition preDeployContainerName :: "string \<Rightarrow> string" where
  "preDeployContainerName applicationId = ''yeah-predeploy-'' @ applicationId"

definition buildPreDeployCommand :: "string \<Rightarrow> PreDeployContext \<Rightarrow> string" where
  "buildPreDeployCommand command c =
    (let name = shellQuote (preDeployContainerName (pdc_applicationId c)) in
     ''docker rm -f '' @ name @ '' >/dev/null 2>&1; '' @
     ''timeout '' @ int_str DEPLOY_COMMAND_TIMEOUT_SECONDS @ '' docker run --rm --name '' @ name @
     '' --env-file '' @ shellQuote (pdc_envFile c) @ '' --network '' @ shellQuote (pdc_network c) @ '' '' @
     pdc_mirrorFlags c @ ''--entrypoint sh '' @ shellQuote (pdc_imageRef c) @ '' -c '' @ shellQuote command @ ''; rc=$?; '' @
     ''if [ \"$rc\" -ne 0 ]; then docker rm -f '' @ name @ '' >/dev/null 2>&1; fi; exit $rc'')"

definition buildPostDeployCommand :: "string \<Rightarrow> string \<Rightarrow> string" where
  "buildPostDeployCommand command containerName =
    ''timeout '' @ int_str DEPLOY_COMMAND_TIMEOUT_SECONDS @ '' docker exec '' @ shellQuote containerName @
    '' sh -c '' @ shellQuote command"

section \<open>Clone, health, run\<close>

definition resolveDomain :: "Application \<Rightarrow> Server \<Rightarrow> string option" where
  "resolveDomain application server =
    (if str_truthy (app_domain application) then Some (normalizeHost (the (app_domain application)))
     else if srv_proxyStatus server \<noteq> ProxyActive \<or> \<not> str_truthy (srv_wildcardDomain server) then None
     else Some (resourceSlug (app_name application) @ ''.'' @ the (srv_wildcardDomain server)))"

definition buildCloneOrPullCommand ::
  "string \<Rightarrow> string \<Rightarrow> string \<Rightarrow> string option \<Rightarrow> string option \<Rightarrow> string" where
  "buildCloneOrPullCommand appDir cloneUrl branch targetCommitSha sshKeyPath =
    (let ref = default (''origin/'' @ branch) targetCommitSha;
         sshEnv = (if str_truthy sshKeyPath
           then ''export GIT_SSH_COMMAND='' @
             shellQuote (''ssh -i '' @ the sshKeyPath @ '' -o IdentitiesOnly=yes -o StrictHostKeyChecking=accept-new'') @ '' && ''
           else [])
     in sshEnv @ ''cd '' @ shellQuote appDir @ '' && '' @
        ''(test -d repo/.git && (cd repo && git remote set-url origin '' @ shellQuote cloneUrl @
        '' && git fetch origin '' @ shellQuote branch @ '' && git reset --hard '' @ shellQuote ref @ '') '' @
        ''|| (git clone --branch '' @ shellQuote branch @ '' --single-branch '' @ shellQuote cloneUrl @
        '' repo && cd repo && git reset --hard '' @ shellQuote ref @ ''))'')"

definition health_probe :: "Application \<Rightarrow> string" where
  "health_probe application =
    (let path = int_str (app_port application) @ default [] (app_healthPath application);
         urls = [''http://127.0.0.1:'' @ path, ''http://localhost:'' @ path]
     in join_str '' || ''
          (map (\<lambda>url. ''curl -fsS '' @ url @ '' >/dev/null 2>&1 || wget -q -O /dev/null '' @ url @ '' >/dev/null 2>&1'') urls) @
        '' || exit 1'')"

definition healthFlags :: "Application \<Rightarrow> string" where
  "healthFlags application =
    (if \<not> str_truthy (app_healthPath application) then []
     else ''--health-cmd '' @ shellQuote (health_probe application) @ '' '' @
       ''--health-interval '' @ int_str (app_healthIntervalSeconds application) @ ''s '' @
       ''--health-timeout '' @ int_str (app_healthTimeoutSeconds application) @ ''s '' @
       ''--health-retries '' @ int_str (app_healthRetries application) @ '' '' @
       ''--health-start-period '' @ int_str (app_healthStartPeriodSeconds application) @ ''s '')"

definition option_words :: "Application \<Rightarrow> string list" where
  "option_words application = (case parseDockerOptions (app_dockerOptions application) of Inr args \<Rightarrow> args | Inl e \<Rightarrow> [])"

definition dockerOptionsFlags :: "Application \<Rightarrow> string" where
  "dockerOptionsFlags application =
    (if option_words application = [] then [] else join_str '' '' (map shellQuote (option_words application)) @ '' '')"

definition buildStopOldCommand :: "string \<Rightarrow> int \<Rightarrow> string" where
  "buildStopOldCommand containerName graceSeconds =
    (let name = shellQuote containerName in
     ''docker stop -t '' @ int_str (max 0 graceSeconds) @ '' '' @ name @ '' >/dev/null 2>&1; docker rm -f '' @ name @
     '' >/dev/null 2>&1 || true'')"

definition buildHealthWaitCommand :: "string \<Rightarrow> int \<Rightarrow> string" where
  "buildHealthWaitCommand containerName maxSeconds =
    (let name = shellQuote containerName; rounds = max 1 ((maxSeconds + 1) div 2); q = (\<lambda>s. [SQ] @ s @ [SQ]) in
     ''rc=2; for i in $(seq 1 '' @ int_str rounds @ ''); do '' @
     ''running=$(docker inspect -f '' @ q ''{{.State.Running}}'' @ '' '' @ name @ '' 2>/dev/null); '' @
     ''status=$(docker inspect -f '' @ q ''{{.State.Health.Status}}'' @ '' '' @ name @ '' 2>/dev/null); '' @
     ''if [ \"$status\" = healthy ]; then rc=0; break; fi; '' @
     ''if [ \"$status\" = unhealthy ] || [ \"$running\" = false ]; then rc=1; break; fi; '' @
     ''sleep 2; done; '' @
     ''if [ $rc -ne 0 ]; then echo \"healthcheck: status=$status (rc=$rc) '' @ em_dash @ '' last container log lines:\"; docker logs --tail 40 '' @
     name @ '' 2>&1; fi; exit $rc'')"

definition healthWaitSeconds :: "Application \<Rightarrow> int" where
  "healthWaitSeconds application =
    app_healthStartPeriodSeconds application + app_healthIntervalSeconds application * app_healthRetries application + 30"

definition buildRunCommand ::
  "Application \<Rightarrow> string \<Rightarrow> string \<Rightarrow> string option \<Rightarrow> ApplicationVolume list \<Rightarrow> string \<Rightarrow> string" where
  "buildRunCommand application appDir containerName domain volumes imageRef =
    (let base = ''docker run -d --name '' @ shellQuote containerName @ '' --env-file '' @ shellQuote (appDir @ ''/.env'') @ '' '' @
           LOG_ROTATION_FLAGS @ resourceLimitFlags application @ volumeFlags volumes (Some (app_id application)) @
           healthFlags application @ dockerOptionsFlags application;
         restart = ''--restart unless-stopped '' @ shellQuote imageRef
     in if \<not> str_truthy domain then
          base @ ''-p '' @ int_str (app_port application) @ '':'' @ int_str (app_port application) @ '' '' @ restart
        else base @ ''--network '' @ shellQuote PROXY_NETWORK_NAME @ '' --label traefik.enable=false '' @ restart)"

section \<open>Building the image\<close>

record BuildStep =
  bst_label :: string
  bst_command :: string

definition STATIC_BASE_IMAGE :: string where
  "STATIC_BASE_IMAGE = ''nginx:alpine''"

definition SPA_NGINX_CONF :: string where
  "SPA_NGINX_CONF =
    ''server { listen 80; root /usr/share/nginx/html; index index.html; location / { try_files $uri $uri/ /index.html; } }''"

definition staticDockerfile :: "string \<Rightarrow> bool \<Rightarrow> string" where
  "staticDockerfile publishDirectory spa =
    (let source = (if publishDirectory = [] then ''.'' else publishDirectory);
         spaStep = (if spa then ''RUN printf '' @ [SQ] @ ''%s'' @ [SQ] @ '' '' @ [SQ] @ SPA_NGINX_CONF @ [SQ] @
                      '' > /etc/nginx/conf.d/default.conf'' @ [LF] else [])
     in ''FROM '' @ STATIC_BASE_IMAGE @ [LF] @ spaStep @ ''COPY [\"'' @ source @ ''\", \"/usr/share/nginx/html\"]'' @ [LF] @
        ''EXPOSE 80'' @ [LF])"

definition env_args :: "string \<Rightarrow> string \<Rightarrow> EnvEntry list \<Rightarrow> string" where
  "env_args before after buildEnv = concat (map (\<lambda>e. before @ shellQuote (entry_line e) @ after) buildEnv)"

definition buildImageSteps :: "Application \<Rightarrow> string \<Rightarrow> string \<Rightarrow> string \<Rightarrow> EnvEntry list \<Rightarrow> BuildStep list" where
  "buildImageSteps application repoDir inlineDir imageName buildEnv =
    (let img = shellQuote imageName;
         buildArgs = env_args ''--build-arg '' '' '' buildEnv;
         railEnv = env_args '' --env '' [] buildEnv
     in case app_buildPack application of
       Image \<Rightarrow>
         [\<lparr>bst_label = ''pulling the image '' @ default ''null'' (app_dockerImage application),
           bst_command = ''docker pull '' @ shellQuote (default [] (app_dockerImage application))\<rparr>]
     | DockerfileInline \<Rightarrow>
         [\<lparr>bst_label = ''building the image (pasted Dockerfile)'',
           bst_command = ''docker build '' @ buildArgs @ ''-t '' @ img @ '' '' @ shellQuote inlineDir\<rparr>]
     | Static \<Rightarrow>
         [\<lparr>bst_label = ''building the static site ('' @
             (if app_publishDirectory application = [] then ''.'' else app_publishDirectory application) @
             '' '' @ right_arrow @ '' nginx)'',
           bst_command = ''cd '' @ shellQuote repoDir @ '' && printf %s '' @
             shellQuote (staticDockerfile (app_publishDirectory application) (app_staticSpa application)) @
             '' | docker build -t '' @ img @ '' -f - .''\<rparr>]
     | Nixpacks \<Rightarrow>
         [\<lparr>bst_label = ''ensuring nixpacks is on the server'',
           bst_command = ''command -v nixpacks >/dev/null 2>&1 || (curl -sSL https://nixpacks.com/install.sh | bash)''\<rparr>,
          \<lparr>bst_label = ''building with nixpacks (detects the language)'',
           bst_command = ''nixpacks build '' @ shellQuote repoDir @ '' --name '' @ img @ railEnv\<rparr>]
     | Railpack \<Rightarrow>
         [\<lparr>bst_label = ''ensuring railpack is on the server'',
           bst_command = ''command -v railpack >/dev/null 2>&1 || (curl -sSL https://railpack.com/install.sh | sh)''\<rparr>,
          \<lparr>bst_label = ''ensuring railpack'' @ [SQ] @ ''s BuildKit'',
           bst_command = ''(docker inspect yeah-buildkit >/dev/null 2>&1 && docker start yeah-buildkit >/dev/null 2>&1) || docker run -d --restart unless-stopped --privileged --name yeah-buildkit moby/buildkit >/dev/null''\<rparr>,
          \<lparr>bst_label = ''building with railpack (detects the language)'',
           bst_command = ''BUILDKIT_HOST=docker-container://yeah-buildkit railpack build '' @ shellQuote repoDir @
             '' --name '' @ img @ railEnv\<rparr>]
     | _ \<Rightarrow>
         [\<lparr>bst_label = ''building the image'',
           bst_command = ''cd '' @ shellQuote repoDir @ '' && docker build '' @ buildArgs @ ''-t '' @ img @ '' .''\<rparr>])"

definition composeEnvFile :: "EnvEntry list \<Rightarrow> string" where
  "composeEnvFile entries = (if entries \<noteq> [] then join_str [LF] (map entry_line entries) @ [LF] else [])"

definition COMPOSE_OVERRIDE_FILE :: string where
  "COMPOSE_OVERRIDE_FILE = ''compose.yeah.override.yml''"

definition buildComposeUpCommand :: "Application \<Rightarrow> string \<Rightarrow> string \<Rightarrow> bool \<Rightarrow> int \<Rightarrow> string" where
  "buildComposeUpCommand application appDir repoDir withOverride waitSeconds =
    (let files = ''-f '' @ shellQuote (app_composeFile application) @
           (if withOverride then '' -f '' @ shellQuote (appDir @ ''/'' @ COMPOSE_OVERRIDE_FILE) else [])
     in ''cd '' @ shellQuote repoDir @ '' && docker compose -p '' @ shellQuote (composeProjectName (app_id application)) @ '' '' @
        ''--env-file '' @ shellQuote (appDir @ ''/.env'') @ '' '' @ files @
        '' up -d --build --remove-orphans --wait --wait-timeout '' @ int_str (max 10 waitSeconds))"

section \<open>Scale to zero\<close>

definition WAKER_DIR :: string where
  "WAKER_DIR = PROXY_DIR @ ''/waker''"

definition WAKE_CONFIG_DIR :: string where
  "WAKE_CONFIG_DIR = PROXY_DIR @ ''/wake''"

definition WAKER_SCRIPT_PATH :: string where
  "WAKER_SCRIPT_PATH = WAKER_DIR @ ''/waker.cjs''"

definition WAKER_IMAGE :: string where
  "WAKER_IMAGE = ''node:22-alpine''"

definition wakeConfigPath :: "string \<Rightarrow> string" where
  "wakeConfigPath containerName = WAKE_CONFIG_DIR @ ''/'' @ containerName @ ''.json''"

definition wakerBackendUrl :: string where
  "wakerBackendUrl = ''http://'' @ WAKER_CONTAINER_NAME @ '':'' @ int_str WAKER_PORT"

text \<open>\<open>maintenance\<close> is \<open>None\<close> when the argument is left undefined.\<close>

definition wakeConfigJson ::
  "string \<Rightarrow> string list \<Rightarrow> int \<Rightarrow> int option \<Rightarrow> string option \<Rightarrow> string" where
  "wakeConfigJson containerName hs port sleepAfterMinutes maintenance =
    json_render 0 (JObj
      ([(''container'', JStr containerName), (''hosts'', JArr (map JStr hs)), (''port'', JNum port),
        (''idleSeconds'', JNum (if int_truthy sleepAfterMinutes then the sleepAfterMinutes * 60 else 0))] @
       (case maintenance of None \<Rightarrow> [] | Some m \<Rightarrow> [(''maintenance'', JObj [(''message'', JStr m)])]))) @ [LF]"

definition prepareWakerDirsCommand :: string where
  "prepareWakerDirsCommand = ''mkdir -p '' @ shellQuote WAKER_DIR @ '' '' @ shellQuote WAKE_CONFIG_DIR"

definition ensureWakerCommand :: string where
  "ensureWakerCommand =
    (let script = shellQuote WAKER_SCRIPT_PATH; next_script = shellQuote (WAKER_SCRIPT_PATH @ ''.new'');
         name = shellQuote WAKER_CONTAINER_NAME in
     ''changed=0; if ! cmp -s '' @ next_script @ '' '' @ script @ '' 2>/dev/null; then mv '' @ next_script @ '' '' @ script @
     ''; changed=1; else rm -f '' @ next_script @ ''; fi; '' @
     ''if docker inspect '' @ name @ '' >/dev/null 2>&1; then '' @
     ''if [ \"$changed\" = 1 ]; then docker restart '' @ name @ '' >/dev/null; else docker start '' @ name @
     '' >/dev/null 2>&1 || true; fi; '' @
     ''else docker run -d --name '' @ name @ '' --restart unless-stopped --network '' @ shellQuote PROXY_NETWORK_NAME @
     '' --label traefik.enable=false '' @ ''--memory 96m '' @ LOG_ROTATION_FLAGS @
     ''-v /var/run/docker.sock:/var/run/docker.sock -v '' @ shellQuote (WAKER_DIR @ '':/app:ro'') @ '' -v '' @
     shellQuote (WAKE_CONFIG_DIR @ '':/wake:ro'') @ '' '' @
     ''-e WAKER_PORT='' @ int_str WAKER_PORT @ '' '' @ shellQuote WAKER_IMAGE @ '' node /app/waker.cjs >/dev/null; fi'')"

definition removeWakeConfigCommand :: "string \<Rightarrow> string" where
  "removeWakeConfigCommand containerName = ''rm -f '' @ shellQuote (wakeConfigPath containerName)"

section \<open>The words of the run command\<close>

definition volume_words :: "Application \<Rightarrow> ApplicationVolume list \<Rightarrow> string list" where
  "volume_words application volumes =
    concat (map (\<lambda>v. [''-v'', volume_source (Some (app_id application)) v @ '':'' @ vol_mountPath v]) volumes)"

definition health_words :: "Application \<Rightarrow> string list" where
  "health_words application =
    (if \<not> str_truthy (app_healthPath application) then []
     else [''--health-cmd'', health_probe application,
           ''--health-interval'', int_str (app_healthIntervalSeconds application) @ ''s'',
           ''--health-timeout'', int_str (app_healthTimeoutSeconds application) @ ''s'',
           ''--health-retries'', int_str (app_healthRetries application),
           ''--health-start-period'', int_str (app_healthStartPeriodSeconds application) @ ''s''])"

definition exposure_words :: "Application \<Rightarrow> string option \<Rightarrow> string list" where
  "exposure_words application domain =
    (if str_truthy domain then [''--network'', PROXY_NETWORK_NAME, ''--label'', ''traefik.enable=false'']
     else [''-p'', int_str (app_port application) @ '':'' @ int_str (app_port application)])"

lemma reads_append_Cons: "reads s [x] \<Longrightarrow> reads t xs \<Longrightarrow> reads (s @ t) (x # xs)"
  using reads_append by force

lemma digit_plain: "is_digit c \<Longrightarrow> plain_char c"
  by (simp add: plain_char_def char_class_defs)

lemma alnum_plain: "is_alnum c \<Longrightarrow> plain_char c"
  by (simp add: plain_char_def)

lemma punctuation_plain: "plain_char (CHR ''-'')" "plain_char (CHR ''='')" "plain_char (CHR '':'')" "plain_char (CHR ''.'')"
  by (simp_all add: plain_char_def)

lemma digits_plain: "list_all plain_char (nat_str n)"
  using nat_str_digits [of n] by (simp add: list_all_iff digit_plain)

lemma int_str_plain: "list_all plain_char (int_str n)"
  using digits_plain by (simp add: int_str_def punctuation_plain)

lemma int_str_nonempty: "int_str n \<noteq> []"
  by (simp add: int_str_def)

lemma strip_trailing_subset: "c \<in> set (strip_trailing x s) \<Longrightarrow> c \<in> set s"
  by (auto simp: strip_trailing_def dest: set_dropWhileD)

lemma decimal_str_plain: "list_all plain_char (decimal_str d)"
proof (cases d)
  case (Decimal m e)
  have "list_all plain_char (strip_trailing (CHR ''0'') (pad_zeros e (nat_str (m mod 10 ^ e))))"
    using digits_plain digit_plain [of "CHR ''0''"]
    by (auto simp: list_all_iff pad_zeros_def char_class_defs dest!: strip_trailing_subset)
  then show ?thesis
    using digits_plain by (simp add: Decimal Let_def punctuation_plain)
qed

lemma reads_word: "list_all plain_char w \<Longrightarrow> w \<noteq> [] \<Longrightarrow> s = w @ '' '' \<Longrightarrow> reads s [lit_word w]"
  using reads_plain by simp

lemma reads_words:
  "list_all (\<lambda>w. w \<noteq> [] \<and> list_all plain_char w) ws \<Longrightarrow> ws \<noteq> [] \<Longrightarrow>
    reads (join_str '' '' ws @ '' '') (map lit_word ws)"
proof (induction ws)
  case (Cons w ws)
  then show ?case
    using reads_append_Cons [OF reads_plain [of w]] by (cases ws) (simp_all add: reads_plain)
qed simp

lemma reads_limits: "reads (resourceLimitFlags application) (map lit_word (limit_flags application))"
proof (cases "limit_flags application = []")
  case False
  have "list_all (\<lambda>w. w \<noteq> [] \<and> list_all plain_char w) (limit_flags application)"
    using int_str_plain decimal_str_plain
    by (auto simp: limit_flags_def punctuation_plain alnum_plain char_class_defs split: option.split)
  with False show ?thesis
    using reads_words [of "limit_flags application"] by (simp add: resourceLimitFlags_def Let_def)
qed (simp add: resourceLimitFlags_def)

lemma reads_volumes:
  "reads (volumeFlags volumes (Some (app_id application))) (map lit_word (volume_words application volumes))"
proof -
  have v: "reads ''-v '' [lit_word ''-v'']"
    by (rule reads_word) (simp_all add: punctuation_plain alnum_plain char_class_defs)
  have "reads (concat (map (\<lambda>v. ''-v '' @ shellQuote (volume_source (Some (app_id application)) v) @ '':'' @
                            shellQuote (vol_mountPath v) @ '' '') volumes))
          (concat (map (\<lambda>v. [lit_word ''-v'', lit_word (volume_source (Some (app_id application)) v @ '':'' @ vol_mountPath v)]) volumes))"
    by (rule reads_concat) (rule reads_append_Cons [OF v reads_quoted_pair])
  then show ?thesis
    by (cases "volumes = []") (simp_all add: volumeFlags_def volume_words_def map_concat comp_def)
qed

lemma reads_options: "reads (dockerOptionsFlags application) (map lit_word (option_words application))"
  using reads_quoteAll by (simp add: dockerOptionsFlags_def)

lemma reads_seconds: "reads (int_str n @ ''s '') [lit_word (int_str n @ ''s'')]"
  by (rule reads_word) (simp_all add: int_str_plain alnum_plain char_class_defs)

lemma reads_number: "reads (int_str n @ '' '') [lit_word (int_str n)]"
  by (rule reads_plain) (simp_all add: int_str_plain int_str_nonempty)

lemma reads_fixed:
  "reads ''docker run -d --name '' (map lit_word [''docker'', ''run'', ''-d'', ''--name''])"
  "reads ''--env-file '' [lit_word ''--env-file'']"
  "reads LOG_ROTATION_FLAGS (map lit_word [''--log-opt'', ''max-size=10m'', ''--log-opt'', ''max-file=3''])"
  "reads ''--health-cmd '' [lit_word ''--health-cmd'']"
  "reads ''--health-interval '' [lit_word ''--health-interval'']"
  "reads ''--health-timeout '' [lit_word ''--health-timeout'']"
  "reads ''--health-retries '' [lit_word ''--health-retries'']"
  "reads ''--health-start-period '' [lit_word ''--health-start-period'']"
  "reads ''-p '' [lit_word ''-p'']"
  "reads ''--network '' [lit_word ''--network'']"
  "reads ''--label traefik.enable=false '' (map lit_word [''--label'', ''traefik.enable=false''])"
  "reads ''--restart unless-stopped '' (map lit_word [''--restart'', ''unless-stopped''])"
  by (rule reads_const; code_simp)+

lemma reads_health: "reads (healthFlags application) (map lit_word (health_words application))"
proof (cases "str_truthy (app_healthPath application)")
  case True
  have "reads (healthFlags application)
    ([lit_word ''--health-cmd''] @ [lit_word (health_probe application)] @
     [lit_word ''--health-interval''] @ [lit_word (int_str (app_healthIntervalSeconds application) @ ''s'')] @
     [lit_word ''--health-timeout''] @ [lit_word (int_str (app_healthTimeoutSeconds application) @ ''s'')] @
     [lit_word ''--health-retries''] @ [lit_word (int_str (app_healthRetries application))] @
     [lit_word ''--health-start-period''] @ [lit_word (int_str (app_healthStartPeriodSeconds application) @ ''s'')])"
    using True reads_append [OF reads_fixed(4) reads_append [OF reads_quoted
        reads_append [OF reads_fixed(5) reads_append [OF reads_seconds
        reads_append [OF reads_fixed(6) reads_append [OF reads_seconds
        reads_append [OF reads_fixed(7) reads_append [OF reads_number
        reads_append [OF reads_fixed(8) reads_seconds]]]]]]]]]
    by (simp add: healthFlags_def)
  with True show ?thesis by (simp add: health_words_def)
qed (simp add: healthFlags_def health_words_def)

lemma reads_port: "reads (int_str n @ '':'' @ int_str n @ '' '') [lit_word (int_str n @ '':'' @ int_str n)]"
  by (rule reads_word) (simp_all add: int_str_plain punctuation_plain)

lemma reads_exposure:
  "reads (if \<not> str_truthy domain then ''-p '' @ int_str (app_port application) @ '':'' @ int_str (app_port application) @ '' ''
          else ''--network '' @ shellQuote PROXY_NETWORK_NAME @ '' --label traefik.enable=false '')
     (map lit_word (exposure_words application domain))"
  using reads_append [OF reads_fixed(9) reads_port, of "app_port application"]
    reads_append [OF reads_fixed(10) reads_append [OF reads_quoted [of PROXY_NETWORK_NAME] reads_fixed(11)]]
  by (auto simp: exposure_words_def)

text \<open>
  C7: the run command is one simple command with exactly the intended words. Whatever the container name,
  directories, volume sources and mount paths, health path, image and extra options of an application
  contain, the shell reads the command as the listed words, every character literal: the extra options
  appear as the words they were parsed into, and no other word, expansion or operator appears.
\<close>
theorem run_command_words:
  "sh_tokens (buildRunCommand application appDir containerName domain volumes imageRef) =
    Some (map lit_word
      ([''docker'', ''run'', ''-d'', ''--name'', containerName, ''--env-file'', appDir @ ''/.env'',
        ''--log-opt'', ''max-size=10m'', ''--log-opt'', ''max-file=3''] @
       limit_flags application @ volume_words application volumes @ health_words application @
       option_words application @ exposure_words application domain @
       [''--restart'', ''unless-stopped'', imageRef]))"
proof -
  have "reads (''docker run -d --name '' @ (shellQuote containerName @ '' '') @ ''--env-file '' @
      (shellQuote (appDir @ ''/.env'') @ '' '') @ LOG_ROTATION_FLAGS @ resourceLimitFlags application @
      volumeFlags volumes (Some (app_id application)) @ healthFlags application @ dockerOptionsFlags application @
      (if \<not> str_truthy domain then ''-p '' @ int_str (app_port application) @ '':'' @ int_str (app_port application) @ '' ''
       else ''--network '' @ shellQuote PROXY_NETWORK_NAME @ '' --label traefik.enable=false '') @
      ''--restart unless-stopped '')
    (map lit_word [''docker'', ''run'', ''-d'', ''--name''] @ [lit_word containerName] @ [lit_word ''--env-file''] @
     [lit_word (appDir @ ''/.env'')] @ map lit_word [''--log-opt'', ''max-size=10m'', ''--log-opt'', ''max-file=3''] @
     map lit_word (limit_flags application) @ map lit_word (volume_words application volumes) @
     map lit_word (health_words application) @ map lit_word (option_words application) @
     map lit_word (exposure_words application domain) @ map lit_word [''--restart'', ''unless-stopped''])"
    by (intro reads_append reads_fixed reads_quoted reads_limits reads_volumes reads_health reads_options reads_exposure)
  from sh_tokens_last_quoted [OF this, of imageRef] show ?thesis
    by (cases "str_truthy domain") (simp_all add: buildRunCommand_def)
qed

end
