(* ===== verification/GitRefs.thy ===== *)
theory GitRefs
  imports Rows JsValue
begin

text \<open>
  Where the code comes from: packages/shared/src/gitSources.ts (GitLab, Bitbucket, Gitea), preview.ts
  (pull-request previews), the clone URL of packages/github, and packages/shared/src/pending.ts (what
  changed since the last deploy). The URL parser of the runtime is a parameter where a token is put into
  a URL; base64 is the runtime's \<open>btoa\<close>, a parameter as well.
\<close>

section \<open>gitSources.ts\<close>

definition GIT_PROVIDERS :: "GitProvider list" where
  "GIT_PROVIDERS = [Gitlab, Bitbucket, Gitea]"

fun provider_label :: "GitProvider \<Rightarrow> string" where
  "provider_label Gitlab = ''GitLab''"
| "provider_label Bitbucket = ''Bitbucket''"
| "provider_label Gitea = ''Gitea / Forgejo''"

fun provider_default_url :: "GitProvider \<Rightarrow> string option" where
  "provider_default_url Gitlab = Some ''https://gitlab.com''"
| "provider_default_url Bitbucket = Some ''https://bitbucket.org''"
| "provider_default_url Gitea = None"

record GitRepoDto =
  repo_fullName :: string
  repo_defaultBranch :: string
  repo_private :: bool

definition normalizeGitBaseUrl :: "string \<Rightarrow> string" where
  "normalizeGitBaseUrl input = strip_trailing (CHR ''/'') (trim input)"

text \<open>The expression of \<open>isValidGitBaseUrl\<close> ignores case; \<open>rx_lit_i\<close> is a literal under that flag.\<close>

primrec rx_lit_i :: "string \<Rightarrow> rx" where
  "rx_lit_i [] = REps"
| "rx_lit_i (c # s) = RSeq (RCls (\<lambda>x. char_lower x = char_lower c)) (rx_lit_i s)"

definition url_path_char :: "char \<Rightarrow> bool" where
  "url_path_char c \<longleftrightarrow> is_alnum c \<or> one_of ''._~/-'' c"

definition git_base_rx :: rx where
  "git_base_rx =
    rx_seq [rx_lit_i ''http'', rx_opt (rx_lit_i ''s''), rx_lit ''://'', RCls is_alnum,
      rx_opt (RSeq (RStar (RCls (\<lambda>c. is_alnum c \<or> one_of ''.-'' c))) (RCls is_alnum)),
      rx_opt (RSeq (RCls (one_of '':'')) (rx_between 1 5 (RCls is_digit))),
      rx_opt (RSeq (RCls (one_of ''/'')) (RStar (RCls url_path_char)))]"

definition isValidGitBaseUrl :: "string \<Rightarrow> bool" where
  "isValidGitBaseUrl url \<longleftrightarrow> rx_test git_base_rx url \<and> \<not> includes_str url ''@''"

definition repo_char :: "char \<Rightarrow> bool" where
  "repo_char c \<longleftrightarrow> is_alnum c \<or> one_of ''._-'' c"

definition repo_path_rx :: rx where
  "repo_path_rx =
    RSeq (rx_plus (RCls repo_char)) (rx_plus (RSeq (RCls (one_of ''/'')) (rx_plus (RCls repo_char))))"

definition isValidGitRepoPath :: "string \<Rightarrow> bool" where
  "isValidGitRepoPath path \<longleftrightarrow> length path \<le> 255 \<and> rx_test repo_path_rx path \<and>
    \<not> list_ex (\<lambda>p. p = ''.'' \<or> p = ''..'' \<or> ends_with p ''.git'') (split_str ''/'' path)"

definition gitRepoUrl :: "string \<Rightarrow> string \<Rightarrow> string" where
  "gitRepoUrl baseUrl repoPath = normalizeGitBaseUrl baseUrl @ ''/'' @ repoPath @ ''.git''"

text \<open>
  \<open>with_credentials url user password\<close> stands for \<open>new URL(url)\<close> with its user name and password set,
  as text; it is \<open>None\<close> when the constructor throws.
\<close>

definition gitCloneUrlWithToken ::
  "(string \<Rightarrow> string \<Rightarrow> string \<Rightarrow> string option) \<Rightarrow> GitProvider \<Rightarrow> string \<Rightarrow> string \<Rightarrow> string \<Rightarrow> string \<Rightarrow> string option" where
  "gitCloneUrlWithToken with_credentials provider baseUrl username token repoPath =
    with_credentials (gitRepoUrl baseUrl repoPath) (if provider = Gitlab then ''oauth2'' else username) token"

definition array_of :: "jv \<Rightarrow> jv list" where
  "array_of v = (case v of JArr xs \<Rightarrow> xs | _ \<Rightarrow> [])"

definition str_or_main :: "jv \<Rightarrow> string" where
  "str_or_main v = (case v of JStr s \<Rightarrow> if s \<noteq> [] then s else ''main'' | _ \<Rightarrow> ''main'')"

definition repo_dto :: "string \<Rightarrow> (jv \<Rightarrow> string) \<Rightarrow> (jv \<Rightarrow> bool) \<Rightarrow> jv \<Rightarrow> GitRepoDto option" where
  "repo_dto name_key branch is_private r =
    (case as_str (jget name_key r) of
       Some n \<Rightarrow> Some \<lparr>repo_fullName = n, repo_defaultBranch = branch r, repo_private = is_private r\<rparr>
     | None \<Rightarrow> None)"

definition parseRepoList :: "GitProvider \<Rightarrow> jv \<Rightarrow> GitRepoDto list" where
  "parseRepoList provider json =
    (case provider of
       Gitlab \<Rightarrow>
         List.map_filter (repo_dto ''path_with_namespace'' (\<lambda>p. str_or_main (jget ''default_branch'' p))
           (\<lambda>p. jget ''visibility'' p \<noteq> JStr ''public'')) (array_of json)
     | Gitea \<Rightarrow>
         List.map_filter (repo_dto ''full_name'' (\<lambda>r. str_or_main (jget ''default_branch'' r))
           (\<lambda>r. jget ''private'' r \<noteq> JBool False))
           (case json of JArr xs \<Rightarrow> xs | _ \<Rightarrow> array_of (jget ''data'' json))
     | Bitbucket \<Rightarrow>
         List.map_filter (repo_dto ''full_name'' (\<lambda>r. str_or_main (jget ''name'' (jget ''mainbranch'' r)))
           (\<lambda>r. jget ''is_private'' r \<noteq> JBool False)) (array_of (jget ''values'' json)))"

record RepoListRequest =
  rlr_url :: string
  rlr_headers :: "(string \<times> string) list"

definition repoListRequest ::
  "(string \<Rightarrow> string) \<Rightarrow> GitProvider \<Rightarrow> string \<Rightarrow> string \<Rightarrow> string \<Rightarrow> RepoListRequest" where
  "repoListRequest btoa provider baseUrl username token =
    (let base = normalizeGitBaseUrl baseUrl in
     case provider of
       Gitlab \<Rightarrow> \<lparr>rlr_url = base @ ''/api/v4/projects?membership=true&simple=true&per_page=100&order_by=last_activity_at'',
                  rlr_headers = [(''PRIVATE-TOKEN'', token)]\<rparr>
     | Gitea \<Rightarrow> \<lparr>rlr_url = base @ ''/api/v1/user/repos?limit=50'', rlr_headers = [(''Authorization'', ''token '' @ token)]\<rparr>
     | Bitbucket \<Rightarrow> \<lparr>rlr_url = ''https://api.bitbucket.org/2.0/repositories?role=member&pagelen=100'',
                     rlr_headers = [(''Authorization'', ''Basic '' @ btoa (username @ '':'' @ token))]\<rparr>)"

definition cloneUrlForRepo :: "string \<Rightarrow> string \<Rightarrow> string" where
  "cloneUrlForRepo installationToken repoFullName =
    ''https://x-access-token:'' @ installationToken @ ''@github.com/'' @ repoFullName @ ''.git''"

section \<open>preview.ts\<close>

datatype PullRequestAction = Opened | Reopened | Synchronize | Closed

definition ACTIONS :: "(string \<times> PullRequestAction) list" where
  "ACTIONS = [(''opened'', Opened), (''reopened'', Reopened), (''synchronize'', Synchronize), (''closed'', Closed)]"

record PullRequestEvent =
  pr_action :: PullRequestAction
  pr_number :: int
  pr_headRef :: string
  pr_baseRef :: string
  pr_repo :: string
  pr_fromFork :: bool
  pr_installationId :: "int option"

definition parsePullRequestEvent :: "jv \<Rightarrow> PullRequestEvent option" where
  "parsePullRequestEvent payload =
    (case Option.bind (as_str (jget ''action'' payload)) (map_of ACTIONS) of
       None \<Rightarrow> None
     | Some action \<Rightarrow>
         (let repo = jget ''full_name'' (jget ''repository'' payload);
              head = jget ''head'' (jget ''pull_request'' payload);
              headRef = jget ''ref'' head;
              baseRef = jget ''ref'' (jget ''base'' (jget ''pull_request'' payload));
              headRepo = jget ''full_name'' (jget ''repo'' head)
          in case (as_int (jget ''number'' payload), as_str repo, as_str headRef, as_str baseRef) of
               (Some n, Some r, Some h, Some b) \<Rightarrow>
                 if n < 1 then None
                 else Some \<lparr>pr_action = action, pr_number = n, pr_headRef = h, pr_baseRef = b, pr_repo = r,
                        pr_fromFork = (headRepo \<noteq> JStr r), pr_installationId = as_int (jget ''id'' (jget ''installation'' payload))\<rparr>
             | _ \<Rightarrow> None))"

definition previewName :: "string \<Rightarrow> int \<Rightarrow> string" where
  "previewName parentName prNumber = parentName @ ''-pr-'' @ int_str prNumber"

definition previewDomain :: "string \<Rightarrow> int \<Rightarrow> string \<Rightarrow> string" where
  "previewDomain parentName prNumber wildcardDomain =
    ''pr-'' @ int_str prNumber @ ''-'' @ resourceSlug parentName @ ''.'' @ wildcardDomain"

definition previewCommentMarker :: "string \<Rightarrow> string" where
  "previewCommentMarker applicationId = ''<!-- yeah-preview:'' @ applicationId @ '' -->''"

definition previewCommentBody :: "string \<Rightarrow> bool \<Rightarrow> string \<Rightarrow> string option \<Rightarrow> string" where
  "previewCommentBody applicationId is_ready url commit =
    (let sha = (if str_truthy commit then '' (commit `'' @ take 7 (the commit) @ ''`)'' else []);
         body = (if is_ready then ''Preview ready'' @ sha @ '': '' @ url
                 else ''The preview deployment failed'' @ sha @ ''. Check the logs in the yeah panel.'')
     in previewCommentMarker applicationId @ [LF] @ body)"

section \<open>pending.ts\<close>

fun build_pack_str :: "BuildPack \<Rightarrow> string" where
  "build_pack_str Dockerfile = ''dockerfile''"
| "build_pack_str Static = ''static''"
| "build_pack_str Nixpacks = ''nixpacks''"
| "build_pack_str Railpack = ''railpack''"
| "build_pack_str Image = ''image''"
| "build_pack_str DockerfileInline = ''dockerfile_inline''"
| "build_pack_str DockerCompose = ''docker_compose''"

fun redirect_str :: "WwwRedirect \<Rightarrow> string" where
  "redirect_str NoRedirect = ''none''"
| "redirect_str WwwToRoot = ''www_to_root''"
| "redirect_str RootToWww = ''root_to_www''"

fun volume_kind_str :: "VolumeKind \<Rightarrow> string" where
  "volume_kind_str NamedVolume = ''volume''"
| "volume_kind_str BindVolume = ''bind''"
| "volume_kind_str FileVolume = ''file''"
| "volume_kind_str DatabaseVolume = ''database''"

definition bool_str :: "bool \<Rightarrow> string" where
  "bool_str b = (if b then ''true'' else ''false'')"

definition volume_text :: "(string \<Rightarrow> string) \<Rightarrow> ApplicationVolume \<Rightarrow> string" where
  "volume_text digest v =
    volume_kind_str (vol_kind v) @ '':'' @ vol_name v @ '':'' @ vol_mountPath v @ '':'' @ default [] (vol_hostPath v) @ '':'' @
    (if str_truthy (vol_fileContent v) then digest (the (vol_fileContent v)) else [])"

definition volumes_text :: "(string \<Rightarrow> string) \<Rightarrow> ApplicationVolume list \<Rightarrow> string" where
  "volumes_text digest volumes = join_str '','' (sort_by cmp_units (map (volume_text digest) volumes))"

text \<open>
  \<open>DEPLOY_AFFECTING_FIELDS\<close>: key, label and the text of the field's value (an absent value is the empty
  text); the fields of \<open>DIGESTED\<close> go through the digest.
\<close>

definition DEPLOY_AFFECTING_FIELDS ::
  "(string \<times> string \<times> ((string \<Rightarrow> string) \<Rightarrow> Application \<Rightarrow> ApplicationVolume list \<Rightarrow> string)) list" where
  "DEPLOY_AFFECTING_FIELDS =
    [(''repoUrl'', ''Repository'', \<lambda>d a v. app_repoUrl a),
     (''branch'', ''Branch'', \<lambda>d a v. app_branch a),
     (''githubRepo'', ''GitHub repository'', \<lambda>d a v. default [] (app_githubRepo a)),
     (''gitRepo'', ''Repository (Git source)'', \<lambda>d a v. default [] (app_gitRepo a)),
     (''buildPack'', ''Build pack'', \<lambda>d a v. build_pack_str (app_buildPack a)),
     (''dockerImage'', ''Image'', \<lambda>d a v. default [] (app_dockerImage a)),
     (''dockerfileContent'', ''Dockerfile'', \<lambda>d a v. d (default [] (app_dockerfileContent a))),
     (''publishDirectory'', ''Publish directory'', \<lambda>d a v. app_publishDirectory a),
     (''staticSpa'', ''Modo SPA'', \<lambda>d a v. bool_str (app_staticSpa a)),
     (''composeFile'', ''Compose file'', \<lambda>d a v. app_composeFile a),
     (''composeService'', ''Compose service'', \<lambda>d a v. default [] (app_composeService a)),
     (''serverId'', ''Server'', \<lambda>d a v. app_serverId a),
     (''registryId'', ''Registry'', \<lambda>d a v. default [] (app_registryId a)),
     (''registryImage'', ''Registry repository'', \<lambda>d a v. default [] (app_registryImage a)),
     (''port'', ''Port'', \<lambda>d a v. int_str (app_port a)),
     (''domain'', ''Domain'', \<lambda>d a v. default [] (app_domain a)),
     (''extraDomains'', ''Additional domains'', \<lambda>d a v. join_str '','' (sort_by cmp_units (app_extraDomains a))),
     (''wwwRedirect'', ''Redirect www'', \<lambda>d a v. redirect_str (app_wwwRedirect a)),
     (''envContent'', ''Environment variables'', \<lambda>d a v. d (app_envContent a)),
     (''healthPath'', ''Healthcheck (path)'', \<lambda>d a v. default [] (app_healthPath a)),
     (''healthIntervalSeconds'', ''Healthcheck (interval)'', \<lambda>d a v. int_str (app_healthIntervalSeconds a)),
     (''healthTimeoutSeconds'', ''Healthcheck (timeout)'', \<lambda>d a v. int_str (app_healthTimeoutSeconds a)),
     (''healthRetries'', ''Healthcheck (retries)'', \<lambda>d a v. int_str (app_healthRetries a)),
     (''healthStartPeriodSeconds'', ''Healthcheck (start period)'', \<lambda>d a v. int_str (app_healthStartPeriodSeconds a)),
     (''dockerOptions'', ''Docker options'', \<lambda>d a v. app_dockerOptions a),
     (''stopGraceSeconds'', ''Stop grace period'', \<lambda>d a v. int_str (app_stopGraceSeconds a)),
     (''memoryLimitMb'', ''Memory limit'', \<lambda>d a v. case memoryLimitMb a of Some n \<Rightarrow> int_str n | None \<Rightarrow> []),
     (''cpuLimit'', ''CPU limit'', \<lambda>d a v. case cpuLimit a of Some n \<Rightarrow> decimal_str n | None \<Rightarrow> []),
     (''volumes'', ''Persistent storage'', \<lambda>d a v. volumes_text d v)]"

definition configSnapshot ::
  "Application \<Rightarrow> ApplicationVolume list \<Rightarrow> (string \<Rightarrow> string) \<Rightarrow> (string \<times> string) list" where
  "configSnapshot app volumes digest =
    map (\<lambda>(field, label, val). (field, val digest app volumes)) DEPLOY_AFFECTING_FIELDS"

definition pendingChanges :: "(string \<times> string) list option \<Rightarrow> (string \<times> string) list \<Rightarrow> string list option" where
  "pendingChanges deployed current =
    (case deployed of
       None \<Rightarrow> None
     | Some old \<Rightarrow> Some
         (map (\<lambda>(field, label, val). label)
           (filter (\<lambda>(field, label, val). map_of old field \<noteq> None \<and> map_of old field \<noteq> map_of current field)
              DEPLOY_AFFECTING_FIELDS)))"

text \<open>Lookups in a snapshot, and the order in which changes are listed.\<close>

lemma map_of_snapshot:
  assumes "(field, label, val) \<in> set DEPLOY_AFFECTING_FIELDS"
  shows "map_of (configSnapshot app volumes digest) field = Some (val digest app volumes)"
proof -
  have "distinct (map fst DEPLOY_AFFECTING_FIELDS)"
    by (simp add: DEPLOY_AFFECTING_FIELDS_def)
  moreover have "map fst (configSnapshot app volumes digest) = map fst DEPLOY_AFFECTING_FIELDS"
    by (simp add: configSnapshot_def case_prod_unfold)
  moreover have "(field, val digest app volumes) \<in> set (configSnapshot app volumes digest)"
    using assms by (force simp: configSnapshot_def)
  ultimately show ?thesis by (metis map_of_is_SomeI)
qed

text \<open>
  The pending changes of an application. Compared with what the last deploy ran with, a setting is
  listed exactly when its text differs from the deployed one; comparing a snapshot with itself lists
  nothing, and the order in which volumes or extra domains are stored is no change.
\<close>
theorem pending_changes_exact:
  "pendingChanges (Some (configSnapshot app vols digest)) (configSnapshot app' vols' digest) =
     Some [label. (field, label, val) \<leftarrow> DEPLOY_AFFECTING_FIELDS, val digest app vols \<noteq> val digest app' vols'] \<and>
   pendingChanges (Some (configSnapshot app vols digest)) (configSnapshot app (rev vols) digest) = Some []"
proof -
  have differs: "pendingChanges (Some (configSnapshot app vols digest)) (configSnapshot app' vols' digest) =
     Some [label. (field, label, val) \<leftarrow> DEPLOY_AFFECTING_FIELDS, val digest app vols \<noteq> val digest app' vols']"
    (is "_ = Some (concat (map ?f _))") for app' vols'
  proof -
    have "filter (\<lambda>(field, label, val). map_of (configSnapshot app vols digest) field \<noteq> None \<and>
            map_of (configSnapshot app vols digest) field \<noteq> map_of (configSnapshot app' vols' digest) field) DEPLOY_AFFECTING_FIELDS
      = filter (\<lambda>(field, label, val). val digest app vols \<noteq> val digest app' vols') DEPLOY_AFFECTING_FIELDS"
      by (rule filter_cong) (auto simp: map_of_snapshot)
    moreover have "map (\<lambda>(field, label, val). label) (filter (\<lambda>(field, label, val). val digest app vols \<noteq> val digest app' vols') xs)
      = [label. (field, label, val) \<leftarrow> xs, val digest app vols \<noteq> val digest app' vols']"
      for xs :: "(string \<times> string \<times> ((string \<Rightarrow> string) \<Rightarrow> Application \<Rightarrow> ApplicationVolume list \<Rightarrow> string)) list"
      by (induction xs) auto
    ultimately show ?thesis by (simp add: pendingChanges_def)
  qed
  have "sort_by cmp_units (map (volume_text digest) (rev vols)) = sort_by cmp_units (map (volume_text digest) vols)"
    by (rule sort_units_unique) (simp add: rev_map)
  then have "volumes_text digest (rev vols) = volumes_text digest vols"
    by (simp add: volumes_text_def)
  then have "\<forall>(field, label, val) \<in> set DEPLOY_AFFECTING_FIELDS. val digest app vols = val digest app (rev vols)"
    by (simp add: DEPLOY_AFFECTING_FIELDS_def)
  then have "concat (map (\<lambda>(field, label, val). if val digest app vols \<noteq> val digest app (rev vols) then [label] else []) DEPLOY_AFFECTING_FIELDS) = []"
    by auto
  with differs [of app' vols'] differs [of app "rev vols"] show ?thesis by simp
qed

end
