(* ===== verification/Remote.thy ===== *)
theory Remote
  imports Rows
begin

text \<open>
  How a job handler of apps/worker talks to the world: SSH connections (packages/ssh), published events
  (packages/queue), notifications and log drains. A handler is an action on an explicit state; every
  external call is appended to a trace together with its outcome, and the outcome is chosen by a runtime
  parameter from the whole history. An action either returns a value or throws a message.

  \<open>keeps\<close> and \<open>adds\<close> are the two proof rules of the handlers: an action keeps an invariant of the
  state, and an action only appends effects with a property. Both compose over the combinators.
\<close>

section \<open>Outcomes and effects\<close>

datatype machine = Target | Builder

text \<open>
  A command is refused by the client with a message, or closes with an exit code (none when it was killed
  or the connection was lost) after the given chunks (with \<open>True\<close> for standard output).
\<close>

datatype outcome = ExecRejected string | ExecClosed "int option" "(string \<times> bool) list"

datatype event =
    ServerStatusEvent string ServerStatus "string option"
  | ServerProxyEvent string ProxyStatus
  | ServerMetricsEvent string decimal decimal decimal
  | ServiceStatusEvent string ServiceStatus
  | ApplicationStatusEvent string ApplicationStatus
  | DeploymentLog string string
  | DeploymentStatusEvent string DeploymentStatus
  | DatabaseStatusEvent string DatabaseStatus
  | BackupStatusEvent string string BackupExecutionStatus
  | PlatformLog string string
  | PlatformStatusEvent string PlatformOperationStatus

datatype effect =
    Connect machine string "string option"
  | Exec machine string outcome
  | WriteFile machine string string "string option"
  | Close machine
  | Publish event
  | Comment string int string string
  | Notify string string string string NotificationLevel
  | ForwardLog string "(string \<times> string) list"
  | OpenRead machine string "string option"
  | RemoveFile machine string
  | WriteStream machine string string string "string option"
  | S3Put string string "string + int"
  | S3Delete string string "string option"

record Runtime =
  rt_connect :: "effect list \<Rightarrow> machine \<Rightarrow> string \<Rightarrow> string option"
  rt_exec :: "effect list \<Rightarrow> machine \<Rightarrow> string \<Rightarrow> outcome"
  rt_write :: "effect list \<Rightarrow> machine \<Rightarrow> string \<Rightarrow> string \<Rightarrow> string option"
  rt_openRead :: "effect list \<Rightarrow> machine \<Rightarrow> string \<Rightarrow> string option"
  rt_writeStream :: "effect list \<Rightarrow> machine \<Rightarrow> string \<Rightarrow> string \<Rightarrow> string \<Rightarrow> string option"
  rt_upload :: "effect list \<Rightarrow> string \<Rightarrow> string \<Rightarrow> string + int"
  rt_s3Delete :: "effect list \<Rightarrow> string \<Rightarrow> string \<Rightarrow> string option"
  rt_now :: "effect list \<Rightarrow> int"
  rt_githubConfigured :: bool
  rt_githubToken :: "effect list \<Rightarrow> int \<Rightarrow> string + string"
  rt_withCredentials :: "string \<Rightarrow> string \<Rightarrow> string \<Rightarrow> string option"
  rt_sha256 :: "string \<Rightarrow> string"
  rt_localeCompare :: "string \<Rightarrow> string \<Rightarrow> int"
  rt_toISOString :: "int \<Rightarrow> string"
  rt_wakerScript :: string

record JobState =
  js_trace :: "effect list"
  js_log :: string

section \<open>Actions\<close>

type_synonym ('s, 'a) act = "'s \<Rightarrow> (string + 'a) \<times> 's"

definition pure :: "'a \<Rightarrow> ('s, 'a) act" where
  "pure x s = (Inr x, s)"

definition throw :: "string \<Rightarrow> ('s, 'a) act" where
  "throw e s = (Inl e, s)"

definition bind :: "('s, 'a) act \<Rightarrow> ('a \<Rightarrow> ('s, 'b) act) \<Rightarrow> ('s, 'b) act" where
  "bind m k s = (case m s of (Inl e, s') \<Rightarrow> (Inl e, s') | (Inr x, s') \<Rightarrow> k x s')"

definition andThen :: "('s, unit) act \<Rightarrow> ('s, 'b) act \<Rightarrow> ('s, 'b) act" where
  "andThen m k = bind m (\<lambda>u. k)"

primrec seqs :: "('s, unit) act list \<Rightarrow> ('s, unit) act" where
  "seqs [] = pure ()"
| "seqs (m # ms) = andThen m (seqs ms)"

definition whenA :: "bool \<Rightarrow> ('s, unit) act \<Rightarrow> ('s, unit) act" where
  "whenA b m = (if b then m else pure ())"

text \<open>\<open>m.catch(() => undefined)\<close>, and \<open>try m catch (e) h(e)\<close>.\<close>

definition ignore_errors :: "('s, unit) act \<Rightarrow> ('s, unit) act" where
  "ignore_errors m s = (case m s of (r, s') \<Rightarrow> (Inr (), s'))"

definition catch :: "('s, unit) act \<Rightarrow> (string \<Rightarrow> ('s, unit) act) \<Rightarrow> ('s, unit) act" where
  "catch m h s = (case m s of (Inl e, s') \<Rightarrow> h e s' | (Inr u, s') \<Rightarrow> (Inr u, s'))"

text \<open>\<open>try m finally f\<close>: the cleanup runs on both ways out; its own failure wins.\<close>

definition finally_do :: "('s, unit) act \<Rightarrow> ('s, unit) act \<Rightarrow> ('s, unit) act" where
  "finally_do m f s = (case m s of (r, s') \<Rightarrow> (case f s' of (Inl e, s'') \<Rightarrow> (Inl e, s'') | (Inr u, s'') \<Rightarrow> (r, s'')))"

definition modify :: "('s \<Rightarrow> 's) \<Rightarrow> ('s, unit) act" where
  "modify f s = (Inr (), f s)"

definition gets :: "('s \<Rightarrow> 'a) \<Rightarrow> ('s, 'a) act" where
  "gets f s = (Inr (f s), s)"

section \<open>External calls\<close>

definition emit :: "effect \<Rightarrow> (('x) JobState_scheme, unit) act" where
  "emit e = modify (\<lambda>s. s\<lparr>js_trace := js_trace s @ [e]\<rparr>)"

text \<open>\<open>execStream\<close>: resolves with the exit code, 0 when there is none, and the chunks it delivered.\<close>

definition execStream ::
  "Runtime \<Rightarrow> machine \<Rightarrow> string \<Rightarrow> (('x) JobState_scheme, int \<times> (string \<times> bool) list) act" where
  "execStream rt m cmd =
    bind (gets (\<lambda>s. rt_exec rt (js_trace s) m cmd)) (\<lambda>out.
      andThen (emit (Exec m cmd out))
        (case out of
           ExecRejected e \<Rightarrow> throw e
         | ExecClosed exit_code chunks \<Rightarrow> pure (default 0 exit_code, chunks)))"

definition exec_quiet :: "Runtime \<Rightarrow> machine \<Rightarrow> string \<Rightarrow> (('x) JobState_scheme, unit) act" where
  "exec_quiet rt m cmd = bind (execStream rt m cmd) (\<lambda>r. pure ())"

definition exec_stdout :: "Runtime \<Rightarrow> machine \<Rightarrow> string \<Rightarrow> (('x) JobState_scheme, string) act" where
  "exec_stdout rt m cmd =
    bind (execStream rt m cmd) (\<lambda>r. pure (concat (map fst (filter snd (snd r)))))"

definition writeRemoteFile ::
  "Runtime \<Rightarrow> machine \<Rightarrow> string \<Rightarrow> string \<Rightarrow> (('x) JobState_scheme, unit) act" where
  "writeRemoteFile rt m path content =
    bind (gets (\<lambda>s. rt_write rt (js_trace s) m path content)) (\<lambda>err.
      andThen (emit (WriteFile m path content err))
        (case err of None \<Rightarrow> pure () | Some e \<Rightarrow> throw e))"

definition connectSsh :: "Runtime \<Rightarrow> machine \<Rightarrow> string \<Rightarrow> (('x) JobState_scheme, unit) act" where
  "connectSsh rt m address =
    bind (gets (\<lambda>s. rt_connect rt (js_trace s) m address)) (\<lambda>err.
      andThen (emit (Connect m address err))
        (case err of None \<Rightarrow> pure () | Some e \<Rightarrow> throw e))"

text \<open>
  Files as streams and objects of an S3 storage: \<open>OpenRead\<close> is \<open>openRemoteReadStream\<close>, \<open>WriteStream\<close> an
  object of a storage written to a remote file, \<open>S3Put\<close> an upload with the bytes sent. Removing a remote
  file never fails.
\<close>

definition attempt :: "('x JobState_scheme \<Rightarrow> 'o) \<Rightarrow> ('o \<Rightarrow> effect) \<Rightarrow> ('o \<Rightarrow> string option) \<Rightarrow> ('x JobState_scheme, 'o) act" where
  "attempt pick eff failure =
    bind (gets pick) (\<lambda>out. andThen (emit (eff out)) (case failure out of None \<Rightarrow> pure out | Some e \<Rightarrow> throw e))"

definition openRemoteReadStream :: "Runtime \<Rightarrow> machine \<Rightarrow> string \<Rightarrow> ('x JobState_scheme, string option) act" where
  "openRemoteReadStream rt m path = attempt (\<lambda>s. rt_openRead rt (js_trace s) m path) (OpenRead m path) (\<lambda>out. out)"

definition removeRemoteFile :: "machine \<Rightarrow> string \<Rightarrow> ('x JobState_scheme, unit) act" where
  "removeRemoteFile m path = emit (RemoveFile m path)"

definition writeRemoteFileStream ::
  "Runtime \<Rightarrow> machine \<Rightarrow> string \<Rightarrow> string \<Rightarrow> string \<Rightarrow> ('x JobState_scheme, string option) act" where
  "writeRemoteFileStream rt m path storageId key =
    attempt (\<lambda>s. rt_writeStream rt (js_trace s) m path storageId key) (WriteStream m path storageId key) (\<lambda>out. out)"

definition uploadStream :: "Runtime \<Rightarrow> string \<Rightarrow> string \<Rightarrow> ('x JobState_scheme, int) act" where
  "uploadStream rt storageId key =
    bind (attempt (\<lambda>s. rt_upload rt (js_trace s) storageId key) (S3Put storageId key)
           (\<lambda>out. case out of Inl e \<Rightarrow> Some e | Inr n \<Rightarrow> None)) (\<lambda>out. pure (projr out))"

definition s3_delete :: "Runtime \<Rightarrow> string \<Rightarrow> string \<Rightarrow> ('x JobState_scheme, string option) act" where
  "s3_delete rt storageId key =
    attempt (\<lambda>s. rt_s3Delete rt (js_trace s) storageId key) (S3Delete storageId key) (\<lambda>out. out)"

text \<open>A line of a job's log in a terminal colour.\<close>

definition colored :: "string \<Rightarrow> string \<Rightarrow> string" where
  "colored sgr s = [ESC] @ ''['' @ sgr @ ''m'' @ s @ [ESC] @ ''[0m'' @ [LF]"

section \<open>Evaluation\<close>

lemmas act_defs = pure_def throw_def modify_def gets_def ignore_errors_def catch_def finally_do_def

lemma bind_simps [simp]:
  "bind (pure x) k = k x"
  "bind (throw e) k = throw e"
  "bind (gets f) k s = k (f s) s"
  "bind (modify g) k' s = k' () (g s)"
  by (simp_all add: bind_def pure_def throw_def gets_def modify_def fun_eq_iff)

lemma andThen_simps [simp]:
  "andThen (pure u) m = m"
  "andThen (throw e) m = throw e"
  "andThen (modify f) m s = m (f s)"
  by (simp_all add: andThen_def bind_def pure_def throw_def modify_def fun_eq_iff)

lemma bind_assoc: "bind (bind m k) k' = bind m (\<lambda>x. bind (k x) k')"
  by (auto simp: bind_def fun_eq_iff split: sum.splits prod.splits)

lemma snd_bind: "snd (bind m k s) = (case fst (m s) of Inl e \<Rightarrow> snd (m s) | Inr x \<Rightarrow> snd (k x (snd (m s))))"
  by (simp add: bind_def split: sum.split prod.split)

lemma fst_bind: "fst (bind m k s) = (case fst (m s) of Inl e \<Rightarrow> Inl e | Inr x \<Rightarrow> fst (k x (snd (m s))))"
  by (simp add: bind_def split: sum.split prod.split)

lemma whenA_simps [simp]: "whenA True m = m" "whenA False m = pure ()"
  by (simp_all add: whenA_def)

lemma execStream_eval:
  "execStream rt m cmd s =
    (let out = rt_exec rt (js_trace s) m cmd; s' = s\<lparr>js_trace := js_trace s @ [Exec m cmd out]\<rparr> in
     case out of ExecRejected e \<Rightarrow> (Inl e, s') | ExecClosed c chunks \<Rightarrow> (Inr (default 0 c, chunks), s'))"
  by (simp add: execStream_def emit_def gets_def bind_def andThen_def modify_def pure_def throw_def Let_def
      split: outcome.split)

section \<open>Actions that never throw\<close>

definition returns :: "('s, 'a) act \<Rightarrow> bool" where
  "returns m \<longleftrightarrow> (\<forall>s. \<exists>x. fst (m s) = Inr x)"

named_theorems returns_rules \<open>composition of actions that never throw\<close>

lemma returns_basic [returns_rules]: "returns (pure x)" "returns (gets f)" "returns (modify g)"
  by (simp_all add: returns_def pure_def gets_def modify_def)

lemma returns_bind [returns_rules]: "returns m \<Longrightarrow> (\<And>x. returns (k x)) \<Longrightarrow> returns (bind m k)"
  unfolding returns_def fst_bind by (metis (mono_tags) sum.case(2))

lemma returns_andThen [returns_rules]: "returns m \<Longrightarrow> returns k \<Longrightarrow> returns (andThen m k)"
  unfolding andThen_def by (rule returns_bind)

lemma returns_seqs [returns_rules]:
  "returns (seqs [])" "returns m \<Longrightarrow> returns (seqs ms) \<Longrightarrow> returns (seqs (m # ms))"
  by (simp_all add: returns_rules)

lemma returns_seqs_map [returns_rules]: "(\<And>x. x \<in> set xs \<Longrightarrow> returns (f x)) \<Longrightarrow> returns (seqs (map f xs))"
  by (induction xs) (simp_all add: returns_rules)

lemma returns_option [returns_rules]:
  "(x = None \<Longrightarrow> returns m) \<Longrightarrow> (\<And>y. x = Some y \<Longrightarrow> returns (k y)) \<Longrightarrow>
    returns (case x of None \<Rightarrow> m | Some y \<Rightarrow> k y)"
  by (simp split: option.split)

lemma returns_sum [returns_rules]:
  "(\<And>y. x = Inl y \<Longrightarrow> returns (h y)) \<Longrightarrow> (\<And>y. x = Inr y \<Longrightarrow> returns (k y)) \<Longrightarrow>
    returns (case x of Inl y \<Rightarrow> h y | Inr y \<Rightarrow> k y)"
  by (simp split: sum.split)

lemma returns_if [returns_rules]: "(b \<Longrightarrow> returns m) \<Longrightarrow> (\<not> b \<Longrightarrow> returns k) \<Longrightarrow> returns (if b then m else k)"
  by simp

lemma returns_whenA [returns_rules]: "(b \<Longrightarrow> returns m) \<Longrightarrow> returns (whenA b m)"
  by (simp add: whenA_def returns_rules)

lemma returns_ignore [returns_rules]: "returns (ignore_errors m)"
  by (simp add: returns_def ignore_errors_def case_prod_unfold)

lemma returns_emit [returns_rules]: "returns (emit e)"
  by (simp add: emit_def returns_rules)

lemma returns_catch: "(\<And>e. returns (h e)) \<Longrightarrow> returns (catch m h)"
  by (auto simp: returns_def catch_def case_prod_unfold split: sum.split)

lemma returns_finally: "returns m \<Longrightarrow> returns f \<Longrightarrow> returns (finally_do m f)"
  unfolding returns_def finally_do_def case_prod_unfold by (metis (mono_tags, lifting) fst_conv sum.case(2))

text \<open>What holds once an action has returned.\<close>

definition ensures :: "('s \<Rightarrow> bool) \<Rightarrow> ('s, 'a) act \<Rightarrow> bool" where
  "ensures Q m \<longleftrightarrow> (\<forall>s x. fst (m s) = Inr x \<longrightarrow> Q (snd (m s)))"

lemma ensures_bind: "(\<And>x. ensures Q (k x)) \<Longrightarrow> ensures Q (bind m k)"
  by (simp add: ensures_def fst_bind snd_bind split: sum.split)

lemma ensures_last: "ensures Q k \<Longrightarrow> ensures Q (andThen m k)"
  unfolding andThen_def by (rule ensures_bind)

lemma ensures_conj: "ensures P m \<Longrightarrow> ensures Q m \<Longrightarrow> ensures (\<lambda>s. P s \<and> Q s) m"
  by (simp add: ensures_def)

section \<open>Invariants of the state\<close>

definition keeps :: "('s \<Rightarrow> bool) \<Rightarrow> ('s, 'a) act \<Rightarrow> bool" where
  "keeps I m \<longleftrightarrow> (\<forall>s. I s \<longrightarrow> I (snd (m s)))"

named_theorems keeps_rules \<open>composition of invariants\<close>

lemma keeps_pure [keeps_rules]: "keeps I (pure x)"
  by (simp add: keeps_def pure_def)

lemma keeps_throw [keeps_rules]: "keeps I (throw e)"
  by (simp add: keeps_def throw_def)

lemma keeps_gets [keeps_rules]: "keeps I (gets f)"
  by (simp add: keeps_def gets_def)

lemma keeps_bind [keeps_rules]: "keeps I m \<Longrightarrow> (\<And>x. keeps I (k x)) \<Longrightarrow> keeps I (bind m k)"
  by (auto simp: keeps_def snd_bind split: sum.split)

lemma keeps_andThen [keeps_rules]: "keeps I m \<Longrightarrow> keeps I k \<Longrightarrow> keeps I (andThen m k)"
  by (simp add: andThen_def keeps_bind)

lemma keeps_seqs [keeps_rules]:
  "keeps I (seqs [])" "keeps I m \<Longrightarrow> keeps I (seqs ms) \<Longrightarrow> keeps I (seqs (m # ms))"
  by (simp_all add: keeps_pure keeps_andThen)

lemma keeps_seqs_map [keeps_rules]: "(\<And>x. x \<in> set xs \<Longrightarrow> keeps I (f x)) \<Longrightarrow> keeps I (seqs (map f xs))"
  by (induction xs) (simp_all add: keeps_pure keeps_andThen)

lemma keeps_if [keeps_rules]: "(b \<Longrightarrow> keeps I m) \<Longrightarrow> (\<not> b \<Longrightarrow> keeps I k) \<Longrightarrow> keeps I (if b then m else k)"
  by simp

lemma keeps_option [keeps_rules]:
  "(x = None \<Longrightarrow> keeps I m) \<Longrightarrow> (\<And>y. x = Some y \<Longrightarrow> keeps I (k y)) \<Longrightarrow>
    keeps I (case x of None \<Rightarrow> m | Some y \<Rightarrow> k y)"
  by (simp split: option.split)

lemma keeps_sum [keeps_rules]:
  "(\<And>y. x = Inl y \<Longrightarrow> keeps I (h y)) \<Longrightarrow> (\<And>y. x = Inr y \<Longrightarrow> keeps I (k y)) \<Longrightarrow>
    keeps I (case x of Inl y \<Rightarrow> h y | Inr y \<Rightarrow> k y)"
  by (simp split: sum.split)

lemma keeps_whenA [keeps_rules]: "(b \<Longrightarrow> keeps I m) \<Longrightarrow> keeps I (whenA b m)"
  by (simp add: whenA_def keeps_pure)

lemma keeps_ignore [keeps_rules]: "keeps I m \<Longrightarrow> keeps I (ignore_errors m)"
  by (simp add: keeps_def ignore_errors_def case_prod_unfold)

lemma keeps_catch [keeps_rules]: "keeps I m \<Longrightarrow> (\<And>e. keeps I (h e)) \<Longrightarrow> keeps I (catch m h)"
  by (auto simp: keeps_def catch_def case_prod_unfold split: sum.split)

lemma keeps_finally [keeps_rules]: "keeps I m \<Longrightarrow> keeps I f \<Longrightarrow> keeps I (finally_do m f)"
  by (auto simp: keeps_def finally_do_def case_prod_unfold split: sum.split)

lemma keeps_modify: "(\<And>s. I s \<Longrightarrow> I (f s)) \<Longrightarrow> keeps I (modify f)"
  by (simp add: keeps_def modify_def)

lemma ensures_kept: "ensures Q m \<Longrightarrow> keeps Q k \<Longrightarrow> ensures Q (andThen m k)"
  by (auto simp: ensures_def keeps_def andThen_def fst_bind snd_bind split: sum.splits)

text \<open>A condition established by the first action and needed by the second.\<close>

lemma keeps_andThen_given:
  assumes "keeps I m" and "\<And>s u. I s \<Longrightarrow> fst (m s) = Inr u \<Longrightarrow> H (snd (m s))"
    and "\<And>s. I s \<Longrightarrow> H s \<Longrightarrow> I (snd (k s))"
  shows "keeps I (andThen m k)"
  using assms by (auto simp: keeps_def andThen_def snd_bind split: sum.split)

text \<open>The last action of a sequence that returned.\<close>

lemma seqs_last:
  assumes "fst (seqs (ms @ [m]) s) = Inr u"
  shows "\<exists>t. seqs (ms @ [m]) s = m t"
  using assms
proof (induction ms arbitrary: s)
  case Nil
  have "seqs [m] s = m s" by (auto simp: andThen_def bind_def pure_def split: sum.split prod.split)
  then show ?case by (metis append_Nil)
next
  case (Cons k ms)
  then show ?case
    by (cases "k s"; cases "fst (k s)") (auto simp: andThen_def bind_def split: sum.splits)
qed

section \<open>Triples\<close>

text \<open>From a state with \<open>P\<close>, the action ends with \<open>Q\<close> of its value, or with \<open>E\<close> when it throws.\<close>

definition triple :: "('s \<Rightarrow> bool) \<Rightarrow> ('s, 'a) act \<Rightarrow> ('a \<Rightarrow> 's \<Rightarrow> bool) \<Rightarrow> ('s \<Rightarrow> bool) \<Rightarrow> bool" where
  "triple P m Q E \<longleftrightarrow> (\<forall>s. P s \<longrightarrow> (case fst (m s) of Inr x \<Rightarrow> Q x (snd (m s)) | Inl e \<Rightarrow> E (snd (m s))))"

lemma triple_conseq:
  "triple P m Q E \<Longrightarrow> (\<And>s. P' s \<Longrightarrow> P s) \<Longrightarrow> (\<And>x s. Q x s \<Longrightarrow> Q' x s) \<Longrightarrow> (\<And>s. E s \<Longrightarrow> E' s) \<Longrightarrow> triple P' m Q' E'"
  by (fastforce simp: triple_def split: sum.splits)

lemma triple_keeps: "keeps I m \<Longrightarrow> triple I m (\<lambda>x. I) I"
  by (simp add: triple_def keeps_def split: sum.split)

named_theorems triple_rules \<open>composition of triples\<close>

lemma triple_basic [triple_rules]:
  "(\<And>s. P s \<Longrightarrow> Q x s) \<Longrightarrow> triple P (pure x) Q E"
  "(\<And>s. P s \<Longrightarrow> E s) \<Longrightarrow> triple P (throw e) Q E"
  "(\<And>s. P s \<Longrightarrow> Q' (f s) s) \<Longrightarrow> triple P (gets f) Q' E"
  "(\<And>s. P s \<Longrightarrow> R () (g s)) \<Longrightarrow> triple P (modify g) R E"
  by (simp_all add: triple_def pure_def throw_def gets_def modify_def)

lemma triple_bind [triple_rules]:
  "triple P m R E \<Longrightarrow> (\<And>x. triple (R x) (k x) Q E) \<Longrightarrow> triple P (bind m k) Q E"
  by (fastforce simp: triple_def fst_bind snd_bind split: sum.splits)

lemma triple_andThen [triple_rules]:
  "triple P m (\<lambda>u. R) E \<Longrightarrow> triple R k Q E \<Longrightarrow> triple P (andThen m k) Q E"
  unfolding andThen_def by (rule triple_bind)

lemma triple_seqs [triple_rules]:
  "(\<And>s. P s \<Longrightarrow> Q () s) \<Longrightarrow> triple P (seqs []) Q E"
  "triple P m (\<lambda>u. R) E \<Longrightarrow> triple R (seqs ms) Q E \<Longrightarrow> triple P (seqs (m # ms)) Q E"
  by (simp_all add: triple_rules triple_andThen)

lemma triple_if [triple_rules]:
  "(b \<Longrightarrow> triple P m Q E) \<Longrightarrow> (\<not> b \<Longrightarrow> triple P k Q E) \<Longrightarrow> triple P (if b then m else k) Q E"
  by simp

lemma triple_catch:
  "triple P m Q F \<Longrightarrow> (\<And>e. triple F (h e) Q E) \<Longrightarrow> triple P (catch m h) Q E"
  by (fastforce simp: triple_def catch_def case_prod_unfold split: sum.splits)

lemma triple_finally:
  assumes "triple P m (\<lambda>u. Q) F" and "triple Q f (\<lambda>u. Q') E" and "triple F f (\<lambda>u. E) E"
  shows "triple P (finally_do m f) (\<lambda>u. Q') E"
  unfolding triple_def
proof (intro allI impI)
  fix s assume "P s"
  obtain r t where m: "m s = (r, t)" by force
  obtain r' t' where f: "f t = (r', t')" by force
  show "case fst (finally_do m f s) of Inl e \<Rightarrow> E (snd (finally_do m f s)) | Inr u \<Rightarrow> Q' (snd (finally_do m f s))"
    using assms(1) [unfolded triple_def, rule_format, OF \<open>P s\<close>] assms(2,3) [unfolded triple_def, rule_format, of t] m f
    by (cases r; cases r') (auto simp: finally_do_def)
qed

section \<open>Jobs that always settle\<close>

text \<open>
  The contract the job handlers share: a body that may fail and leaves its row settled when it does not, an
  error handler that never throws and settles the row, and a cleanup that never throws, keeps the row settled
  and closes the connection.
\<close>

locale settling =
  fixes settled :: "'s \<Rightarrow> bool" and closed :: "'s \<Rightarrow> bool"
    and body :: "('s, unit) act" and handler :: "string \<Rightarrow> ('s, unit) act" and close :: "('s, unit) act"
  assumes body_settles: "ensures settled body"
    and handler_returns: "returns (handler e)"
    and handler_settles: "ensures settled (handler e)"
    and close_returns: "returns close"
    and close_keeps: "keeps settled close"
    and close_closes: "ensures closed close"
begin

lemma settled_after: "settled (snd (catch body handler s))"
proof (cases "body s")
  case (Pair r t)
  show ?thesis
  proof (cases r)
    case (Inl e)
    have "\<exists>u. fst (handler e t) = Inr u" using handler_returns unfolding returns_def by blast
    then show ?thesis
      using handler_settles [of e] Pair Inl unfolding ensures_def by (auto simp: catch_def)
  next
    case (Inr u)
    then show ?thesis
      using body_settles [unfolded ensures_def, rule_format, of s u] Pair by (simp add: catch_def)
  qed
qed

lemma runs:
  "fst (finally_do (catch body handler) close s) = Inr () \<and> settled (snd (finally_do (catch body handler) close s)) \<and>
   closed (snd (finally_do (catch body handler) close s))"
proof -
  let ?m = "catch body handler"
  have "returns (finally_do ?m close)"
    by (intro returns_finally returns_catch handler_returns close_returns)
  then have r: "fst (finally_do ?m close s) = Inr ()"
    unfolding returns_def by (metis (full_types) old.unit.exhaust)
  have snd: "snd (finally_do ?m close s) = snd (close (snd (?m s)))"
    by (simp add: finally_do_def case_prod_unfold split: sum.split)
  have "settled (snd (close (snd (?m s))))"
    using close_keeps settled_after by (simp add: keeps_def)
  moreover have "\<exists>u. fst (close (snd (?m s))) = Inr u"
    using close_returns unfolding returns_def by blast
  then have "closed (snd (close (snd (?m s))))"
    using close_closes unfolding ensures_def by auto
  ultimately show ?thesis using r snd by simp
qed

end

lemma returns_left: "returns m \<Longrightarrow> andThen m k s = k (snd (m s))"
  unfolding returns_def andThen_def bind_def
  by (metis (no_types, lifting) case_prod_conv prod.collapse sum.case(2))

section \<open>What an action appends to the trace\<close>

definition adds :: "(effect \<Rightarrow> bool) \<Rightarrow> (('x) JobState_scheme, 'a) act \<Rightarrow> bool" where
  "adds P m \<longleftrightarrow> (\<forall>s. \<exists>es. js_trace (snd (m s)) = js_trace s @ es \<and> (\<forall>e \<in> set es. P e))"

named_theorems adds_rules \<open>composition of what is appended\<close>

lemma adds_same: "(\<And>s. js_trace (snd (m s)) = js_trace s) \<Longrightarrow> adds P m"
  by (simp add: adds_def)

lemma adds_pure [adds_rules]: "adds P (pure x)"
  by (rule adds_same) (simp add: pure_def)

lemma adds_throw [adds_rules]: "adds P (throw e)"
  by (rule adds_same) (simp add: throw_def)

lemma adds_gets [adds_rules]: "adds P (gets f)"
  by (rule adds_same) (simp add: gets_def)

lemma adds_modify: "(\<And>s. js_trace (f s) = js_trace s) \<Longrightarrow> adds P (modify f)"
  by (rule adds_same) (simp add: modify_def)

lemma adds_trans:
  assumes "\<exists>es. js_trace t = js_trace s @ es \<and> (\<forall>e \<in> set es. P e)"
    and "\<exists>es. js_trace u = js_trace t @ es \<and> (\<forall>e \<in> set es. P e)"
  shows "\<exists>es. js_trace u = js_trace s @ es \<and> (\<forall>e \<in> set es. P e)"
proof -
  from assms obtain es fs where "js_trace t = js_trace s @ es" "js_trace u = js_trace t @ fs"
    "\<forall>e \<in> set es. P e" "\<forall>e \<in> set fs. P e" by auto
  then show ?thesis by (intro exI [of _ "es @ fs"]) auto
qed

lemma adds_bind [adds_rules]:
  assumes "adds P m" and "\<And>x. adds P (k x)"
  shows "adds P (bind m k)"
  unfolding adds_def
proof
  fix s
  have m: "\<exists>es. js_trace (snd (m s)) = js_trace s @ es \<and> (\<forall>e \<in> set es. P e)"
    using assms(1) by (simp add: adds_def)
  show "\<exists>es. js_trace (snd (bind m k s)) = js_trace s @ es \<and> (\<forall>e \<in> set es. P e)"
  proof (cases "fst (m s)")
    case (Inl e)
    with m show ?thesis by (simp add: snd_bind)
  next
    case (Inr x)
    with adds_trans [OF m, of "snd (k x (snd (m s)))"] assms(2) [of x] show ?thesis
      by (simp add: snd_bind adds_def)
  qed
qed

lemma adds_andThen [adds_rules]: "adds P m \<Longrightarrow> adds P k \<Longrightarrow> adds P (andThen m k)"
  by (simp add: andThen_def adds_bind)

lemma adds_seqs [adds_rules]:
  "adds P (seqs [])" "adds P m \<Longrightarrow> adds P (seqs ms) \<Longrightarrow> adds P (seqs (m # ms))"
  by (simp_all add: adds_pure adds_andThen)

lemma adds_seqs_map [adds_rules]: "(\<And>x. x \<in> set xs \<Longrightarrow> adds P (f x)) \<Longrightarrow> adds P (seqs (map f xs))"
  by (induction xs) (simp_all add: adds_pure adds_andThen)

lemma adds_if [adds_rules]: "(b \<Longrightarrow> adds P m) \<Longrightarrow> (\<not> b \<Longrightarrow> adds P k) \<Longrightarrow> adds P (if b then m else k)"
  by simp

lemma adds_option [adds_rules]:
  "(x = None \<Longrightarrow> adds P m) \<Longrightarrow> (\<And>y. x = Some y \<Longrightarrow> adds P (k y)) \<Longrightarrow>
    adds P (case x of None \<Rightarrow> m | Some y \<Rightarrow> k y)"
  by (simp split: option.split)

lemma adds_sum [adds_rules]:
  "(\<And>y. x = Inl y \<Longrightarrow> adds P (h y)) \<Longrightarrow> (\<And>y. x = Inr y \<Longrightarrow> adds P (k y)) \<Longrightarrow>
    adds P (case x of Inl y \<Rightarrow> h y | Inr y \<Rightarrow> k y)"
  by (simp split: sum.split)

lemma adds_whenA [adds_rules]: "(b \<Longrightarrow> adds P m) \<Longrightarrow> adds P (whenA b m)"
  by (simp add: whenA_def adds_pure)

lemma adds_ignore [adds_rules]: "adds P m \<Longrightarrow> adds P (ignore_errors m)"
  by (simp add: adds_def ignore_errors_def case_prod_unfold)

lemma adds_catch [adds_rules]:
  assumes "adds P m" and "\<And>e. adds P (h e)"
  shows "adds P (catch m h)"
  unfolding adds_def
proof
  fix s
  have m: "\<exists>es. js_trace (snd (m s)) = js_trace s @ es \<and> (\<forall>e \<in> set es. P e)"
    using assms(1) by (simp add: adds_def)
  show "\<exists>es. js_trace (snd (catch m h s)) = js_trace s @ es \<and> (\<forall>e \<in> set es. P e)"
  proof (cases "m s")
    case (Pair r t)
    show ?thesis
    proof (cases r)
      case (Inl e)
      with m Pair adds_trans [of t s P "snd (h e t)"] assms(2) [of e] show ?thesis
        by (simp add: catch_def adds_def)
    next
      case (Inr u)
      with m Pair show ?thesis by (simp add: catch_def)
    qed
  qed
qed

lemma adds_finally [adds_rules]:
  assumes "adds P m" and "adds P f"
  shows "adds P (finally_do m f)"
  unfolding adds_def
proof
  fix s
  have m: "\<exists>es. js_trace (snd (m s)) = js_trace s @ es \<and> (\<forall>e \<in> set es. P e)"
    using assms(1) by (simp add: adds_def)
  have f: "\<exists>es. js_trace (snd (f t)) = js_trace t @ es \<and> (\<forall>e \<in> set es. P e)" for t
    using assms(2) by (simp add: adds_def)
  have "snd (finally_do m f s) = snd (f (snd (m s)))"
    by (simp add: finally_do_def case_prod_unfold split: sum.split)
  with adds_trans [OF m f] show "\<exists>es. js_trace (snd (finally_do m f s)) = js_trace s @ es \<and> (\<forall>e \<in> set es. P e)"
    by simp
qed

lemma adds_emit: "P e \<Longrightarrow> adds P (emit e)"
  by (simp add: adds_def emit_def modify_def)

lemma adds_execStream: "(\<And>out. P (Exec m cmd out)) \<Longrightarrow> adds P (execStream rt m cmd)"
  unfolding execStream_def by (intro adds_rules adds_emit) (auto intro: adds_rules split: outcome.split)

lemma adds_exec_quiet: "(\<And>out. P (Exec m cmd out)) \<Longrightarrow> adds P (exec_quiet rt m cmd)"
  unfolding exec_quiet_def by (intro adds_rules adds_execStream)

lemma adds_exec_stdout: "(\<And>out. P (Exec m cmd out)) \<Longrightarrow> adds P (exec_stdout rt m cmd)"
  unfolding exec_stdout_def by (intro adds_rules adds_execStream)

lemma adds_writeRemoteFile: "(\<And>err. P (WriteFile m path content err)) \<Longrightarrow> adds P (writeRemoteFile rt m path content)"
  unfolding writeRemoteFile_def by (intro adds_rules adds_emit) (auto intro: adds_rules split: option.split)

lemma adds_connectSsh: "(\<And>err. P (Connect m address err)) \<Longrightarrow> adds P (connectSsh rt m address)"
  unfolding connectSsh_def by (intro adds_rules adds_emit) (auto intro: adds_rules split: option.split)

lemma adds_attempt: "(\<And>out. P (eff out)) \<Longrightarrow> adds P (attempt pick eff failure)"
  unfolding attempt_def by (intro adds_rules adds_emit) (auto intro: adds_rules split: option.split)

lemma adds_openRemoteReadStream: "(\<And>out. P (OpenRead m path out)) \<Longrightarrow> adds P (openRemoteReadStream rt m path)"
  unfolding openRemoteReadStream_def by (rule adds_attempt)

lemma adds_removeRemoteFile: "P (RemoveFile m path) \<Longrightarrow> adds P (removeRemoteFile m path)"
  unfolding removeRemoteFile_def by (rule adds_emit)

lemma adds_writeRemoteFileStream:
  "(\<And>out. P (WriteStream m path i key out)) \<Longrightarrow> adds P (writeRemoteFileStream rt m path i key)"
  unfolding writeRemoteFileStream_def by (rule adds_attempt)

lemma adds_uploadStream: "(\<And>out. P (S3Put i key out)) \<Longrightarrow> adds P (uploadStream rt i key)"
  unfolding uploadStream_def by (intro adds_rules adds_attempt)

lemma adds_s3_delete: "(\<And>out. P (S3Delete i key out)) \<Longrightarrow> adds P (s3_delete rt i key)"
  unfolding s3_delete_def by (rule adds_attempt)

lemmas adds_calls = adds_emit adds_execStream adds_exec_quiet adds_exec_stdout adds_writeRemoteFile adds_connectSsh
  adds_openRemoteReadStream adds_removeRemoteFile adds_writeRemoteFileStream adds_uploadStream adds_s3_delete

text \<open>The calls change nothing but the trace.\<close>

definition trace_only :: "(('x) JobState_scheme \<Rightarrow> bool) \<Rightarrow> bool" where
  "trace_only I \<longleftrightarrow> (\<forall>s t. I s \<longrightarrow> I (s\<lparr>js_trace := t\<rparr>))"

lemma keeps_emit: "trace_only I \<Longrightarrow> keeps I (emit e)"
  unfolding emit_def by (rule keeps_modify) (simp add: trace_only_def)

lemma keeps_execStream: "trace_only I \<Longrightarrow> keeps I (execStream rt m cmd)"
  unfolding execStream_def by (intro keeps_rules keeps_emit) (auto intro: keeps_rules split: outcome.split)

lemma keeps_exec_quiet: "trace_only I \<Longrightarrow> keeps I (exec_quiet rt m cmd)"
  unfolding exec_quiet_def by (intro keeps_rules keeps_execStream)

lemma keeps_exec_stdout: "trace_only I \<Longrightarrow> keeps I (exec_stdout rt m cmd)"
  unfolding exec_stdout_def by (intro keeps_rules keeps_execStream)

lemma keeps_writeRemoteFile: "trace_only I \<Longrightarrow> keeps I (writeRemoteFile rt m path content)"
  unfolding writeRemoteFile_def by (intro keeps_rules keeps_emit) (auto intro: keeps_rules split: option.split)

lemma keeps_connectSsh: "trace_only I \<Longrightarrow> keeps I (connectSsh rt m address)"
  unfolding connectSsh_def by (intro keeps_rules keeps_emit) (auto intro: keeps_rules split: option.split)

lemma keeps_attempt: "trace_only I \<Longrightarrow> keeps I (attempt pick eff failure)"
  unfolding attempt_def by (intro keeps_rules keeps_emit) (auto intro: keeps_rules split: option.split)

lemma keeps_storage:
  assumes "trace_only I"
  shows "keeps I (openRemoteReadStream rt m path)" and "keeps I (removeRemoteFile m path)"
    and "keeps I (writeRemoteFileStream rt m path i key)" and "keeps I (uploadStream rt i key)" and "keeps I (s3_delete rt i key)"
  unfolding openRemoteReadStream_def removeRemoteFile_def writeRemoteFileStream_def uploadStream_def s3_delete_def
  by (intro keeps_rules keeps_attempt keeps_emit assms)+

text \<open>An invariant of the calls, from what it says of the effect they append.\<close>

lemma keeps_emit_by:
  "(\<And>s. I s \<Longrightarrow> I (s\<lparr>js_trace := js_trace s @ [e]\<rparr>)) \<Longrightarrow> keeps I (emit e)"
  unfolding emit_def by (rule keeps_modify)

lemma keeps_attempt_by:
  "(\<And>s out. I s \<Longrightarrow> I (s\<lparr>js_trace := js_trace s @ [eff out]\<rparr>)) \<Longrightarrow> keeps I (attempt pick eff failure)"
  unfolding attempt_def by (intro keeps_rules keeps_emit_by) (auto intro: keeps_rules split: option.split)

lemma keeps_execStream_by:
  "(\<And>s out. I s \<Longrightarrow> I (s\<lparr>js_trace := js_trace s @ [Exec m cmd out]\<rparr>)) \<Longrightarrow> keeps I (execStream rt m cmd)"
  unfolding execStream_def by (intro keeps_rules keeps_emit_by) (auto intro: keeps_rules split: outcome.split)

lemma keeps_writeRemoteFile_by:
  "(\<And>s err. I s \<Longrightarrow> I (s\<lparr>js_trace := js_trace s @ [WriteFile m path content err]\<rparr>)) \<Longrightarrow>
    keeps I (writeRemoteFile rt m path content)"
  unfolding writeRemoteFile_def by (intro keeps_rules keeps_emit_by) (auto intro: keeps_rules split: option.split)

lemma keeps_connectSsh_by:
  "(\<And>s err. I s \<Longrightarrow> I (s\<lparr>js_trace := js_trace s @ [Connect m address err]\<rparr>)) \<Longrightarrow>
    keeps I (connectSsh rt m address)"
  unfolding connectSsh_def by (intro keeps_rules keeps_emit_by) (auto intro: keeps_rules split: option.split)

lemmas keeps_calls =
  keeps_emit keeps_execStream keeps_exec_quiet keeps_exec_stdout keeps_writeRemoteFile keeps_connectSsh keeps_storage

section \<open>A runtime for examples\<close>

text \<open>Every command succeeds silently.\<close>

definition calm :: Runtime where
  "calm = \<lparr>rt_connect = (\<lambda>tr m a. None), rt_exec = (\<lambda>tr m cmd. ExecClosed (Some 0) []),
     rt_write = (\<lambda>tr m p c. None), rt_openRead = (\<lambda>tr m p. None), rt_writeStream = (\<lambda>tr m p i k. None),
     rt_upload = (\<lambda>tr i k. Inr 0), rt_s3Delete = (\<lambda>tr i k. None), rt_now = (\<lambda>tr. int (length tr)), rt_githubConfigured = False,
     rt_githubToken = (\<lambda>tr n. Inl ''no app''), rt_withCredentials = (\<lambda>u n t. None), rt_sha256 = (\<lambda>t. t),
     rt_localeCompare = (\<lambda>a b. 0), rt_toISOString = int_str, rt_wakerScript = []\<rparr>"

end
