(* ===== verification/Waker.thy ===== *)
theory Waker
  imports DeployCommands Remote
begin

text \<open>
  Installing the waker on a server (apps/worker/src/lib/appRouting.ts), which the deploy job and the jobs of
  services and proxies share.
\<close>

text \<open>\<open>run\<close> of appRouting.ts: a command that has to succeed.\<close>

definition run_checked :: "Runtime \<Rightarrow> machine \<Rightarrow> string \<Rightarrow> ('x JobState_scheme, unit) act" where
  "run_checked rt m command =
    bind (execStream rt m command) (\<lambda>r.
      if fst r \<noteq> 0 then throw (''command failed ('' @ int_str (fst r) @ ''): '' @ take 120 command) else pure ())"

definition installWaker :: "Runtime \<Rightarrow> ('x JobState_scheme, unit) act" where
  "installWaker rt =
    seqs [run_checked rt Target prepareWakerDirsCommand,
          writeRemoteFile rt Target (WAKER_SCRIPT_PATH @ ''.new'') (rt_wakerScript rt),
          run_checked rt Target ensureWakerCommand]"

end
