(* ===== verification/Deploy.thy ===== *)
theory Deploy
  imports GitRefs Waker
begin

text \<open>
  The deploy job: apps/worker/src/jobs/deployApplication.ts, with the routing it writes
  (apps/worker/src/lib/appRouting.ts). The handler is split along its own phases; each phase is an
  action on \<open>DState\<close>, which holds the database rows the handler writes, the log and the local
  variables that outlive a phase (the two connections, the resolved commit, the built reference).
\<close>

section \<open>State\<close>

record Db =
  db_deployments :: "Deployment list"
  db_applications :: "Application list"
  db_servers :: "Server list"
  db_registries :: "Registry list"
  db_gitSources :: "GitSource list"
  db_volumes :: "ApplicationVolume list"
  db_environments :: "Environment list"
  db_sharedVariables :: "SharedVariable list"

record DState = JobState +
  ds_db :: Db
  ds_conn :: bool
  ds_buildConn :: bool
  ds_resolvedCommit :: "string option"
  ds_builtRef :: "string option"

type_synonym 'a dact = "(DState, 'a) act"

definition set_deployment :: "string \<Rightarrow> (Deployment \<Rightarrow> Deployment) \<Rightarrow> unit dact" where
  "set_deployment i f = modify (\<lambda>s. s\<lparr>ds_db := (ds_db s)
     \<lparr>db_deployments := map (\<lambda>d. if dep_id d = i then f d else d) (db_deployments (ds_db s))\<rparr>\<rparr>)"

definition set_application :: "string \<Rightarrow> (Application \<Rightarrow> Application) \<Rightarrow> unit dact" where
  "set_application i f = modify (\<lambda>s. s\<lparr>ds_db := (ds_db s)
     \<lparr>db_applications := map (\<lambda>a. if app_id a = i then f a else a) (db_applications (ds_db s))\<rparr>\<rparr>)"

text \<open>The constants the handler computes before its \<open>try\<close> block.\<close>

record Ctx =
  cx_deploymentId :: string
  cx_application :: Application
  cx_server :: Server
  cx_volumes :: "ApplicationVolume list"
  cx_domain :: "string option"
  cx_rollbackTarget :: "string option"
  cx_fromImage :: "string option"
  cx_registry :: "Registry option"
  cx_buildServer :: "Server option"
  cx_secrets :: "string list"

definition appDir :: "Ctx \<Rightarrow> string" where
  "appDir cx = ''/opt/yeah-apps/'' @ app_id (cx_application cx)"

definition repoDir :: "Ctx \<Rightarrow> string" where
  "repoDir cx = appDir cx @ ''/repo''"

definition inlineDir :: "Ctx \<Rightarrow> string" where
  "inlineDir cx = appDir cx @ ''/inline''"

definition deployKeyPath :: "Ctx \<Rightarrow> string" where
  "deployKeyPath cx = appDir cx @ ''/.deploy_key''"

definition containerName :: "Ctx \<Rightarrow> string" where
  "containerName cx = ''yeah-app-'' @ app_id (cx_application cx)"

definition imageRef :: "Ctx \<Rightarrow> string" where
  "imageRef cx =
    (if app_buildPack (cx_application cx) = Image then default [] (app_dockerImage (cx_application cx))
     else ''yeah-app-'' @ app_id (cx_application cx))"

definition usesGit :: "Ctx \<Rightarrow> bool" where
  "usesGit cx = buildPackUsesGit (app_buildPack (cx_application cx))"

definition isRollback :: "Ctx \<Rightarrow> bool" where
  "isRollback cx \<longleftrightarrow> str_truthy (cx_rollbackTarget cx) \<or> str_truthy (cx_fromImage cx)"

definition loadSharedVariables :: "Db \<Rightarrow> Application \<Rightarrow> SharedVariableValue list" where
  "loadSharedVariables db application =
    (let projectId = (case find (\<lambda>e. envt_id e = app_environmentId application) (db_environments db) of
                        Some e \<Rightarrow> envt_projectId e | None \<Rightarrow> [])
     in map (\<lambda>r. \<lparr>sv_scope = shv_scope r, sv_key = shv_key r, sv_value = shv_value r\<rparr>)
       (filter (\<lambda>r. shv_teamId r = app_teamId application \<and>
          (shv_scope r = TeamScope \<or>
           (shv_scope r = ProjectScope \<and> shv_projectId r = Some projectId) \<or>
           (shv_scope r = EnvironmentScope \<and> shv_environmentId r = Some (app_environmentId application))))
        (db_sharedVariables db)))"

section \<open>Log and steps\<close>

definition log_line :: "string list \<Rightarrow> string \<Rightarrow> string" where
  "log_line secrets rawLine = (if secrets \<noteq> [] then redactSecrets rawLine secrets else rawLine)"

definition appendAndPublish :: "Ctx \<Rightarrow> string \<Rightarrow> unit dact" where
  "appendAndPublish cx rawLine =
    (let line = log_line (cx_secrets cx) rawLine in
     andThen (modify (\<lambda>s. s\<lparr>js_log := js_log s @ line\<rparr>))
       (emit (Publish (DeploymentLog (cx_deploymentId cx) line))))"

definition remark :: "Ctx \<Rightarrow> string \<Rightarrow> unit dact" where
  "remark cx s = appendAndPublish cx (colored ''90'' (''# '' @ s))"

definition announce :: "Ctx \<Rightarrow> string \<Rightarrow> unit dact" where
  "announce cx s = appendAndPublish cx (colored ''36'' (''$ '' @ s))"

record Step =
  st_label :: string
  st_command :: string
  st_allowFailure :: bool

definition strict :: "string \<Rightarrow> string \<Rightarrow> Step" where
  "strict label command = \<lparr>st_label = label, st_command = command, st_allowFailure = False\<rparr>"

definition runStep :: "Runtime \<Rightarrow> Ctx \<Rightarrow> machine \<Rightarrow> Step \<Rightarrow> unit dact" where
  "runStep rt cx m step =
    andThen (announce cx (st_label step))
      (bind (execStream rt m (st_command step)) (\<lambda>r.
        andThen (seqs (map (\<lambda>chunk. appendAndPublish cx (fst chunk)) (snd r)))
          (if fst r \<noteq> 0 \<and> \<not> st_allowFailure step
           then throw ([DQ] @ st_label step @ [DQ] @ '' exited with code '' @ int_str (fst r))
           else pure ())))"

definition build_steps_of :: "BuildStep list \<Rightarrow> Step list" where
  "build_steps_of steps = map (\<lambda>b. strict (bst_label b) (bst_command b)) steps"

definition finish :: "Runtime \<Rightarrow> string \<Rightarrow> DeploymentStatus \<Rightarrow> string \<Rightarrow> string option \<Rightarrow> unit dact" where
  "finish rt deploymentId status trailer log =
    bind (gets (\<lambda>s. rt_now rt (js_trace s))) (\<lambda>now.
      set_deployment deploymentId (\<lambda>d.
        let d' = d\<lparr>dep_status := status, dep_finishedAt := Some now\<rparr> in
        case log of Some l \<Rightarrow> d'\<lparr>dep_log := l @ trailer\<rparr> | None \<Rightarrow> d'))"

section \<open>Fetching the code\<close>

definition clone_url :: "Runtime \<Rightarrow> Ctx \<Rightarrow> string dact" where
  "clone_url rt cx =
    (let application = cx_application cx in
     if str_truthy (app_gitSourceId application) \<and> str_truthy (app_gitRepo application) then
       bind (gets (\<lambda>s. find (\<lambda>g. Some (gs_id g) = app_gitSourceId application) (db_gitSources (ds_db s)))) (\<lambda>source.
         case source of
           None \<Rightarrow> throw (''this application'' @ [SQ] @ ''s Git source was removed '' @ em_dash @ '' pick another one in the Source tab'')
         | Some g \<Rightarrow>
             (case gitCloneUrlWithToken (rt_withCredentials rt) (gs_provider g) (gs_baseUrl g) (gs_username g) (gs_token g)
                     (the (app_gitRepo application)) of
                None \<Rightarrow> throw ''Invalid URL'' | Some url \<Rightarrow> pure url))
     else if int_truthy (app_githubInstallationId application) \<and> str_truthy (app_githubRepo application) then
       (if \<not> rt_githubConfigured rt
        then throw ''the application uses a GitHub App, but the server has no GITHUB_APP_* configured''
        else bind (gets (\<lambda>s. rt_githubToken rt (js_trace s) (the (app_githubInstallationId application)))) (\<lambda>r.
          case r of Inl e \<Rightarrow> throw e | Inr token \<Rightarrow> pure (cloneUrlForRepo token (the (app_githubRepo application)))))
     else pure (app_repoUrl application))"

definition makeCloneOrPullStep :: "Runtime \<Rightarrow> Ctx \<Rightarrow> Step dact" where
  "makeCloneOrPullStep rt cx =
    (let application = cx_application cx in
     bind (clone_url rt cx) (\<lambda>cloneUrl.
       pure (strict
         (if str_truthy (cx_rollbackTarget cx) then ''rolling back to commit '' @ take 7 (the (cx_rollbackTarget cx))
          else ''cloning '' @
            default (default (app_repoUrl application) (app_gitRepo application)) (app_githubRepo application) @
            '' ('' @ app_branch application @ '')'')
         (buildCloneOrPullCommand (appDir cx) cloneUrl (app_branch application) (cx_rollbackTarget cx)
           (if str_truthy (app_deployKey application) then Some (deployKeyPath cx) else None)))))"

definition write_deploy_key :: "Runtime \<Rightarrow> Ctx \<Rightarrow> machine \<Rightarrow> unit dact" where
  "write_deploy_key rt cx m =
    (let key = default [] (app_deployKey (cx_application cx)) in
     whenA (str_truthy (app_deployKey (cx_application cx)))
       (seqs [announce cx ''writing the deploy key'',
              writeRemoteFile rt m (deployKeyPath cx) (if ends_with key [LF] then key else key @ [LF]),
              exec_quiet rt m (''chmod 600 '' @ shellQuote (deployKeyPath cx))]))"

definition strip_token :: "Runtime \<Rightarrow> Ctx \<Rightarrow> machine \<Rightarrow> unit dact" where
  "strip_token rt cx m =
    whenA (str_truthy (app_gitSourceId (cx_application cx)) \<or> int_truthy (app_githubInstallationId (cx_application cx)))
      (exec_quiet rt m (''git -C '' @ shellQuote (repoDir cx) @ '' remote set-url origin '' @
         shellQuote (app_repoUrl (cx_application cx))))"

definition resolve_commit :: "Runtime \<Rightarrow> Ctx \<Rightarrow> machine \<Rightarrow> unit dact" where
  "resolve_commit rt cx m =
    bind (exec_stdout rt m (''cd '' @ shellQuote (repoDir cx) @ '' && git rev-parse HEAD'')) (\<lambda>out.
      let sha = trim out in
      andThen (modify (\<lambda>s. s\<lparr>ds_resolvedCommit := (if sha \<noteq> [] then Some sha else None)\<rparr>))
        (whenA (sha \<noteq> [])
          (andThen (remark cx (''commit '' @ take 7 sha))
            (set_deployment (cx_deploymentId cx) (\<lambda>d. d\<lparr>dep_commitSha := Some sha\<rparr>)))))"

definition checkout_repo :: "Runtime \<Rightarrow> Ctx \<Rightarrow> machine \<Rightarrow> unit dact" where
  "checkout_repo rt cx m =
    seqs [write_deploy_key rt cx m,
          bind (makeCloneOrPullStep rt cx) (runStep rt cx m),
          strip_token rt cx m,
          resolve_commit rt cx m]"

definition write_dockerfile :: "Runtime \<Rightarrow> Ctx \<Rightarrow> machine \<Rightarrow> unit dact" where
  "write_dockerfile rt cx m =
    seqs [announce cx ''writing the Dockerfile'',
          exec_quiet rt m (''mkdir -p '' @ shellQuote (inlineDir cx)),
          writeRemoteFile rt m (inlineDir cx @ ''/Dockerfile'') (default [] (app_dockerfileContent (cx_application cx)))]"

definition fetch_sources :: "Runtime \<Rightarrow> Ctx \<Rightarrow> machine \<Rightarrow> unit dact" where
  "fetch_sources rt cx m =
    (if usesGit cx then checkout_repo rt cx m
     else if app_buildPack (cx_application cx) = DockerfileInline then write_dockerfile rt cx m
     else pure ())"

definition expanded_env :: "Ctx \<Rightarrow> EnvEntry list dact" where
  "expanded_env cx =
    bind (gets (\<lambda>s. expandReferences (parseEnvContent (app_envContent (cx_application cx)))
                     (loadSharedVariables (ds_db s) (cx_application cx)))) (\<lambda>r.
      if snd r \<noteq> [] then
        throw (''shared variable not found: '' @ join_str '', '' (map (\<lambda>m. ''{{'' @ m @ ''}}'') (snd r)))
      else pure (fst r))"

section \<open>Building the image\<close>

definition registry_login :: "Runtime \<Rightarrow> Ctx \<Rightarrow> machine \<Rightarrow> Registry \<Rightarrow> unit dact" where
  "registry_login rt cx m reg =
    (let passwordFile = appDir cx @ ''/.registry_pw'' in
     seqs [announce cx (''logging in to registry '' @ reg_host reg),
           writeRemoteFile rt m passwordFile (reg_password reg),
           exec_quiet rt m (''chmod 600 '' @ shellQuote passwordFile),
           runStep rt cx m (strict ''docker login'' (registryLoginCommand (reg_host reg) (reg_username reg) passwordFile))])"

fun availability_str :: "EnvAvailability \<Rightarrow> string" where
  "availability_str Runtime = ''runtime''"
| "availability_str Build = ''build''"
| "availability_str BothTimes = ''both''"

definition entry_json :: "EnvEntry \<Rightarrow> jv" where
  "entry_json e = JObj [(''key'', JStr (env_key e)), (''value'', JStr (env_value e)),
     (''availability'', JStr (availability_str (env_avail e)))]"

definition build_variant :: "Runtime \<Rightarrow> EnvEntry list \<Rightarrow> string option" where
  "build_variant rt buildEnv =
    (if buildEnv \<noteq> [] then Some (take 6 (rt_sha256 rt (json_compact (JArr (map entry_json buildEnv))))) else None)"

definition registry_reference :: "Runtime \<Rightarrow> Ctx \<Rightarrow> Registry \<Rightarrow> string \<Rightarrow> EnvEntry list \<Rightarrow> string option \<Rightarrow> string" where
  "registry_reference rt cx reg registryImage buildEnv resolvedCommit =
    registryRef (reg_host reg) registryImage
      (registryTag resolvedCommit (cx_deploymentId cx) (build_variant rt buildEnv))"

definition push_step :: "Ctx \<Rightarrow> string \<Rightarrow> Step" where
  "push_step cx ref =
    strict (''pushing the image to the registry ('' @ ref @ '')'') (registryPushCommand (containerName cx) ref)"

definition run_steps :: "Runtime \<Rightarrow> Ctx \<Rightarrow> machine \<Rightarrow> Step list \<Rightarrow> unit dact" where
  "run_steps rt cx m steps = seqs (map (runStep rt cx m) steps)"

definition image_steps :: "Ctx \<Rightarrow> EnvEntry list \<Rightarrow> Step list" where
  "image_steps cx buildEnv =
    build_steps_of (buildImageSteps (cx_application cx) (repoDir cx) (inlineDir cx) (containerName cx) buildEnv)"

text \<open>The phase on the build server: sources, image, push; it ends with that connection closed.\<close>

definition build_on_server :: "Runtime \<Rightarrow> Ctx \<Rightarrow> Server \<Rightarrow> unit dact" where
  "build_on_server rt cx buildServer =
    (let application = cx_application cx in
     case (cx_registry cx, app_registryImage application) of
       (Some reg, Some registryImage) \<Rightarrow>
         if registryImage = [] then throw (''a build server requires a registry and an image repository to be configured (Source tab)'')
         else seqs
          [connectSsh rt Builder (srv_host buildServer),
           modify (\<lambda>s. s\<lparr>ds_buildConn := True\<rparr>),
           remark cx (''building on '' @ srv_name buildServer @ '' (build server)''),
           runStep rt cx Builder (strict ''preparing the build directory'' (''mkdir -p '' @ shellQuote (appDir cx))),
           fetch_sources rt cx Builder,
           bind (expanded_env cx) (\<lambda>entries.
             let buildEnv = buildTimeEntries entries in
             andThen (registry_login rt cx Builder reg)
               (bind (gets ds_resolvedCommit) (\<lambda>resolvedCommit.
                 let ref = registry_reference rt cx reg registryImage buildEnv resolvedCommit in
                 seqs
                  [bind (execStream rt Builder (registryExistsCommand ref)) (\<lambda>r.
                     if fst r = 0 then
                       remark cx (''image '' @ ref @ '' already exists in the registry '' @ em_dash @ '' skipping build'')
                     else andThen (run_steps rt cx Builder (image_steps cx buildEnv)) (runStep rt cx Builder (push_step cx ref))),
                   ignore_errors (exec_quiet rt Builder (registryLogoutCommand (reg_host reg))),
                   emit (Close Builder),
                   modify (\<lambda>s. s\<lparr>ds_buildConn := False, ds_builtRef := Some ref\<rparr>)])))]
     | _ \<Rightarrow> throw ''a build server requires a registry and an image repository to be configured (Source tab)'')"

text \<open>The image of a deployment that builds on the target itself.\<close>

definition build_here :: "Runtime \<Rightarrow> Ctx \<Rightarrow> EnvEntry list \<Rightarrow> unit dact" where
  "build_here rt cx envEntries =
    (let application = cx_application cx; buildEnv = buildTimeEntries envEntries in
     seqs
      [case cx_registry cx of Some reg \<Rightarrow> registry_login rt cx Target reg | None \<Rightarrow> pure (),
       (case (cx_registry cx, app_registryImage application) of
          (Some reg, Some registryImage) \<Rightarrow>
            if registryImage \<noteq> [] \<and> app_buildPack application \<noteq> Image then
              bind (gets ds_resolvedCommit) (\<lambda>resolvedCommit.
                let ref = registry_reference rt cx reg registryImage buildEnv resolvedCommit in
                bind (execStream rt Target (registryExistsCommand ref)) (\<lambda>r.
                  if fst r = 0 then
                    runStep rt cx Target (strict (''reusing the already built image ('' @ ref @ '') '' @ em_dash @ '' skipping build'')
                      (registryTagLocalCommand ref (containerName cx)))
                  else andThen (run_steps rt cx Target (image_steps cx buildEnv)) (runStep rt cx Target (push_step cx ref))))
            else run_steps rt cx Target (image_steps cx buildEnv)
        | _ \<Rightarrow> run_steps rt cx Target (image_steps cx buildEnv))])"

definition obtain_image :: "Runtime \<Rightarrow> Ctx \<Rightarrow> EnvEntry list \<Rightarrow> unit dact" where
  "obtain_image rt cx envEntries =
    bind (gets ds_builtRef) (\<lambda>builtRef.
      if str_truthy (cx_fromImage cx) then
        (let fromImage = the (cx_fromImage cx) in
         runStep rt cx Target (strict (''reusing the retained image ('' @ fromImage @ '') '' @ em_dash @ '' no build'')
           (imageExistsCommand fromImage @ '' && '' @ registryTagLocalCommand fromImage (containerName cx))))
      else if str_truthy builtRef then
        seqs
         [case cx_registry cx of Some reg \<Rightarrow> registry_login rt cx Target reg | None \<Rightarrow> pure (),
          runStep rt cx Target (strict (''pulling the built image ('' @ the builtRef @ '')'') (''docker pull '' @ shellQuote (the builtRef))),
          runStep rt cx Target (strict ''preparing the local image'' (registryTagLocalCommand (the builtRef) (containerName cx)))]
      else build_here rt cx envEntries)"

section \<open>Preparing the target\<close>

definition write_file_volume :: "Runtime \<Rightarrow> Ctx \<Rightarrow> ApplicationVolume \<Rightarrow> unit dact" where
  "write_file_volume rt cx v =
    (let path = volumeFilePath (app_id (cx_application cx)) (vol_id v) in
     seqs [announce cx (''writing the file '' @ vol_mountPath v),
           exec_quiet rt Target (''mkdir -p '' @ shellQuote (appDir cx @ ''/files'') @ '' && rm -rf '' @ shellQuote path),
           writeRemoteFile rt Target path (default [] (vol_fileContent v))])"

definition write_file_volumes :: "Runtime \<Rightarrow> Ctx \<Rightarrow> unit dact" where
  "write_file_volumes rt cx =
    seqs (map (write_file_volume rt cx)
      (filter (\<lambda>v. vol_kind v = FileVolume \<and> app_buildPack (cx_application cx) \<noteq> DockerCompose) (cx_volumes cx)))"

definition prepare_target :: "Runtime \<Rightarrow> Ctx \<Rightarrow> EnvEntry list dact" where
  "prepare_target rt cx =
    andThen (seqs
      [connectSsh rt Target (srv_host (cx_server cx)),
       modify (\<lambda>s. s\<lparr>ds_conn := True\<rparr>),
       remark cx (app_name (cx_application cx) @ '' '' @ right_arrow @ '' '' @ srv_name (cx_server cx)),
       runStep rt cx Target (strict ''preparing the directory'' (''mkdir -p '' @ shellQuote (appDir cx))),
       announce cx ''writing environment variables''])
     (bind (expanded_env cx) (\<lambda>envEntries.
       andThen (seqs
         [writeRemoteFile rt Target (appDir cx @ ''/.env'') (renderRuntimeEnv envEntries),
          bind (gets ds_builtRef) (\<lambda>builtRef.
            if str_truthy builtRef \<or> str_truthy (cx_fromImage cx) then pure () else fetch_sources rt cx Target),
          write_file_volumes rt cx])
        (pure envEntries)))"

section \<open>Starting the new version\<close>

definition env_network :: "Ctx \<Rightarrow> string" where
  "env_network cx = environmentNetworkName (app_environmentId (cx_application cx))"

definition host_name :: "Ctx \<Rightarrow> string" where
  "host_name cx = internalHostName (app_name (cx_application cx))"

definition compose_override :: "Runtime \<Rightarrow> Ctx \<Rightarrow> bool dact" where
  "compose_override rt cx =
    (let application = cx_application cx in
     if str_truthy (cx_domain cx) \<and> str_truthy (app_composeService application) then
       (let domain = the (cx_domain cx); service = the (app_composeService application) in
        andThen (seqs
         [announce cx (''routing '' @ service @ '' through the proxy (https://'' @ domain @ '')''),
          writeRemoteFile rt Target (appDir cx @ ''/'' @ COMPOSE_OVERRIDE_FILE)
            (composeProxyOverride service
              (traefikLabels (containerName cx)
                (computeRouting domain (app_extraDomains application) (app_wwwRedirect application)) (app_port application)))])
         (pure True))
     else andThen
       (whenA (str_truthy (cx_domain cx))
         (appendAndPublish cx (colored ''33'' (''# a domain is set, but no compose service was chosen to receive it '' @ em_dash @ '' no proxy routing''))))
       (pure False))"

definition start_compose :: "Runtime \<Rightarrow> Ctx \<Rightarrow> EnvEntry list \<Rightarrow> unit dact" where
  "start_compose rt cx envEntries =
    (let application = cx_application cx in
     seqs
      [writeRemoteFile rt Target (repoDir cx @ ''/.env'') (composeEnvFile envEntries),
       writeRemoteFile rt Target (appDir cx @ ''/.env'') (composeEnvFile envEntries),
       bind (compose_override rt cx) (\<lambda>withOverride.
         runStep rt cx Target (strict (''starting the compose project ('' @ app_composeFile application @ '')'')
           (buildComposeUpCommand application (appDir cx) (repoDir cx) withOverride (healthWaitSeconds application)))),
       runStep rt cx Target (strict (''joining the environment network ('' @ host_name cx @ '')'')
         (ensureNetworkCommand (env_network cx) @ '' && '' @
          stackNetworkJoinCommand (composeProjectName (app_id application)) (env_network cx) (host_name cx)
            (app_composeService application)))])"

definition pre_deploy_command :: "Ctx \<Rightarrow> string" where
  "pre_deploy_command cx =
    (let application = cx_application cx in
     buildPreDeployCommand (the (app_preDeployCommand application))
       \<lparr>pdc_applicationId = app_id application, pdc_imageRef = imageRef cx, pdc_envFile = appDir cx @ ''/.env'',
        pdc_network = env_network cx,
        pdc_mirrorFlags = resourceLimitFlags application @ volumeFlags (cx_volumes cx) (Some (app_id application))\<rparr>)"

definition pre_deploy :: "Runtime \<Rightarrow> Ctx \<Rightarrow> unit dact" where
  "pre_deploy rt cx =
    whenA (str_truthy (app_preDeployCommand (cx_application cx)) \<and> \<not> isRollback cx)
      (runStep rt cx Target
        (strict (''running the pre-deploy command: '' @ the (app_preDeployCommand (cx_application cx))) (pre_deploy_command cx)))"

definition removeOldStep :: "Ctx \<Rightarrow> Step" where
  "removeOldStep cx =
    \<lparr>st_label = ''stopping the previous container (up to '' @ int_str (app_stopGraceSeconds (cx_application cx)) @ ''s grace period)'',
     st_command = buildStopOldCommand (containerName cx) (app_stopGraceSeconds (cx_application cx)),
     st_allowFailure = True\<rparr>"

definition runStepDef :: "Ctx \<Rightarrow> Step" where
  "runStepDef cx =
    strict (if str_truthy (cx_domain cx) then ''starting the container (https://'' @ the (cx_domain cx) @ '')''
            else ''starting the container'')
      (buildRunCommand (cx_application cx) (appDir cx) (containerName cx) (cx_domain cx) (cx_volumes cx) (imageRef cx))"

definition join_network_step :: "Ctx \<Rightarrow> Step" where
  "join_network_step cx =
    strict (''joining the environment network ('' @ host_name cx @ '')'')
      (ensureNetworkCommand (env_network cx) @ '' && docker network connect --alias '' @ shellQuote (host_name cx) @ '' '' @
       shellQuote (env_network cx) @ '' '' @ shellQuote (containerName cx))"

definition keep_image :: "Runtime \<Rightarrow> Ctx \<Rightarrow> unit dact" where
  "keep_image rt cx =
    whenA (0 < app_rollbackImages (cx_application cx) \<and> app_buildPack (cx_application cx) \<noteq> Image)
      (runStep rt cx Target (strict ''keeping the image for rollback''
        (tagDeploymentImageCommand (app_id (cx_application cx)) (cx_deploymentId cx))))"

text \<open>Replacing the container: nothing before \<open>removeOldStep\<close> touches the old one.\<close>

definition replace_container :: "Runtime \<Rightarrow> Ctx \<Rightarrow> unit dact" where
  "replace_container rt cx =
    seqs [runStep rt cx Target (removeOldStep cx),
          runStep rt cx Target (runStepDef cx),
          runStep rt cx Target (join_network_step cx)]"

definition start_container :: "Runtime \<Rightarrow> Ctx \<Rightarrow> EnvEntry list \<Rightarrow> unit dact" where
  "start_container rt cx envEntries =
    seqs [obtain_image rt cx envEntries, keep_image rt cx, pre_deploy rt cx, replace_container rt cx]"

section \<open>Routing\<close>

definition basic_auth_of :: "Application \<Rightarrow> BasicAuth option" where
  "basic_auth_of application =
    (if str_truthy (app_basicAuthUser application) \<and> str_truthy (app_basicAuthHash application)
     then Some \<lparr>ba_user = the (app_basicAuthUser application), ba_hash = the (app_basicAuthHash application)\<rparr> else None)"

definition dynamic_path :: "string \<Rightarrow> string" where
  "dynamic_path name = PROXY_DIR @ ''/dynamic/'' @ name @ ''.yml''"

definition writeAppRouting :: "Runtime \<Rightarrow> Application \<Rightarrow> string \<Rightarrow> string option \<Rightarrow> unit dact" where
  "writeAppRouting rt application name domain =
    (if \<not> str_truthy domain then
       exec_quiet rt Target (''rm -f '' @ shellQuote (dynamic_path name) @ '' '' @ shellQuote (wakeConfigPath name) @
         ''; docker start '' @ shellQuote name @ '' >/dev/null 2>&1 || true'')
     else
       (let routing = computeRouting (the domain) (app_extraDomains application) (app_wwwRedirect application);
            auth = basic_auth_of application
        in if int_truthy (app_sleepAfterMinutes application) \<or> app_maintenanceMode application then
             seqs [installWaker rt,
                   writeRemoteFile rt Target (wakeConfigPath name)
                     (wakeConfigJson name (hosts routing) (app_port application) (app_sleepAfterMinutes application)
                       (if app_maintenanceMode application then Some (default [] (app_maintenanceMessage application)) else None)),
                   writeRemoteFile rt Target (dynamic_path name)
                     (traefikDynamicConfig name routing (app_port application)
                       \<lparr>backendUrl = Some wakerBackendUrl, basicAuth = auth\<rparr>)]
           else
             seqs [writeRemoteFile rt Target (dynamic_path name)
                     (traefikDynamicConfig name routing (app_port application) \<lparr>backendUrl = None, basicAuth = auth\<rparr>),
                   exec_quiet rt Target (removeWakeConfigCommand name @ ''; docker start '' @ shellQuote name @
                     '' >/dev/null 2>&1 || true'')]))"

section \<open>After the start\<close>

definition deployment_like :: "Runtime \<Rightarrow> string \<Rightarrow> Deployment \<Rightarrow> DeploymentLike" where
  "deployment_like rt current d =
    \<lparr>dl_id = dep_id d,
     dl_status = (if dep_id d = current then ''success''
       else case dep_status d of DepQueued \<Rightarrow> ''queued'' | DepRunning \<Rightarrow> ''running'' | DepSuccess \<Rightarrow> ''success''
            | DepFailed \<Rightarrow> ''failed''),
     dl_commitSha = dep_commitSha d, dl_createdAt = rt_toISOString rt (dep_createdAt d)\<rparr>"

definition trimRollbackImages :: "Runtime \<Rightarrow> Ctx \<Rightarrow> unit dact" where
  "trimRollbackImages rt cx =
    (let applicationId = app_id (cx_application cx); keep = app_rollbackImages (cx_application cx) in
     bind (gets (\<lambda>s. take 200 (sort_by (descending (cmp_key dep_createdAt))
             (filter (\<lambda>d. dep_applicationId d = applicationId) (db_deployments (ds_db s)))))) (\<lambda>rows.
     bind (exec_stdout rt Target (appImagesCommand applicationId)) (\<lambda>output.
       let retained = deploymentsToRetain (rt_localeCompare rt) (map (deployment_like rt (cx_deploymentId cx)) rows) keep in
       case removeRefsCommand (staleDeploymentRefs (parseAppImages output applicationId) retained) of
         None \<Rightarrow> pure ()
       | Some command \<Rightarrow>
           andThen (remark cx (''removing the images of older deployments (keeping the last '' @ int_str keep @ '')''))
             (exec_quiet rt Target command))))"

definition wait_healthy :: "Runtime \<Rightarrow> Ctx \<Rightarrow> unit dact" where
  "wait_healthy rt cx =
    (let application = cx_application cx in
     whenA (str_truthy (app_healthPath application) \<and> app_buildPack application \<noteq> DockerCompose)
       (runStep rt cx Target (strict (''waiting for the healthcheck ('' @ the (app_healthPath application) @ '')'')
         (buildHealthWaitCommand (containerName cx) (healthWaitSeconds application)))))"

definition post_deploy :: "Runtime \<Rightarrow> Ctx \<Rightarrow> unit dact" where
  "post_deploy rt cx =
    (let application = cx_application cx in
     whenA (str_truthy (app_postDeployCommand application) \<and> app_buildPack application \<noteq> DockerCompose \<and> \<not> isRollback cx)
       (runStep rt cx Target
         \<lparr>st_label = ''running the post-deploy command: '' @ the (app_postDeployCommand application),
          st_command = buildPostDeployCommand (the (app_postDeployCommand application)) (containerName cx),
          st_allowFailure = True\<rparr>))"

definition trim_images :: "Runtime \<Rightarrow> Ctx \<Rightarrow> unit dact" where
  "trim_images rt cx =
    (let application = cx_application cx in
     whenA (0 < app_rollbackImages application \<and> app_buildPack application \<noteq> Image \<and> app_buildPack application \<noteq> DockerCompose)
       (ignore_errors (trimRollbackImages rt cx)))"

text \<open>Tells the pull request where its preview is; whatever goes wrong is only printed.\<close>

definition commentOnPreview :: "Runtime \<Rightarrow> Application \<Rightarrow> bool \<Rightarrow> string option \<Rightarrow> unit dact" where
  "commentOnPreview rt application is_ready commit =
    whenA (str_truthy (app_previewOfId application) \<and> int_truthy (app_prNumber application) \<and>
           str_truthy (app_githubRepo application) \<and> int_truthy (app_githubInstallationId application) \<and>
           rt_githubConfigured rt)
      (bind (gets (\<lambda>s. rt_githubToken rt (js_trace s) (the (app_githubInstallationId application)))) (\<lambda>r.
        case r of
          Inl e \<Rightarrow> pure ()
        | Inr token \<Rightarrow>
            emit (Comment (the (app_githubRepo application)) (the (app_prNumber application))
              (previewCommentMarker (the (app_previewOfId application)))
              (previewCommentBody (the (app_previewOfId application)) is_ready
                (if str_truthy (app_domain application) then ''https://'' @ the (app_domain application) else [])
                commit))))"

definition finish_success :: "Runtime \<Rightarrow> Ctx \<Rightarrow> unit dact" where
  "finish_success rt cx =
    (let application = cx_application cx;
         trailer = [LF, ESC] @ ''[32mDeployment completed.'' @ [ESC] @ ''[0m'' @ [LF] in
     bind (gets js_log) (\<lambda>log.
     bind (gets ds_resolvedCommit) (\<lambda>resolvedCommit.
       seqs
        [finish rt (cx_deploymentId cx) DepSuccess trailer (Some log),
         set_application (app_id application) (\<lambda>a. a\<lparr>app_status := AppRunning\<rparr>),
         emit (Publish (ApplicationStatusEvent (app_id application) AppRunning)),
         emit (Publish (DeploymentStatusEvent (cx_deploymentId cx) DepSuccess)),
         commentOnPreview rt application True resolvedCommit,
         emit (Notify (app_teamId application) ''deploy.success'' (''Deployment of '' @ app_name application @ '' completed'')
           (app_repoUrl application @ '' ('' @ app_branch application @ '') '' @ right_arrow @ '' '' @ srv_name (cx_server cx)) LevelInfo),
         emit (ForwardLog (log @ trailer) [(''app'', app_name application), (''job'', ''deploy''), (''status'', ''success'')])])))"

definition on_failure :: "Runtime \<Rightarrow> Ctx \<Rightarrow> string \<Rightarrow> unit dact" where
  "on_failure rt cx message =
    (let application = cx_application cx in
     andThen (appendAndPublish cx ([LF, ESC] @ ''[31mDeploy failed: '' @ message @ [ESC] @ ''[0m'' @ [LF]))
      (bind (gets js_log) (\<lambda>log.
        seqs
         [finish rt (cx_deploymentId cx) DepFailed [] (Some log),
          set_application (app_id application) (\<lambda>a. a\<lparr>app_status := AppError\<rparr>),
          emit (Publish (ApplicationStatusEvent (app_id application) AppError)),
          emit (Publish (DeploymentStatusEvent (cx_deploymentId cx) DepFailed)),
          commentOnPreview rt application False None,
          emit (Notify (app_teamId application) ''deploy.failed'' (''Deployment of '' @ app_name application @ '' failed'') message LevelError),
          emit (ForwardLog log [(''app'', app_name application), (''job'', ''deploy''), (''status'', ''failed'')])])))"

definition close_connection :: "Runtime \<Rightarrow> Ctx \<Rightarrow> machine \<Rightarrow> unit dact" where
  "close_connection rt cx m =
    bind (gets (\<lambda>s. if m = Target then ds_conn s else ds_buildConn s)) (\<lambda>is_open.
      whenA is_open (andThen (emit (Close m))
        (modify (\<lambda>s. if m = Target then s\<lparr>ds_conn := False\<rparr> else s\<lparr>ds_buildConn := False\<rparr>))))"

definition logout_connection :: "Runtime \<Rightarrow> Ctx \<Rightarrow> machine \<Rightarrow> unit dact" where
  "logout_connection rt cx m =
    bind (gets (\<lambda>s. if m = Target then ds_conn s else ds_buildConn s)) (\<lambda>is_open.
      case cx_registry cx of
        Some reg \<Rightarrow> whenA is_open (ignore_errors (exec_quiet rt m (registryLogoutCommand (reg_host reg))))
      | None \<Rightarrow> pure ())"

definition cleanup :: "Runtime \<Rightarrow> Ctx \<Rightarrow> unit dact" where
  "cleanup rt cx =
    seqs [logout_connection rt cx Target, logout_connection rt cx Builder,
          close_connection rt cx Target, close_connection rt cx Builder]"

section \<open>The job\<close>

definition check_request :: "Ctx \<Rightarrow> unit dact" where
  "check_request cx =
    (let application = cx_application cx; bp = app_buildPack application in
     if str_truthy (app_buildServerId application) \<and> cx_buildServer cx = None then
       throw (''this application'' @ [SQ] @ ''s build server no longer exists'')
     else if str_truthy (cx_fromImage cx) \<and> (bp = DockerCompose \<or> bp = Image) then
       throw ''this application type cannot roll back to a retained image''
     else pure ())"

definition build_phase :: "Runtime \<Rightarrow> Ctx \<Rightarrow> unit dact" where
  "build_phase rt cx =
    (case cx_buildServer cx of
       Some b \<Rightarrow> whenA (\<not> str_truthy (cx_fromImage cx)) (build_on_server rt cx b)
     | None \<Rightarrow> pure ())"

definition deploy_body :: "Runtime \<Rightarrow> Ctx \<Rightarrow> unit dact" where
  "deploy_body rt cx =
    seqs
     [check_request cx,
      build_phase rt cx,
      bind (prepare_target rt cx) (\<lambda>envEntries.
        if app_buildPack (cx_application cx) = DockerCompose then start_compose rt cx envEntries
        else start_container rt cx envEntries),
      whenA (app_buildPack (cx_application cx) \<noteq> DockerCompose)
        (writeAppRouting rt (cx_application cx) (containerName cx) (cx_domain cx)),
      wait_healthy rt cx,
      post_deploy rt cx,
      trim_images rt cx,
      finish_success rt cx]"

definition start_deployment :: "Runtime \<Rightarrow> Ctx \<Rightarrow> unit dact" where
  "start_deployment rt cx =
    (let application = cx_application cx; i = app_id application in
     seqs
      [bind (gets (\<lambda>s. rt_now rt (js_trace s))) (\<lambda>now.
         set_deployment (cx_deploymentId cx) (\<lambda>d. d\<lparr>dep_status := DepRunning, dep_startedAt := Some now\<rparr>)),
       set_application i (\<lambda>a. a\<lparr>app_status := AppDeploying\<rparr>),
       emit (Publish (ApplicationStatusEvent i AppDeploying)),
       emit (Publish (DeploymentStatusEvent (cx_deploymentId cx) DepRunning)),
       set_application i (\<lambda>a. a\<lparr>app_deployedConfig := Some (configSnapshot application (cx_volumes cx) (rt_sha256 rt))\<rparr>)])"

definition run_deployment :: "Runtime \<Rightarrow> Ctx \<Rightarrow> unit dact" where
  "run_deployment rt cx =
    andThen (start_deployment rt cx)
      (finally_do (catch (deploy_body rt cx) (on_failure rt cx)) (cleanup rt cx))"

definition deploy_secrets :: "Db \<Rightarrow> Application \<Rightarrow> string list" where
  "deploy_secrets db application =
    (if app_redactEnvInLogs application
     then secretValues (map env_value (fst (expandReferences (parseEnvContent (app_envContent application))
            (loadSharedVariables db application))))
     else [])"

definition deploy_registry :: "Db \<Rightarrow> Application \<Rightarrow> Registry option" where
  "deploy_registry db application =
    (if str_truthy (app_registryId application)
     then find (\<lambda>r. Some (reg_id r) = app_registryId application) (db_registries db) else None)"

definition deploy_buildServer :: "Db \<Rightarrow> Application \<Rightarrow> Server option" where
  "deploy_buildServer db application =
    (if str_truthy (app_buildServerId application)
     then find (\<lambda>b. Some (srv_id b) = app_buildServerId application) (db_servers db) else None)"

definition deploy_context :: "Db \<Rightarrow> Deployment \<Rightarrow> Application \<Rightarrow> Server \<Rightarrow> Ctx" where
  "deploy_context db deployment application server =
    \<lparr>cx_deploymentId = dep_id deployment, cx_application = application, cx_server = server,
     cx_volumes = filter (\<lambda>v. vol_applicationId v = app_id application) (db_volumes db),
     cx_domain = resolveDomain application server,
     cx_rollbackTarget = dep_commitSha deployment, cx_fromImage = dep_rollbackImage deployment,
     cx_registry = deploy_registry db application,
     cx_buildServer = deploy_buildServer db application,
     cx_secrets = deploy_secrets db application\<rparr>"

definition deployApplication :: "Runtime \<Rightarrow> string \<Rightarrow> unit dact" where
  "deployApplication rt deploymentId =
    bind (gets ds_db) (\<lambda>db.
      case find (\<lambda>d. dep_id d = deploymentId) (db_deployments db) of
        None \<Rightarrow> pure ()
      | Some deployment \<Rightarrow>
          (case find (\<lambda>a. app_id a = dep_applicationId deployment) (db_applications db) of
             None \<Rightarrow> finish rt deploymentId DepFailed
               ([LF, ESC] @ ''[31mApplication not found.'' @ [ESC] @ ''[0m'' @ [LF]) None
           | Some application \<Rightarrow>
               (case find (\<lambda>v. srv_id v = app_serverId application) (db_servers db) of
                  None \<Rightarrow> finish rt deploymentId DepFailed
                    ([LF, ESC] @ ''[31mServer not found.'' @ [ESC] @ ''[0m'' @ [LF]) None
                | Some server \<Rightarrow> run_deployment rt (deploy_context db deployment application server))))"

end
