(* ===== verification/DeployRules.thy ===== *)
theory DeployRules
  imports Deploy
begin

text \<open>
  What every phase of the deploy job keeps. The locale \<open>deploy_invariant\<close> states what an invariant of
  the job has to survive (a log line, a call, an update of the rows or of the local variables) and
  derives that each phase, and the whole handler, keeps it. Its interpretations are in DeployProofs.
\<close>

section \<open>Commands that touch neither the running container nor the user's commands\<close>

definition ordinary :: "string \<Rightarrow> bool" where
  "ordinary cmd \<longleftrightarrow>
    \<not> starts_with cmd ''docker stop '' \<and> \<not> starts_with cmd ''docker rm '' \<and> \<not> starts_with cmd ''timeout ''"

lemma ordinary_start:
  "ordinary (''docker login '' @ s)" "ordinary (''docker logout '' @ s)" "ordinary (''docker pull '' @ s)"
  "ordinary (''docker tag '' @ s)" "ordinary (''docker network '' @ s)" "ordinary (''docker image '' @ s)"
  "ordinary (''docker run '' @ s)" "ordinary (''docker build '' @ s)"
  by (simp_all add: ordinary_def starts_with_def)

lemma ordinary_first: "c \<noteq> CHR ''d'' \<Longrightarrow> c \<noteq> CHR ''t'' \<Longrightarrow> ordinary (c # s)"
  by (simp add: ordinary_def starts_with_def)

lemma ordinary_commands:
  "ordinary (registryLoginCommand host user file)"
  "ordinary (registryLogoutCommand host)"
  "ordinary (registryExistsCommand ref)"
  "ordinary (registryTagLocalCommand ref img)"
  "ordinary (registryPushCommand img ref)"
  "ordinary (ensureNetworkCommand network @ rest)"
  "ordinary (tagDeploymentImageCommand app dep)"
  "ordinary (imageExistsCommand ref @ rest)"
  "ordinary (appImagesCommand app)"
  "ordinary prepareWakerDirsCommand"
  "ordinary ensureWakerCommand"
  "ordinary (removeWakeConfigCommand name @ rest)"
  "ordinary (buildRunCommand a d n domain vs img)"
  "ordinary (buildComposeUpCommand a d r w t)"
  "ordinary (buildHealthWaitCommand name t)"
  "ordinary (buildCloneOrPullCommand d u b c k)"
  by (auto simp: ordinary_def starts_with_def Let_def registryLoginCommand_def registryLogoutCommand_def
      registryExistsCommand_def registryTagLocalCommand_def registryPushCommand_def ensureNetworkCommand_def
      tagDeploymentImageCommand_def imageExistsCommand_def appImagesCommand_def prepareWakerDirsCommand_def
      ensureWakerCommand_def removeWakeConfigCommand_def buildRunCommand_def buildComposeUpCommand_def
      buildHealthWaitCommand_def buildCloneOrPullCommand_def)

lemma ordinary_removal: "removeRefsCommand refs = Some cmd \<Longrightarrow> ordinary cmd"
  using ordinary_start(6) by (auto simp: removeRefsCommand_def ordinary_def starts_with_def split: if_splits)

lemma ordinary_build: "step \<in> set (image_steps cx env) \<Longrightarrow> ordinary (st_command step)"
  by (auto simp: image_steps_def build_steps_of_def buildImageSteps_def strict_def Let_def ordinary_def
      starts_with_def split: BuildPack.splits)

text \<open>Every effect but a line of a deployment log; a command has to be one the invariant allows.\<close>

fun routine :: "(string \<Rightarrow> bool) \<Rightarrow> effect \<Rightarrow> bool" where
  "routine ok (Exec m cmd out) = ok cmd"
| "routine ok (Publish (DeploymentLog i l)) = False"
| "routine ok e = True"

locale deploy_invariant =
  fixes rt :: Runtime and cx :: Ctx and I :: "DState \<Rightarrow> bool" and ok :: "string \<Rightarrow> bool"
  assumes keeps_log: "keeps I (appendAndPublish cx raw)"
    and appended: "I s \<Longrightarrow> routine ok e \<Longrightarrow> I (s\<lparr>js_trace := js_trace s @ [e]\<rparr>)"
    and rows: "I s \<Longrightarrow> I (s\<lparr>ds_db := db\<rparr>)"
    and conn: "I s \<Longrightarrow> I (s\<lparr>ds_conn := b\<rparr>)"
    and buildConn: "I s \<Longrightarrow> I (s\<lparr>ds_buildConn := b\<rparr>)"
    and resolved: "I s \<Longrightarrow> I (s\<lparr>ds_resolvedCommit := c\<rparr>)"
    and built: "I s \<Longrightarrow> I (s\<lparr>ds_builtRef := c\<rparr>)"
    and ordinary_ok: "ordinary cmd \<Longrightarrow> ok cmd"
begin

lemma keeps_connect: "keeps I (connectSsh rt m address)"
  by (rule keeps_connectSsh_by) (simp add: appended)

lemma keeps_write: "keeps I (writeRemoteFile rt m path content)"
  by (rule keeps_writeRemoteFile_by) (simp add: appended)

lemma keeps_exec: "ok cmd \<Longrightarrow> keeps I (execStream rt m cmd)"
  by (rule keeps_execStream_by) (simp add: appended)

lemma keeps_tell: "routine ok e \<Longrightarrow> keeps I (emit e)"
  by (rule keeps_emit_by) (simp add: appended)

lemma keeps_quiet: "ok cmd \<Longrightarrow> keeps I (exec_quiet rt m cmd)"
  unfolding exec_quiet_def by (intro keeps_rules keeps_exec)

lemma keeps_stdout: "ok cmd \<Longrightarrow> keeps I (exec_stdout rt m cmd)"
  unfolding exec_stdout_def by (intro keeps_rules keeps_exec)

lemma keeps_remark: "keeps I (remark cx s)" "keeps I (announce cx s)"
  unfolding remark_def announce_def by (rule keeps_log)+

lemma keeps_set: "keeps I (set_deployment i f)" "keeps I (set_application i g)"
  unfolding set_deployment_def set_application_def by (rule keeps_modify, erule rows)+

lemma keeps_step: "ok (st_command step) \<Longrightarrow> keeps I (runStep rt cx m step)"
  unfolding runStep_def by (intro keeps_rules keeps_remark keeps_exec keeps_log)

lemma keeps_finish: "keeps I (finish rt i st tr l)"
  unfolding finish_def by (intro keeps_rules keeps_set)

lemmas phase_rules = keeps_rules keeps_log keeps_remark keeps_set keeps_connect keeps_write keeps_finish

lemmas oks = ordinary_commands [THEN ordinary_ok] ordinary_start [THEN ordinary_ok]

lemma ok_first: "c \<noteq> CHR ''d'' \<Longrightarrow> c \<noteq> CHR ''t'' \<Longrightarrow> ok (c # s)"
  by (rule ordinary_ok [OF ordinary_first])

lemma keeps_strict: "ok cmd \<Longrightarrow> keeps I (runStep rt cx m (strict label cmd))"
  by (rule keeps_step) (simp add: strict_def)

lemmas phases = phase_rules keeps_quiet keeps_stdout keeps_exec keeps_strict

lemma keeps_clone_url: "keeps I (clone_url rt cx)"
  unfolding clone_url_def Let_def by (intro phases)

lemma keeps_clone_step: "keeps I (bind (makeCloneOrPullStep rt cx) (runStep rt cx m))"
  by (simp only: makeCloneOrPullStep_def Let_def bind_assoc bind_simps)
    (intro keeps_bind keeps_clone_url keeps_strict oks)

lemma keeps_deploy_key: "keeps I (write_deploy_key rt cx m)"
  unfolding write_deploy_key_def Let_def by (intro phases) (simp add: ok_first)

lemma keeps_strip: "keeps I (strip_token rt cx m)"
  unfolding strip_token_def by (intro phases) (simp add: ok_first)

lemma keeps_resolve: "keeps I (resolve_commit rt cx m)"
  unfolding resolve_commit_def Let_def by (intro phases keeps_modify resolved) (simp_all add: ok_first)

lemma keeps_dockerfile: "keeps I (write_dockerfile rt cx m)"
  unfolding write_dockerfile_def by (intro phases) (simp add: ok_first)

lemma keeps_fetch: "keeps I (fetch_sources rt cx m)"
  unfolding fetch_sources_def checkout_repo_def
  by (intro phases keeps_clone_step keeps_deploy_key keeps_strip keeps_resolve keeps_dockerfile)

section \<open>Building\<close>

lemma keeps_env: "keeps I (expanded_env cx)"
  unfolding expanded_env_def by (intro phases)

lemma keeps_login: "keeps I (registry_login rt cx m reg)"
  unfolding registry_login_def Let_def by (intro phases oks) (simp add: ok_first)

lemma keeps_build_steps: "keeps I (run_steps rt cx m (image_steps cx env))"
  unfolding run_steps_def by (intro phases keeps_step ordinary_ok ordinary_build)

lemma keeps_push: "keeps I (runStep rt cx m (push_step cx ref))"
  unfolding push_step_def by (intro keeps_strict oks)

lemmas building = phases keeps_env keeps_login keeps_build_steps keeps_push keeps_fetch

lemma keeps_build_on_server: "keeps I (build_on_server rt cx b)"
proof (cases "cx_registry cx")
  case (Some reg)
  show ?thesis
  proof (cases "app_registryImage (cx_application cx)")
    case (Some registryImage)
    show ?thesis
      unfolding build_on_server_def Let_def \<open>cx_registry cx = Some reg\<close> Some prod.case option.case
      by (intro building oks keeps_tell keeps_modify) (simp_all add: ok_first buildConn built)
  qed (simp add: build_on_server_def Let_def Some keeps_throw)
qed (simp add: build_on_server_def Let_def keeps_throw)

lemma keeps_build_here: "keeps I (build_here rt cx env)"
proof -
  have "keeps I (case (cx_registry cx, app_registryImage (cx_application cx)) of
      (Some reg, Some registryImage) \<Rightarrow> k reg registryImage | _ \<Rightarrow> run_steps rt cx Target (image_steps cx env'))"
    if "\<And>reg ri. keeps I (k reg ri)" for k env'
    using that by (auto intro: keeps_build_steps split: option.split)
  note both = this
  show ?thesis
    unfolding build_here_def Let_def by (intro building oks both)
qed

lemma keeps_obtain: "keeps I (obtain_image rt cx env)"
  unfolding obtain_image_def Let_def by (intro building oks keeps_build_here)

section \<open>The target\<close>

lemma keeps_file_volumes: "keeps I (write_file_volumes rt cx)"
  unfolding write_file_volumes_def write_file_volume_def Let_def by (intro phases) (simp add: ok_first)

lemma keeps_prepare: "keeps I (prepare_target rt cx)"
  unfolding prepare_target_def
  by (intro building keeps_modify keeps_file_volumes) (simp_all add: ok_first conn)

lemma keeps_override: "keeps I (compose_override rt cx)"
  unfolding compose_override_def Let_def by (intro phases)

lemma keeps_compose: "keeps I (start_compose rt cx env)"
  unfolding start_compose_def Let_def by (intro phases keeps_override oks)

lemma keeps_keep_image: "keeps I (keep_image rt cx)"
  unfolding keep_image_def by (intro phases oks)

lemma keeps_replace: "ok (st_command (removeOldStep cx)) \<Longrightarrow> keeps I (replace_container rt cx)"
  unfolding replace_container_def runStepDef_def join_network_step_def by (intro phases keeps_step oks)

lemma keeps_checked: "ok cmd \<Longrightarrow> keeps I (run_checked rt m cmd)"
  unfolding run_checked_def by (intro phases)

lemma keeps_routing: "keeps I (writeAppRouting rt app name domain)"
  unfolding writeAppRouting_def installWaker_def Let_def
  by (intro phases keeps_checked oks) (simp add: ok_first)

section \<open>The end\<close>

lemma keeps_healthy: "keeps I (wait_healthy rt cx)"
  unfolding wait_healthy_def Let_def by (intro phases oks)

lemma keeps_trim: "keeps I (trim_images rt cx)"
  unfolding trim_images_def trimRollbackImages_def Let_def
  by (intro phases oks ordinary_ok) (erule ordinary_removal)

lemma keeps_comment: "keeps I (commentOnPreview rt app r c)"
  unfolding commentOnPreview_def by (intro phases keeps_tell) simp_all

lemma keeps_success: "keeps I (finish_success rt cx)"
  unfolding finish_success_def Let_def by (intro phases keeps_comment keeps_tell) simp_all

lemma keeps_failure: "keeps I (on_failure rt cx msg)"
  unfolding on_failure_def Let_def by (intro phases keeps_comment keeps_tell) simp_all

lemma keeps_close: "keeps I (close_connection rt cx m)"
  unfolding close_connection_def
  by (intro phases keeps_tell keeps_modify) (simp_all add: conn buildConn)

lemma keeps_cleanup: "keeps I (cleanup rt cx)"
  unfolding cleanup_def logout_connection_def by (intro phases oks keeps_close)

lemma keeps_start: "keeps I (start_deployment rt cx)"
  unfolding start_deployment_def Let_def by (intro phases keeps_tell) simp_all

text \<open>The whole handler, given its phases that run the user's commands.\<close>

lemma keeps_run:
  assumes "app_buildPack (cx_application cx) \<noteq> DockerCompose \<Longrightarrow> keeps I (andThen (pre_deploy rt cx) (replace_container rt cx))"
    and "keeps I (post_deploy rt cx)"
  shows "keeps I (run_deployment rt cx)"
proof -
  have "keeps I (start_container rt cx env)" if "app_buildPack (cx_application cx) \<noteq> DockerCompose" for env
  proof -
    have "andThen (pre_deploy rt cx) (andThen (replace_container rt cx) (pure ())) =
        andThen (andThen (pre_deploy rt cx) (replace_container rt cx)) (pure ())"
      by (simp only: andThen_def bind_assoc)
    then show ?thesis
      unfolding start_container_def seqs.simps
      by (simp only:) (intro keeps_andThen keeps_pure keeps_obtain keeps_keep_image assms(1) [OF that])
  qed
  then show ?thesis
    unfolding run_deployment_def deploy_body_def check_request_def build_phase_def Let_def
    by (intro phases keeps_start keeps_prepare keeps_compose keeps_routing keeps_healthy keeps_trim
        keeps_success keeps_failure keeps_cleanup keeps_build_on_server assms(2))
qed

end

end
