(* ===== verification/DeployProofs.thy ===== *)
theory DeployProofs
  imports DeployRules
begin

text \<open>
  Properties of the deploy job: what it publishes, when the old container is stopped, what a rollback
  leaves out, and how a deployment ends. The first three are interpretations of \<open>deploy_invariant\<close>.
\<close>

section \<open>Published lines\<close>

fun published :: "string \<Rightarrow> effect list \<Rightarrow> string list" where
  "published i [] = []"
| "published i (Publish (DeploymentLog j line) # es) = (if j = i then line # published i es else published i es)"
| "published i (e # es) = published i es"

lemma published_append [simp]: "published i (es @ fs) = published i es @ published i fs"
  by (induction i es rule: published.induct) simp_all

lemma published_routine: "routine ok e \<Longrightarrow> published i [e] = []"
  by (induction ok e rule: routine.induct) simp_all

definition log_kept :: "Ctx \<Rightarrow> effect list \<Rightarrow> string \<Rightarrow> DState \<Rightarrow> bool" where
  "log_kept cx start log s \<longleftrightarrow>
    (\<exists>es. js_trace s = start @ es \<and> js_log s = log @ concat (published (cx_deploymentId cx) es) \<and>
      (\<forall>l \<in> set (published (cx_deploymentId cx) es). \<exists>raw. l = log_line (cx_secrets cx) raw))"

lemma log_kept_emit:
  assumes "log_kept cx start log s" and "published (cx_deploymentId cx) [e] = []"
  shows "log_kept cx start log (s\<lparr>js_trace := js_trace s @ [e]\<rparr>)"
proof -
  from assms(1) obtain es where es: "js_trace s = start @ es"
    "js_log s = log @ concat (published (cx_deploymentId cx) es)"
    "\<forall>l \<in> set (published (cx_deploymentId cx) es). \<exists>raw. l = log_line (cx_secrets cx) raw"
    by (auto simp: log_kept_def)
  with assms(2) show ?thesis unfolding log_kept_def by (intro exI [of _ "es @ [e]"]) simp
qed

lemma log_kept_line: "keeps (log_kept cx start log) (appendAndPublish cx raw)"
  unfolding keeps_def
proof (intro allI impI)
  fix s assume "log_kept cx start log s"
  then obtain es where es: "js_trace s = start @ es"
    "js_log s = log @ concat (published (cx_deploymentId cx) es)"
    "\<forall>l \<in> set (published (cx_deploymentId cx) es). \<exists>raw. l = log_line (cx_secrets cx) raw"
    by (auto simp: log_kept_def)
  let ?e = "Publish (DeploymentLog (cx_deploymentId cx) (log_line (cx_secrets cx) raw))"
  from es show "log_kept cx start log (snd (appendAndPublish cx raw s))"
    unfolding log_kept_def
    by (intro exI [of _ "es @ [?e]"]) (auto simp: appendAndPublish_def emit_def modify_def andThen_def bind_def Let_def)
qed

interpretation logs: deploy_invariant rt cx "log_kept cx start log" "\<lambda>cmd. True" for rt cx start log
proof
  show "keeps (log_kept cx start log) (appendAndPublish cx raw)" for raw
    by (rule log_kept_line)
  show "log_kept cx start log (s\<lparr>js_trace := js_trace s @ [e]\<rparr>)"
    if "log_kept cx start log s" "routine (\<lambda>cmd. True) e" for s e
    using that published_routine log_kept_emit by blast
qed (auto simp: log_kept_def)

lemma log_kept_run: "keeps (log_kept cx start log) (run_deployment rt cx)"
  by (intro logs.keeps_run keeps_andThen logs.keeps_replace)
    (simp_all add: pre_deploy_def post_deploy_def Let_def keeps_whenA logs.keeps_step)

text \<open>The rows the handler finds before it starts.\<close>

definition deployable :: "string \<Rightarrow> Db \<Rightarrow> Deployment \<Rightarrow> Application \<Rightarrow> Server \<Rightarrow> bool" where
  "deployable i db deployment application server \<longleftrightarrow>
    find (\<lambda>d. dep_id d = i) (db_deployments db) = Some deployment \<and>
    find (\<lambda>a. app_id a = dep_applicationId deployment) (db_applications db) = Some application \<and>
    find (\<lambda>v. srv_id v = app_serverId application) (db_servers db) = Some server"

lemma deployable_id: "deployable i db d a v \<Longrightarrow> dep_id d = i"
  by (auto simp: deployable_def find_Some_iff)

lemma deployApplication_runs:
  "deployable i (ds_db s) d a v \<Longrightarrow> deployApplication rt i s = run_deployment rt (deploy_context (ds_db s) d a v) s"
  by (simp add: deployApplication_def deployable_def)

lemma deploy_context_simps [simp]:
  "cx_deploymentId (deploy_context db d a v) = dep_id d"
  "cx_application (deploy_context db d a v) = a"
  "cx_server (deploy_context db d a v) = v"
  "cx_secrets (deploy_context db d a v) = deploy_secrets db a"
  "cx_rollbackTarget (deploy_context db d a v) = dep_commitSha d"
  "cx_fromImage (deploy_context db d a v) = dep_rollbackImage d"
  by (simp_all add: deploy_context_def)

lemma keepsD: "keeps I m \<Longrightarrow> I s \<Longrightarrow> I (snd (m s))"
  by (simp add: keeps_def)

lemma log_kept_job:
  assumes "deployable i (ds_db s) d a v"
  shows "log_kept (deploy_context (ds_db s) d a v) (js_trace s) (js_log s) (snd (deployApplication rt i s))"
  unfolding deployApplication_runs [OF assms]
  by (rule keepsD [OF log_kept_run]) (simp add: log_kept_def)

text \<open>A concrete instance, for the witnesses.\<close>

definition demo_application :: Application where
  "demo_application = (new_application ''a1'' 0 ''t1'' ''e1'' ''v1'' ''shop'' ''https://git/shop'')
     \<lparr>app_preDeployCommand := Some ''migrate'', app_redactEnvInLogs := True, app_envContent := ''KEY=hunter2x''\<rparr>"

definition demo_server :: Server where
  "demo_server = new_server ''v1'' 0 ''t1'' ''host'' ''10.0.0.1'' ''key''"

definition demo :: "Deployment \<Rightarrow> DState" where
  "demo d = \<lparr>js_trace = [], js_log = [],
     ds_db = \<lparr>db_deployments = [d], db_applications = [demo_application], db_servers = [demo_server],
       db_registries = [], db_gitSources = [], db_volumes = [], db_environments = [], db_sharedVariables = []\<rparr>,
     ds_conn = False, ds_buildConn = False, ds_resolvedCommit = None, ds_builtRef = None\<rparr>"

definition demo_deployment :: Deployment where
  "demo_deployment = new_deployment ''d1'' 0 ''a1''"

definition demo_rollback :: Deployment where
  "demo_rollback = demo_deployment\<lparr>dep_rollbackImage := Some ''yeah-app-a1:dep-1''\<rparr>"

lemmas demo_defs = demo_def demo_application_def demo_server_def demo_deployment_def demo_rollback_def
  new_application_def new_server_def new_deployment_def

lemma demo_deployable:
  "deployable ''d1'' (ds_db (demo demo_deployment)) demo_deployment demo_application demo_server"
  "deployable ''d1'' (ds_db (demo demo_rollback)) demo_rollback demo_application demo_server"
  by (simp_all add: deployable_def demo_defs)

lemma demo_trace [simp]: "js_trace (demo d) = []" "js_log (demo d) = []"
  by (simp_all add: demo_def)



section \<open>The old container\<close>

definition stops_container :: "string \<Rightarrow> bool" where
  "stops_container cmd = starts_with cmd ''docker stop ''"

text \<open>A pre-deploy command that ran on the target and exited with 0.\<close>

fun pre_deployed :: "Ctx \<Rightarrow> effect \<Rightarrow> bool" where
  "pre_deployed cx (Exec m cmd (ExecClosed exit_code chunks)) =
    (m = Target \<and> cmd = pre_deploy_command cx \<and> default 0 exit_code = 0)"
| "pre_deployed cx e = False"

fun runs :: "(string \<Rightarrow> bool) \<Rightarrow> effect \<Rightarrow> bool" where
  "runs p (Exec m cmd out) = p cmd"
| "runs p e = False"

lemma routine_runs: "routine (\<lambda>cmd. \<not> p cmd) e \<Longrightarrow> \<not> runs p e"
  by (cases e) simp_all

text \<open>Every stop comes after a successful pre-deploy command.\<close>

fun guarded :: "Ctx \<Rightarrow> bool \<Rightarrow> effect list \<Rightarrow> bool" where
  "guarded cx released [] = True"
| "guarded cx released (e # es) = ((runs stops_container e \<longrightarrow> released) \<and> guarded cx (released \<or> pre_deployed cx e) es)"

lemma guarded_append:
  "guarded cx r (es @ fs) \<longleftrightarrow> guarded cx r es \<and> guarded cx (r \<or> list_ex (pre_deployed cx) es) fs"
  by (induction es arbitrary: r) (auto simp: disj_assoc)

definition before_stop :: "Ctx \<Rightarrow> effect list \<Rightarrow> DState \<Rightarrow> bool" where
  "before_stop cx start s \<longleftrightarrow> (\<exists>es. js_trace s = start @ es \<and> guarded cx False es)"

definition after_pre :: "Ctx \<Rightarrow> effect list \<Rightarrow> DState \<Rightarrow> bool" where
  "after_pre cx start s \<longleftrightarrow>
    (\<exists>es. js_trace s = start @ es \<and> guarded cx False es \<and> list_ex (pre_deployed cx) es)"

interpretation before: deploy_invariant rt cx "before_stop cx start" "\<lambda>cmd. \<not> stops_container cmd" for rt cx start
proof
  have step: "before_stop cx start (s\<lparr>js_trace := js_trace s @ [e]\<rparr>)" if "before_stop cx start s" "\<not> runs stops_container e" for s e
  proof -
    from that(1) obtain es where "js_trace s = start @ es" "guarded cx False es" by (auto simp: before_stop_def)
    with that(2) show ?thesis
      unfolding before_stop_def by (intro exI [of _ "es @ [e]"]) (simp add: guarded_append)
  qed
  show "before_stop cx start (s\<lparr>js_trace := js_trace s @ [e]\<rparr>)"
    if "before_stop cx start s" "routine (\<lambda>cmd. \<not> stops_container cmd) e" for s e
    using routine_runs [OF that(2)] by (rule step [OF that(1)])
  show "keeps (before_stop cx start) (appendAndPublish cx raw)" for raw
    unfolding appendAndPublish_def Let_def
    by (intro keeps_andThen keeps_modify keeps_emit_by step) (simp_all add: before_stop_def)
qed (auto simp: before_stop_def ordinary_def stops_container_def)

interpretation after: deploy_invariant rt cx "after_pre cx start" "\<lambda>cmd. True" for rt cx start
proof
  have step: "after_pre cx start (s\<lparr>js_trace := js_trace s @ [e]\<rparr>)" if "after_pre cx start s" for s e
  proof -
    from that obtain es where "js_trace s = start @ es" "guarded cx False es" "list_ex (pre_deployed cx) es"
      by (auto simp: after_pre_def)
    then show ?thesis
      unfolding after_pre_def by (intro exI [of _ "es @ [e]"]) (simp add: guarded_append)
  qed
  show "after_pre cx start (s\<lparr>js_trace := js_trace s @ [e]\<rparr>)" if "after_pre cx start s" for s e
    by (rule step [OF that])
  show "keeps (after_pre cx start) (appendAndPublish cx raw)" for raw
    unfolding appendAndPublish_def Let_def
    by (intro keeps_andThen keeps_modify keeps_emit_by step) (simp_all add: after_pre_def)
qed (auto simp: after_pre_def)

lemma after_before: "after_pre cx start s \<Longrightarrow> before_stop cx start s"
  by (auto simp: after_pre_def before_stop_def)

lemma pre_deploy_no_stop: "\<not> stops_container (pre_deploy_command cx)"
  by (simp add: pre_deploy_command_def buildPreDeployCommand_def stops_container_def starts_with_def Let_def)

lemma pre_deploy_releases:
  assumes "before_stop cx start s"
    and "fst (runStep rt cx Target (strict label (pre_deploy_command cx)) s) = Inr u"
  shows "after_pre cx start (snd (runStep rt cx Target (strict label (pre_deploy_command cx)) s))"
proof -
  let ?cmd = "pre_deploy_command cx"
  obtain s1 where s1: "announce cx label s = (Inr (), s1)" "before_stop cx start s1"
    using before.keeps_remark(2) [of cx start label] assms(1)
    by (auto simp: keeps_def announce_def appendAndPublish_def emit_def modify_def andThen_def bind_def Let_def)
  let ?out = "rt_exec rt (js_trace s1) Target ?cmd"
  let ?s2 = "s1\<lparr>js_trace := js_trace s1 @ [Exec Target ?cmd ?out]\<rparr>"
  have run: "runStep rt cx Target (strict label ?cmd) s =
      (case ?out of ExecRejected e \<Rightarrow> (Inl e, ?s2)
       | ExecClosed c chunks \<Rightarrow>
           andThen (seqs (map (\<lambda>chunk. appendAndPublish cx (fst chunk)) chunks))
             (if default 0 c \<noteq> 0 then throw ([DQ] @ label @ [DQ] @ '' exited with code '' @ int_str (default 0 c)) else pure ()) ?s2)"
    by (simp add: runStep_def strict_def andThen_def [of "announce cx label"] bind_def s1 execStream_eval Let_def
        split: outcome.split)
  have logs: "keeps (after_pre cx start) (seqs (map (\<lambda>chunk. appendAndPublish cx (fst chunk)) chunks))" for chunks
    by (intro keeps_rules after.keeps_log)
  obtain c chunks where out: "?out = ExecClosed c chunks" and c: "default 0 c = 0"
    using assms(2) unfolding run
    by (auto simp: andThen_def fst_bind throw_def split: outcome.splits sum.splits if_splits)
  from s1(2) obtain es where "js_trace s1 = start @ es" "guarded cx False es" by (auto simp: before_stop_def)
  moreover have "pre_deployed cx (Exec Target ?cmd ?out)" by (simp add: out c)
  ultimately have "after_pre cx start ?s2"
    unfolding after_pre_def using pre_deploy_no_stop
    by (intro exI [of _ "es @ [Exec Target ?cmd ?out]"]) (simp add: guarded_append)
  then show ?thesis
    unfolding run out using c logs [of chunks] by (simp add: keeps_def andThen_def snd_bind pure_def split: sum.split)
qed

lemma before_stop_run:
  assumes "str_truthy (app_preDeployCommand (cx_application cx))" and "\<not> isRollback cx"
  shows "keeps (before_stop cx start) (run_deployment rt cx)"
proof (rule before.keeps_run)
  show "keeps (before_stop cx start) (andThen (pre_deploy rt cx) (replace_container rt cx))"
  proof (rule keeps_andThen_given [where H = "after_pre cx start"])
    show "keeps (before_stop cx start) (pre_deploy rt cx)"
      unfolding pre_deploy_def by (intro keeps_whenA before.keeps_strict pre_deploy_no_stop)
    show "after_pre cx start (snd (pre_deploy rt cx s))"
      if "before_stop cx start s" "fst (pre_deploy rt cx s) = Inr u" for s u
      using that assms pre_deploy_releases by (auto simp: pre_deploy_def)
    show "before_stop cx start (snd (replace_container rt cx s))" if "after_pre cx start s" for s
      using keepsD [OF after.keeps_replace that] by (simp add: after_before)
  qed
  show "keeps (before_stop cx start) (post_deploy rt cx)"
    unfolding post_deploy_def Let_def
    by (intro keeps_whenA before.keeps_step) (simp add: buildPostDeployCommand_def stops_container_def starts_with_def)
qed

text \<open>
  C9: a failed release step leaves the old version running. When the application has a pre-deploy command
  and the deployment is not a rollback, no command that stops a container is issued before that command
  has run on the target and exited with 0; if it never does, nothing is stopped.
\<close>
theorem old_container_outlives_pre_deploy:
  assumes "deployable i (ds_db s) d a v"
    and "str_truthy (app_preDeployCommand a)"
    and "\<not> str_truthy (dep_commitSha d)" and "\<not> str_truthy (dep_rollbackImage d)"
  shows "\<exists>es. js_trace (snd (deployApplication rt i s)) = js_trace s @ es \<and>
    guarded (deploy_context (ds_db s) d a v) False es"
proof -
  let ?cx = "deploy_context (ds_db s) d a v"
  have "keeps (before_stop ?cx (js_trace s)) (run_deployment rt ?cx)"
    using assms(2-4) by (intro before_stop_run) (simp_all add: isRollback_def)
  moreover have "before_stop ?cx (js_trace s) s" by (simp add: before_stop_def)
  ultimately show ?thesis
    unfolding deployApplication_runs [OF assms(1)] using keepsD by (fastforce simp: before_stop_def)
qed

theorem old_container_outlives_pre_deploy_witness:
  "\<exists>es. js_trace (snd (deployApplication calm ''d1'' (demo demo_deployment))) = es \<and>
    guarded (deploy_context (ds_db (demo demo_deployment)) demo_deployment demo_application demo_server) False es"
  using old_container_outlives_pre_deploy [OF demo_deployable(1), of calm] by (simp add: demo_defs)

section \<open>Rollbacks\<close>

text \<open>A rollback runs no command of the user: neither a pre-deploy nor a post-deploy command.\<close>

definition release_step :: "string \<Rightarrow> bool" where
  "release_step cmd \<longleftrightarrow> starts_with cmd ''docker rm '' \<or> starts_with cmd ''timeout ''"

definition no_release :: "effect list \<Rightarrow> DState \<Rightarrow> bool" where
  "no_release start s \<longleftrightarrow> (\<exists>es. js_trace s = start @ es \<and> filter (runs release_step) es = [])"

interpretation rollback: deploy_invariant rt cx "no_release start" "\<lambda>cmd. \<not> release_step cmd" for rt cx start
proof
  have step: "no_release start (s\<lparr>js_trace := js_trace s @ [e]\<rparr>)"
    if "no_release start s" "\<not> runs release_step e" for s e
  proof -
    from that(1) obtain es where "js_trace s = start @ es" "filter (runs release_step) es = []"
      by (auto simp: no_release_def)
    with that(2) show ?thesis unfolding no_release_def by (intro exI [of _ "es @ [e]"]) simp
  qed
  show "no_release start (s\<lparr>js_trace := js_trace s @ [e]\<rparr>)"
    if "no_release start s" "routine (\<lambda>cmd. \<not> release_step cmd) e" for s e
    using routine_runs [OF that(2)] by (rule step [OF that(1)])
  show "keeps (no_release start) (appendAndPublish cx raw)" for raw
    unfolding appendAndPublish_def Let_def
    by (intro keeps_andThen keeps_modify keeps_emit_by step) (simp_all add: no_release_def)
qed (auto simp: no_release_def ordinary_def release_step_def)

lemma no_release_run: "isRollback cx \<Longrightarrow> keeps (no_release start) (run_deployment rt cx)"
  by (intro rollback.keeps_run keeps_andThen rollback.keeps_replace)
    (simp_all add: pre_deploy_def post_deploy_def Let_def keeps_pure removeOldStep_def buildStopOldCommand_def
      release_step_def starts_with_def)

text \<open>
  Going back to a deployment never repeats its release steps. In a rollback, to a commit or to a
  retained image, no pre-deploy and no post-deploy command runs, whatever the application has configured
  and however the deployment ends.
\<close>
theorem rollback_runs_no_release_step:
  assumes "deployable i (ds_db s) d a v"
    and "str_truthy (dep_commitSha d) \<or> str_truthy (dep_rollbackImage d)"
  shows "\<exists>es. js_trace (snd (deployApplication rt i s)) = js_trace s @ es \<and> filter (runs release_step) es = []"
proof -
  let ?cx = "deploy_context (ds_db s) d a v"
  have "keeps (no_release (js_trace s)) (run_deployment rt ?cx)"
    using assms(2) by (intro no_release_run) (simp add: isRollback_def)
  moreover have "no_release (js_trace s) s" by (simp add: no_release_def)
  ultimately show ?thesis
    unfolding deployApplication_runs [OF assms(1)] using keepsD by (fastforce simp: no_release_def)
qed

theorem rollback_runs_no_release_step_witness:
  "\<exists>es. js_trace (snd (deployApplication calm ''d1'' (demo demo_rollback))) = es \<and> filter (runs release_step) es = []"
  using rollback_runs_no_release_step [OF demo_deployable(2), of calm] by (simp add: demo_defs)

section \<open>How a deployment ends\<close>

text \<open>The row of the deployment is finished with a status and a log; the application has a status.\<close>

definition row_finished :: "string \<Rightarrow> DeploymentStatus \<Rightarrow> string \<Rightarrow> DState \<Rightarrow> bool" where
  "row_finished i st trailer s \<longleftrightarrow>
    list_all (\<lambda>d. dep_id d = i \<longrightarrow>
      dep_status d = st \<and> dep_finishedAt d \<noteq> None \<and> dep_log d = js_log s @ trailer) (db_deployments (ds_db s))"

definition app_in_state :: "string \<Rightarrow> ApplicationStatus \<Rightarrow> DState \<Rightarrow> bool" where
  "app_in_state i st s \<longleftrightarrow> list_all (\<lambda>a. app_id a = i \<longrightarrow> app_status a = st) (db_applications (ds_db s))"

lemma trace_only_ends: "trace_only (row_finished i st tr)" "trace_only (app_in_state i ast)"
  by (simp_all add: trace_only_def row_finished_def app_in_state_def)

lemma row_finished_set_application: "keeps (row_finished i st tr) (set_application j f)"
  unfolding set_application_def by (rule keeps_modify) (simp add: row_finished_def)

text \<open>\<open>update ... where id = i\<close>.\<close>

lemma updated_rows:
  "(\<And>x. key x = i \<Longrightarrow> Q (f x)) \<Longrightarrow> list_all (\<lambda>x. key x = i \<longrightarrow> Q x) (map (\<lambda>x. if key x = i then f x else x) xs)"
  by (induction xs) auto

lemma app_state_set: "ensures (app_in_state i st) (set_application i (\<lambda>a. a\<lparr>app_status := st\<rparr>))"
proof -
  have "app_in_state i st (s\<lparr>ds_db := (ds_db s)\<lparr>db_applications := xs\<rparr>\<rparr>) \<longleftrightarrow>
      list_all (\<lambda>a. app_id a = i \<longrightarrow> app_status a = st) xs" for s xs
    by (simp add: app_in_state_def)
  then show ?thesis
    unfolding ensures_def set_application_def modify_def
    by (simp only: snd_conv) (intro allI impI updated_rows, simp)
qed

lemma keeps_comment_trace: "trace_only I \<Longrightarrow> keeps I (commentOnPreview rt app r c)"
  unfolding commentOnPreview_def
  by (intro keeps_whenA keeps_bind keeps_gets keeps_sum keeps_pure) (rule keeps_emit)

lemma finish_finishes:
  "js_log s = log \<Longrightarrow> row_finished i st tr (snd (finish rt i st tr (Some log) s))"
proof -
  assume log: "js_log s = log"
  have row: "row_finished i st tr (s\<lparr>ds_db := (ds_db s)\<lparr>db_deployments := xs\<rparr>\<rparr>) \<longleftrightarrow>
      list_all (\<lambda>d. dep_id d = i \<longrightarrow> dep_status d = st \<and> dep_finishedAt d \<noteq> None \<and> dep_log d = log @ tr) xs" for xs
    by (simp add: row_finished_def log)
  show ?thesis
    by (simp only: finish_def set_deployment_def bind_simps modify_def snd_conv row) (rule updated_rows, simp add: Let_def)
qed

lemma returns_finish: "returns (finish rt i st tr l)" "returns (set_application j f)" "returns (commentOnPreview rt app r c)"
  unfolding finish_def set_deployment_def set_application_def commentOnPreview_def by (intro returns_rules)+

lemma returns_snd: "returns m \<Longrightarrow> snd (andThen m k s) = snd (k (snd (m s)))"
  by (metis andThen_def returns_def snd_bind sum.case(2))

lemma returns_then: "returns m \<Longrightarrow> ensures Q m \<Longrightarrow> Q (snd (m s))"
  by (auto simp: returns_def ensures_def)

text \<open>The two ends of the handler: the row is written first, then the status, then the rest is told.\<close>

lemma ends_with:
  assumes "js_log s = log" and rest: "returns rest" "keeps (row_finished i st tr) rest" "keeps (app_in_state aid ast) rest"
  shows "row_finished i st tr (snd (andThen (finish rt i st tr (Some log))
      (andThen (set_application aid (\<lambda>a. a\<lparr>app_status := ast\<rparr>)) rest) s)) \<and>
    app_in_state aid ast (snd (andThen (finish rt i st tr (Some log))
      (andThen (set_application aid (\<lambda>a. a\<lparr>app_status := ast\<rparr>)) rest) s))"
proof -
  let ?set = "set_application aid (\<lambda>a. a\<lparr>app_status := ast\<rparr>)" and ?t = "snd (finish rt i st tr (Some log) s)"
  have "row_finished i st tr (snd (andThen ?set rest ?t))"
    using keepsD [OF keeps_andThen [OF row_finished_set_application rest(2)] finish_finishes [OF assms(1)]] .
  moreover have "app_in_state aid ast (snd (andThen ?set rest ?t))"
    by (rule returns_then [OF _ ensures_kept [OF app_state_set rest(3)]]) (intro returns_andThen returns_finish rest(1))
  ultimately show ?thesis by (simp add: returns_snd returns_finish)
qed

lemma success_ends:
  "row_finished (cx_deploymentId cx) DepSuccess ([LF, ESC] @ ''[32mDeployment completed.'' @ [ESC] @ ''[0m'' @ [LF])
     (snd (finish_success rt cx s)) \<and>
   app_in_state (app_id (cx_application cx)) AppRunning (snd (finish_success rt cx s))"
  unfolding finish_success_def Let_def bind_simps seqs.simps
  by (rule ends_with) (simp | intro returns_rules returns_finish keeps_rules keeps_emit keeps_comment_trace trace_only_ends)+

lemma failure_ends:
  "row_finished (cx_deploymentId cx) DepFailed [] (snd (on_failure rt cx msg s)) \<and>
   app_in_state (app_id (cx_application cx)) AppError (snd (on_failure rt cx msg s))"
proof -
  have returns: "returns (appendAndPublish cx raw)" for raw
    unfolding appendAndPublish_def Let_def by (intro returns_rules)
  show ?thesis
    unfolding on_failure_def Let_def returns_snd [OF returns] bind_simps seqs.simps
    by (rule ends_with) (simp | intro returns_rules returns_finish keeps_rules keeps_emit keeps_comment_trace trace_only_ends)+
qed

text \<open>Cleaning up leaves the rows alone and both connections closed.\<close>

lemma keeps_cleanup_ends:
  assumes "trace_only I" and "\<And>s b. I s \<Longrightarrow> I (s\<lparr>ds_conn := b\<rparr>)" "\<And>s b. I s \<Longrightarrow> I (s\<lparr>ds_buildConn := b\<rparr>)"
  shows "keeps I (cleanup rt cx)"
  unfolding cleanup_def logout_connection_def close_connection_def
  by (intro keeps_rules keeps_calls keeps_modify assms(1)) (simp_all add: assms)

lemma cleanup_closes: "\<not> ds_conn (snd (cleanup rt cx s)) \<and> \<not> ds_buildConn (snd (cleanup rt cx s))"
proof -
  have r: "returns (logout_connection rt cx m)" for m
    unfolding logout_connection_def by (intro returns_rules)
  have "returns (close_connection rt cx m)" for m
    unfolding close_connection_def by (intro returns_rules)
  then show ?thesis
    unfolding cleanup_def seqs.simps
    by (simp add: returns_snd r pure_def)
      (simp add: close_connection_def gets_def bind_def whenA_def emit_def modify_def andThen_def pure_def)
qed

definition trailer :: string where
  "trailer = [LF, ESC] @ ''[32mDeployment completed.'' @ [ESC] @ ''[0m'' @ [LF]"

definition settled :: "Ctx \<Rightarrow> DState \<Rightarrow> bool" where
  "settled cx s \<longleftrightarrow>
    row_finished (cx_deploymentId cx) DepSuccess trailer s \<and> app_in_state (app_id (cx_application cx)) AppRunning s \<or>
    row_finished (cx_deploymentId cx) DepFailed [] s \<and> app_in_state (app_id (cx_application cx)) AppError s"

lemma body_settles:
  assumes "fst (deploy_body rt cx s) = Inr u"
  shows "settled cx (snd (deploy_body rt cx s))"
proof -
  let ?pre = "[check_request cx, build_phase rt cx,
      bind (prepare_target rt cx) (\<lambda>envEntries.
        if app_buildPack (cx_application cx) = DockerCompose then start_compose rt cx envEntries
        else start_container rt cx envEntries),
      whenA (app_buildPack (cx_application cx) \<noteq> DockerCompose)
        (writeAppRouting rt (cx_application cx) (containerName cx) (cx_domain cx)),
      wait_healthy rt cx, post_deploy rt cx, trim_images rt cx]"
  have body: "deploy_body rt cx = seqs (?pre @ [finish_success rt cx])"
    by (simp only: deploy_body_def append.simps)
  obtain t where "deploy_body rt cx s = finish_success rt cx t"
    using seqs_last [OF assms [unfolded body]] unfolding body by blast
  then show ?thesis using success_ends [of cx rt t] by (simp add: settled_def trailer_def)
qed

lemma keeps_settled: "keeps (settled cx) (cleanup rt cx)"
  by (rule keeps_cleanup_ends)
    (auto simp: trace_only_def settled_def row_finished_def app_in_state_def)

lemma run_settles:
  "fst (run_deployment rt cx s) = Inr () \<and> settled cx (snd (run_deployment rt cx s)) \<and>
   \<not> ds_conn (snd (run_deployment rt cx s)) \<and> \<not> ds_buildConn (snd (run_deployment rt cx s))"
proof -
  let ?main = "catch (deploy_body rt cx) (on_failure rt cx)"
  have r: "returns (on_failure rt cx msg)" "returns (cleanup rt cx)" "returns (start_deployment rt cx)" for msg
    unfolding on_failure_def cleanup_def start_deployment_def logout_connection_def close_connection_def
      appendAndPublish_def set_deployment_def Let_def
    by (intro returns_rules returns_finish)+
  have failed: "settled cx (snd (on_failure rt cx msg t))" for msg t
    unfolding settled_def by (rule disjI2) (rule failure_ends)
  have main: "settled cx (snd (?main t))" for t
  proof (cases "deploy_body rt cx t")
    case (Pair r t')
    then show ?thesis
      using body_settles [of rt cx t] failed by (cases r) (simp_all add: catch_def)
  qed
  have fin: "returns (finally_do ?main (cleanup rt cx))"
    by (intro returns_finally returns_catch r)
  have snd_fin: "snd (finally_do ?main (cleanup rt cx) t) = snd (cleanup rt cx (snd (?main t)))" for t
    by (simp add: finally_do_def case_prod_unfold split: sum.split)
  have "returns (run_deployment rt cx)"
    unfolding run_deployment_def by (intro returns_andThen r fin)
  then have "fst (run_deployment rt cx s) = Inr ()"
    unfolding returns_def by (metis (full_types) old.unit.exhaust)
  moreover have "snd (run_deployment rt cx s) = snd (cleanup rt cx (snd (?main (snd (start_deployment rt cx s)))))"
    unfolding run_deployment_def by (simp add: returns_snd r snd_fin)
  ultimately show ?thesis
    using keepsD [OF keeps_settled main] cleanup_closes by simp
qed

text \<open>
  C8: a deployment always ends. Whatever the commands, the connections, GitHub and the registry do, the
  handler returns without throwing; it leaves the row of the deployment finished and either successful,
  with the application running, or failed, with the application in error, the stored log being the log it
  streamed (and the closing line after a success); and it leaves no connection open.
\<close>
theorem deployment_always_settles:
  assumes "deployable i (ds_db s) d a v"
  shows "fst (deployApplication rt i s) = Inr () \<and>
    settled (deploy_context (ds_db s) d a v) (snd (deployApplication rt i s)) \<and>
    \<not> ds_conn (snd (deployApplication rt i s)) \<and> \<not> ds_buildConn (snd (deployApplication rt i s))"
  unfolding deployApplication_runs [OF assms] by (rule run_settles)

theorem deployment_always_settles_witness:
  "fst (deployApplication calm ''d1'' (demo demo_deployment)) = Inr () \<and>
    settled (deploy_context (ds_db (demo demo_deployment)) demo_deployment demo_application demo_server)
      (snd (deployApplication calm ''d1'' (demo demo_deployment)))"
  using deployment_always_settles [OF demo_deployable(1), of calm] by blast

section \<open>Steps\<close>

text \<open>
  When a step fails. A step throws when the command is refused, or closes with a non-zero exit code
  and the step is not one that may fail; a command that closes without an exit code, as one that was
  killed or whose connection broke does, counts as a success.
\<close>
theorem step_outcome:
  "fst (runStep rt cx m step s) =
    (case rt_exec rt (js_trace (snd (announce cx (st_label step) s))) m (st_command step) of
       ExecRejected e \<Rightarrow> Inl e
     | ExecClosed None chunks \<Rightarrow> Inr ()
     | ExecClosed (Some c) chunks \<Rightarrow>
         if c \<noteq> 0 \<and> \<not> st_allowFailure step
         then Inl ([DQ] @ st_label step @ [DQ] @ '' exited with code '' @ int_str c) else Inr ())"
proof -
  have returns: "returns (appendAndPublish cx raw)" for raw
    unfolding appendAndPublish_def Let_def by (intro returns_rules)
  then have announced: "fst (announce cx l s) = Inr ()" for l s
    unfolding announce_def returns_def by (metis (full_types) old.unit.exhaust)
  have logs: "returns (seqs (map (\<lambda>chunk. appendAndPublish cx (fst chunk)) chunks))" for chunks :: "(string \<times> bool) list"
    by (intro returns_seqs_map returns)
  have after: "fst (andThen (seqs (map (\<lambda>chunk. appendAndPublish cx (fst chunk)) chunks)) k t) =
      fst (k (snd (seqs (map (\<lambda>chunk. appendAndPublish cx (fst chunk)) chunks) t)))"
    for chunks :: "(string \<times> bool) list" and t and k :: "unit dact"
    using logs [of chunks] unfolding andThen_def fst_bind returns_def by (metis sum.case(2))
  show ?thesis
    unfolding runStep_def andThen_def [of "announce cx (st_label step)"] fst_bind [of "announce cx (st_label step)"]
    by (simp add: announced fst_bind execStream_eval Let_def after throw_def pure_def split: outcome.split option.split)
qed

end
