(* ===== verification/Tables.thy ===== *)
theory Tables
  imports Rows Compose
begin

text \<open>
  The other tables of packages/db/src/schema: accounts and teams, databases, services, backups, jobs and
  their executions, samples, notification channels and log drains. As in Rows, each table is a record of
  its columns and \<open>new_...\<close> an insert with the defaults of the schema.
\<close>

record Session =
  sess_id :: string
  sess_userId :: string
  sess_expiresAt :: int
  sess_createdAt :: int

definition new_session ::
  "string \<Rightarrow> int \<Rightarrow> string \<Rightarrow> int \<Rightarrow> Session" where
  "new_session i now userId expiresAt =
    \<lparr>sess_id = i, sess_userId = userId, sess_expiresAt = expiresAt, sess_createdAt = now\<rparr>"

record User =
  usr_id :: string
  usr_email :: string
  usr_passwordHash :: string
  usr_name :: "string option"
  usr_totpSecret :: "string option"
  usr_totpEnabled :: bool
  usr_totpRecoveryHashes :: "string option"
  usr_createdAt :: int

definition new_user ::
  "string \<Rightarrow> int \<Rightarrow> string \<Rightarrow> string \<Rightarrow> User" where
  "new_user i now email passwordHash =
    \<lparr>usr_id = i, usr_email = email, usr_passwordHash = passwordHash, usr_name = None,
     usr_totpSecret = None, usr_totpEnabled = False, usr_totpRecoveryHashes = None, usr_createdAt = now\<rparr>"

record GithubInstallation =
  ghi_id :: string
  ghi_teamId :: string
  ghi_installationId :: int
  ghi_accountLogin :: string
  ghi_accountType :: string
  ghi_createdAt :: int

definition new_githubInstallation ::
  "string \<Rightarrow> int \<Rightarrow> string \<Rightarrow> int \<Rightarrow> string \<Rightarrow> string \<Rightarrow> GithubInstallation" where
  "new_githubInstallation i now teamId installationId accountLogin accountType =
    \<lparr>ghi_id = i, ghi_teamId = teamId, ghi_installationId = installationId,
     ghi_accountLogin = accountLogin, ghi_accountType = accountType, ghi_createdAt = now\<rparr>"

record PlatformOperation =
  pop_id :: string
  pop_kind :: PlatformOperationKind
  pop_status :: PlatformOperationStatus
  pop_log :: string
  pop_startedAt :: "int option"
  pop_finishedAt :: "int option"
  pop_createdAt :: int

definition new_platformOperation ::
  "string \<Rightarrow> int \<Rightarrow> PlatformOperationKind \<Rightarrow> PlatformOperation" where
  "new_platformOperation i now kind =
    \<lparr>pop_id = i, pop_kind = kind, pop_status = OpQueued, pop_log = [], pop_startedAt = None,
     pop_finishedAt = None, pop_createdAt = now\<rparr>"

record InstanceSettings =
  ins_id :: string
  ins_panelDomain :: "string option"
  ins_backupEnabled :: bool
  ins_backupStorageId :: "string option"
  ins_backupHourUtc :: int
  ins_backupRetention :: int
  ins_backupLastAt :: "int option"
  ins_backupLastStatus :: "string option"
  ins_backupLastError :: "string option"
  ins_backupLastSizeBytes :: "int option"
  ins_updatedAt :: int

definition new_instanceSettings ::
  "string \<Rightarrow> int \<Rightarrow> InstanceSettings" where
  "new_instanceSettings i now =
    \<lparr>ins_id = i, ins_panelDomain = None, ins_backupEnabled = False, ins_backupStorageId = None,
     ins_backupHourUtc = 3, ins_backupRetention = 7, ins_backupLastAt = None, ins_backupLastStatus = None,
     ins_backupLastError = None, ins_backupLastSizeBytes = None, ins_updatedAt = now\<rparr>"

record Passkey =
  pk_id :: string
  pk_userId :: string
  pk_name :: string
  pk_credentialId :: string
  pk_publicKey :: string
  pk_counter :: int
  pk_transports :: "string option"
  pk_createdAt :: int
  pk_lastUsedAt :: "int option"

definition new_passkey ::
  "string \<Rightarrow> int \<Rightarrow> string \<Rightarrow> string \<Rightarrow> string \<Rightarrow> string \<Rightarrow> Passkey" where
  "new_passkey i now userId name credentialId publicKey =
    \<lparr>pk_id = i, pk_userId = userId, pk_name = name, pk_credentialId = credentialId,
     pk_publicKey = publicKey, pk_counter = 0, pk_transports = None, pk_createdAt = now,
     pk_lastUsedAt = None\<rparr>"

record S3Storage =
  s3_id :: string
  s3_teamId :: string
  s3_name :: string
  s3_endpoint :: "string option"
  s3_region :: string
  s3_bucket :: string
  s3_accessKeyId :: string
  s3_secretAccessKey :: string
  s3_createdAt :: int

definition new_s3Storage ::
  "string \<Rightarrow> int \<Rightarrow> string \<Rightarrow> string \<Rightarrow> string \<Rightarrow> string \<Rightarrow> string \<Rightarrow> S3Storage" where
  "new_s3Storage i now teamId name bucket accessKeyId secretAccessKey =
    \<lparr>s3_id = i, s3_teamId = teamId, s3_name = name, s3_endpoint = None, s3_region = ''us-east-1'',
     s3_bucket = bucket, s3_accessKeyId = accessKeyId, s3_secretAccessKey = secretAccessKey,
     s3_createdAt = now\<rparr>"

record Project =
  prj_id :: string
  prj_teamId :: string
  prj_name :: string
  prj_icon :: "string option"
  prj_createdAt :: int

definition new_project ::
  "string \<Rightarrow> int \<Rightarrow> string \<Rightarrow> string \<Rightarrow> Project" where
  "new_project i now teamId name =
    \<lparr>prj_id = i, prj_teamId = teamId, prj_name = name, prj_icon = None, prj_createdAt = now\<rparr>"

record SshKey =
  ssk_id :: string
  ssk_teamId :: string
  ssk_name :: string
  ssk_privateKey :: string
  ssk_publicKey :: string
  ssk_createdAt :: int

definition new_sshKey ::
  "string \<Rightarrow> int \<Rightarrow> string \<Rightarrow> string \<Rightarrow> string \<Rightarrow> string \<Rightarrow> SshKey" where
  "new_sshKey i now teamId name privateKey publicKey =
    \<lparr>ssk_id = i, ssk_teamId = teamId, ssk_name = name, ssk_privateKey = privateKey,
     ssk_publicKey = publicKey, ssk_createdAt = now\<rparr>"

record ApplicationTrafficSample =
  ats_id :: string
  ats_applicationId :: string
  ats_requestCount :: int
  ats_capturedAt :: int

definition new_applicationTrafficSample ::
  "string \<Rightarrow> int \<Rightarrow> string \<Rightarrow> int \<Rightarrow> ApplicationTrafficSample" where
  "new_applicationTrafficSample i now applicationId requestCount =
    \<lparr>ats_id = i, ats_applicationId = applicationId, ats_requestCount = requestCount, ats_capturedAt = now\<rparr>"

record CaCertificate =
  ca_id :: string
  ca_serverId :: string
  ca_name :: string
  ca_host :: string
  ca_pem :: string
  ca_status :: BackupExecutionStatus
  ca_error :: "string option"
  ca_createdAt :: int

definition new_caCertificate ::
  "string \<Rightarrow> int \<Rightarrow> string \<Rightarrow> string \<Rightarrow> string \<Rightarrow> string \<Rightarrow> CaCertificate" where
  "new_caCertificate i now serverId name host pem =
    \<lparr>ca_id = i, ca_serverId = serverId, ca_name = name, ca_host = host, ca_pem = pem,
     ca_status = ExecutionQueued, ca_error = None, ca_createdAt = now\<rparr>"

record AuditEvent =
  aud_id :: string
  aud_teamId :: string
  aud_userId :: "string option"
  aud_actor :: "string option"
  aud_action :: string
  aud_level :: string
  aud_resourceType :: string
  aud_resourceId :: "string option"
  aud_refs :: "string option"
  aud_ip :: "string option"
  aud_method :: string
  aud_path :: string
  aud_createdAt :: int

definition new_auditEvent ::
  "string \<Rightarrow> int \<Rightarrow> string \<Rightarrow> string \<Rightarrow> string \<Rightarrow> string \<Rightarrow> string \<Rightarrow> AuditEvent" where
  "new_auditEvent i now teamId action resourceType method path =
    \<lparr>aud_id = i, aud_teamId = teamId, aud_userId = None, aud_actor = None, aud_action = action,
     aud_level = ''info'', aud_resourceType = resourceType, aud_resourceId = None, aud_refs = None,
     aud_ip = None, aud_method = method, aud_path = path, aud_createdAt = now\<rparr>"

record ApiToken =
  tok_id :: string
  tok_teamId :: string
  tok_createdByUserId :: string
  tok_name :: string
  tok_tokenHash :: string
  tok_tokenPrefix :: string
  tok_permission :: ApiTokenPermission
  tok_expiresAt :: "int option"
  tok_lastUsedAt :: "int option"
  tok_allowedIps :: "string option"
  tok_expiryWarningSentAt :: "int option"
  tok_createdAt :: int

definition new_apiToken ::
  "string \<Rightarrow> int \<Rightarrow> string \<Rightarrow> string \<Rightarrow> string \<Rightarrow> string \<Rightarrow> string \<Rightarrow> ApiToken" where
  "new_apiToken i now teamId createdByUserId name tokenHash tokenPrefix =
    \<lparr>tok_id = i, tok_teamId = teamId, tok_createdByUserId = createdByUserId, tok_name = name,
     tok_tokenHash = tokenHash, tok_tokenPrefix = tokenPrefix, tok_permission = ReadToken,
     tok_expiresAt = None, tok_lastUsedAt = None, tok_allowedIps = None, tok_expiryWarningSentAt = None,
     tok_createdAt = now\<rparr>"

record LogDrain =
  ld_id :: string
  ld_teamId :: string
  ld_name :: string
  ld_kind :: LogDrainKind
  ld_enabled :: bool
  ld_url :: "string option"
  ld_lokiUsername :: "string option"
  ld_lokiPassword :: "string option"
  ld_axiomDataset :: "string option"
  ld_axiomToken :: "string option"
  ld_newRelicLicenseKey :: "string option"
  ld_awsRegion :: "string option"
  ld_awsAccessKeyId :: "string option"
  ld_awsSecretAccessKey :: "string option"
  ld_awsLogGroup :: "string option"
  ld_awsLogStream :: "string option"
  ld_createdAt :: int

definition new_logDrain ::
  "string \<Rightarrow> int \<Rightarrow> string \<Rightarrow> string \<Rightarrow> LogDrainKind \<Rightarrow> LogDrain" where
  "new_logDrain i now teamId name kind =
    \<lparr>ld_id = i, ld_teamId = teamId, ld_name = name, ld_kind = kind, ld_enabled = True, ld_url = None,
     ld_lokiUsername = None, ld_lokiPassword = None, ld_axiomDataset = None, ld_axiomToken = None,
     ld_newRelicLicenseKey = None, ld_awsRegion = None, ld_awsAccessKeyId = None,
     ld_awsSecretAccessKey = None, ld_awsLogGroup = None, ld_awsLogStream = None, ld_createdAt = now\<rparr>"

record Tag =
  tag_id :: string
  tag_teamId :: string
  tag_name :: string
  tag_color :: string
  tag_createdAt :: int

definition new_tag ::
  "string \<Rightarrow> int \<Rightarrow> string \<Rightarrow> string \<Rightarrow> Tag" where
  "new_tag i now teamId name =
    \<lparr>tag_id = i, tag_teamId = teamId, tag_name = name, tag_color = ''#6366f1'', tag_createdAt = now\<rparr>"

record ResourceTag =
  rtag_tagId :: string
  rtag_resourceType :: TaggableType
  rtag_resourceId :: string

definition new_resourceTag ::
  "string \<Rightarrow> TaggableType \<Rightarrow> string \<Rightarrow> ResourceTag" where
  "new_resourceTag tagId resourceType resourceId =
    \<lparr>rtag_tagId = tagId, rtag_resourceType = resourceType, rtag_resourceId = resourceId\<rparr>"

record ScheduledTask =
  stk_id :: string
  stk_applicationId :: string
  stk_name :: string
  stk_command :: string
  stk_cron :: string
  stk_timezone :: string
  stk_timeoutSeconds :: int
  stk_enabled :: bool
  stk_createdAt :: int

definition new_scheduledTask ::
  "string \<Rightarrow> int \<Rightarrow> string \<Rightarrow> string \<Rightarrow> string \<Rightarrow> string \<Rightarrow> ScheduledTask" where
  "new_scheduledTask i now applicationId name command cron =
    \<lparr>stk_id = i, stk_applicationId = applicationId, stk_name = name, stk_command = command,
     stk_cron = cron, stk_timezone = ''UTC'', stk_timeoutSeconds = 300, stk_enabled = True,
     stk_createdAt = now\<rparr>"

record ScheduledTaskExecution =
  ste_id :: string
  ste_taskId :: string
  ste_status :: TaskExecutionStatus
  ste_log :: string
  ste_exitCode :: "int option"
  ste_manual :: bool
  ste_startedAt :: int
  ste_finishedAt :: "int option"

definition new_scheduledTaskExecution ::
  "string \<Rightarrow> int \<Rightarrow> string \<Rightarrow> ScheduledTaskExecution" where
  "new_scheduledTaskExecution i now taskId =
    \<lparr>ste_id = i, ste_taskId = taskId, ste_status = TaskRunning, ste_log = [], ste_exitCode = None,
     ste_manual = False, ste_startedAt = now, ste_finishedAt = None\<rparr>"

record VolumeBackup =
  vbk_id :: string
  vbk_teamId :: string
  vbk_ownerType :: VolumeBackupOwner
  vbk_ownerId :: string
  vbk_volumeId :: "string option"
  vbk_label :: string
  vbk_operation :: VolumeBackupOperation
  vbk_status :: BackupExecutionStatus
  vbk_log :: string
  vbk_filePath :: "string option"
  vbk_s3StorageId :: "string option"
  vbk_sizeBytes :: "int option"
  vbk_sourceBackupId :: "string option"
  vbk_startedAt :: "int option"
  vbk_finishedAt :: "int option"
  vbk_createdAt :: int

definition new_volumeBackup ::
  "string \<Rightarrow> int \<Rightarrow> string \<Rightarrow> VolumeBackupOwner \<Rightarrow> string \<Rightarrow> string \<Rightarrow> VolumeBackup" where
  "new_volumeBackup i now teamId ownerType ownerId label =
    \<lparr>vbk_id = i, vbk_teamId = teamId, vbk_ownerType = ownerType, vbk_ownerId = ownerId,
     vbk_volumeId = None, vbk_label = label, vbk_operation = BackupOperation,
     vbk_status = ExecutionQueued, vbk_log = [], vbk_filePath = None, vbk_s3StorageId = None, vbk_sizeBytes = None,
     vbk_sourceBackupId = None, vbk_startedAt = None, vbk_finishedAt = None, vbk_createdAt = now\<rparr>"

record DockerCleanup =
  dcl_id :: string
  dcl_serverId :: string
  dcl_enabled :: bool
  dcl_cron :: string
  dcl_timezone :: string
  dcl_pruneImages :: bool
  dcl_pruneVolumes :: bool
  dcl_createdAt :: int

definition new_dockerCleanup ::
  "string \<Rightarrow> int \<Rightarrow> string \<Rightarrow> DockerCleanup" where
  "new_dockerCleanup i now serverId =
    \<lparr>dcl_id = i, dcl_serverId = serverId, dcl_enabled = False, dcl_cron = ''0 4 * * 0'',
     dcl_timezone = ''UTC'', dcl_pruneImages = False, dcl_pruneVolumes = False, dcl_createdAt = now\<rparr>"

record DockerCleanupExecution =
  dce_id :: string
  dce_serverId :: string
  dce_status :: BackupExecutionStatus
  dce_log :: string
  dce_reclaimedBytes :: "int option"
  dce_manual :: bool
  dce_startedAt :: "int option"
  dce_finishedAt :: "int option"
  dce_createdAt :: int

definition new_dockerCleanupExecution ::
  "string \<Rightarrow> int \<Rightarrow> string \<Rightarrow> DockerCleanupExecution" where
  "new_dockerCleanupExecution i now serverId =
    \<lparr>dce_id = i, dce_serverId = serverId, dce_status = ExecutionQueued, dce_log = [],
     dce_reclaimedBytes = None, dce_manual = False, dce_startedAt = None, dce_finishedAt = None,
     dce_createdAt = now\<rparr>"

record NotificationChannel =
  nch_id :: string
  nch_teamId :: string
  nch_name :: string
  nch_type :: NotificationChannelType
  nch_url :: "string option"
  nch_telegramBotToken :: "string option"
  nch_telegramChatId :: "string option"
  nch_pushoverUserKey :: "string option"
  nch_pushoverApiToken :: "string option"
  nch_smtpHost :: "string option"
  nch_smtpPort :: "int option"
  nch_smtpSecure :: "bool option"
  nch_smtpUser :: "string option"
  nch_smtpPassword :: "string option"
  nch_smtpFrom :: "string option"
  nch_emailTo :: "string option"
  nch_events :: "string list option"
  nch_enabled :: bool
  nch_createdAt :: int

definition new_notificationChannel ::
  "string \<Rightarrow> int \<Rightarrow> string \<Rightarrow> string \<Rightarrow> NotificationChannelType \<Rightarrow> NotificationChannel" where
  "new_notificationChannel i now teamId name type =
    \<lparr>nch_id = i, nch_teamId = teamId, nch_name = name, nch_type = type, nch_url = None,
     nch_telegramBotToken = None, nch_telegramChatId = None, nch_pushoverUserKey = None,
     nch_pushoverApiToken = None, nch_smtpHost = None, nch_smtpPort = None, nch_smtpSecure = None,
     nch_smtpUser = None, nch_smtpPassword = None, nch_smtpFrom = None, nch_emailTo = None,
     nch_events = None, nch_enabled = True, nch_createdAt = now\<rparr>"

record Database = ResourceLimits +
  dbs_id :: string
  dbs_teamId :: string
  dbs_environmentId :: string
  dbs_serverId :: string
  dbs_name :: string
  dbs_engine :: DatabaseEngine
  dbs_image :: string
  dbs_port :: int
  dbs_username :: "string option"
  dbs_password :: string
  dbs_databaseName :: "string option"
  dbs_publicAccess :: bool
  dbs_ssl :: bool
  dbs_healthEnabled :: bool
  dbs_healthIntervalSeconds :: int
  dbs_healthTimeoutSeconds :: int
  dbs_healthRetries :: int
  dbs_status :: DatabaseStatus
  dbs_createdAt :: int

definition new_database ::
  "string \<Rightarrow> int \<Rightarrow> string \<Rightarrow> string \<Rightarrow> string \<Rightarrow> string \<Rightarrow> string \<Rightarrow> Database" where
  "new_database i now teamId environmentId serverId name password =
    \<lparr>memoryLimitMb = None, cpuLimit = None, dbs_id = i, dbs_teamId = teamId,
     dbs_environmentId = environmentId, dbs_serverId = serverId, dbs_name = name, dbs_engine = PostgreSQL,
     dbs_image = ''postgres:16-alpine'', dbs_port = 5432, dbs_username = None, dbs_password = password,
     dbs_databaseName = None, dbs_publicAccess = False, dbs_ssl = False, dbs_healthEnabled = True,
     dbs_healthIntervalSeconds = 30, dbs_healthTimeoutSeconds = 10, dbs_healthRetries = 5,
     dbs_status = DbIdle, dbs_createdAt = now\<rparr>"

record Team =
  team_id :: string
  team_name :: string
  team_description :: "string option"
  team_personal :: bool
  team_mcpEnabled :: bool
  team_requireTwoFactor :: bool
  team_createdAt :: int

definition new_team ::
  "string \<Rightarrow> int \<Rightarrow> string \<Rightarrow> Team" where
  "new_team i now name =
    \<lparr>team_id = i, team_name = name, team_description = None, team_personal = False,
     team_mcpEnabled = False, team_requireTwoFactor = False, team_createdAt = now\<rparr>"

record TeamMember =
  tm_teamId :: string
  tm_userId :: string
  tm_role :: TeamRole
  tm_createdAt :: int

definition new_teamMember ::
  "int \<Rightarrow> string \<Rightarrow> string \<Rightarrow> TeamMember" where
  "new_teamMember now teamId userId =
    \<lparr>tm_teamId = teamId, tm_userId = userId, tm_role = MemberRole, tm_createdAt = now\<rparr>"

record TeamInvitation =
  inv_id :: string
  inv_teamId :: string
  inv_email :: string
  inv_role :: TeamRole
  inv_token :: string
  inv_acceptedAt :: "int option"
  inv_createdAt :: int

definition new_teamInvitation ::
  "string \<Rightarrow> int \<Rightarrow> string \<Rightarrow> string \<Rightarrow> string \<Rightarrow> TeamInvitation" where
  "new_teamInvitation i now teamId email token =
    \<lparr>inv_id = i, inv_teamId = teamId, inv_email = email, inv_role = MemberRole, inv_token = token,
     inv_acceptedAt = None, inv_createdAt = now\<rparr>"

record ServerMetricSample =
  sms_id :: string
  sms_serverId :: string
  sms_cpuPercent :: decimal
  sms_memPercent :: decimal
  sms_diskPercent :: decimal
  sms_capturedAt :: int

definition new_serverMetricSample ::
  "string \<Rightarrow> int \<Rightarrow> string \<Rightarrow> decimal \<Rightarrow> decimal \<Rightarrow> decimal \<Rightarrow> ServerMetricSample" where
  "new_serverMetricSample i now serverId cpuPercent memPercent diskPercent =
    \<lparr>sms_id = i, sms_serverId = serverId, sms_cpuPercent = cpuPercent, sms_memPercent = memPercent,
     sms_diskPercent = diskPercent, sms_capturedAt = now\<rparr>"

record ContainerMetricSample =
  cms_id :: string
  cms_serverId :: string
  cms_resourceType :: TaggableType
  cms_resourceId :: string
  cms_cpuPercent :: decimal
  cms_memPercent :: decimal
  cms_memUsedBytes :: int
  cms_netRxBytes :: int
  cms_netTxBytes :: int
  cms_pids :: int
  cms_capturedAt :: int

definition new_containerMetricSample ::
  "string \<Rightarrow> int \<Rightarrow> string \<Rightarrow> TaggableType \<Rightarrow> string \<Rightarrow> decimal \<Rightarrow> decimal \<Rightarrow> int \<Rightarrow> int \<Rightarrow> int \<Rightarrow> int \<Rightarrow> ContainerMetricSample" where
  "new_containerMetricSample i now serverId resourceType resourceId cpuPercent memPercent memUsedBytes netRxBytes netTxBytes pids =
    \<lparr>cms_id = i, cms_serverId = serverId, cms_resourceType = resourceType, cms_resourceId = resourceId,
     cms_cpuPercent = cpuPercent, cms_memPercent = memPercent, cms_memUsedBytes = memUsedBytes,
     cms_netRxBytes = netRxBytes, cms_netTxBytes = netTxBytes, cms_pids = pids, cms_capturedAt = now\<rparr>"

record Service = ResourceLimits +
  svc_id :: string
  svc_teamId :: string
  svc_environmentId :: string
  svc_serverId :: string
  svc_name :: string
  svc_catalogKey :: string
  svc_image :: string
  svc_port :: int
  svc_envContent :: string
  svc_domain :: "string option"
  svc_composeContent :: "string option"
  svc_templateKey :: "string option"
  svc_stackFiles :: "StackFiles option"
  svc_mainService :: "string option"
  svc_domains :: "StackDomain list"
  svc_maintenanceMode :: bool
  svc_maintenanceMessage :: "string option"
  svc_priority :: Priority
  svc_shedByGuard :: bool
  svc_maintenanceContainers :: "string list"
  svc_lastLog :: string
  svc_status :: ServiceStatus
  svc_createdAt :: int

definition new_service ::
  "string \<Rightarrow> int \<Rightarrow> string \<Rightarrow> string \<Rightarrow> string \<Rightarrow> string \<Rightarrow> string \<Rightarrow> string \<Rightarrow> int \<Rightarrow> Service" where
  "new_service i now teamId environmentId serverId name catalogKey img port =
    \<lparr>memoryLimitMb = None, cpuLimit = None, svc_id = i, svc_teamId = teamId,
     svc_environmentId = environmentId, svc_serverId = serverId, svc_name = name,
     svc_catalogKey = catalogKey, svc_image = img, svc_port = port, svc_envContent = [],
     svc_domain = None, svc_composeContent = None, svc_templateKey = None, svc_stackFiles = None,
     svc_mainService = None, svc_domains = [], svc_maintenanceMode = False, svc_maintenanceMessage = None,
     svc_priority = Normal, svc_shedByGuard = False, svc_maintenanceContainers = [], svc_lastLog = [],
     svc_status = ServiceIdle, svc_createdAt = now\<rparr>"

record BackupSchedule =
  bsc_id :: string
  bsc_databaseId :: string
  bsc_enabled :: bool
  bsc_cron :: string
  bsc_timezone :: string
  bsc_timeoutSeconds :: int
  bsc_retentionCount :: int
  bsc_retentionDays :: int
  bsc_retentionSizeGb :: int
  bsc_storageId :: "string option"
  bsc_databasesToInclude :: "string option"
  bsc_autoSyncKeepCount :: "int option"
  bsc_createdAt :: int

definition new_backupSchedule ::
  "string \<Rightarrow> int \<Rightarrow> string \<Rightarrow> string \<Rightarrow> BackupSchedule" where
  "new_backupSchedule i now databaseId cron =
    \<lparr>bsc_id = i, bsc_databaseId = databaseId, bsc_enabled = True, bsc_cron = cron, bsc_timezone = ''UTC'',
     bsc_timeoutSeconds = 3600, bsc_retentionCount = 7, bsc_retentionDays = 0, bsc_retentionSizeGb = 0,
     bsc_storageId = None, bsc_databasesToInclude = None, bsc_autoSyncKeepCount = None,
     bsc_createdAt = now\<rparr>"

record BackupExecution =
  bex_id :: string
  bex_scheduleId :: string
  bex_status :: BackupExecutionStatus
  bex_log :: string
  bex_filePath :: "string option"
  bex_s3StorageId :: "string option"
  bex_sizeBytes :: "int option"
  bex_startedAt :: "int option"
  bex_finishedAt :: "int option"
  bex_createdAt :: int
  bex_syncedAt :: "int option"

definition new_backupExecution ::
  "string \<Rightarrow> int \<Rightarrow> string \<Rightarrow> BackupExecution" where
  "new_backupExecution i now scheduleId =
    \<lparr>bex_id = i, bex_scheduleId = scheduleId, bex_status = ExecutionQueued, bex_log = [],
     bex_filePath = None, bex_s3StorageId = None, bex_sizeBytes = None, bex_startedAt = None, bex_finishedAt = None,
     bex_createdAt = now, bex_syncedAt = None\<rparr>"

record DatabaseRestore =
  dbr_id :: string
  dbr_databaseId :: string
  dbr_status :: BackupExecutionStatus
  dbr_sourceLabel :: string
  dbr_log :: string
  dbr_startedAt :: "int option"
  dbr_finishedAt :: "int option"
  dbr_createdAt :: int

definition new_databaseRestore ::
  "string \<Rightarrow> int \<Rightarrow> string \<Rightarrow> string \<Rightarrow> DatabaseRestore" where
  "new_databaseRestore i now databaseId sourceLabel =
    \<lparr>dbr_id = i, dbr_databaseId = databaseId, dbr_status = ExecutionQueued, dbr_sourceLabel = sourceLabel,
     dbr_log = [], dbr_startedAt = None, dbr_finishedAt = None, dbr_createdAt = now\<rparr>"

end
