(* ===== verification/DatabaseCommands.thy ===== *)
theory DatabaseCommands
  imports DeployCommands Tables
begin

text \<open>
  Databases: the engines (packages/shared/src/types.ts), how a client reaches one
  (packages/shared/src/databaseConnection.ts) and the container of each engine
  (apps/worker/src/jobs/provisionDatabase.commands.ts). The run command of every engine is read by a
  shell as a list of literal words; a connection URL gives its credentials back.
\<close>

section \<open>Engines\<close>

record DatabaseEngineInfo =
  ei_label :: string
  ei_defaultImage :: string
  ei_imageRepo :: string
  ei_versions :: "string list"
  ei_internalPort :: int
  ei_defaultPort :: int
  ei_supportsBackup :: bool
  ei_supportsSsl :: bool
  ei_hasUsername :: bool
  ei_hasDatabaseName :: bool
  ei_fileBased :: bool
  ei_icon :: string
  ei_description :: string
  ei_website :: string
  ei_docsUrl :: string

fun DATABASE_ENGINES :: "DatabaseEngine \<Rightarrow> DatabaseEngineInfo" where
  "DATABASE_ENGINES PostgreSQL =
    \<lparr>ei_label = ''PostgreSQL'', ei_defaultImage = ''postgres:16-alpine'', ei_imageRepo = ''postgres'',
      ei_versions = [''17-alpine'', ''16-alpine'', ''15-alpine'', ''14-alpine'', ''13-alpine''], ei_internalPort = 5432, ei_defaultPort = 5432,
      ei_supportsBackup = True, ei_supportsSsl = True, ei_hasUsername = True,
      ei_hasDatabaseName = True, ei_fileBased = False, ei_icon = ''database'',
      ei_description = ''Relational database with strong standard-SQL support and extensibility.'',
      ei_website = ''https://www.postgresql.org'', ei_docsUrl = ''https://www.postgresql.org/docs/''\<rparr>"
| "DATABASE_ENGINES MySQL =
    \<lparr>ei_label = ''MySQL'', ei_defaultImage = ''mysql:8'', ei_imageRepo = ''mysql'',
      ei_versions = [''9'', ''8.4'', ''8'', ''5.7''], ei_internalPort = 3306, ei_defaultPort = 3306,
      ei_supportsBackup = True, ei_supportsSsl = True, ei_hasUsername = True,
      ei_hasDatabaseName = True, ei_fileBased = False, ei_icon = ''database'',
      ei_description = ''Relational database for web applications and general use.'',
      ei_website = ''https://www.mysql.com'', ei_docsUrl = ''https://dev.mysql.com/doc/''\<rparr>"
| "DATABASE_ENGINES MariaDB =
    \<lparr>ei_label = ''MariaDB'', ei_defaultImage = ''mariadb:11'', ei_imageRepo = ''mariadb'',
      ei_versions = [''11'', ''10.11'', ''10.6''], ei_internalPort = 3306, ei_defaultPort = 3306,
      ei_supportsBackup = True, ei_supportsSsl = True, ei_hasUsername = True,
      ei_hasDatabaseName = True, ei_fileBased = False, ei_icon = ''database'',
      ei_description = ''Banco relacional, substituto direto do MySQL.'',
      ei_website = ''https://mariadb.org'', ei_docsUrl = ''https://mariadb.com/kb/en/documentation/''\<rparr>"
| "DATABASE_ENGINES Redis =
    \<lparr>ei_label = ''Redis'', ei_defaultImage = ''redis:7-alpine'', ei_imageRepo = ''redis'',
      ei_versions = [''8-alpine'', ''7-alpine'', ''6-alpine''], ei_internalPort = 6379, ei_defaultPort = 6379,
      ei_supportsBackup = True, ei_supportsSsl = True, ei_hasUsername = False,
      ei_hasDatabaseName = False, ei_fileBased = False, ei_icon = ''bolt'',
      ei_description = ''In-memory key-value store: cache, queues and message broker.'',
      ei_website = ''https://redis.io'', ei_docsUrl = ''https://redis.io/docs/''\<rparr>"
| "DATABASE_ENGINES KeyDB =
    \<lparr>ei_label = ''KeyDB'', ei_defaultImage = ''eqalpha/keydb:latest'', ei_imageRepo = ''eqalpha/keydb'',
      ei_versions = [''latest'', ''x86_64_v6.3.4''], ei_internalPort = 6379, ei_defaultPort = 6379,
      ei_supportsBackup = True, ei_supportsSsl = True, ei_hasUsername = False,
      ei_hasDatabaseName = False, ei_fileBased = False, ei_icon = ''bolt'',
      ei_description = ''Multithreaded Redis fork, protocol-compatible.'',
      ei_website = ''https://docs.keydb.dev'', ei_docsUrl = ''https://docs.keydb.dev/docs/''\<rparr>"
| "DATABASE_ENGINES Dragonfly =
    \<lparr>ei_label = ''Dragonfly'', ei_defaultImage = ''docker.dragonflydb.io/dragonflydb/dragonfly:latest'', ei_imageRepo = ''docker.dragonflydb.io/dragonflydb/dragonfly'',
      ei_versions = [''latest'', ''v1.25.0''], ei_internalPort = 6379, ei_defaultPort = 6379,
      ei_supportsBackup = False, ei_supportsSsl = True, ei_hasUsername = False,
      ei_hasDatabaseName = False, ei_fileBased = False, ei_icon = ''bolt'',
      ei_description = ''Modern, fast Redis replacement, protocol-compatible.'',
      ei_website = ''https://www.dragonflydb.io'', ei_docsUrl = ''https://www.dragonflydb.io/docs''\<rparr>"
| "DATABASE_ENGINES MongoDB =
    \<lparr>ei_label = ''MongoDB'', ei_defaultImage = ''mongo:7'', ei_imageRepo = ''mongo'',
      ei_versions = [''8'', ''7'', ''6''], ei_internalPort = 27017, ei_defaultPort = 27017,
      ei_supportsBackup = True, ei_supportsSsl = True, ei_hasUsername = True,
      ei_hasDatabaseName = True, ei_fileBased = False, ei_icon = ''eco'',
      ei_description = ''NoSQL document database with a flexible schema.'',
      ei_website = ''https://www.mongodb.com'', ei_docsUrl = ''https://www.mongodb.com/docs/''\<rparr>"
| "DATABASE_ENGINES ClickHouse =
    \<lparr>ei_label = ''ClickHouse'', ei_defaultImage = ''clickhouse/clickhouse-server:latest'', ei_imageRepo = ''clickhouse/clickhouse-server'',
      ei_versions = [''latest'', ''24.8'', ''23.8''], ei_internalPort = 8123, ei_defaultPort = 8123,
      ei_supportsBackup = True, ei_supportsSsl = False, ei_hasUsername = True,
      ei_hasDatabaseName = True, ei_fileBased = False, ei_icon = ''monitoring'',
      ei_description = ''Banco colunar pra analytics e grandes volumes de eventos (interface HTTP na 8123).'',
      ei_website = ''https://clickhouse.com'', ei_docsUrl = ''https://clickhouse.com/docs''\<rparr>"
| "DATABASE_ENGINES SQLite =
    \<lparr>ei_label = ''SQLite'', ei_defaultImage = ''keinos/sqlite3:latest'', ei_imageRepo = ''keinos/sqlite3'',
      ei_versions = [''latest''], ei_internalPort = 0, ei_defaultPort = 0,
      ei_supportsBackup = True, ei_supportsSsl = False, ei_hasUsername = False,
      ei_hasDatabaseName = True, ei_fileBased = True, ei_icon = ''description'',
      ei_description = ''A single database file on a Docker volume, shared with applications of the same server.'',
      ei_website = ''https://www.sqlite.org'', ei_docsUrl = ''https://www.sqlite.org/docs.html''\<rparr>"

section \<open>Percent encoding\<close>

text \<open>\<open>encodeURIComponent\<close> of the language on the code units below 256: UTF-8 bytes as \<open>%XX\<close>.\<close>

definition upper_hex :: "nat \<Rightarrow> char" where
  "upper_hex n = ''0123456789ABCDEF'' ! n"

definition percent :: "nat \<Rightarrow> string" where
  "percent n = [CHR ''%'', upper_hex (n div 16), upper_hex (n mod 16)]"

definition unreserved :: "char \<Rightarrow> bool" where
  "unreserved c \<longleftrightarrow> is_alnum c \<or> List.member ''-_.!~*()'' c \<or> c = SQ"

definition encode_char :: "char \<Rightarrow> string" where
  "encode_char c =
    (if unreserved c then [c]
     else if code c < 128 then percent (code c)
     else percent (192 + code c div 64) @ percent (128 + code c mod 64))"

definition encodeURIComponent :: "string \<Rightarrow> string" where
  "encodeURIComponent s = concat (map encode_char s)"

section \<open>Connections\<close>

record ConnectionParams =
  cn_engine :: DatabaseEngine
  cn_host :: string
  cn_port :: int
  cn_username :: "string option"
  cn_password :: string
  cn_databaseName :: "string option"
  cn_ssl :: bool

definition SQLITE_MOUNT_DIR :: string where
  "SQLITE_MOUNT_DIR = ''/data''"

definition databaseDataVolumeName :: "string \<Rightarrow> string" where
  "databaseDataVolumeName databaseId = ''yeah-db-'' @ databaseId @ ''-data''"

definition sqlite_char :: "char \<Rightarrow> bool" where
  "sqlite_char c \<longleftrightarrow> is_alnum c \<or> c = CHR ''_'' \<or> c = CHR ''-''"

definition isValidSqliteName :: "string \<Rightarrow> bool" where
  "isValidSqliteName name \<longleftrightarrow> 1 \<le> length name \<and> length name \<le> 63 \<and> list_all sqlite_char name"

definition sqliteFileName :: "string option \<Rightarrow> string" where
  "sqliteFileName databaseName =
    (let cleaned = take 63 (map (\<lambda>c. if sqlite_char c then c else CHR ''_'') (default [] databaseName)) in
     (if cleaned \<noteq> [] then cleaned else ''app'') @ ''.db'')"

definition sqliteFilePath :: "string option \<Rightarrow> string" where
  "sqliteFilePath databaseName = SQLITE_MOUNT_DIR @ ''/'' @ sqliteFileName databaseName"

definition sqliteConnectionUrl :: "string option \<Rightarrow> string \<Rightarrow> string" where
  "sqliteConnectionUrl databaseName mountPath =
    ''file:'' @ strip_trailing (CHR ''/'') mountPath @ ''/'' @ sqliteFileName databaseName"

definition databaseConnectionUrl :: "ConnectionParams \<Rightarrow> string" where
  "databaseConnectionUrl c =
    (let auth = (if str_truthy (cn_username c) then encodeURIComponent (the (cn_username c)) else ''default'') @ '':'' @
           encodeURIComponent (cn_password c);
         hostport = cn_host c @ '':'' @ int_str (cn_port c);
         name = (\<lambda>d. encodeURIComponent (default d (cn_databaseName c)))
     in case cn_engine c of
          SQLite \<Rightarrow> sqliteConnectionUrl (cn_databaseName c) SQLITE_MOUNT_DIR
        | PostgreSQL \<Rightarrow> ''postgresql://'' @ auth @ ''@'' @ hostport @ ''/'' @ name ''postgres'' @
            (if cn_ssl c then ''?sslmode=require'' else [])
        | MySQL \<Rightarrow> ''mysql://'' @ auth @ ''@'' @ hostport @ ''/'' @ name [] @ (if cn_ssl c then ''?ssl-mode=REQUIRED'' else [])
        | MariaDB \<Rightarrow> ''mysql://'' @ auth @ ''@'' @ hostport @ ''/'' @ name [] @ (if cn_ssl c then ''?ssl-mode=REQUIRED'' else [])
        | MongoDB \<Rightarrow> ''mongodb://'' @ auth @ ''@'' @ hostport @ ''/'' @ name [] @ ''?authSource=admin'' @
            (if cn_ssl c then ''&tls=true&tlsAllowInvalidCertificates=true'' else [])
        | Redis \<Rightarrow> (if cn_ssl c then ''rediss'' else ''redis'') @ ''://'' @ auth @ ''@'' @ hostport
        | KeyDB \<Rightarrow> (if cn_ssl c then ''rediss'' else ''redis'') @ ''://'' @ auth @ ''@'' @ hostport
        | Dragonfly \<Rightarrow> (if cn_ssl c then ''rediss'' else ''redis'') @ ''://'' @ auth @ ''@'' @ hostport
        | ClickHouse \<Rightarrow> (if cn_ssl c then ''https'' else ''http'') @ ''://'' @ auth @ ''@'' @ hostport @ ''/?database='' @ name ''default'')"

section \<open>The container of a database\<close>

definition containerNameForDatabase :: "string \<Rightarrow> string" where
  "containerNameForDatabase databaseId = ''yeah-db-'' @ databaseId"

definition dbCertDir :: "string \<Rightarrow> string" where
  "dbCertDir databaseId = ''/opt/yeah-db/'' @ databaseId @ ''/ssl''"

definition dbBackupsDir :: "string \<Rightarrow> string" where
  "dbBackupsDir databaseId = ''/opt/yeah-backups/'' @ databaseId"

definition dbConfigDir :: "string \<Rightarrow> string" where
  "dbConfigDir databaseId = ''/opt/yeah-db/'' @ databaseId @ ''/config''"

record RunOptions =
  ro_networkName :: string
  ro_alias :: string

fun ENGINE_RUN_USER :: "DatabaseEngine \<Rightarrow> string" where
  "ENGINE_RUN_USER PostgreSQL = ''postgres''"
| "ENGINE_RUN_USER MySQL = ''mysql''"
| "ENGINE_RUN_USER MariaDB = ''mysql''"
| "ENGINE_RUN_USER Redis = ''redis''"
| "ENGINE_RUN_USER KeyDB = ''keydb''"
| "ENGINE_RUN_USER Dragonfly = ''dfly''"
| "ENGINE_RUN_USER MongoDB = ''mongodb''"
| "ENGINE_RUN_USER ClickHouse = ''clickhouse''"
| "ENGINE_RUN_USER SQLite = ''root''"

definition sqliteHolderScript :: "Database \<Rightarrow> string" where
  "sqliteHolderScript database =
    (let file = shellQuote (sqliteFilePath (dbs_databaseName database)) in
     ''touch '' @ file @ '' && chmod 777 '' @ shellQuote SQLITE_MOUNT_DIR @ '' && chmod 666 '' @ file @
     '' && trap '' @ [SQ] @ ''exit 0'' @ [SQ] @ '' TERM INT && while :; do sleep 3600 & wait $!; done'')"

definition postgresHbaConfig :: string where
  "postgresHbaConfig = join_str [LF] [''local all all trust'', ''hostssl all all all scram-sha-256'', []]"

definition clickhouseBackupsConfig :: string where
  "clickhouseBackupsConfig =
    ''<clickhouse>'' @ [LF] @ ''  <backups>'' @ [LF] @ ''    <allowed_path>/backups/</allowed_path>'' @ [LF] @
    ''    <allow_concurrent_backups>false</allow_concurrent_backups>'' @ [LF] @ ''  </backups>'' @ [LF] @ ''</clickhouse>'' @ [LF]"

definition healthProbe :: "Database \<Rightarrow> string option" where
  "healthProbe database =
    (let tls = dbs_ssl database; dq = (\<lambda>s. [DQ] @ s @ [DQ]); sq = (\<lambda>s. [SQ] @ s @ [SQ]) in
     case dbs_engine database of
       PostgreSQL \<Rightarrow> Some (''pg_isready -U '' @ shellQuote (default ''postgres'' (dbs_username database)) @ '' -d '' @
         shellQuote (default ''app'' (dbs_databaseName database)) @ '' -h 127.0.0.1'')
     | MySQL \<Rightarrow> Some (''mysqladmin ping -uroot -p'' @ dq ''$MYSQL_ROOT_PASSWORD'' @ '' --silent'')
     | MariaDB \<Rightarrow> Some (''mariadb-admin ping -uroot -p'' @ dq ''$MARIADB_ROOT_PASSWORD'' @ '' --silent'')
     | Redis \<Rightarrow> Some (''redis-cli '' @ (if tls then ''--tls --insecure '' else []) @ ''ping | grep -q PONG'')
     | KeyDB \<Rightarrow> Some (''keydb-cli '' @ (if tls then ''--tls --insecure '' else []) @ ''ping | grep -q PONG'')
     | Dragonfly \<Rightarrow> None
     | MongoDB \<Rightarrow> Some (''mongosh --quiet '' @ (if tls then ''--tls --tlsAllowInvalidCertificates '' else []) @
         ''--eval '' @ dq (''db.adminCommand('' @ sq ''ping'' @ '').ok'') @ '' | grep -q 1'')
     | ClickHouse \<Rightarrow> Some (''clickhouse-client -u '' @ dq ''$CLICKHOUSE_USER'' @ '' --password '' @ dq ''$CLICKHOUSE_PASSWORD'' @
         '' -q '' @ sq ''SELECT 1'' @ '' | grep -q 1'')
     | SQLite \<Rightarrow> Some (''sqlite3 '' @ shellQuote (sqliteFilePath (dbs_databaseName database)) @ '' '' @ sq ''SELECT 1;'' @ '' | grep -q 1''))"

definition dbHealthFlags :: "Database \<Rightarrow> string" where
  "dbHealthFlags database =
    (if \<not> dbs_healthEnabled database then ''--no-healthcheck ''
     else case healthProbe database of
       None \<Rightarrow> if dbs_ssl database then ''--no-healthcheck '' else []
     | Some probe \<Rightarrow>
         ''--health-cmd '' @ shellQuote probe @ '' '' @
         ''--health-interval '' @ int_str (dbs_healthIntervalSeconds database) @ ''s '' @
         ''--health-timeout '' @ int_str (dbs_healthTimeoutSeconds database) @ ''s '' @
         ''--health-retries '' @ int_str (dbs_healthRetries database) @ '' '' @
         ''--health-start-period 60s '')"

definition dbHealthWaitSeconds :: "Database \<Rightarrow> int" where
  "dbHealthWaitSeconds database = 60 + dbs_healthIntervalSeconds database * dbs_healthRetries database + 30"

text \<open>
  Sizes are exact: \<open>floor(limit * 0.4)\<close> and the two rounded decimals agree with double arithmetic on the
  values of the column. A limit of 0 counts as none.
\<close>

definition memory_limit :: "Database \<Rightarrow> int option" where
  "memory_limit database = (case memoryLimitMb database of Some l \<Rightarrow> if l = 0 then None else Some l | None \<Rightarrow> None)"

definition innodb_pool :: "int option \<Rightarrow> int" where
  "innodb_pool limit = (case limit of Some l \<Rightarrow> max 32 (2 * l div 5) | None \<Rightarrow> 128)"

definition wired_tiger_cache :: "int option \<Rightarrow> decimal" where
  "wired_tiger_cache limit = Decimal (case limit of Some l \<Rightarrow> nat (max 25 ((l * 5 + 64) div 128)) | None \<Rightarrow> 25) 2"

definition shared_buffers :: "int option \<Rightarrow> int" where
  "shared_buffers limit = (case limit of Some l \<Rightarrow> max 16 (l div 4) | None \<Rightarrow> 64)"

definition memoryTuningArgs :: "Database \<Rightarrow> string" where
  "memoryTuningArgs database =
    (let limit = memory_limit database;
         mysql = '' --performance-schema=OFF --innodb-buffer-pool-size='' @ int_str (innodb_pool limit) @ ''M --max-connections=100''
     in case dbs_engine database of
          MySQL \<Rightarrow> mysql
        | MariaDB \<Rightarrow> mysql
        | MongoDB \<Rightarrow> '' --wiredTigerCacheSizeGB='' @ decimal_str (wired_tiger_cache limit)
        | PostgreSQL \<Rightarrow> '' -c shared_buffers='' @ int_str (shared_buffers limit) @ ''MB -c max_connections=100''
        | _ \<Rightarrow> [])"

definition env_flag :: "string \<Rightarrow> string \<Rightarrow> string" where
  "env_flag k v = ''-e '' @ k @ ''='' @ shellQuote v @ '' ''"

definition mount_flag :: "string \<Rightarrow> string \<Rightarrow> string" where
  "mount_flag source target = ''-v '' @ shellQuote source @ target @ '' ''"

definition redis_tls :: string where
  "redis_tls = '' --port 0 --tls-port 6379 --tls-cert-file /certs/server.crt --tls-key-file /certs/server.key --tls-auth-clients no --tls-ca-cert-file /certs/server.crt''"

definition mysql_tls :: string where
  "mysql_tls = '' --ssl-cert=/certs/server.crt --ssl-key=/certs/server.key --require-secure-transport=ON''"

definition run_base :: "Database \<Rightarrow> string \<Rightarrow> RunOptions option \<Rightarrow> string" where
  "run_base database containerName options =
    ''docker run -d --name '' @ shellQuote containerName @ '' '' @ LOG_ROTATION_FLAGS @ resourceLimitFlags database @
    (case options of
       Some opts \<Rightarrow> ''--network '' @ shellQuote (ro_networkName opts) @ '' --network-alias '' @ shellQuote (ro_alias opts) @ '' ''
     | None \<Rightarrow> []) @
    dbHealthFlags database"

definition buildDbRunCommand :: "Database \<Rightarrow> string \<Rightarrow> string \<Rightarrow> RunOptions option \<Rightarrow> string" where
  "buildDbRunCommand database containerName dataVolume options =
    (let internal = ei_internalPort (DATABASE_ENGINES (dbs_engine database));
         publish = (if dbs_publicAccess database then ''-p '' @ int_str (dbs_port database) @ '':'' @ int_str internal @ '' '' else []);
         certs = (if dbs_ssl database then mount_flag (dbCertDir (dbs_id database)) '':/certs:ro'' else []);
         base = run_base database containerName options;
         restart = ''--restart unless-stopped '' @ shellQuote (dbs_image database);
         password = dbs_password database;
         username = (\<lambda>d. default d (dbs_username database));
         databaseName = default ''app'' (dbs_databaseName database);
         ssl = dbs_ssl database
     in case dbs_engine database of
       PostgreSQL \<Rightarrow>
         base @ env_flag ''POSTGRES_USER'' (username ''postgres'') @ env_flag ''POSTGRES_PASSWORD'' password @
         env_flag ''POSTGRES_DB'' databaseName @ publish @ certs @ mount_flag dataVolume '':/var/lib/postgresql/data'' @
         restart @ memoryTuningArgs database @
         (if ssl then '' -c ssl=on -c ssl_cert_file=/certs/server.crt -c ssl_key_file=/certs/server.key -c hba_file=/certs/pg_hba.conf'' else [])
     | MySQL \<Rightarrow>
         base @ env_flag ''MYSQL_ROOT_PASSWORD'' password @ env_flag ''MYSQL_USER'' (username ''app'') @
         env_flag ''MYSQL_PASSWORD'' password @ env_flag ''MYSQL_DATABASE'' databaseName @ publish @ certs @
         mount_flag dataVolume '':/var/lib/mysql'' @ restart @ memoryTuningArgs database @ (if ssl then mysql_tls else [])
     | MariaDB \<Rightarrow>
         base @ env_flag ''MARIADB_ROOT_PASSWORD'' password @ env_flag ''MARIADB_USER'' (username ''app'') @
         env_flag ''MARIADB_PASSWORD'' password @ env_flag ''MARIADB_DATABASE'' databaseName @ publish @ certs @
         mount_flag dataVolume '':/var/lib/mysql'' @ restart @ memoryTuningArgs database @ (if ssl then mysql_tls else [])
     | Redis \<Rightarrow>
         base @ env_flag ''REDISCLI_AUTH'' password @ publish @ certs @ mount_flag dataVolume '':/data'' @ restart @
         '' redis-server --requirepass '' @ shellQuote password @ '' --appendonly yes'' @ (if ssl then redis_tls else [])
     | KeyDB \<Rightarrow>
         base @ env_flag ''REDISCLI_AUTH'' password @ publish @ certs @ mount_flag dataVolume '':/data'' @ restart @
         '' keydb-server --requirepass '' @ shellQuote password @ '' --appendonly yes'' @ (if ssl then redis_tls else [])
     | Dragonfly \<Rightarrow>
         base @ publish @ certs @ mount_flag dataVolume '':/data'' @ restart @
         '' --requirepass='' @ shellQuote password @ '' --dir=/data'' @
         (case memory_limit database of
            Some l \<Rightarrow> '' --maxmemory='' @ int_str l @ ''mb --proactor_threads='' @ int_str (max 1 (l div 256))
          | None \<Rightarrow> []) @
         (if ssl then '' --tls --tls_cert_file=/certs/server.crt --tls_key_file=/certs/server.key'' else [])
     | MongoDB \<Rightarrow>
         base @ env_flag ''MONGO_INITDB_ROOT_USERNAME'' (username ''root'') @ env_flag ''MONGO_INITDB_ROOT_PASSWORD'' password @
         env_flag ''MONGO_INITDB_DATABASE'' databaseName @ publish @ certs @ mount_flag dataVolume '':/data/db'' @ restart @
         memoryTuningArgs database @
         (if ssl then '' --tlsMode requireTLS --tlsCertificateKeyFile /certs/server.pem --tlsCAFile /certs/server.crt --tlsAllowConnectionsWithoutCertificates'' else [])
     | ClickHouse \<Rightarrow>
         base @ env_flag ''CLICKHOUSE_USER'' (username ''app'') @ env_flag ''CLICKHOUSE_PASSWORD'' password @
         env_flag ''CLICKHOUSE_DB'' databaseName @ ''-e CLICKHOUSE_DEFAULT_ACCESS_MANAGEMENT=1 '' @ publish @
         mount_flag dataVolume '':/var/lib/clickhouse'' @
         mount_flag (dbConfigDir (dbs_id database)) ''/backups.xml:/etc/clickhouse-server/config.d/yeah-backups.xml:ro'' @
         mount_flag (dbBackupsDir (dbs_id database)) '':/backups'' @ ''--ulimit nofile=262144:262144 '' @ restart
     | SQLite \<Rightarrow>
         base @ ''--user 0 --entrypoint sh '' @ mount_flag dataVolume ('':'' @ SQLITE_MOUNT_DIR) @ restart @ '' -c '' @
         shellQuote (sqliteHolderScript database))"

section \<open>Words in progress\<close>

text \<open>
  \<open>spells u w\<close>: the text \<open>u\<close> adds the literal characters \<open>w\<close> to the word being read.
  \<open>extends u ws\<close>: read within a word, the text \<open>u\<close> ends it and gives the words \<open>ws\<close>, the last one still open.
\<close>

definition spells :: "string \<Rightarrow> string \<Rightarrow> bool" where
  "spells u w \<longleftrightarrow>
    (\<forall>ts cur rest. sh_run (u @ rest) (sh_outside ts cur) = sh_run rest (sh_outside ts (Some (opt_list cur @ map Lit w))))"

definition extends :: "string \<Rightarrow> string list \<Rightarrow> bool" where
  "extends u ws \<longleftrightarrow>
    (\<forall>ts cur rest. sh_run (u @ rest) (sh_outside ts (Some cur)) =
       sh_run rest (sh_outside (ts @ butlast (Word cur # map lit_word ws)) (Some (last (cur # map (map Lit) ws)))))"

lemma spells_quoted [intro]: "spells (shellQuote v) v"
  by (simp add: spells_def sh.run_quote)

lemma spells_plain: "list_all plain_char w \<Longrightarrow> w \<noteq> [] \<Longrightarrow> spells w w"
  by (simp add: spells_def list_all_iff sh.run_plain_text)

lemma spells_append: "spells u w \<Longrightarrow> spells u' w' \<Longrightarrow> spells (u @ u') (w @ w')"
  by (simp add: spells_def)

lemma reads_spelled: "spells u w \<Longrightarrow> reads (u @ '' '') [lit_word w]"
  by (simp add: spells_def reads_def sh.run_blank del: sh_run.simps)

lemma extends_Nil [intro]: "extends [] []"
  by (simp add: extends_def)

lemma extends_append: "extends u ws \<Longrightarrow> extends u' ws' \<Longrightarrow> extends (u @ u') (ws @ ws')"
  by (cases ws rule: rev_cases) (simp_all add: extends_def butlast_append)

lemma extends_spelled: "spells u w \<Longrightarrow> extends ('' '' @ u) [w]"
  by (simp add: spells_def extends_def sh.run_blank del: sh_run.simps)

lemma extends_words:
  "list_all (\<lambda>w. w \<noteq> [] \<and> list_all plain_char w) ws \<Longrightarrow> extends (concat (map ((#) (CHR '' '')) ws)) ws"
proof (induction ws)
  case (Cons w ws)
  then show ?case
    using extends_append [OF extends_spelled [OF spells_plain [of w]], of "concat (map ((#) (CHR '' '')) ws)" ws] by simp
qed (simp add: extends_Nil)

lemma extends_fixed:
  assumes "u = concat (map ((#) (CHR '' '')) ws)" and "list_all (\<lambda>w. w \<noteq> [] \<and> list_all plain_char w) ws"
  shows "extends u ws"
  using extends_words [OF assms(2)] assms(1) by simp

lemma sh_tokens_extended:
  assumes "reads s toks" and "spells x w" and "extends u ws"
  shows "sh_tokens (s @ x @ u) = Some (toks @ map lit_word (w # ws))"
proof -
  have "sh_run (s @ x @ u) (sh_outside [] None) =
      sh_outside (toks @ butlast (lit_word w # map lit_word ws)) (Some (last (map Lit w # map (map Lit) ws)))"
    using assms(1) assms(2) assms(3) [unfolded extends_def, rule_format, of "[]" toks "map Lit w"]
    by (simp add: reads_def spells_def)
  moreover have "butlast (lit_word w # map lit_word ws) @ [Word (last (map Lit w # map (map Lit) ws))] =
      lit_word w # map lit_word ws"
    by (cases ws rule: rev_cases) (simp_all add: butlast_append)
  ultimately show ?thesis by (simp add: sh_tokens_def sh_end_word_outside)
qed

section \<open>The intended words\<close>

text \<open>What the container of each engine is started with, as a table: the words Docker should receive.\<close>

definition engine_env :: "Database \<Rightarrow> (string \<times> string) list" where
  "engine_env database =
    (let password = dbs_password database; user = (\<lambda>d. default d (dbs_username database));
         name = default ''app'' (dbs_databaseName database)
     in case dbs_engine database of
       PostgreSQL \<Rightarrow> [(''POSTGRES_USER'', user ''postgres''), (''POSTGRES_PASSWORD'', password), (''POSTGRES_DB'', name)]
     | MySQL \<Rightarrow> [(''MYSQL_ROOT_PASSWORD'', password), (''MYSQL_USER'', user ''app''), (''MYSQL_PASSWORD'', password), (''MYSQL_DATABASE'', name)]
     | MariaDB \<Rightarrow> [(''MARIADB_ROOT_PASSWORD'', password), (''MARIADB_USER'', user ''app''), (''MARIADB_PASSWORD'', password), (''MARIADB_DATABASE'', name)]
     | MongoDB \<Rightarrow> [(''MONGO_INITDB_ROOT_USERNAME'', user ''root''), (''MONGO_INITDB_ROOT_PASSWORD'', password), (''MONGO_INITDB_DATABASE'', name)]
     | ClickHouse \<Rightarrow> [(''CLICKHOUSE_USER'', user ''app''), (''CLICKHOUSE_PASSWORD'', password), (''CLICKHOUSE_DB'', name)]
     | Redis \<Rightarrow> [(''REDISCLI_AUTH'', password)]
     | KeyDB \<Rightarrow> [(''REDISCLI_AUTH'', password)]
     | Dragonfly \<Rightarrow> []
     | SQLite \<Rightarrow> [])"

fun engine_data :: "DatabaseEngine \<Rightarrow> string" where
  "engine_data PostgreSQL = ''/var/lib/postgresql/data''"
| "engine_data MySQL = ''/var/lib/mysql''"
| "engine_data MariaDB = ''/var/lib/mysql''"
| "engine_data MongoDB = ''/data/db''"
| "engine_data ClickHouse = ''/var/lib/clickhouse''"
| "engine_data _ = ''/data''"

definition tuning_words :: "Database \<Rightarrow> string list" where
  "tuning_words database =
    (let limit = memory_limit database in
     if dbs_engine database \<in> {MySQL, MariaDB} then
       [''--performance-schema=OFF'', ''--innodb-buffer-pool-size='' @ int_str (innodb_pool limit) @ ''M'', ''--max-connections=100'']
     else if dbs_engine database = MongoDB then [''--wiredTigerCacheSizeGB='' @ decimal_str (wired_tiger_cache limit)]
     else if dbs_engine database = PostgreSQL then
       [''-c'', ''shared_buffers='' @ int_str (shared_buffers limit) @ ''MB'', ''-c'', ''max_connections=100'']
     else [])"

definition tls_words :: "DatabaseEngine \<Rightarrow> string list" where
  "tls_words engine =
    (if engine = PostgreSQL then
       [''-c'', ''ssl=on'', ''-c'', ''ssl_cert_file=/certs/server.crt'', ''-c'', ''ssl_key_file=/certs/server.key'', ''-c'', ''hba_file=/certs/pg_hba.conf'']
     else if engine \<in> {MySQL, MariaDB} then
       [''--ssl-cert=/certs/server.crt'', ''--ssl-key=/certs/server.key'', ''--require-secure-transport=ON'']
     else if engine \<in> {Redis, KeyDB} then
       [''--port'', ''0'', ''--tls-port'', ''6379'', ''--tls-cert-file'', ''/certs/server.crt'', ''--tls-key-file'', ''/certs/server.key'',
        ''--tls-auth-clients'', ''no'', ''--tls-ca-cert-file'', ''/certs/server.crt'']
     else if engine = Dragonfly then
       [''--tls'', ''--tls_cert_file=/certs/server.crt'', ''--tls_key_file=/certs/server.key'']
     else if engine = MongoDB then
       [''--tlsMode'', ''requireTLS'', ''--tlsCertificateKeyFile'', ''/certs/server.pem'', ''--tlsCAFile'', ''/certs/server.crt'',
        ''--tlsAllowConnectionsWithoutCertificates'']
     else [])"

definition server_words :: "Database \<Rightarrow> string list" where
  "server_words database =
    (let password = dbs_password database in
     case dbs_engine database of
       Redis \<Rightarrow> [''redis-server'', ''--requirepass'', password, ''--appendonly'', ''yes'']
     | KeyDB \<Rightarrow> [''keydb-server'', ''--requirepass'', password, ''--appendonly'', ''yes'']
     | Dragonfly \<Rightarrow> [''--requirepass='' @ password, ''--dir=/data''] @
         (case memory_limit database of
            Some l \<Rightarrow> [''--maxmemory='' @ int_str l @ ''mb'', ''--proactor_threads='' @ int_str (max 1 (l div 256))]
          | None \<Rightarrow> [])
     | SQLite \<Rightarrow> [''-c'', sqliteHolderScript database]
     | _ \<Rightarrow> tuning_words database) @
    (if dbs_ssl database then tls_words (dbs_engine database) else [])"

definition engine_mounts :: "Database \<Rightarrow> string \<Rightarrow> (string \<times> string) list" where
  "engine_mounts database dataVolume =
    (if dbs_ssl database \<and> dbs_engine database \<notin> {ClickHouse, SQLite} then [(dbCertDir (dbs_id database), '':/certs:ro'')] else []) @
    [(dataVolume, '':'' @ engine_data (dbs_engine database))] @
    (if dbs_engine database = ClickHouse
     then [(dbConfigDir (dbs_id database), ''/backups.xml:/etc/clickhouse-server/config.d/yeah-backups.xml:ro''),
           (dbBackupsDir (dbs_id database), '':/backups'')]
     else [])"

definition db_health_words :: "Database \<Rightarrow> string list" where
  "db_health_words database =
    (if \<not> dbs_healthEnabled database then [''--no-healthcheck'']
     else case healthProbe database of
       None \<Rightarrow> if dbs_ssl database then [''--no-healthcheck''] else []
     | Some probe \<Rightarrow>
         [''--health-cmd'', probe, ''--health-interval'', int_str (dbs_healthIntervalSeconds database) @ ''s'',
          ''--health-timeout'', int_str (dbs_healthTimeoutSeconds database) @ ''s'',
          ''--health-retries'', int_str (dbs_healthRetries database), ''--health-start-period'', ''60s''])"

definition publish_words :: "Database \<Rightarrow> string list" where
  "publish_words database =
    (if dbs_publicAccess database \<and> dbs_engine database \<noteq> SQLite
     then [''-p'', int_str (dbs_port database) @ '':'' @ int_str (ei_internalPort (DATABASE_ENGINES (dbs_engine database)))]
     else [])"

definition database_words :: "Database \<Rightarrow> string \<Rightarrow> string \<Rightarrow> RunOptions option \<Rightarrow> string list" where
  "database_words database containerName dataVolume options =
    [''docker'', ''run'', ''-d'', ''--name'', containerName, ''--log-opt'', ''max-size=10m'', ''--log-opt'', ''max-file=3''] @
    limit_flags database @
    (case options of Some opts \<Rightarrow> [''--network'', ro_networkName opts, ''--network-alias'', ro_alias opts] | None \<Rightarrow> []) @
    db_health_words database @
    (if dbs_engine database = SQLite then [''--user'', ''0'', ''--entrypoint'', ''sh''] else []) @
    concat (map (\<lambda>(k, v). [''-e'', k @ ''='' @ v]) (engine_env database)) @
    (if dbs_engine database = ClickHouse then [''-e'', ''CLICKHOUSE_DEFAULT_ACCESS_MANAGEMENT=1''] else []) @
    publish_words database @
    concat (map (\<lambda>(source, target). [''-v'', source @ target]) (engine_mounts database dataVolume)) @
    (if dbs_engine database = ClickHouse then [''--ulimit'', ''nofile=262144:262144''] else []) @
    [''--restart'', ''unless-stopped'', dbs_image database] @ server_words database"

section \<open>The run command, text by text\<close>

lemma reads_env_flag: "list_all plain_char k \<Longrightarrow> k \<noteq> [] \<Longrightarrow> reads (env_flag k v) (map lit_word [''-e'', k @ ''='' @ v])"
  using reads_append [OF reads_plain [of "''-e''"] reads_spelled [OF spells_append [OF spells_plain [of "k @ ''=''"] spells_quoted [of v]]]]
  by (simp add: env_flag_def punctuation_plain alnum_plain char_class_defs)

lemma reads_mount_flag: "list_all plain_char t \<Longrightarrow> t \<noteq> [] \<Longrightarrow> reads (mount_flag s t) (map lit_word [''-v'', s @ t])"
  using reads_append [OF reads_plain [of "''-v''"] reads_spelled [OF spells_append [OF spells_quoted [of s] spells_plain [of t]]]]
  by (simp add: mount_flag_def punctuation_plain alnum_plain char_class_defs)

lemma reads_probe_flags: "reads (dbHealthFlags database) (map lit_word (db_health_words database))"
proof -
  have none: "reads ''--no-healthcheck '' [lit_word ''--no-healthcheck'']"
    and start: "reads ''--health-start-period 60s '' (map lit_word [''--health-start-period'', ''60s''])"
    by (rule reads_const; code_simp)+
  have "reads (''--health-cmd '' @ (shellQuote probe @ '' '') @ ''--health-interval '' @
      (int_str (dbs_healthIntervalSeconds database) @ ''s '') @ ''--health-timeout '' @
      (int_str (dbs_healthTimeoutSeconds database) @ ''s '') @ ''--health-retries '' @
      (int_str (dbs_healthRetries database) @ '' '') @ ''--health-start-period 60s '')
    ([lit_word ''--health-cmd''] @ [lit_word probe] @ [lit_word ''--health-interval''] @
     [lit_word (int_str (dbs_healthIntervalSeconds database) @ ''s'')] @ [lit_word ''--health-timeout''] @
     [lit_word (int_str (dbs_healthTimeoutSeconds database) @ ''s'')] @ [lit_word ''--health-retries''] @
     [lit_word (int_str (dbs_healthRetries database))] @ map lit_word [''--health-start-period'', ''60s''])" for probe
    by (intro reads_append reads_fixed reads_quoted reads_seconds reads_number start)
  then show ?thesis
    using none by (auto simp: dbHealthFlags_def db_health_words_def split: option.split)
qed

lemma reads_run_base:
  "reads (run_base database containerName options)
    (map lit_word
      ([''docker'', ''run'', ''-d'', ''--name'', containerName, ''--log-opt'', ''max-size=10m'', ''--log-opt'', ''max-file=3''] @
       limit_flags database @
       (case options of Some opts \<Rightarrow> [''--network'', ro_networkName opts, ''--network-alias'', ro_alias opts] | None \<Rightarrow> []) @
       db_health_words database))"
proof -
  have nalias: "reads ''--network-alias '' [lit_word ''--network-alias'']" by (rule reads_const; code_simp)
  have network: "reads (case options of
        Some opts \<Rightarrow> ''--network '' @ shellQuote (ro_networkName opts) @ '' --network-alias '' @ shellQuote (ro_alias opts) @ '' ''
      | None \<Rightarrow> [])
    (map lit_word (case options of Some opts \<Rightarrow> [''--network'', ro_networkName opts, ''--network-alias'', ro_alias opts] | None \<Rightarrow> []))"
  proof (cases options)
    case (Some opts)
    have "reads (''--network '' @ (shellQuote (ro_networkName opts) @ '' '') @ ''--network-alias '' @ (shellQuote (ro_alias opts) @ '' ''))
      ([lit_word ''--network''] @ [lit_word (ro_networkName opts)] @ [lit_word ''--network-alias''] @ [lit_word (ro_alias opts)])"
      by (intro reads_append reads_fixed reads_quoted nalias)
    with Some show ?thesis by simp
  qed simp
  have "reads (''docker run -d --name '' @ (shellQuote containerName @ '' '') @ LOG_ROTATION_FLAGS @ resourceLimitFlags database @
      (case options of
         Some opts \<Rightarrow> ''--network '' @ shellQuote (ro_networkName opts) @ '' --network-alias '' @ shellQuote (ro_alias opts) @ '' ''
       | None \<Rightarrow> []) @ dbHealthFlags database)
    (map lit_word [''docker'', ''run'', ''-d'', ''--name''] @ [lit_word containerName] @
     map lit_word [''--log-opt'', ''max-size=10m'', ''--log-opt'', ''max-file=3''] @ map lit_word (limit_flags database) @
     map lit_word (case options of Some opts \<Rightarrow> [''--network'', ro_networkName opts, ''--network-alias'', ro_alias opts] | None \<Rightarrow> []) @
     map lit_word (db_health_words database))"
    by (intro reads_append reads_fixed reads_quoted reads_limits reads_probe_flags network)
  then show ?thesis by (simp add: run_base_def)
qed

lemma reads_publish:
  "dbs_engine database \<noteq> SQLite \<Longrightarrow>
    reads (if dbs_publicAccess database
           then ''-p '' @ int_str (dbs_port database) @ '':'' @ int_str (ei_internalPort (DATABASE_ENGINES (dbs_engine database))) @ '' ''
           else []) (map lit_word (publish_words database))"
  using reads_append [OF reads_fixed(9) reads_plain [of "int_str (dbs_port database) @ '':'' @
      int_str (ei_internalPort (DATABASE_ENGINES (dbs_engine database)))"]]
  by (auto simp: publish_words_def int_str_plain int_str_nonempty punctuation_plain)

lemma extends_tuning: "extends (memoryTuningArgs database) (tuning_words database)"
  by (rule extends_fixed; cases "dbs_engine database")
    (simp_all add: memoryTuningArgs_def tuning_words_def Let_def int_str_plain decimal_str_plain
      punctuation_plain alnum_plain char_class_defs plain_char_def)

text \<open>The same command with the parts that every engine has in common put together.\<close>

definition engine_flags :: "Database \<Rightarrow> string \<Rightarrow> string" where
  "engine_flags database dataVolume =
    (if dbs_engine database = SQLite then ''--user 0 --entrypoint sh '' else []) @
    concat (map (\<lambda>(k, v). env_flag k v) (engine_env database)) @
    (if dbs_engine database = ClickHouse then ''-e CLICKHOUSE_DEFAULT_ACCESS_MANAGEMENT=1 '' else []) @
    (if dbs_engine database = SQLite then []
     else if dbs_publicAccess database
     then ''-p '' @ int_str (dbs_port database) @ '':'' @ int_str (ei_internalPort (DATABASE_ENGINES (dbs_engine database))) @ '' ''
     else []) @
    concat (map (\<lambda>(s, t). mount_flag s t) (engine_mounts database dataVolume)) @
    (if dbs_engine database = ClickHouse then ''--ulimit nofile=262144:262144 '' else [])"

definition tls_args :: "DatabaseEngine \<Rightarrow> string" where
  "tls_args engine = concat (map ((#) (CHR '' '')) (tls_words engine))"

definition server_args :: "Database \<Rightarrow> string" where
  "server_args database =
    (let password = dbs_password database in
     case dbs_engine database of
       Redis \<Rightarrow> '' redis-server --requirepass'' @ ('' '' @ shellQuote password) @ '' --appendonly yes''
     | KeyDB \<Rightarrow> '' keydb-server --requirepass'' @ ('' '' @ shellQuote password) @ '' --appendonly yes''
     | Dragonfly \<Rightarrow> ('' '' @ (''--requirepass='' @ shellQuote password)) @ '' --dir=/data'' @
         (case memory_limit database of
            Some l \<Rightarrow> '' --maxmemory='' @ int_str l @ ''mb --proactor_threads='' @ int_str (max 1 (l div 256))
          | None \<Rightarrow> [])
     | SQLite \<Rightarrow> '' -c'' @ '' '' @ shellQuote (sqliteHolderScript database)
     | _ \<Rightarrow> memoryTuningArgs database) @
    (if dbs_ssl database then tls_args (dbs_engine database) else [])"

lemma run_command_parts:
  "buildDbRunCommand database containerName dataVolume options =
    (run_base database containerName options @ engine_flags database dataVolume @ ''--restart unless-stopped '') @
    shellQuote (dbs_image database) @ server_args database"
  by (cases "dbs_engine database")
    (simp_all add: buildDbRunCommand_def engine_flags_def engine_env_def engine_mounts_def server_args_def
      tls_args_def tls_words_def memoryTuningArgs_def mysql_tls_def redis_tls_def SQLITE_MOUNT_DIR_def Let_def mount_flag_def env_flag_def)

lemma plain_words_tls: "list_all (\<lambda>w. w \<noteq> [] \<and> list_all plain_char w) (tls_words engine)"
  by (cases engine) (simp_all add: tls_words_def plain_char_def char_class_defs)

lemma extends_server: "extends (server_args database) (server_words database)"
proof -
  have plain: "extends u ws" if "u = concat (map ((#) (CHR '' '')) ws)" and "list_all (\<lambda>w. w \<noteq> [] \<and> list_all plain_char w) ws" for u ws
    using that by (rule extends_fixed)
  have fixed: "extends '' redis-server --requirepass'' [''redis-server'', ''--requirepass'']"
    "extends '' keydb-server --requirepass'' [''keydb-server'', ''--requirepass'']"
    "extends '' --appendonly yes'' [''--appendonly'', ''yes'']" "extends '' --dir=/data'' [''--dir=/data'']" "extends '' -c'' [''-c'']"
    by (rule plain; simp add: plain_char_def char_class_defs)+
  have requirepass: "spells (''--requirepass='' @ shellQuote p) (''--requirepass='' @ p)" for p
    by (intro spells_append spells_plain spells_quoted) (simp_all add: plain_char_def char_class_defs)
  have memory: "extends ('' --maxmemory='' @ int_str l @ ''mb --proactor_threads='' @ int_str n)
      [''--maxmemory='' @ int_str l @ ''mb'', ''--proactor_threads='' @ int_str n]" for l n
    by (rule plain) (simp_all add: int_str_plain plain_char_def char_class_defs)
  have tls: "extends (tls_args engine) (tls_words engine)" for engine
    by (simp add: tls_args_def extends_words plain_words_tls)
  note rules = extends_append extends_spelled spells_quoted requirepass fixed extends_tuning extends_Nil
  have redis: "extends ('' redis-server --requirepass'' @ ('' '' @ shellQuote p) @ '' --appendonly yes'')
      ([''redis-server'', ''--requirepass''] @ [p] @ [''--appendonly'', ''yes''])"
    and keydb: "extends ('' keydb-server --requirepass'' @ ('' '' @ shellQuote p) @ '' --appendonly yes'')
      ([''keydb-server'', ''--requirepass''] @ [p] @ [''--appendonly'', ''yes''])"
    and dragonfly: "extends (('' '' @ (''--requirepass='' @ shellQuote p)) @ '' --dir=/data'') ([''--requirepass='' @ p] @ [''--dir=/data''])"
    and sqlite: "extends ('' -c'' @ ('' '' @ shellQuote p)) ([''-c''] @ [p])" for p
    by (intro rules)+
  show ?thesis
    unfolding server_args_def server_words_def Let_def
    by (intro extends_append; cases "dbs_engine database")
      (use redis keydb dragonfly sqlite extends_tuning memory extends_append [OF dragonfly memory] tls extends_Nil in
        \<open>auto split: option.split\<close>)
qed

lemma plain_keys: "(k, v) \<in> set (engine_env database) \<Longrightarrow> k \<noteq> [] \<and> list_all plain_char k"
  by (cases "dbs_engine database") (auto simp: engine_env_def Let_def plain_char_def char_class_defs)

lemma plain_targets: "(s, t) \<in> set (engine_mounts database dataVolume) \<Longrightarrow> t \<noteq> [] \<and> list_all plain_char t"
  by (cases "dbs_engine database") (auto simp: engine_mounts_def plain_char_def char_class_defs split: if_splits)

lemma reads_engine_flags:
  "reads (engine_flags database dataVolume)
    (map lit_word
      ((if dbs_engine database = SQLite then [''--user'', ''0'', ''--entrypoint'', ''sh''] else []) @
       concat (map (\<lambda>(k, v). [''-e'', k @ ''='' @ v]) (engine_env database)) @
       (if dbs_engine database = ClickHouse then [''-e'', ''CLICKHOUSE_DEFAULT_ACCESS_MANAGEMENT=1''] else []) @
       publish_words database @
       concat (map (\<lambda>(source, target). [''-v'', source @ target]) (engine_mounts database dataVolume)) @
       (if dbs_engine database = ClickHouse then [''--ulimit'', ''nofile=262144:262144''] else [])))"
proof -
  have fixed: "reads ''--user 0 --entrypoint sh '' (map lit_word [''--user'', ''0'', ''--entrypoint'', ''sh''])"
    "reads ''-e CLICKHOUSE_DEFAULT_ACCESS_MANAGEMENT=1 '' (map lit_word [''-e'', ''CLICKHOUSE_DEFAULT_ACCESS_MANAGEMENT=1''])"
    "reads ''--ulimit nofile=262144:262144 '' (map lit_word [''--ulimit'', ''nofile=262144:262144''])"
    by (rule reads_const; code_simp)+
  have env: "reads (concat (map (\<lambda>(k, v). env_flag k v) (engine_env database)))
      (concat (map (\<lambda>(k, v). map lit_word [''-e'', k @ ''='' @ v]) (engine_env database)))"
    by (rule reads_concat) (auto dest!: plain_keys intro!: reads_env_flag [simplified])
  have mounts: "reads (concat (map (\<lambda>(s, t). mount_flag s t) (engine_mounts database dataVolume)))
      (concat (map (\<lambda>(s, t). map lit_word [''-v'', s @ t]) (engine_mounts database dataVolume)))"
    by (rule reads_concat) (auto dest!: plain_targets intro!: reads_mount_flag [simplified])
  have publish: "reads (if dbs_engine database = SQLite then []
     else if dbs_publicAccess database
     then ''-p '' @ int_str (dbs_port database) @ '':'' @ int_str (ei_internalPort (DATABASE_ENGINES (dbs_engine database))) @ '' ''
     else []) (map lit_word (publish_words database))"
    using reads_publish [of database] by (cases "dbs_engine database = SQLite") (simp_all add: publish_words_def)
  have "reads (engine_flags database dataVolume)
     ((if dbs_engine database = SQLite then map lit_word [''--user'', ''0'', ''--entrypoint'', ''sh''] else []) @
      concat (map (\<lambda>(k, v). map lit_word [''-e'', k @ ''='' @ v]) (engine_env database)) @
      (if dbs_engine database = ClickHouse then map lit_word [''-e'', ''CLICKHOUSE_DEFAULT_ACCESS_MANAGEMENT=1''] else []) @
      map lit_word (publish_words database) @
      concat (map (\<lambda>(s, t). map lit_word [''-v'', s @ t]) (engine_mounts database dataVolume)) @
      (if dbs_engine database = ClickHouse then map lit_word [''--ulimit'', ''nofile=262144:262144''] else []))"
    unfolding engine_flags_def using fixed
    by (intro reads_append env mounts publish) auto
  then show ?thesis by (simp add: map_concat comp_def case_prod_unfold if_distrib [of "map lit_word"] cong: if_cong)
qed

section \<open>Reading a connection URL\<close>

text \<open>
  What a client does with the URL: the scheme ends at the first colon, the credentials at the first at sign,
  and user and password, separated by the first colon, are percent-decoded as UTF-8.
\<close>

definition upper_hex_value :: "char \<Rightarrow> nat" where
  "upper_hex_value c = length (takeWhile (\<lambda>d. d \<noteq> c) ''0123456789ABCDEF'')"

fun uri_decode :: "string \<Rightarrow> string option" where
  "uri_decode [] = Some []"
| "uri_decode (c # s) =
    (if c \<noteq> CHR ''%'' then map_option ((#) c) (uri_decode s)
     else case s of
       a # b # r \<Rightarrow>
         (let x = 16 * upper_hex_value a + upper_hex_value b in
          if x < 128 then map_option ((#) (char_of x)) (uri_decode r)
          else case r of
            p # a' # b' # r' \<Rightarrow>
              if p = CHR ''%'' \<and> 192 \<le> x \<and> x < 224
              then map_option ((#) (char_of ((x - 192) * 64 + (16 * upper_hex_value a' + upper_hex_value b' - 128)))) (uri_decode r')
              else None
          | _ \<Rightarrow> None)
     | _ \<Rightarrow> None)"

definition url_credentials :: "string \<Rightarrow> (string \<times> string) option" where
  "url_credentials url =
    (case dropWhile (\<lambda>c. c \<noteq> CHR '':'') url of
       p # a # b # r \<Rightarrow>
         if a = CHR ''/'' \<and> b = CHR ''/'' then
           (let userinfo = takeWhile (\<lambda>c. c \<noteq> CHR ''@'') r in
            case (uri_decode (takeWhile (\<lambda>c. c \<noteq> CHR '':'') userinfo), uri_decode (tl (dropWhile (\<lambda>c. c \<noteq> CHR '':'') userinfo))) of
              (Some user, Some password) \<Rightarrow> Some (user, password)
            | _ \<Rightarrow> None)
         else None
     | _ \<Rightarrow> None)"

lemma upper_hex_value_digit: "n < 16 \<Longrightarrow> upper_hex_value (upper_hex n) = n"
proof -
  have "\<forall>n \<in> set [0..<16]. upper_hex_value (upper_hex n) = n" by code_simp
  then show "n < 16 \<Longrightarrow> upper_hex_value (upper_hex n) = n" by simp
qed

lemma upper_hex_digit: "n < 16 \<Longrightarrow> is_alnum (upper_hex n)"
proof -
  have "\<forall>n \<in> set [0..<16]. is_alnum (upper_hex n)" by code_simp
  then show "n < 16 \<Longrightarrow> is_alnum (upper_hex n)" by simp
qed

lemma unreserved_not_percent: "unreserved c \<Longrightarrow> c \<noteq> CHR ''%''"
  by (auto simp: unreserved_def char_class_defs)

lemma uri_decode_char: "uri_decode (encode_char c @ rest) = map_option ((#) c) (uri_decode rest)"
proof -
  have c: "code c < 256" "char_of (code c) = c" by (simp_all add: code_def)
  have ten: "16 * upper_hex_value (upper_hex (n div 16)) + upper_hex_value (upper_hex (n mod 16)) = n" if "n < 256" for n
    using that by (simp add: upper_hex_value_digit)
  show ?thesis
  proof (cases "unreserved c \<or> code c < 128")
    case True
    then show ?thesis
      using ten [of "code c"] c unreserved_not_percent [of c]
      by (auto simp: encode_char_def percent_def)
  next
    case False
    let ?x = "192 + code c div 64" and ?y = "128 + code c mod 64"
    have b: "?x < 224" "?y < 256" using c(1) by auto
    have "code c div 64 * 64 + code c mod 64 = code c" by simp
    then show ?thesis
      using False ten [of ?x] ten [of ?y] b c(2)
      by (simp add: encode_char_def percent_def)
  qed
qed

lemma uri_decode_encoded: "uri_decode (encodeURIComponent s) = Some s"
  by (induction s) (simp_all add: encodeURIComponent_def uri_decode_char)

lemma encoded_chars: "c \<in> set (encodeURIComponent s) \<Longrightarrow> c \<noteq> CHR ''@'' \<and> c \<noteq> CHR '':''"
proof -
  have digit: "upper_hex n \<noteq> CHR ''@'' \<and> upper_hex n \<noteq> CHR '':''" if "n < 16" for n
    using upper_hex_digit [OF that] by (auto simp: char_class_defs)
  have pct: "d \<noteq> CHR ''@'' \<and> d \<noteq> CHR '':''" if "d \<in> set (percent n)" and "n < 256" for d n
    using that(1) digit [of "n div 16"] digit [of "n mod 16"] less_mult_imp_div_less [of n 16 16] that(2) by (auto simp: percent_def)
  have lt: "code x < 256" for x by (simp add: code_def)
  then have "code x div 64 < 64" for x using lt [of x] by (intro less_mult_imp_div_less) linarith
  moreover have "code x mod 64 < 128" for x by (rule order.strict_trans [of _ 64]) simp_all
  ultimately have "d \<noteq> CHR ''@'' \<and> d \<noteq> CHR '':''" if "d \<in> set (encode_char x)" for d x
    using that lt [of x] pct [of d "code x"] pct [of d "192 + code x div 64"] pct [of d "128 + code x mod 64"]
    by (auto simp: encode_char_def unreserved_def char_class_defs split: if_splits)
  then show "c \<in> set (encodeURIComponent s) \<Longrightarrow> c \<noteq> CHR ''@'' \<and> c \<noteq> CHR '':''"
    by (auto simp: encodeURIComponent_def)
qed

section \<open>Properties\<close>

text \<open>
  C16: the command that starts a database is one simple command with exactly the intended words, for every
  engine: whatever the password, user, database name, image, volume and network names contain, the shell
  reads the command as the words of the engine's table, every character literal. In particular the password
  is always (part of) one argument.
\<close>

theorem database_command_words:
  "sh_tokens (buildDbRunCommand database containerName dataVolume options) =
    Some (map lit_word (database_words database containerName dataVolume options))"
proof -
  have restart: "reads ''--restart unless-stopped '' (map lit_word [''--restart'', ''unless-stopped''])"
    by (rule reads_const; code_simp)
  from sh_tokens_extended [OF reads_append [OF reads_run_base reads_append [OF reads_engine_flags this]]
      spells_quoted extends_server]
  show ?thesis by (simp add: run_command_parts database_words_def)
qed

text \<open>
  The credentials survive the connection URL. For every engine reached over the network, a client that
  parses the URL gets back exactly the password, and the user name (the default user for an empty
  or missing one), whatever characters they contain and whatever the host, port and database name are; the
  file URL of SQLite carries none.
\<close>

theorem connection_url_credentials:
  "url_credentials (databaseConnectionUrl c) =
    (if cn_engine c = SQLite then None
     else Some (if str_truthy (cn_username c) then the (cn_username c) else ''default'', cn_password c))"
proof -
  define user where "user = (if str_truthy (cn_username c) then encodeURIComponent (the (cn_username c)) else ''default'')"
  have chars: "d \<noteq> CHR ''@'' \<and> d \<noteq> CHR '':''" if "d \<in> set user" for d
    using that encoded_chars by (auto simp: user_def split: if_splits)
  have user: "takeWhile (\<lambda>d. d \<noteq> CHR '':'') (user @ CHR '':'' # r) = user"
    "dropWhile (\<lambda>d. d \<noteq> CHR '':'') (user @ CHR '':'' # r) = CHR '':'' # r" for r
    using chars by (simp_all add: takeWhile_append dropWhile_append)
  have userinfo: "takeWhile (\<lambda>d. d \<noteq> CHR ''@'') (user @ CHR '':'' # encodeURIComponent (cn_password c) @ CHR ''@'' # r) =
      user @ CHR '':'' # encodeURIComponent (cn_password c)" for r
    using chars encoded_chars by (auto simp: takeWhile_append)
  have read: "(let userinfo = takeWhile (\<lambda>d. d \<noteq> CHR ''@'') (user @ CHR '':'' # encodeURIComponent (cn_password c) @ CHR ''@'' # r) in
      case (uri_decode (takeWhile (\<lambda>d. d \<noteq> CHR '':'') userinfo), uri_decode (tl (dropWhile (\<lambda>d. d \<noteq> CHR '':'') userinfo))) of
        (Some user, Some password) \<Rightarrow> Some (user, password) | _ \<Rightarrow> None) =
    Some (if str_truthy (cn_username c) then the (cn_username c) else ''default'', cn_password c)" for r
    unfolding userinfo Let_def user using uri_decode_encoded [of "''default''"]
    by (simp add: user_def uri_decode_encoded)
  show ?thesis
  proof (cases "cn_engine c = SQLite")
    case True
    then show ?thesis
      by (simp add: databaseConnectionUrl_def sqliteConnectionUrl_def SQLITE_MOUNT_DIR_def strip_trailing_def url_credentials_def)
  next
    case False
    have url: "\<exists>scheme r. CHR '':'' \<notin> set scheme \<and> databaseConnectionUrl c =
        scheme @ ''://'' @ user @ CHR '':'' # encodeURIComponent (cn_password c) @ CHR ''@'' # r"
    proof -
      define scheme where "scheme =
        (case cn_engine c of PostgreSQL \<Rightarrow> ''postgresql'' | MySQL \<Rightarrow> ''mysql'' | MariaDB \<Rightarrow> ''mysql'' | MongoDB \<Rightarrow> ''mongodb''
         | ClickHouse \<Rightarrow> if cn_ssl c then ''https'' else ''http'' | _ \<Rightarrow> if cn_ssl c then ''rediss'' else ''redis'')"
      have "CHR '':'' \<notin> set scheme"
        by (cases "cn_engine c") (simp_all add: scheme_def)
      moreover have "\<exists>r. databaseConnectionUrl c =
          scheme @ ''://'' @ user @ CHR '':'' # encodeURIComponent (cn_password c) @ CHR ''@'' # r"
        using False by (cases "cn_engine c") (simp_all add: scheme_def databaseConnectionUrl_def Let_def user_def)
      ultimately show ?thesis by blast
    qed
    then obtain scheme r where "CHR '':'' \<notin> set scheme"
      and "databaseConnectionUrl c = scheme @ ''://'' @ user @ CHR '':'' # encodeURIComponent (cn_password c) @ CHR ''@'' # r"
      by blast
    moreover from this(1) have "dropWhile (\<lambda>c. c \<noteq> CHR '':'') (scheme @ CHR '':'' # x) = CHR '':'' # x" for x
      by (simp add: dropWhile_append)
    ultimately show ?thesis
      using False read by (simp add: url_credentials_def)
  qed
qed

end
