(* ===== verification/DumpCommands.thy ===== *)
theory DumpCommands
  imports DatabaseCommands Compose
begin

text \<open>
  Dumps and archives: the dump and restore commands of every engine
  (apps/worker/src/jobs/databaseDump.commands.ts) and the archives of volumes
  (apps/worker/src/jobs/volumeBackup.commands.ts). A command that the code refuses to build is an error.
\<close>

section \<open>Databases to dump\<close>

definition sq :: "string \<Rightarrow> string" where
  "sq s = [SQ] @ s @ [SQ]"

definition dq :: "string \<Rightarrow> string" where
  "dq s = [DQ] @ s @ [DQ]"

definition isValidIncludedDatabase :: "string \<Rightarrow> bool" where
  "isValidIncludedDatabase name \<longleftrightarrow> 1 \<le> length name \<and> length name \<le> 63 \<and> list_all word_char name"

definition supportsMultiDatabase :: "DatabaseEngine \<Rightarrow> bool" where
  "supportsMultiDatabase engine \<longleftrightarrow> engine = PostgreSQL \<or> engine = MySQL \<or> engine = MariaDB \<or> engine = MongoDB"

text \<open>Splitting at every run of commas and blanks; the empty pieces at the ends are dropped by the filter.\<close>

fun list_words :: "string \<Rightarrow> string \<Rightarrow> string list" where
  "list_words w [] = [w]"
| "list_words w (c # s) = (if c = CHR '','' \<or> is_space c then w # list_words [] s else list_words (w @ [c]) s)"

definition includedDatabases :: "Database \<Rightarrow> string option \<Rightarrow> string list" where
  "includedDatabases database names_opt =
    (let names = filter (\<lambda>n. n \<noteq> []) (map trim (list_words [] (default [] names_opt)));
         unique = uniq names
     in if unique = [] \<or> \<not> supportsMultiDatabase (dbs_engine database) then [default ''app'' (dbs_databaseName database)]
        else unique)"

section \<open>Dumping\<close>

definition COMPRESSOR_SETUP :: string where
  "COMPRESSOR_SETUP = ''GZ=$(command -v pigz || command -v gzip); ''"

definition user_word :: "Database \<Rightarrow> string \<Rightarrow> string" where
  "user_word d fallback = shellQuote (default fallback (dbs_username d))"

definition dumpOne :: "Database \<Rightarrow> string \<Rightarrow> string \<Rightarrow> string + string" where
  "dumpOne database container name =
    (let c = shellQuote container; password = shellQuote (dbs_password database) in
     case dbs_engine database of
       PostgreSQL \<Rightarrow> Inr (''docker exec '' @ c @ '' pg_dump -U '' @ user_word database ''postgres'' @ '' '' @ shellQuote name)
     | MySQL \<Rightarrow> Inr (''docker exec -e MYSQL_PWD='' @ password @ '' '' @ c @ '' mysqldump -u '' @ user_word database ''app'' @ '' '' @ shellQuote name)
     | MariaDB \<Rightarrow> Inr (''docker exec -e MYSQL_PWD='' @ password @ '' '' @ c @ '' mariadb-dump -u '' @ user_word database ''app'' @ '' '' @ shellQuote name)
     | MongoDB \<Rightarrow> Inr (''docker exec '' @ c @ '' mongodump --archive '' @
         (if dbs_ssl database then ''--ssl --sslAllowInvalidCertificates --sslAllowInvalidHostnames '' else []) @
         ''-u '' @ user_word database ''root'' @ '' -p '' @ password @ '' --authenticationDatabase admin --db '' @ shellQuote name)
     | _ \<Rightarrow> Inl (''dumpOne: '' @ engine_str (dbs_engine database) @ '' has no per-database dump''))"

definition innerExt :: "DatabaseEngine \<Rightarrow> string" where
  "innerExt engine = (if engine = MongoDB then ''archive'' else ''sql'')"

definition isMultiArchive :: "string \<Rightarrow> bool" where
  "isMultiArchive filePath = ends_with filePath ''.tar.gz''"

fun dump_prefix :: "DatabaseEngine \<Rightarrow> string" where
  "dump_prefix PostgreSQL = ''pg-dump-''"
| "dump_prefix MySQL = ''mysql-dump-''"
| "dump_prefix MariaDB = ''mariadb-dump-''"
| "dump_prefix Redis = ''redis-dump-''"
| "dump_prefix KeyDB = ''keydb-dump-''"
| "dump_prefix Dragonfly = ''dragonfly-dump-''"
| "dump_prefix ClickHouse = ''clickhouse-backup-''"
| "dump_prefix MongoDB = ''mongo-dump-''"
| "dump_prefix SQLite = ''sqlite-dump-''"

fun dump_ext :: "DatabaseEngine \<Rightarrow> string" where
  "dump_ext Redis = ''.rdb.gz''"
| "dump_ext KeyDB = ''.rdb.gz''"
| "dump_ext Dragonfly = ''.rdb.gz''"
| "dump_ext ClickHouse = ''.zip''"
| "dump_ext MongoDB = ''.archive.gz''"
| "dump_ext _ = ''.sql.gz''"

definition dumpFileName :: "Database \<Rightarrow> string list \<Rightarrow> int \<Rightarrow> string" where
  "dumpFileName database names timestamp =
    (if length names > 1 then engine_str (dbs_engine database) @ ''-dump-'' @ ''multi'' @ ''-'' @ int_str timestamp @ ''.tar.gz''
     else dump_prefix (dbs_engine database) @ (case names of n # _ \<Rightarrow> n | [] \<Rightarrow> dbs_name database) @ ''-'' @ int_str timestamp @
       dump_ext (dbs_engine database))"

fun collect :: "('e + 'a) list \<Rightarrow> 'e + 'a list" where
  "collect [] = Inr []"
| "collect (Inl e # rs) = Inl e"
| "collect (Inr x # rs) = map_sum id ((#) x) (collect rs)"

definition replace_first :: "string \<Rightarrow> string \<Rightarrow> string \<Rightarrow> string" where
  "replace_first p r s = (case break_at p s of Some (a, b) \<Rightarrow> a @ r @ b | None \<Rightarrow> s)"

definition dump_many :: "Database \<Rightarrow> string \<Rightarrow> string \<Rightarrow> string list \<Rightarrow> string + string" where
  "dump_many database container out names =
    (let ext = innerExt (dbs_engine database) in
     map_sum id (\<lambda>per. COMPRESSOR_SETUP @ ''tmp=$(mktemp -d) && ('' @ join_str ''; '' per @ '') && tar -cf - -C '' @ dq ''$tmp'' @
         '' . | $GZ > '' @ out @ ''; rc=$?; rm -rf '' @ dq ''$tmp'' @ ''; exit $rc'')
       (collect (map (\<lambda>n. map_sum id (\<lambda>d. d @ '' > '' @ dq (''$tmp/'' @ n @ ''.'' @ ext) @ '' || exit 1'') (dumpOne database container n)) names)))"

definition dump_rdb :: "Database \<Rightarrow> string \<Rightarrow> string \<Rightarrow> string \<Rightarrow> string" where
  "dump_rdb database c out cli =
    COMPRESSOR_SETUP @ ''docker exec '' @ c @ '' '' @ cli @ '' '' @ (if dbs_ssl database then ''--tls --insecure '' else []) @ ''-a '' @
    shellQuote (dbs_password database) @ '' --no-auth-warning --rdb /tmp/dump.rdb >/dev/null && docker exec '' @ c @
    '' cat /tmp/dump.rdb | $GZ > '' @ out"

definition dump_sqlite :: "Database \<Rightarrow> string \<Rightarrow> string \<Rightarrow> string \<Rightarrow> string" where
  "dump_sqlite database c filePath out =
    COMPRESSOR_SETUP @ ''tmp='' @ shellQuote (filePath @ ''.tmp'') @ ''; docker exec '' @ c @ '' sqlite3 '' @
    shellQuote (sqliteFilePath (dbs_databaseName database)) @ '' .dump > '' @ dq ''$tmp'' @ '' && $GZ < '' @ dq ''$tmp'' @ '' > '' @ out @
    ''; rc=$?; rm -f '' @ dq ''$tmp'' @ ''; exit $rc''"

definition clickhouse_query :: "Database \<Rightarrow> string \<Rightarrow> string \<Rightarrow> string" where
  "clickhouse_query database c sql =
    ''docker exec '' @ c @ '' clickhouse-client -u '' @ user_word database ''app'' @ '' --password '' @ shellQuote (dbs_password database) @
    '' -q '' @ shellQuote sql"

definition buildDumpCommand :: "Database \<Rightarrow> string \<Rightarrow> string \<Rightarrow> string list \<Rightarrow> string + string" where
  "buildDumpCommand database container filePath names =
    (let c = shellQuote container; out = shellQuote filePath in
     if length names > 1 then dump_many database container out names
     else
       (let name = (case names of n # _ \<Rightarrow> n | [] \<Rightarrow> default ''app'' (dbs_databaseName database));
            piped = map_sum id (\<lambda>d. COMPRESSOR_SETUP @ d @ '' | $GZ > '' @ out) (dumpOne database container name)
        in case dbs_engine database of
             PostgreSQL \<Rightarrow> piped
           | MySQL \<Rightarrow> piped
           | MariaDB \<Rightarrow> piped
           | MongoDB \<Rightarrow> map_sum id (\<lambda>d. replace_first ''--archive '' ''--archive --gzip '' d @ '' > '' @ out) (dumpOne database container name)
           | Redis \<Rightarrow> Inr (dump_rdb database c out ''redis-cli'')
           | KeyDB \<Rightarrow> Inr (dump_rdb database c out ''keydb-cli'')
           | SQLite \<Rightarrow> Inr (dump_sqlite database c filePath out)
           | Dragonfly \<Rightarrow> Inl (''Dragonfly has no client in its image '' @ em_dash @ '' backup is not supported for this engine yet'')
           | ClickHouse \<Rightarrow> Inr (clickhouse_query database c
               (''BACKUP DATABASE '' @ [BQ] @ name @ [BQ] @ '' TO File('' @ sq (''/backups/'' @ last (split_str ''/'' filePath)) @ '')''))))"

section \<open>Restoring\<close>

record RestoreStep =
  rs_label :: string
  rs_command :: string
  rs_allowFailure :: bool

definition must :: "string \<Rightarrow> string \<Rightarrow> RestoreStep" where
  "must label command = \<lparr>rs_label = label, rs_command = command, rs_allowFailure = False\<rparr>"

definition plainCopyCommand :: "string \<Rightarrow> string \<Rightarrow> string" where
  "plainCopyCommand source out =
    (let f = shellQuote source; t = shellQuote out in
     ''if [ '' @ dq (''$(head -c 2 '' @ f @ '' | od -An -tx1 | tr -d '' @ sq ('' '' @ [BS] @ ''n'') @ '')'') @
     '' = 1f8b ]; then gzip -dc '' @ f @ '' > '' @ t @ ''; else cp '' @ f @ '' '' @ t @ ''; fi'')"

definition psql :: "Database \<Rightarrow> string \<Rightarrow> string" where
  "psql database c = ''docker exec '' @ c @ '' psql -U '' @ user_word database ''postgres''"

definition recreate_mysql :: "Database \<Rightarrow> string \<Rightarrow> string \<Rightarrow> string \<Rightarrow> RestoreStep" where
  "recreate_mysql database c client name =
    (let q = [BQ] @ name @ [BQ] in
     must (''recreating database '' @ name)
       (''docker exec -e MYSQL_PWD='' @ shellQuote (dbs_password database) @ '' '' @ c @ '' '' @ client @ '' -uroot -e '' @
        sq (''DROP DATABASE IF EXISTS '' @ q @ ''; CREATE DATABASE '' @ q @ ''; GRANT ALL ON '' @ q @ ''.* TO '' @
            user_word database ''app'' @ ''@'' @ dq ''%'' @ '';'')))"

definition resetDatabase :: "Database \<Rightarrow> string \<Rightarrow> string \<Rightarrow> RestoreStep list" where
  "resetDatabase database container name =
    (let c = shellQuote container in
     case dbs_engine database of
       PostgreSQL \<Rightarrow>
         (let reset = must (''cleaning the schema of '' @ name)
                (psql database c @ '' -d '' @ shellQuote name @ '' -v ON_ERROR_STOP=1 -c '' @ sq ''DROP SCHEMA public CASCADE; CREATE SCHEMA public;'')
          in if name = default ''app'' (dbs_databaseName database) then [reset]
             else [must (''creating database '' @ name)
                     (psql database c @ '' -d postgres -tAc '' @ dq (''SELECT 1 FROM pg_database WHERE datname='' @ sq name) @
                      '' | grep -q 1 || '' @ psql database c @ '' -d postgres -c '' @ sq (''CREATE DATABASE '' @ dq name)),
                   reset])
     | MySQL \<Rightarrow> [recreate_mysql database c ''mysql'' name]
     | MariaDB \<Rightarrow> [recreate_mysql database c ''mariadb'' name]
     | _ \<Rightarrow> [])"

definition MONGO_TLS :: "Database \<Rightarrow> string" where
  "MONGO_TLS d = (if dbs_ssl d then ''--ssl --sslAllowInvalidCertificates --sslAllowInvalidHostnames '' else [])"

definition mongorestore :: "Database \<Rightarrow> string \<Rightarrow> string \<Rightarrow> string" where
  "mongorestore database c gz =
    ''docker exec -i '' @ c @ '' mongorestore --archive '' @ gz @ MONGO_TLS database @ ''--drop -u '' @ user_word database ''root'' @ '' -p '' @
    shellQuote (dbs_password database) @ '' --authenticationDatabase admin --nsInclude ''"

definition loadOne :: "Database \<Rightarrow> string \<Rightarrow> string \<Rightarrow> string \<Rightarrow> string + string" where
  "loadOne database container name plainFile =
    (let c = shellQuote container; input = shellQuote plainFile in
     case dbs_engine database of
       PostgreSQL \<Rightarrow> Inr (''docker exec -i '' @ c @ '' psql -U '' @ user_word database ''postgres'' @ '' -d '' @ shellQuote name @
         '' -v ON_ERROR_STOP=1 -q < '' @ input)
     | MySQL \<Rightarrow> Inr (''docker exec -i -e MYSQL_PWD='' @ shellQuote (dbs_password database) @ '' '' @ c @ '' mysql -uroot '' @ shellQuote name @ '' < '' @ input)
     | MariaDB \<Rightarrow> Inr (''docker exec -i -e MYSQL_PWD='' @ shellQuote (dbs_password database) @ '' '' @ c @ '' mariadb -uroot '' @ shellQuote name @ '' < '' @ input)
     | MongoDB \<Rightarrow> Inr (mongorestore database c [] @ shellQuote (name @ ''.*'') @ '' < '' @ input)
     | _ \<Rightarrow> Inl (''loadOne: '' @ engine_str (dbs_engine database)))"

definition restoreLoopBody :: "Database \<Rightarrow> string \<Rightarrow> string" where
  "restoreLoopBody database container =
    (let c = shellQuote container; root = ''MYSQL_PWD='' @ shellQuote (dbs_password database);
         name = [BS, BQ] @ ''$n'' @ [BS, BQ];
         mysql = (\<lambda>client.
           ''docker exec -e '' @ root @ '' '' @ c @ '' '' @ client @ '' -uroot -e '' @
           dq (''DROP DATABASE IF EXISTS '' @ name @ ''; CREATE DATABASE '' @ name @ ''; GRANT ALL ON '' @ name @ ''.* TO '' @
               user_word database ''app'' @ ''@'' @ sq ''%'' @ '';'') @ '' && '' @
           ''docker exec -i -e '' @ root @ '' '' @ c @ '' '' @ client @ '' -uroot '' @ dq ''$n'' @ '' < '' @ dq ''$f'' @ '' || exit 1'')
     in case dbs_engine database of
       PostgreSQL \<Rightarrow>
         psql database c @ '' -d postgres -tAc '' @ dq (''SELECT 1 FROM pg_database WHERE datname='' @ sq ''$n'') @ '' | grep -q 1 || '' @
         psql database c @ '' -d postgres -c '' @ dq (''CREATE DATABASE '' @ [BS, DQ] @ ''$n'' @ [BS, DQ]) @ '' || exit 1; '' @
         psql database c @ '' -d '' @ dq ''$n'' @ '' -q -v ON_ERROR_STOP=1 -c '' @ sq ''DROP SCHEMA public CASCADE; CREATE SCHEMA public;'' @ '' && '' @
         ''docker exec -i '' @ c @ '' psql -U '' @ user_word database ''postgres'' @ '' -d '' @ dq ''$n'' @ '' -v ON_ERROR_STOP=1 -q < '' @ dq ''$f'' @ '' || exit 1''
     | MySQL \<Rightarrow> mysql ''mysql''
     | MariaDB \<Rightarrow> mysql ''mariadb''
     | MongoDB \<Rightarrow> mongorestore database c [] @ dq ''$n.*'' @ '' < '' @ dq ''$f'' @ '' || exit 1''
     | _ \<Rightarrow> ''true'')"

definition restore_cleanup :: "string \<Rightarrow> RestoreStep" where
  "restore_cleanup filePath =
    \<lparr>rs_label = ''cleaning up temporary files'',
     rs_command = ''rm -rf '' @ shellQuote (filePath @ ''.plain'') @ '' '' @ shellQuote (filePath @ ''.d''), rs_allowFailure = True\<rparr>"

definition prepare_dump :: "string \<Rightarrow> RestoreStep" where
  "prepare_dump filePath = must ''preparing the dump'' (plainCopyCommand filePath (filePath @ ''.plain''))"

definition restore_many :: "Database \<Rightarrow> string \<Rightarrow> string \<Rightarrow> RestoreStep list" where
  "restore_many database container filePath =
    (let ext = innerExt (dbs_engine database); plain = filePath @ ''.plain''; d = shellQuote (filePath @ ''.d'') in
     [must ''extracting the multi-database archive''
        (plainCopyCommand filePath plain @ '' && rm -rf '' @ d @ '' && mkdir -p '' @ d @ '' && tar -xf '' @ shellQuote plain @ '' -C '' @ d),
      must ''restoring each database''
        (''for f in '' @ d @ ''/*.'' @ ext @ ''; do n=$(basename '' @ dq ''$f'' @ '' .'' @ ext @ ''); '' @ restoreLoopBody database container @ ''; done''),
      restore_cleanup filePath])"

definition restore_sqlite :: "Database \<Rightarrow> string \<Rightarrow> string \<Rightarrow> RestoreStep list" where
  "restore_sqlite database c filePath =
    (let dbFile = sqliteFilePath (dbs_databaseName database); t = dq ''$t''; journal = dq ''$t-journal'';
         script = ''t='' @ dbFile @ ''.restore; rm -f '' @ t @ '' '' @ journal @ ''; '' @
           ''if sqlite3 -safe -bail '' @ t @ '' && chmod 666 '' @ t @ ''; then rm -f '' @ dbFile @ ''-wal '' @ dbFile @ ''-shm '' @ dbFile @
           ''-journal && mv -f '' @ t @ '' '' @ dbFile @ ''; else rc=$?; rm -f '' @ t @ '' '' @ journal @ ''; exit $rc; fi''
     in [prepare_dump filePath,
         must (''replacing '' @ dbFile @ '' with the dump'')
           (''docker exec -i '' @ c @ '' sh -c '' @ shellQuote script @ '' < '' @ shellQuote (filePath @ ''.plain'')),
         restore_cleanup filePath])"

definition place_dump_script :: string where
  "place_dump_script =
    ''rm -rf /data/appendonlydir /data/appendonly.aof && if [ '' @ dq (''$(head -c 2 /restore.rdb | od -An -tx1 | tr -d '' @ sq ('' '' @ [LF]) @ '')'') @
    '' = 1f8b ]; then gzip -dc /restore.rdb > /data/dump.rdb; else cp /restore.rdb /data/dump.rdb; fi && '' @
    ''cp /data/dump.rdb /data/appendonly.aof && chown --reference=/data /data/dump.rdb /data/appendonly.aof 2>/dev/null; true''"

definition restore_rdb :: "Database \<Rightarrow> string \<Rightarrow> string \<Rightarrow> string \<Rightarrow> RestoreStep list" where
  "restore_rdb database c source dataVolume =
    [must ''stopping the database'' (''docker stop '' @ c),
     must ''placing the dump in the data volume''
       (''docker run --rm --entrypoint sh -v '' @ shellQuote dataVolume @ '':/data -v '' @ source @ '':/restore.rdb:ro '' @
        shellQuote (dbs_image database) @ '' -c '' @ shellQuote place_dump_script),
     must ''starting the database'' (''docker start '' @ c)]"

definition restore_clickhouse :: "Database \<Rightarrow> string \<Rightarrow> string \<Rightarrow> string \<Rightarrow> int \<Rightarrow> RestoreStep list" where
  "restore_clickhouse database c filePath backupsDir now =
    (let name = default ''app'' (dbs_databaseName database);
         inBackups = (if starts_with filePath (backupsDir @ ''/'') then drop (length backupsDir + 1) filePath else []);
         archive = (if inBackups \<noteq> [] then inBackups else ''restore-'' @ int_str now @ ''.zip'');
         target = shellQuote (backupsDir @ ''/'' @ archive)
     in (if inBackups \<noteq> [] then []
         else [must ''copying the file into the backups folder''
                 (''cp '' @ shellQuote filePath @ '' '' @ target @ '' && chmod 644 '' @ target)]) @
        [must (''dropping the current database '' @ name)
           (clickhouse_query database c (''DROP DATABASE IF EXISTS '' @ [BQ] @ name @ [BQ] @ '' SYNC'')),
         must (''restoring '' @ name)
           (clickhouse_query database c (''RESTORE DATABASE '' @ [BQ] @ name @ [BQ] @ '' FROM File('' @ sq (''/backups/'' @ archive) @ '')''))])"

definition restore_sql :: "Database \<Rightarrow> string \<Rightarrow> string \<Rightarrow> string + RestoreStep list" where
  "restore_sql database container filePath =
    (let name = default ''app'' (dbs_databaseName database) in
     map_sum id (\<lambda>load. prepare_dump filePath # resetDatabase database container name @
         [must (''loading the dump into '' @ name) load, restore_cleanup filePath])
       (loadOne database container name (filePath @ ''.plain'')))"

definition restore_mongo :: "Database \<Rightarrow> string \<Rightarrow> string \<Rightarrow> RestoreStep list" where
  "restore_mongo database c filePath =
    (let name = default ''app'' (dbs_databaseName database) in
     [must (''restoring '' @ name)
       (mongorestore database c (if ends_with filePath ''.gz'' then ''--gzip '' else []) @ shellQuote (name @ ''.*'') @ '' < '' @ shellQuote filePath)])"

definition buildRestoreSteps ::
  "Database \<Rightarrow> string \<Rightarrow> string \<Rightarrow> string \<Rightarrow> string \<Rightarrow> int \<Rightarrow> string + RestoreStep list" where
  "buildRestoreSteps database container filePath dataVolume backupsDir now =
    (let c = shellQuote container; engine = dbs_engine database in
     if supportsMultiDatabase engine then
       (if isMultiArchive filePath then Inr (restore_many database container filePath)
        else if engine = MongoDB then Inr (restore_mongo database c filePath)
        else restore_sql database container filePath)
     else if engine = SQLite then Inr (restore_sqlite database c filePath)
     else if engine = ClickHouse then Inr (restore_clickhouse database c filePath backupsDir now)
     else Inr (restore_rdb database c (shellQuote filePath) dataVolume))"

section \<open>Archives of volumes\<close>

definition VOLUME_HELPER_IMAGE :: string where
  "VOLUME_HELPER_IMAGE = ''alpine:latest''"

definition KEEP_VOLUME_BACKUPS :: nat where
  "KEEP_VOLUME_BACKUPS = 5"

definition volumeBackupsDir :: "string \<Rightarrow> string" where
  "volumeBackupsDir ownerId = ''/opt/yeah-backups/volumes/'' @ ownerId"

record VolumeSource =
  vs_kind :: VolumeKind
  vs_id :: string
  vs_hostPath :: "string option"
  vs_applicationId :: string

definition sourceVolumeName :: "VolumeSource \<Rightarrow> string + string" where
  "sourceVolumeName source =
    (if vs_kind source = DatabaseVolume
     then if str_truthy (vs_hostPath source) then Inr (the (vs_hostPath source)) else Inl ''volume has no database volume''
     else Inr (volumeName (vs_id source)))"

definition volumeArchiveName :: "string \<Rightarrow> int \<Rightarrow> string" where
  "volumeArchiveName volumeId timestamp = ''vol-'' @ take 8 volumeId @ ''-'' @ int_str timestamp @ ''.tar.gz''"

text \<open>The directory and the name of a path, at its last slash.\<close>

definition dir_name :: "string \<Rightarrow> string" where
  "dir_name path = (case last_index_of (CHR ''/'') path of Some i \<Rightarrow> take i path | None \<Rightarrow> butlast path)"

definition base_name :: "string \<Rightarrow> string" where
  "base_name path = (case last_index_of (CHR ''/'') path of Some i \<Rightarrow> drop (i + 1) path | None \<Rightarrow> path)"

definition buildNamedVolumeBackupCommand :: "string \<Rightarrow> string \<Rightarrow> string" where
  "buildNamedVolumeBackupCommand dockerName archivePath =
    ''docker run --rm -v '' @ shellQuote dockerName @ '':/data:ro '' @ VOLUME_HELPER_IMAGE @ '' tar -czf - -C /data . > '' @ shellQuote archivePath"

definition buildVolumeBackupCommand :: "VolumeSource \<Rightarrow> string \<Rightarrow> string + string" where
  "buildVolumeBackupCommand source archivePath =
    (let out = shellQuote archivePath; path = volumeFilePath (vs_applicationId source) (vs_id source) in
     if vs_kind source = BindVolume then
       (if str_truthy (vs_hostPath source) then Inr (''tar -czf '' @ out @ '' -C '' @ shellQuote (the (vs_hostPath source)) @ '' .'')
        else Inl ''volume has no server directory'')
     else if vs_kind source = FileVolume then
       Inr (''tar -czf '' @ out @ '' -C '' @ shellQuote (dir_name path) @ '' '' @ shellQuote (base_name path))
     else map_sum id (\<lambda>v. ''docker run --rm -v '' @ shellQuote v @ '':/data:ro '' @ VOLUME_HELPER_IMAGE @
            '' tar -czf - -C /data . > '' @ out) (sourceVolumeName source))"

record RestoreCommands =
  rc_stop :: string
  rc_replace :: string
  rc_start :: string

definition buildNamedVolumeRestoreCommand :: "string \<Rightarrow> string \<Rightarrow> string" where
  "buildNamedVolumeRestoreCommand dockerName archivePath =
    ''docker run --rm -v '' @ shellQuote dockerName @ '':/data -v '' @ shellQuote archivePath @ '':/backup.tar.gz:ro '' @ VOLUME_HELPER_IMAGE @
    '' sh -c '' @ sq ''find /data -mindepth 1 -delete && tar -xzf /backup.tar.gz -C /data''"

definition buildVolumeRestoreCommands :: "VolumeSource \<Rightarrow> string \<Rightarrow> string \<Rightarrow> string + RestoreCommands" where
  "buildVolumeRestoreCommands source archivePath container =
    (let around = (\<lambda>replace. \<lparr>rc_stop = ''docker stop '' @ shellQuote container @ '' >/dev/null 2>&1 || true'',
           rc_replace = replace, rc_start = ''docker start '' @ shellQuote container @ '' >/dev/null 2>&1 || true''\<rparr>);
         archive = shellQuote archivePath
     in if vs_kind source = BindVolume then
          (if str_truthy (vs_hostPath source) then
             (let dir = shellQuote (the (vs_hostPath source)) in
              Inr (around (''mkdir -p '' @ dir @ '' && find '' @ dir @ '' -mindepth 1 -delete && tar -xzf '' @ archive @ '' -C '' @ dir)))
           else Inl ''volume has no server directory'')
        else if vs_kind source = FileVolume then
          Inr (around (''tar -xzf '' @ archive @ '' -C '' @ shellQuote (dir_name (volumeFilePath (vs_applicationId source) (vs_id source)))))
        else map_sum id (\<lambda>v. around (buildNamedVolumeRestoreCommand v archivePath)) (sourceVolumeName source))"

definition stackVolumeArchiveName :: "string \<Rightarrow> int \<Rightarrow> string" where
  "stackVolumeArchiveName key timestamp =
    ''vol-'' @ take 40 (map (\<lambda>c. if sqlite_char c then c else CHR ''_'') key) @ ''-'' @ int_str timestamp @ ''.tar.gz''"

section \<open>Properties\<close>

lemma includedDatabases_facts:
  "distinct (includedDatabases database l) \<and> includedDatabases database l \<noteq> [] \<and>
   (1 < length (includedDatabases database l) \<longrightarrow> supportsMultiDatabase (dbs_engine database))"
  by (simp add: includedDatabases_def Let_def)

lemma multi_archive_name: "isMultiArchive (d @ dumpFileName database names timestamp) \<longleftrightarrow> 1 < length names"
proof (cases "1 < length names")
  case True
  then show ?thesis by (simp add: isMultiArchive_def dumpFileName_def ends_with_suffix suffix_def)
next
  case False
  define stem where "stem = d @ dump_prefix (dbs_engine database) @ (case names of n # _ \<Rightarrow> n | [] \<Rightarrow> dbs_name database) @
    ''-'' @ butlast (int_str timestamp)"
  define c where "c = last (int_str timestamp)"
  have digit: "is_digit c"
    using nat_str_digits [of "nat (abs timestamp)"] last_in_set [OF nat_str_nonempty [of "nat (abs timestamp)"]]
    by (auto simp: c_def int_str_def)
  have ts: "int_str timestamp = butlast (int_str timestamp) @ [c]"
    by (simp add: c_def int_str_nonempty)
  have "d @ dumpFileName database names timestamp = stem @ c # dump_ext (dbs_engine database)"
    using False by (subst dumpFileName_def, subst ts) (simp add: stem_def)
  moreover have "\<not> suffix ''.tar.gz'' (stem @ c # dump_ext (dbs_engine database))"
    using digit by (cases "dbs_engine database") (auto simp: suffix_def char_class_defs append_eq_append_conv2 append_eq_Cons_conv Cons_eq_append_conv)
  ultimately show ?thesis
    using False by (simp add: isMultiArchive_def ends_with_suffix)
qed

text \<open>
  Dumps and restores agree on the format. The databases a schedule names are dumped once each, several only for an
  engine that can; the file a backup of them is written to is recognised as a multi-database archive exactly when
  it holds several, whatever their names, and only then does the restore unpack it database by database.
\<close>

theorem restore_matches_dump:
  "distinct (includedDatabases database l) \<and> includedDatabases database l \<noteq> [] \<and>
   isMultiArchive (d @ dumpFileName database (includedDatabases database l) timestamp) = (1 < length (includedDatabases database l)) \<and>
   (buildRestoreSteps database container (d @ dumpFileName database (includedDatabases database l) timestamp) dataVolume backupsDir now =
      Inr (restore_many database container (d @ dumpFileName database (includedDatabases database l) timestamp))) =
     (1 < length (includedDatabases database l))"
proof -
  let ?path = "d @ dumpFileName database (includedDatabases database l) timestamp"
  let ?steps = "buildRestoreSteps database container ?path dataVolume backupsDir now"
  have first: "rs_label (hd (restore_many database container p)) = ''extracting the multi-database archive''" for p
    by (simp add: restore_many_def must_def Let_def)
  have "?steps \<noteq> Inr (restore_many database container ?path)" if "\<not> isMultiArchive ?path"
  proof
    assume "?steps = Inr (restore_many database container ?path)"
    then obtain xs where "?steps = Inr xs" "rs_label (hd xs) = ''extracting the multi-database archive''" using first by auto
    then show False
      using that
      by (auto simp: buildRestoreSteps_def restore_mongo_def restore_sql_def restore_sqlite_def restore_clickhouse_def restore_rdb_def
          prepare_dump_def must_def Let_def loadOne_def split: if_splits DatabaseEngine.splits)
  qed
  moreover have "?steps = Inr (restore_many database container ?path)" if "isMultiArchive ?path"
    using that includedDatabases_facts [of database l] by (simp add: buildRestoreSteps_def multi_archive_name)
  ultimately show ?thesis
    using includedDatabases_facts [of database l] multi_archive_name by blast
qed

end
