(* ===== verification/JsNumber.thy ===== *)
theory JsNumber
  imports Prelude Complex_Main
begin

text \<open>
  Numbers read from text: \<open>Number(s)\<close>, \<open>parseFloat(s)\<close> and \<open>Number.parseInt(s, 10)\<close> of the language, on
  exact rationals (the rounding of a literal with more than fifteen digits to a double is not
  represented), and how a number is printed.
\<close>

datatype jsnum = NaN | Infinite bool | Finite rat

definition span_digits :: "string \<Rightarrow> string \<times> string" where
  "span_digits s = (takeWhile is_digit s, dropWhile is_digit s)"

definition exponent :: "string \<Rightarrow> (rat \<times> string) option" where
  "exponent s =
    (case s of
       e # r \<Rightarrow>
         if e = CHR ''e'' \<or> e = CHR ''E'' then
           (let neg = (case r of c # _ \<Rightarrow> c = CHR ''-'' | [] \<Rightarrow> False);
                r' = (case r of c # q \<Rightarrow> if c = CHR ''-'' \<or> c = CHR ''+'' then q else r | [] \<Rightarrow> []);
                (ds, rest) = span_digits r'
            in if ds = [] then None
               else Some (if neg then 1 / 10 ^ nat_of_digits ds else 10 ^ nat_of_digits ds, rest))
         else None
     | [] \<Rightarrow> None)"

text \<open>The longest unsigned decimal literal at the front, and what follows it.\<close>

definition decimal_literal :: "string \<Rightarrow> (rat \<times> string) option" where
  "decimal_literal s =
    (let (i, r) = span_digits s;
         (f, r') = (case r of c # q \<Rightarrow> if c = CHR ''.'' then span_digits q else ([], r) | [] \<Rightarrow> ([], []));
         v = of_nat (nat_of_digits i) + of_nat (nat_of_digits f) / 10 ^ length f
     in if i = [] \<and> f = [] then None
        else case exponent r' of Some (e, rest) \<Rightarrow> Some (v * e, rest) | None \<Rightarrow> Some (v, r'))"

definition sign_of :: "string \<Rightarrow> bool \<times> string" where
  "sign_of s = (case s of c # r \<Rightarrow> if c = CHR ''-'' then (True, r) else if c = CHR ''+'' then (False, r) else (False, s)
                | [] \<Rightarrow> (False, []))"

definition signed_num :: "bool \<Rightarrow> rat \<Rightarrow> jsnum" where
  "signed_num neg v = Finite (if neg then - v else v)"

definition radix_digit :: "nat \<Rightarrow> char \<Rightarrow> nat option" where
  "radix_digit b c =
    (let n = code c; d = (if 48 \<le> n \<and> n \<le> 57 then n - 48 else if 97 \<le> n \<and> n \<le> 102 then n - 87
       else if 65 \<le> n \<and> n \<le> 70 then n - 55 else b)
     in if d < b then Some d else None)"

definition radix_literal :: "nat \<Rightarrow> string \<Rightarrow> jsnum" where
  "radix_literal b s =
    (if s \<noteq> [] \<and> list_all (\<lambda>c. radix_digit b c \<noteq> None) s
     then Finite (of_nat (foldl (\<lambda>n c. n * b + the (radix_digit b c)) 0 s)) else NaN)"

definition js_Number :: "string \<Rightarrow> jsnum" where
  "js_Number s =
    (let t = trim s; (neg, u) = sign_of t in
     if t = [] then Finite 0
     else if starts_with t ''0x'' \<or> starts_with t ''0X'' then radix_literal 16 (drop 2 t)
     else if starts_with t ''0o'' \<or> starts_with t ''0O'' then radix_literal 8 (drop 2 t)
     else if starts_with t ''0b'' \<or> starts_with t ''0B'' then radix_literal 2 (drop 2 t)
     else if u = ''Infinity'' then Infinite neg
     else case decimal_literal u of
       Some (v, rest) \<Rightarrow> if rest = [] then signed_num neg v else NaN
     | None \<Rightarrow> NaN)"

definition js_parseFloat :: "string \<Rightarrow> jsnum" where
  "js_parseFloat s =
    (let (neg, u) = sign_of (dropWhile is_space s) in
     if starts_with u ''Infinity'' then Infinite neg
     else case decimal_literal u of Some (v, _) \<Rightarrow> signed_num neg v | None \<Rightarrow> NaN)"

definition js_parseInt10 :: "string \<Rightarrow> jsnum" where
  "js_parseInt10 s =
    (let (neg, u) = sign_of (dropWhile is_space s); (ds, _) = span_digits u in
     if ds = [] then NaN else signed_num neg (of_nat (nat_of_digits ds)))"

text \<open>\<open>n || 0\<close> and \<open>Number.isFinite(n) ? n : d\<close>.\<close>

fun or_zero :: "jsnum \<Rightarrow> jsnum" where
  "or_zero NaN = Finite 0"
| "or_zero n = n"

fun finite_or :: "rat \<Rightarrow> jsnum \<Rightarrow> rat" where
  "finite_or d (Finite v) = v"
| "finite_or d n = d"

section \<open>Printing\<close>

text \<open>
  A number in a template literal: integers in full, other numbers by their decimal expansion (a quotient
  without a finite expansion is cut after twenty digits; the exponent forms of very large and very small
  numbers are not represented).
\<close>

fun expansion :: "nat \<Rightarrow> rat \<Rightarrow> string" where
  "expansion 0 f = []"
| "expansion (Suc n) f = (if f = 0 then [] else nat_str (nat \<lfloor>f * 10\<rfloor>) @ expansion n (frac (f * 10)))"

definition rat_str :: "rat \<Rightarrow> string" where
  "rat_str r =
    (let a = \<bar>r\<bar> in
     (if r < 0 then ''-'' else []) @ int_str \<lfloor>a\<rfloor> @
     (if frac a = 0 then [] else ''.'' @ expansion 20 (frac a)))"

fun jsnum_str :: "jsnum \<Rightarrow> string" where
  "jsnum_str NaN = ''NaN''"
| "jsnum_str (Infinite neg) = (if neg then ''-Infinity'' else ''Infinity'')"
| "jsnum_str (Finite r) = rat_str r"

section \<open>Integers survive\<close>

lemma span_digits_nat_str [simp]: "span_digits (nat_str n) = (nat_str n, [])"
  using nat_str_digits [of n] by (auto simp: span_digits_def takeWhile_eq_all_conv dropWhile_eq_Nil_conv)

lemma rat_str_int: "rat_str (of_int n) = int_str n"
  by (simp add: rat_str_def int_str_def frac_def)

lemma examples:
  "js_Number '' 12.50 '' = Finite (25 / 2)" "js_Number ''0x1F'' = Finite 31" "js_Number [] = Finite 0"
  "js_Number ''1e2'' = Finite 100" "js_Number ''12px'' = NaN" "js_parseFloat ''12.5%'' = Finite (25 / 2)"
  "js_parseInt10 '' -42abc'' = Finite (-42)" "rat_str (25 / 2) = ''12.5''"
  by code_simp+

lemma nat_str_chars: "c \<in> set (nat_str n) \<Longrightarrow> is_digit c"
  using nat_str_digits by blast

lemma js_Number_nat_str: "js_Number (nat_str n) = Finite (of_nat n)"
proof -
  obtain c s where cs: "nat_str n = c # s" by (cases "nat_str n") auto
  have digit: "is_digit x" if "x \<in> set (nat_str n)" for x using that by (rule nat_str_chars)
  then have plain: "\<not> is_space x" if "x \<in> set (nat_str n)" for x using that by (fastforce simp: char_class_defs)
  have no: "x \<notin> set (nat_str n)" if "\<not> is_digit x" for x using that digit by blast
  have "trim (nat_str n) = nat_str n"
    using plain by (intro trim_ident) (simp_all add: cs)
  moreover have "sign_of (nat_str n) = (False, nat_str n)"
    using no [of "CHR ''-''"] no [of "CHR ''+''"] by (auto simp: sign_of_def cs char_class_defs)
  moreover have "\<not> starts_with (nat_str n) [CHR ''0'', x]" if "\<not> is_digit x" for x
    using no [OF that] by (auto simp: starts_with_def prefix_def)
  moreover have "nat_str n \<noteq> ''Infinity''"
    using no [of "CHR ''I''"] by (auto simp: char_class_defs)
  ultimately show ?thesis
    by (simp add: js_Number_def char_class_defs decimal_literal_def exponent_def signed_num_def nat_of_digits_def [of "[]"])
qed

end
