(* ===== verification/BackupJobs.thy ===== *)
theory BackupJobs
  imports DumpCommands Remote JsNumber
begin

text \<open>
  The backup jobs of the worker: scheduled database backups with their retention
  (apps/worker/src/jobs/backupDatabase.ts), restores of a database (restoreDatabase.ts) and archives of
  volumes (volumeBackup.ts). Each handler is an action on \<open>BackupState\<close>: the rows it reads and writes and,
  as the handlers' local variables, the log and whether a connection is open.
\<close>

section \<open>State\<close>

record BackupState = JobState +
  bst_schedules :: "BackupSchedule list"
  bst_databases :: "Database list"
  bst_servers :: "Server list"
  bst_storages :: "S3Storage list"
  bst_applications :: "Application list"
  bst_volumes :: "ApplicationVolume list"
  bst_services :: "Service list"
  bst_executions :: "BackupExecution list"
  bst_restores :: "DatabaseRestore list"
  bst_archives :: "VolumeBackup list"
  bst_conn :: bool
  bst_tempFile :: "string option"

type_synonym 'a bact = "(BackupState, 'a) act"

definition find_row :: "(BackupState \<Rightarrow> 'r list) \<Rightarrow> ('r \<Rightarrow> bool) \<Rightarrow> 'r option bact" where
  "find_row rows P = gets (\<lambda>s. find P (rows s))"

definition server_row :: "string \<Rightarrow> Server option bact" where
  "server_row i = find_row bst_servers (\<lambda>x. srv_id x = i)"

definition storage_row :: "string \<Rightarrow> S3Storage option bact" where
  "storage_row i = find_row bst_storages (\<lambda>x. s3_id x = i)"

definition set_execution :: "string \<Rightarrow> (BackupExecution \<Rightarrow> BackupExecution) \<Rightarrow> unit bact" where
  "set_execution i f = modify (\<lambda>s. s\<lparr>bst_executions := map (\<lambda>x. if bex_id x = i then f x else x) (bst_executions s)\<rparr>)"

definition set_restore :: "string \<Rightarrow> (DatabaseRestore \<Rightarrow> DatabaseRestore) \<Rightarrow> unit bact" where
  "set_restore i f = modify (\<lambda>s. s\<lparr>bst_restores := map (\<lambda>x. if dbr_id x = i then f x else x) (bst_restores s)\<rparr>)"

definition set_archive :: "string \<Rightarrow> (VolumeBackup \<Rightarrow> VolumeBackup) \<Rightarrow> unit bact" where
  "set_archive i f = modify (\<lambda>s. s\<lparr>bst_archives := map (\<lambda>x. if vbk_id x = i then f x else x) (bst_archives s)\<rparr>)"

definition job_now :: "Runtime \<Rightarrow> int bact" where
  "job_now rt = gets (\<lambda>s. rt_now rt (js_trace s))"

definition append_log :: "string \<Rightarrow> unit bact" where
  "append_log text' = modify (\<lambda>s. s\<lparr>js_log := js_log s @ text'\<rparr>)"

text \<open>The local variables of a handler, before its first statement.\<close>

definition fresh_locals :: "unit bact" where
  "fresh_locals = modify (\<lambda>s. s\<lparr>js_log := [], bst_conn := False, bst_tempFile := None\<rparr>)"

definition open_connection :: "Runtime \<Rightarrow> Server \<Rightarrow> unit bact" where
  "open_connection rt server =
    andThen (connectSsh rt Target (srv_host server)) (modify (\<lambda>s. s\<lparr>bst_conn := True\<rparr>))"

text \<open>\<open>conn?.end()\<close>.\<close>

definition end_connection :: "unit bact" where
  "end_connection = bind (gets bst_conn) (\<lambda>c. whenA c (andThen (emit (Close Target)) (modify (\<lambda>s. s\<lparr>bst_conn := False\<rparr>))))"

text \<open>\<open>Number.parseInt(text.trim(), 10) || 0\<close>.\<close>

definition parsed_size :: "string \<Rightarrow> int" where
  "parsed_size s = (case js_parseInt10 (trim s) of Finite r \<Rightarrow> \<lfloor>r\<rfloor> | _ \<Rightarrow> 0)"

definition file_size :: "Runtime \<Rightarrow> string \<Rightarrow> int bact" where
  "file_size rt path =
    bind (execStream rt Target (''wc -c < '' @ shellQuote path)) (\<lambda>r. pure (parsed_size (concat (map fst (snd r)))))"

section \<open>Database backups\<close>

definition backup_event :: "string \<Rightarrow> string \<Rightarrow> BackupExecutionStatus \<Rightarrow> unit bact" where
  "backup_event executionId scheduleId status = emit (Publish (BackupStatusEvent executionId scheduleId status))"

definition dump_database :: "Runtime \<Rightarrow> Database \<Rightarrow> string \<Rightarrow> string \<Rightarrow> unit bact" where
  "dump_database rt database filePath dumpCommand =
    andThen (append_log (''$ backup ('' @ engine_str (dbs_engine database) @ '') '' @ right_arrow @ '' '' @ filePath @ [LF]))
      (bind (execStream rt Target dumpCommand) (\<lambda>r.
        andThen (append_log (concat (map fst (snd r))))
          (whenA (fst r \<noteq> 0) (throw (''backup command exited with code '' @ int_str (fst r))))))"

definition upload_backup ::
  "Runtime \<Rightarrow> S3Storage \<Rightarrow> string \<Rightarrow> string \<Rightarrow> int \<Rightarrow> unit bact" where
  "upload_backup rt storage objectKey filePath sizeBytes =
    andThen (append_log (''$ uploading to S3 ('' @ s3_name storage @ '') '' @ right_arrow @ '' '' @ objectKey @ [LF]))
      (bind (openRemoteReadStream rt Target filePath) (\<lambda>_.
        bind (uploadStream rt (s3_id storage) objectKey) (\<lambda>sent.
          andThen
            (whenA (sizeBytes > 0 \<and> sent \<noteq> sizeBytes)
              (throw (''the upload sent '' @ int_str sent @ '' bytes but the backup file has '' @ int_str sizeBytes)))
            (removeRemoteFile Target filePath))))"

text \<open>Where the backup ends up: the path on the server, or the object key and its storage.\<close>

definition store_backup :: "Runtime \<Rightarrow> BackupSchedule \<Rightarrow> Database \<Rightarrow> string \<Rightarrow> string \<Rightarrow> int \<Rightarrow> (string \<times> string option) bact" where
  "store_backup rt schedule database fileName filePath sizeBytes =
    (if \<not> str_truthy (bsc_storageId schedule) then pure (filePath, None)
     else bind (storage_row (the (bsc_storageId schedule))) (\<lambda>found.
       case found of
         None \<Rightarrow> throw (''the schedule'' @ [SQ] @ ''s S3 destination no longer exists'')
       | Some storage \<Rightarrow>
           (let objectKey = dbs_id database @ ''/'' @ fileName in
            andThen (upload_backup rt storage objectKey filePath sizeBytes) (pure (objectKey, Some (s3_id storage))))))"

text \<open>Retention: the three rules, on the successful executions, newest first.\<close>

fun over_size :: "int \<Rightarrow> int \<Rightarrow> BackupExecution list \<Rightarrow> string list" where
  "over_size limitBytes cumulative [] = []"
| "over_size limitBytes cumulative (x # xs) =
    (let c = cumulative + default 0 (bex_sizeBytes x) in
     (if c > limitBytes then [bex_id x] else []) @ over_size limitBytes c xs)"

definition retention_victims :: "BackupSchedule \<Rightarrow> int \<Rightarrow> BackupExecution list \<Rightarrow> string list" where
  "retention_victims schedule now successful =
    (if bsc_retentionCount schedule > 0 then map bex_id (drop (nat (bsc_retentionCount schedule)) successful) else []) @
    (if bsc_retentionDays schedule > 0
     then map bex_id (filter (\<lambda>x. bex_createdAt x < now - bsc_retentionDays schedule * 24 * 60 * 60 * 1000) successful) else []) @
    (if bsc_retentionSizeGb schedule > 0 then over_size (bsc_retentionSizeGb schedule * 1024 * 1024 * 1024) 0 successful else [])"

definition successful_executions :: "string \<Rightarrow> BackupExecution list \<Rightarrow> BackupExecution list" where
  "successful_executions scheduleId executions =
    sort_by (\<lambda>a b. cmp_key bex_createdAt b a)
      (filter (\<lambda>x. bex_scheduleId x = scheduleId \<and> bex_status x = ExecutionSuccess) executions)"

definition delete_execution :: "Runtime \<Rightarrow> BackupExecution \<Rightarrow> unit bact" where
  "delete_execution rt x =
    andThen
      (if str_truthy (bex_filePath x) \<and> str_truthy (bex_s3StorageId x) then
         bind (storage_row (the (bex_s3StorageId x))) (\<lambda>found.
           case found of
             Some storage \<Rightarrow> bind (s3_delete rt (s3_id storage) (the (bex_filePath x))) (\<lambda>_. pure ())
           | None \<Rightarrow> pure ())
       else whenA (str_truthy (bex_filePath x)) (removeRemoteFile Target (the (bex_filePath x))))
      (modify (\<lambda>s. s\<lparr>bst_executions := filter (\<lambda>y. bex_id y \<noteq> bex_id x) (bst_executions s)\<rparr>))"

definition applyRetention :: "Runtime \<Rightarrow> BackupSchedule \<Rightarrow> unit bact" where
  "applyRetention rt schedule =
    bind (gets (\<lambda>s. successful_executions (bsc_id schedule) (bst_executions s))) (\<lambda>successful.
    bind (job_now rt) (\<lambda>now.
      (let toDelete = retention_victims schedule now successful in
       seqs (map (delete_execution rt) (filter (\<lambda>x. bex_id x \<in> set toDelete) successful)))))"

text \<open>\<open>(bytes / 1024 ** 2).toFixed(1)\<close>: the nearest tenth, halves up.\<close>

definition megabytes :: "int \<Rightarrow> string" where
  "megabytes bytes = (let n = (20 * bytes + 1048576) div 2097152 in int_str (n div 10) @ ''.'' @ int_str (n mod 10))"

definition backup_done :: "Runtime \<Rightarrow> string \<Rightarrow> BackupSchedule \<Rightarrow> Database \<Rightarrow> string \<times> string option \<Rightarrow> int \<Rightarrow> unit bact" where
  "backup_done rt executionId schedule database place sizeBytes =
    seqs
     [bind (job_now rt) (\<lambda>now. bind (gets js_log) (\<lambda>log.
        set_execution executionId (\<lambda>x. x\<lparr>bex_status := ExecutionSuccess, bex_finishedAt := Some now, bex_log := log,
          bex_filePath := Some (fst place), bex_s3StorageId := snd place, bex_sizeBytes := Some sizeBytes\<rparr>))),
      applyRetention rt schedule,
      backup_event executionId (bsc_id schedule) ExecutionSuccess,
      emit (Notify (dbs_teamId database) ''backup.success'' (''Backup of '' @ dbs_name database @ '' completed'')
        (if sizeBytes \<noteq> 0 then ''File of '' @ megabytes sizeBytes @ '' MB.'' else ''Backup completed.'') LevelInfo)]"

definition backup_body :: "Runtime \<Rightarrow> string \<Rightarrow> BackupSchedule \<Rightarrow> Database \<Rightarrow> Server \<Rightarrow> unit bact" where
  "backup_body rt executionId schedule database server =
    andThen (open_connection rt server)
      (bind (job_now rt) (\<lambda>now.
        (let dir = dbBackupsDir (dbs_id database);
             names = includedDatabases database (bsc_databasesToInclude schedule);
             fileName = dumpFileName database names now;
             filePath = dir @ ''/'' @ fileName
         in case buildDumpCommand database (containerNameForDatabase (dbs_id database)) filePath names of
              Inl e \<Rightarrow> throw e
            | Inr dump \<Rightarrow>
                andThen (dump_database rt database filePath (''mkdir -p '' @ shellQuote dir @ '' && '' @ dump))
                  (bind (file_size rt filePath) (\<lambda>sizeBytes.
                    bind (store_backup rt schedule database fileName filePath sizeBytes) (\<lambda>place.
                      backup_done rt executionId schedule database place sizeBytes))))))"

definition backup_failed :: "Runtime \<Rightarrow> string \<Rightarrow> BackupSchedule \<Rightarrow> Database \<Rightarrow> string \<Rightarrow> unit bact" where
  "backup_failed rt executionId schedule database message =
    seqs
     [append_log ([LF] @ ''failed: '' @ message @ [LF]),
      bind (job_now rt) (\<lambda>now. bind (gets js_log) (\<lambda>log.
        set_execution executionId (\<lambda>x. x\<lparr>bex_status := ExecutionFailed, bex_finishedAt := Some now, bex_log := log\<rparr>))),
      backup_event executionId (bsc_id schedule) ExecutionFailed,
      emit (Notify (dbs_teamId database) ''backup.failed'' (''Backup of '' @ dbs_name database @ '' failed'') message LevelError)]"

definition run_backup :: "Runtime \<Rightarrow> string \<Rightarrow> BackupSchedule \<Rightarrow> Database \<Rightarrow> Server \<Rightarrow> unit bact" where
  "run_backup rt executionId schedule database server =
    seqs
     [fresh_locals,
      bind (job_now rt) (\<lambda>now. modify (\<lambda>s. s\<lparr>bst_executions := bst_executions s @
        [(new_backupExecution executionId now (bsc_id schedule))\<lparr>bex_status := ExecutionRunning, bex_startedAt := Some now\<rparr>]\<rparr>)),
      backup_event executionId (bsc_id schedule) ExecutionRunning,
      finally_do
        (catch (backup_body rt executionId schedule database server) (backup_failed rt executionId schedule database))
        end_connection]"

text \<open>The handler; \<open>executionId\<close> is the identifier the database gives to the new row.\<close>

definition backupDatabase :: "Runtime \<Rightarrow> string \<Rightarrow> string \<Rightarrow> unit bact" where
  "backupDatabase rt executionId scheduleId =
    bind (find_row bst_schedules (\<lambda>x. bsc_id x = scheduleId)) (\<lambda>schedule_opt.
      case schedule_opt of
        None \<Rightarrow> pure ()
      | Some schedule \<Rightarrow>
          whenA (bsc_enabled schedule)
            (bind (find_row bst_databases (\<lambda>x. dbs_id x = bsc_databaseId schedule)) (\<lambda>database_opt.
              case database_opt of
                None \<Rightarrow> pure ()
              | Some database \<Rightarrow>
                  bind (server_row (dbs_serverId database)) (\<lambda>server_opt.
                    case server_opt of
                      None \<Rightarrow> pure ()
                    | Some server \<Rightarrow> run_backup rt executionId schedule database server))))"

definition seqs_then :: "('s, unit) act list \<Rightarrow> ('s, 'a) act \<Rightarrow> ('s, 'a) act" where
  "seqs_then ms m = andThen (seqs ms) m"

section \<open>Steps with a label\<close>

text \<open>The closure \<open>run\<close> of the two jobs below; \<open>say\<close> appends to the job's row.\<close>

definition run_labelled :: "Runtime \<Rightarrow> (string \<Rightarrow> unit bact) \<Rightarrow> string \<Rightarrow> string \<Rightarrow> bool \<Rightarrow> unit bact" where
  "run_labelled rt say command label allowFailure =
    andThen (say (colored ''36'' (''$ '' @ label)))
      (bind (execStream rt Target command) (\<lambda>r.
        (let output = concat (map fst (snd r)) in
         andThen (whenA (trim output \<noteq> []) (say (if ends_with output [LF] then output else output @ [LF])))
           (whenA (fst r \<noteq> 0 \<and> \<not> allowFailure)
             (throw (dq label @ '' exited with code '' @ int_str (fst r)))))))"

section \<open>Restoring a database\<close>

datatype RestoreSource = FromExecution string | FromUpload string

definition restore_log :: "string \<Rightarrow> string \<Rightarrow> unit bact" where
  "restore_log restoreId text' =
    andThen (append_log text') (bind (gets js_log) (\<lambda>log. set_restore restoreId (\<lambda>x. x\<lparr>dbr_log := log\<rparr>)))"

definition set_temp :: "string \<Rightarrow> unit bact" where
  "set_temp path = modify (\<lambda>s. s\<lparr>bst_tempFile := Some path\<rparr>)"

definition stored_backup :: "Runtime \<Rightarrow> string \<Rightarrow> Database \<Rightarrow> string \<Rightarrow> BackupExecution \<Rightarrow> string bact" where
  "stored_backup rt restoreId database dir x =
    (let path = default [] (bex_filePath x) in
     if str_truthy (bex_s3StorageId x) then
       bind (storage_row (the (bex_s3StorageId x))) (\<lambda>found.
         case found of
           None \<Rightarrow> throw (''this backup'' @ [SQ] @ ''s S3 destination no longer exists'')
         | Some storage \<Rightarrow>
             andThen (restore_log restoreId (colored ''36'' (''$ downloading from S3 ('' @ s3_name storage @ '')'')))
               (bind (job_now rt) (\<lambda>now.
                 (let filePath = dir @ ''/restore-'' @ int_str now @ ''-'' @ last (split_str ''/'' path) in
                  bind (writeRemoteFileStream rt Target filePath (s3_id storage) path) (\<lambda>_.
                    andThen (set_temp filePath) (pure filePath))))))
     else andThen (run_labelled rt (restore_log restoreId) (''test -f '' @ shellQuote path) ''checking the backup file'' False) (pure path))"

definition fetch_backup :: "Runtime \<Rightarrow> string \<Rightarrow> Database \<Rightarrow> string \<Rightarrow> RestoreSource \<Rightarrow> string bact" where
  "fetch_backup rt restoreId database dir source =
    (case source of
       FromUpload path \<Rightarrow> andThen (set_temp path) (pure path)
     | FromExecution executionId \<Rightarrow>
         bind (find_row bst_executions (\<lambda>x. bex_id x = executionId)) (\<lambda>found.
           case found of
             None \<Rightarrow> throw ''this backup does not exist or did not finish successfully''
           | Some x \<Rightarrow>
               if \<not> str_truthy (bex_filePath x) \<or> bex_status x \<noteq> ExecutionSuccess
               then throw ''this backup does not exist or did not finish successfully''
               else bind (find_row bst_schedules (\<lambda>y. bsc_id y = bex_scheduleId x)) (\<lambda>schedule_opt.
                 if (case schedule_opt of None \<Rightarrow> True | Some schedule \<Rightarrow> bsc_databaseId schedule \<noteq> dbs_id database)
                 then throw ''this backup belongs to another database''
                 else stored_backup rt restoreId database dir x)))"

definition restore_steps :: "Runtime \<Rightarrow> string \<Rightarrow> RestoreStep list \<Rightarrow> unit bact" where
  "restore_steps rt restoreId steps =
    seqs (map (\<lambda>st. run_labelled rt (restore_log restoreId) (rs_command st) (rs_label st) (rs_allowFailure st)) steps)"

definition restore_body :: "Runtime \<Rightarrow> string \<Rightarrow> Database \<Rightarrow> Server \<Rightarrow> RestoreSource \<Rightarrow> unit bact" where
  "restore_body rt restoreId database server source =
    (let dir = dbBackupsDir (dbs_id database); name = containerNameForDatabase (dbs_id database) in
     seqs
      [open_connection rt server,
       run_labelled rt (restore_log restoreId) (''mkdir -p '' @ shellQuote dir) ''preparing the backups folder'' False,
       bind (fetch_backup rt restoreId database dir source) (\<lambda>filePath. bind (job_now rt) (\<lambda>now.
         case buildRestoreSteps database name filePath (name @ ''-data'') dir now of
           Inl e \<Rightarrow> throw e
         | Inr steps \<Rightarrow> restore_steps rt restoreId steps)),
       restore_log restoreId ([LF] @ colored ''32'' ''Restore completed.''),
       bind (job_now rt) (\<lambda>now. set_restore restoreId (\<lambda>x. x\<lparr>dbr_status := ExecutionSuccess, dbr_finishedAt := Some now\<rparr>))])"

definition restore_failed :: "Runtime \<Rightarrow> string \<Rightarrow> Database \<Rightarrow> string \<Rightarrow> unit bact" where
  "restore_failed rt restoreId database message =
    seqs
     [restore_log restoreId ([LF] @ colored ''31'' (''Restore failed: '' @ message)),
      bind (job_now rt) (\<lambda>now. set_restore restoreId (\<lambda>x. x\<lparr>dbr_status := ExecutionFailed, dbr_finishedAt := Some now\<rparr>)),
      emit (Notify (dbs_teamId database) ''backup.failed'' (''Restore of '' @ dbs_name database @ '' failed'') message LevelError)]"

definition remove_temp :: "Runtime \<Rightarrow> unit bact" where
  "remove_temp rt =
    bind (gets (\<lambda>s. (bst_conn s, bst_tempFile s))) (\<lambda>(conn, temp).
      whenA (conn \<and> str_truthy temp) (ignore_errors (exec_quiet rt Target (''rm -rf '' @ shellQuote (the temp)))))"

definition restoreDatabase :: "Runtime \<Rightarrow> string \<Rightarrow> RestoreSource \<Rightarrow> unit bact" where
  "restoreDatabase rt restoreId source =
    bind (find_row bst_restores (\<lambda>x. dbr_id x = restoreId)) (\<lambda>restore_opt.
      case restore_opt of
        None \<Rightarrow> pure ()
      | Some restore \<Rightarrow>
          andThen fresh_locals
          (bind (find_row bst_databases (\<lambda>x. dbs_id x = dbr_databaseId restore)) (\<lambda>database_opt.
          bind (case database_opt of Some database \<Rightarrow> server_row (dbs_serverId database) | None \<Rightarrow> pure None) (\<lambda>server_opt.
          andThen
            (bind (job_now rt) (\<lambda>now. set_restore restoreId (\<lambda>x. x\<lparr>dbr_status := ExecutionRunning, dbr_startedAt := Some now\<rparr>)))
            (case (database_opt, server_opt) of
               (Some database, Some server) \<Rightarrow>
                 finally_do
                   (catch (restore_body rt restoreId database server source) (restore_failed rt restoreId database))
                   (andThen (remove_temp rt) end_connection)
             | _ \<Rightarrow> bind (job_now rt) (\<lambda>now. set_restore restoreId (\<lambda>x. x\<lparr>dbr_status := ExecutionFailed,
                 dbr_finishedAt := Some now, dbr_log := ''the database or server no longer exists'' @ [LF]\<rparr>)))))))"

section \<open>Archives of volumes\<close>

text \<open>What a run needs to know about the owner; \<open>same_volume\<close> selects the archives of the same volume.\<close>

record Target =
  tg_serverId :: string
  tg_ownerId :: string
  tg_label :: string
  tg_archiveName :: string
  tg_backup :: "string \<Rightarrow> string + string"
  tg_restore :: "string \<Rightarrow> string + RestoreCommands"
  tg_sameVolume :: "VolumeBackup \<Rightarrow> bool"
  tg_stopLabel :: string
  tg_startLabel :: string

definition applicationTarget :: "Runtime \<Rightarrow> VolumeBackup \<Rightarrow> VolumeBackup \<Rightarrow> Target bact" where
  "applicationTarget rt row sourceRow =
    bind (find_row bst_applications (\<lambda>a. app_id a = vbk_ownerId row)) (\<lambda>application_opt.
      case application_opt of
        None \<Rightarrow> throw ''the application or server no longer exists''
      | Some application \<Rightarrow>
          bind (if str_truthy (vbk_volumeId sourceRow)
                then find_row bst_volumes (\<lambda>v. vol_id v = the (vbk_volumeId sourceRow) \<and> vol_applicationId v = app_id application)
                else pure None) (\<lambda>volume_opt.
            case volume_opt of
              None \<Rightarrow> throw ''the volume no longer exists (it was removed from the application)''
            | Some volume \<Rightarrow>
                (let source = \<lparr>vs_kind = vol_kind volume, vs_id = vol_id volume, vs_hostPath = vol_hostPath volume,
                       vs_applicationId = app_id application\<rparr>
                 in bind (job_now rt) (\<lambda>now. pure \<lparr>tg_serverId = app_serverId application, tg_ownerId = app_id application,
                   tg_label = vol_mountPath volume, tg_archiveName = volumeArchiveName (vol_id volume) now,
                   tg_backup = buildVolumeBackupCommand source,
                   tg_restore = (\<lambda>archive. buildVolumeRestoreCommands source archive (''yeah-app-'' @ app_id application)),
                   tg_sameVolume = (\<lambda>b. vbk_volumeId b = Some (vol_id volume)),
                   tg_stopLabel = ''stopping the application'', tg_startLabel = ''starting the application''\<rparr>))))"

definition serviceTarget :: "Runtime \<Rightarrow> (string \<Rightarrow> string + jv) \<Rightarrow> VolumeBackup \<Rightarrow> VolumeBackup \<Rightarrow> Target bact" where
  "serviceTarget rt yaml row sourceRow =
    bind (find_row bst_services (\<lambda>x. svc_id x = vbk_ownerId row)) (\<lambda>service_opt.
      case service_opt of
        None \<Rightarrow> throw ''the service no longer exists''
      | Some service \<Rightarrow>
          if \<not> str_truthy (svc_composeContent service) then throw ''the service no longer exists''
          else
            (let project = stackProject (svc_id service) in
             case find (\<lambda>v. stv_key v = vbk_label sourceRow) (composeNamedVolumes yaml (the (svc_composeContent service)) project) of
               None \<Rightarrow> throw (''the volume '' @ dq (vbk_label sourceRow) @ '' is no longer in the service'' @ [SQ] @ ''s compose file'')
             | Some volume \<Rightarrow>
                 bind (job_now rt) (\<lambda>now. pure \<lparr>tg_serverId = svc_serverId service, tg_ownerId = svc_id service, tg_label = stv_key volume,
                   tg_archiveName = stackVolumeArchiveName (stv_key volume) now,
                   tg_backup = (\<lambda>archive. Inr (buildNamedVolumeBackupCommand (stv_dockerName volume) archive)),
                   tg_restore = (\<lambda>archive. Inr \<lparr>rc_stop = composeLifecycleCommand StopAction project 10 @ '' || true'',
                     rc_replace = buildNamedVolumeRestoreCommand (stv_dockerName volume) archive,
                     rc_start = composeLifecycleCommand StartAction project 10 @ '' || true''\<rparr>),
                   tg_sameVolume = (\<lambda>b. vbk_label b = stv_key volume),
                   tg_stopLabel = ''stopping the containers'', tg_startLabel = ''starting the containers''\<rparr>)))"

definition archive_log :: "string \<Rightarrow> string \<Rightarrow> unit bact" where
  "archive_log i text' = andThen (append_log text') (bind (gets js_log) (\<lambda>log. set_archive i (\<lambda>x. x\<lparr>vbk_log := log\<rparr>)))"

definition delete_archive :: "Runtime \<Rightarrow> VolumeBackup \<Rightarrow> unit bact" where
  "delete_archive rt old =
    andThen
      (if str_truthy (vbk_filePath old) \<and> str_truthy (vbk_s3StorageId old) then
         bind (storage_row (the (vbk_s3StorageId old))) (\<lambda>found.
           case found of
             Some storage \<Rightarrow> ignore_errors (bind (s3_delete rt (s3_id storage) (the (vbk_filePath old))) (\<lambda>_. pure ()))
           | None \<Rightarrow> pure ())
       else whenA (str_truthy (vbk_filePath old)) (exec_quiet rt Target (''rm -f '' @ shellQuote (the (vbk_filePath old)))))
      (modify (\<lambda>s. s\<lparr>bst_archives := filter (\<lambda>y. vbk_id y \<noteq> vbk_id old) (bst_archives s)\<rparr>))"

definition archive_retention :: "Runtime \<Rightarrow> Target \<Rightarrow> unit bact" where
  "archive_retention rt target =
    bind (gets (\<lambda>s. sort_by (\<lambda>a b. cmp_key vbk_createdAt b a)
        (filter (\<lambda>b. vbk_ownerId b = tg_ownerId target \<and> tg_sameVolume target b \<and> vbk_operation b = BackupOperation \<and>
           vbk_status b = ExecutionSuccess) (bst_archives s)))) (\<lambda>rows.
      seqs (map (delete_archive rt) (drop KEEP_VOLUME_BACKUPS rows)))"

definition make_archive :: "Runtime \<Rightarrow> VolumeBackup \<Rightarrow> Target \<Rightarrow> unit bact" where
  "make_archive rt row target =
    (let dir = volumeBackupsDir (tg_ownerId target); i = vbk_id row in
     (let archive = dir @ ''/'' @ tg_archiveName target in
        andThen (run_labelled rt (archive_log i) (''mkdir -p '' @ shellQuote dir) ''preparing the folder'' False)
          (case tg_backup target archive of
             Inl e \<Rightarrow> throw e
           | Inr command \<Rightarrow>
               andThen (run_labelled rt (archive_log i) command (''archiving '' @ tg_label target) False)
                 (bind (file_size rt archive) (\<lambda>size. bind (job_now rt) (\<lambda>done_at.
                   seqs
                    [set_archive i (\<lambda>x. x\<lparr>vbk_status := ExecutionSuccess, vbk_finishedAt := Some done_at,
                       vbk_filePath := Some archive, vbk_sizeBytes := Some size\<rparr>),
                     archive_log i ([LF] @ colored ''32'' ''Backup completed.''),
                     archive_retention rt target]))))))"

text \<open>The archive on the server: the source's own path, or a staged copy of the object in S3.\<close>

definition stage_archive :: "Runtime \<Rightarrow> VolumeBackup \<Rightarrow> VolumeBackup \<Rightarrow> Target \<Rightarrow> (string \<times> string option) bact" where
  "stage_archive rt row sourceRow target =
    (let path = default [] (vbk_filePath sourceRow); i = vbk_id row in
     if \<not> str_truthy (vbk_s3StorageId sourceRow) then pure (path, None)
     else bind (storage_row (the (vbk_s3StorageId sourceRow))) (\<lambda>found.
       case found of
         None \<Rightarrow> throw (''this backup'' @ [SQ] @ ''s S3 destination no longer exists'')
       | Some storage \<Rightarrow>
           (let dir = volumeBackupsDir (tg_ownerId target); staged = dir @ ''/restore-'' @ i @ ''.tar.gz'' in
            seqs_then
             [run_labelled rt (archive_log i) (''mkdir -p '' @ shellQuote dir) ''preparing the folder'' False,
              archive_log i (colored ''36'' (''$ downloading from S3 ('' @ s3_name storage @ '')'')),
              bind (writeRemoteFileStream rt Target staged (s3_id storage) path) (\<lambda>_. pure ())]
             (pure (staged, Some staged)))))"

definition replace_volume :: "Runtime \<Rightarrow> VolumeBackup \<Rightarrow> Target \<Rightarrow> RestoreCommands \<Rightarrow> string option \<Rightarrow> unit bact" where
  "replace_volume rt row target commands staged =
    (let say = archive_log (vbk_id row) in
     finally_do
       (andThen (run_labelled rt say (rc_stop commands) (tg_stopLabel target) False)
         (finally_do
           (run_labelled rt say (rc_replace commands) (''restoring '' @ tg_label target) False)
           (run_labelled rt say (rc_start commands) (tg_startLabel target) False)))
       (case staged of Some path \<Rightarrow> exec_quiet rt Target (''rm -f '' @ shellQuote path) | None \<Rightarrow> pure ()))"

definition restore_archive :: "Runtime \<Rightarrow> VolumeBackup \<Rightarrow> VolumeBackup \<Rightarrow> Target \<Rightarrow> unit bact" where
  "restore_archive rt row sourceRow target =
    bind (stage_archive rt row sourceRow target) (\<lambda>(archive, staged).
      case tg_restore target archive of
        Inl e \<Rightarrow> throw e
      | Inr commands \<Rightarrow>
          seqs
           [replace_volume rt row target commands staged,
            bind (job_now rt) (\<lambda>now. set_archive (vbk_id row)
              (\<lambda>x. x\<lparr>vbk_status := ExecutionSuccess, vbk_finishedAt := Some now, vbk_filePath := vbk_filePath sourceRow\<rparr>)),
            archive_log (vbk_id row) ([LF] @ colored ''32'' ''Restore completed.'')])"

definition source_row :: "VolumeBackup \<Rightarrow> VolumeBackup bact" where
  "source_row row =
    (if vbk_operation row \<noteq> RestoreOperation then pure row
     else bind (if str_truthy (vbk_sourceBackupId row) then find_row bst_archives (\<lambda>b. vbk_id b = the (vbk_sourceBackupId row)) else pure None)
       (\<lambda>found. case found of
          None \<Rightarrow> throw ''the source backup no longer exists''
        | Some src \<Rightarrow> if vbk_ownerId src \<noteq> vbk_ownerId row \<or> \<not> str_truthy (vbk_filePath src)
            then throw ''the source backup no longer exists'' else pure src))"

definition volume_body :: "Runtime \<Rightarrow> (string \<Rightarrow> string + jv) \<Rightarrow> VolumeBackup \<Rightarrow> unit bact" where
  "volume_body rt yaml row =
    bind (source_row row) (\<lambda>sourceRow.
    bind (if vbk_ownerType row = ServiceOwner then serviceTarget rt yaml row sourceRow else applicationTarget rt row sourceRow) (\<lambda>target.
    bind (server_row (tg_serverId target)) (\<lambda>server_opt.
      case server_opt of
        None \<Rightarrow> throw ''the server no longer exists''
      | Some server \<Rightarrow>
          andThen (open_connection rt server)
            (if vbk_operation row \<noteq> RestoreOperation then make_archive rt row target
             else restore_archive rt row sourceRow target))))"

definition volume_failed :: "Runtime \<Rightarrow> VolumeBackup \<Rightarrow> string \<Rightarrow> unit bact" where
  "volume_failed rt row message =
    seqs
     [archive_log (vbk_id row) ([LF] @ colored ''31'' (''Failed: '' @ message)),
      bind (job_now rt) (\<lambda>now. set_archive (vbk_id row) (\<lambda>x. x\<lparr>vbk_status := ExecutionFailed, vbk_finishedAt := Some now\<rparr>)),
      emit (Notify (vbk_teamId row) ''backup.failed''
        ((if vbk_operation row = RestoreOperation then ''Restore'' else ''Backup'') @ '' of volume '' @ vbk_label row @ '' failed'') message LevelError)]"

definition volumeBackup :: "Runtime \<Rightarrow> (string \<Rightarrow> string + jv) \<Rightarrow> string \<Rightarrow> unit bact" where
  "volumeBackup rt yaml backupId =
    bind (find_row bst_archives (\<lambda>x. vbk_id x = backupId)) (\<lambda>row_opt.
      case row_opt of
        None \<Rightarrow> pure ()
      | Some row \<Rightarrow>
          seqs
           [fresh_locals,
            (bind (job_now rt) (\<lambda>now. set_archive (vbk_id row) (\<lambda>x. x\<lparr>vbk_status := ExecutionRunning, vbk_startedAt := Some now\<rparr>))),
            finally_do (catch (volume_body rt yaml row) (volume_failed rt row)) end_connection])"

section \<open>Jobs that always settle\<close>

definition execution_settled :: "string \<Rightarrow> BackupState \<Rightarrow> bool" where
  "execution_settled i s \<longleftrightarrow> (\<forall>x \<in> set (bst_executions s). bex_id x = i \<longrightarrow> bex_status x \<in> {ExecutionSuccess, ExecutionFailed})"

definition restore_settled :: "string \<Rightarrow> BackupState \<Rightarrow> bool" where
  "restore_settled i s \<longleftrightarrow> (\<forall>x \<in> set (bst_restores s). dbr_id x = i \<longrightarrow> dbr_status x \<in> {ExecutionSuccess, ExecutionFailed})"

definition archive_settled :: "string \<Rightarrow> BackupState \<Rightarrow> bool" where
  "archive_settled i s \<longleftrightarrow> (\<forall>x \<in> set (bst_archives s). vbk_id x = i \<longrightarrow> vbk_status x \<in> {ExecutionSuccess, ExecutionFailed})"

lemmas settled_defs = execution_settled_def restore_settled_def archive_settled_def

lemma settled_trace [simp]:
  "trace_only (execution_settled i)" "trace_only (restore_settled i)" "trace_only (archive_settled i)"
  by (simp_all add: trace_only_def settled_defs)

text \<open>The writes, one rule each: what a final status establishes and what every other write keeps.\<close>

lemma settles_writes:
  "(\<And>x. bex_id (f x) = bex_id x) \<Longrightarrow> (\<And>x. bex_status (f x) \<in> {ExecutionSuccess, ExecutionFailed}) \<Longrightarrow>
    ensures (execution_settled i) (set_execution i f)"
  "(\<And>x. dbr_id (g x) = dbr_id x) \<Longrightarrow> (\<And>x. dbr_status (g x) \<in> {ExecutionSuccess, ExecutionFailed}) \<Longrightarrow>
    ensures (restore_settled i) (set_restore i g)"
  "(\<And>x. vbk_id (h x) = vbk_id x) \<Longrightarrow> (\<And>x. vbk_status (h x) \<in> {ExecutionSuccess, ExecutionFailed}) \<Longrightarrow>
    ensures (archive_settled i) (set_archive i h)"
  by (auto simp: ensures_def set_execution_def set_restore_def set_archive_def modify_def settled_defs)

lemma keeps_log:
  "keeps (execution_settled i) (append_log t)" "keeps (restore_settled i) (append_log t)" "keeps (archive_settled i) (append_log t)"
  by (simp_all add: keeps_def append_log_def modify_def settled_defs)

lemma keeps_row_log: "keeps (restore_settled i) (restore_log j t)" "keeps (archive_settled i) (archive_log j t)"
proof -
  have rows: "keeps (restore_settled i) (set_restore j (\<lambda>x. x\<lparr>dbr_log := l\<rparr>))" "keeps (archive_settled i) (set_archive j (\<lambda>x. x\<lparr>vbk_log := l\<rparr>))" for l
    by (auto simp: keeps_def set_restore_def set_archive_def modify_def settled_defs)
  show "keeps (restore_settled i) (restore_log j t)" "keeps (archive_settled i) (archive_log j t)"
    unfolding restore_log_def archive_log_def by (intro keeps_rules keeps_log rows)+
qed

lemma keeps_end:
  "keeps (execution_settled i) end_connection" "keeps (restore_settled i) end_connection" "keeps (archive_settled i) end_connection"
proof -
  have conn: "keeps (execution_settled i) (modify (\<lambda>s. s\<lparr>bst_conn := False\<rparr>))" "keeps (restore_settled i) (modify (\<lambda>s. s\<lparr>bst_conn := False\<rparr>))"
    "keeps (archive_settled i) (modify (\<lambda>s. s\<lparr>bst_conn := False\<rparr>))"
    by (auto simp: keeps_def modify_def settled_defs)
  show "keeps (execution_settled i) end_connection" "keeps (restore_settled i) end_connection" "keeps (archive_settled i) end_connection"
    unfolding end_connection_def by (intro keeps_rules keeps_calls settled_trace conn)+
qed

lemma ends_connection: "returns end_connection" "ensures (\<lambda>s. \<not> bst_conn s) end_connection"
  unfolding end_connection_def
  by (intro returns_rules)
    (auto simp: ensures_def gets_def bind_def whenA_def pure_def andThen_def emit_def modify_def)

lemma returns_now: "returns (job_now rt)" "returns (append_log t)" "returns (set_execution i f)" "returns (set_restore i g)"
  "returns (set_archive i h)" "returns (restore_log i t)" "returns (archive_log i t)" "returns fresh_locals" "returns (find_row rows P)"
  unfolding job_now_def append_log_def set_execution_def set_restore_def set_archive_def restore_log_def archive_log_def fresh_locals_def find_row_def
  by (intro returns_rules)+

subsection \<open>Database backups\<close>

lemma keeps_executions:
  "keeps (execution_settled i) (delete_execution rt x)" "keeps (execution_settled i) (applyRetention rt schedule)"
proof -
  have drop: "keeps (execution_settled i) (modify (\<lambda>s. s\<lparr>bst_executions := filter P (bst_executions s)\<rparr>))" for P
    by (auto simp: keeps_def modify_def settled_defs)
  show delete: "keeps (execution_settled i) (delete_execution rt x)" for x
    unfolding delete_execution_def storage_row_def find_row_def
    by (intro keeps_rules keeps_calls settled_trace drop)
  show "keeps (execution_settled i) (applyRetention rt schedule)"
    unfolding applyRetention_def job_now_def Let_def by (intro keeps_rules delete)
qed

lemma backup_done_settles: "ensures (execution_settled i) (backup_done rt i schedule database place sizeBytes)"
proof -
  have set: "ensures (execution_settled i) (bind (job_now rt) (\<lambda>now. bind (gets js_log) (\<lambda>log.
        set_execution i (\<lambda>x. x\<lparr>bex_status := ExecutionSuccess, bex_finishedAt := Some now, bex_log := log,
          bex_filePath := Some (fst place), bex_s3StorageId := snd place, bex_sizeBytes := Some sizeBytes\<rparr>))))"
    by (intro ensures_bind settles_writes(1)) simp_all
  show ?thesis
    unfolding backup_done_def seqs.simps(2)
    by (rule ensures_kept [OF set]) (intro keeps_rules keeps_executions keeps_calls settled_trace, simp add: backup_event_def keeps_calls)
qed

lemma backup_failed_settles: "ensures (execution_settled i) (backup_failed rt i schedule database message)"
  unfolding backup_failed_def seqs.simps(2)
  by (intro ensures_last ensures_kept [of _ "bind (job_now rt) k" for k] ensures_bind settles_writes(1))
    (simp_all add: backup_event_def keeps_rules keeps_calls)

lemma ensures_sum: "(\<And>y. x = Inr y \<Longrightarrow> ensures Q (k y)) \<Longrightarrow> ensures Q (case x of Inl e \<Rightarrow> throw e | Inr y \<Rightarrow> k y)"
  by (simp add: ensures_def throw_def split: sum.split)

lemma ensures_option: "(\<And>y. x = Some y \<Longrightarrow> ensures Q (k y)) \<Longrightarrow> ensures Q (case x of None \<Rightarrow> throw e | Some y \<Rightarrow> k y)"
  by (simp add: ensures_def throw_def split: option.split)

lemma backup_body_settles: "ensures (execution_settled i) (backup_body rt i schedule database server)"
  unfolding backup_body_def Let_def
  by (intro ensures_last ensures_bind ensures_sum backup_done_settles)

interpretation backup_job: settling "execution_settled i" "\<lambda>s. \<not> bst_conn s" "backup_body rt i schedule database server"
    "backup_failed rt i schedule database" end_connection for i rt schedule database server
proof
  show "returns (backup_failed rt i schedule database e)" for e
    unfolding backup_failed_def backup_event_def by (intro returns_rules returns_now)
qed (intro backup_body_settles backup_failed_settles ends_connection keeps_end)+

subsection \<open>Restores\<close>

lemma restore_body_settles: "ensures (restore_settled i) (restore_body rt i database server source)"
  unfolding restore_body_def Let_def seqs.simps
  by (intro ensures_last ensures_kept [OF _ keeps_pure] ensures_bind settles_writes(2)) simp_all

lemma restore_failed_settles: "ensures (restore_settled i) (restore_failed rt i database message)"
  unfolding restore_failed_def seqs.simps(2)
  by (intro ensures_last ensures_kept [of _ "bind (job_now rt) k" for k] ensures_bind settles_writes(2))
    (simp_all add: keeps_rules keeps_calls)

lemma restore_cleanup_rules:
  "returns (andThen (remove_temp rt) end_connection)" "keeps (restore_settled i) (andThen (remove_temp rt) end_connection)"
  unfolding remove_temp_def case_prod_unfold
  by (intro returns_rules ends_connection, intro keeps_rules keeps_calls settled_trace keeps_end)

interpretation restore_job: settling "restore_settled i" "\<lambda>s. \<not> bst_conn s" "restore_body rt i database server source"
    "restore_failed rt i database" "andThen (remove_temp rt) end_connection" for i rt database server source
proof
  show "returns (restore_failed rt i database e)" for e
    unfolding restore_failed_def by (intro returns_rules returns_now)
qed (intro restore_body_settles restore_failed_settles restore_cleanup_rules ensures_last ends_connection)+

subsection \<open>Archives\<close>

lemma keeps_archives: "keeps (archive_settled i) (delete_archive rt x)" "keeps (archive_settled i) (archive_retention rt target)"
proof -
  have drop: "keeps (archive_settled i) (modify (\<lambda>s. s\<lparr>bst_archives := filter P (bst_archives s)\<rparr>))" for P
    by (auto simp: keeps_def modify_def settled_defs)
  show delete: "keeps (archive_settled i) (delete_archive rt x)" for x
    unfolding delete_archive_def storage_row_def find_row_def
    by (intro keeps_rules keeps_calls settled_trace drop)
  show "keeps (archive_settled i) (archive_retention rt target)"
    unfolding archive_retention_def by (intro keeps_rules delete)
qed

lemma volume_body_settles: "ensures (archive_settled (vbk_id row)) (volume_body rt yaml row)"
proof -
  have make: "ensures (archive_settled (vbk_id row)) (make_archive rt row target)" for target
    unfolding make_archive_def Let_def seqs.simps(2)
    by (intro ensures_last ensures_bind ensures_sum ensures_kept [of _ "set_archive i f" for i f] settles_writes(3))
      (simp_all add: keeps_rules keeps_row_log keeps_archives)
  have restore: "ensures (archive_settled (vbk_id row)) (restore_archive rt row src target)" for src target
    unfolding restore_archive_def case_prod_unfold seqs.simps(2)
    by (intro ensures_last ensures_bind ensures_sum ensures_kept [of _ "bind (job_now rt) k" for k] settles_writes(3))
      (simp_all add: keeps_rules keeps_row_log)
  show ?thesis
    unfolding volume_body_def
    by (intro ensures_bind ensures_option ensures_last) (simp add: make restore)
qed

lemma volume_failed_settles: "ensures (archive_settled (vbk_id row)) (volume_failed rt row message)"
  unfolding volume_failed_def seqs.simps(2)
  by (intro ensures_last ensures_kept [of _ "bind (job_now rt) k" for k] ensures_bind settles_writes(3))
    (simp_all add: keeps_rules keeps_calls)

interpretation volume_job: settling "archive_settled (vbk_id row)" "\<lambda>s. \<not> bst_conn s" "volume_body rt yaml row"
    "volume_failed rt row" end_connection for rt yaml row
proof
  show "returns (volume_failed rt row e)" for e
    unfolding volume_failed_def by (intro returns_rules returns_now)
qed (intro volume_body_settles volume_failed_settles ends_connection keeps_end)+

subsection \<open>The handlers\<close>

lemma runs_backup:
  "fst (run_backup rt i schedule database server s) = Inr () \<and>
   execution_settled i (snd (run_backup rt i schedule database server s)) \<and> \<not> bst_conn (snd (run_backup rt i schedule database server s))"
proof -
  have insert: "returns (bind (job_now rt) (\<lambda>now. modify (f now)))" for f :: "int \<Rightarrow> BackupState \<Rightarrow> BackupState"
    by (intro returns_rules returns_now)
  have event: "returns (backup_event i j st)" for j st by (simp add: backup_event_def returns_rules)
  have last: "andThen m (pure ()) t = m t" for m :: "unit bact" and t
    by (simp add: andThen_def bind_def pure_def split: prod.split sum.split)
  show ?thesis
    unfolding run_backup_def seqs.simps last
    by (simp add: returns_left [OF returns_now(8)] returns_left [OF insert] returns_left [OF event] last backup_job.runs)
qed

lemma backup_runs:
  "backupDatabase rt i j s = (Inr (), s) \<or>
   (\<exists>schedule database server. backupDatabase rt i j s = run_backup rt i schedule database server s)"
  by (auto simp: backupDatabase_def find_row_def server_row_def whenA_def pure_def split: option.split)

lemma restore_runs:
  "fst (restoreDatabase rt i source s) = Inr () \<and> restore_settled i (snd (restoreDatabase rt i source s)) \<and>
   \<not> (bst_conn (snd (restoreDatabase rt i source s)) \<and> \<not> bst_conn s)"
proof (cases "find (\<lambda>x. dbr_id x = i) (bst_restores s)")
  case None
  then have "\<forall>x \<in> set (bst_restores s). dbr_id x \<noteq> i" by (simp add: find_None_iff)
  with None show ?thesis
    by (auto simp: restoreDatabase_def find_row_def pure_def restore_settled_def)
next
  case (Some restore)
  have mark: "returns (bind (job_now rt) (\<lambda>now. set_restore i (f now)))" for f
    by (intro returns_rules returns_now)
  have unit: "fst (bind (job_now rt) (\<lambda>now. set_restore i (f now)) t) = Inr ()" for f t
    by (simp add: job_now_def set_restore_def modify_def)
  have failed: "ensures (restore_settled i) (bind (job_now rt) (\<lambda>now. set_restore i (\<lambda>x. x\<lparr>dbr_status := ExecutionFailed,
      dbr_finishedAt := Some now, dbr_log := l\<rparr>)))" for l
    by (intro ensures_bind settles_writes(2)) simp_all
  have gone: "restore_settled i (snd (bind (job_now rt) (\<lambda>now. set_restore i (\<lambda>x. x\<lparr>dbr_status := ExecutionFailed,
      dbr_finishedAt := Some now, dbr_log := l\<rparr>)) t))" for l t
    by (rule failed [unfolded ensures_def, rule_format, OF unit])
  have conn: "bst_conn (snd (bind (job_now rt) (\<lambda>now. set_restore i (f now)) t)) = bst_conn t" for f t
    by (simp add: job_now_def set_restore_def modify_def)
  have find: "bind (find_row rows P) k t = k (find P (rows t)) t" for rows P t and k :: "_ \<Rightarrow> unit bact"
    by (simp add: find_row_def)
  have server: "bind (case d of Some database \<Rightarrow> server_row (dbs_serverId database) | None \<Rightarrow> pure None) k t =
      k (case d of Some database \<Rightarrow> find (\<lambda>x. srv_id x = dbs_serverId database) (bst_servers t) | None \<Rightarrow> None) t"
    for d t and k :: "_ \<Rightarrow> unit bact"
    by (simp add: server_row_def find split: option.split)
  have fresh: "bst_conn (snd (fresh_locals s)) = False" by (simp add: fresh_locals_def modify_def)
  obtain d v t where run: "restoreDatabase rt i source s =
      (case (d, v) of
         (Some database, Some server) \<Rightarrow>
           finally_do (catch (restore_body rt i database server source) (restore_failed rt i database))
             (andThen (remove_temp rt) end_connection)
       | _ \<Rightarrow> bind (job_now rt) (\<lambda>now. set_restore i (\<lambda>x. x\<lparr>dbr_status := ExecutionFailed,
           dbr_finishedAt := Some now, dbr_log := ''the database or server no longer exists'' @ [LF]\<rparr>))) t"
    and "bst_conn t = False"
    by (rule that, unfold restoreDatabase_def find Some option.case returns_left [OF returns_now(8)] server returns_left [OF mark], rule refl)
      (simp only: conn fresh)
  show ?thesis
  proof (cases "d = None \<or> v = None")
    case True
    then have "restoreDatabase rt i source s = bind (job_now rt) (\<lambda>now. set_restore i (\<lambda>x. x\<lparr>dbr_status := ExecutionFailed,
           dbr_finishedAt := Some now, dbr_log := ''the database or server no longer exists'' @ [LF]\<rparr>)) t"
      unfolding run by (cases d; cases v) simp_all
    then show ?thesis using gone conn unit \<open>bst_conn t = False\<close> by simp
  next
    case False
    then show ?thesis using restore_job.runs [of rt i] unfolding run by auto
  qed
qed

lemma volume_runs:
  "fst (volumeBackup rt yaml i s) = Inr () \<and> archive_settled i (snd (volumeBackup rt yaml i s)) \<and>
   \<not> (bst_conn (snd (volumeBackup rt yaml i s)) \<and> \<not> bst_conn s)"
proof (cases "find (\<lambda>x. vbk_id x = i) (bst_archives s)")
  case None
  then have "\<forall>x \<in> set (bst_archives s). vbk_id x \<noteq> i" by (simp add: find_None_iff)
  with None show ?thesis
    by (auto simp: volumeBackup_def find_row_def pure_def archive_settled_def)
next
  case (Some row)
  then have i: "vbk_id row = i" by (auto simp: find_Some_iff)
  have mark: "returns (bind (job_now rt) (\<lambda>now. set_archive i (f now)))" for f
    by (intro returns_rules returns_now)
  have last: "andThen m (pure ()) t = m t" for m :: "unit bact" and t
    by (simp add: andThen_def bind_def pure_def split: prod.split sum.split)
  show ?thesis
    using Some i volume_job.runs [of rt yaml row]
    by (simp add: volumeBackup_def find_row_def returns_left [OF returns_now(8)] returns_left [OF mark] last)
qed

section \<open>What a step leaves in the trace\<close>

definition succeeds :: "outcome \<Rightarrow> bool" where
  "succeeds out = (case out of ExecRejected e \<Rightarrow> False | ExecClosed c chunks \<Rightarrow> default 0 c = 0)"

definition tacit :: "(string \<Rightarrow> unit bact) \<Rightarrow> bool" where
  "tacit say \<longleftrightarrow> (\<forall>t s. fst (say t s) = Inr () \<and> js_trace (snd (say t s)) = js_trace s)"

lemma tacit_logs: "tacit (restore_log i)" "tacit (archive_log i)"
  by (simp_all add: tacit_def restore_log_def archive_log_def append_log_def set_restore_def set_archive_def modify_def)

lemma tacit_left: "tacit say \<Longrightarrow> andThen (say t) k s = k (snd (say t s))"
  by (rule returns_left) (auto simp: tacit_def returns_def)

text \<open>One step is one command; without the right to fail it throws exactly when the command fails.\<close>

lemma run_labelled_trace:
  assumes "tacit say"
  shows "js_trace (snd (run_labelled rt say cmd label False s)) = js_trace s @ [Exec Target cmd (rt_exec rt (js_trace s) Target cmd)] \<and>
    (fst (run_labelled rt say cmd label False s) = Inr () \<longleftrightarrow> succeeds (rt_exec rt (js_trace s) Target cmd))"
proof -
  define s1 where "s1 = snd (say (colored ''36'' (''$ '' @ label)) s)"
  have tr: "js_trace s1 = js_trace s" using assms by (simp add: s1_def tacit_def)
  have step: "run_labelled rt say cmd label False s =
      bind (execStream rt Target cmd) (\<lambda>r.
        (let output = concat (map fst (snd r)) in
         andThen (whenA (trim output \<noteq> []) (say (if ends_with output [LF] then output else output @ [LF])))
           (whenA (fst r \<noteq> 0 \<and> \<not> False) (throw (dq label @ '' exited with code '' @ int_str (fst r)))))) s1"
    unfolding run_labelled_def s1_def by (rule tacit_left [OF assms])
  have maybe: "tacit (\<lambda>t. whenA b (say t))" for b
    using assms by (cases b) (simp_all add: tacit_def pure_def)
  have left: "andThen (whenA b (say t)) k u = k (snd (whenA b (say t) u))" and same: "js_trace (snd (whenA b (say t) u)) = js_trace u"
    for b t u and k :: "unit bact"
    using tacit_left [OF maybe [of b], of t k u] maybe [of b] by (auto simp: tacit_def)
  show ?thesis
  proof (cases "rt_exec rt (js_trace s) Target cmd")
    case (ExecRejected e)
    then show ?thesis unfolding step by (simp add: bind_def execStream_eval tr succeeds_def)
  next
    case (ExecClosed c chunks)
    then show ?thesis
      unfolding step by (cases "default 0 c = 0") (simp_all add: bind_def execStream_eval tr succeeds_def Let_def left same pure_def throw_def)
  qed
qed

definition ran :: "Runtime \<Rightarrow> effect list \<Rightarrow> string \<Rightarrow> effect list" where
  "ran rt tr cmd = tr @ [Exec Target cmd (rt_exec rt tr Target cmd)]"

definition passes :: "Runtime \<Rightarrow> effect list \<Rightarrow> string \<Rightarrow> bool" where
  "passes rt tr cmd = succeeds (rt_exec rt tr Target cmd)"

lemma run_labelled_ran:
  "tacit say \<Longrightarrow> js_trace (snd (run_labelled rt say cmd label False s)) = ran rt (js_trace s) cmd"
  "tacit say \<Longrightarrow> fst (run_labelled rt say cmd label False s) = Inr () \<longleftrightarrow> passes rt (js_trace s) cmd"
  by (simp_all add: run_labelled_trace ran_def passes_def)

lemma then_ran:
  fixes m k :: "unit bact"
  shows "js_trace (snd (andThen m k s)) = (if fst (m s) = Inr () then js_trace (snd (k (snd (m s)))) else js_trace (snd (m s)))"
    and "fst (andThen m k s) = Inr () \<longleftrightarrow> fst (m s) = Inr () \<and> fst (k (snd (m s))) = Inr ()"
  by (cases "m s"; cases "fst (m s)"; simp add: andThen_def bind_def)+

lemma finally_ran:
  fixes m f :: "unit bact"
  shows "snd (finally_do m f s) = snd (f (snd (m s)))"
    and "fst (finally_do m f s) = Inr () \<longleftrightarrow> fst (m s) = Inr () \<and> fst (f (snd (m s))) = Inr ()"
  by (cases "f (snd (m s))"; cases "fst (f (snd (m s)))"; simp add: finally_do_def case_prod_unfold)+

definition reaches :: "Runtime \<Rightarrow> effect list \<Rightarrow> string \<Rightarrow> bool" where
  "reaches rt tr cmd = (case rt_exec rt tr Target cmd of ExecRejected e \<Rightarrow> False | ExecClosed c chunks \<Rightarrow> True)"

lemma exec_quiet_ran:
  "js_trace (snd (exec_quiet rt Target cmd s)) = ran rt (js_trace s) cmd"
  "fst (exec_quiet rt Target cmd s) = Inr () \<longleftrightarrow> reaches rt (js_trace s) cmd"
  by (cases "rt_exec rt (js_trace s) Target cmd"; simp add: exec_quiet_def bind_def execStream_eval ran_def reaches_def pure_def)+

section \<open>Retention\<close>

abbreviation bytes_of :: "BackupExecution \<Rightarrow> int" where
  "bytes_of x \<equiv> default 0 (bex_sizeBytes x)"

lemma over_size_all:
  "limit < c \<Longrightarrow> \<forall>x \<in> set xs. 0 \<le> bytes_of x \<Longrightarrow> over_size limit c xs = map bex_id xs"
  by (induction xs arbitrary: c) (auto simp: Let_def)

lemma over_size_rest:
  "c \<le> limit \<Longrightarrow> \<forall>x \<in> set xs. 0 \<le> bytes_of x \<Longrightarrow> set (over_size limit c xs) \<subseteq> W \<Longrightarrow>
    c + sum_list (map bytes_of (filter (\<lambda>x. bex_id x \<notin> W) xs)) \<le> limit"
proof (induction xs arbitrary: c)
  case (Cons x xs)
  show ?case
  proof (cases "limit < c + bytes_of x")
    case True
    then have all: "over_size limit c (x # xs) = map bex_id (x # xs)"
      using over_size_all [OF True, of xs] Cons.prems(2) by (simp add: Let_def)
    have "bex_id y \<in> W" if "y \<in> set (x # xs)" for y
      using Cons.prems(3) that unfolding all by auto
    then have "filter (\<lambda>y. bex_id y \<notin> W) (x # xs) = []" by (simp add: filter_empty_conv)
    with Cons.prems(1) show ?thesis by (simp only: list.map sum_list.Nil)
  next
    case False
    with Cons.IH [of "c + bytes_of x"] Cons.prems show ?thesis by (auto simp: Let_def add.assoc)
  qed
qed simp

lemma deleted_executions:
  "fst (seqs (map (delete_execution rt) ys) s) = Inr () \<Longrightarrow>
    bst_executions (snd (seqs (map (delete_execution rt) ys) s)) = filter (\<lambda>x. bex_id x \<notin> bex_id ` set ys) (bst_executions s)"
proof (induction ys arbitrary: s)
  case (Cons y ys)
  let ?first = "if str_truthy (bex_filePath y) \<and> str_truthy (bex_s3StorageId y) then
         bind (storage_row (the (bex_s3StorageId y))) (\<lambda>found.
           case found of
             Some storage \<Rightarrow> bind (s3_delete rt (s3_id storage) (the (bex_filePath y))) (\<lambda>_. pure ())
           | None \<Rightarrow> pure ())
       else whenA (str_truthy (bex_filePath y)) (removeRemoteFile Target (the (bex_filePath y)))"
  have "keeps (\<lambda>t. bst_executions t = bst_executions s) ?first"
    unfolding storage_row_def find_row_def by (intro keeps_rules keeps_calls) (simp_all add: trace_only_def)
  then have same: "bst_executions (snd (?first s)) = bst_executions s" by (simp add: keeps_def)
  have ok: "fst (delete_execution rt y s) = Inr ()"
    and rest: "fst (seqs (map (delete_execution rt) ys) (snd (delete_execution rt y s))) = Inr ()"
    using Cons.prems by (simp_all add: then_ran)
  have "bst_executions (snd (delete_execution rt y s)) = filter (\<lambda>x. bex_id x \<noteq> bex_id y) (bst_executions s)"
    using ok same unfolding delete_execution_def
    by (cases "?first s"; cases "fst (?first s)") (simp_all add: andThen_def bind_def modify_def)
  moreover have "snd (seqs (map (delete_execution rt) (y # ys)) s) = snd (seqs (map (delete_execution rt) ys) (snd (delete_execution rt y s)))"
    using ok by (cases "delete_execution rt y s") (simp add: andThen_def bind_def)
  ultimately show ?case
    using Cons.IH [OF rest] by (auto simp: filter_filter intro: filter_cong)
qed (simp add: pure_def)

lemma mset_kept:
  assumes "fst (applyRetention rt schedule s) = Inr ()"
  defines "xs \<equiv> successful_executions (bsc_id schedule) (bst_executions s)"
  defines "V \<equiv> set (retention_victims schedule (rt_now rt (js_trace s)) xs)"
  shows "mset (successful_executions (bsc_id schedule) (bst_executions (snd (applyRetention rt schedule s)))) =
    mset (filter (\<lambda>x. bex_id x \<notin> V) xs)"
proof -
  let ?ys = "filter (\<lambda>x. bex_id x \<in> V) xs"
  have run: "applyRetention rt schedule s = seqs (map (delete_execution rt) ?ys) s"
    by (simp add: applyRetention_def job_now_def xs_def V_def Let_def)
  have "bst_executions (snd (applyRetention rt schedule s)) = filter (\<lambda>x. bex_id x \<notin> bex_id ` set ?ys) (bst_executions s)"
    using deleted_executions [of rt ?ys s] assms(1) unfolding run by simp
  then have "mset (successful_executions (bsc_id schedule) (bst_executions (snd (applyRetention rt schedule s)))) =
      filter_mset (\<lambda>x. bex_id x \<notin> bex_id ` set ?ys) (mset xs)"
    by (simp add: successful_executions_def xs_def filter_filter_mset conj_ac)
  also have "\<dots> = filter_mset (\<lambda>x. bex_id x \<notin> V) (mset xs)"
    by (rule filter_mset_cong) auto
  finally show ?thesis by (simp add: mset_filter)
qed

lemma kept_bounds:
  fixes schedule :: BackupSchedule and now :: int
  assumes "\<forall>x \<in> set xs. 0 \<le> bytes_of x"
  defines "V \<equiv> set (retention_victims schedule now xs)"
  defines "ys \<equiv> filter (\<lambda>x. bex_id x \<notin> V) xs"
  shows "bsc_retentionCount schedule > 0 \<Longrightarrow> length ys \<le> nat (bsc_retentionCount schedule)"
    and "bsc_retentionDays schedule > 0 \<Longrightarrow> x \<in> set ys \<Longrightarrow> now - bsc_retentionDays schedule * 24 * 60 * 60 * 1000 \<le> bex_createdAt x"
    and "bsc_retentionSizeGb schedule > 0 \<Longrightarrow> sum_list (map bytes_of ys) \<le> bsc_retentionSizeGb schedule * 1024 * 1024 * 1024"
    and "bsc_retentionSizeGb schedule > 0 \<Longrightarrow> xs \<noteq> [] \<Longrightarrow> bytes_of (hd xs) > bsc_retentionSizeGb schedule * 1024 * 1024 * 1024 \<Longrightarrow>
      bex_id (hd xs) \<in> V"
proof -
  let ?n = "nat (bsc_retentionCount schedule)"
  assume "bsc_retentionCount schedule > 0"
  then have "bex_id x \<in> V" if "x \<in> set (drop ?n xs)" for x
    using that by (auto simp: V_def retention_victims_def)
  then have "filter (\<lambda>x. bex_id x \<notin> V) (drop ?n xs) = []" by (simp add: filter_empty_conv)
  then have "ys = filter (\<lambda>x. bex_id x \<notin> V) (take ?n xs)"
    unfolding ys_def by (metis append_Nil2 append_take_drop_id filter_append)
  then have "length ys \<le> length (take ?n xs)" by (metis length_filter_le)
  then show "length ys \<le> ?n" by simp
next
  assume "bsc_retentionDays schedule > 0" "x \<in> set ys"
  then show "now - bsc_retentionDays schedule * 24 * 60 * 60 * 1000 \<le> bex_createdAt x"
    by (auto simp: ys_def V_def retention_victims_def image_iff not_less)
next
  assume "bsc_retentionSizeGb schedule > 0"
  then have "set (over_size (bsc_retentionSizeGb schedule * 1024 * 1024 * 1024) 0 xs) \<subseteq> V"
    and "0 \<le> bsc_retentionSizeGb schedule * 1024 * 1024 * 1024"
    by (auto simp: V_def retention_victims_def)
  then show "sum_list (map bytes_of ys) \<le> bsc_retentionSizeGb schedule * 1024 * 1024 * 1024"
    using over_size_rest [of 0 _ xs V] assms(1) unfolding ys_def by simp
next
  assume "bsc_retentionSizeGb schedule > 0" "xs \<noteq> []" "bytes_of (hd xs) > bsc_retentionSizeGb schedule * 1024 * 1024 * 1024"
  then show "bex_id (hd xs) \<in> V"
    by (cases xs) (auto simp: V_def retention_victims_def Let_def)
qed

section \<open>Properties\<close>

text \<open>
  C17: the backup jobs always settle. Whatever the server, the storage and the commands do, the three handlers
  return without throwing and leave no connection open that they opened; the execution a scheduled backup
  created, the restore and the archive a job was started for are afterwards either successful or failed,
  never running (a backup's own retention may have removed the row).
\<close>

theorem backup_jobs_settle:
  "fst (backupDatabase rt e j s) = Inr () \<and> fst (restoreDatabase rt r source s) = Inr () \<and> fst (volumeBackup rt yaml a s) = Inr () \<and>
   bex_status ` {x \<in> set (bst_executions (snd (backupDatabase rt e j s))). bex_id x = e} \<subseteq>
     {ExecutionSuccess, ExecutionFailed} \<union> bex_status ` {x \<in> set (bst_executions s). bex_id x = e} \<and>
   dbr_status ` {x \<in> set (bst_restores (snd (restoreDatabase rt r source s))). dbr_id x = r} \<subseteq> {ExecutionSuccess, ExecutionFailed} \<and>
   vbk_status ` {x \<in> set (bst_archives (snd (volumeBackup rt yaml a s))). vbk_id x = a} \<subseteq> {ExecutionSuccess, ExecutionFailed} \<and>
   \<not> (bst_conn (snd (backupDatabase rt e j s)) \<and> \<not> bst_conn s) \<and> \<not> (bst_conn (snd (restoreDatabase rt r source s)) \<and> \<not> bst_conn s) \<and>
   \<not> (bst_conn (snd (volumeBackup rt yaml a s)) \<and> \<not> bst_conn s)"
proof -
  have "fst (backupDatabase rt e j s) = Inr () \<and>
      bex_status ` {x \<in> set (bst_executions (snd (backupDatabase rt e j s))). bex_id x = e} \<subseteq>
        {ExecutionSuccess, ExecutionFailed} \<union> bex_status ` {x \<in> set (bst_executions s). bex_id x = e} \<and>
      \<not> (bst_conn (snd (backupDatabase rt e j s)) \<and> \<not> bst_conn s)"
    using backup_runs [of rt e j s]
  proof (elim disjE exE)
    fix schedule database server
    assume "backupDatabase rt e j s = run_backup rt e schedule database server s"
    with runs_backup [of rt e schedule database server s] show ?thesis by (auto simp: execution_settled_def)
  qed auto
  then show ?thesis
    using restore_runs [of rt r source s] volume_runs [of rt yaml a s]
    by (auto simp: restore_settled_def archive_settled_def)
qed

text \<open>
  Restoring an archive always starts the owner again. Once the command that stops the owner of a volume has
  passed, the start command runs whatever happens to the replacement, and after it; if stopping fails, nothing
  else is touched. A staged copy is removed in every case, and the restore counts as done exactly when all
  of its commands passed.
\<close>

theorem volume_restore_restarts:
  "let t0 = js_trace s; t1 = ran rt t0 (rc_stop commands); t2 = ran rt t1 (rc_replace commands); t3 = ran rt t2 (rc_start commands);
       end_trace = (if passes rt t0 (rc_stop commands) then t3 else t1)
   in js_trace (snd (replace_volume rt row target commands staged s)) =
        (case staged of None \<Rightarrow> end_trace | Some path \<Rightarrow> ran rt end_trace (''rm -f '' @ shellQuote path)) \<and>
      (fst (replace_volume rt row target commands staged s) = Inr () \<longleftrightarrow>
        passes rt t0 (rc_stop commands) \<and> passes rt t1 (rc_replace commands) \<and> passes rt t2 (rc_start commands) \<and>
        (case staged of None \<Rightarrow> True | Some path \<Rightarrow> reaches rt end_trace (''rm -f '' @ shellQuote path)))"
  by (cases staged)
    (auto simp: replace_volume_def Let_def finally_ran then_ran run_labelled_ran [OF tacit_logs(2)] exec_quiet_ran pure_def)


text \<open>
  C18: retention enforces every limit of the schedule. When the retention of a schedule returns, its remaining
  successful executions are at most the retained number, none is older than the retained days, and together
  they are no larger than the retained size. The limits hold for the newest execution too: the victims
  include the backup just made whenever it alone is larger than the size limit.
\<close>

theorem retention_bounds:
  assumes "fst (applyRetention rt schedule s) = Inr ()"
    and "\<forall>x \<in> set (bst_executions s). 0 \<le> bytes_of x"
  defines "now \<equiv> rt_now rt (js_trace s)"
    and "before \<equiv> successful_executions (bsc_id schedule) (bst_executions s)"
    and "kept \<equiv> successful_executions (bsc_id schedule) (bst_executions (snd (applyRetention rt schedule s)))"
  shows "(bsc_retentionCount schedule > 0 \<longrightarrow> length kept \<le> nat (bsc_retentionCount schedule)) \<and>
    (bsc_retentionDays schedule > 0 \<longrightarrow> (\<forall>x \<in> set kept. now - bsc_retentionDays schedule * 24 * 60 * 60 * 1000 \<le> bex_createdAt x)) \<and>
    (bsc_retentionSizeGb schedule > 0 \<longrightarrow> sum_list (map bytes_of kept) \<le> bsc_retentionSizeGb schedule * 1024 * 1024 * 1024) \<and>
    (bsc_retentionSizeGb schedule > 0 \<and> before \<noteq> [] \<and> bytes_of (hd before) > bsc_retentionSizeGb schedule * 1024 * 1024 * 1024 \<longrightarrow>
      bex_id (hd before) \<in> set (retention_victims schedule now before))"
proof -
  let ?ys = "filter (\<lambda>x. bex_id x \<notin> set (retention_victims schedule now before)) before"
  have kept: "mset kept = mset ?ys"
    using mset_kept [OF assms(1)] by (simp add: kept_def before_def now_def)
  have sizes: "\<forall>x \<in> set before. 0 \<le> bytes_of x"
    using assms(2) by (auto simp: before_def successful_executions_def)
  have len: "length kept = length ?ys" and set: "set kept = set ?ys" using kept by (metis size_mset, metis set_mset_mset)
  have "sum_mset (image_mset bytes_of (mset kept)) = sum_mset (image_mset bytes_of (mset ?ys))" by (simp only: kept)
  then have sum: "sum_list (map bytes_of kept) = sum_list (map bytes_of ?ys)"
    by (simp only: mset_map [symmetric] sum_mset_sum_list)
  note bounds = kept_bounds [OF sizes, where schedule = schedule and now = now]
  show ?thesis
    unfolding len sum set
    by (intro conjI impI ballI; (elim conjE)?) (rule bounds(1) bounds(2) bounds(3) bounds(4); assumption)+
qed

text \<open>Three stored backups of 2, 1 and 4 gigabytes, of which a schedule keeps two.\<close>

definition demo_executions :: "BackupExecution list" where
  "demo_executions = map (\<lambda>(i, t, gb). (new_backupExecution i t ''p1'')
     \<lparr>bex_status := ExecutionSuccess, bex_filePath := Some (''/b/'' @ i), bex_sizeBytes := Some (gb * 1073741824)\<rparr>)
     [(''e1'', 10, 2), (''e2'', 20, 1), (''e3'', 30, 4)]"

definition demo_state :: BackupState where
  "demo_state = \<lparr>js_trace = [], js_log = [], bst_schedules = [], bst_databases = [], bst_servers = [], bst_storages = [],
     bst_applications = [], bst_volumes = [], bst_services = [], bst_executions = demo_executions, bst_restores = [],
     bst_archives = [], bst_conn = True, bst_tempFile = None\<rparr>"

definition demo_schedule :: BackupSchedule where
  "demo_schedule = (new_backupSchedule ''p1'' 0 ''d1'' ''0 0 * * *'')\<lparr>bsc_retentionCount := 2\<rparr>"

theorem retention_bounds_witness:
  "bsc_retentionCount demo_schedule > 0 \<and>
   map bex_id (successful_executions (bsc_id demo_schedule) (bst_executions (snd (applyRetention calm demo_schedule demo_state)))) = [''e3'', ''e2''] \<and>
   length (successful_executions (bsc_id demo_schedule) (bst_executions (snd (applyRetention calm demo_schedule demo_state)))) \<le> 2"
proof -
  have ok: "fst (applyRetention calm demo_schedule demo_state) = Inr ()" by code_simp
  have sizes: "\<forall>x \<in> set (bst_executions demo_state). 0 \<le> bytes_of x" by code_simp
  have count: "bsc_retentionCount demo_schedule = 2" by code_simp
  have "map bex_id (successful_executions (bsc_id demo_schedule) (bst_executions (snd (applyRetention calm demo_schedule demo_state)))) = [''e3'', ''e2'']"
    by code_simp
  with retention_bounds [OF ok sizes] count show ?thesis by simp
qed

end
