(* ===== verification/Gates.thy ===== *)
theory Gates
  imports Prelude
begin

text \<open>
  The gates that hold events back: the circuit breaker and the throttle of the worker
  (apps/worker/src/lib/circuitBreaker.ts and throttle.ts), and the rate limiter and the one-shot
  challenges of the API (apps/api/src/lib/rateLimit.ts and webauthnChallenges.ts). Each keeps a map from
  keys; times are milliseconds, passed in as the code's \<open>now\<close>. Each is compared with a specification on
  the history of its calls, which knows nothing of the map.
\<close>

section \<open>Circuit breaker\<close>

record BreakerOptions =
  br_threshold :: int
  br_baseCooldownMs :: int
  br_maxCooldownMs :: int

record BreakerState =
  bs_failures :: int
  bs_openUntil :: int

datatype BreakerTransition = Opened | Closed

type_synonym breaker = "string \<rightharpoonup> BreakerState"

definition shouldAttempt :: "breaker \<Rightarrow> string \<Rightarrow> int \<Rightarrow> bool" where
  "shouldAttempt states key now = (case states key of None \<Rightarrow> True | Some state \<Rightarrow> bs_openUntil state \<le> now)"

definition recordSuccess :: "BreakerOptions \<Rightarrow> breaker \<Rightarrow> string \<Rightarrow> BreakerTransition option \<times> breaker" where
  "recordSuccess options states key =
    ((case states key of
        Some state \<Rightarrow> if br_threshold options \<le> bs_failures state then Some Closed else None
      | None \<Rightarrow> None),
     states(key := None))"

definition recordFailure ::
  "BreakerOptions \<Rightarrow> breaker \<Rightarrow> string \<Rightarrow> int \<Rightarrow> BreakerTransition option \<times> breaker" where
  "recordFailure options states key now =
    (let state = default \<lparr>bs_failures = 0, bs_openUntil = 0\<rparr> (states key);
         wasOpen = br_threshold options \<le> bs_failures state;
         failures = bs_failures state + 1;
         state' = (if br_threshold options \<le> failures
           then \<lparr>bs_failures = failures,
                 bs_openUntil = now + min (br_baseCooldownMs options * 2 ^ nat (failures - br_threshold options))
                                          (br_maxCooldownMs options)\<rparr>
           else state\<lparr>bs_failures := failures\<rparr>)
     in (if \<not> wasOpen \<and> br_threshold options \<le> failures then Some Opened else None, states(key \<mapsto> state')))"

definition reset :: "breaker \<Rightarrow> string \<Rightarrow> breaker" where
  "reset states key = states(key := None)"

section \<open>Throttle\<close>

definition allow :: "int \<Rightarrow> (string \<rightharpoonup> int) \<Rightarrow> string \<Rightarrow> int \<Rightarrow> bool \<times> (string \<rightharpoonup> int)" where
  "allow windowMs last_seen key t =
    (case last_seen key of
       Some previous \<Rightarrow> if t - previous < windowMs then (False, last_seen) else (True, last_seen(key \<mapsto> t))
     | None \<Rightarrow> (True, last_seen(key \<mapsto> t)))"

section \<open>Rate limiter\<close>

record RateRule =
  rr_name :: string
  rr_limit :: int
  rr_windowMs :: int

record RateResult =
  rs_allowed :: bool
  rs_remaining :: int
  rs_retryAfterSec :: int

record Bucket =
  bk_count :: int
  bk_resetAt :: int

record RateLimiter =
  rl_buckets :: "string \<rightharpoonup> Bucket"
  rl_sinceSweep :: int

text \<open>Dropping the entries of a map that have expired.\<close>

definition sweep_map :: "('v \<Rightarrow> bool) \<Rightarrow> ('k \<rightharpoonup> 'v) \<Rightarrow> 'k \<rightharpoonup> 'v" where
  "sweep_map expired m = (\<lambda>k. case m k of Some v \<Rightarrow> if expired v then None else Some v | None \<Rightarrow> None)"

definition bucket_over :: "int \<Rightarrow> Bucket \<Rightarrow> bool" where
  "bucket_over now b \<longleftrightarrow> bk_resetAt b \<le> now"

definition sweep :: "int \<Rightarrow> RateLimiter \<Rightarrow> RateLimiter" where
  "sweep now l = \<lparr>rl_buckets = sweep_map (bucket_over now) (rl_buckets l), rl_sinceSweep = 0\<rparr>"

definition bucket_id :: "RateRule \<Rightarrow> string \<Rightarrow> string" where
  "bucket_id rule key = rr_name rule @ '':'' @ key"

definition current_bucket :: "RateRule \<Rightarrow> int \<Rightarrow> Bucket option \<Rightarrow> Bucket" where
  "current_bucket rule now b =
    (case b of
       Some bucket \<Rightarrow> if bucket_over now bucket then \<lparr>bk_count = 0, bk_resetAt = now + rr_windowMs rule\<rparr> else bucket
     | None \<Rightarrow> \<lparr>bk_count = 0, bk_resetAt = now + rr_windowMs rule\<rparr>)"

definition rate_result :: "RateRule \<Rightarrow> int \<Rightarrow> Bucket \<Rightarrow> RateResult" where
  "rate_result rule now bucket =
    (let allowed = bk_count bucket \<le> rr_limit rule in
     \<lparr>rs_allowed = allowed,
      rs_remaining = max 0 (rr_limit rule - bk_count bucket),
      rs_retryAfterSec = (if allowed then 0 else max 1 ((bk_resetAt bucket - now + 999) div 1000))\<rparr>)"

definition hit :: "string \<Rightarrow> RateRule \<Rightarrow> int \<Rightarrow> RateLimiter \<Rightarrow> RateResult \<times> RateLimiter" where
  "hit key rule now l =
    (let l1 = l\<lparr>rl_sinceSweep := rl_sinceSweep l + 1\<rparr>;
         l2 = (if 500 \<le> rl_sinceSweep l1 then sweep now l1 else l1);
         i = bucket_id rule key;
         bucket = current_bucket rule now (rl_buckets l2 i);
         bucket' = bucket\<lparr>bk_count := bk_count bucket + 1\<rparr>
     in (rate_result rule now bucket', l2\<lparr>rl_buckets := (rl_buckets l2)(i \<mapsto> bucket')\<rparr>))"

definition AUTH_RULE :: RateRule where
  "AUTH_RULE = \<lparr>rr_name = ''auth'', rr_limit = 10, rr_windowMs = 5 * 60000\<rparr>"

definition WEBHOOK_RULE :: RateRule where
  "WEBHOOK_RULE = \<lparr>rr_name = ''webhook'', rr_limit = 600, rr_windowMs = 60000\<rparr>"

definition WRITE_RULE :: RateRule where
  "WRITE_RULE = \<lparr>rr_name = ''write'', rr_limit = 120, rr_windowMs = 60000\<rparr>"

definition ruleFor :: "string \<Rightarrow> string \<Rightarrow> RateRule option" where
  "ruleFor meth pathname =
    (if meth = ''POST'' \<and>
        (ends_with pathname ''/auth/login'' \<or> ends_with pathname ''/auth/passkeys/login/verify'' \<or>
         ends_with pathname ''/auth/passkeys/login/options'' \<or> ends_with pathname ''/auth/register'' \<or>
         ends_with pathname ''/auth/2fa/disable'') then Some AUTH_RULE
     else if meth = ''POST'' \<and> ends_with pathname ''/webhooks/github'' then Some WEBHOOK_RULE
     else if meth \<in> {''POST'', ''PUT'', ''PATCH'', ''DELETE''} then Some WRITE_RULE
     else None)"

definition clientIp :: "string option \<Rightarrow> string option \<Rightarrow> string" where
  "clientIp realIp fallback =
    (let ip = (case realIp of Some h \<Rightarrow> trim h | None \<Rightarrow> []) in
     if ip \<noteq> [] then ip else if str_truthy fallback then the fallback else ''unknown'')"

section \<open>One-shot challenges\<close>

definition TTL_MS :: int where
  "TTL_MS = 5 * 60 * 1000"

record Challenge =
  ch_challenge :: string
  ch_expires :: int

type_synonym challenges = "string \<rightharpoonup> Challenge"

definition challenge_over :: "int \<Rightarrow> Challenge \<Rightarrow> bool" where
  "challenge_over t c \<longleftrightarrow> ch_expires c < t"

definition put :: "string \<Rightarrow> string \<Rightarrow> int \<Rightarrow> challenges \<Rightarrow> challenges" where
  "put key challenge t m =
    (sweep_map (challenge_over t) m)(key \<mapsto> \<lparr>ch_challenge = challenge, ch_expires = t + TTL_MS\<rparr>)"

definition take_challenge :: "string \<Rightarrow> int \<Rightarrow> challenges \<Rightarrow> string option \<times> challenges" where
  "take_challenge key t m =
    ((case m key of None \<Rightarrow> None | Some entry \<Rightarrow> if challenge_over t entry then None else Some (ch_challenge entry)),
     m(key := None))"

section \<open>Maps whose entries expire\<close>

text \<open>
  \<open>forgets t a b\<close>: the entry \<open>a\<close> of a swept map stands for the entry \<open>b\<close> of one that is never swept.
  When entries only expire with time, nothing that looks at live entries can tell them apart.
\<close>

definition live :: "('v \<Rightarrow> bool) \<Rightarrow> 'v option \<Rightarrow> 'v option" where
  "live expired v = (case v of Some x \<Rightarrow> if expired x then None else Some x | None \<Rightarrow> None)"

lemma live_simps [simp]: "live ex None = None" "live ex (Some x) = (if ex x then None else Some x)"
  by (simp_all add: live_def)

lemma sweep_map_live: "sweep_map ex m k = live ex (m k)"
  by (simp add: sweep_map_def live_def)

locale expiring =
  fixes expired :: "int \<Rightarrow> 'v \<Rightarrow> bool"
  assumes expired_later: "expired t v \<Longrightarrow> t \<le> t' \<Longrightarrow> expired t' v"
begin

definition forgets :: "int \<Rightarrow> 'v option \<Rightarrow> 'v option \<Rightarrow> bool" where
  "forgets t a b \<longleftrightarrow> a = b \<or> a = None \<and> live (expired t) b = None"

lemma forgets_refl [simp]: "forgets t a a"
  by (simp add: forgets_def)

lemma live_None_later: "live (expired t) b = None \<Longrightarrow> t \<le> t' \<Longrightarrow> live (expired t') b = None"
  using expired_later by (cases b) (auto split: if_splits)

lemma forgets_later: "forgets t a b \<Longrightarrow> t \<le> t' \<Longrightarrow> forgets t' a b"
  using live_None_later by (auto simp: forgets_def)

lemma forgets_sweep: "forgets t a b \<Longrightarrow> forgets t (live (expired t) a) b"
  by (cases a) (auto simp: forgets_def split: if_splits)

lemma forgets_live: "forgets t a b \<Longrightarrow> live (expired t) a = live (expired t) b"
  by (auto simp: forgets_def)

end

interpretation buckets: expiring bucket_over
  by unfold_locales (simp add: bucket_over_def)

interpretation challenges: expiring challenge_over
  by unfold_locales (simp add: challenge_over_def)

section \<open>The breaker against the streak of failures\<close>

datatype breaker_event = Success string | Failure string int | Reset string

text \<open>Histories have the newest event first.\<close>

fun breaker_step :: "BreakerOptions \<Rightarrow> breaker_event \<Rightarrow> breaker \<Rightarrow> BreakerTransition option \<times> breaker" where
  "breaker_step options (Success key) states = recordSuccess options states key"
| "breaker_step options (Failure key now) states = recordFailure options states key now"
| "breaker_step options (Reset key) states = (None, reset states key)"

fun breaker_after :: "BreakerOptions \<Rightarrow> breaker_event list \<Rightarrow> breaker" where
  "breaker_after options [] = Map.empty"
| "breaker_after options (e # es) = snd (breaker_step options e (breaker_after options es))"

fun streak :: "string \<Rightarrow> breaker_event list \<Rightarrow> nat" where
  "streak key [] = 0"
| "streak key (Success k # es) = (if k = key then 0 else streak key es)"
| "streak key (Failure k t # es) = (if k = key then Suc (streak key es) else streak key es)"
| "streak key (Reset k # es) = (if k = key then 0 else streak key es)"

fun last_failure :: "string \<Rightarrow> breaker_event list \<Rightarrow> int" where
  "last_failure key (Failure k t # es) = (if k = key then t else last_failure key es)"
| "last_failure key (e # es) = last_failure key es"
| "last_failure key [] = 0"

definition cooldown :: "BreakerOptions \<Rightarrow> nat \<Rightarrow> int" where
  "cooldown options n =
    min (br_baseCooldownMs options * 2 ^ nat (int n - br_threshold options)) (br_maxCooldownMs options)"

definition expected_state :: "BreakerOptions \<Rightarrow> nat \<Rightarrow> int \<Rightarrow> BreakerState option" where
  "expected_state options n t =
    (if n = 0 then None
     else Some \<lparr>bs_failures = int n,
                bs_openUntil = (if br_threshold options \<le> int n then t + cooldown options n else 0)\<rparr>)"

lemma breaker_after_state: "breaker_after options es key = expected_state options (streak key es) (last_failure key es)"
proof (induction es)
  case (Cons e es)
  show ?case
  proof (cases e)
    case (Failure k t)
    show ?thesis
    proof (cases "k = key")
      case True
      then show ?thesis
        using Cons by (simp add: Failure recordFailure_def expected_state_def cooldown_def Let_def add.commute)
    qed (use Cons in \<open>simp add: Failure recordFailure_def Let_def\<close>)
  qed (use Cons in \<open>simp_all add: recordSuccess_def reset_def expected_state_def\<close>)
qed (simp add: expected_state_def)

text \<open>
  C11: the breaker keeps exactly what it promises. Whatever happened before, a server is skipped if and
  only if its last events were at least the threshold of consecutive failures and the cooldown since the
  last one, doubled for each further failure up to the cap, has not passed; a failure reports "opened" only when it
  completes the threshold, and a success reports "closed" only when it ends an open streak.
\<close>
theorem breaker_follows_streak:
  "(shouldAttempt (breaker_after options es) key now \<longleftrightarrow>
      streak key es = 0 \<or>
      (int (streak key es) < br_threshold options \<and> 0 \<le> now) \<or>
      (br_threshold options \<le> int (streak key es) \<and> last_failure key es + cooldown options (streak key es) \<le> now)) \<and>
    fst (recordFailure options (breaker_after options es) key now) =
      (if int (streak key es) + 1 = br_threshold options then Some Opened else None) \<and>
    fst (recordSuccess options (breaker_after options es) key) =
      (if streak key es \<noteq> 0 \<and> br_threshold options \<le> int (streak key es) then Some Closed else None)"
  by (auto simp: shouldAttempt_def recordFailure_def recordSuccess_def breaker_after_state expected_state_def Let_def)

section \<open>The throttle\<close>

fun allowed_times :: "int \<Rightarrow> string \<Rightarrow> (string \<times> int) list \<Rightarrow> int list \<times> (string \<rightharpoonup> int)" where
  "allowed_times w key [] = ([], Map.empty)"
| "allowed_times w key ((k, t) # es) =
    (let (ts, m) = allowed_times w key es; (ok, m') = allow w m k t in
     (if k = key \<and> ok then t # ts else ts, m'))"

lemma allowed_times_last: "snd (allowed_times w key es) key = (case fst (allowed_times w key es) of [] \<Rightarrow> None | t # ts \<Rightarrow> Some t)"
  by (induction w key es rule: allowed_times.induct)
    (auto simp: allow_def Let_def split: prod.splits option.splits list.splits if_splits)

text \<open>
  A flapping condition is no flood. Of the events of one key that the throttle lets through, each
  comes at least the window after the one before it, and no event is held back without one let through
  less than the window before.
\<close>
theorem throttle_spaces_events:
  "successively (\<lambda>later earlier. w \<le> later - earlier) (fst (allowed_times w key es)) \<and>
   (fst (allow w (snd (allowed_times w key es)) key t) \<longleftrightarrow>
     (case fst (allowed_times w key es) of [] \<Rightarrow> True | previous # _ \<Rightarrow> w \<le> t - previous))"
proof -
  have "successively (\<lambda>later earlier. w \<le> later - earlier) (fst (allowed_times w key es))"
  proof (induction w key es rule: allowed_times.induct)
    case (2 w key k t es)
    then show ?case
      using allowed_times_last [of w key es]
      by (cases "fst (allowed_times w key es)") (auto simp: Let_def allow_def split: prod.splits option.splits if_splits)
  qed simp
  then show ?thesis
    using allowed_times_last [of w key es] by (auto simp: allow_def split: list.split)
qed

section \<open>The rate limiter against one window per client\<close>

text \<open>Hits as (client, rule, time), oldest first.\<close>

type_synonym rate_hit = "string \<times> RateRule \<times> int"

fun hits :: "rate_hit list \<Rightarrow> RateLimiter \<Rightarrow> RateResult list" where
  "hits [] l = []"
| "hits ((key, rule, now) # hs) l = (case hit key rule now l of (r, l') \<Rightarrow> r # hits hs l')"

fun window :: "(RateRule \<times> int) list \<Rightarrow> Bucket option \<Rightarrow> RateResult list" where
  "window [] b = []"
| "window ((rule, now) # hs) b =
    (let bucket = current_bucket rule now b; bucket' = bucket\<lparr>bk_count := bk_count bucket + 1\<rparr> in
     rate_result rule now bucket' # window hs (Some bucket'))"

fun hit_id :: "rate_hit \<Rightarrow> string" where
  "hit_id (key, rule, now) = bucket_id rule key"

definition fresh :: RateLimiter where
  "fresh = \<lparr>rl_buckets = Map.empty, rl_sinceSweep = 0\<rparr>"

definition results_of :: "string \<Rightarrow> rate_hit list \<Rightarrow> RateLimiter \<Rightarrow> RateResult list" where
  "results_of i hs l = map snd (filter (\<lambda>(h, r). hit_id h = i) (zip hs (hits hs l)))"

lemma results_of_Cons:
  "results_of i ((key, rule, now) # hs) l =
    (case hit key rule now l of (r, l') \<Rightarrow>
      if bucket_id rule key = i then r # results_of i hs l' else results_of i hs l')"
  by (simp add: results_of_def split: prod.split)

lemma current_bucket_live: "live (bucket_over now) b = live (bucket_over now) b' \<Longrightarrow> current_bucket rule now b = current_bucket rule now b'"
  by (auto simp: current_bucket_def live_def split: option.splits if_splits)

lemma hit_buckets:
  assumes "buckets.forgets now (rl_buckets l i) b"
  shows "buckets.forgets now (rl_buckets (snd (hit key rule now l)) i)
    (if bucket_id rule key = i then
      Some ((current_bucket rule now b)\<lparr>bk_count := bk_count (current_bucket rule now b) + 1\<rparr>) else b)"
    and "bucket_id rule key = i \<Longrightarrow> fst (hit key rule now l) =
      rate_result rule now ((current_bucket rule now b)\<lparr>bk_count := bk_count (current_bucket rule now b) + 1\<rparr>)"
proof -
  define l2 where "l2 = (if 500 \<le> rl_sinceSweep l + 1 then sweep now (l\<lparr>rl_sinceSweep := rl_sinceSweep l + 1\<rparr>)
    else l\<lparr>rl_sinceSweep := rl_sinceSweep l + 1\<rparr>)"
  have kept: "buckets.forgets now (rl_buckets l2 i) b"
    using assms buckets.forgets_sweep by (simp add: l2_def sweep_def sweep_map_live)
  then have same: "current_bucket rule now (rl_buckets l2 i) = current_bucket rule now b"
    by (intro current_bucket_live buckets.forgets_live)
  from kept same show "buckets.forgets now (rl_buckets (snd (hit key rule now l)) i)
    (if bucket_id rule key = i then
      Some ((current_bucket rule now b)\<lparr>bk_count := bk_count (current_bucket rule now b) + 1\<rparr>) else b)"
    by (auto simp: hit_def Let_def l2_def)
  from same show "bucket_id rule key = i \<Longrightarrow> fst (hit key rule now l) =
      rate_result rule now ((current_bucket rule now b)\<lparr>bk_count := bk_count (current_bucket rule now b) + 1\<rparr>)"
    by (auto simp: hit_def Let_def l2_def)
qed

definition hits_of :: "string \<Rightarrow> rate_hit list \<Rightarrow> (RateRule \<times> int) list" where
  "hits_of i hs = map snd (filter (\<lambda>h. hit_id h = i) hs)"

lemma results_window:
  "sorted (t # map (snd \<circ> snd) hs) \<Longrightarrow> buckets.forgets t (rl_buckets l i) b \<Longrightarrow>
    results_of i hs l = window (hits_of i hs) b"
proof (induction hs arbitrary: t l b)
  case (Cons h hs)
  obtain key rule now where h: "h = (key, rule, now)" by (cases h)
  have b: "buckets.forgets now (rl_buckets l i) b"
    using Cons.prems buckets.forgets_later [of t] by (simp add: h)
  have rest: "sorted (now # map (snd \<circ> snd) hs)"
    using Cons.prems(1) by (simp add: h comp_def)
  show ?case
    using Cons.IH [OF rest hit_buckets(1) [OF b, of key rule]] hit_buckets(2) [OF b, of rule key]
    by (cases "hit key rule now l") (simp add: h results_of_Cons hits_of_def Let_def)
qed (simp add: results_of_def hits_of_def)

text \<open>
  C12: sweeping is invisible and clients do not disturb each other. As long as the clock does not go
  back, what the limiter answers to one client under one rule is what a single fixed window counting
  only that client's hits answers, whatever the other clients do and whenever the sweeps happen.
\<close>
theorem rate_limiter_refines_windows:
  assumes "sorted (map (snd \<circ> snd) hs)"
  shows "results_of i hs fresh = window (hits_of i hs) None"
proof (cases hs)
  case (Cons h hs')
  then show ?thesis
    using assms results_window [of "snd (snd h)" hs fresh i None] by (simp add: fresh_def)
qed (simp add: results_of_def hits_of_def)

theorem rate_limiter_refines_windows_witness:
  "results_of ''auth:1.2.3.4'' [(''1.2.3.4'', AUTH_RULE, 0), (''5.6.7.8'', AUTH_RULE, 5), (''1.2.3.4'', AUTH_RULE, 9)] fresh =
    window [(AUTH_RULE, 0), (AUTH_RULE, 9)] None"
  using rate_limiter_refines_windows
    [of "[(''1.2.3.4'', AUTH_RULE, 0), (''5.6.7.8'', AUTH_RULE, 5), (''1.2.3.4'', AUTH_RULE, 9)]" "''auth:1.2.3.4''"]
  by (simp add: hits_of_def bucket_id_def AUTH_RULE_def)

lemma window_allowed:
  "(\<forall>t \<in> set ts. t < bk_resetAt b) \<Longrightarrow>
    map rs_allowed (window (map (Pair rule) ts) (Some b)) =
      map (\<lambda>k. bk_count b + int k + 1 \<le> rr_limit rule) [0..<length ts]"
proof (induction ts arbitrary: b)
  case (Cons t ts)
  have "map rs_allowed (window (map (Pair rule) ts) (Some (b\<lparr>bk_count := bk_count b + 1\<rparr>))) =
      map (\<lambda>k. bk_count b + 1 + int k + 1 \<le> rr_limit rule) [0..<length ts]"
    using Cons.IH [of "b\<lparr>bk_count := bk_count b + 1\<rparr>"] Cons.prems by simp
  then show ?case
    using Cons.prems
    by (simp add: current_bucket_def bucket_over_def Let_def rate_result_def map_upt_Suc algebra_simps
        del: upt_Suc)
qed simp

text \<open>
  Nobody gets more than the limit. Of the hits of one client under one rule within the window that
  its first hit opens, exactly the first ones up to the limit are allowed, whatever else arrives in between.
\<close>
theorem rate_limit_budget:
  assumes "sorted (map (snd \<circ> snd) hs)" and "hits_of i hs = (rule, t) # map (Pair rule) ts"
    and "\<forall>t' \<in> set ts. t' < t + rr_windowMs rule"
  shows "map rs_allowed (results_of i hs fresh) = map (\<lambda>k. int k + 1 \<le> rr_limit rule) [0..<Suc (length ts)]"
proof -
  have "results_of i hs fresh = window ((rule, t) # map (Pair rule) ts) None"
    using results_window [of "Min (insert 0 (set (map (snd \<circ> snd) hs)))" hs fresh i None] assms(1,2)
    by (simp add: fresh_def)
  moreover have "map rs_allowed (window (map (Pair rule) ts) (Some \<lparr>bk_count = 1, bk_resetAt = t + rr_windowMs rule\<rparr>)) =
      map (\<lambda>k. 1 + int k + 1 \<le> rr_limit rule) [0..<length ts]"
    using window_allowed [of ts "\<lparr>bk_count = 1, bk_resetAt = t + rr_windowMs rule\<rparr>" rule] assms(3) by simp
  ultimately show ?thesis
    by (simp add: current_bucket_def Let_def rate_result_def map_upt_Suc algebra_simps del: upt_Suc)
qed

theorem rate_limit_budget_witness:
  "map rs_allowed (results_of ''r:a'' [(''a'', \<lparr>rr_name = ''r'', rr_limit = 2, rr_windowMs = 100\<rparr>, 0),
      (''b'', AUTH_RULE, 5), (''a'', \<lparr>rr_name = ''r'', rr_limit = 2, rr_windowMs = 100\<rparr>, 9),
      (''a'', \<lparr>rr_name = ''r'', rr_limit = 2, rr_windowMs = 100\<rparr>, 99)] fresh) = [True, True, False]"
  using rate_limit_budget [of "[(''a'', \<lparr>rr_name = ''r'', rr_limit = 2, rr_windowMs = 100\<rparr>, 0),
      (''b'', AUTH_RULE, 5), (''a'', \<lparr>rr_name = ''r'', rr_limit = 2, rr_windowMs = 100\<rparr>, 9),
      (''a'', \<lparr>rr_name = ''r'', rr_limit = 2, rr_windowMs = 100\<rparr>, 99)]" "''r:a''"
      "\<lparr>rr_name = ''r'', rr_limit = 2, rr_windowMs = 100\<rparr>" 0 "[9, 99]"]
  by (simp add: hits_of_def bucket_id_def AUTH_RULE_def upt_rec)

section \<open>Challenges are answered once\<close>

datatype challenge_call = Put string string int | Take string int

fun challenges_after :: "challenge_call list \<Rightarrow> challenges" where
  "challenges_after [] = Map.empty"
| "challenges_after (Put key c t # es) = put key c t (challenges_after es)"
| "challenges_after (Take key t # es) = snd (take_challenge key t (challenges_after es))"

fun call_time :: "challenge_call \<Rightarrow> int" where
  "call_time (Put key c t) = t"
| "call_time (Take key t) = t"

fun pending :: "string \<Rightarrow> challenge_call list \<Rightarrow> Challenge option" where
  "pending key [] = None"
| "pending key (Put k c t # es) = (if k = key then Some \<lparr>ch_challenge = c, ch_expires = t + TTL_MS\<rparr> else pending key es)"
| "pending key (Take k t # es) = (if k = key then None else pending key es)"

lemma challenges_pending:
  "sorted_wrt (\<ge>) (now # map call_time es) \<Longrightarrow> challenges.forgets now (challenges_after es key) (pending key es)"
proof (induction es arbitrary: now)
  case (Cons e es)
  then have "challenges.forgets (call_time e) (challenges_after es key) (pending key es)" by simp
  then have "challenges.forgets (call_time e) (challenges_after (e # es) key) (pending key (e # es))"
    using challenges.forgets_sweep by (cases e) (auto simp: put_def take_challenge_def sweep_map_live)
  moreover have "call_time e \<le> now" using Cons.prems by simp
  ultimately show ?case by (rule challenges.forgets_later)
qed simp

text \<open>
  A challenge is answered at most once, and in time. As long as the clock does not go back, take
  returns the challenge of the last put for its key if no take came since and five minutes have not
  passed, and nothing otherwise; the sweeps change nothing.
\<close>
theorem challenge_taken_once:
  assumes "sorted_wrt (\<ge>) (now # map call_time es)"
  shows "fst (take_challenge key now (challenges_after es)) =
    map_option ch_challenge (live (challenge_over now) (pending key es))"
proof -
  have "live (challenge_over now) (challenges_after es key) = live (challenge_over now) (pending key es)"
    by (rule challenges.forgets_live [OF challenges_pending [OF assms]])
  then have "map_option ch_challenge (live (challenge_over now) (pending key es)) =
      map_option ch_challenge (live (challenge_over now) (challenges_after es key))" by simp
  then show ?thesis by (simp add: take_challenge_def split: option.split)
qed

theorem challenge_taken_once_witness:
  "fst (take_challenge ''u1'' 1000 (challenges_after [Put ''u2'' ''y'' 10, Put ''u1'' ''x'' 0])) = Some ''x'' \<and>
   fst (take_challenge ''u1'' 2000 (challenges_after [Take ''u1'' 1000, Put ''u1'' ''x'' 0])) = None"
  using challenge_taken_once [of 1000 "[Put ''u2'' ''y'' 10, Put ''u1'' ''x'' 0]" "''u1''"]
    challenge_taken_once [of 2000 "[Take ''u1'' 1000, Put ''u1'' ''x'' 0]" "''u1''"]
  by (simp add: challenge_over_def TTL_MS_def)

end
