(* ===== verification/MemoryGuard.thy ===== *)
theory MemoryGuard
  imports Tables Remote
begin

text \<open>
  The memory guard: the policy (packages/shared/src/memoryGuard.ts), the candidates it chooses from
  (apps/worker/src/jobs/memoryGuard.commands.ts) and the job that carries out its action
  (apps/worker/src/jobs/memoryGuard.ts). \<open>localeCompare\<close> is a parameter.
\<close>

section \<open>Policy\<close>

definition GUARD_PRIORITIES :: "string list" where
  "GUARD_PRIORITIES = [''critical'', ''normal'', ''low'']"

definition isGuardPriority :: "jv \<Rightarrow> bool" where
  "isGuardPriority v = (case v of JStr s \<Rightarrow> s \<in> set GUARD_PRIORITIES | _ \<Rightarrow> False)"

definition MEMORY_GUARD_MIN_GAP :: int where
  "MEMORY_GUARD_MIN_GAP = 5"

definition SHED_AFTER_SAMPLES :: int where
  "SHED_AFTER_SAMPLES = 2"

definition RESTORE_AFTER_SAMPLES :: int where
  "RESTORE_AFTER_SAMPLES = 3"

record MemoryGuardSettings =
  mg_enabled :: bool
  mg_threshold :: int
  mg_recover :: int

text \<open>A number of the request: \<open>None\<close> when it is no integer.\<close>

definition validateMemoryGuardLimits :: "int option \<Rightarrow> int option \<Rightarrow> string option" where
  "validateMemoryGuardLimits threshold recover =
    (case threshold of
       None \<Rightarrow> Some ''the stop threshold must be a whole number between 70 and 99''
     | Some t \<Rightarrow>
         if t < 70 \<or> 99 < t then Some ''the stop threshold must be a whole number between 70 and 99''
         else case recover of
           None \<Rightarrow> Some ''the recover level must be a whole number of at least 40''
         | Some r \<Rightarrow>
             if r < 40 then Some ''the recover level must be a whole number of at least 40''
             else if t - MEMORY_GUARD_MIN_GAP < r
             then Some (''the recover level must be at least '' @ int_str MEMORY_GUARD_MIN_GAP @ '' points below the stop threshold'')
             else None)"

datatype GuardKind = GuardApplication | GuardService

datatype GuardStatus = GuardRunning | GuardStopped | GuardOther

record GuardCandidate =
  gc_kind :: GuardKind
  gc_id :: string
  gc_name :: string
  gc_priority :: Priority
  gc_memBytes :: "int option"
  gc_shedByGuard :: bool
  gc_status :: GuardStatus

fun TIER :: "Priority \<Rightarrow> int" where
  "TIER Low = 0"
| "TIER Normal = 1"
| "TIER Critical = 2"

definition shed_order :: "(string \<Rightarrow> string \<Rightarrow> int) \<Rightarrow> GuardCandidate \<Rightarrow> GuardCandidate \<Rightarrow> int" where
  "shed_order localeCompare a b =
    or_else (TIER (gc_priority a) - TIER (gc_priority b))
      (or_else (default (-1) (gc_memBytes b) - default (-1) (gc_memBytes a)) (localeCompare (gc_name a) (gc_name b)))"

definition can_shed :: "GuardCandidate \<Rightarrow> bool" where
  "can_shed c \<longleftrightarrow> gc_status c = GuardRunning \<and> gc_priority c \<noteq> Critical \<and> \<not> gc_shedByGuard c"

definition first_of :: "'a list \<Rightarrow> 'a option" where
  "first_of xs = (case xs of [] \<Rightarrow> None | x # _ \<Rightarrow> Some x)"

definition pickToShed :: "(string \<Rightarrow> string \<Rightarrow> int) \<Rightarrow> GuardCandidate list \<Rightarrow> GuardCandidate option" where
  "pickToShed localeCompare candidates = first_of (sort_by (shed_order localeCompare) (filter can_shed candidates))"

definition restore_order :: "(string \<Rightarrow> string \<Rightarrow> int) \<Rightarrow> GuardCandidate \<Rightarrow> GuardCandidate \<Rightarrow> int" where
  "restore_order localeCompare a b =
    or_else (TIER (gc_priority b) - TIER (gc_priority a)) (localeCompare (gc_name a) (gc_name b))"

definition can_restore :: "GuardCandidate \<Rightarrow> bool" where
  "can_restore c \<longleftrightarrow> gc_shedByGuard c \<and> gc_status c = GuardStopped"

definition pickToRestore :: "(string \<Rightarrow> string \<Rightarrow> int) \<Rightarrow> GuardCandidate list \<Rightarrow> GuardCandidate option" where
  "pickToRestore localeCompare candidates = first_of (sort_by (restore_order localeCompare) (filter can_restore candidates))"

record GuardState =
  gd_high :: int
  gd_low :: int

definition INITIAL_GUARD_STATE :: GuardState where
  "INITIAL_GUARD_STATE = \<lparr>gd_high = 0, gd_low = 0\<rparr>"

datatype GuardAction = GuardStop GuardCandidate | GuardStart GuardCandidate | NoAction

definition guardStep ::
  "(string \<Rightarrow> string \<Rightarrow> int) \<Rightarrow> GuardState \<Rightarrow> int \<Rightarrow> MemoryGuardSettings \<Rightarrow> GuardCandidate list \<Rightarrow>
    GuardState \<times> GuardAction" where
  "guardStep localeCompare state memPercent settings candidates =
    (if \<not> mg_enabled settings then (INITIAL_GUARD_STATE, NoAction)
     else if mg_threshold settings \<le> memPercent then
       (let high = gd_high state + 1 in
        case (if SHED_AFTER_SAMPLES \<le> high then pickToShed localeCompare candidates else None) of
          Some target \<Rightarrow> (INITIAL_GUARD_STATE, GuardStop target)
        | None \<Rightarrow> (\<lparr>gd_high = high, gd_low = 0\<rparr>, NoAction))
     else if memPercent \<le> mg_recover settings then
       (let low = gd_low state + 1 in
        case (if RESTORE_AFTER_SAMPLES \<le> low then pickToRestore localeCompare candidates else None) of
          Some target \<Rightarrow> (INITIAL_GUARD_STATE, GuardStart target)
        | None \<Rightarrow> (\<lparr>gd_high = 0, gd_low = low\<rparr>, NoAction))
     else (INITIAL_GUARD_STATE, NoAction))"

section \<open>Candidates\<close>

record GuardRow =
  gr_id :: string
  gr_name :: string
  gr_priority :: Priority
  gr_shedByGuard :: bool
  gr_status :: string
  gr_multiple :: bool

record RunningContainer =
  rc_name :: string
  rc_memUsedBytes :: "int option"

definition asStatus :: "string \<Rightarrow> GuardStatus" where
  "asStatus status =
    (if status = ''running'' then GuardRunning else if status = ''stopped'' then GuardStopped else GuardOther)"

text \<open>\<open>byName\<close>: the last container of a name.\<close>

definition container_named :: "RunningContainer list \<Rightarrow> string \<Rightarrow> RunningContainer option" where
  "container_named running name = find (\<lambda>c. rc_name c = name) (rev running)"

definition candidate_of :: "GuardKind \<Rightarrow> string \<Rightarrow> RunningContainer list \<Rightarrow> GuardRow \<Rightarrow> GuardCandidate" where
  "candidate_of kind pre running r =
    (let container = (if gr_multiple r then None else container_named running (pre @ gr_id r));
         status = asStatus (gr_status r)
     in \<lparr>gc_kind = kind, gc_id = gr_id r, gc_name = gr_name r, gc_priority = gr_priority r,
         gc_memBytes = Option.bind container rc_memUsedBytes, gc_shedByGuard = gr_shedByGuard r,
         gc_status = (if status = GuardRunning \<and> \<not> gr_multiple r \<and> container = None then GuardOther else status)\<rparr>)"

definition buildGuardCandidates :: "GuardRow list \<Rightarrow> GuardRow list \<Rightarrow> RunningContainer list \<Rightarrow> GuardCandidate list" where
  "buildGuardCandidates apps services running =
    map (candidate_of GuardApplication ''yeah-app-'' running) apps @
    map (candidate_of GuardService ''yeah-svc-'' running) services"

definition staleShedFlags :: "GuardCandidate list \<Rightarrow> GuardCandidate list" where
  "staleShedFlags candidates = filter (\<lambda>c. gc_shedByGuard c \<and> gc_status c \<noteq> GuardStopped) candidates"

section \<open>The job\<close>

datatype guard_effect =
    QueueJob GuardKind string string
  | AuditEntry string string string GuardKind string
  | GuardNotify string string string NotificationLevel

text \<open>
  The rows and the counters the job works on; \<open>gw_out\<close> are the queued jobs, audit entries and
  notifications, oldest first. Database failures end the tick with a log line and are not modelled.
\<close>

record GuardWorld =
  gw_apps :: "Application list"
  gw_services :: "Service list"
  gw_states :: "string \<rightharpoonup> GuardState"
  gw_out :: "guard_effect list"

definition app_guard_row :: "Application \<Rightarrow> GuardRow" where
  "app_guard_row a = \<lparr>gr_id = app_id a, gr_name = app_name a, gr_priority = app_priority a,
     gr_shedByGuard = app_shedByGuard a, gr_status = app_status_str (app_status a),
     gr_multiple = (app_buildPack a = DockerCompose)\<rparr>"

definition svc_guard_row :: "Service \<Rightarrow> GuardRow" where
  "svc_guard_row v = \<lparr>gr_id = svc_id v, gr_name = svc_name v, gr_priority = svc_priority v,
     gr_shedByGuard = svc_shedByGuard v, gr_status = svc_status_str (svc_status v),
     gr_multiple = (svc_composeContent v \<noteq> None)\<rparr>"

definition set_shed :: "(Application \<Rightarrow> bool) \<Rightarrow> (Service \<Rightarrow> bool) \<Rightarrow> GuardKind \<Rightarrow> bool \<Rightarrow> GuardWorld \<Rightarrow> GuardWorld" where
  "set_shed p q kind flag w =
    (case kind of
       GuardApplication \<Rightarrow> w\<lparr>gw_apps := map (\<lambda>a. if p a then a\<lparr>app_shedByGuard := flag\<rparr> else a) (gw_apps w)\<rparr>
     | GuardService \<Rightarrow> w\<lparr>gw_services := map (\<lambda>v. if q v then v\<lparr>svc_shedByGuard := flag\<rparr> else v) (gw_services w)\<rparr>)"

definition clear_stale :: "GuardCandidate list \<Rightarrow> GuardWorld \<Rightarrow> GuardWorld" where
  "clear_stale candidates w =
    fold (\<lambda>c. set_shed (\<lambda>a. app_id a = gc_id c) (\<lambda>v. svc_id v = gc_id c) (gc_kind c) False) (staleShedFlags candidates) w"

definition unflag :: "GuardCandidate \<Rightarrow> GuardCandidate" where
  "unflag c = (if gc_status c = GuardStopped then c else c\<lparr>gc_shedByGuard := False\<rparr>)"

definition carryOut :: "Server \<Rightarrow> int \<Rightarrow> bool \<Rightarrow> GuardCandidate \<Rightarrow> GuardWorld \<Rightarrow> GuardWorld" where
  "carryOut server memPercent stopping target w =
    (let w' = set_shed (\<lambda>a. app_id a = gc_id target \<and> app_serverId a = srv_id server)
                (\<lambda>v. svc_id v = gc_id target \<and> svc_serverId v = srv_id server) (gc_kind target) stopping w;
         verb = (if stopping then ''stop'' else ''start'')
     in w'\<lparr>gw_out := gw_out w' @
       [QueueJob (gc_kind target) verb (gc_id target),
        AuditEntry (srv_teamId server) (verb @ '' (memory guard)'') (if stopping then ''warning'' else ''info'') (gc_kind target) (gc_id target),
        if stopping then
          GuardNotify (srv_teamId server) (''Memory guard stopped '' @ gc_name target @ '' on '' @ srv_name server)
            (''RAM was at '' @ int_str memPercent @ ''% (limit '' @ int_str (srv_memoryGuardThreshold server) @ ''%). '' @
             gc_name target @ '' has priority '' @ [DQ] @ priority_str (gc_priority target) @ [DQ] @
             '', so it was stopped to keep the more important ones online. It starts again by itself when RAM is back under '' @
             int_str (srv_memoryGuardRecover server) @ ''%.'') LevelWarning
        else
          GuardNotify (srv_teamId server) (''Memory guard started '' @ gc_name target @ '' on '' @ srv_name server)
            (''RAM is back at '' @ int_str memPercent @ ''% (under '' @ int_str (srv_memoryGuardRecover server) @ ''%), so '' @
             gc_name target @ '' is running again.'') LevelInfo]\<rparr>)"

definition server_candidates :: "Server \<Rightarrow> RunningContainer list \<Rightarrow> GuardWorld \<Rightarrow> GuardCandidate list" where
  "server_candidates server running w =
    buildGuardCandidates
      (map app_guard_row (filter (\<lambda>a. app_serverId a = srv_id server) (gw_apps w)))
      (map svc_guard_row (filter (\<lambda>v. svc_serverId v = srv_id server) (gw_services w))) running"

definition runMemoryGuard ::
  "(string \<Rightarrow> string \<Rightarrow> int) \<Rightarrow> Server \<Rightarrow> int \<Rightarrow> RunningContainer list \<Rightarrow> GuardWorld \<Rightarrow> GuardWorld" where
  "runMemoryGuard localeCompare server memPercent running w =
    (if \<not> srv_memoryGuardEnabled server then w\<lparr>gw_states := (gw_states w)(srv_id server := None)\<rparr>
     else
       (let candidates = server_candidates server running w;
            w1 = clear_stale candidates w;
            (state, action) = guardStep localeCompare (default INITIAL_GUARD_STATE (gw_states w (srv_id server))) memPercent
              \<lparr>mg_enabled = True, mg_threshold = srv_memoryGuardThreshold server, mg_recover = srv_memoryGuardRecover server\<rparr>
              (map unflag candidates);
            w2 = w1\<lparr>gw_states := (gw_states w1)(srv_id server \<mapsto> state)\<rparr>
        in case action of
             GuardStop target \<Rightarrow> carryOut server memPercent True target w2
           | GuardStart target \<Rightarrow> carryOut server memPercent False target w2
           | NoAction \<Rightarrow> w2))"

section \<open>What the policy picks\<close>

lemma first_of_sorted:
  assumes "comparison cmp" and "first_of (sort_by cmp (filter p xs)) = Some c"
  shows "c \<in> set xs \<and> p c \<and> (\<forall>x \<in> set (filter p xs). cmp c x \<le> 0)"
proof -
  obtain ys where s: "sort_by cmp (filter p xs) = c # ys"
    using assms(2) by (auto simp: first_of_def split: list.splits)
  then have "c \<in> set (filter p xs)" by (metis list.set_intros(1) set_sort_by)
  then show ?thesis using comparison.hd_sort_by_least [OF assms(1), of _ "filter p xs"] s by auto
qed

lemma first_of_None: "first_of (sort_by cmp (filter p xs)) = None \<longleftrightarrow> filter p xs = []"
  using sort_by_eq_Nil [of cmp "filter p xs"] by (cases "sort_by cmp (filter p xs)") (simp_all add: first_of_def)

lemma shed_comparison: "comparison lc \<Longrightarrow> comparison (shed_order lc)"
proof -
  assume lc: "comparison lc"
  let ?m = "\<lambda>c. - default (-1) (gc_memBytes c)"
  have "shed_order lc = (\<lambda>a b. or_else (TIER (gc_priority a) - TIER (gc_priority b))
      (or_else (?m a - ?m b) (lc (gc_name a) (gc_name b))))"
    by (simp add: shed_order_def fun_eq_iff)
  then show ?thesis
    using comparison_or_else [OF comparison_or_else [OF comparison_by [OF lc, of gc_name]],
      of "TIER \<circ> gc_priority" ?m] by (simp add: comp_def)
qed

lemma restore_comparison: "comparison lc \<Longrightarrow> comparison (restore_order lc)"
proof -
  assume lc: "comparison lc"
  have "restore_order lc = (\<lambda>a b. or_else (- TIER (gc_priority a) - (- TIER (gc_priority b))) (lc (gc_name a) (gc_name b)))"
    by (simp add: restore_order_def fun_eq_iff)
  then show ?thesis
    using comparison_or_else [OF comparison_by [OF lc, of gc_name], of "\<lambda>c. - TIER (gc_priority c)"] by simp
qed

text \<open>
  The least important goes first and the most important comes back first. What the guard stops is
  running, not critical and not already stopped by it, and no candidate it could have stopped has a lower
  priority, or the same priority and more memory in use; what it starts again it stopped itself, and
  nothing it could have started has a higher priority. It picks something whenever there is something to pick.
\<close>
theorem guard_picks_by_importance:
  assumes "comparison localeCompare"
  shows "(case pickToShed localeCompare candidates of
      None \<Rightarrow> filter can_shed candidates = []
    | Some c \<Rightarrow> c \<in> set candidates \<and> can_shed c \<and>
        set (filter can_shed candidates) \<subseteq> {x. TIER (gc_priority c) < TIER (gc_priority x) \<or>
          gc_priority c = gc_priority x \<and> default (-1) (gc_memBytes x) \<le> default (-1) (gc_memBytes c)}) \<and>
    (case pickToRestore localeCompare candidates of
      None \<Rightarrow> filter can_restore candidates = []
    | Some c \<Rightarrow> c \<in> set candidates \<and> can_restore c \<and>
        set (filter can_restore candidates) \<subseteq> {x. TIER (gc_priority x) \<le> TIER (gc_priority c)})"
proof -
  have tier: "TIER a = TIER b \<longleftrightarrow> a = b" for a b by (cases a; cases b) simp_all
  have shed: "shed_order lc c x \<le> 0 \<Longrightarrow> TIER (gc_priority c) < TIER (gc_priority x) \<or>
      gc_priority c = gc_priority x \<and> default (-1) (gc_memBytes x) \<le> default (-1) (gc_memBytes c)" for lc c x
    using tier [of "gc_priority c" "gc_priority x"] by (auto simp: shed_order_def or_else_def split: if_splits)
  have restore: "restore_order lc c x \<le> 0 \<Longrightarrow> TIER (gc_priority x) \<le> TIER (gc_priority c)" for lc c x
    by (auto simp: restore_order_def or_else_def split: if_splits)
  have "case pickToShed localeCompare candidates of
      None \<Rightarrow> filter can_shed candidates = []
    | Some c \<Rightarrow> c \<in> set candidates \<and> can_shed c \<and>
        set (filter can_shed candidates) \<subseteq> {x. TIER (gc_priority c) < TIER (gc_priority x) \<or>
          gc_priority c = gc_priority x \<and> default (-1) (gc_memBytes x) \<le> default (-1) (gc_memBytes c)}"
  proof (cases "pickToShed localeCompare candidates")
    case None
    then show ?thesis using None [unfolded pickToShed_def first_of_None] by (simp only: option.case)
  next
    case (Some c)
    from first_of_sorted [OF shed_comparison [OF assms] Some [unfolded pickToShed_def]] shed
    show ?thesis unfolding Some option.case by blast
  qed
  moreover have "case pickToRestore localeCompare candidates of
      None \<Rightarrow> filter can_restore candidates = []
    | Some c \<Rightarrow> c \<in> set candidates \<and> can_restore c \<and>
        set (filter can_restore candidates) \<subseteq> {x. TIER (gc_priority x) \<le> TIER (gc_priority c)}"
  proof (cases "pickToRestore localeCompare candidates")
    case None
    then show ?thesis using None [unfolded pickToRestore_def first_of_None] by (simp only: option.case)
  next
    case (Some c)
    from first_of_sorted [OF restore_comparison [OF assms] Some [unfolded pickToRestore_def]] restore
    show ?thesis unfolding Some option.case by blast
  qed
  ultimately show ?thesis ..
qed

theorem guard_picks_by_importance_witness:
  "pickToShed cmp_units [\<lparr>gc_kind = GuardApplication, gc_id = ''1'', gc_name = ''a'', gc_priority = Normal,
      gc_memBytes = Some 5, gc_shedByGuard = False, gc_status = GuardRunning\<rparr>] \<noteq> None"
  using guard_picks_by_importance [OF units.comparison_axioms, of "[\<lparr>gc_kind = GuardApplication, gc_id = ''1'',
      gc_name = ''a'', gc_priority = Normal, gc_memBytes = Some 5, gc_shedByGuard = False, gc_status = GuardRunning\<rparr>]"]
  by (auto simp: can_shed_def split: option.splits)

section \<open>When it acts\<close>

text \<open>Samples with the candidates of their tick, newest first, and what the policy did at the newest.\<close>

type_synonym tick = "int \<times> GuardCandidate list"

definition limits :: "int \<Rightarrow> int \<Rightarrow> MemoryGuardSettings" where
  "limits t r = \<lparr>mg_enabled = True, mg_threshold = t, mg_recover = r\<rparr>"

fun guard_after :: "(string \<Rightarrow> string \<Rightarrow> int) \<Rightarrow> int \<Rightarrow> int \<Rightarrow> tick list \<Rightarrow> GuardState \<times> GuardAction" where
  "guard_after lc t r [] = (INITIAL_GUARD_STATE, NoAction)"
| "guard_after lc t r ((m, cs) # ticks) = guardStep lc (fst (guard_after lc t r ticks)) m (limits t r) cs"

text \<open>How many of the newest samples were over the threshold, or under the recover level, with nothing done about them.\<close>

fun high_streak :: "(string \<Rightarrow> string \<Rightarrow> int) \<Rightarrow> int \<Rightarrow> int \<Rightarrow> tick list \<Rightarrow> nat" where
  "high_streak lc t r [] = 0"
| "high_streak lc t r ((m, cs) # ticks) =
    (if t \<le> m \<and> snd (guard_after lc t r ((m, cs) # ticks)) = NoAction then Suc (high_streak lc t r ticks) else 0)"

fun low_streak :: "(string \<Rightarrow> string \<Rightarrow> int) \<Rightarrow> int \<Rightarrow> int \<Rightarrow> tick list \<Rightarrow> nat" where
  "low_streak lc t r [] = 0"
| "low_streak lc t r ((m, cs) # ticks) =
    (if m < t \<and> m \<le> r \<and> snd (guard_after lc t r ((m, cs) # ticks)) = NoAction then Suc (low_streak lc t r ticks) else 0)"

lemma guard_counts:
  "fst (guard_after lc t r ticks) = \<lparr>gd_high = int (high_streak lc t r ticks), gd_low = int (low_streak lc t r ticks)\<rparr>"
proof (induction lc t r ticks rule: guard_after.induct)
  case (2 lc t r m cs ticks)
  define st where "st = fst (guard_after lc t r ticks)"
  have st: "gd_high st = int (high_streak lc t r ticks)" "gd_low st = int (low_streak lc t r ticks)"
    using 2 by (simp_all add: st_def)
  have "fst (guardStep lc st m (limits t r) cs) =
      \<lparr>gd_high = (if t \<le> m \<and> snd (guardStep lc st m (limits t r) cs) = NoAction then gd_high st + 1 else 0),
       gd_low = (if m < t \<and> m \<le> r \<and> snd (guardStep lc st m (limits t r) cs) = NoAction then gd_low st + 1 else 0)\<rparr>"
    by (auto simp: guardStep_def limits_def INITIAL_GUARD_STATE_def Let_def split: option.split)
  then show ?case
    by (simp add: st_def [symmetric] st)
qed (simp add: INITIAL_GUARD_STATE_def)


section \<open>What the job queues\<close>

lemma first_of_member: "first_of (sort_by cmp (filter p xs)) = Some c \<Longrightarrow> c \<in> set xs \<and> p c"
proof -
  assume "first_of (sort_by cmp (filter p xs)) = Some c"
  then obtain ys where "sort_by cmp (filter p xs) = c # ys"
    by (auto simp: first_of_def split: list.splits)
  then have "c \<in> set (filter p xs)" by (metis list.set_intros(1) set_sort_by)
  then show "c \<in> set xs \<and> p c" by simp
qed

lemma guard_action_target:
  "snd (guardStep lc st m settings cs) = GuardStop c \<Longrightarrow> c \<in> set cs \<and> can_shed c"
  "snd (guardStep lc st m settings cs) = GuardStart c \<Longrightarrow> c \<in> set cs \<and> can_restore c"
  by (auto simp: guardStep_def Let_def pickToShed_def pickToRestore_def
      split: if_splits option.splits dest: first_of_member)

lemma clear_stale_out: "gw_out (clear_stale cs w) = gw_out w"
proof -
  have "gw_out (fold (\<lambda>c. set_shed (p c) (q c) (k c) False) xs w) = gw_out w" for xs p q k
    by (induction xs arbitrary: w) (simp_all add: set_shed_def split: GuardKind.splits)
  then show ?thesis by (simp add: clear_stale_def)
qed

lemma carryOut_out:
  "QueueJob kind verb i \<in> set (gw_out (carryOut server m stopping c w)) \<Longrightarrow>
    QueueJob kind verb i \<in> set (gw_out w) \<or>
    kind = gc_kind c \<and> i = gc_id c \<and> verb = (if stopping then ''stop'' else ''start'')"
proof -
  have "gw_out (set_shed p q k f w) = gw_out w" for p q k f
    by (simp add: set_shed_def split: GuardKind.splits)
  then show "QueueJob kind verb i \<in> set (gw_out (carryOut server m stopping c w)) \<Longrightarrow>
      QueueJob kind verb i \<in> set (gw_out w) \<or>
      kind = gc_kind c \<and> i = gc_id c \<and> verb = (if stopping then ''stop'' else ''start'')"
    by (auto simp: carryOut_def Let_def split: if_splits)
qed

lemma candidate_application:
  assumes "c \<in> set (server_candidates server running w)" and "gc_kind c = GuardApplication"
  shows "\<exists>a \<in> set (gw_apps w). app_id a = gc_id c \<and> app_serverId a = srv_id server \<and>
    gc_priority c = app_priority a \<and> gc_shedByGuard c = app_shedByGuard a \<and>
    (gc_status c = GuardRunning \<longrightarrow> app_status a = AppRunning) \<and> (gc_status c = GuardStopped \<longrightarrow> app_status a = AppStopped)"
proof -
  obtain a where a: "a \<in> set (gw_apps w)" "app_serverId a = srv_id server"
    "c = candidate_of GuardApplication ''yeah-app-'' running (app_guard_row a)"
    using assms by (auto simp: server_candidates_def buildGuardCandidates_def candidate_of_def Let_def)
  have "app_status_str (app_status a) = ''running'' \<longleftrightarrow> app_status a = AppRunning"
    "app_status_str (app_status a) = ''stopped'' \<longleftrightarrow> app_status a = AppStopped"
    by (cases "app_status a"; simp)+
  then show ?thesis
    using a by (intro bexI [OF _ a(1)]) (auto simp: candidate_of_def app_guard_row_def asStatus_def Let_def split: if_splits)
qed

text \<open>
  C13: the guard stops no critical application and starts only what it stopped. A job it queues for an
  application is a stop of one of the server's applications that is running and not critical, or a start
  of one that is stopped and flagged as stopped by the guard.
\<close>
theorem guard_spares_critical:
  assumes "QueueJob GuardApplication verb i \<in> set (gw_out (runMemoryGuard lc server m running w))"
    and "QueueJob GuardApplication verb i \<notin> set (gw_out w)"
  shows "\<exists>a \<in> set (gw_apps w). app_id a = i \<and> app_serverId a = srv_id server \<and>
    (verb = ''stop'' \<and> app_status a = AppRunning \<and> app_priority a \<noteq> Critical \<or>
     verb = ''start'' \<and> app_status a = AppStopped \<and> app_shedByGuard a)"
proof -
  let ?cs = "server_candidates server running w"
  let ?step = "guardStep lc (default INITIAL_GUARD_STATE (gw_states w (srv_id server))) m
     \<lparr>mg_enabled = True, mg_threshold = srv_memoryGuardThreshold server, mg_recover = srv_memoryGuardRecover server\<rparr>
     (map unflag ?cs)"
  obtain c stopping where c: "snd ?step = (if stopping then GuardStop c else GuardStart c)"
    "gc_kind c = GuardApplication" "gc_id c = i" "verb = (if stopping then ''stop'' else ''start'')"
  proof (cases "snd ?step")
    case (GuardStop c)
    with assms show ?thesis
      by (intro that [of True c]) (auto simp: runMemoryGuard_def Let_def clear_stale_out split: prod.splits if_splits dest!: carryOut_out)
  next
    case (GuardStart c)
    with assms show ?thesis
      by (intro that [of False c]) (auto simp: runMemoryGuard_def Let_def clear_stale_out split: prod.splits if_splits dest!: carryOut_out)
  next
    case NoAction
    with assms show ?thesis
      by (auto simp: runMemoryGuard_def Let_def clear_stale_out split: prod.splits if_splits)
  qed
  then have "c \<in> set (map unflag ?cs) \<and> (if stopping then can_shed c else can_restore c)"
    using guard_action_target [of lc _ m _ "map unflag ?cs"] by (cases stopping) simp_all
  then obtain c0 where c0: "c0 \<in> set ?cs" "c = unflag c0" and can: "if stopping then can_shed c else can_restore c"
    by auto
  have same: "gc_kind c = gc_kind c0" "gc_id c = gc_id c0" "gc_priority c = gc_priority c0" "gc_status c = gc_status c0"
    "gc_shedByGuard c \<Longrightarrow> gc_shedByGuard c0"
    by (simp_all add: c0(2) unflag_def split: if_splits)
  obtain a where a: "a \<in> set (gw_apps w)" "app_id a = i" "app_serverId a = srv_id server"
    "gc_priority c = app_priority a" "gc_shedByGuard c0 = app_shedByGuard a"
    "gc_status c = GuardRunning \<longrightarrow> app_status a = AppRunning" "gc_status c = GuardStopped \<longrightarrow> app_status a = AppStopped"
    using candidate_application [OF c0(1)] c(2,3) same by metis
  show ?thesis
    by (intro bexI [OF _ a(1)]) (use a can c(4) same(5) in \<open>auto simp: can_shed_def can_restore_def split: if_splits\<close>)
qed

definition demo_world :: GuardWorld where
  "demo_world = \<lparr>gw_apps = [(new_application ''a1'' 0 ''t1'' ''e1'' ''v1'' ''shop'' ''url'')\<lparr>app_status := AppRunning\<rparr>],
     gw_services = [], gw_states = [''v1'' \<mapsto> \<lparr>gd_high = 1, gd_low = 0\<rparr>], gw_out = []\<rparr>"

definition demo_guarded :: Server where
  "demo_guarded = (new_server ''v1'' 0 ''t1'' ''host'' ''10.0.0.1'' ''key'')\<lparr>srv_memoryGuardEnabled := True\<rparr>"

theorem guard_spares_critical_witness:
  "\<exists>a \<in> set (gw_apps demo_world). app_id a = ''a1'' \<and> app_status a = AppRunning \<and> app_priority a \<noteq> Critical"
proof -
  have queued: "QueueJob GuardApplication ''stop'' ''a1'' \<in> set (gw_out (runMemoryGuard cmp_units demo_guarded 95
      [\<lparr>rc_name = ''yeah-app-a1'', rc_memUsedBytes = Some 5\<rparr>] demo_world))"
    by code_simp
  have before: "QueueJob GuardApplication ''stop'' ''a1'' \<notin> set (gw_out demo_world)"
    by (simp add: demo_world_def)
  show ?thesis using guard_spares_critical [OF queued before] by auto
qed

end
