(* ===== verification/ContainerWatch.thy ===== *)
theory ContainerWatch
  imports Remote JsNumber
begin

text \<open>
  Watching containers (packages/shared/src/containerWatch.ts): one pass of \<open>docker inspect\<close> parsed into
  rows, problems found by comparing restart counts with the last pass, and the tracker that turns polls
  into status changes without flooding on a flapping container. A \<open>Map\<close> is a map; a \<open>Set\<close> a list.
\<close>

definition containerWatchCommand :: string where
  "containerWatchCommand =
    ''docker ps -a -q | xargs -r docker inspect --format '' @ [SQ] @
    ''{{.Name}}|{{.State.Status}}|{{.State.ExitCode}}|{{.State.OOMKilled}}|{{.RestartCount}}|{{.HostConfig.RestartPolicy.Name}}|{{if .State.Health}}{{.State.Health.Status}}{{end}}'' @ [SQ]"

record WatchedContainer =
  wc_name :: string
  wc_status :: string
  wc_exitCode :: jsnum
  wc_oomKilled :: bool
  wc_restartCount :: jsnum
  wc_restartPolicy :: string
  wc_health :: string

definition watched_row :: "string list \<Rightarrow> WatchedContainer option" where
  "watched_row p =
    (if length p < 6 \<or> p ! 0 = [] then None
     else Some \<lparr>wc_name = strip_prefix ''/'' (p ! 0), wc_status = p ! 1, wc_exitCode = or_zero (js_Number (p ! 2)),
       wc_oomKilled = (p ! 3 = ''true''), wc_restartCount = or_zero (js_Number (p ! 4)), wc_restartPolicy = p ! 5,
       wc_health = (if 6 < length p then p ! 6 else [])\<rparr>)"

definition parseContainerWatch :: "string \<Rightarrow> WatchedContainer list" where
  "parseContainerWatch output =
    List.map_filter (\<lambda>line. watched_row (split_str ''|'' (trim line))) (split_lines output)"

section \<open>Problems\<close>

datatype ProblemReason = Restarting | RestartLoop | OomKilled

record ContainerProblem =
  cp_name :: string
  cp_reason :: ProblemReason
  cp_detail :: string

text \<open>\<open>a - b\<close> and \<open>a >= n\<close> on the numbers of the language.\<close>

fun jsnum_minus :: "jsnum \<Rightarrow> jsnum \<Rightarrow> jsnum" where
  "jsnum_minus (Finite a) (Finite b) = Finite (a - b)"
| "jsnum_minus (Infinite s) (Finite b) = Infinite s"
| "jsnum_minus (Finite a) (Infinite s) = Infinite (\<not> s)"
| "jsnum_minus (Infinite s) (Infinite t) = (if s = t then NaN else Infinite s)"
| "jsnum_minus a b = NaN"

fun jsnum_ge :: "jsnum \<Rightarrow> rat \<Rightarrow> bool" where
  "jsnum_ge (Finite a) n = (n \<le> a)"
| "jsnum_ge (Infinite neg) n = (\<not> neg)"
| "jsnum_ge NaN n = False"

definition container_problem :: "jsnum \<Rightarrow> WatchedContainer \<Rightarrow> ContainerProblem option" where
  "container_problem before c =
    (let delta = jsnum_minus (wc_restartCount c) before in
     if wc_status c = ''restarting'' then
       Some \<lparr>cp_name = wc_name c, cp_reason = Restarting,
         cp_detail = ''restarting in a loop (exit code '' @ jsnum_str (wc_exitCode c) @ '', '' @ jsnum_str (wc_restartCount c) @ '' restarts)''\<rparr>
     else if wc_oomKilled c \<and> jsnum_ge delta 1 then
       Some \<lparr>cp_name = wc_name c, cp_reason = OomKilled, cp_detail = ''was killed for running out of memory (OOM)''\<rparr>
     else if jsnum_ge delta 3 then
       Some \<lparr>cp_name = wc_name c, cp_reason = RestartLoop,
         cp_detail = ''restarted '' @ jsnum_str delta @ '' times since the last check''\<rparr>
     else None)"

text \<open>The map of the last restart counts is updated in place: it is returned.\<close>

fun detectContainerProblems ::
  "(string \<rightharpoonup> jsnum) \<Rightarrow> WatchedContainer list \<Rightarrow> string list \<Rightarrow> ContainerProblem list \<times> (string \<rightharpoonup> jsnum)" where
  "detectContainerProblems previous [] ignored = ([], previous)"
| "detectContainerProblems previous (c # rows) ignored =
    (let found = (if List.member ignored (wc_name c) then None
                  else Option.bind (previous (wc_name c)) (\<lambda>before. container_problem before c));
         (problems, previous') = detectContainerProblems (previous(wc_name c \<mapsto> wc_restartCount c)) rows ignored
     in (case found of Some p \<Rightarrow> p # problems | None \<Rightarrow> problems, previous'))"

definition isManagedContainerName :: "string \<Rightarrow> bool" where
  "isManagedContainerName name \<longleftrightarrow>
    starts_with name ''yeah-app-'' \<or> starts_with name ''yeah-db-'' \<or> starts_with name ''yeah-svc-''"

definition effectiveContainerState :: "WatchedContainer \<Rightarrow> string" where
  "effectiveContainerState c =
    (if wc_status c = ''running'' \<and> wc_health c = ''unhealthy'' then ''unhealthy'' else wc_status c)"

section \<open>Status changes\<close>

record ContainerStatusChange =
  csc_name :: string
  csc_from :: string
  csc_to :: string

text \<open>\<open>ts_lastReportedAt\<close> is \<open>None\<close> for minus infinity.\<close>

record TrackedState =
  ts_reported :: string
  ts_candidate :: "string option"
  ts_candidatePolls :: int
  ts_lastReportedAt :: "int option"

record TrackerOptions =
  to_confirmPolls :: int
  to_minIntervalMs :: int

definition DEFAULT_TRACKER :: TrackerOptions where
  "DEFAULT_TRACKER = \<lparr>to_confirmPolls = 2, to_minIntervalMs = 5 * 60000\<rparr>"

definition too_soon :: "TrackerOptions \<Rightarrow> int \<Rightarrow> TrackedState \<Rightarrow> bool" where
  "too_soon opts t tracked =
    (case ts_lastReportedAt tracked of None \<Rightarrow> False | Some last_at \<Rightarrow> t - last_at < to_minIntervalMs opts)"

definition observe_state ::
  "TrackerOptions \<Rightarrow> int \<Rightarrow> string \<Rightarrow> TrackedState option \<Rightarrow> (string \<times> string) option \<times> TrackedState" where
  "observe_state opts t state tracked_opt =
    (case tracked_opt of
       None \<Rightarrow> (None, \<lparr>ts_reported = state, ts_candidate = None, ts_candidatePolls = 0, ts_lastReportedAt = None\<rparr>)
     | Some tracked \<Rightarrow>
         if state = ts_reported tracked then
           (None, tracked\<lparr>ts_candidate := None, ts_candidatePolls := 0\<rparr>)
         else
           (let tracked' = (if ts_candidate tracked = Some state
              then tracked\<lparr>ts_candidatePolls := ts_candidatePolls tracked + 1\<rparr>
              else tracked\<lparr>ts_candidate := Some state, ts_candidatePolls := 1\<rparr>)
            in if ts_candidatePolls tracked' < to_confirmPolls opts \<or> too_soon opts t tracked' then (None, tracked')
               else (Some (ts_reported tracked', state),
                     \<lparr>ts_reported = state, ts_candidate = None, ts_candidatePolls = 0, ts_lastReportedAt = Some t\<rparr>)))"

definition watched :: "string list \<Rightarrow> WatchedContainer \<Rightarrow> bool" where
  "watched ignored c \<longleftrightarrow> isManagedContainerName (wc_name c) \<and> \<not> List.member ignored (wc_name c)"

fun observe_rows ::
  "TrackerOptions \<Rightarrow> int \<Rightarrow> string list \<Rightarrow> WatchedContainer list \<Rightarrow> (string \<rightharpoonup> TrackedState) \<Rightarrow>
    ContainerStatusChange list \<times> (string \<rightharpoonup> TrackedState)" where
  "observe_rows opts t ignored [] states = ([], states)"
| "observe_rows opts t ignored (c # rows) states =
    (if \<not> watched ignored c then observe_rows opts t ignored rows states
     else
       (let (change, tracked) = observe_state opts t (effectiveContainerState c) (states (wc_name c));
            (changes, states') = observe_rows opts t ignored rows (states(wc_name c \<mapsto> tracked))
        in (case change of
              Some (old, new) \<Rightarrow> \<lparr>csc_name = wc_name c, csc_from = old, csc_to = new\<rparr> # changes
            | None \<Rightarrow> changes, states')))"

definition observe ::
  "TrackerOptions \<Rightarrow> int \<Rightarrow> WatchedContainer list \<Rightarrow> string list \<Rightarrow> (string \<rightharpoonup> TrackedState) \<Rightarrow>
    ContainerStatusChange list \<times> (string \<rightharpoonup> TrackedState)" where
  "observe opts t rows ignored states =
    (let (changes, states') = observe_rows opts t ignored rows states;
         seen = map wc_name (filter (watched ignored) rows)
     in (changes, \<lambda>name. if List.member seen name then states' name else None))"

section \<open>One container\<close>

text \<open>
  What the tracker does to one container, as an automaton on the polls in which it is seen without a
  gap: (time, state) pairs, newest first.
\<close>

fun tracked_after :: "TrackerOptions \<Rightarrow> (int \<times> string) list \<Rightarrow> (string \<times> string) option \<times> TrackedState option" where
  "tracked_after opts [] = (None, None)"
| "tracked_after opts ((t, s) # h) =
    (case observe_state opts t s (snd (tracked_after opts h)) of (change, tracked) \<Rightarrow> (change, Some tracked))"

fun report_times :: "TrackerOptions \<Rightarrow> (int \<times> string) list \<Rightarrow> int list" where
  "report_times opts [] = []"
| "report_times opts ((t, s) # h) =
    (if fst (tracked_after opts ((t, s) # h)) \<noteq> None then t # report_times opts h else report_times opts h)"

lemma tracked_last_report:
  "snd (tracked_after opts h) = Some tracked \<Longrightarrow>
    ts_lastReportedAt tracked = (case report_times opts h of [] \<Rightarrow> None | t # _ \<Rightarrow> Some t)"
proof (induction h arbitrary: tracked)
  case (Cons e h)
  obtain t s where e: "e = (t, s)" by (cases e)
  show ?case
  proof (cases "snd (tracked_after opts h)")
    case None
    then have "h = []" by (cases h) (auto split: prod.splits)
    then show ?thesis using Cons.prems by (auto simp: e observe_state_def)
  next
    case (Some old)
    then show ?thesis
      using Cons.prems Cons.IH [OF Some]
      by (auto simp: e observe_state_def Let_def split: if_splits prod.splits)
  qed
qed simp

lemma tracked_candidate:
  "snd (tracked_after opts h) = Some tracked \<Longrightarrow>
    (case ts_candidate tracked of
       None \<Rightarrow> ts_candidatePolls tracked = 0
     | Some c \<Rightarrow> c \<noteq> ts_reported tracked \<and> 1 \<le> ts_candidatePolls tracked \<and>
         nat (ts_candidatePolls tracked) \<le> length h \<and>
         map snd (take (nat (ts_candidatePolls tracked)) h) = replicate (nat (ts_candidatePolls tracked)) c)"
proof (induction h arbitrary: tracked)
  case (Cons e h)
  obtain t s where e: "e = (t, s)" by (cases e)
  show ?case
  proof (cases "snd (tracked_after opts h)")
    case None
    then show ?thesis using Cons.prems by (auto simp: e observe_state_def)
  next
    case (Some old)
    have step: "nat (n + 1) = Suc (nat n)" if "1 \<le> n" for n :: int using that by simp
    show ?thesis
      using Cons.prems Cons.IH [OF Some] Some
      by (auto simp: e observe_state_def Let_def step split: if_splits prod.splits option.splits)
  qed
qed simp

lemma report_spacing: "successively (\<lambda>later earlier. to_minIntervalMs opts \<le> later - earlier) (report_times opts h)"
proof (induction h)
  case (Cons e h)
  obtain t s where e: "e = (t, s)" by (cases e)
  show ?case
  proof (cases "fst (tracked_after opts (e # h)) = None \<or> report_times opts h = []")
    case True
    then show ?thesis using Cons by (auto simp: e)
  next
    case False
    then obtain p ps where ps: "report_times opts h = p # ps" by (cases "report_times opts h") auto
    obtain old where old: "snd (tracked_after opts h) = Some old"
      using ps by (cases h) (auto split: prod.splits)
    have "to_minIntervalMs opts \<le> t - p"
      using False tracked_last_report [OF old] ps
      by (auto simp: e old observe_state_def Let_def too_soon_def split: if_splits prod.splits)
    then show ?thesis using Cons False by (simp add: e ps)
  qed
qed simp

lemma report_confirmed:
  assumes "fst (tracked_after opts h) = Some (old, new)"
  shows "old \<noteq> new \<and> map snd (take (nat (to_confirmPolls opts)) h) = replicate (nat (to_confirmPolls opts)) new"
proof -
  obtain t s h' where h: "h = (t, s) # h'" using assms by (cases h) auto
  obtain tr where tr: "snd (tracked_after opts h') = Some tr"
    using assms by (cases "snd (tracked_after opts h')") (auto simp: h observe_state_def)
  define k where "k = (if ts_candidate tr = Some s then ts_candidatePolls tr else 0)"
  have s: "s \<noteq> ts_reported tr" "old = ts_reported tr" "new = s" "to_confirmPolls opts \<le> k + 1"
    using assms by (auto simp: h tr observe_state_def Let_def k_def split: if_splits prod.splits)
  have k: "0 \<le> k" "map snd (take (nat k) h') = replicate (nat k) s" "nat k \<le> length h'"
    using tracked_candidate [OF tr] by (auto simp: k_def split: if_splits)
  have all: "map snd (take (Suc (nat k)) h) = replicate (Suc (nat k)) s"
    using k by (simp add: h)
  have "nat (to_confirmPolls opts) \<le> Suc (nat k)" using s(4) by simp
  then have "map snd (take (nat (to_confirmPolls opts)) h) =
      take (nat (to_confirmPolls opts)) (map snd (take (Suc (nat k)) h))"
    by (simp add: take_map min_absorb1)
  also have "\<dots> = replicate (nat (to_confirmPolls opts)) s"
    unfolding all take_replicate using \<open>nat (to_confirmPolls opts) \<le> Suc (nat k)\<close> by (simp only: min_absorb1)
  finally show ?thesis using s(1-3) by auto
qed

section \<open>The tracker is one automaton per container\<close>

text \<open>Polls: (time, rows, ignored names), newest first.\<close>

type_synonym poll = "int \<times> WatchedContainer list \<times> string list"

fun track :: "TrackerOptions \<Rightarrow> poll list \<Rightarrow> ContainerStatusChange list \<times> (string \<rightharpoonup> TrackedState)" where
  "track opts [] = ([], Map.empty)"
| "track opts ((t, rows, ignored) # polls) = observe opts t rows ignored (snd (track opts polls))"

fun presence :: "string \<Rightarrow> poll list \<Rightarrow> (int \<times> string) list" where
  "presence name [] = []"
| "presence name ((t, rows, ignored) # polls) =
    (case find (\<lambda>c. watched ignored c \<and> wc_name c = name) rows of
       Some c \<Rightarrow> (t, effectiveContainerState c) # presence name polls
     | None \<Rightarrow> [])"

definition changes_of :: "string \<Rightarrow> ContainerStatusChange list \<Rightarrow> (string \<times> string) list" where
  "changes_of name cs = map (\<lambda>c. (csc_from c, csc_to c)) (filter (\<lambda>c. csc_name c = name) cs)"

lemma observe_rows_other:
  "find (\<lambda>c. watched ignored c \<and> wc_name c = name) rows = None \<Longrightarrow>
    snd (observe_rows opts t ignored rows states) name = states name \<and>
    changes_of name (fst (observe_rows opts t ignored rows states)) = []"
  by (induction rows arbitrary: states) (auto simp: Let_def changes_of_def case_prod_unfold split: option.splits if_splits)

lemma observe_rows_one:
  "distinct (map wc_name rows) \<Longrightarrow> find (\<lambda>c. watched ignored c \<and> wc_name c = name) rows = Some c \<Longrightarrow>
    (let (change, tracked) = observe_state opts t (effectiveContainerState c) (states name) in
     snd (observe_rows opts t ignored rows states) name = Some tracked \<and>
     changes_of name (fst (observe_rows opts t ignored rows states)) = (case change of Some ch \<Rightarrow> [ch] | None \<Rightarrow> []))"
proof (induction rows arbitrary: states)
  case (Cons d rows)
  show ?case
  proof (cases "watched ignored d \<and> wc_name d = name")
    case True
    then have d: "d = c" using Cons.prems by simp
    have "find (\<lambda>c. watched ignored c \<and> wc_name c = name) rows = None"
      using Cons.prems(1) True by (auto simp: find_None_iff image_iff)
    from observe_rows_other [OF this] show ?thesis
      using True by (auto simp: d Let_def changes_of_def case_prod_unfold split: option.splits)
  next
    case False
    then have rest: "find (\<lambda>c. watched ignored c \<and> wc_name c = name) rows = Some c"
      using Cons.prems(2) by (simp split: if_splits)
    have "wc_name c = name" using rest by (auto simp: find_Some_iff)
    show ?thesis
    proof (cases "watched ignored d")
      case True
      with False have other: "wc_name d \<noteq> name" by simp
      obtain ch tr where st: "observe_state opts t (effectiveContainerState d) (states (wc_name d)) = (ch, tr)"
        by fastforce
      define states1 where "states1 = states(wc_name d \<mapsto> tr)"
      have same: "states1 name = states name" using other by (simp add: states1_def)
      have rows: "fst (observe_rows opts t ignored (d # rows) states) =
          (case ch of Some (old, new) \<Rightarrow> [\<lparr>csc_name = wc_name d, csc_from = old, csc_to = new\<rparr>] | None \<Rightarrow> []) @
          fst (observe_rows opts t ignored rows states1)"
        "snd (observe_rows opts t ignored (d # rows) states) = snd (observe_rows opts t ignored rows states1)"
        using True by (simp_all add: st Let_def case_prod_unfold states1_def split: option.split)
      show ?thesis
        using Cons.IH [OF _ rest, of states1] Cons.prems(1) other
        unfolding rows same changes_of_def by (auto simp: case_prod_unfold split: option.splits)
    qed (use Cons.IH [OF _ rest] Cons.prems(1) in simp)
  qed
qed simp

definition wf_polls :: "poll list \<Rightarrow> bool" where
  "wf_polls polls \<longleftrightarrow> list_all (\<lambda>(t, rows, ignored). distinct (map wc_name rows)) polls"

lemma track_presence:
  "wf_polls polls \<Longrightarrow> snd (track opts polls) name = snd (tracked_after opts (presence name polls)) \<and>
    changes_of name (fst (track opts polls)) =
      (case fst (tracked_after opts (presence name polls)) of Some ch \<Rightarrow> [ch] | None \<Rightarrow> [])"
proof (induction polls)
  case (Cons p polls)
  obtain t rows ignored where p: "p = (t, rows, ignored)" by (cases p)
  have IH: "snd (track opts polls) name = snd (tracked_after opts (presence name polls))"
    and d: "distinct (map wc_name rows)"
    using Cons by (simp_all add: wf_polls_def p)
  show ?case
  proof (cases "find (\<lambda>c. watched ignored c \<and> wc_name c = name) rows")
    case None
    then have "name \<notin> set (map wc_name (filter (watched ignored) rows))"
      by (auto simp: find_None_iff)
    then show ?thesis
      using observe_rows_other [OF None, of opts t "snd (track opts polls)"]
      by (auto simp: p observe_def Let_def None split: prod.splits)
  next
    case (Some c)
    then have "name \<in> set (map wc_name (filter (watched ignored) rows))"
      by (auto simp: find_Some_iff)
    then show ?thesis
      using observe_rows_one [OF d Some, of opts t "snd (track opts polls)"]
      by (auto simp: p observe_def Let_def Some IH split: prod.splits)
  qed
qed (simp add: changes_of_def)


definition demo_row :: "string \<Rightarrow> WatchedContainer" where
  "demo_row status = \<lparr>wc_name = ''yeah-app-1'', wc_status = status, wc_exitCode = Finite 0, wc_oomKilled = False,
     wc_restartCount = Finite 0, wc_restartPolicy = ''always'', wc_health = []\<rparr>"


end
