(* ===== verification/FileBrowser.thy ===== *)
theory FileBrowser
  imports Compose JsNumber
begin

text \<open>
  The file browser of a running container: packages/shared/src/fileBrowser.ts (listing a directory, reading a
  file) and fileWrite.ts (saving, uploading, creating and deleting). Every function is a pure builder or
  reader of text; a value of unknown type is a \<open>jv\<close>, \<open>throw\<close> is \<open>Inl\<close>, and the
  collation of \<open>localeCompare\<close> is a parameter.

  The lemmas show what the path guards promise (a canonical path without dot segments, no pseudo file
  system, no socket), that a shell reads each command as its fixed words with the path as one literal word,
  and that a listing in the format of \<open>ls -lAp\<close> is read back entry by entry.
\<close>

section \<open>fileBrowser.ts\<close>

definition MAX_BROWSER_PATH :: nat where
  "MAX_BROWSER_PATH = 1024"

definition MAX_BROWSER_FILE_BYTES :: int where
  "MAX_BROWSER_FILE_BYTES = 256 * 1024"

datatype EntryKind = DirEntry | FileEntry | LinkEntry | OtherEntry

record BrowserEntry =
  be_name :: string
  be_kind :: EntryKind
  be_size :: "rat option"
  be_mode :: string

definition isSafeBrowserPath :: "string \<Rightarrow> bool" where
  "isSafeBrowserPath path =
    (if length path = 0 \<or> MAX_BROWSER_PATH < length path \<or> \<not> starts_with path ''/'' then False
     else if list_ex is_control path then False
     else ''..'' \<notin> set (split_str ''/'' path))"

text \<open>An application is the target without a \<open>kind\<close>; the fields are its id, build pack and compose service.\<close>

datatype BrowserTarget =
    AppTarget string string "string option"
  | ServiceTarget string string
  | DatabaseTarget string

definition first_container :: "string \<Rightarrow> string" where
  "first_container filters =
    ''c=$(docker ps -q '' @ filters @ '' | head -n 1); [ -n \"$c\" ] || { echo \"no running container\"; exit 3; }; ''"

definition label_filter :: "string \<Rightarrow> string \<Rightarrow> string" where
  "label_filter key v = ''--filter '' @ shellQuote (''label=com.docker.compose.'' @ key @ ''='' @ v)"

definition resolveContainerFragment :: "BrowserTarget \<Rightarrow> string" where
  "resolveContainerFragment app =
    (case app of
       DatabaseTarget i \<Rightarrow> ''c='' @ shellQuote (''yeah-db-'' @ i) @ ''; ''
     | ServiceTarget i container \<Rightarrow>
         first_container (label_filter ''project'' (''yeah-svc-'' @ i) @ '' '' @
           label_filter ''service'' (if isValidComposeService container then container else ''invalid''))
     | AppTarget i buildPack composeService \<Rightarrow>
         if buildPack = ''docker_compose'' then
           (let service = (case composeService of
              Some s \<Rightarrow> if s \<noteq> [] \<and> isValidComposeService s then Some s else None | None \<Rightarrow> None)
            in first_container (label_filter ''project'' (composeProjectName i) @
                 (case service of Some s \<Rightarrow> '' '' @ label_filter ''service'' s | None \<Rightarrow> [])))
         else ''c='' @ shellQuote (''yeah-app-'' @ i) @ ''; '')"

definition listDirCommand :: "BrowserTarget \<Rightarrow> string \<Rightarrow> string" where
  "listDirCommand app path =
    resolveContainerFragment app @ ''docker exec \"$c\" ls -lAp -- '' @ shellQuote path @ '' 2>&1''"

text \<open>\<open>maxBytes\<close> is a whole number at every call.\<close>

definition readFileCommand :: "BrowserTarget \<Rightarrow> string \<Rightarrow> int \<Rightarrow> string" where
  "readFileCommand app path maxBytes =
    resolveContainerFragment app @ ''docker exec \"$c\" head -c '' @ int_str (maxBytes + 1) @ '' -- '' @ shellQuote path @ '' 2>&1''"

subsection \<open>Listings\<close>

text \<open>\<open>s.split(/\s+/)\<close>.\<close>

function split_spaces :: "string \<Rightarrow> string list" where
  "split_spaces s =
    (let w = takeWhile (\<lambda>c. \<not> is_space c) s; r = dropWhile (\<lambda>c. \<not> is_space c) s
     in if r = [] then [w] else w # split_spaces (dropWhile is_space r))"
  by auto
termination
proof (relation "measure length")
  fix s w r
  assume r: "r = dropWhile (\<lambda>c. \<not> is_space c) s" and ne: "r \<noteq> []"
  have "is_space (hd r)" using hd_dropWhile [of "\<lambda>c. \<not> is_space c" s] ne r by simp
  then have "length (dropWhile is_space r) < length r"
    using ne by (cases r) (auto simp: le_imp_less_Suc length_dropWhile_le)
  moreover have "length r \<le> length s" unfolding r by (rule length_dropWhile_le)
  ultimately show "(dropWhile is_space r, s) \<in> measure length" by simp
qed simp

declare split_spaces.simps [simp del]

definition mode_rx :: rx where
  "mode_rx = RSeq (RCls (one_of ''-dlbcps'')) (RSeq (rx_times 9 (RCls (one_of ''-rwxsStT''))) (rx_opt (RCls (one_of ''.+@''))))"

text \<open>\<open>nthTokenEnd\<close>: \<open>skipped\<close> is what the loop has passed, \<open>s\<close> what is left, \<open>n\<close> the tokens still to pass.\<close>

fun token_end_loop :: "nat \<Rightarrow> nat \<Rightarrow> string \<Rightarrow> nat option" where
  "token_end_loop 0 skipped s = None"
| "token_end_loop (Suc n) skipped s =
    (let blank = takeWhile is_space s; s' = dropWhile is_space s;
         tok = takeWhile (\<lambda>c. \<not> is_space c) s'; rest = dropWhile (\<lambda>c. \<not> is_space c) s';
         pos = skipped + length blank + length tok
     in if s' = [] then None
        else if n = 0 then Some pos
        else token_end_loop n pos rest)"

definition nthTokenEnd :: "string \<Rightarrow> nat \<Rightarrow> nat option" where
  "nthTokenEnd line n = token_end_loop n 0 line"

definition stripped_name :: "string \<Rightarrow> string \<Rightarrow> string" where
  "stripped_name mode name0 =
    (let name1 = (case index_of '' -> '' name0 of
           Some i \<Rightarrow> if starts_with mode ''l'' then take i name0 else name0 | None \<Rightarrow> name0)
     in if ends_with name1 ''/'' then butlast name1 else name1)"

definition parse_entry :: "string \<Rightarrow> BrowserEntry option" where
  "parse_entry line =
    (let tokens = split_spaces (trim line)
     in if length tokens < 9 \<or> \<not> rx_test mode_rx (hd tokens) then None
        else
          (let mode = hd tokens;
               name0 = (case nthTokenEnd line 8 of
                 Some idx \<Rightarrow> trim (drop idx line) | None \<Rightarrow> join_str '' '' (drop 8 tokens));
               isDir = starts_with mode ''d'';
               nm = stripped_name mode name0
           in if nm = [] \<or> nm = ''.'' \<or> nm = ''..'' then None
              else Some \<lparr>be_name = nm,
                be_kind = (if isDir then DirEntry else if starts_with mode ''l'' then LinkEntry
                  else if starts_with mode ''-'' then FileEntry else OtherEntry),
                be_size = (case js_Number (tokens ! 4) of Finite q \<Rightarrow> if isDir then None else Some q | _ \<Rightarrow> None),
                be_mode = mode\<rparr>))"

definition entry_order :: "(string \<Rightarrow> string \<Rightarrow> int) \<Rightarrow> BrowserEntry \<Rightarrow> BrowserEntry \<Rightarrow> int" where
  "entry_order localeCompare a b =
    (let rank = (\<lambda>e. if be_kind e = DirEntry then 0 else 1 :: int); d = rank a - rank b
     in if d \<noteq> 0 then d else localeCompare (be_name a) (be_name b))"

definition parseListing :: "(string \<Rightarrow> string \<Rightarrow> int) \<Rightarrow> string \<Rightarrow> BrowserEntry list" where
  "parseListing localeCompare output =
    sort_by (entry_order localeCompare) (List.map_filter parse_entry (split_lines output))"

subsection \<open>Paths\<close>

definition joinBrowserPath :: "string \<Rightarrow> string \<Rightarrow> string" where
  "joinBrowserPath dir name =
    (if dir = ''/'' then ''/'' @ name else strip_trailing (CHR ''/'') dir @ ''/'' @ name)"

definition parentBrowserPath :: "string \<Rightarrow> string" where
  "parentBrowserPath path =
    (let trimmed = strip_trailing (CHR ''/'') path
     in case last_index_of (CHR ''/'') trimmed of
          None \<Rightarrow> ''/''
        | Some idx \<Rightarrow> if idx = 0 then ''/'' else take idx trimmed)"

definition looksLikeText :: "string \<Rightarrow> bool" where
  "looksLikeText content \<longleftrightarrow> CHR 0x00 \<notin> set content"

section \<open>fileWrite.ts\<close>

definition MAX_EDIT_FILE_BYTES :: int where
  "MAX_EDIT_FILE_BYTES = 2 * 1024 * 1024"

definition DEFAULT_UPLOAD_MAX_BYTES :: int where
  "DEFAULT_UPLOAD_MAX_BYTES = 10 * 1024 * 1024"

definition MAX_UPLOAD_MB :: int where
  "MAX_UPLOAD_MB = 100"

definition fileWritesEnabled :: "string option \<Rightarrow> bool" where
  "fileWritesEnabled value =
    (let v = to_lower (trim (case value of Some s \<Rightarrow> s | None \<Rightarrow> [])) in v = ''true'' \<or> v = ''1'')"

definition uploadLimitBytes :: "string option \<Rightarrow> int" where
  "uploadLimitBytes value =
    (case js_Number (trim (case value of Some s \<Rightarrow> s | None \<Rightarrow> [])) of
       Finite q \<Rightarrow>
         if q \<noteq> of_int \<lfloor>q\<rfloor> \<or> q < 1 then DEFAULT_UPLOAD_MAX_BYTES else min \<lfloor>q\<rfloor> MAX_UPLOAD_MB * 1024 * 1024
     | _ \<Rightarrow> DEFAULT_UPLOAD_MAX_BYTES)"

definition path_segments :: "string \<Rightarrow> string list" where
  "path_segments path = filter (\<lambda>s. s \<noteq> []) (split_str ''/'' path)"

definition normalizeBrowserPath :: "jv \<Rightarrow> string option" where
  "normalizeBrowserPath v =
    (case as_str v of
       None \<Rightarrow> None
     | Some path \<Rightarrow>
         if length path = 0 \<or> MAX_BROWSER_PATH < length path \<or> \<not> starts_with path ''/'' then None
         else if list_ex is_control path then None
         else (let segments = path_segments path
               in if list_ex (\<lambda>s. s = ''.'' \<or> s = ''..'' \<or> 255 < length s) segments then None
                  else Some (''/'' @ join_str ''/'' segments)))"

definition isValidEntryName :: "jv \<Rightarrow> bool" where
  "isValidEntryName v =
    (case as_str v of
       None \<Rightarrow> False
     | Some name \<Rightarrow>
         if length name = 0 \<or> 255 < length name then False
         else if name = ''.'' \<or> name = ''..'' \<or> includes_str name ''/'' then False
         else \<not> list_ex is_control name)"

datatype FileWriteOp = SaveOp | UploadOp | MkdirOp | DeleteOp

definition PSEUDO_FS :: "string list" where
  "PSEUDO_FS = [''/proc'', ''/sys'', ''/dev'']"

definition writeRefusal :: "string \<Rightarrow> FileWriteOp \<Rightarrow> string option" where
  "writeRefusal path operation =
    (case normalizeBrowserPath (JStr path) of
       None \<Rightarrow> Some ''invalid path''
     | Some normalized \<Rightarrow>
         if normalized \<noteq> path then Some ''invalid path''
         else if path = ''/'' then Some ''the root cannot be changed''
         else if list_ex (\<lambda>p. path = p \<or> starts_with path (p @ ''/'')) PSEUDO_FS
           then Some ''this location cannot be changed''
         else if ends_with (to_lower path) ''.sock'' then Some ''sockets cannot be changed''
         else if operation = DeleteOp \<and> length (path_segments path) < 2
           then Some ''top-level folders cannot be deleted''
         else None)"

definition confirmsDelete :: "string \<Rightarrow> jv \<Rightarrow> bool" where
  "confirmsDelete path confirm \<longleftrightarrow> as_str confirm = Some path"

definition isSafeStagingPath :: "string \<Rightarrow> bool" where
  "isSafeStagingPath path =
    rx_test (RSeq (rx_lit ''/tmp/yeah-fb-'') (rx_between 8 64 (RCls (\<lambda>c. in_range 97 102 c \<or> is_digit c \<or> c = CHR ''-'')))) path"

definition prepareStagingCommand :: "string \<Rightarrow> string + string" where
  "prepareStagingCommand staging =
    (if \<not> isSafeStagingPath staging then Inl ''unsafe staging path''
     else Inr (''umask 077; : > '' @ shellQuote staging))"

definition write_guard :: "bool \<Rightarrow> string" where
  "write_guard onlyNew =
    ''if [ -d \"$1\" ]; then echo \"is a directory\" >&2; exit 4; fi; '' @
    (if onlyNew then ''if [ -e \"$1\" ]; then echo \"already exists\" >&2; exit 5; fi; '' else []) @
    ''cat > \"$1\"''"

definition writeFileCommand :: "BrowserTarget \<Rightarrow> string \<Rightarrow> string \<Rightarrow> bool \<Rightarrow> string + string" where
  "writeFileCommand target path staging onlyNew =
    (if \<not> isSafeStagingPath staging then Inl ''unsafe staging path''
     else Inr (''trap '' @ [SQ] @ ''rm -f '' @ staging @ [SQ] @ '' EXIT; '' @ resolveContainerFragment target @
       ''docker exec -i \"$c\" sh -c '' @ shellQuote (write_guard onlyNew) @ '' sh '' @ shellQuote path @
       '' < '' @ shellQuote staging @ '' 2>&1; rc=$?; rm -f '' @ shellQuote staging @ ''; exit $rc''))"

definition mkdirCommand :: "BrowserTarget \<Rightarrow> string \<Rightarrow> string" where
  "mkdirCommand target path =
    resolveContainerFragment target @ ''docker exec \"$c\" mkdir -- '' @ shellQuote path @ '' 2>&1''"

definition deleteCommand :: "BrowserTarget \<Rightarrow> string \<Rightarrow> string" where
  "deleteCommand target path =
    resolveContainerFragment target @ ''docker exec \"$c\" rm -r -- '' @ shellQuote path @ '' 2>&1''"

section \<open>Canonical paths\<close>

text \<open>The specification of a canonical path: the segments below the root, each a plain name.\<close>

definition clean :: "string \<Rightarrow> bool" where
  "clean s \<longleftrightarrow> s \<noteq> [] \<and> s \<noteq> ''.'' \<and> s \<noteq> ''..'' \<and> CHR ''/'' \<notin> set s \<and> length s \<le> 255 \<and> \<not> list_ex is_control s"

definition path_of :: "string list \<Rightarrow> string" where
  "path_of segments = ''/'' @ join_str ''/'' segments"

lemma isValidEntryName_clean [simp]: "isValidEntryName (JStr name) \<longleftrightarrow> clean name"
  by (auto simp: isValidEntryName_def clean_def includes_str_sublist sublist_def in_set_conv_decomp as_str_def not_le)

lemma segments_path_of: "list_all clean segments \<Longrightarrow> path_segments (path_of segments) = segments"
proof (cases "segments = []")
  case False
  assume clean: "list_all clean segments"
  then have "split_str ''/'' (join_str ''/'' segments) = segments"
    using False by (intro split_join_char) (auto simp: clean_def list_all_iff)
  with clean show ?thesis by (auto simp: path_segments_def path_of_def list_all_iff clean_def intro: filter_True)
qed (simp add: path_segments_def path_of_def)

lemma join_snoc: "xs \<noteq> [] \<Longrightarrow> join_str sep (xs @ [x]) = join_str sep xs @ sep @ x"
  by (induction sep xs rule: join_str.induct) auto

lemma control_join: "list_ex is_control (join_str ''/'' xs) \<longleftrightarrow> list_ex (list_ex is_control) xs"
proof (induction xs)
  case (Cons x xs)
  have "\<not> is_control (CHR ''/'')" by (simp add: char_class_defs)
  with Cons show ?case by (cases xs) auto
qed simp

lemma join_filter_le: "length (join_str ''/'' (filter (\<lambda>s. s \<noteq> []) xs)) \<le> length (join_str ''/'' xs)"
proof (induction xs)
  case (Cons x xs)
  then show ?case
  proof (cases "filter (\<lambda>s. s \<noteq> []) xs = []")
    case True
    then show ?thesis by (cases xs) auto
  next
    case False
    then have "xs \<noteq> []" by auto
    with False Cons show ?thesis by (auto simp: join_str_Cons)
  qed
qed simp

lemma split_no_slash: "x \<in> set (split_str ''/'' s) \<Longrightarrow> CHR ''/'' \<notin> set x"
  by (rule split_char_pieces)

lemma normalize_path_of:
  assumes "list_all clean segments" and "length (path_of segments) \<le> MAX_BROWSER_PATH"
  shows "normalizeBrowserPath (JStr (path_of segments)) = Some (path_of segments)"
proof -
  have "\<not> list_ex (list_ex is_control) segments" and "\<not> list_ex (\<lambda>s. s = ''.'' \<or> s = ''..'' \<or> 255 < length s) segments"
    using assms(1) by (auto simp: list_all_iff list_ex_iff clean_def)
  then have "\<not> list_ex is_control (path_of segments)"
    by (simp add: path_of_def control_join) (simp add: char_class_defs)
  with assms \<open>\<not> list_ex (\<lambda>s. s = ''.'' \<or> s = ''..'' \<or> 255 < length s) segments\<close> show ?thesis
    by (simp add: normalizeBrowserPath_def as_str_def segments_path_of) (simp add: path_of_def starts_with_def)
qed

lemma normalize_canonical:
  assumes "normalizeBrowserPath (JStr path) = Some p"
  obtains segments where "list_all clean segments" and "p = path_of segments" and "length p \<le> MAX_BROWSER_PATH"
proof -
  from assms have len: "length path \<le> MAX_BROWSER_PATH" and start: "starts_with path ''/''"
    and ctl: "\<not> list_ex is_control path" and seg: "\<not> list_ex (\<lambda>s. s = ''.'' \<or> s = ''..'' \<or> 255 < length s) (path_segments path)"
    and p: "p = path_of (path_segments path)"
    by (auto simp: normalizeBrowserPath_def as_str_def Let_def path_of_def split: if_splits)
  have "clean s" if "s \<in> set (path_segments path)" for s
  proof -
    from that have "s \<in> set (split_str ''/'' path)" and "s \<noteq> []" by (auto simp: path_segments_def)
    moreover from this have "set s \<subseteq> set path" by (simp add: set_split_char)
    ultimately show ?thesis using that seg ctl split_no_slash [of s path]
      by (auto simp: clean_def list_ex_iff not_le)
  qed
  moreover have "length p \<le> length path"
  proof -
    obtain t where t: "path = CHR ''/'' # t" using start by (auto simp: starts_with_def prefix_def)
    have "length (join_str ''/'' (path_segments path)) \<le> length (join_str ''/'' (split_str ''/'' t))"
      using join_filter_le [of "split_str ''/'' t"] by (simp add: t path_segments_def)
    then show ?thesis by (simp add: p path_of_def t join_split_str)
  qed
  ultimately show thesis using that [of "path_segments path"] p len by (auto simp: list_all_iff)
qed

lemma strip_path_of: "list_all clean segments \<Longrightarrow> segments \<noteq> [] \<Longrightarrow>
    strip_trailing (CHR ''/'') (path_of segments) = path_of segments"
proof (cases segments rule: rev_cases)
  case (snoc xs x)
  assume "list_all clean segments"
  with snoc have "x \<noteq> []" and "CHR ''/'' \<notin> set x" by (auto simp: clean_def)
  then obtain y c where y: "x = y @ [c]" "c \<noteq> CHR ''/''" by (cases x rule: rev_cases) auto
  then obtain z where "path_of segments = z @ [c]"
    using snoc by (cases "xs = []") (auto simp: path_of_def join_snoc)
  with y show ?thesis by (simp add: strip_trailing_def)
qed simp

lemma join_path_of: "list_all clean segments \<Longrightarrow> joinBrowserPath (path_of segments) name = path_of (segments @ [name])"
proof (cases "segments = []")
  case False
  assume "list_all clean segments"
  moreover from this False have "path_of segments \<noteq> ''/''"
    by (cases segments rule: remdups_adj.cases) (auto simp: path_of_def clean_def)
  ultimately show ?thesis using False
    by (simp add: joinBrowserPath_def strip_path_of) (simp add: path_of_def join_snoc)
qed (simp add: joinBrowserPath_def path_of_def)

lemma index_of_absent: "c \<notin> set a \<Longrightarrow> index_of [c] (a @ c # b) = Some (length a)"
  by (induction a) auto

lemma last_slash: "CHR ''/'' \<notin> set x \<Longrightarrow> last_index_of (CHR ''/'') (s @ CHR ''/'' # x) = Some (length s)"
proof -
  assume x: "CHR ''/'' \<notin> set x"
  have "index_of ''/'' (rev x @ CHR ''/'' # rev s) = Some (length x)"
    using index_of_absent [of "CHR ''/''" "rev x"] x by simp
  then show ?thesis by (simp add: last_index_of_def)
qed

lemma parent_path_of:
  assumes "list_all clean (segments @ [name])"
  shows "parentBrowserPath (path_of (segments @ [name])) = path_of segments"
proof -
  have name: "CHR ''/'' \<notin> set name" using assms by (simp add: clean_def)
  show ?thesis
  proof (cases "segments = []")
    case True
    then show ?thesis using name last_slash [of name "[]"] strip_path_of [OF assms]
      by (simp add: parentBrowserPath_def Let_def) (simp add: path_of_def)
  next
    case False
    then have "path_of (segments @ [name]) = path_of segments @ CHR ''/'' # name" by (simp add: path_of_def join_snoc)
    with name show ?thesis using last_slash [OF name, of "path_of segments"] strip_path_of [OF assms]
      by (simp add: parentBrowserPath_def Let_def) (simp add: path_of_def)
  qed
qed

section \<open>Commands as a shell reads them\<close>

lemma sh_tokens_after:
  assumes "reads s toks" and "BS \<notin> set t" and "sh_tokens t = Some xs"
  shows "sh_tokens (s @ t) = Some (toks @ xs)"
proof -
  have shift: "sh_outside toks None = sh_shift toks (sh_outside [] None)"
    by (simp add: sh_shift_def sh_outside_def)
  have "sh_run (s @ t) (sh_outside [] None) = sh_run t (sh_outside toks None)"
    using assms(1) by (simp add: reads_def)
  also have "\<dots> = sh_shift toks (sh_run t (sh_outside [] None))"
    unfolding shift by (rule sh_run_shift [OF assms(2)])
  finally have "sh_end_word (sh_run (s @ t) (sh_outside [] None)) = sh_shift toks (sh_end_word (sh_run t (sh_outside [] None)))"
    by (simp only: sh_shift_simps)
  with assms(3) show ?thesis by (simp add: sh_tokens_def Let_def sh_shift_simps split: if_splits) (simp add: sh_shift_def)
qed

definition var :: "string \<Rightarrow> sh_token" where
  "var x = Word (Act (CHR ''$'') # map Lit x)"

definition both_outputs :: "sh_token list" where
  "both_outputs = [lit_word ''2'', Op (CHR ''>''), Op (CHR ''&''), lit_word ''1'']"

lemma reads_assign: "reads (''c='' @ shellQuote v @ ''; '') [lit_word (''c='' @ v), Op (CHR '';'')]"
  by (simp add: reads_def sh_reads plain_char_def char_class_defs sh_operator_def del: sh_run.simps)

text \<open>The words that select the container, and those that find its id when it is one of a compose project.\<close>

definition found_tokens :: "string list \<Rightarrow> sh_token list" where
  "found_tokens labels =
    [Word [Lit (CHR ''c''), Lit (CHR ''=''), Act (CHR ''$'')], Op (CHR ''(''), lit_word ''docker'', lit_word ''ps'', lit_word ''-q''] @
    concat (map (\<lambda>l. [lit_word ''--filter'', lit_word (''label=com.docker.compose.'' @ l)]) labels) @
    the (sh_tokens ''| head -n 1); [ -n \"$c\" ] || { echo \"no running container\"; exit 3; }; '')"

definition fragment_tokens :: "BrowserTarget \<Rightarrow> sh_token list" where
  "fragment_tokens target =
    (case target of
       DatabaseTarget i \<Rightarrow> [lit_word (''c=yeah-db-'' @ i), Op (CHR '';'')]
     | ServiceTarget i container \<Rightarrow>
         found_tokens [''project=yeah-svc-'' @ i, ''service='' @ (if isValidComposeService container then container else ''invalid'')]
     | AppTarget i buildPack composeService \<Rightarrow>
         if buildPack = ''docker_compose'' then
           found_tokens ((''project='' @ composeProjectName i) #
             (case composeService of Some s \<Rightarrow> if isValidComposeService s then [''service='' @ s] else [] | None \<Rightarrow> []))
         else [lit_word (''c=yeah-app-'' @ i), Op (CHR '';'')])"

lemma reads_label: "reads (label_filter k v @ '' '') [lit_word ''--filter'', lit_word (''label=com.docker.compose.'' @ k @ ''='' @ v)]"
proof -
  have "reads ''--filter '' [lit_word ''--filter'']" by (rule reads_const; code_simp)
  from reads_append [OF this reads_quoted [of "''label=com.docker.compose.'' @ k @ ''='' @ v"]]
  show ?thesis unfolding label_filter_def append_assoc append_Cons append_Nil .
qed

lemma reads_found:
  assumes "reads (filters @ '' '') (concat (map (\<lambda>l. [lit_word ''--filter'', lit_word (''label=com.docker.compose.'' @ l)]) labels))"
  shows "reads (first_container filters) (found_tokens labels)"
proof -
  have front: "reads ''c=$(docker ps -q ''
      [Word [Lit (CHR ''c''), Lit (CHR ''=''), Act (CHR ''$'')], Op (CHR ''(''), lit_word ''docker'', lit_word ''ps'', lit_word ''-q'']"
    by (rule reads_const; code_simp)
  have rear: "reads ''| head -n 1); [ -n \"$c\" ] || { echo \"no running container\"; exit 3; }; ''
      (the (sh_tokens ''| head -n 1); [ -n \"$c\" ] || { echo \"no running container\"; exit 3; }; ''))"
    by (rule reads_const; code_simp)
  from reads_append [OF front reads_append [OF assms rear]] show ?thesis
    by (simp add: first_container_def found_tokens_def)
qed

lemma invalid_empty: "\<not> isValidComposeService []"
  by (simp add: isValidComposeService_def)

lemma reads_fragment: "reads (resolveContainerFragment target) (fragment_tokens target)"
proof (cases target)
  case (AppTarget i buildPack composeService)
  have two: "reads ((label_filter ''project'' (composeProjectName i) @ '' '' @ label_filter ''service'' s) @ '' '')
      (concat (map (\<lambda>l. [lit_word ''--filter'', lit_word (''label=com.docker.compose.'' @ l)])
        [''project='' @ composeProjectName i, ''service='' @ s]))" for s
    using reads_append [OF reads_label [of "''project''" "composeProjectName i"] reads_label [of "''service''" s]] by simp
  have one: "reads (label_filter ''project'' (composeProjectName i) @ '' '')
      (concat (map (\<lambda>l. [lit_word ''--filter'', lit_word (''label=com.docker.compose.'' @ l)]) [''project='' @ composeProjectName i]))"
    using reads_label [of "''project''" "composeProjectName i"] by simp
  show ?thesis
    using AppTarget reads_found [OF one] reads_found [OF two] reads_assign [of "''yeah-app-'' @ i"] invalid_empty
    by (auto simp: resolveContainerFragment_def fragment_tokens_def split: option.split)
next
  case (ServiceTarget i container)
  have "reads ((label_filter ''project'' (''yeah-svc-'' @ i) @ '' '' @ label_filter ''service'' s) @ '' '')
      (concat (map (\<lambda>l. [lit_word ''--filter'', lit_word (''label=com.docker.compose.'' @ l)])
        [''project=yeah-svc-'' @ i, ''service='' @ s]))" for s
    using reads_append [OF reads_label [of "''project''" "''yeah-svc-'' @ i"] reads_label [of "''service''" s]] by simp
  from reads_found [OF this] show ?thesis
    using ServiceTarget by (simp add: resolveContainerFragment_def fragment_tokens_def)
next
  case (DatabaseTarget i)
  then show ?thesis using reads_assign [of "''yeah-db-'' @ i"]
    by (simp add: resolveContainerFragment_def fragment_tokens_def)
qed

lemma path_command:
  assumes "reads u ws"
  shows "sh_tokens (resolveContainerFragment target @ u @ shellQuote path @ '' 2>&1'') =
    Some (fragment_tokens target @ ws @ lit_word path # both_outputs)"
proof -
  have "sh_tokens ''2>&1'' = Some both_outputs" by code_simp
  from sh_tokens_after [OF reads_append [OF reads_fragment reads_append [OF assms reads_quoted]] _ this]
  show ?thesis by simp
qed


section \<open>What may be changed\<close>

lemma prefix_segment:
  assumes "CHR ''/'' \<notin> set n" and "CHR ''/'' \<notin> set x"
  shows "prefix (n @ ''/'') (x @ CHR ''/'' # r) \<longleftrightarrow> n = x"
proof
  assume "prefix (n @ ''/'') (x @ CHR ''/'' # r)"
  then obtain t where t: "x @ CHR ''/'' # r = n @ CHR ''/'' # t" by (auto simp: prefix_def)
  have "takeWhile (\<lambda>c. c \<noteq> CHR ''/'') (y @ CHR ''/'' # u) = y" if "CHR ''/'' \<notin> set y" for y u
    using that by (induction y) auto
  with assms t show "n = x" by metis
qed simp

lemma pseudo_fs:
  assumes "list_all clean segments" and "segments \<noteq> []" and "CHR ''/'' \<notin> set n"
  shows "path_of segments = CHR ''/'' # n \<or> starts_with (path_of segments) ((CHR ''/'' # n) @ ''/'') \<longleftrightarrow> hd segments = n"
proof (cases segments)
  case (Cons x xs)
  with assms have x: "CHR ''/'' \<notin> set x" by (simp add: clean_def)
  show ?thesis
  proof (cases "xs = []")
    case True
    have "\<not> prefix (n @ ''/'') x" using x by (auto simp: prefix_def)
    with Cons True show ?thesis by (auto simp: path_of_def starts_with_def)
  next
    case False
    have "x @ CHR ''/'' # join_str ''/'' xs \<noteq> n" using assms(3) by auto
    with False Cons prefix_segment [OF assms(3) x, of "join_str ''/'' xs"] show ?thesis
      by (auto simp: path_of_def starts_with_def join_str_Cons)
  qed
qed (use assms in simp)

lemma suffix_last: "CHR ''/'' \<notin> set e \<Longrightarrow> CHR ''/'' \<notin> set x \<Longrightarrow> suffix e (p @ CHR ''/'' # x) \<longleftrightarrow> suffix e x"
proof
  assume e: "CHR ''/'' \<notin> set e" and "suffix e (p @ CHR ''/'' # x)"
  with e have "suffix e (CHR ''/'' # x)" by (auto simp: suffix_append)
  with e show "suffix e x" by (auto simp: suffix_Cons)
qed (auto simp: suffix_def)

lemma lower_slash: "CHR ''/'' \<in> set (to_lower x) \<longleftrightarrow> CHR ''/'' \<in> set x"
proof -
  have "code (char_lower c) = 47 \<longleftrightarrow> code c = 47" for c
  proof (cases "in_range 65 90 c \<or> (in_range 192 222 c \<and> code c \<noteq> 215)")
    case True
    then have "code c + 32 < 256" and "65 \<le> code c" by (auto simp: in_range_def)
    moreover have "char_lower c = char_of (code c + 32)" using True by (simp only: char_lower_def if_True)
    ultimately show ?thesis by simp
  next
    case False
    then have "char_lower c = c" by (simp only: char_lower_def if_False)
    then show ?thesis by simp
  qed
  moreover have "code (CHR ''/'') = 47" by (simp add: code_def)
  ultimately have "char_lower c = CHR ''/'' \<longleftrightarrow> c = CHR ''/''" for c
    by (metis code_eq_iff)
  then show ?thesis unfolding to_lower_def set_map image_iff by metis
qed

lemma sock_last:
  assumes "list_all clean segments" and "segments \<noteq> []"
  shows "ends_with (to_lower (path_of segments)) ''.sock'' \<longleftrightarrow> ends_with (to_lower (last segments)) ''.sock''"
proof -
  from assms obtain xs x where x: "segments = xs @ [x]" "CHR ''/'' \<notin> set x"
    by (cases segments rule: rev_cases) (auto simp: clean_def)
  then obtain p where "path_of segments = p @ CHR ''/'' # x"
    by (cases "xs = []") (auto simp: path_of_def join_snoc)
  moreover have "char_lower (CHR ''/'') = CHR ''/''" by code_simp
  ultimately show ?thesis using x suffix_last [of "''.sock''" "to_lower x" "to_lower p"]
    by (simp add: ends_with_suffix lower_slash) (simp add: to_lower_def)
qed

lemma path_of_root: "list_all clean segments \<Longrightarrow> path_of segments = ''/'' \<longleftrightarrow> segments = []"
  by (cases segments rule: remdups_adj.cases) (auto simp: path_of_def clean_def)

lemma writeRefusal_path_of:
  assumes "list_all clean segments" and "length (path_of segments) \<le> MAX_BROWSER_PATH"
  shows "writeRefusal (path_of segments) operation = None \<longleftrightarrow>
    (if operation = DeleteOp then 2 else 1) \<le> length segments
    \<and> hd segments \<notin> {''proc'', ''sys'', ''dev''} \<and> \<not> ends_with (to_lower (last segments)) ''.sock''"
proof (cases "segments = []")
  case False
  have "list_ex (\<lambda>p. path_of segments = p \<or> starts_with (path_of segments) (p @ ''/'')) PSEUDO_FS
      \<longleftrightarrow> hd segments \<in> {''proc'', ''sys'', ''dev''}"
    using pseudo_fs [OF assms(1) False, of "''proc''"] pseudo_fs [OF assms(1) False, of "''sys''"]
      pseudo_fs [OF assms(1) False, of "''dev''"] by (simp add: PSEUDO_FS_def)
  with False assms show ?thesis
    by (simp add: writeRefusal_def normalize_path_of sock_last path_of_root segments_path_of Suc_le_eq not_less)
qed (use assms in \<open>auto simp: writeRefusal_def normalize_path_of path_of_root\<close>)

text \<open>
  The write guard accepts exactly the canonical paths of at most 1024 characters whose segments are plain
  names, that lie below the root and outside the pseudo file systems, and whose last segment is no socket; a
  deletion needs two segments. So no accepted path has a dot segment, an empty segment or a control character.
\<close>
theorem write_allowed_exactly:
  "writeRefusal path operation = None \<longleftrightarrow>
   (\<exists>segments. path = path_of segments \<and> list_all clean segments \<and> length path \<le> MAX_BROWSER_PATH
     \<and> (if operation = DeleteOp then 2 else 1) \<le> length segments
     \<and> hd segments \<notin> {''proc'', ''sys'', ''dev''} \<and> \<not> ends_with (to_lower (last segments)) ''.sock'')"
  (is "_ \<longleftrightarrow> ?R")
proof
  assume ok: "writeRefusal path operation = None"
  then have "normalizeBrowserPath (JStr path) = Some path"
    by (auto simp: writeRefusal_def split: option.splits if_splits)
  then obtain segments where s: "list_all clean segments" "path = path_of segments" "length path \<le> MAX_BROWSER_PATH"
    by (rule normalize_canonical)
  with ok have "(if operation = DeleteOp then 2 else 1) \<le> length segments
    \<and> hd segments \<notin> {''proc'', ''sys'', ''dev''} \<and> \<not> ends_with (to_lower (last segments)) ''.sock''"
    using writeRefusal_path_of [of segments operation] by metis
  with s show ?R by (intro exI [of _ segments]) metis
next
  assume ?R
  then obtain segments where s: "path = path_of segments" "list_all clean segments" "length path \<le> MAX_BROWSER_PATH"
    "(if operation = DeleteOp then 2 else 1) \<le> length segments
      \<and> hd segments \<notin> {''proc'', ''sys'', ''dev''} \<and> \<not> ends_with (to_lower (last segments)) ''.sock''" by (elim exE conjE) blast
  then show "writeRefusal path operation = None" using writeRefusal_path_of [of segments operation] by metis
qed

text \<open>
  Walking the tree. From a canonical directory, joining a valid name gives a path that is canonical again
  (when it is not too long), and whose parent is the directory it started from.
\<close>
theorem browser_paths_roundtrip:
  assumes "normalizeBrowserPath (JStr dir) = Some dir" and "isValidEntryName (JStr name)"
    and "length dir + length name < MAX_BROWSER_PATH"
  shows "parentBrowserPath (joinBrowserPath dir name) = dir \<and>
    normalizeBrowserPath (JStr (joinBrowserPath dir name)) = Some (joinBrowserPath dir name)"
proof -
  obtain segments where s: "list_all clean segments" "dir = path_of segments"
    using normalize_canonical [OF assms(1)] by metis
  moreover have "clean name" using assms(2) by simp
  moreover have "length (path_of (segments @ [name])) \<le> MAX_BROWSER_PATH"
    using assms(3) s(2) by (cases "segments = []") (simp_all add: path_of_def join_snoc)
  ultimately show ?thesis
    by (simp add: join_path_of parent_path_of normalize_path_of)
qed

theorem browser_paths_roundtrip_witness:
  "parentBrowserPath (joinBrowserPath ''/app/data'' ''a b.txt'') = ''/app/data'' \<and>
   normalizeBrowserPath (JStr (joinBrowserPath ''/app/data'' ''a b.txt'')) = Some (joinBrowserPath ''/app/data'' ''a b.txt'')"
proof (rule browser_paths_roundtrip)
  have "list_all clean [''app'', ''data'']" "clean ''a b.txt''" by code_simp+
  then show "normalizeBrowserPath (JStr ''/app/data'') = Some ''/app/data''" "isValidEntryName (JStr ''a b.txt'')"
    using normalize_path_of [of "[''app'', ''data'']"] by (simp_all add: path_of_def MAX_BROWSER_PATH_def)
  show "length ''/app/data'' + length ''a b.txt'' < MAX_BROWSER_PATH" by (simp add: MAX_BROWSER_PATH_def)
qed

section \<open>Reading a listing back\<close>

text \<open>
  A line of \<open>ls -lAp\<close>: eight columns, each a word and the blanks after it, then the name, which \<open>-p\<close>
  marks with a slash for a directory and which is followed by its target for a link.
\<close>

type_synonym columns = "(string \<times> string) list"

definition column_text :: "columns \<Rightarrow> string" where
  "column_text cols = concat (map (\<lambda>(w, gap). w @ gap) cols)"

definition shown_name :: "string \<Rightarrow> string \<Rightarrow> string \<Rightarrow> string" where
  "shown_name mode name target =
    (if starts_with mode ''d'' then name @ ''/'' else if starts_with mode ''l'' then name @ '' -> '' @ target else name)"

definition ls_line :: "columns \<Rightarrow> string \<Rightarrow> string \<Rightarrow> string" where
  "ls_line cols name target = column_text cols @ shown_name (fst (hd cols)) name target"

definition wf_columns :: "columns \<Rightarrow> bool" where
  "wf_columns cols \<longleftrightarrow> length cols = 8 \<and> rx_test mode_rx (fst (hd cols)) \<and>
    list_all (\<lambda>(w, gap). w \<noteq> [] \<and> list_all (\<lambda>c. \<not> is_space c) w \<and> gap \<noteq> [] \<and> list_all (\<lambda>c. c = CHR '' '') gap) cols"

definition wf_name :: "string \<Rightarrow> bool" where
  "wf_name name \<longleftrightarrow> clean name \<and> \<not> is_space (hd name) \<and> \<not> is_space (last name) \<and> \<not> sublist '' ->'' name"

definition wf_target :: "string \<Rightarrow> bool" where
  "wf_target target \<longleftrightarrow> target \<noteq> [] \<and> \<not> is_space (last target) \<and> \<not> list_ex is_control target"

definition listed :: "columns \<Rightarrow> string \<Rightarrow> BrowserEntry" where
  "listed cols name =
    (let mode = fst (hd cols)
     in \<lparr>be_name = name,
         be_kind = (if starts_with mode ''d'' then DirEntry else if starts_with mode ''l'' then LinkEntry
           else if starts_with mode ''-'' then FileEntry else OtherEntry),
         be_size = (case js_Number (fst (cols ! 4)) of Finite q \<Rightarrow> if starts_with mode ''d'' then None else Some q | _ \<Rightarrow> None),
         be_mode = mode\<rparr>)"

subsection \<open>Columns\<close>

lemma blank_space: "is_space (CHR '' '')"
  by (simp add: char_class_defs)

lemma blanks: "list_all (\<lambda>c. c = CHR '' '') gap \<Longrightarrow> list_all is_space gap"
  by (erule list.pred_mono_strong) (simp add: blank_space)

lemma while_run:
  assumes "list_all P w" and "s \<noteq> []" and "\<not> P (hd s)"
  shows "takeWhile P (w @ s) = w" and "dropWhile P (w @ s) = s"
  using assms by (cases s; simp add: list_all_iff takeWhile_append2 dropWhile_append2)+

lemma split_spaces_word:
  assumes "list_all (\<lambda>c. \<not> is_space c) w" and "gap \<noteq> []" and "list_all (\<lambda>c. c = CHR '' '') gap"
    and "r \<noteq> []" and "\<not> is_space (hd r)"
  shows "split_spaces (w @ gap @ r) = w # split_spaces r"
proof -
  have gap: "list_all is_space gap" "is_space (hd gap)"
    using blanks [OF assms(3)] assms(2) by (cases gap; simp)+
  have t: "takeWhile (\<lambda>c. \<not> is_space c) (w @ gap @ r) = w" "dropWhile (\<lambda>c. \<not> is_space c) (w @ gap @ r) = gap @ r"
    by (rule while_run; use assms(1,2) gap in simp)+
  have "dropWhile is_space (gap @ r) = r"
    by (rule while_run [OF gap(1) assms(4,5)])
  with t assms(2) show ?thesis by (subst split_spaces.simps) simp
qed

lemma split_spaces_single: "list_all (\<lambda>c. \<not> is_space c) w \<Longrightarrow> split_spaces w = [w]"
  by (subst split_spaces.simps) (auto simp: list_all_iff)

lemma split_spaces_nonempty: "split_spaces s \<noteq> []"
  by (subst split_spaces.simps) (simp add: Let_def)

definition wf_column :: "string \<times> string \<Rightarrow> bool" where
  "wf_column = (\<lambda>(w, gap). w \<noteq> [] \<and> list_all (\<lambda>c. \<not> is_space c) w \<and> gap \<noteq> [] \<and> list_all (\<lambda>c. c = CHR '' '') gap)"

lemma wf_columns_iff: "wf_columns cols \<longleftrightarrow> length cols = 8 \<and> rx_test mode_rx (fst (hd cols)) \<and> list_all wf_column cols"
  by (simp add: wf_columns_def wf_column_def)

lemma hd_columns: "list_all wf_column cols \<Longrightarrow> r \<noteq> [] \<Longrightarrow> \<not> is_space (hd r) \<Longrightarrow>
    column_text cols @ r \<noteq> [] \<and> \<not> is_space (hd (column_text cols @ r))"
  by (cases cols) (auto simp: column_text_def wf_column_def neq_Nil_conv)

lemma split_spaces_columns:
  "list_all wf_column cols \<Longrightarrow> r \<noteq> [] \<Longrightarrow> \<not> is_space (hd r) \<Longrightarrow>
    split_spaces (column_text cols @ r) = map fst cols @ split_spaces r"
proof (induction cols)
  case (Cons col cols)
  obtain w gap where col: "col = (w, gap)" by force
  with Cons.prems have wf: "list_all (\<lambda>c. \<not> is_space c) w" "gap \<noteq> []" "list_all (\<lambda>c. c = CHR '' '') gap" "list_all wf_column cols"
    by (simp_all add: wf_column_def)
  with hd_columns [OF wf(4) Cons.prems(2,3)]
  have "split_spaces (w @ gap @ (column_text cols @ r)) = w # split_spaces (column_text cols @ r)"
    by (intro split_spaces_word) simp_all
  with Cons.IH [OF wf(4) Cons.prems(2,3)] show ?case by (simp add: col column_text_def)
qed (simp add: column_text_def)

lemma column_text_Cons: "column_text ((w, gap) # cols) = w @ gap @ column_text cols"
  by (simp add: column_text_def)

lemma token_end_step:
  assumes "list_all is_space sp" and "v \<noteq> []" and "list_all (\<lambda>c. \<not> is_space c) v" and "r \<noteq> []" and "is_space (hd r)"
  shows "token_end_loop (Suc n) k (sp @ v @ r) =
    (if n = 0 then Some (k + length sp + length v) else token_end_loop n (k + length sp + length v) r)"
proof -
  have "\<not> is_space (hd (v @ r))" using assms(2,3) by (cases v) auto
  with assms(2) have sp: "takeWhile is_space (sp @ v @ r) = sp" "dropWhile is_space (sp @ v @ r) = v @ r"
    by (intro while_run [OF assms(1)]; simp)+
  have v: "takeWhile (\<lambda>c. \<not> is_space c) (v @ r) = v" "dropWhile (\<lambda>c. \<not> is_space c) (v @ r) = r"
    using assms(5) by (intro while_run [OF assms(3,4)]; simp)+
  show ?thesis
    unfolding token_end_loop.simps(2) Let_def sp v using assms(2) by simp
qed

lemma token_end_columns:
  "list_all is_space sp \<Longrightarrow> list_all wf_column cols \<Longrightarrow> wf_column (w, gap) \<Longrightarrow>
    token_end_loop (Suc (length cols)) k (sp @ column_text (cols @ [(w, gap)]) @ r) =
      Some (k + length sp + length (column_text cols) + length w)"
proof (induction cols arbitrary: k sp)
  case Nil
  then have w: "w \<noteq> []" "list_all (\<lambda>c. \<not> is_space c) w" "gap @ r \<noteq> []" "is_space (hd (gap @ r))"
    using blanks [of gap] by (auto simp: wf_column_def neq_Nil_conv)
  show ?case using token_end_step [OF Nil.prems(1) w, of 0 k] by (simp add: column_text_def)
next
  case (Cons col cols)
  obtain v g where col: "col = (v, g)" by force
  let ?r = "column_text (cols @ [(w, gap)]) @ r"
  have w: "v \<noteq> []" "list_all (\<lambda>c. \<not> is_space c) v" "g @ ?r \<noteq> []" "is_space (hd (g @ ?r))" and g: "list_all is_space g"
    using Cons.prems blanks [of g] by (auto simp: wf_column_def neq_Nil_conv col)
  have "token_end_loop (Suc (Suc (length cols))) k (sp @ v @ (g @ ?r)) =
      token_end_loop (Suc (length cols)) (k + length sp + length v) (g @ ?r)"
    unfolding token_end_step [OF Cons.prems(1) w] by simp
  also have "\<dots> = Some (k + length sp + length v + length g + length (column_text cols) + length w)"
    using Cons.prems by (intro Cons.IH g) simp_all
  finally show ?case unfolding col column_text_Cons append_Cons append_assoc length_append length_Cons
    by (simp del: token_end_loop.simps)
qed

subsection \<open>Entries\<close>

lemma index_of_arrow:
  "\<not> sublist '' ->'' name \<Longrightarrow> name = [] \<or> last name \<noteq> CHR '' '' \<Longrightarrow>
    index_of '' -> '' (name @ '' -> '' @ t) = Some (length name)"
proof (induction name)
  case (Cons c s)
  have "\<not> prefix '' -> '' ((c # s) @ '' -> '' @ t)"
  proof
    assume "prefix '' -> '' ((c # s) @ '' -> '' @ t)"
    then have c: "c = CHR '' ''" and p: "prefix ''-> '' (s @ '' -> '' @ t)" by auto
    with Cons.prems obtain x s' where s: "s = x # s'" by (cases s) auto
    with p have x: "x = CHR ''-''" and p': "prefix ''> '' (s' @ '' -> '' @ t)" by auto
    then obtain y u where "s' = y # u" by (cases s') auto
    with p' x s c have "prefix '' ->'' (c # s)" by auto
    with Cons.prems show False by (simp add: sublist_Cons_right)
  qed
  moreover have "\<not> sublist '' ->'' s" and "s = [] \<or> last s \<noteq> CHR '' ''"
    using Cons.prems by (auto simp: sublist_Cons_right split: if_splits)
  ultimately show ?case using Cons.IH by simp
qed simp

lemma trim_columns:
  assumes "list_all wf_column cols" and "cols \<noteq> []" and "r \<noteq> []" and "\<not> is_space (last r)"
  shows "trim (column_text cols @ r) = column_text cols @ r"
proof (rule trim_ident)
  show "\<not> is_space (hd (column_text cols @ r))"
    using assms by (cases cols) (auto simp: column_text_def wf_column_def neq_Nil_conv)
qed (use assms in simp_all)

text \<open>How the name column is read back.\<close>

lemma shown_name_read:
  assumes name: "wf_name name" and target: "starts_with mode ''l'' \<longrightarrow> wf_target target"
  defines "shown \<equiv> shown_name mode name target"
  shows "stripped_name mode shown = name"
    and "shown \<noteq> []" and "\<not> is_space (hd shown)" and "\<not> is_space (last shown)"
proof -
  have ne: "name \<noteq> []" and slash: "CHR ''/'' \<notin> set name" using name by (auto simp: wf_name_def clean_def)
  have noend: "\<not> ends_with name ''/''" using slash ne by (auto simp: ends_with_suffix suffix_def)
  have ends: "ends_with (name @ ''/'') ''/''" by (simp add: ends_with_suffix)
  have arrow: "index_of '' -> '' (name @ '' -> '' @ target) = Some (length name)"
    using name blank_space by (intro index_of_arrow) (auto simp: wf_name_def)
  have both: "\<not> (starts_with mode ''d'' \<and> starts_with mode ''l'')" by (auto simp: starts_with_def prefix_def)
  have split: "(case i of Some j \<Rightarrow> if b then f j else y | None \<Rightarrow> y) = y" if "\<not> b" for i b f and y :: string
    using that by (cases i) auto
  show "stripped_name mode shown = name"
    using both arrow noend ends by (auto simp: stripped_name_def Let_def shown_def shown_name_def split)
  show "shown \<noteq> []" and "\<not> is_space (hd shown)" using name ne by (auto simp: shown_def shown_name_def wf_name_def)
  have "\<not> is_space (CHR ''/'')" by (simp add: char_class_defs)
  then show "\<not> is_space (last shown)"
    using name target ne by (auto simp: shown_def shown_name_def wf_name_def wf_target_def)
qed

lemma parse_listed:
  assumes cols: "wf_columns cols" and name: "wf_name name" and target: "starts_with (fst (hd cols)) ''l'' \<longrightarrow> wf_target target"
  shows "parse_entry (ls_line cols name target) = Some (listed cols name)"
proof -
  let ?mode = "fst (hd cols)"
  let ?shown = "shown_name ?mode name target"
  note shown = shown_name_read [OF name target]
  have len: "length cols = 8" and mode: "rx_test mode_rx ?mode" and wf: "list_all wf_column cols"
    using cols by (auto simp: wf_columns_iff)
  have ne: "cols \<noteq> []" using len by auto
  have line: "ls_line cols name target = column_text cols @ ?shown" by (simp add: ls_line_def)
  have tokens: "split_spaces (trim (column_text cols @ ?shown)) = map fst cols @ split_spaces ?shown"
    using trim_columns [OF wf ne shown(2,4)] split_spaces_columns [OF wf shown(2,3)] by simp
  have count: "length (map fst cols @ split_spaces ?shown) \<ge> 9"
    using len split_spaces_nonempty [of ?shown] by (cases "split_spaces ?shown") auto
  have head: "hd (map fst cols @ split_spaces ?shown) = ?mode" "(map fst cols @ split_spaces ?shown) ! 4 = fst (cols ! 4)"
    using len ne by (simp_all add: hd_map nth_append)
  obtain front w gap where last: "cols = front @ [(w, gap)]" "length front = 7"
    using len by (cases cols rule: rev_cases) auto
  have "nthTokenEnd (column_text cols @ ?shown) 8 = Some (length (column_text front) + length w)"
    using token_end_columns [of "[]" front w gap 0 ?shown] wf last
    by (simp add: nthTokenEnd_def)
  moreover have "drop (length (column_text front) + length w) (column_text cols @ ?shown) = gap @ ?shown"
    by (simp add: last column_text_def)
  moreover have "trim (gap @ ?shown) = ?shown"
  proof -
    have "list_all is_space gap" using wf last blanks [of gap] by (simp add: wf_column_def)
    then have "dropWhile is_space (gap @ ?shown) = ?shown" using shown(2,3) by (rule while_run)
    then have "trim (gap @ ?shown) = trim ?shown"
      using shown(2,3) by (simp add: trim_def trim_start_def) (metis dropWhile.simps(2) list.collapse)
    also have "\<dots> = ?shown" by (rule trim_ident [OF shown(2,3,4)])
    finally show ?thesis .
  qed
  ultimately have name0: "(case nthTokenEnd (column_text cols @ ?shown) 8 of
      Some idx \<Rightarrow> trim (drop idx (column_text cols @ ?shown)) | None \<Rightarrow> join_str '' '' (drop 8 (map fst cols @ split_spaces ?shown))) = ?shown"
    by simp
  have "name \<noteq> []" "name \<noteq> ''.''" "name \<noteq> ''..''" using name by (auto simp: wf_name_def clean_def)
  with count mode show ?thesis
    unfolding parse_entry_def line tokens head Let_def name0 shown(1) by (simp add: listed_def Let_def)
qed

definition ls_output :: "nat \<Rightarrow> (columns \<times> string \<times> string) list \<Rightarrow> string" where
  "ls_output blocks rows =
    join_str [LF] ((''total '' @ nat_str blocks) # map (\<lambda>(cols, name, target). ls_line cols name target) rows) @ [LF]"

definition wf_row :: "columns \<times> string \<times> string \<Rightarrow> bool" where
  "wf_row = (\<lambda>(cols, name, target). wf_columns cols \<and> wf_name name \<and> (starts_with (fst (hd cols)) ''l'' \<longrightarrow> wf_target target))"

lemma no_breaks_space: "list_all (\<lambda>c. \<not> is_space c) w \<Longrightarrow> LF \<notin> set w \<and> CR \<notin> set w"
proof -
  have "is_space LF" "is_space CR" by (simp_all add: char_class_defs)
  moreover assume "list_all (\<lambda>c. \<not> is_space c) w"
  ultimately show ?thesis unfolding list_all_iff by blast
qed

lemma no_breaks_blank: "list_all (\<lambda>c. c = CHR '' '') w \<Longrightarrow> LF \<notin> set w \<and> CR \<notin> set w"
  by (induction w) auto

lemma no_breaks_control: "\<not> list_ex is_control w \<Longrightarrow> LF \<notin> set w \<and> CR \<notin> set w"
proof -
  have "is_control LF" "is_control CR" by (simp_all add: char_class_defs)
  moreover assume "\<not> list_ex is_control w"
  ultimately show ?thesis unfolding list_ex_iff by blast
qed

lemma no_breaks_columns: "list_all wf_column cols \<Longrightarrow> LF \<notin> set (column_text cols) \<and> CR \<notin> set (column_text cols)"
proof (induction cols)
  case (Cons col cols)
  obtain w gap where col: "col = (w, gap)" by force
  with Cons.prems have "LF \<notin> set w \<and> CR \<notin> set w" "LF \<notin> set gap \<and> CR \<notin> set gap" "list_all wf_column cols"
    using no_breaks_space [of w] no_breaks_blank [of gap] by (simp_all add: wf_column_def)
  with Cons.IH show ?case by (simp add: col column_text_Cons)
qed (simp add: column_text_def)

lemma no_breaks_row: "wf_row (cols, name, target) \<Longrightarrow> LF \<notin> set (ls_line cols name target) \<and> CR \<notin> set (ls_line cols name target)"
  using no_breaks_columns [of cols] no_breaks_control [of name] no_breaks_control [of target]
  by (auto simp: wf_row_def ls_line_def shown_name_def wf_columns_iff wf_name_def wf_target_def clean_def)

lemma parse_total: "parse_entry (''total '' @ nat_str n) = None"
proof -
  have "list_all (\<lambda>c. \<not> is_space c) (nat_str n)"
    using nat_str_digits [of n] by (auto simp: list_all_iff char_class_defs)
  moreover have "list_all (\<lambda>c. \<not> is_space c) ''total''" by code_simp
  moreover from calculation have "\<not> is_space (hd (nat_str n))" "\<not> is_space (last (nat_str n))"
    by (simp_all add: list_all_iff)
  moreover have "trim (''total '' @ nat_str n) = ''total '' @ nat_str n"
    using calculation by (intro trim_ident) simp_all
  ultimately have "split_spaces (trim (''total '' @ nat_str n)) = [''total'', nat_str n]"
    using split_spaces_word [of "''total''" "'' ''" "nat_str n"] split_spaces_single [of "nat_str n"] by simp
  then show ?thesis by (simp add: parse_entry_def Let_def)
qed

lemma parse_blank: "parse_entry [] = None"
  using split_spaces_single [of "[]"] by (simp add: parse_entry_def Let_def trim_def trim_start_def trim_end_def)

text \<open>
  The listing printed by ls -lAp is read back: every entry with its name (blanks and arrows inside
  it included), kind, size and mode, the total line and the empty last line dropped, in display order.
\<close>
theorem listing_roundtrip:
  assumes "list_all wf_row rows"
  shows "parseListing localeCompare (ls_output blocks rows) =
    sort_by (entry_order localeCompare) (map (\<lambda>(cols, name, target). listed cols name) rows)"
proof -
  let ?lines = "map (\<lambda>(cols, name, target). ls_line cols name target) rows"
  have "list_all (\<lambda>c. \<not> is_space c) (nat_str blocks)" "list_all (\<lambda>c. c \<noteq> LF \<and> c \<noteq> CR) ''total ''"
    using nat_str_digits [of blocks] by (auto simp: list_all_iff char_class_defs)
  then have "LF \<notin> set (''total '' @ nat_str blocks) \<and> CR \<notin> set (''total '' @ nat_str blocks)"
    using no_breaks_space [of "nat_str blocks"] by auto
  moreover have "\<forall>l \<in> set ?lines. LF \<notin> set l \<and> CR \<notin> set l"
    using assms no_breaks_row by (auto simp: list_all_iff)
  ultimately have lines: "split_lines (ls_output blocks rows) = ((''total '' @ nat_str blocks) # ?lines) @ [[]]"
    unfolding ls_output_def by (intro split_lines_join) auto
  have "List.map_filter parse_entry ?lines = map (\<lambda>(cols, name, target). listed cols name) rows"
    using assms by (induction rows) (auto simp: List.map_filter_simps wf_row_def parse_listed)
  then show ?thesis
    unfolding parseListing_def lines by (simp add: List.map_filter_def parse_total [simplified] parse_blank)
qed

definition example_rows :: "(columns \<times> string \<times> string) list" where
  "example_rows =
    (let rest = [(''2'', '' ''), (''root'', ''  ''), (''root'', '' ''), (''4096'', '' ''), (''Jan'', ''  ''), (''1'', '' ''), (''00:00'', '' '')]
     in [((''-rw-r--r--'', '' '') # rest, ''a - > b.txt'', []), ((''lrwxrwxrwx'', '' '') # rest, ''log'', ''/dev/stdout''),
         ((''drwxr-xr-x'', '' '') # rest, ''etc'', [])])"

theorem listing_roundtrip_witness:
  "parseListing (\<lambda>a b. 0) (ls_output 12 example_rows) =
    sort_by (entry_order (\<lambda>a b. 0)) (map (\<lambda>(cols, name, target). listed cols name) example_rows)"
proof (rule listing_roundtrip)
  show "list_all wf_row example_rows" by code_simp
qed

text \<open>A device file has two numbers (major and minor) where other files have a size: its name comes out wrong.\<close>

lemma device_line:
  "map_option be_name (parse_entry ''crw-rw-rw- 1 root root 1, 3 Jan 1 00:00 null'') = Some ''00:00 null''"
  by code_simp

end
