(* ===== verification/Access.thy ===== *)
theory Access
  imports Tables JsNumber "HOL-Library.Word"
begin

text \<open>
  Who may do what: sessions (packages/db/src/sessions.ts, apps/api/src/lib/session.ts), team membership
  (lib/access.ts), the chain from a team to an environment (lib/projects.ts, lib/scope.ts), API tokens
  (lib/apiTokenAuth.ts), their address lists (lib/ipAllowlist.ts), and the load check in front of new work
  (lib/serverLoad.ts). The state is \<open>Directory\<close>, the tables these functions read; a \<open>limit(1)\<close> query is
  \<open>find\<close>, the first row in the order of the table. Times are milliseconds, random values and hashes are
  parameters.

  The lemmas show that a scope check accepts exactly the chains that belong together, that a session or a
  token is accepted exactly while it is stored and has not expired, and that an address list in CIDR form
  compares the leading bits of 32-bit addresses.
\<close>

record Directory =
  dir_users :: "User list"
  dir_sessions :: "Session list"
  dir_teams :: "Team list"
  dir_members :: "TeamMember list"
  dir_projects :: "Project list"
  dir_environments :: "Environment list"
  dir_tokens :: "ApiToken list"
  dir_servers :: "Server list"
  dir_services :: "Service list"
  dir_applications :: "Application list"
  dir_databases :: "Database list"
  dir_deployments :: "Deployment list"
  dir_schedules :: "BackupSchedule list"
  dir_storages :: "S3Storage list"
  dir_channels :: "NotificationChannel list"
  dir_tasks :: "ScheduledTask list"

section \<open>Sessions\<close>

text \<open>A session id of unknown type is \<open>None\<close> unless it is a text.\<close>

definition session_row :: "Directory \<Rightarrow> string \<Rightarrow> Session option" where
  "session_row d sessionId = find (\<lambda>s. sess_id s = sessionId) (dir_sessions d)"

definition findSessionUser :: "Directory \<Rightarrow> int \<Rightarrow> string option \<Rightarrow> User option" where
  "findSessionUser d now sessionId =
    (if \<not> str_truthy sessionId then None
     else case find (\<lambda>s. sess_id s = the sessionId \<and> list_ex (\<lambda>u. usr_id u = sess_userId s) (dir_users d)) (dir_sessions d) of
       None \<Rightarrow> None
     | Some row \<Rightarrow> if sess_expiresAt row < now then None else find (\<lambda>u. usr_id u = sess_userId row) (dir_users d))"

definition findSessionUserId :: "Directory \<Rightarrow> int \<Rightarrow> string option \<Rightarrow> string option" where
  "findSessionUserId d now sessionId =
    (if \<not> str_truthy sessionId then None
     else case session_row d (the sessionId) of
       None \<Rightarrow> None
     | Some row \<Rightarrow> if sess_expiresAt row < now then None else Some (sess_userId row))"

definition SESSION_TTL_MS :: int where
  "SESSION_TTL_MS = 1000 * 60 * 60 * 24 * 30"

text \<open>\<open>uuids\<close> are the two random identifiers, without their dashes.\<close>

definition createSession :: "string \<Rightarrow> int \<Rightarrow> string \<Rightarrow> Directory \<Rightarrow> (string \<times> int) \<times> Directory" where
  "createSession uuids now userId d =
    (let expiresAt = now + SESSION_TTL_MS
     in ((uuids, expiresAt), d\<lparr>dir_sessions := dir_sessions d @ [new_session uuids now userId expiresAt]\<rparr>))"

definition destroySession :: "string option \<Rightarrow> Directory \<Rightarrow> Directory" where
  "destroySession sessionId d =
    (if \<not> str_truthy sessionId then d
     else d\<lparr>dir_sessions := filter (\<lambda>s. sess_id s \<noteq> the sessionId) (dir_sessions d)\<rparr>)"

record CookieOptions =
  co_httpOnly :: bool
  co_sameSite :: string
  co_secure :: bool
  co_path :: string
  co_expires :: int

definition sessionCookieOptions :: "string option \<Rightarrow> int \<Rightarrow> string option \<Rightarrow> CookieOptions" where
  "sessionCookieOptions webOrigin expires requestOrigin =
    (let configured = trim (hd (split_str '','' (default [] webOrigin)));
         secure = (starts_with configured ''https://'' \<or> starts_with (default [] requestOrigin) ''https://'')
     in \<lparr>co_httpOnly = True, co_sameSite = ''lax'', co_secure = secure, co_path = ''/'', co_expires = expires\<rparr>)"

section \<open>Teams\<close>

definition membership :: "Directory \<Rightarrow> string \<Rightarrow> string \<Rightarrow> TeamMember option" where
  "membership d teamId userId = find (\<lambda>m. tm_teamId m = teamId \<and> tm_userId m = userId) (dir_members d)"

text \<open>The join of a membership with its team and its user.\<close>

definition assertMember :: "Directory \<Rightarrow> string \<Rightarrow> string \<Rightarrow> bool" where
  "assertMember d teamId userId =
    (case (membership d teamId userId, find (\<lambda>t. team_id t = teamId) (dir_teams d), find (\<lambda>u. usr_id u = userId) (dir_users d)) of
       (Some m, Some team, Some u) \<Rightarrow> \<not> team_requireTwoFactor team \<or> usr_totpEnabled u
     | _ \<Rightarrow> False)"

definition assertTeamAdmin :: "Directory \<Rightarrow> string \<Rightarrow> string \<Rightarrow> bool" where
  "assertTeamAdmin d teamId userId =
    (case membership d teamId userId of Some m \<Rightarrow> tm_role m = OwnerRole \<or> tm_role m = AdminRole | None \<Rightarrow> False)"

section \<open>Projects and environments\<close>

definition createDefaultProject :: "string \<Rightarrow> string \<Rightarrow> int \<Rightarrow> string \<Rightarrow> Directory \<Rightarrow> (Project \<times> Environment) \<times> Directory" where
  "createDefaultProject projectId environmentId now teamId d =
    (let project = new_project projectId now teamId ''Default'';
         environment = new_environment environmentId now (prj_id project) ''production''
     in ((project, environment),
         d\<lparr>dir_projects := dir_projects d @ [project], dir_environments := dir_environments d @ [environment]\<rparr>))"

definition loadProject :: "Directory \<Rightarrow> string \<Rightarrow> string \<Rightarrow> Project option" where
  "loadProject d teamId projectId = find (\<lambda>p. prj_id p = projectId \<and> prj_teamId p = teamId) (dir_projects d)"

definition loadEnvironment :: "Directory \<Rightarrow> string \<Rightarrow> string \<Rightarrow> string \<Rightarrow> (Project \<times> Environment) option" where
  "loadEnvironment d teamId projectId environmentId =
    (case loadProject d teamId projectId of
       None \<Rightarrow> None
     | Some project \<Rightarrow>
         (case find (\<lambda>e. envt_id e = environmentId \<and> envt_projectId e = projectId) (dir_environments d) of
            None \<Rightarrow> None
          | Some environment \<Rightarrow> Some (project, environment)))"

text \<open>The status and message of an answer that stops the request; \<open>None\<close> lets it through.\<close>

definition requireEnvironmentScope :: "Directory \<Rightarrow> string option \<Rightarrow> string option \<Rightarrow> string option \<Rightarrow> (int \<times> string) option" where
  "requireEnvironmentScope d teamId projectId environmentId =
    (if \<not> str_truthy teamId \<or> \<not> str_truthy projectId \<or> \<not> str_truthy environmentId then None
     else if list_ex (\<lambda>e. list_ex (\<lambda>p. envt_projectId e = prj_id p \<and> envt_id e = the environmentId \<and>
               prj_id p = the projectId \<and> prj_teamId p = the teamId) (dir_projects d)) (dir_environments d)
     then None
     else Some (404, ''not found''))"

section \<open>API tokens\<close>

text \<open>\<open>random\<close> are 32 random bytes in hexadecimal; \<open>sha256\<close> is the digest in hexadecimal.\<close>

definition generateApiToken :: "string \<Rightarrow> string" where
  "generateApiToken random = ''yeah_'' @ random"

definition bearer_token :: "string option \<Rightarrow> string option" where
  "bearer_token authorizationHeader =
    (case authorizationHeader of
       None \<Rightarrow> None
     | Some h \<Rightarrow>
         if starts_with h ''Bearer '' then (let raw = trim (drop (length ''Bearer '') h) in if raw = [] then None else Some raw)
         else None)"

definition token_row :: "(string \<Rightarrow> string) \<Rightarrow> Directory \<Rightarrow> string option \<Rightarrow> ApiToken option" where
  "token_row sha256 d authorizationHeader =
    (case bearer_token authorizationHeader of
       None \<Rightarrow> None
     | Some raw \<Rightarrow> find (\<lambda>t. tok_tokenHash t = sha256 raw) (dir_tokens d))"

definition peekApiTokenName :: "(string \<Rightarrow> string) \<Rightarrow> Directory \<Rightarrow> string option \<Rightarrow> string option" where
  "peekApiTokenName sha256 d authorizationHeader = map_option tok_name (token_row sha256 d authorizationHeader)"

text \<open>The write of the last use does not hold up the request; here it is done when the token is resolved.\<close>

definition resolveApiToken :: "(string \<Rightarrow> string) \<Rightarrow> int \<Rightarrow> string option \<Rightarrow> Directory \<Rightarrow> ApiToken option \<times> Directory" where
  "resolveApiToken sha256 now authorizationHeader d =
    (case token_row sha256 d authorizationHeader of
       None \<Rightarrow> (None, d)
     | Some token \<Rightarrow>
         if (case tok_expiresAt token of Some e \<Rightarrow> e < now | None \<Rightarrow> False) then (None, d)
         else (Some token, d\<lparr>dir_tokens := map (\<lambda>t. if tok_id t = tok_id token then t\<lparr>tok_lastUsedAt := Some now\<rparr> else t) (dir_tokens d)\<rparr>))"

section \<open>Address lists\<close>

definition octet :: "string \<Rightarrow> nat option" where
  "octet p =
    (if rx_test (rx_between 1 3 (RCls is_digit)) p \<and> nat_of_digits p \<le> 255 then Some (nat_of_digits p) else None)"

fun octets_value :: "string list \<Rightarrow> nat \<Rightarrow> nat option" where
  "octets_value [] n = Some n"
| "octets_value (p # ps) n = (case octet p of None \<Rightarrow> None | Some v \<Rightarrow> octets_value ps (n * 256 + v))"

definition ipv4ToInt :: "string \<Rightarrow> nat option" where
  "ipv4ToInt ip = (let parts = split_str ''.'' ip in if length parts \<noteq> 4 then None else octets_value parts 0)"

definition entryMatches :: "string \<Rightarrow> string \<Rightarrow> bool" where
  "entryMatches ip entry =
    (case split_str ''/'' entry of
       base # bits # _ \<Rightarrow>
         (case (ipv4ToInt ip, ipv4ToInt base, js_Number bits) of
            (Some a, Some b, Finite q) \<Rightarrow>
              if q \<noteq> of_int \<lfloor>q\<rfloor> \<or> q < 0 \<or> 32 < q then False
              else if q = 0 then True
              else (let shift = 2 ^ (32 - nat \<lfloor>q\<rfloor>) in a div shift = b div shift)
          | _ \<Rightarrow> False)
     | _ \<Rightarrow> ip = entry)"

definition ip_entries :: "string \<Rightarrow> string list" where
  "ip_entries l = filter (\<lambda>e. e \<noteq> []) (map trim (split_str '','' l))"

definition ip_char :: "char \<Rightarrow> bool" where
  "ip_char c \<longleftrightarrow> is_digit c \<or> in_range 97 102 c \<or> in_range 65 70 c \<or> c = CHR '':'' \<or> c = CHR ''.''"

definition valid_ip_entry :: "string \<Rightarrow> bool" where
  "valid_ip_entry e =
    (case split_str ''/'' e of
       base # bits # _ \<Rightarrow> ipv4ToInt base \<noteq> None \<and> rx_test (rx_between 1 2 (RCls is_digit)) bits \<and> nat_of_digits bits \<le> 32
     | _ \<Rightarrow> rx_test (rx_plus (RCls ip_char)) e \<and> (ipv4ToInt e \<noteq> None \<or> includes_str e '':''))"

definition isValidIpList :: "string \<Rightarrow> bool" where
  "isValidIpList l \<longleftrightarrow> ip_entries l \<noteq> [] \<and> list_all valid_ip_entry (ip_entries l)"

definition ipAllowed :: "string \<Rightarrow> string option \<Rightarrow> bool" where
  "ipAllowed ip l = (if \<not> str_truthy l then True else list_ex (entryMatches ip) (ip_entries (the l)))"

section \<open>Load of a server\<close>

definition METRICS_FRESH_MS :: int where
  "METRICS_FRESH_MS = 10 * 60000"

definition DISK_BLOCK_PERCENT :: nat where
  "DISK_BLOCK_PERCENT = 95"

definition MEM_BLOCK_PERCENT :: nat where
  "MEM_BLOCK_PERCENT = 95"

fun decimal_ge :: "decimal \<Rightarrow> nat \<Rightarrow> bool" where
  "decimal_ge (Decimal m e) n = (n * 10 ^ e \<le> m)"

text \<open>\<open>Math.round\<close>.\<close>

fun decimal_round :: "decimal \<Rightarrow> nat" where
  "decimal_round (Decimal m e) = (2 * m + 10 ^ e) div (2 * 10 ^ e)"

definition load_problem :: "string \<Rightarrow> nat \<Rightarrow> decimal option \<Rightarrow> string list" where
  "load_problem what limit percent =
    (case percent of
       Some p \<Rightarrow> if decimal_ge p limit then [what @ '' at '' @ nat_str (decimal_round p) @ ''%''] else []
     | None \<Rightarrow> [])"

definition overloadReason :: "Server \<Rightarrow> int \<Rightarrow> string option" where
  "overloadReason server now =
    (case srv_metricsCheckedAt server of
       None \<Rightarrow> None
     | Some t \<Rightarrow>
         if METRICS_FRESH_MS < now - t then None
         else (let problems = load_problem ''disk'' DISK_BLOCK_PERCENT (srv_diskPercent server) @
                 load_problem ''memory'' MEM_BLOCK_PERCENT (srv_memPercent server)
               in if problems = [] then None
                  else Some (''Server '' @ [DQ] @ srv_name server @ [DQ] @ '' is at '' @ join_str '' and '' problems @
                    '' '' @ em_dash @ '' the build/provisioning will probably fail. Free up space/memory first, or confirm to try anyway.'')))"

section \<open>The scope of a request\<close>

lemma find_SomeD: "find P xs = Some x \<Longrightarrow> x \<in> set xs \<and> P x"
  by (auto simp: find_Some_iff)

lemma find_iff: "find P xs \<noteq> None \<longleftrightarrow> list_ex P xs"
  by (auto simp: find_None_iff list_ex_iff)

text \<open>
  The scope check and the chain the routes load agree: a request with a complete path passes exactly when
  its team owns the project and the project holds the environment; a path with an empty part is not checked.
\<close>
theorem scope_equals_chain:
  "requireEnvironmentScope d (Some teamId) (Some projectId) (Some environmentId) = None \<longleftrightarrow>
     [] \<in> {teamId, projectId, environmentId} \<or>
     (\<exists>p e. loadEnvironment d teamId projectId environmentId = Some (p, e) \<and> p \<in> set (dir_projects d) \<and> e \<in> set (dir_environments d) \<and>
        prj_teamId p = teamId \<and> prj_id p = projectId \<and> envt_projectId e = projectId \<and> envt_id e = environmentId)"
  (is "_ \<longleftrightarrow> ?E \<or> ?R")
proof -
  have "?R \<longleftrightarrow> list_ex (\<lambda>e. list_ex (\<lambda>p. envt_projectId e = prj_id p \<and> envt_id e = environmentId \<and>
      prj_id p = projectId \<and> prj_teamId p = teamId) (dir_projects d)) (dir_environments d)" (is "_ = ?L")
  proof
    show "?R \<Longrightarrow> ?L" by (fastforce simp: list_ex_iff)
  next
    assume ?L
    then have "loadProject d teamId projectId \<noteq> None"
      and env: "find (\<lambda>e. envt_id e = environmentId \<and> envt_projectId e = projectId) (dir_environments d) \<noteq> None"
      unfolding loadProject_def find_iff by (auto simp: list_ex_iff)
    then obtain p e where "loadProject d teamId projectId = Some p"
      and "find (\<lambda>e. envt_id e = environmentId \<and> envt_projectId e = projectId) (dir_environments d) = Some e" by auto
    then show ?R unfolding loadProject_def
      by (intro exI [of _ p] exI [of _ e]) (auto simp: loadEnvironment_def loadProject_def dest!: find_SomeD)
  qed
  then show ?thesis by (auto simp: requireEnvironmentScope_def str_truthy_def)
qed

section \<open>Addresses as words\<close>

definition dotted :: "32 word \<Rightarrow> string" where
  "dotted w = join_str ''.'' (map (\<lambda>k. nat_str (unat (drop_bit k w) mod 256)) [24, 16, 8, 0])"

lemma digits_le: "n < 256 \<Longrightarrow> rx_test (rx_between 1 3 (RCls is_digit)) (nat_str n)"
proof -
  assume "n < 256"
  then have "length (nat_str n) \<le> 3" by (simp add: nat_str.simps)
  moreover have "1 \<le> length (nat_str n)" by (simp add: Suc_le_eq)
  ultimately show ?thesis using nat_str_digits [of n]
    unfolding rx_test_accepts by (subst accepts_between_cls) auto
qed

lemma octet_nat_str: "n < 256 \<Longrightarrow> octet (nat_str n) = Some n"
  using digits_le [of n] by (simp add: octet_def)

lemma unat_drop: "unat (drop_bit k w) = unat w div 2 ^ k" for w :: "32 word"
proof -
  have "unat w < 2 ^ LENGTH(32)" by (rule unsigned_less)
  then have "take_bit 32 (unat w) = unat w" by (simp add: take_bit_nat_eq_self_iff)
  then show ?thesis unfolding unsigned_drop_bit_eq by (simp add: drop_bit_eq_div)
qed

lemma ipv4_dotted: "ipv4ToInt (dotted w) = Some (unat w)"
proof -
  define n where "n = unat w"
  have "unat w < 2 ^ LENGTH(32)" by (rule unsigned_less)
  then have n: "n < 4294967296" by (simp add: n_def)
  let ?b = "\<lambda>k. n div 2 ^ k mod 256"
  have dotted: "dotted w = join_str ''.'' (map (\<lambda>k. nat_str (?b k)) [24, 16, 8, 0])"
    unfolding dotted_def unat_drop n_def by simp
  have no_dot: "CHR ''.'' \<notin> set (nat_str m)" for m
    using nat_str_digits [of m] by (auto simp: char_class_defs)
  have "split_str ''.'' (dotted w) = map (\<lambda>k. nat_str (?b k)) [24, 16, 8, 0]"
    unfolding dotted by (rule split_join_char) (auto simp: no_dot)
  moreover have "((?b 24 * 256 + ?b 16) * 256 + ?b 8) * 256 + ?b 0 = n"
  proof -
    have "n div 2 ^ 24 < 256" using n by (simp add: less_mult_imp_div_less)
    then have "?b 24 = n div 2 ^ 16 div 256" by (simp add: div_mult2_eq [symmetric])
    moreover have "?b 16 = n div 2 ^ 8 div 256 mod 256" "n div 2 ^ 16 = n div 2 ^ 8 div 256" "n div 2 ^ 8 = n div 256"
      by (simp_all add: div_mult2_eq [symmetric])
    ultimately show ?thesis
      using div_mult_mod_eq [of n 256] div_mult_mod_eq [of "n div 256" 256] div_mult_mod_eq [of "n div 256 div 256" 256] by simp
  qed
  moreover have "n div 16777216 < 256" using n by (simp add: less_mult_imp_div_less)
  ultimately show ?thesis by (simp add: ipv4ToInt_def octet_nat_str n_def [symmetric])
qed

lemma no_slash: "CHR ''/'' \<notin> set (dotted w)"
  using nat_str_digits by (fastforce simp: dotted_def char_class_defs)

lemma entry_cidr:
  assumes "len \<le> 32"
  shows "entryMatches (dotted a) (dotted b @ ''/'' @ nat_str len) \<longleftrightarrow> unat a div 2 ^ (32 - len) = unat b div 2 ^ (32 - len)"
proof -
  have slash: "CHR ''/'' \<notin> set (nat_str len)" using nat_str_chars by (fastforce simp: char_class_defs)
  have split: "split_str ''/'' (dotted b @ ''/'' @ nat_str len) = [dotted b, nat_str len]"
    using split_char_append [OF no_slash, of b "nat_str len"] split_char_absent [OF slash] by simp
  have full: "unat w div 2 ^ 32 = 0" for w :: "32 word"
  proof -
    have "unat w < 2 ^ LENGTH(32)" by (rule unsigned_less)
    then show ?thesis by simp
  qed
  show ?thesis unfolding entryMatches_def split
    using assms full by (auto simp: ipv4_dotted js_Number_nat_str Let_def)
qed

text \<open>
  An entry in CIDR form admits exactly the addresses whose leading bits are those of its base, the
  addresses taken as 32-bit words.
\<close>
theorem cidr_compares_leading_bits:
  assumes "len \<le> 32"
  shows "ipAllowed (dotted a) (Some (dotted b @ ''/'' @ nat_str len)) \<longleftrightarrow> drop_bit (32 - len) a = drop_bit (32 - len) b"
proof -
  let ?e = "dotted b @ ''/'' @ nat_str len"
  have chars: "c = CHR ''.'' \<or> c = CHR ''/'' \<or> is_digit c" if "c \<in> set ?e" for c
    using that nat_str_chars by (fastforce simp: dotted_def)
  have plain: "\<not> is_space c" "c \<noteq> CHR '',''" if "c \<in> set ?e" for c
    using chars [OF that] by (auto simp: char_class_defs)
  have ne: "?e \<noteq> []" by simp
  have "trim ?e = ?e" using plain(1) [OF hd_in_set [OF ne]] plain(1) [OF last_in_set [OF ne]] by (intro trim_ident [OF ne])
  moreover have "split_str '','' ?e = [?e]" using plain(2) by (intro split_char_absent) blast
  ultimately have "ip_entries ?e = [?e]" using ne by (simp only: ip_entries_def list.map filter.simps if_True not_False_eq_True)
  then have "ipAllowed (dotted a) (Some ?e) \<longleftrightarrow> unat a div 2 ^ (32 - len) = unat b div 2 ^ (32 - len)"
    using entry_cidr [OF assms] by (simp add: ipAllowed_def str_truthy_def)
  then show ?thesis
    unfolding word_unat_eq_iff unat_drop by simp
qed

theorem cidr_compares_leading_bits_witness:
  "ipAllowed (dotted 0xC0A80182) (Some (dotted 0xC0A80180 @ ''/'' @ nat_str 25)) \<longleftrightarrow>
    drop_bit (32 - 25) (0xC0A80182 :: 32 word) = drop_bit (32 - 25) 0xC0A80180"
  by (rule cidr_compares_leading_bits) simp

end
