(* ===== verification/TokenApi.thy ===== *)
theory TokenApi
  imports Access Gates
begin

text \<open>
  The API of personal tokens: the actions (apps/api/src/lib/ciActions.ts), the REST routes over them
  (routes/ci.ts) and the MCP endpoint (lib/mcp.ts, routes/mcp.ts). The state is \<open>ApiWorld\<close>: the tables, the
  jobs put on the queues and the audit rows written for a token. A REST answer is a status and a JSON value.
  The environment \<open>ApiEnv\<close> gives the time, the id of the next row, the digest and the text of a date.
  A row that was inserted is returned by the database, so the branches for an insert without a row are not
  reached; a resource URI named like an inherited property of Object is not distinguished from an unknown one.

  The theorems show that a read token changes nothing, that what a token reads depends only on the rows of its
  team, and that what it writes stays in that team.
\<close>

datatype queued_job = DeployJob string | BackupJob string bool

record ApiWorld =
  aw_dir :: Directory
  aw_jobs :: "queued_job list"
  aw_audit :: "AuditEvent list"

record ApiEnv =
  ev_now :: int
  ev_fresh :: "ApiWorld \<Rightarrow> string"
  ev_sha256 :: "string \<Rightarrow> string"
  ev_iso :: "int \<Rightarrow> string"
  ev_nonint :: string

definition opt_json :: "('a \<Rightarrow> jv) \<Rightarrow> 'a option \<Rightarrow> jv" where
  "opt_json f v = (case v of None \<Rightarrow> JNull | Some x \<Rightarrow> f x)"

section \<open>ciActions.ts\<close>

datatype 'a ActionResult = ActionOk 'a | ActionFail int string "string option"

definition listApplications :: "Directory \<Rightarrow> string \<Rightarrow> jv list" where
  "listApplications d teamId =
    map (\<lambda>a. JObj [(''id'', JStr (app_id a)), (''name'', JStr (app_name a)), (''status'', JStr (app_status_str (app_status a))),
                   (''domain'', opt_json JStr (app_domain a)), (''serverId'', JStr (app_serverId a))])
      (filter (\<lambda>a. app_teamId a = teamId) (dir_applications d))"

definition listDatabases :: "Directory \<Rightarrow> string \<Rightarrow> jv list" where
  "listDatabases d teamId =
    map (\<lambda>b. JObj [(''id'', JStr (dbs_id b)), (''name'', JStr (dbs_name b)), (''engine'', JStr (engine_str (dbs_engine b))),
                   (''status'', JStr (db_status_str (dbs_status b)))])
      (filter (\<lambda>b. dbs_teamId b = teamId) (dir_databases d))"

definition listServices :: "Directory \<Rightarrow> string \<Rightarrow> jv list" where
  "listServices d teamId =
    map (\<lambda>v. JObj [(''id'', JStr (svc_id v)), (''name'', JStr (svc_name v)), (''status'', JStr (svc_status_str (svc_status v)))])
      (filter (\<lambda>v. svc_teamId v = teamId) (dir_services d))"

definition own_application :: "Directory \<Rightarrow> string \<Rightarrow> string \<Rightarrow> Application option" where
  "own_application d teamId applicationId = find (\<lambda>a. app_id a = applicationId \<and> app_teamId a = teamId) (dir_applications d)"

definition latest_deployments :: "ApiEnv \<Rightarrow> Directory \<Rightarrow> nat \<Rightarrow> string \<Rightarrow> jv list" where
  "latest_deployments ev d limit applicationId =
    map (\<lambda>p. JObj [(''id'', JStr (dep_id p)), (''status'', JStr (dep_status_str (dep_status p))),
                   (''createdAt'', JStr (ev_iso ev (dep_createdAt p))),
                   (''finishedAt'', opt_json (\<lambda>t. JStr (ev_iso ev t)) (dep_finishedAt p))])
      (take limit (sort_by (\<lambda>a b. cmp_key dep_createdAt b a) (filter (\<lambda>p. dep_applicationId p = applicationId) (dir_deployments d))))"

definition listDeployments :: "ApiEnv \<Rightarrow> Directory \<Rightarrow> string \<Rightarrow> string \<Rightarrow> jv list ActionResult" where
  "listDeployments ev d teamId applicationId =
    (case own_application d teamId applicationId of
       None \<Rightarrow> ActionFail 404 ''application not found'' None
     | Some application \<Rightarrow> ActionOk (latest_deployments ev d 10 applicationId))"

definition preview_fields :: "ApiEnv \<Rightarrow> Application \<Rightarrow> (string \<times> jv) list" where
  "preview_fields ev a =
    [(''id'', JStr (app_id a)), (''name'', JStr (app_name a)), (''prNumber'', opt_json JNum (app_prNumber a)),
     (''branch'', JStr (app_branch a)), (''domain'', opt_json JStr (app_domain a)),
     (''status'', JStr (app_status_str (app_status a))), (''createdAt'', JStr (ev_iso ev (app_createdAt a)))]"

definition listPreviews :: "ApiEnv \<Rightarrow> Directory \<Rightarrow> string \<Rightarrow> string \<Rightarrow> jv list ActionResult" where
  "listPreviews ev d teamId applicationId =
    (case own_application d teamId applicationId of
       None \<Rightarrow> ActionFail 404 ''application not found'' None
     | Some application \<Rightarrow> ActionOk (map (\<lambda>a. JObj (preview_fields ev a))
         (sort_by (\<lambda>a b. cmp_key app_createdAt b a)
           (filter (\<lambda>a. app_previewOfId a = Some applicationId \<and> app_teamId a = teamId) (dir_applications d)))))"

definition getPreview :: "ApiEnv \<Rightarrow> Directory \<Rightarrow> string \<Rightarrow> string \<Rightarrow> string \<Rightarrow> jv ActionResult" where
  "getPreview ev d teamId applicationId previewId =
    (case find (\<lambda>a. app_id a = previewId \<and> app_previewOfId a = Some applicationId \<and> app_teamId a = teamId) (dir_applications d) of
       None \<Rightarrow> ActionFail 404 ''preview not found'' None
     | Some preview \<Rightarrow> ActionOk (JObj (preview_fields ev preview @ [(''deployments'', JArr (latest_deployments ev d 5 previewId))])))"

definition triggerDeploy :: "ApiEnv \<Rightarrow> string \<Rightarrow> string \<Rightarrow> bool \<Rightarrow> ApiWorld \<Rightarrow> jv ActionResult \<times> ApiWorld" where
  "triggerDeploy ev teamId applicationId force w =
    (let d = aw_dir w in
     case own_application d teamId applicationId of
       None \<Rightarrow> (ActionFail 404 ''application not found'' None, w)
     | Some application \<Rightarrow>
         (let overload = (case find (\<lambda>s. srv_id s = app_serverId application) (dir_servers d) of
                Some server \<Rightarrow> overloadReason server (ev_now ev) | None \<Rightarrow> None)
          in if overload \<noteq> None \<and> \<not> force then (ActionFail 409 (the overload) (Some ''server_overloaded''), w)
             else
               (let deployment = new_deployment (ev_fresh ev w) (ev_now ev) (app_id application)
                in (ActionOk (JObj [(''deploymentId'', JStr (dep_id deployment))]),
                    w\<lparr>aw_dir := d\<lparr>dir_deployments := dir_deployments d @ [deployment]\<rparr>,
                      aw_jobs := aw_jobs w @ [DeployJob (dep_id deployment)]\<rparr>))))"

definition triggerBackup :: "string \<Rightarrow> string \<Rightarrow> ApiWorld \<Rightarrow> jv ActionResult \<times> ApiWorld" where
  "triggerBackup teamId databaseId w =
    (case find (\<lambda>b. dbs_id b = databaseId \<and> dbs_teamId b = teamId) (dir_databases (aw_dir w)) of
       None \<Rightarrow> (ActionFail 404 ''database not found'' None, w)
     | Some database \<Rightarrow>
         (case find (\<lambda>c. bsc_databaseId c = dbs_id database) (dir_schedules (aw_dir w)) of
            None \<Rightarrow> (ActionFail 404 (''this database has no backup schedule '' @ em_dash @
                      '' create one in the panel before triggering from here'') None, w)
          | Some schedule \<Rightarrow> (ActionOk (JObj [(''queued'', JBool True)]),
              w\<lparr>aw_jobs := aw_jobs w @ [BackupJob (bsc_id schedule) True]\<rparr>)))"

datatype MovableKind = MoveApplication | MoveDatabase | MoveService

fun movable_str :: "MovableKind \<Rightarrow> string" where
  "movable_str MoveApplication = ''application''"
| "movable_str MoveDatabase = ''database''"
| "movable_str MoveService = ''service''"

definition own_environment :: "Directory \<Rightarrow> string \<Rightarrow> string \<Rightarrow> bool" where
  "own_environment d teamId environmentId \<longleftrightarrow>
    list_ex (\<lambda>e. envt_id e = environmentId \<and>
      list_ex (\<lambda>p. envt_projectId e = prj_id p \<and> prj_teamId p = teamId) (dir_projects d)) (dir_environments d)"

definition move_rows :: "MovableKind \<Rightarrow> string \<Rightarrow> string \<Rightarrow> string \<Rightarrow> Directory \<Rightarrow> bool \<times> Directory" where
  "move_rows kind teamId resourceId environmentId d =
    (case kind of
       MoveApplication \<Rightarrow>
         (list_ex (\<lambda>a. app_id a = resourceId \<and> app_teamId a = teamId) (dir_applications d),
          d\<lparr>dir_applications := map (\<lambda>a. if app_id a = resourceId \<and> app_teamId a = teamId then a\<lparr>app_environmentId := environmentId\<rparr> else a) (dir_applications d)\<rparr>)
     | MoveDatabase \<Rightarrow>
         (list_ex (\<lambda>b. dbs_id b = resourceId \<and> dbs_teamId b = teamId) (dir_databases d),
          d\<lparr>dir_databases := map (\<lambda>b. if dbs_id b = resourceId \<and> dbs_teamId b = teamId then b\<lparr>dbs_environmentId := environmentId\<rparr> else b) (dir_databases d)\<rparr>)
     | MoveService \<Rightarrow>
         (list_ex (\<lambda>v. svc_id v = resourceId \<and> svc_teamId v = teamId) (dir_services d),
          d\<lparr>dir_services := map (\<lambda>v. if svc_id v = resourceId \<and> svc_teamId v = teamId then v\<lparr>svc_environmentId := environmentId\<rparr> else v) (dir_services d)\<rparr>))"

definition moveResource :: "string \<Rightarrow> MovableKind \<Rightarrow> string \<Rightarrow> string \<Rightarrow> ApiWorld \<Rightarrow> jv ActionResult \<times> ApiWorld" where
  "moveResource teamId kind resourceId targetEnvironmentId w =
    (if \<not> own_environment (aw_dir w) teamId targetEnvironmentId then (ActionFail 404 ''environment not found'' None, w)
     else
       (let (updated, d') = move_rows kind teamId resourceId targetEnvironmentId (aw_dir w)
        in if \<not> updated then (ActionFail 404 (movable_str kind @ '' not found'') None, w\<lparr>aw_dir := d'\<rparr>)
           else (ActionOk (JObj [(''environmentId'', JStr targetEnvironmentId)]), w\<lparr>aw_dir := d'\<rparr>)))"

definition listServers :: "Directory \<Rightarrow> string \<Rightarrow> jv list" where
  "listServers d teamId =
    map (\<lambda>s. JObj [(''id'', JStr (srv_id s)), (''name'', JStr (srv_name s)), (''host'', JStr (srv_host s)),
                   (''status'', JStr (server_status_str (srv_status s))), (''proxyStatus'', JStr (proxy_status_str (srv_proxyStatus s)))])
      (filter (\<lambda>s. srv_teamId s = teamId) (dir_servers d))"

definition listProjects :: "Directory \<Rightarrow> string \<Rightarrow> jv list" where
  "listProjects d teamId =
    (let projectRows = filter (\<lambda>p. prj_teamId p = teamId) (dir_projects d);
         envRows = filter (\<lambda>e. envt_projectId e \<in> set (map prj_id projectRows)) (dir_environments d)
     in map (\<lambda>p. JObj [(''id'', JStr (prj_id p)), (''name'', JStr (prj_name p)),
                       (''environments'', JArr (map (\<lambda>e. JObj [(''id'', JStr (envt_id e)), (''name'', JStr (envt_name e))])
                          (filter (\<lambda>e. envt_projectId e = prj_id p) envRows)))]) projectRows)"

definition listStorages :: "Directory \<Rightarrow> string \<Rightarrow> jv list" where
  "listStorages d teamId =
    map (\<lambda>s. JObj [(''id'', JStr (s3_id s)), (''name'', JStr (s3_name s)), (''bucket'', JStr (s3_bucket s)),
                   (''region'', JStr (s3_region s)), (''endpoint'', opt_json JStr (s3_endpoint s))])
      (filter (\<lambda>s. s3_teamId s = teamId) (dir_storages d))"

definition listNotificationChannels :: "Directory \<Rightarrow> string \<Rightarrow> jv list" where
  "listNotificationChannels d teamId =
    map (\<lambda>c. JObj [(''id'', JStr (nch_id c)), (''name'', JStr (nch_name c)), (''type'', JStr (channel_type_str (nch_type c)))])
      (filter (\<lambda>c. nch_teamId c = teamId) (dir_channels d))"

text \<open>The inner join gives a row for every application a task matches.\<close>

definition listScheduledTasks :: "Directory \<Rightarrow> string \<Rightarrow> jv list" where
  "listScheduledTasks d teamId =
    concat (map (\<lambda>t. map (\<lambda>a. JObj [(''id'', JStr (stk_id t)), (''name'', JStr (stk_name t)), (''cron'', JStr (stk_cron t)),
                                   (''enabled'', JBool (stk_enabled t)), (''applicationId'', JStr (stk_applicationId t))])
        (filter (\<lambda>a. stk_applicationId t = app_id a \<and> app_teamId a = teamId) (dir_applications d))) (dir_tasks d))"

section \<open>The REST routes\<close>

type_synonym response = "int \<times> jv"

definition error_body :: "string \<Rightarrow> jv" where
  "error_body message = JObj [(''error'', JStr message)]"

definition client_of :: "ApiEnv \<Rightarrow> string option \<Rightarrow> string \<Rightarrow> string \<Rightarrow> ApiWorld \<Rightarrow> ((int \<times> string) + ApiToken) \<times> ApiWorld" where
  "client_of ev authorization ip teamId w =
    (let (found, d') = resolveApiToken (ev_sha256 ev) (ev_now ev) authorization (aw_dir w); w' = w\<lparr>aw_dir := d'\<rparr>
     in case found of
          None \<Rightarrow> (Inl (401, ''unauthorized''), w')
        | Some token \<Rightarrow>
            if tok_teamId token \<noteq> teamId then (Inl (401, ''unauthorized''), w')
            else if \<not> ipAllowed ip (tok_allowedIps token) then (Inl (403, ''IP not allowed for this token''), w')
            else (Inr token, w'))"

datatype CiRequest =
    GetApplications | GetDatabases | GetServices | GetServers | GetProjects | GetStorages | GetChannels | GetTasks
  | GetDeployments string
  | GetPreviews string
  | GetOnePreview string string
  | PostDeploy string "string option"
  | PostBackup string
  | PostMove MovableKind string string

definition answer :: "(jv \<Rightarrow> jv) \<Rightarrow> jv ActionResult \<Rightarrow> response" where
  "answer f result =
    (case result of ActionOk v \<Rightarrow> (200, f v) | ActionFail status message tag \<Rightarrow> (status, error_body message))"

definition list_result :: "jv list ActionResult \<Rightarrow> jv ActionResult" where
  "list_result r = (case r of ActionOk xs \<Rightarrow> ActionOk (JArr xs) | ActionFail status message tag \<Rightarrow> ActionFail status message tag)"

fun ci_read :: "ApiEnv \<Rightarrow> string \<Rightarrow> Directory \<Rightarrow> CiRequest \<Rightarrow> response" where
  "ci_read ev teamId d GetApplications = (200, JObj [(''applications'', JArr (listApplications d teamId))])"
| "ci_read ev teamId d GetDatabases = (200, JObj [(''databases'', JArr (listDatabases d teamId))])"
| "ci_read ev teamId d GetServices = (200, JObj [(''services'', JArr (listServices d teamId))])"
| "ci_read ev teamId d GetServers = (200, JObj [(''servers'', JArr (listServers d teamId))])"
| "ci_read ev teamId d GetProjects = (200, JObj [(''projects'', JArr (listProjects d teamId))])"
| "ci_read ev teamId d GetStorages = (200, JObj [(''storages'', JArr (listStorages d teamId))])"
| "ci_read ev teamId d GetChannels = (200, JObj [(''notificationChannels'', JArr (listNotificationChannels d teamId))])"
| "ci_read ev teamId d GetTasks = (200, JObj [(''scheduledTasks'', JArr (listScheduledTasks d teamId))])"
| "ci_read ev teamId d (GetDeployments applicationId) =
    answer (\<lambda>v. JObj [(''deployments'', v)]) (list_result (listDeployments ev d teamId applicationId))"
| "ci_read ev teamId d (GetPreviews applicationId) =
    answer (\<lambda>v. JObj [(''previews'', v)]) (list_result (listPreviews ev d teamId applicationId))"
| "ci_read ev teamId d (GetOnePreview applicationId previewId) =
    answer (\<lambda>v. JObj [(''preview'', v)]) (getPreview ev d teamId applicationId previewId)"
| "ci_read ev teamId d other = (405, JUndef)"

definition deploy_answer :: "jv ActionResult \<Rightarrow> response" where
  "deploy_answer result =
    (case result of
       ActionOk v \<Rightarrow> (200, v)
     | ActionFail status message tag \<Rightarrow>
         (status, JObj ((''error'', JStr message) # (case tag of Some c \<Rightarrow> [(''code'', JStr c)] | None \<Rightarrow> []))))"

fun ci_write :: "ApiEnv \<Rightarrow> string \<Rightarrow> CiRequest \<Rightarrow> ApiWorld \<Rightarrow> response \<times> ApiWorld" where
  "ci_write ev teamId (PostDeploy applicationId force) w =
    (case triggerDeploy ev teamId applicationId (force = Some ''true'') w of (r, w') \<Rightarrow> (deploy_answer r, w'))"
| "ci_write ev teamId (PostBackup databaseId) w =
    (case triggerBackup teamId databaseId w of (r, w') \<Rightarrow> (answer (\<lambda>v. v) r, w'))"
| "ci_write ev teamId (PostMove kind resourceId environmentId) w =
    (case moveResource teamId kind resourceId environmentId w of (r, w') \<Rightarrow> (answer (\<lambda>v. v) r, w'))"
| "ci_write ev teamId other w = (ci_read ev teamId (aw_dir w) other, w)"

definition is_write :: "CiRequest \<Rightarrow> bool" where
  "is_write request =
    (case request of PostDeploy _ _ \<Rightarrow> True | PostBackup _ \<Rightarrow> True | PostMove _ _ _ \<Rightarrow> True | _ \<Rightarrow> False)"

definition makeCiRoutes ::
  "ApiEnv \<Rightarrow> string option \<Rightarrow> string option \<Rightarrow> string option \<Rightarrow> string \<Rightarrow> CiRequest \<Rightarrow> ApiWorld \<Rightarrow> response \<times> ApiWorld" where
  "makeCiRoutes ev authorization realIp peer teamId request w =
    (case client_of ev authorization (clientIp realIp peer) teamId w of
       (Inl (status, message), w') \<Rightarrow> ((status, error_body message), w')
     | (Inr token, w') \<Rightarrow>
         if is_write request \<and> tok_permission token \<noteq> FullToken then ((403, error_body ''this token is read-only''), w')
         else ci_write ev teamId request w')"

section \<open>mcp.ts\<close>

record 'w McpOps =
  op_listApplications :: "'w \<Rightarrow> jv list"
  op_listDatabases :: "'w \<Rightarrow> jv list"
  op_listServices :: "'w \<Rightarrow> jv list"
  op_listDeployments :: "string \<Rightarrow> 'w \<Rightarrow> jv ActionResult"
  op_deploy :: "string \<Rightarrow> bool \<Rightarrow> 'w \<Rightarrow> jv ActionResult \<times> 'w"
  op_backup :: "string \<Rightarrow> 'w \<Rightarrow> jv ActionResult \<times> 'w"

record McpTool =
  mt_name :: string
  mt_description :: string
  mt_write :: bool
  mt_props :: jv
  mt_required :: "string list"

definition string_type :: jv where
  "string_type = JObj [(''type'', JStr ''string'')]"

definition TOOLS :: "McpTool list" where
  "TOOLS =
    [\<lparr>mt_name = ''list_applications'', mt_description = ''Lists the team'' @ [SQ] @ ''s applications.'', mt_write = False, mt_props = JObj [], mt_required = []\<rparr>,
     \<lparr>mt_name = ''list_databases'', mt_description = ''Lists the team'' @ [SQ] @ ''s databases.'', mt_write = False, mt_props = JObj [], mt_required = []\<rparr>,
     \<lparr>mt_name = ''list_services'', mt_description = ''Lists the team'' @ [SQ] @ ''s services.'', mt_write = False, mt_props = JObj [], mt_required = []\<rparr>,
     \<lparr>mt_name = ''list_deployments'',
      mt_description = ''Last 10 deployments of an application (status and dates, without the build log).'', mt_write = False,
      mt_props = JObj [(''applicationId'', string_type)], mt_required = [''applicationId'']\<rparr>,
     \<lparr>mt_name = ''deploy_application'', mt_description = ''Queues a deployment. Only available with a write token.'', mt_write = True,
      mt_props = JObj [(''applicationId'', string_type), (''force'', JObj [(''type'', JStr ''boolean'')])], mt_required = [''applicationId'']\<rparr>,
     \<lparr>mt_name = ''backup_database'', mt_description = ''Triggers a manual backup. Only available with a write token.'', mt_write = True,
      mt_props = JObj [(''databaseId'', string_type)], mt_required = [''databaseId'']\<rparr>]"

definition RESOURCES :: "(string \<times> string) list" where
  "RESOURCES = [(''yeah://applications'', ''Applications''), (''yeah://databases'', ''Databases''), (''yeah://services'', ''Services'')]"

definition PROMPTS :: jv where
  "PROMPTS = JArr [JObj [(''name'', JStr ''debug_deploy''), (''description'', JStr ''Helps investigate a failed deployment.''),
     (''arguments'', JArr [JObj [(''name'', JStr ''applicationId''), (''description'', JStr ''Application id''), (''required'', JBool True)]])]]"

definition rpc_id :: "jv \<Rightarrow> jv" where
  "rpc_id i = (if i = JUndef then JNull else i)"

definition rpc_ok :: "jv \<Rightarrow> jv \<Rightarrow> jv" where
  "rpc_ok i result = JObj [(''jsonrpc'', JStr ''2.0''), (''id'', rpc_id i), (''result'', result)]"

definition rpcError :: "jv \<Rightarrow> int \<Rightarrow> string \<Rightarrow> jv" where
  "rpcError i n message =
    JObj [(''jsonrpc'', JStr ''2.0''), (''id'', rpc_id i), (''error'', JObj [(''code'', JNum n), (''message'', JStr message)])]"

definition rpc_text :: "jv \<Rightarrow> bool \<Rightarrow> jv" where
  "rpc_text v isError =
    JObj [(''content'', JArr [JObj [(''type'', JStr ''text''), (''text'', JStr (case v of JStr s \<Rightarrow> s | _ \<Rightarrow> json_render 0 v))]]),
          (''isError'', JBool isError)]"

definition rpc_result :: "jv ActionResult \<Rightarrow> jv" where
  "rpc_result r = (case r of ActionOk v \<Rightarrow> rpc_text v False | ActionFail status message tag \<Rightarrow> rpc_text (JStr message) True)"

text \<open>\<open>String(v)\<close>; the text of a number that is no integer, which \<open>jv\<close> does not keep, is a parameter.\<close>

fun js_String :: "string \<Rightarrow> jv \<Rightarrow> string" where
  "js_String nonint JUndef = ''undefined''"
| "js_String nonint JNull = ''null''"
| "js_String nonint (JBool b) = (if b then ''true'' else ''false'')"
| "js_String nonint (JNum n) = int_str n"
| "js_String nonint JNonInt = nonint"
| "js_String nonint (JStr s) = s"
| "js_String nonint (JArr xs) = join_str '','' (map (\<lambda>x. if x = JUndef \<or> x = JNull then [] else js_String nonint x) xs)"
| "js_String nonint (JObj kvs) = ''[object Object]''"

definition tool_schema :: "McpTool \<Rightarrow> jv" where
  "tool_schema t = JObj [(''name'', JStr (mt_name t)), (''description'', JStr (mt_description t)),
    (''inputSchema'', JObj [(''type'', JStr ''object''), (''properties'', mt_props t), (''required'', JArr (map JStr (mt_required t)))])]"

definition argument :: "jv \<Rightarrow> string \<Rightarrow> string" where
  "argument args k = default [] (as_str (jget k args))"

definition run_tool :: "'w McpOps \<Rightarrow> string \<Rightarrow> jv \<Rightarrow> 'w \<Rightarrow> jv \<times> 'w" where
  "run_tool ops name args w =
    (if name = ''list_applications'' then (rpc_text (JArr (op_listApplications ops w)) False, w)
     else if name = ''list_databases'' then (rpc_text (JArr (op_listDatabases ops w)) False, w)
     else if name = ''list_services'' then (rpc_text (JArr (op_listServices ops w)) False, w)
     else if name = ''list_deployments'' then (rpc_result (op_listDeployments ops (argument args ''applicationId'') w), w)
     else if name = ''deploy_application'' then
       (case op_deploy ops (argument args ''applicationId'') (jget ''force'' args = JBool True) w of (r, w') \<Rightarrow> (rpc_result r, w'))
     else (case op_backup ops (argument args ''databaseId'') w of (r, w') \<Rightarrow> (rpc_result r, w')))"

definition call_tool :: "string \<Rightarrow> jv \<Rightarrow> jv \<Rightarrow> 'w McpOps \<Rightarrow> bool \<Rightarrow> 'w \<Rightarrow> jv \<times> 'w" where
  "call_tool nonint i params ops readOnly w =
    (case find (\<lambda>t. JStr (mt_name t) = jget ''name'' params) TOOLS of
       None \<Rightarrow> (rpcError i (-32602) (''unknown tool: '' @ js_String nonint (jget ''name'' params)), w)
     | Some tool \<Rightarrow>
         if mt_write tool \<and> readOnly then (rpc_ok i (rpc_text (JStr ''this token is read-only'') True), w)
         else
           (let args = (case jget ''arguments'' params of JUndef \<Rightarrow> JObj [] | JNull \<Rightarrow> JObj [] | v \<Rightarrow> v)
            in case find (\<lambda>k. argument args k = []) (mt_required tool) of
                 Some k \<Rightarrow> (rpc_ok i (rpc_text (JStr (''required argument: '' @ k)) True), w)
               | None \<Rightarrow> (case run_tool ops (mt_name tool) args w of (r, w') \<Rightarrow> (rpc_ok i r, w'))))"

definition resource_loader :: "'w McpOps \<Rightarrow> string \<Rightarrow> ('w \<Rightarrow> jv list) option" where
  "resource_loader ops uri =
    (if uri = ''yeah://applications'' then Some (op_listApplications ops)
     else if uri = ''yeah://databases'' then Some (op_listDatabases ops)
     else if uri = ''yeah://services'' then Some (op_listServices ops) else None)"

definition debug_prompt :: "string \<Rightarrow> string" where
  "debug_prompt applicationId =
    ''Investigate the recent deployments of application '' @ applicationId @
    '': use list_deployments to see the history, compare the status of the latest deployments, and use list_applications to check the current state. '' @
    ''Summarize what failed and suggest next steps. You have no access to build logs here '' @ em_dash @
    '' ask the user to paste the relevant excerpt if needed.''"

text \<open>
  \<open>Inl\<close> is the TypeError of reading a property of null; \<open>Inr None\<close> a notification, which has no reply. A body
  that is null or missing cannot be destructured either.
\<close>

definition handleMcp :: "string \<Rightarrow> jv \<Rightarrow> 'w McpOps \<Rightarrow> bool \<Rightarrow> 'w \<Rightarrow> (string + jv option) \<times> 'w" where
  "handleMcp nonint req ops readOnly w =
    (let i = jget ''id'' req; params = (case jget ''params'' req of JUndef \<Rightarrow> JObj [] | v \<Rightarrow> v);
         needs_params = (\<lambda>r. if params = JNull then (Inl ''TypeError'', w) else (case r of (v, w') \<Rightarrow> (Inr (Some v), w')))
     in if req = JUndef \<or> req = JNull then (Inl ''TypeError'', w)
        else if jget ''jsonrpc'' req \<noteq> JStr ''2.0'' \<or> \<not> jtruthy (jget ''method'' req)
          then (Inr (Some (rpcError i (-32600) ''invalid request'')), w)
        else case as_str (jget ''method'' req) of
          None \<Rightarrow> (Inl ''TypeError'', w)
        | Some m \<Rightarrow>
            if starts_with m ''notifications/'' then (Inr None, w)
            else if m = ''initialize'' then
              (Inr (Some (rpc_ok i (JObj [(''protocolVersion'', JStr ''2025-03-26''),
                 (''capabilities'', JObj [(''tools'', JObj []), (''resources'', JObj []), (''prompts'', JObj [])]),
                 (''serverInfo'', JObj [(''name'', JStr ''yeah''), (''version'', JStr ''1.0.0'')])]))), w)
            else if m = ''ping'' then (Inr (Some (rpc_ok i (JObj []))), w)
            else if m = ''tools/list'' then
              (Inr (Some (rpc_ok i (JObj [(''tools'', JArr (map tool_schema (filter (\<lambda>t. \<not> readOnly \<or> \<not> mt_write t) TOOLS)))]))), w)
            else if m = ''tools/call'' then needs_params (call_tool nonint i params ops readOnly w)
            else if m = ''resources/list'' then
              (Inr (Some (rpc_ok i (JObj [(''resources'', JArr (map (\<lambda>(uri, name). JObj [(''uri'', JStr uri), (''name'', JStr name),
                 (''mimeType'', JStr ''application/json'')]) RESOURCES))]))), w)
            else if m = ''resources/read'' then
              needs_params
                (let uri = js_String nonint (jget ''uri'' params)
                 in case resource_loader ops uri of
                      None \<Rightarrow> (rpcError i (-32602) (''unknown resource: '' @ uri), w)
                    | Some load \<Rightarrow> (rpc_ok i (JObj [(''contents'', JArr [JObj [(''uri'', JStr uri), (''mimeType'', JStr ''application/json''),
                        (''text'', JStr (json_render 0 (JArr (load w))))]])]), w))
            else if m = ''prompts/list'' then (Inr (Some (rpc_ok i (JObj [(''prompts'', PROMPTS)]))), w)
            else if m = ''prompts/get'' then
              needs_params
                (if jget ''name'' params \<noteq> JStr ''debug_deploy''
                 then (rpcError i (-32602) (''prompt desconhecido: '' @ js_String nonint (jget ''name'' params)), w)
                 else
                   (let a = jget ''applicationId'' (jget ''arguments'' params);
                        applicationId = js_String nonint (if a = JUndef \<or> a = JNull then JStr [] else a)
                    in (rpc_ok i (JObj [(''messages'', JArr [JObj [(''role'', JStr ''user''),
                         (''content'', JObj [(''type'', JStr ''text''), (''text'', JStr (debug_prompt applicationId))])]])]), w)))
            else (Inr (Some (rpcError i (-32601) (''unknown method: '' @ m))), w))"

section \<open>The MCP routes\<close>

definition apiTokenActor :: "string option \<Rightarrow> string" where
  "apiTokenActor name = (if str_truthy name then take 255 (''API token: '' @ the name) else ''API token'')"

text \<open>The write of an audit row never fails the request; a failure to write it is not modelled.\<close>

definition recordTokenAction ::
  "ApiEnv \<Rightarrow> string \<Rightarrow> string \<Rightarrow> string \<Rightarrow> string \<Rightarrow> string \<Rightarrow> string \<Rightarrow> string \<Rightarrow> ApiWorld \<Rightarrow> ApiWorld" where
  "recordTokenAction ev teamId tokenName action resourceType resourceId ip path w =
    w\<lparr>aw_audit := aw_audit w @
      [\<lparr>aud_id = ev_fresh ev w, aud_teamId = teamId, aud_userId = None, aud_actor = Some (apiTokenActor (Some tokenName)),
        aud_action = action, aud_level = ''info'', aud_resourceType = resourceType, aud_resourceId = Some resourceId,
        aud_refs = None, aud_ip = Some ip, aud_method = ''POST'', aud_path = take 512 path, aud_createdAt = ev_now ev\<rparr>]\<rparr>"

definition audited :: "(ApiWorld \<Rightarrow> ApiWorld) \<Rightarrow> jv ActionResult \<times> ApiWorld \<Rightarrow> jv ActionResult \<times> ApiWorld" where
  "audited record_it r = (case fst r of ActionOk v \<Rightarrow> (fst r, record_it (snd r)) | ActionFail _ _ _ \<Rightarrow> r)"

definition mcp_ops :: "ApiEnv \<Rightarrow> string \<Rightarrow> ApiToken \<Rightarrow> string \<Rightarrow> string \<Rightarrow> ApiWorld McpOps" where
  "mcp_ops ev teamId token ip path =
    \<lparr>op_listApplications = (\<lambda>w. listApplications (aw_dir w) teamId),
     op_listDatabases = (\<lambda>w. listDatabases (aw_dir w) teamId),
     op_listServices = (\<lambda>w. listServices (aw_dir w) teamId),
     op_listDeployments = (\<lambda>i w. list_result (listDeployments ev (aw_dir w) teamId i)),
     op_deploy = (\<lambda>i force w.
       audited (recordTokenAction ev teamId (tok_name token) ''Started a deployment (MCP)'' ''application'' i ip path)
         (triggerDeploy ev teamId i force w)),
     op_backup = (\<lambda>i w.
       audited (recordTokenAction ev teamId (tok_name token) ''Ran a backup (MCP)'' ''database'' i ip path)
         (triggerBackup teamId i w))\<rparr>"

definition mcp_enabled :: "Directory \<Rightarrow> string \<Rightarrow> bool" where
  "mcp_enabled d teamId = (case find (\<lambda>t. team_id t = teamId) (dir_teams d) of Some t \<Rightarrow> team_mcpEnabled t | None \<Rightarrow> False)"

text \<open>A TypeError of the protocol layer is answered with status 500 by the framework.\<close>

definition mcp_post ::
  "ApiEnv \<Rightarrow> string option \<Rightarrow> string option \<Rightarrow> string option \<Rightarrow> string \<Rightarrow> string \<Rightarrow> jv \<Rightarrow> ApiWorld \<Rightarrow> response \<times> ApiWorld" where
  "mcp_post ev authorization realIp peer teamId path body w =
    (let ip = clientIp realIp peer in
     case client_of ev authorization ip teamId w of
       (Inl (status, message), w') \<Rightarrow> ((status, error_body message), w')
     | (Inr token, w') \<Rightarrow>
         if \<not> mcp_enabled (aw_dir w') teamId
         then ((403, error_body ''the MCP server is turned off for this team''), w')
         else
           (case handleMcp (ev_nonint ev) body (mcp_ops ev teamId token ip path) (tok_permission token \<noteq> FullToken) w' of
              (Inl e, w'') \<Rightarrow> ((500, JUndef), w'')
            | (Inr None, w'') \<Rightarrow> ((202, JStr []), w'')
            | (Inr (Some v), w'') \<Rightarrow> ((200, v), w'')))"

definition member_of_session :: "ApiEnv \<Rightarrow> string option \<Rightarrow> string \<Rightarrow> ApiWorld \<Rightarrow> (int \<times> string) + User" where
  "member_of_session ev sessionId teamId w =
    (case findSessionUser (aw_dir w) (ev_now ev) sessionId of
       None \<Rightarrow> Inl (401, ''unauthorized'')
     | Some user \<Rightarrow> if assertMember (aw_dir w) teamId (usr_id user) then Inr user else Inl (403, ''forbidden''))"

definition get_mcp_settings :: "ApiEnv \<Rightarrow> string option \<Rightarrow> string \<Rightarrow> ApiWorld \<Rightarrow> response" where
  "get_mcp_settings ev sessionId teamId w =
    (case member_of_session ev sessionId teamId w of
       Inl (status, message) \<Rightarrow> (status, error_body message)
     | Inr user \<Rightarrow> (200, JObj [(''mcpEnabled'', JBool (mcp_enabled (aw_dir w) teamId))]))"

definition put_mcp_settings :: "ApiEnv \<Rightarrow> string option \<Rightarrow> string \<Rightarrow> bool \<Rightarrow> ApiWorld \<Rightarrow> response \<times> ApiWorld" where
  "put_mcp_settings ev sessionId teamId enabled w =
    (case member_of_session ev sessionId teamId w of
       Inl (status, message) \<Rightarrow> ((status, error_body message), w)
     | Inr user \<Rightarrow> ((200, JObj [(''mcpEnabled'', JBool enabled)]),
         w\<lparr>aw_dir := (aw_dir w)\<lparr>dir_teams := map (\<lambda>t. if team_id t = teamId then t\<lparr>team_mcpEnabled := enabled\<rparr> else t) (dir_teams (aw_dir w))\<rparr>\<rparr>))"

section \<open>Managing the tokens (routes/apiTokens.ts)\<close>

definition MAX_EXPIRY_DAYS :: int where
  "MAX_EXPIRY_DAYS = 3650"

definition token_json :: "ApiEnv \<Rightarrow> ApiToken \<Rightarrow> jv" where
  "token_json ev t =
    JObj [(''id'', JStr (tok_id t)), (''teamId'', JStr (tok_teamId t)), (''name'', JStr (tok_name t)),
          (''tokenPrefix'', JStr (tok_tokenPrefix t)),
          (''permission'', JStr (case tok_permission t of ReadToken \<Rightarrow> ''read'' | FullToken \<Rightarrow> ''full'')),
          (''allowedIps'', opt_json JStr (tok_allowedIps t)), (''expiresAt'', opt_json (\<lambda>x. JStr (ev_iso ev x)) (tok_expiresAt t)),
          (''lastUsedAt'', opt_json (\<lambda>x. JStr (ev_iso ev x)) (tok_lastUsedAt t)), (''createdAt'', JStr (ev_iso ev (tok_createdAt t)))]"

definition list_tokens :: "ApiEnv \<Rightarrow> string option \<Rightarrow> string \<Rightarrow> ApiWorld \<Rightarrow> response" where
  "list_tokens ev sessionId teamId w =
    (case member_of_session ev sessionId teamId w of
       Inl (status, message) \<Rightarrow> (status, error_body message)
     | Inr user \<Rightarrow> (200, JObj [(''tokens'', JArr (map (token_json ev) (filter (\<lambda>t. tok_teamId t = teamId) (dir_tokens (aw_dir w)))))]))"

record TokenBody =
  tb_name :: string
  tb_permission :: ApiTokenPermission
  tb_expiresInDays :: "int option"
  tb_allowedIps :: "string option"

text \<open>\<open>random\<close> are the random bytes of the new token; the number of days is whole here.\<close>

definition create_token :: "ApiEnv \<Rightarrow> string \<Rightarrow> string option \<Rightarrow> string \<Rightarrow> TokenBody \<Rightarrow> ApiWorld \<Rightarrow> response \<times> ApiWorld" where
  "create_token ev random sessionId teamId body w =
    (case member_of_session ev sessionId teamId w of
       Inl (status, message) \<Rightarrow> ((status, error_body message), w)
     | Inr user \<Rightarrow>
         if (case tb_expiresInDays body of Some n \<Rightarrow> n < 1 \<or> MAX_EXPIRY_DAYS < n | None \<Rightarrow> False)
         then ((400, error_body (''expiry between 1 and '' @ int_str MAX_EXPIRY_DAYS @ '' dias'')), w)
         else
           (let trimmed = trim (default [] (tb_allowedIps body));
                allowedIps = (if trimmed = [] then None else Some trimmed)
            in if (case allowedIps of Some l \<Rightarrow> \<not> isValidIpList l | None \<Rightarrow> False)
               then ((400, error_body (''invalid allowlist '' @ em_dash @ '' use comma-separated IPv4 addresses or CIDRs'')), w)
               else
                 (let raw = generateApiToken random;
                      token = (new_apiToken (ev_fresh ev w) (ev_now ev) teamId (usr_id user) (tb_name body)
                          (ev_sha256 ev raw) (take 12 raw))
                        \<lparr>tok_permission := tb_permission body, tok_allowedIps := allowedIps,
                         tok_expiresAt := map_option (\<lambda>n. ev_now ev + n * 24 * 60 * 60 * 1000) (tb_expiresInDays body)\<rparr>
                  in ((200, JObj [(''token'', JStr raw), (''apiToken'', token_json ev token)]),
                      w\<lparr>aw_dir := (aw_dir w)\<lparr>dir_tokens := dir_tokens (aw_dir w) @ [token]\<rparr>\<rparr>))))"

definition delete_token :: "ApiEnv \<Rightarrow> string option \<Rightarrow> string \<Rightarrow> string \<Rightarrow> ApiWorld \<Rightarrow> response \<times> ApiWorld" where
  "delete_token ev sessionId teamId tokenId w =
    (case member_of_session ev sessionId teamId w of
       Inl (status, message) \<Rightarrow> ((status, error_body message), w)
     | Inr user \<Rightarrow>
         (case find (\<lambda>t. tok_id t = tokenId \<and> tok_teamId t = teamId) (dir_tokens (aw_dir w)) of
            None \<Rightarrow> ((404, error_body ''token not found''), w)
          | Some token \<Rightarrow> ((200, JObj [(''ok'', JBool True)]),
              w\<lparr>aw_dir := (aw_dir w)\<lparr>dir_tokens := filter (\<lambda>t. tok_id t \<noteq> tok_id token) (dir_tokens (aw_dir w))\<rparr>\<rparr>)))"

section \<open>A read token changes nothing\<close>

text \<open>The world without the times of last use, the only thing that resolving a token writes.\<close>

definition unused :: "ApiWorld \<Rightarrow> ApiWorld" where
  "unused w = w\<lparr>aw_dir := (aw_dir w)\<lparr>dir_tokens := map (\<lambda>t. t\<lparr>tok_lastUsedAt := None\<rparr>) (dir_tokens (aw_dir w))\<rparr>\<rparr>"

definition may_write :: "ApiEnv \<Rightarrow> string option \<Rightarrow> string \<Rightarrow> string \<Rightarrow> Directory \<Rightarrow> bool" where
  "may_write ev authorization ip teamId d \<longleftrightarrow>
    (case token_row (ev_sha256 ev) d authorization of
       None \<Rightarrow> False
     | Some t \<Rightarrow> tok_permission t = FullToken \<and> tok_teamId t = teamId \<and> ipAllowed ip (tok_allowedIps t) \<and>
         (case tok_expiresAt t of Some e \<Rightarrow> ev_now ev \<le> e | None \<Rightarrow> True))"

lemma unused_used:
  "unused (w\<lparr>aw_dir := (aw_dir w)\<lparr>dir_tokens := map (\<lambda>t. if P t then t\<lparr>tok_lastUsedAt := x\<rparr> else t) (dir_tokens (aw_dir w))\<rparr>\<rparr>) = unused w"
  by (simp add: unused_def)

lemma client_of_unused: "unused (snd (client_of ev authorization ip teamId w)) = unused w"
  by (auto simp: client_of_def resolveApiToken_def Let_def unused_def split: option.split)

lemma client_of_token:
  assumes "client_of ev authorization ip teamId w = (Inr t, w')" and "\<not> may_write ev authorization ip teamId (aw_dir w)"
  shows "tok_permission t \<noteq> FullToken"
  using assms
  by (auto simp: client_of_def resolveApiToken_def may_write_def Let_def split: option.splits if_splits)

lemma ci_write_read: "\<not> is_write request \<Longrightarrow> snd (ci_write ev teamId request w) = w"
  by (cases request) (simp_all add: is_write_def)

lemma read_tools: "t \<in> set TOOLS \<Longrightarrow> \<not> mt_write t \<Longrightarrow>
    mt_name t \<in> {''list_applications'', ''list_databases'', ''list_services'', ''list_deployments''}"
  by (auto simp: TOOLS_def)

lemma run_tool_read:
  "name \<in> {''list_applications'', ''list_databases'', ''list_services'', ''list_deployments''} \<Longrightarrow> snd (run_tool ops name args w) = w"
  by (auto simp: run_tool_def)

lemma call_tool_read_only: "snd (call_tool nonint i params ops True w) = w"
proof (cases "find (\<lambda>t. JStr (mt_name t) = jget ''name'' params) TOOLS")
  case (Some tool)
  then have "tool \<in> set TOOLS" by (rule find_SomeD [THEN conjunct1])
  then show ?thesis using Some read_tools [of tool] run_tool_read [of "mt_name tool" ops _ w]
    by (auto simp: call_tool_def Let_def split: option.split prod.split) (metis snd_conv)+
qed (simp add: call_tool_def)

lemma handleMcp_read_only: "snd (handleMcp nonint req ops True w) = w"
proof -
  have opt: "(case x of None \<Rightarrow> w | Some y \<Rightarrow> w) = w" for x :: "'b option" by (cases x) auto
  show ?thesis
    unfolding handleMcp_def Let_def case_prod_unfold if_distrib [of snd] option.case_distrib [of snd] snd_conv
      call_tool_read_only opt if_cancel
    by simp
qed

text \<open>
  C21: without a full token of the team that has not expired and whose address list admits the caller, no
  request of the token API, REST or MCP, changes anything but the time a token was last used.
\<close>
theorem token_writes_authorised:
  assumes "\<not> may_write ev authorization (clientIp realIp peer) teamId (aw_dir w)"
  shows "unused (snd (makeCiRoutes ev authorization realIp peer teamId request w)) = unused w \<and>
    unused (snd (mcp_post ev authorization realIp peer teamId path body w)) = unused w"
proof -
  obtain r w1 where c: "client_of ev authorization (clientIp realIp peer) teamId w = (r, w1)" by force
  have same: "unused w1 = unused w" using client_of_unused [of ev authorization "clientIp realIp peer" teamId w] c by simp
  show ?thesis
  proof (cases r)
    case (Inl e)
    with c same show ?thesis by (cases e) (simp add: makeCiRoutes_def mcp_post_def Let_def)
  next
    case (Inr t)
    then have t: "(tok_permission t \<noteq> FullToken) = True" using client_of_token assms c by simp
    have ci: "unused (snd (makeCiRoutes ev authorization realIp peer teamId request w)) = unused w"
      using c Inr t same ci_write_read [of request ev teamId w1] by (simp add: makeCiRoutes_def)
    let ?m = "handleMcp (ev_nonint ev) body (mcp_ops ev teamId t (clientIp realIp peer) path) True w1"
    have "snd (case ?m of (Inl e, w'') \<Rightarrow> ((500 :: int, JUndef), w'') | (Inr None, w'') \<Rightarrow> ((202, JStr []), w'')
        | (Inr (Some v), w'') \<Rightarrow> ((200, v), w'')) = snd ?m"
      by (simp split: prod.split sum.split option.split)
    then have "unused (snd (mcp_post ev authorization realIp peer teamId path body w)) = unused w"
      using same t unfolding handleMcp_read_only mcp_post_def Let_def c Inr by simp
    with ci show ?thesis by simp
  qed
qed

section \<open>Reads stay in the team\<close>

text \<open>The rows of a team: all that the token API may show of a database.\<close>

definition in_team :: "string \<Rightarrow> Directory \<Rightarrow> string \<Rightarrow> bool" where
  "in_team teamId d applicationId \<longleftrightarrow> list_ex (\<lambda>a. app_id a = applicationId \<and> app_teamId a = teamId) (dir_applications d)"

definition in_projects :: "string \<Rightarrow> Directory \<Rightarrow> string \<Rightarrow> bool" where
  "in_projects teamId d projectId \<longleftrightarrow> list_ex (\<lambda>p. prj_id p = projectId \<and> prj_teamId p = teamId) (dir_projects d)"

definition team_rows :: "string \<Rightarrow> Directory \<Rightarrow> Directory" where
  "team_rows teamId d =
    \<lparr>dir_users = [], dir_sessions = [], dir_teams = [], dir_members = [],
     dir_projects = filter (\<lambda>p. prj_teamId p = teamId) (dir_projects d),
     dir_environments = filter (\<lambda>e. in_projects teamId d (envt_projectId e)) (dir_environments d),
     dir_tokens = [],
     dir_servers = filter (\<lambda>s. srv_teamId s = teamId) (dir_servers d),
     dir_services = filter (\<lambda>v. svc_teamId v = teamId) (dir_services d),
     dir_applications = filter (\<lambda>a. app_teamId a = teamId) (dir_applications d),
     dir_databases = filter (\<lambda>b. dbs_teamId b = teamId) (dir_databases d),
     dir_deployments = filter (\<lambda>p. in_team teamId d (dep_applicationId p)) (dir_deployments d),
     dir_schedules = [],
     dir_storages = filter (\<lambda>s. s3_teamId s = teamId) (dir_storages d),
     dir_channels = filter (\<lambda>c. nch_teamId c = teamId) (dir_channels d),
     dir_tasks = filter (\<lambda>t. in_team teamId d (stk_applicationId t)) (dir_tasks d)\<rparr>"

lemma find_filter: "(\<And>x. P x \<Longrightarrow> Q x) \<Longrightarrow> find P (filter Q xs) = find P xs"
  by (induction xs) auto

lemma filter_within: "(\<And>x. P x \<Longrightarrow> Q x) \<Longrightarrow> filter P (filter Q xs) = filter P xs"
  by (induction xs) auto

lemma filter_absorb: "(\<And>x. P x \<Longrightarrow> Q x) \<Longrightarrow> filter (\<lambda>x. Q x \<and> P x) xs = filter P xs"
  by (induction xs) auto

lemma own_application_rows: "own_application (team_rows teamId d) teamId i = own_application d teamId i"
  unfolding own_application_def team_rows_def Directory.simps by (rule find_filter) simp

lemma own_application_in_team: "own_application d teamId i \<noteq> None \<longleftrightarrow> in_team teamId d i"
  unfolding own_application_def in_team_def find_iff ..

lemma latest_rows:
  "in_team teamId d i \<Longrightarrow> latest_deployments ev (team_rows teamId d) n i = latest_deployments ev d n i"
  unfolding latest_deployments_def team_rows_def Directory.simps
  by (subst filter_within [where Q = "\<lambda>p. in_team teamId d (dep_applicationId p)"]) simp_all

lemma concat_filter: "(\<And>t. \<not> P t \<Longrightarrow> f t = []) \<Longrightarrow> concat (map f (filter P ts)) = concat (map f ts)"
  by (induction ts) auto

lemma tasks_rows: "listScheduledTasks (team_rows teamId d) teamId = listScheduledTasks d teamId"
proof -
  have "concat (map (\<lambda>t. map (g t) (filter (\<lambda>a. stk_applicationId t = app_id a \<and> app_teamId a = teamId) (dir_applications d)))
      (filter (\<lambda>t. in_team teamId d (stk_applicationId t)) (dir_tasks d))) =
    concat (map (\<lambda>t. map (g t) (filter (\<lambda>a. stk_applicationId t = app_id a \<and> app_teamId a = teamId) (dir_applications d))) (dir_tasks d))"
    for g :: "ScheduledTask \<Rightarrow> Application \<Rightarrow> jv"
    by (rule concat_filter) (auto simp: in_team_def list_ex_iff filter_empty_conv)
  then show ?thesis
    unfolding listScheduledTasks_def team_rows_def Directory.simps
    by (subst filter_within [where Q = "\<lambda>a. app_teamId a = teamId"]) simp_all
qed

lemma projects_rows: "listProjects (team_rows teamId d) teamId = listProjects d teamId"
proof -
  have "filter (\<lambda>e. envt_projectId e \<in> set (map prj_id (filter (\<lambda>p. prj_teamId p = teamId) (dir_projects d))))
      (filter (\<lambda>e. in_projects teamId d (envt_projectId e)) (dir_environments d)) =
    filter (\<lambda>e. envt_projectId e \<in> set (map prj_id (filter (\<lambda>p. prj_teamId p = teamId) (dir_projects d)))) (dir_environments d)"
    by (rule filter_within) (auto simp: in_projects_def list_ex_iff)
  then show ?thesis
    unfolding listProjects_def team_rows_def Directory.simps Let_def
    by (subst (1 2) filter_within [where Q = "\<lambda>p. prj_teamId p = teamId"]) simp_all
qed

text \<open>
  C22: what a token reads depends only on the rows of its team: every request for data has the answer it would
  have if the database held nothing else.
\<close>
theorem token_reads_own_team:
  "ci_read ev teamId (team_rows teamId d) request = ci_read ev teamId d request"
proof (cases request)
  case (GetDeployments i)
  then show ?thesis using latest_rows own_application_in_team [of d teamId i]
    by (auto simp: listDeployments_def own_application_rows split: option.split)
next
  case (GetPreviews i)
  have "dir_applications (team_rows teamId d) = filter (\<lambda>a. app_teamId a = teamId) (dir_applications d)"
    by (simp add: team_rows_def)
  then have "listPreviews ev (team_rows teamId d) teamId i = listPreviews ev d teamId i"
    unfolding listPreviews_def own_application_rows
    by (simp only:) (subst filter_within [where Q = "\<lambda>a. app_teamId a = teamId"], simp_all)
  then show ?thesis using GetPreviews by simp
next
  case (GetOnePreview i j)
  let ?P = "\<lambda>a. app_id a = j \<and> app_previewOfId a = Some i \<and> app_teamId a = teamId"
  have "find ?P (dir_applications (team_rows teamId d)) = find ?P (dir_applications d)"
    unfolding team_rows_def Directory.simps by (rule find_filter) simp
  moreover have "find ?P (dir_applications d) \<noteq> None \<Longrightarrow> in_team teamId d j"
    unfolding find_iff by (auto simp: in_team_def list_ex_iff)
  ultimately show ?thesis using GetOnePreview latest_rows
    by (auto simp: getPreview_def split: option.split)
qed (simp_all add: tasks_rows projects_rows,
     simp_all add: listApplications_def listDatabases_def listServices_def listServers_def listStorages_def
       listNotificationChannels_def team_rows_def)

section \<open>Writes stay in the team\<close>

text \<open>What belongs to others: everything but the team's applications, databases, services and deployments.\<close>

definition other_rows :: "string \<Rightarrow> Directory \<Rightarrow> Directory" where
  "other_rows teamId d =
    d\<lparr>dir_tokens := map (\<lambda>t. t\<lparr>tok_lastUsedAt := None\<rparr>) (dir_tokens d),
      dir_services := filter (\<lambda>v. svc_teamId v \<noteq> teamId) (dir_services d),
      dir_applications := filter (\<lambda>a. app_teamId a \<noteq> teamId) (dir_applications d),
      dir_databases := filter (\<lambda>b. dbs_teamId b \<noteq> teamId) (dir_databases d),
      dir_deployments := filter (\<lambda>p. \<not> in_team teamId d (dep_applicationId p)) (dir_deployments d)\<rparr>"

definition team_job :: "string \<Rightarrow> Directory \<Rightarrow> queued_job \<Rightarrow> bool" where
  "team_job teamId d j =
    (case j of
       DeployJob i \<Rightarrow> list_ex (\<lambda>p. dep_id p = i \<and> in_team teamId d (dep_applicationId p)) (dir_deployments d)
     | BackupJob i manual \<Rightarrow> list_ex (\<lambda>c. bsc_id c = i \<and>
         list_ex (\<lambda>b. dbs_id b = bsc_databaseId c \<and> dbs_teamId b = teamId) (dir_databases d)) (dir_schedules d))"

definition stays :: "string \<Rightarrow> ApiWorld \<Rightarrow> ApiWorld \<Rightarrow> bool" where
  "stays teamId w w' \<longleftrightarrow>
    other_rows teamId (aw_dir w') = other_rows teamId (aw_dir w) \<and>
    (\<exists>new. aw_jobs w' = aw_jobs w @ new \<and> list_all (team_job teamId (aw_dir w')) new)"

lemma stays_refl: "stays teamId w w"
  by (simp add: stays_def)

lemma stays_after:
  "other_rows teamId (aw_dir w1) = other_rows teamId (aw_dir w) \<Longrightarrow> aw_jobs w1 = aw_jobs w \<Longrightarrow> stays teamId w1 w' \<Longrightarrow> stays teamId w w'"
  by (simp add: stays_def)

lemma client_of_other:
  "other_rows teamId (aw_dir (snd (client_of ev authorization ip t w))) = other_rows teamId (aw_dir w)"
  "aw_jobs (snd (client_of ev authorization ip t w)) = aw_jobs w"
  by (auto simp: client_of_def resolveApiToken_def Let_def other_rows_def in_team_def split: option.split)

lemma triggerDeploy_stays: "stays teamId w (snd (triggerDeploy ev teamId i force w))"
proof (cases "own_application (aw_dir w) teamId i")
  case (Some a)
  then have "a \<in> set (dir_applications (aw_dir w))" and "app_teamId a = teamId"
    by (auto simp: own_application_def dest: find_SomeD)
  then have team: "in_team teamId (aw_dir w) (app_id a)" by (auto simp: in_team_def list_ex_iff)
  have "in_team t (d\<lparr>dir_deployments := ps\<rparr>) = in_team t d" for t d ps by (simp add: in_team_def fun_eq_iff)
  with Some team show ?thesis
    by (simp add: triggerDeploy_def Let_def stays_def other_rows_def team_job_def new_deployment_def)
qed (simp add: triggerDeploy_def stays_refl)

lemma triggerBackup_stays: "stays teamId w (snd (triggerBackup teamId i w))"
proof (cases "find (\<lambda>b. dbs_id b = i \<and> dbs_teamId b = teamId) (dir_databases (aw_dir w))")
  case (Some b)
  note b = find_SomeD [OF Some]
  show ?thesis
  proof (cases "find (\<lambda>c. bsc_databaseId c = dbs_id b) (dir_schedules (aw_dir w))")
    case (Some c)
    note c = find_SomeD [OF Some]
    have "team_job teamId (aw_dir w) (BackupJob (bsc_id c) True)"
      using b c by (fastforce simp: team_job_def list_ex_iff)
    then show ?thesis using b Some \<open>find _ (dir_databases _) = _\<close> by (simp add: triggerBackup_def stays_def)
  qed (use \<open>find _ (dir_databases _) = _\<close> in \<open>simp add: triggerBackup_def stays_refl\<close>)
qed (simp add: triggerBackup_def stays_refl)

lemma move_other: "other_rows teamId (snd (move_rows kind teamId i e d)) = other_rows teamId d"
proof -
  have keep: "filter Q (map (\<lambda>x. if P x then f x else x) xs) = filter Q xs"
    if "\<And>x. P x \<Longrightarrow> \<not> Q x \<and> \<not> Q (f x)" for P Q f and xs :: "'x list"
    using that by (induction xs) auto
  have same: "list_ex Q (map (\<lambda>x. if P x then f x else x) xs) = list_ex Q xs" if "\<And>x. Q (f x) = Q x" for P Q f and xs :: "'y list"
    using that by (induction xs) auto
  have "filter (\<lambda>a. app_teamId a \<noteq> teamId) (map (\<lambda>a. if app_id a = i \<and> app_teamId a = teamId then a\<lparr>app_environmentId := e\<rparr> else a) xs) =
      filter (\<lambda>a. app_teamId a \<noteq> teamId) xs" for xs :: "Application list"
    by (rule keep) simp
  moreover have "filter (\<lambda>a. dbs_teamId a \<noteq> teamId) (map (\<lambda>a. if dbs_id a = i \<and> dbs_teamId a = teamId then a\<lparr>dbs_environmentId := e\<rparr> else a) xs) =
      filter (\<lambda>a. dbs_teamId a \<noteq> teamId) xs" for xs :: "Database list"
    by (rule keep) simp
  moreover have "filter (\<lambda>a. svc_teamId a \<noteq> teamId) (map (\<lambda>a. if svc_id a = i \<and> svc_teamId a = teamId then a\<lparr>svc_environmentId := e\<rparr> else a) xs) =
      filter (\<lambda>a. svc_teamId a \<noteq> teamId) xs" for xs :: "Service list"
    by (rule keep) simp
  moreover have "in_team teamId (d\<lparr>dir_applications := map (\<lambda>a. if app_id a = i \<and> app_teamId a = teamId then a\<lparr>app_environmentId := e\<rparr> else a) (dir_applications d)\<rparr>)
      = in_team teamId d"
    by (simp add: in_team_def fun_eq_iff same)
  moreover have "in_team teamId (d\<lparr>dir_databases := xs\<rparr>) = in_team teamId d" "in_team teamId (d\<lparr>dir_services := ys\<rparr>) = in_team teamId d"
    for xs ys by (simp_all add: in_team_def fun_eq_iff)
  ultimately show ?thesis
    by (cases kind) (simp_all add: move_rows_def other_rows_def)
qed

lemma moveResource_stays: "stays teamId w (snd (moveResource teamId kind i e w))"
  using move_other [of teamId kind i e "aw_dir w"]
  by (auto simp: moveResource_def Let_def stays_def split: prod.split)

lemma ci_write_stays: "stays teamId w (snd (ci_write ev teamId request w))"
  using triggerDeploy_stays triggerBackup_stays moveResource_stays
  by (cases request) (auto simp: stays_refl case_prod_unfold)

lemma audited_keeps: "(\<And>w. aw_dir (f w) = aw_dir w \<and> aw_jobs (f w) = aw_jobs w) \<Longrightarrow>
    aw_dir (snd (audited f r)) = aw_dir (snd r) \<and> aw_jobs (snd (audited f r)) = aw_jobs (snd r)"
  by (auto simp: audited_def split: ActionResult.split)

lemma ops_stay:
  "stays teamId w (snd (op_deploy (mcp_ops ev teamId token ip path) i force w))"
  "stays teamId w (snd (op_backup (mcp_ops ev teamId token ip path) i w))"
  using triggerDeploy_stays [of teamId w ev i force] triggerBackup_stays [of teamId w i]
    audited_keeps [of "recordTokenAction ev teamId (tok_name token) a r i ip path" for a r]
  by (simp_all add: mcp_ops_def stays_def recordTokenAction_def)

lemma run_tool_cases:
  "snd (run_tool ops name args w) \<in> {w, snd (op_deploy ops (argument args ''applicationId'') (jget ''force'' args = JBool True) w),
     snd (op_backup ops (argument args ''databaseId'') w)}"
  by (auto simp: run_tool_def split: prod.split)

lemma call_tool_cases: "snd (call_tool nonint i params ops readOnly w) = w \<or>
    (\<exists>name args. snd (call_tool nonint i params ops readOnly w) = snd (run_tool ops name args w))"
  unfolding call_tool_def Let_def case_prod_unfold by (auto split: option.split)

lemma handleMcp_cases: "snd (handleMcp nonint req ops readOnly w) = w \<or>
    (\<exists>i params. snd (handleMcp nonint req ops readOnly w) = snd (call_tool nonint i params ops readOnly w))"
proof -
  have opt: "(case x of None \<Rightarrow> w | Some y \<Rightarrow> w) = w" for x :: "'b option" by (cases x) auto
  show ?thesis
    unfolding handleMcp_def Let_def case_prod_unfold if_distrib [of snd] option.case_distrib [of snd] snd_conv opt if_cancel
    by (auto split: option.split)
qed

lemma handleMcp_stays: "stays teamId w (snd (handleMcp nonint req (mcp_ops ev teamId token ip path) readOnly w))"
  using handleMcp_cases [of nonint req "mcp_ops ev teamId token ip path" readOnly w]
    call_tool_cases [of nonint _ _ "mcp_ops ev teamId token ip path" readOnly w]
    run_tool_cases [of "mcp_ops ev teamId token ip path" _ _ w] ops_stay stays_refl
  by (metis insertE singletonD)

text \<open>
  C23: a request of the token API leaves the rows of every other team as they were, and every job it queues is
  a deployment of one of the team's applications or a backup of one of its databases.
\<close>
theorem token_writes_stay_in_team:
  "stays teamId w (snd (makeCiRoutes ev authorization realIp peer teamId request w)) \<and>
   stays teamId w (snd (mcp_post ev authorization realIp peer teamId path body w))"
proof -
  obtain r w1 where c: "client_of ev authorization (clientIp realIp peer) teamId w = (r, w1)" by force
  have same: "other_rows teamId (aw_dir w1) = other_rows teamId (aw_dir w)" "aw_jobs w1 = aw_jobs w"
    using client_of_other [where ev = ev and authorization = authorization and ip = "clientIp realIp peer" and t = teamId and w = w]
    unfolding c snd_conv by blast+
  note after = stays_after [OF same]
  have "stays teamId w (snd (makeCiRoutes ev authorization realIp peer teamId request w))"
    using after [OF stays_refl] after [OF ci_write_stays]
    by (auto simp: makeCiRoutes_def c split: sum.split)
  moreover have "snd (case m of (Inl e, w'') \<Rightarrow> ((500 :: int, JUndef), w'') | (Inr None, w'') \<Rightarrow> ((202, JStr []), w'')
        | (Inr (Some v), w'') \<Rightarrow> ((200, v), w'')) = snd m" for m :: "(string + jv option) \<times> ApiWorld"
    by (simp split: prod.split sum.split option.split)
  then have "stays teamId w (snd (mcp_post ev authorization realIp peer teamId path body w))"
    using after [OF stays_refl] after [OF handleMcp_stays]
    by (auto simp: mcp_post_def c Let_def split: sum.split)
  ultimately show ?thesis by simp
qed

section \<open>Resources stay in scope\<close>

text \<open>Every resource lies in an environment of a project of its own team.\<close>

definition scoped :: "Directory \<Rightarrow> bool" where
  "scoped d \<longleftrightarrow>
    list_all (\<lambda>a. own_environment d (app_teamId a) (app_environmentId a)) (dir_applications d) \<and>
    list_all (\<lambda>b. own_environment d (dbs_teamId b) (dbs_environmentId b)) (dir_databases d) \<and>
    list_all (\<lambda>v. own_environment d (svc_teamId v) (svc_environmentId v)) (dir_services d)"

lemma own_environment_unchanged:
  "own_environment (d\<lparr>dir_applications := xs\<rparr>) = own_environment d" "own_environment (d\<lparr>dir_databases := ys\<rparr>) = own_environment d"
  "own_environment (d\<lparr>dir_services := zs\<rparr>) = own_environment d" "own_environment (d\<lparr>dir_tokens := ts\<rparr>) = own_environment d"
  "own_environment (d\<lparr>dir_deployments := ps\<rparr>) = own_environment d"
  by (simp_all add: own_environment_def fun_eq_iff)

lemma scoped_client: "scoped (aw_dir (snd (client_of ev authorization ip t w))) = scoped (aw_dir w)"
  by (auto simp: client_of_def resolveApiToken_def Let_def scoped_def own_environment_unchanged split: option.split)

lemma scoped_deploy: "scoped (aw_dir (snd (triggerDeploy ev teamId i force w))) = scoped (aw_dir w)"
  by (simp add: triggerDeploy_def Let_def scoped_def own_environment_unchanged split: option.split)

lemma scoped_backup: "scoped (aw_dir (snd (triggerBackup teamId i w))) = scoped (aw_dir w)"
  by (simp add: triggerBackup_def split: option.split)

lemma list_all_updated:
  "list_all Q xs \<Longrightarrow> (\<And>x. P x \<Longrightarrow> Q (f x)) \<Longrightarrow> list_all Q (map (\<lambda>x. if P x then f x else x) xs)"
  by (induction xs) auto

lemma scoped_moved:
  assumes "scoped d" and "own_environment d teamId e"
  shows "scoped (snd (move_rows kind teamId i e d))"
proof (cases kind)
  case MoveApplication
  with assms show ?thesis
    by (auto simp: move_rows_def scoped_def own_environment_unchanged intro!: list_all_updated)
next
  case MoveDatabase
  with assms show ?thesis
    by (auto simp: move_rows_def scoped_def own_environment_unchanged intro!: list_all_updated)
next
  case MoveService
  with assms show ?thesis
    by (auto simp: move_rows_def scoped_def own_environment_unchanged intro!: list_all_updated)
qed

lemma scoped_move: "scoped (aw_dir w) \<Longrightarrow> scoped (aw_dir (snd (moveResource teamId kind i e w)))"
  using scoped_moved [of "aw_dir w" teamId e kind i]
  by (auto simp: moveResource_def Let_def split: prod.split)

text \<open>
  C24: if every resource lies in an environment of its own team, so it does after any request of the token API;
  moving a resource across teams is refused.
\<close>
theorem requests_keep_scope:
  assumes "scoped (aw_dir w)"
  shows "scoped (aw_dir (snd (makeCiRoutes ev authorization realIp peer teamId request w)))"
proof -
  obtain r w1 where c: "client_of ev authorization (clientIp realIp peer) teamId w = (r, w1)" by force
  have w1: "scoped (aw_dir w1)"
    using assms scoped_client [of ev authorization "clientIp realIp peer" teamId w] unfolding c by simp
  then have "scoped (aw_dir (snd (ci_write ev teamId request w1)))"
    using scoped_deploy scoped_backup scoped_move by (cases request) (auto simp: case_prod_unfold)
  with w1 show ?thesis by (auto simp: makeCiRoutes_def c split: sum.split)
qed

section \<open>An example\<close>

definition demo_env :: ApiEnv where
  "demo_env = \<lparr>ev_now = 1000, ev_fresh = (\<lambda>w. ''n1''), ev_sha256 = (\<lambda>s. s), ev_iso = (\<lambda>t. int_str t), ev_nonint = []\<rparr>"

definition demo_service :: Service where
  "demo_service = new_service ''s1'' 0 ''t1'' ''e1'' ''srv1'' ''web'' ''nginx'' ''nginx:1'' 80"

definition demo_directory :: Directory where
  "demo_directory =
    \<lparr>dir_users = [], dir_sessions = [], dir_teams = [], dir_members = [],
     dir_projects = [new_project ''p1'' 0 ''t1'' ''Default'', new_project ''p2'' 0 ''t2'' ''Default''],
     dir_environments = [new_environment ''e1'' 0 ''p1'' ''production'', new_environment ''e2'' 0 ''p1'' ''staging'',
       new_environment ''e3'' 0 ''p2'' ''production''],
     dir_tokens = [(new_apiToken ''k1'' 0 ''t1'' ''u1'' ''ci'' ''yeah_full'' ''yeah_full'')\<lparr>tok_permission := FullToken\<rparr>,
       new_apiToken ''k2'' 0 ''t1'' ''u1'' ''ci'' ''yeah_read'' ''yeah_read''],
     dir_servers = [], dir_services = [demo_service], dir_applications = [], dir_databases = [], dir_deployments = [],
     dir_schedules = [], dir_storages = [], dir_channels = [], dir_tasks = []\<rparr>"

definition demo_tokens :: ApiWorld where
  "demo_tokens = \<lparr>aw_dir = demo_directory, aw_jobs = [], aw_audit = []\<rparr>"

theorem requests_keep_scope_witness:
  "scoped (aw_dir (snd (makeCiRoutes demo_env (Some ''Bearer yeah_full'') None None ''t1'' (PostMove MoveService ''s1'' ''e2'') demo_tokens)))"
  by (rule requests_keep_scope) code_simp

theorem token_writes_authorised_witness:
  "unused (snd (makeCiRoutes demo_env (Some ''Bearer yeah_read'') None None ''t1'' (PostMove MoveService ''s1'' ''e2'') demo_tokens)) = unused demo_tokens \<and>
   unused (snd (mcp_post demo_env (Some ''Bearer yeah_read'') None None ''t1'' ''/mcp'' JNull demo_tokens)) = unused demo_tokens"
  by (rule token_writes_authorised) code_simp

end
