(* ===== verification/ProxyPages.thy ===== *)
theory ProxyPages
  imports Compose
begin

text \<open>
  What the proxy serves besides the applications: its static configuration (packages/shared/src/traefikStatic.ts),
  the error page (errorPage.ts), the panel's own domain (panelDomain.ts) and the maintenance mode of services
  (serviceMaintenance.ts).

  \<open>priorities_of_lines\<close> reads the priorities of the routers out of the generated YAML, as \<open>routers_of_lines\<close>
  reads their hostnames. The theorems show which router wins a hostname that several claim, that the maintenance
  router claims exactly the hostnames in maintenance, and which origins the panel accepts.
\<close>

section \<open>errorPage.ts\<close>

definition ERROR_PAGE_TITLE_MAX :: nat where
  "ERROR_PAGE_TITLE_MAX = 120"

definition ERROR_PAGE_MESSAGE_MAX :: nat where
  "ERROR_PAGE_MESSAGE_MAX = 500"

record ErrorPageSettings =
  eps_enabled :: bool
  eps_title :: "string option"
  eps_message :: "string option"

definition normalizeErrorPageText :: "jv \<Rightarrow> nat \<Rightarrow> string option" where
  "normalizeErrorPageText input max_length =
    (case as_str input of
       None \<Rightarrow> None
     | Some s \<Rightarrow>
         (let clean = trim (take max_length (trim (map (\<lambda>c. if code c \<le> 31 \<or> code c = 127 then CHR '' '' else c) s)))
          in if clean = [] then None else Some clean))"

definition ERROR_PAGE_MIDDLEWARE :: string where
  "ERROR_PAGE_MIDDLEWARE = ''yeah-errors''"

definition ERROR_PAGE_DYNAMIC_FILE :: string where
  "ERROR_PAGE_DYNAMIC_FILE = ''yeah-error-page.yml''"

definition ERROR_PAGE_WAKER_FILE :: string where
  "ERROR_PAGE_WAKER_FILE = ''errorpage.conf''"

definition errorPageConfigJson :: "string option \<Rightarrow> string option \<Rightarrow> string" where
  "errorPageConfigJson title message =
    json_render 0 (JObj [(''title'', JStr (default [] title)), (''message'', JStr (default [] message))]) @ [LF]"

definition errorPageEntryPointYaml :: "bool \<Rightarrow> string" where
  "errorPageEntryPointYaml enabled =
    (if enabled then ''    http:'' @ [LF] @ ''      middlewares:'' @ [LF] @ ''        - '' @ ERROR_PAGE_MIDDLEWARE @ ''@file'' @ [LF] else [])"

definition error_page_lines :: "string list" where
  "error_page_lines =
    [''http:'', ''  routers:'', ''    yeah-error-page-catchall:'', ''      rule: \"HostRegexp(`{host:.+}`)\"'',
     ''      entryPoints:'', ''        - websecure'', ''      tls: {}'', ''      service: yeah-error-pages'', ''      priority: 1'',
     ''  middlewares:'', ''    '' @ ERROR_PAGE_MIDDLEWARE @ '':'', ''      errors:'', ''        status:'', ''          - \"502-504\"'',
     ''        service: yeah-error-pages'', ''        query: \"/__error/{status}\"'', ''  services:'', ''    yeah-error-pages:'',
     ''      loadBalancer:'', ''        servers:'',
     ''          - url: \"'' @ (''http://'' @ WAKER_CONTAINER_NAME @ '':'' @ int_str WAKER_PORT) @ ''\"'', []]"

definition errorPageDynamicConfig :: string where
  "errorPageDynamicConfig = join_str [LF] error_page_lines"

section \<open>traefikStatic.ts\<close>

definition traefikStaticConfig :: "string \<Rightarrow> bool \<Rightarrow> bool \<Rightarrow> string" where
  "traefikStaticConfig acmeEmail trafficAnalyticsEnabled errorPageEnabled =
    join_str [LF]
      [''entryPoints:'', ''  web:'', ''    address: \":80\"'', ''    http:'', ''      redirections:'', ''        entryPoint:'',
       ''          to: websecure'', ''          scheme: https'', ''  websecure:'', ''    address: \":443\"'',
       errorPageEntryPointYaml errorPageEnabled @
         (if trafficAnalyticsEnabled then ''  metrics:'' @ [LF] @ ''    address: \":8082\"'' @ [LF] else []),
       ''providers:'', ''  docker:'', ''    exposedByDefault: false'', ''    network: '' @ PROXY_NETWORK_NAME,
       ''  # Fase 6: routing of plain apps is written here (traefikDynamicConfig in packages/shared), so a'',
       ''  # domain-only change updates routing without recreating the container. Empty until a deploy or a'',
       ''  # domain edit writes into it. Without addRoutersLabels (metrics below) Traefik exports no per-router counters.'',
       ''  file:'', ''    directory: /etc/traefik/dynamic'', ''    watch: true'', [], ''certificatesResolvers:'', ''  letsencrypt:'',
       ''    acme:'', ''      email: '' @ acmeEmail, ''      storage: /etc/traefik/acme.json'', ''      httpChallenge:'',
       ''        entryPoint: web'',
       (if trafficAnalyticsEnabled
        then [LF] @ ''metrics:'' @ [LF] @ ''  prometheus:'' @ [LF] @ ''    entryPoint: metrics'' @ [LF] @ ''    addRoutersLabels: true'' @ [LF]
        else [])]"

section \<open>panelDomain.ts\<close>

definition PANEL_BACKEND_HOST :: string where
  "PANEL_BACKEND_HOST = ''yeah-panel-web''"

definition PANEL_BACKEND_URL :: string where
  "PANEL_BACKEND_URL = ''http://'' @ PANEL_BACKEND_HOST @ '':80''"

definition PANEL_ROUTE_FILE :: string where
  "PANEL_ROUTE_FILE = ''yeah-panel.yml''"

definition ipv4_shape :: rx where
  "ipv4_shape =
    (let part = rx_between 1 3 (RCls is_digit)
     in RSeq part (rx_times 3 (RSeq (RCls (\<lambda>c. c = CHR ''.'')) part)))"

definition normalizePanelDomain :: "string \<Rightarrow> string + string" where
  "normalizePanelDomain input =
    (let host = normalizeHost input
     in if host = [] then Inl ''enter a domain name''
        else if includes_str host '':'' then Inl ''enter the domain only, without a port''
        else if includes_str host ''*'' then Inl (''a wildcard cannot be the panel'' @ [SQ] @ ''s domain'')
        else if rx_test ipv4_shape host then Inl ''an IP address cannot get a certificate: use a domain name''
        else if host = ''localhost'' \<or> ends_with host ''.localhost'' \<or> ends_with host ''.local'' \<or> ends_with host ''.internal''
          then Inl ''this name is not public, so no certificate can be issued for it''
        else if \<not> includes_str host ''.'' then Inl ''enter a full domain name such as panel.example.com''
        else if \<not> isValidHostname host then Inl ''this is not a valid domain name''
        else Inr host)"

definition panel_route_lines :: "string \<Rightarrow> string list" where
  "panel_route_lines domain =
    [''http:'', ''  routers:'', ''    yeah-panel:'', ''      rule: \"'' @ host_matcher domain @ ''\"'', ''      entryPoints:'',
     ''        - websecure'', ''      tls:'', ''        certResolver: letsencrypt'', ''      service: yeah-panel'',
     ''      priority: 10000'', ''  services:'', ''    yeah-panel:'', ''      loadBalancer:'', ''        servers:'',
     ''          - url: \"'' @ PANEL_BACKEND_URL @ ''\"'', []]"

definition panelRouteConfig :: "string \<Rightarrow> string" where
  "panelRouteConfig domain = join_str [LF] (panel_route_lines domain)"

text \<open>The form in which two origins are compared.\<close>

definition same_origin_form :: "string \<Rightarrow> string" where
  "same_origin_form o1 = to_lower (strip_trailing (CHR ''/'') o1)"

definition configured_origins :: "string option \<Rightarrow> string list" where
  "configured_origins webOrigin = filter (\<lambda>x. x \<noteq> []) (map trim (split_str '','' (default [] webOrigin)))"

definition withPanelOrigin :: "string option \<Rightarrow> string option \<Rightarrow> string" where
  "withPanelOrigin webOrigin panelDomain =
    (let l = configured_origins webOrigin
     in if l = [] \<or> \<not> str_truthy panelDomain then join_str '','' l
        else (let own = ''https://'' @ the panelDomain
              in if list_ex (\<lambda>x. same_origin_form x = own) l then join_str '','' l else join_str '','' (l @ [own])))"

definition PANEL_INSTALL_DIR :: string where
  "PANEL_INSTALL_DIR = ''/opt/yeah''"

definition PANEL_WEB :: string where
  "PANEL_WEB = ''$(docker ps -q --filter label=com.docker.compose.service=web --filter '' @ [SQ] @
    ''label=com.docker.compose.project.working_dir='' @ PANEL_INSTALL_DIR @ [SQ] @ '' | head -n 1)''"

definition squoted :: "string \<Rightarrow> string" where
  "squoted s = [SQ] @ s @ [SQ]"

definition panelAttachCommand :: "string \<Rightarrow> string \<Rightarrow> bool \<Rightarrow> string" where
  "panelAttachCommand proxyNetwork proxyDir onlyWithRoute =
    (let guard = (if onlyWithRoute then ''[ -f '' @ squoted (proxyDir @ ''/dynamic/'' @ PANEL_ROUTE_FILE) @ '' ] && '' else [])
     in ''c='' @ PANEL_WEB @ ''; '' @ guard @ ''[ -n \"$c\" ] && docker network inspect '' @ squoted proxyNetwork @
        '' >/dev/null 2>&1 && '' @ ''{ docker network disconnect '' @ squoted proxyNetwork @ '' \"$c\" >/dev/null 2>&1; '' @
        ''docker network connect --alias '' @ PANEL_BACKEND_HOST @ '' '' @ squoted proxyNetwork @ '' \"$c\"; }'')"

definition panelDetachCommand :: "string \<Rightarrow> string" where
  "panelDetachCommand proxyNetwork =
    ''c='' @ PANEL_WEB @ ''; if [ -n \"$c\" ]; then docker network disconnect '' @ squoted proxyNetwork @
    '' \"$c\" >/dev/null 2>&1; fi; true''"

section \<open>serviceMaintenance.ts\<close>

definition MAINTENANCE_MESSAGE_MAX :: nat where
  "MAINTENANCE_MESSAGE_MAX = 500"

definition serviceMaintenanceName :: "string \<Rightarrow> string" where
  "serviceMaintenanceName serviceId = ''yeah-svc-'' @ serviceId @ ''-maint''"

definition removeServiceMaintenanceCommand :: "string \<Rightarrow> string" where
  "removeServiceMaintenanceCommand serviceId =
    (let name = serviceMaintenanceName serviceId
     in ''rm -f '' @ shellQuote (PROXY_DIR @ ''/dynamic/'' @ name @ ''.yml'') @ '' '' @ shellQuote (PROXY_DIR @ ''/wake/'' @ name @ ''.json''))"

record ServiceMaintenanceInput =
  smi_domain :: "string option"
  smi_domains :: "StackDomain list"
  smi_containers :: "string list"
  smi_isStack :: bool

definition serviceMaintenanceHosts :: "ServiceMaintenanceInput \<Rightarrow> string list" where
  "serviceMaintenanceHosts input =
    (if \<not> smi_isStack input then (if str_truthy (smi_domain input) then [the (smi_domain input)] else [])
     else
       (let only = set (smi_containers input)
        in uniq (map sd_domain (filter (\<lambda>d. only = {} \<or> sd_service d \<in> only) (smi_domains input)))))"

definition sanitizeMaintenanceContainers :: "string list \<Rightarrow> string list \<Rightarrow> string list" where
  "sanitizeMaintenanceContainers containers stackServices = uniq (filter (\<lambda>c. c \<in> set stackServices) containers)"

definition serviceMaintenanceDynamicConfig :: "string \<Rightarrow> string list \<Rightarrow> string option" where
  "serviceMaintenanceDynamicConfig serviceId hostnames =
    (case hostnames of
       [] \<Rightarrow> None
     | first # rest \<Rightarrow>
         Some (traefikDynamicConfig (serviceMaintenanceName serviceId) (computeRouting first rest NoRedirect) WAKER_PORT
           \<lparr>backendUrl = Some (''http://'' @ WAKER_CONTAINER_NAME @ '':'' @ int_str WAKER_PORT), basicAuth = None\<rparr>))"

section \<open>Which router serves a hostname\<close>

text \<open>
  The priorities that the File Provider reads in a configuration, and the routers of both providers as name,
  hostnames and priority: the File Provider's priority is written in the file, the Docker provider's is the
  length of the rule, which is what the proxy takes when none is given. A hostname is served by the router
  whose priority is above that of every other router that claims it.
\<close>

fun priorities_of_lines :: "string \<Rightarrow> string list \<Rightarrow> (string \<times> nat) list" where
  "priorities_of_lines key [] = []"
| "priorities_of_lines key (l # ls) =
    (if starts_with l ''      priority: '' then (key, nat_of_digits (drop 16 l)) # priorities_of_lines key ls
     else if starts_with l ''    '' \<and> \<not> starts_with l ''     '' then priorities_of_lines (butlast (drop 4 l)) ls
     else priorities_of_lines key ls)"

definition priorities_of_file :: "string \<Rightarrow> (string \<times> nat) list" where
  "priorities_of_file config = priorities_of_lines [] (split_str [LF] config)"

type_synonym proxy_route = "string \<times> string list \<times> nat"

definition file_routes :: "string \<Rightarrow> proxy_route list" where
  "file_routes config = map (\<lambda>((name, hs), (key, p)). (name, hs, p)) (zip (routers_of_file config) (priorities_of_file config))"

definition label_routes :: "string list \<Rightarrow> proxy_route list" where
  "label_routes labels = map (\<lambda>(name, hs). (name, hs, length (host_rule hs))) (routers_of_labels labels)"

definition served_by :: "proxy_route list \<Rightarrow> string \<Rightarrow> string \<Rightarrow> bool" where
  "served_by routes host name \<longleftrightarrow>
    list_ex (\<lambda>(n, hs, p). n = name \<and> host \<in> set hs \<and>
      list_all (\<lambda>(n', hs', p'). n' \<noteq> name \<and> host \<in> set hs' \<longrightarrow> p' < p) routes) routes"

text \<open>The routes of a stack: the labels of its containers and the maintenance file, if there is one.\<close>

definition stack_routes :: "string \<Rightarrow> string list \<Rightarrow> StackDomain list \<Rightarrow> string list \<Rightarrow> proxy_route list" where
  "stack_routes serviceId serviceNames domains containers =
    label_routes (concat (map (\<lambda>name. stack_labels (''yeah-svc-'' @ serviceId) name domains) serviceNames)) @
    (case serviceMaintenanceDynamicConfig serviceId
            (serviceMaintenanceHosts \<lparr>smi_domain = None, smi_domains = domains, smi_containers = containers, smi_isStack = True\<rparr>) of
       None \<Rightarrow> []
     | Some config \<Rightarrow> file_routes config)"

lemma routers_of_domain_labels:
  assumes "CHR ''.'' \<notin> set name" and "isValidHostname h"
  shows "routers_of_labels (traefikLabels name (computeRouting h [] NoRedirect) port) = [(name, [h])]"
proof -
  have name: "takeWhile (\<lambda>c. c \<noteq> CHR ''.'') (name @ CHR ''.'' # s) = name" for s
    using assms(1) by (simp add: takeWhile_until)
  have rule: "read_rule (host_rule [h]) = Some [h]" using assms(2) by (simp add: read_valid_rule)
  show ?thesis
    using name rule by (simp add: traefikLabels_def computeRouting_def label_router_def label_router_simps)
qed

lemma routers_of_labels_concat: "routers_of_labels (concat xss) = concat (map routers_of_labels xss)"
  by (induction xss) simp_all

definition domain_router :: "string \<Rightarrow> StackDomain list \<Rightarrow> nat \<Rightarrow> string" where
  "domain_router serviceId domains i = (''yeah-svc-'' @ serviceId) @ ''-'' @ sd_service (domains ! i) @ ''-'' @ nat_str i"

lemma dot_free_router:
  assumes "plain_name serviceId" and "CHR ''.'' \<notin> set (sd_service (domains ! i))"
  shows "CHR ''.'' \<notin> set (domain_router serviceId domains i)"
  using assms(2) plain_name_absent [OF assms(1), of "CHR ''.''"] nat_str_digits [of i]
  by (auto simp: domain_router_def char_class_defs)

lemma set_enumerate_index: "(i, d) \<in> set (List.enumerate 0 ds) \<longleftrightarrow> i < length ds \<and> d = ds ! i"
  by (auto simp: in_set_enumerate_eq)

lemma labels_of_domain:
  assumes "plain_name serviceId" and "CHR ''.'' \<notin> set (sd_service (domains ! i))" and "isValidHostname (sd_domain (domains ! i))"
    and "normalizeHost (sd_domain (domains ! i)) = sd_domain (domains ! i)"
  shows "routers_of_labels (traefikLabels ((''yeah-svc-'' @ serviceId) @ ''-'' @ sd_service (domains ! i) @ ''-'' @ nat_str i)
        (computeRouting (normalizeHost (sd_domain (domains ! i))) [] NoRedirect) port) =
    [(domain_router serviceId domains i, [sd_domain (domains ! i)])]"
  using routers_of_domain_labels [OF dot_free_router [OF assms(1,2)] assms(3), of port] assms(4)
  by (simp add: domain_router_def)

lemma union_over_domains:
  assumes "\<And>i. i < length ds \<Longrightarrow> f (i, ds ! i) = (if sd_service (ds ! i) = name then {g i} else {})"
  shows "(\<Union>x \<in> set (List.enumerate 0 ds). f x) = {g i | i. i < length ds \<and> sd_service (ds ! i) = name}"
proof -
  have "(\<Union>x \<in> set (List.enumerate 0 ds). f x) = (\<Union>i \<in> {..<length ds}. f (i, ds ! i))"
    by (force simp: set_enumerate_index)
  also have "\<dots> = (\<Union>i \<in> {..<length ds}. if sd_service (ds ! i) = name then {g i} else {})"
    using assms by simp
  finally show ?thesis by (auto split: if_splits)
qed

text \<open>The Docker provider has one router per domain.\<close>

lemma routes_of_stack_labels:
  assumes "plain_name serviceId" and "\<forall>d \<in> set domains. CHR ''.'' \<notin> set (sd_service d) \<and> sd_service d \<in> set names \<and>
      isValidHostname (sd_domain d) \<and> normalizeHost (sd_domain d) = sd_domain d"
  shows "set (label_routes (concat (map (\<lambda>name. stack_labels (''yeah-svc-'' @ serviceId) name domains) names))) =
    {(domain_router serviceId domains i, [sd_domain (domains ! i)], length (sd_domain (domains ! i)) + 8) | i. i < length domains}"
proof -
  have one: "set (routers_of_labels (stack_labels (''yeah-svc-'' @ serviceId) name domains)) =
      {(domain_router serviceId domains i, [sd_domain (domains ! i)]) | i. i < length domains \<and> sd_service (domains ! i) = name}" for name
    using labels_of_domain [OF assms(1)] assms(2)
    unfolding stack_labels_def routers_of_labels_concat set_concat set_map image_image
    by (intro union_over_domains) auto
  have length_rule: "length (host_rule [h]) = length h + 8" for h
    by (simp add: host_rule_def host_matcher_def)
  have "sd_service (domains ! i) \<in> set names" if "i < length domains" for i
    using assms(2) that by auto
  then show ?thesis
    unfolding label_routes_def routers_of_labels_concat set_map set_concat image_image one
    by (auto simp: length_rule image_iff) blast
qed

text \<open>The File Provider has one router, with the hostnames in maintenance.\<close>

lemma priorities_quiet:
  "\<forall>l \<in> set ls. \<not> starts_with l ''      priority: '' \<Longrightarrow> priorities_of_lines key ls = []"
  by (induction ls arbitrary: key) auto

lemma file_routes_of_hosts:
  assumes "plain_name name" and "hostnames \<noteq> []" and "\<forall>h \<in> set hostnames. isValidHostname h" and "LF \<notin> set url"
  shows "file_routes (traefikDynamicConfig name (computeRouting (hd hostnames) (tl hostnames) NoRedirect) port
      \<lparr>backendUrl = Some url, basicAuth = None\<rparr>) = [(name, uniq hostnames, 1000)]"
proof -
  let ?r = "computeRouting (hd hostnames) (tl hostnames) NoRedirect" and ?opts = "\<lparr>backendUrl = Some url, basicAuth = None\<rparr>"
  have r: "?r = \<lparr>hosts = uniq hostnames, canonical = hd hostnames, redirectFrom = None\<rparr>"
    using assms(2) by (cases hostnames) (simp_all add: computeRouting_def)
  have valid: "valid_routing ?r" using assms(2,3) by (auto simp: r valid_routing_def)
  have breaks: "no_breaks ?opts" using assms(4) by (simp add: no_breaks_def)
  have key: "starts_with (''    '' @ name @ '':'') ''    ''" "\<not> starts_with (''    '' @ name @ '':'') ''     ''"
    "\<not> starts_with (''    '' @ name @ '':'') ''      priority: ''"
    using plain_name_absent [OF assms(1), of "CHR '' ''"] assms(1) by (cases name; auto simp: char_class_defs plain_name_def)+
  have prio: "priorities_of_lines [] (dynamic_lines name ?r port ?opts @ [[]]) = [(name, 1000)]"
  proof -
    have "priorities_of_lines k (service_lines name port ?opts @ [[]]) = []" for k
      using key(3) by (intro priorities_quiet) (auto simp: service_lines_def)
    moreover have "nat_of_digits ''1000'' = 1000" by code_simp
    ultimately show ?thesis
      using key by (simp add: dynamic_lines_def middleware_lines_def router_lines_def Let_def r butlast_append)
  qed
  show ?thesis
    unfolding file_routes_def routers_of_file_def priorities_of_file_def split_dynamic_config [OF assms(1) valid breaks]
      prio routers_of_dynamic_lines [OF assms(1) valid]
    by (simp add: declared_routers_def r)
qed

lemma maintenance_route:
  assumes "plain_name serviceId" and "\<forall>h \<in> set hostnames. isValidHostname h" and "distinct hostnames"
  shows "(case serviceMaintenanceDynamicConfig serviceId hostnames of None \<Rightarrow> [] | Some config \<Rightarrow> file_routes config) =
    (if hostnames = [] then [] else [(serviceMaintenanceName serviceId, hostnames, 1000)])"
proof (cases hostnames)
  case (Cons h hs)
  have "\<forall>c \<in> set ''yeah-svc-'' \<union> set ''-maint''. is_alnum c \<or> c = CHR ''-''" by code_simp
  then have name: "plain_name (serviceMaintenanceName serviceId)"
    using assms(1) unfolding plain_name_def serviceMaintenanceName_def set_append ball_Un by blast
  have url: "LF \<notin> set (''http://'' @ WAKER_CONTAINER_NAME @ '':'' @ int_str WAKER_PORT)" by (simp add: LF_not_in_int WAKER_CONTAINER_NAME_def)
  have ne: "hostnames \<noteq> []" using Cons by simp
  have "file_routes (traefikDynamicConfig (serviceMaintenanceName serviceId) (computeRouting (hd hostnames) (tl hostnames) NoRedirect)
      WAKER_PORT \<lparr>backendUrl = Some (''http://'' @ WAKER_CONTAINER_NAME @ '':'' @ int_str WAKER_PORT), basicAuth = None\<rparr>) =
      [(serviceMaintenanceName serviceId, uniq hostnames, 1000)]"
    by (rule file_routes_of_hosts [OF name ne assms(2) url])
  then show ?thesis
    unfolding serviceMaintenanceDynamicConfig_def Cons list.case option.case list.sel
    using uniq_id [OF assms(3)] by (simp only: Cons list.simps if_False)
qed (simp add: serviceMaintenanceDynamicConfig_def)

text \<open>
  C25: a stack in maintenance. Of the accepted domains of a stack, exactly those in maintenance (all of them
  when no container is named) are served by the router of the maintenance file, which forwards to the waker; every
  other domain is still served by the router of its own container. The containers' names are free of dots.
\<close>
theorem maintenance_takes_over:
  assumes "plain_name serviceId" and "validateStackDomains domains names = None"
    and "\<forall>d \<in> set domains. normalizeHost (sd_domain d) = sd_domain d \<and> CHR ''.'' \<notin> set (sd_service d)" and "i < length domains"
  shows "served_by (stack_routes serviceId names domains containers) (sd_domain (domains ! i))
    (if containers = [] \<or> sd_service (domains ! i) \<in> set containers then serviceMaintenanceName serviceId
     else domain_router serviceId domains i)"
proof -
  have "check_domains names [] domains = None" using assms(2) by (simp add: validateStackDomains_def split: if_splits)
  note accepted = check_domains_None [OF this]
  have same: "map (normalizeHost \<circ> sd_domain) domains = map sd_domain domains" using assms(3) by simp
  have distinct: "distinct (map sd_domain domains)" using accepted unfolding same by blast
  have inj: "sd_domain (domains ! j) = sd_domain (domains ! i) \<longleftrightarrow> j = i" "sd_domain (domains ! i) = sd_domain (domains ! j) \<longleftrightarrow> j = i"
    if "j < length domains" for j
    using nth_eq_iff_index_eq [OF distinct, of j i] that assms(4) by auto
  have ok: "\<forall>d \<in> set domains. CHR ''.'' \<notin> set (sd_service d) \<and> sd_service d \<in> set names \<and>
      isValidHostname (sd_domain d) \<and> normalizeHost (sd_domain d) = sd_domain d"
    using accepted assms(3) by auto
  define hs where "hs = serviceMaintenanceHosts \<lparr>smi_domain = None, smi_domains = domains, smi_containers = containers, smi_isStack = True\<rparr>"
  have hs: "set hs = sd_domain ` {d \<in> set domains. containers = [] \<or> sd_service d \<in> set containers}" "distinct hs"
    by (auto simp: hs_def serviceMaintenanceHosts_def)
  have routes: "set (stack_routes serviceId names domains containers) =
      {(domain_router serviceId domains j, [sd_domain (domains ! j)], length (sd_domain (domains ! j)) + 8) | j. j < length domains} \<union>
      (if hs = [] then {} else {(serviceMaintenanceName serviceId, hs, 1000)})"
    using maintenance_route [OF assms(1) _ hs(2)] ok hs(1)
    unfolding stack_routes_def hs_def [symmetric] set_append routes_of_stack_labels [OF assms(1) ok] by auto
  have member: "sd_domain (domains ! i) \<in> set hs \<longleftrightarrow> containers = [] \<or> sd_service (domains ! i) \<in> set containers"
  proof -
    have "d = domains ! i" if "d \<in> set domains" "sd_domain d = sd_domain (domains ! i)" for d
      using that inj by (auto simp: in_set_conv_nth)
    then show ?thesis using hs(1) nth_mem [OF assms(4)] by (auto simp: image_iff)
  qed
  have short: "length (sd_domain (domains ! j)) + 8 < 1000" if "j < length domains" for j
    using ok nth_mem [OF that] by (fastforce simp: isValidHostname_def)
  show ?thesis
  proof (cases "sd_domain (domains ! i) \<in> set hs")
    case True
    then show ?thesis
      using member short by (auto simp: served_by_def list_ex_iff list_all_iff routes split: if_splits)
  next
    case False
    then show ?thesis
      using member inj assms(4) unfolding served_by_def list_ex_iff
      by (intro bexI [of _ "(domain_router serviceId domains i, [sd_domain (domains ! i)], length (sd_domain (domains ! i)) + 8)"])
        (auto simp: list_all_iff routes split: if_splits)
  qed
qed

theorem maintenance_takes_over_witness:
  "let d1 = \<lparr>sd_service = ''web'', sd_domain = ''app.example.com'', sd_port = JNum 80\<rparr>;
       d2 = \<lparr>sd_service = ''api'', sd_domain = ''api.example.com'', sd_port = JNum 8080\<rparr>;
       routes = stack_routes ''s1'' [''web'', ''api''] [d1, d2] [''api'']
   in served_by routes ''app.example.com'' ''yeah-svc-s1-web-0'' \<and> served_by routes ''api.example.com'' ''yeah-svc-s1-maint''"
proof -
  let ?ds = "[\<lparr>sd_service = ''web'', sd_domain = ''app.example.com'', sd_port = JNum 80\<rparr>,
    \<lparr>sd_service = ''api'', sd_domain = ''api.example.com'', sd_port = JNum 8080\<rparr>]"
  have valid: "validateStackDomains ?ds [''web'', ''api''] = None" by code_simp
  have plain: "plain_name ''s1''" by (simp add: plain_name_def char_class_defs)
  have norm: "\<forall>d \<in> set ?ds. normalizeHost (sd_domain d) = sd_domain d \<and> CHR ''.'' \<notin> set (sd_service d)" by code_simp
  have "domain_router ''s1'' ?ds 0 = ''yeah-svc-s1-web-0''" "serviceMaintenanceName ''s1'' = ''yeah-svc-s1-maint''" by code_simp+
  then show ?thesis
    using maintenance_takes_over [OF plain valid norm, of 0 "[''api'']"] maintenance_takes_over [OF plain valid norm, of 1 "[''api'']"]
    by (simp add: Let_def)
qed

end
