(* ===== verification/Events.thy ===== *)
theory Events
  imports Access ProxyPages
begin

text \<open>
  The live events of the panel: packages/shared/src/wsAuth.ts (cookies, origins, routing), the service
  apps/ws/src/index.ts that keeps the sockets, and the origins the panel accepts (apps/api/src/lib/origins.ts).

  The service is a state machine: \<open>WsState\<close> holds the open sockets with the session, user and teams each
  was accepted with, the cache of owners and the panel's domain; a step takes one input (an upgrade
  request, a close, an event, a refresh) in a world that gives the time, the tables and which queries fail.
  Handlers that overlap in the code run one after the other here; a socket that is closed by the
  service leaves the set at once.

  The theorems show that an event reaches a socket only for a team that its user was a member of when
  the socket was last checked, that a refresh drops the sockets whose session ended, and which origins
  are accepted.
\<close>

section \<open>wsAuth.ts\<close>

definition SESSION_COOKIE :: string where
  "SESSION_COOKIE = ''yeah_session''"

text \<open>The names every plain object inherits: \<open>name in out\<close> is true for them.\<close>

definition inherited_names :: "string list" where
  "inherited_names =
    [''constructor'', ''__defineGetter__'', ''__defineSetter__'', ''hasOwnProperty'', ''__lookupGetter__'', ''__lookupSetter__'',
     ''isPrototypeOf'', ''propertyIsEnumerable'', ''toString'', ''valueOf'', ''__proto__'', ''toLocaleString'']"

text \<open>
  \<open>decodeURIComponent\<close>; \<open>None\<close> is the URIError of a malformed sequence. A sequence for a character above U+00FF,
  which a text of the model cannot hold, counts as malformed.
\<close>

definition hex_nibble :: "char \<Rightarrow> nat option" where
  "hex_nibble c =
    (if is_digit c then Some (code c - 48) else if in_range 65 70 c then Some (code c - 55)
     else if in_range 97 102 c then Some (code c - 87) else None)"

definition hex_byte :: "char \<Rightarrow> char \<Rightarrow> nat option" where
  "hex_byte a b = (case (hex_nibble a, hex_nibble b) of (Some x, Some y) \<Rightarrow> Some (16 * x + y) | _ \<Rightarrow> None)"

fun decodeURIComponent :: "string \<Rightarrow> string option" where
  "decodeURIComponent [] = Some []"
| "decodeURIComponent (c # s) =
    (if c \<noteq> CHR ''%'' then map_option ((#) c) (decodeURIComponent s)
     else case s of
       a # b # r \<Rightarrow>
         (case hex_byte a b of
            None \<Rightarrow> None
          | Some x \<Rightarrow>
              if x < 128 then map_option ((#) (char_of x)) (decodeURIComponent r)
              else case r of
                p # a' # b' # r' \<Rightarrow>
                  (case hex_byte a' b' of
                     Some y \<Rightarrow>
                       if p = CHR ''%'' \<and> (x = 194 \<or> x = 195) \<and> 128 \<le> y \<and> y < 192
                       then map_option ((#) (char_of ((x - 192) * 64 + (y - 128)))) (decodeURIComponent r') else None
                   | None \<Rightarrow> None)
              | _ \<Rightarrow> None)
     | _ \<Rightarrow> None)"

definition unquoted :: "string \<Rightarrow> string" where
  "unquoted v = (if 2 \<le> length v \<and> starts_with v [DQ] \<and> ends_with v [DQ] then butlast (tl v) else v)"

definition cookie_pair :: "string \<Rightarrow> (string \<times> string) option" where
  "cookie_pair part =
    (case index_of ''='' part of
       None \<Rightarrow> None
     | Some eq \<Rightarrow>
         if eq = 0 then None
         else (let name = trim (take eq part); v = unquoted (trim (drop (eq + 1) part))
               in if name = [] then None else Some (name, case decodeURIComponent v of Some u \<Rightarrow> u | None \<Rightarrow> v)))"

fun cookie_loop :: "(string \<times> string) list \<Rightarrow> string list \<Rightarrow> (string \<times> string) list" where
  "cookie_loop out [] = out"
| "cookie_loop out (part # parts) =
    (case cookie_pair part of
       None \<Rightarrow> cookie_loop out parts
     | Some (name, v) \<Rightarrow>
         if name \<in> set (map fst out) \<or> name \<in> set inherited_names then cookie_loop out parts
         else cookie_loop (out @ [(name, v)]) parts)"

definition parseCookieHeader :: "string option \<Rightarrow> (string \<times> string) list" where
  "parseCookieHeader header = (if \<not> str_truthy header then [] else cookie_loop [] (split_str '';'' (the header)))"

definition sessionIdFromCookieHeader :: "string option \<Rightarrow> string option" where
  "sessionIdFromCookieHeader header =
    (case map_of (parseCookieHeader header) SESSION_COOKIE of Some i \<Rightarrow> if i = [] then None else Some i | None \<Rightarrow> None)"

definition isOriginAllowed :: "string option \<Rightarrow> string option \<Rightarrow> bool" where
  "isOriginAllowed origin allowed =
    (let l = filter (\<lambda>x. x \<noteq> []) (map (\<lambda>x. same_origin_form (trim x)) (split_str '','' (default [] allowed)))
     in if l = [] \<or> \<not> str_truthy origin then True else same_origin_form (the origin) \<in> set l)"

datatype WsResourceKind = ServerResource | ServiceResource | ApplicationResource | DatabaseResource | DeploymentResource | ScheduleResource

datatype WsEventRoute = ToAll | ToTeam string | ToOwner WsResourceKind string

definition resource_route :: "WsResourceKind \<Rightarrow> jv \<Rightarrow> WsEventRoute option" where
  "resource_route kind i = (case as_str i of Some s \<Rightarrow> if s = [] then None else Some (ToOwner kind s) | None \<Rightarrow> None)"

definition routeEvent :: "jv \<Rightarrow> WsEventRoute option" where
  "routeEvent event =
    (let explicit = default [] (as_str (jget ''teamId'' event)); ty = default [] (as_str (jget ''type'' event))
     in if explicit \<noteq> [] then Some (ToTeam explicit)
        else if ty \<in> {''server.status'', ''server.proxy'', ''server.metrics''} then resource_route ServerResource (jget ''serverId'' event)
        else if ty = ''service.status'' then resource_route ServiceResource (jget ''serviceId'' event)
        else if ty = ''application.status'' then resource_route ApplicationResource (jget ''applicationId'' event)
        else if ty = ''database.status'' then resource_route DatabaseResource (jget ''databaseId'' event)
        else if ty \<in> {''deployment.log'', ''deployment.status''} then resource_route DeploymentResource (jget ''deploymentId'' event)
        else if ty = ''backup.status'' then resource_route ScheduleResource (jget ''scheduleId'' event)
        else if ty \<in> {''platform-operation.log'', ''platform-operation.status''} then Some ToAll
        else None)"

definition canReceive :: "WsEventRoute \<Rightarrow> string option \<Rightarrow> string set \<Rightarrow> bool" where
  "canReceive route ownerTeamId memberTeams =
    (case route of
       ToAll \<Rightarrow> True
     | ToTeam t \<Rightarrow> t \<in> memberTeams
     | ToOwner _ _ \<Rightarrow> (case ownerTeamId of Some t \<Rightarrow> t \<in> memberTeams | None \<Rightarrow> False))"

section \<open>The service\<close>

record ConnData =
  cd_sessionId :: string
  cd_userId :: string
  cd_teams :: "string set"

record WsState =
  ws_clients :: "(nat \<times> ConnData) list"
  ws_ownerCache :: "(string \<times> string \<times> int) list"
  ws_panelDomain :: "string option"
  ws_panelDomainLoadedAt :: int

record WsWorld =
  wd_dir :: Directory
  wd_now :: int
  wd_panelDomain :: "string option"
  wd_panelFails :: bool
  wd_sessionFails :: "string \<Rightarrow> bool"
  wd_teamsFail :: "string \<Rightarrow> bool"
  wd_ownerFails :: "string \<Rightarrow> bool"

definition OWNER_TTL_MS :: int where
  "OWNER_TTL_MS = 5 * 60000"

definition OWNER_CACHE_MAX :: nat where
  "OWNER_CACHE_MAX = 5000"

definition loadTeams :: "Directory \<Rightarrow> string \<Rightarrow> string set" where
  "loadTeams d userId = set (map tm_teamId (filter (\<lambda>m. tm_userId m = userId) (dir_members d)))"

definition lookupOwner :: "Directory \<Rightarrow> WsResourceKind \<Rightarrow> string \<Rightarrow> string option" where
  "lookupOwner d kind i =
    (case kind of
       ServerResource \<Rightarrow> map_option srv_teamId (find (\<lambda>s. srv_id s = i) (dir_servers d))
     | ServiceResource \<Rightarrow> map_option svc_teamId (find (\<lambda>v. svc_id v = i) (dir_services d))
     | ApplicationResource \<Rightarrow> map_option app_teamId (find (\<lambda>a. app_id a = i) (dir_applications d))
     | DatabaseResource \<Rightarrow> map_option dbs_teamId (find (\<lambda>b. dbs_id b = i) (dir_databases d))
     | DeploymentResource \<Rightarrow>
         (case concat (map (\<lambda>p. filter (\<lambda>a. dep_applicationId p = app_id a) (dir_applications d)) (filter (\<lambda>p. dep_id p = i) (dir_deployments d))) of
            a # _ \<Rightarrow> Some (app_teamId a) | [] \<Rightarrow> None)
     | ScheduleResource \<Rightarrow>
         (case concat (map (\<lambda>c. filter (\<lambda>b. bsc_databaseId c = dbs_id b) (dir_databases d)) (filter (\<lambda>c. bsc_id c = i) (dir_schedules d))) of
            b # _ \<Rightarrow> Some (dbs_teamId b) | [] \<Rightarrow> None))"

fun kind_str :: "WsResourceKind \<Rightarrow> string" where
  "kind_str ServerResource = ''server''"
| "kind_str ServiceResource = ''service''"
| "kind_str ApplicationResource = ''application''"
| "kind_str DatabaseResource = ''database''"
| "kind_str DeploymentResource = ''deployment''"
| "kind_str ScheduleResource = ''backup-schedule''"

definition owner_key :: "WsResourceKind \<Rightarrow> string \<Rightarrow> string" where
  "owner_key kind i = kind_str kind @ '':'' @ i"

text \<open>\<open>Inl\<close> is a lookup that failed.\<close>

definition ownerOf :: "WsWorld \<Rightarrow> WsResourceKind \<Rightarrow> string \<Rightarrow> WsState \<Rightarrow> (unit + string option) \<times> WsState" where
  "ownerOf w kind i st =
    (let key = owner_key kind i; hit = map_of (ws_ownerCache st) key
     in if (case hit of Some (t, expires) \<Rightarrow> wd_now w < expires | None \<Rightarrow> False) then (Inr (map_option fst hit), st)
        else if wd_ownerFails w key then (Inl (), st)
        else
          (let teamId = lookupOwner (wd_dir w) kind i
           in if \<not> str_truthy teamId then (Inr teamId, st)
              else
                (let cache = (if OWNER_CACHE_MAX \<le> length (ws_ownerCache st) then [] else ws_ownerCache st)
                 in (Inr teamId, st\<lparr>ws_ownerCache := AList.update key (the teamId, wd_now w + OWNER_TTL_MS) cache\<rparr>))))"

definition allowedOrigins :: "string option \<Rightarrow> WsWorld \<Rightarrow> WsState \<Rightarrow> string \<times> WsState" where
  "allowedOrigins webOrigin w st =
    (let st' = (if 15000 < wd_now w - ws_panelDomainLoadedAt st
           then st\<lparr>ws_panelDomainLoadedAt := wd_now w,
                   ws_panelDomain := (if wd_panelFails w then ws_panelDomain st else wd_panelDomain w)\<rparr>
           else st)
     in (withPanelOrigin webOrigin (ws_panelDomain st'), st'))"

record UpgradeRequest =
  ur_upgrade :: "string option"
  ur_origin :: "string option"
  ur_cookie :: "string option"
  ur_upgraded :: bool

datatype ws_input = Request nat UpgradeRequest | Disconnect nat | Event jv | Refresh

datatype ws_output = Reply int string | Opened nat | Sent nat string | Dropped nat int string

definition handle_request :: "string option \<Rightarrow> WsWorld \<Rightarrow> nat \<Rightarrow> UpgradeRequest \<Rightarrow> WsState \<Rightarrow> ws_output list \<times> WsState" where
  "handle_request webOrigin w n req st =
    (if map_option to_lower (ur_upgrade req) \<noteq> Some ''websocket'' then ([Reply 200 ''yeah ws service''], st)
     else
       (let (origins, st') = allowedOrigins webOrigin w st
        in if \<not> isOriginAllowed (ur_origin req) (Some origins) then ([Reply 403 ''forbidden''], st')
           else
             (let sessionId = sessionIdFromCookieHeader (ur_cookie req);
                  userId = (case sessionId of
                    Some s \<Rightarrow> if wd_sessionFails w s then None else findSessionUserId (wd_dir w) (wd_now w) (Some s)
                  | None \<Rightarrow> None)
              in if sessionId = None \<or> \<not> str_truthy userId then ([Reply 401 ''unauthorized''], st')
                 else if wd_teamsFail w (the userId) then ([Reply 503 ''unavailable''], st')
                 else if ur_upgraded req then
                   ([Opened n], st'\<lparr>ws_clients := ws_clients st' @
                      [(n, \<lparr>cd_sessionId = the sessionId, cd_userId = the userId, cd_teams = loadTeams (wd_dir w) (the userId)\<rparr>)]\<rparr>)
                 else ([Reply 400 ''upgrade failed''], st'))))"

definition dispatch :: "WsWorld \<Rightarrow> jv \<Rightarrow> WsState \<Rightarrow> ws_output list \<times> WsState" where
  "dispatch w event st =
    (case routeEvent event of
       None \<Rightarrow> ([], st)
     | Some route \<Rightarrow>
         if ws_clients st = [] then ([], st)
         else
           (let (owner, st') = (case route of ToOwner kind i \<Rightarrow> ownerOf w kind i st | _ \<Rightarrow> (Inr None, st))
            in case owner of
                 Inl u \<Rightarrow> ([], st')
               | Inr t \<Rightarrow>
                   (map (\<lambda>(n, c). Sent n (json_compact event))
                      (filter (\<lambda>(n, c). canReceive route t (cd_teams c)) (ws_clients st')), st')))"

definition refresh_client :: "WsWorld \<Rightarrow> ConnData \<Rightarrow> ConnData option" where
  "refresh_client w c =
    (if wd_sessionFails w (cd_sessionId c) then Some c
     else if \<not> str_truthy (findSessionUserId (wd_dir w) (wd_now w) (Some (cd_sessionId c))) then None
     else if wd_teamsFail w (cd_userId c) then Some c
     else Some (c\<lparr>cd_teams := loadTeams (wd_dir w) (cd_userId c)\<rparr>))"

definition refreshAll :: "WsWorld \<Rightarrow> WsState \<Rightarrow> ws_output list \<times> WsState" where
  "refreshAll w st =
    (List.map_filter (\<lambda>(n, c). case refresh_client w c of None \<Rightarrow> Some (Dropped n 4401 ''session ended'') | Some _ \<Rightarrow> None) (ws_clients st),
     st\<lparr>ws_clients := List.map_filter (\<lambda>(n, c). map_option (Pair n) (refresh_client w c)) (ws_clients st)\<rparr>)"

definition ws_step :: "string option \<Rightarrow> WsWorld \<Rightarrow> ws_input \<Rightarrow> WsState \<Rightarrow> ws_output list \<times> WsState" where
  "ws_step webOrigin w input st =
    (case input of
       Request n req \<Rightarrow> handle_request webOrigin w n req st
     | Disconnect n \<Rightarrow> ([], st\<lparr>ws_clients := filter (\<lambda>(m, c). m \<noteq> n) (ws_clients st)\<rparr>)
     | Event e \<Rightarrow> dispatch w e st
     | Refresh \<Rightarrow> refreshAll w st)"

definition ws_start :: WsState where
  "ws_start = \<lparr>ws_clients = [], ws_ownerCache = [], ws_panelDomain = None, ws_panelDomainLoadedAt = 0\<rparr>"

section \<open>Who receives an event\<close>

text \<open>
  The states the service can reach, with the worlds it has been through: all of them, and those since the last
  refresh in which no query failed.
\<close>

definition clean_refresh :: "WsWorld \<Rightarrow> ws_input \<Rightarrow> bool" where
  "clean_refresh w input \<longleftrightarrow> input = Refresh \<and> wd_sessionFails w = (\<lambda>s. False) \<and> wd_teamsFail w = (\<lambda>u. False)"

inductive ws_reachable :: "string option \<Rightarrow> WsWorld list \<Rightarrow> WsWorld list \<Rightarrow> WsState \<Rightarrow> bool" for webOrigin where
  start: "ws_reachable webOrigin [] [] ws_start"
| step: "ws_reachable webOrigin history recent st \<Longrightarrow>
    ws_reachable webOrigin (history @ [w]) ((if clean_refresh w input then [] else recent) @ [w]) (snd (ws_step webOrigin w input st))"

definition checked :: "WsWorld list \<Rightarrow> ConnData \<Rightarrow> bool" where
  "checked recent c \<longleftrightarrow>
    (\<exists>w \<in> set recent. cd_teams c = loadTeams (wd_dir w) (cd_userId c)) \<and>
    (\<exists>w \<in> set recent. findSessionUserId (wd_dir w) (wd_now w) (Some (cd_sessionId c)) \<noteq> None)"

definition owner_known :: "WsWorld list \<Rightarrow> string \<Rightarrow> string \<Rightarrow> int \<Rightarrow> bool" where
  "owner_known history key t expires \<longleftrightarrow>
    (\<exists>w \<in> set history. \<exists>kind i. key = owner_key kind i \<and> lookupOwner (wd_dir w) kind i = Some t \<and> expires = wd_now w + OWNER_TTL_MS)"

definition ws_invariant :: "WsWorld list \<Rightarrow> WsWorld list \<Rightarrow> WsState \<Rightarrow> bool" where
  "ws_invariant history recent st \<longleftrightarrow>
    (\<forall>(n, c) \<in> set (ws_clients st). checked recent c) \<and>
    (\<forall>key t expires. map_of (ws_ownerCache st) key = Some (t, expires) \<longrightarrow> owner_known history key t expires)"

lemma checked_mono: "checked recent c \<Longrightarrow> set recent \<subseteq> set recent' \<Longrightarrow> checked recent' c"
  by (auto simp: checked_def)

lemma owner_known_mono: "owner_known history key t e \<Longrightarrow> set history \<subseteq> set history' \<Longrightarrow> owner_known history' key t e"
  by (auto simp: owner_known_def)

lemma owner_key_inject [simp]: "owner_key k i = owner_key k' i' \<longleftrightarrow> k = k' \<and> i = i'"
proof
  assume eq: "owner_key k i = owner_key k' i'"
  have kind: "takeWhile (\<lambda>c. c \<noteq> CHR '':'') (owner_key k i) = kind_str k" for k i
    by (cases k) (simp_all add: owner_key_def)
  have "k = k'" if "kind_str k = kind_str k'" using that by (cases k; cases k') simp_all
  with eq kind show "k = k' \<and> i = i'" unfolding owner_key_def by (metis append_same_eq same_append_eq)
qed simp

lemma invariant_mono:
  assumes "ws_invariant history recent st" and "set history \<subseteq> set history'" and "set recent \<subseteq> set recent'"
  shows "ws_invariant history' recent' st"
  using assms checked_mono [of recent _ recent'] owner_known_mono [of history _ _ _ history']
  unfolding ws_invariant_def by (auto split: prod.splits)

lemma ownerOf_sound:
  assumes "\<And>key t e. map_of (ws_ownerCache st) key = Some (t, e) \<Longrightarrow> owner_known history key t e"
    and "ownerOf w kind i st = (r, st')"
  shows "ws_clients st' = ws_clients st"
    and "map_of (ws_ownerCache st') key = Some (t, e) \<Longrightarrow> owner_known (history @ [w]) key t e"
    and "r = Inr (Some t') \<Longrightarrow> \<exists>v \<in> set (history @ [w]). lookupOwner (wd_dir v) kind i = Some t' \<and> wd_now w < wd_now v + OWNER_TTL_MS"
proof -
  show "ws_clients st' = ws_clients st"
    using assms(2) by (auto simp: ownerOf_def Let_def split: if_splits)
  have old: "owner_known (history @ [w]) key t e" if "map_of (ws_ownerCache st) key = Some (t, e)" for key t e
    by (rule owner_known_mono [OF assms(1) [OF that]]) auto
  show "owner_known (history @ [w]) key t e" if c: "map_of (ws_ownerCache st') key = Some (t, e)"
  proof (cases "map_of (ws_ownerCache st) key = Some (t, e)")
    case False
    with c assms(2) have "key = owner_key kind i" "lookupOwner (wd_dir w) kind i = Some t" "e = wd_now w + OWNER_TTL_MS"
      by (auto simp: ownerOf_def Let_def map_of_update str_truthy_def split: if_splits option.splits)
    then show ?thesis unfolding owner_known_def by (intro bexI [of _ w]) auto
  qed (rule old)
  show "\<exists>v \<in> set (history @ [w]). lookupOwner (wd_dir v) kind i = Some t' \<and> wd_now w < wd_now v + OWNER_TTL_MS" if r: "r = Inr (Some t')"
  proof (cases "\<exists>e. map_of (ws_ownerCache st) (owner_key kind i) = Some (t', e) \<and> wd_now w < e")
    case True
    then obtain e where "map_of (ws_ownerCache st) (owner_key kind i) = Some (t', e)" "wd_now w < e" by blast
    with old show ?thesis by (fastforce simp: owner_known_def)
  next
    case False
    with r assms(2) have "lookupOwner (wd_dir w) kind i = Some t'"
      by (auto simp: ownerOf_def Let_def split: if_splits option.splits)
    then show ?thesis by (intro bexI [of _ w]) (simp_all add: OWNER_TTL_MS_def)
  qed
qed

lemma refreshed_checked:
  assumes "\<forall>(n, c) \<in> set cs. checked recent c"
    and "(n, c') \<in> set (List.map_filter (\<lambda>(n, c). map_option (Pair n) (refresh_client w c)) cs)"
  shows "checked (recent @ [w]) c'"
proof -
  from assms(2) obtain c where c: "(n, c) \<in> set cs" "refresh_client w c = Some c'"
    by (auto simp: List.map_filter_def split: option.splits)
  with assms(1) have old: "checked recent c" by auto
  show ?thesis
  proof (cases "wd_sessionFails w (cd_sessionId c) \<or> wd_teamsFail w (cd_userId c)")
    case True
    with c have "c' = c" by (auto simp: refresh_client_def split: if_splits)
    then show ?thesis using checked_mono [OF old, of "recent @ [w]"] by auto
  next
    case False
    with c show ?thesis by (auto simp: refresh_client_def checked_def str_truthy_def split: if_splits option.splits)
  qed
qed

lemma clean_checked:
  assumes "clean_refresh w Refresh"
    and "(n, c') \<in> set (List.map_filter (\<lambda>(n, c). map_option (Pair n) (refresh_client w c)) cs)"
  shows "checked [w] c'"
  using assms
  by (auto simp: List.map_filter_def clean_refresh_def refresh_client_def checked_def str_truthy_def split: option.splits if_splits)

lemma step_invariant:
  assumes "ws_invariant history recent st"
  shows "ws_invariant (history @ [w]) ((if clean_refresh w input then [] else recent) @ [w]) (snd (ws_step webOrigin w input st))"
proof (cases input)
  case (Request n req)
  then have clean: "\<not> clean_refresh w input" by (simp add: clean_refresh_def)
  obtain origins st1 where o: "allowedOrigins webOrigin w st = (origins, st1)" by force
  then have st1: "ws_clients st1 = ws_clients st" "ws_ownerCache st1 = ws_ownerCache st"
    by (auto simp: allowedOrigins_def Let_def)
  have keep: "ws_invariant (history @ [w]) (recent @ [w]) st1"
    using invariant_mono [OF assms, of "history @ [w]" "recent @ [w]"] st1 by (auto simp: ws_invariant_def)
  have new: "checked (recent @ [w]) \<lparr>cd_sessionId = s, cd_userId = u, cd_teams = loadTeams (wd_dir w) u\<rparr>"
    if "findSessionUserId (wd_dir w) (wd_now w) (Some s) = Some u" for s u
    using that by (auto simp: checked_def)
  show ?thesis
    using keep new clean invariant_mono [OF assms, of "history @ [w]" "recent @ [w]"] o
    by (auto simp: ws_step_def Request handle_request_def Let_def ws_invariant_def str_truthy_def split: option.split)
next
  case (Disconnect n)
  then show ?thesis using invariant_mono [OF assms, of "history @ [w]" "recent @ [w]"]
    by (auto simp: ws_step_def ws_invariant_def clean_refresh_def)
next
  case (Event e)
  then have clean: "\<not> clean_refresh w input" by (simp add: clean_refresh_def)
  have inv: "\<And>key t e. map_of (ws_ownerCache st) key = Some (t, e) \<Longrightarrow> owner_known history key t e"
    using assms by (auto simp: ws_invariant_def)
  have keep: "ws_invariant (history @ [w]) (recent @ [w]) st" by (rule invariant_mono [OF assms]) auto
  have owner: "ws_invariant (history @ [w]) (recent @ [w]) st'" if "ownerOf w kind i st = (r, st')" for kind i r st'
    using keep ownerOf_sound(1,2) [OF inv that] unfolding ws_invariant_def by auto
  show ?thesis using keep clean owner
    by (auto simp: ws_step_def Event dispatch_def Let_def split: option.split WsEventRoute.split prod.split sum.split)
next
  case Refresh
  have cache: "owner_known (history @ [w]) key t e" if "map_of (ws_ownerCache st) key = Some (t, e)" for key t e
    using assms that owner_known_mono [of history key t e "history @ [w]"] by (auto simp: ws_invariant_def)
  show ?thesis
  proof (cases "clean_refresh w input")
    case True
    then show ?thesis using cache clean_checked [of w] Refresh
      by (auto simp: ws_step_def refreshAll_def ws_invariant_def)
  next
    case False
    have "\<forall>(n, c) \<in> set (ws_clients st). checked recent c" using assms by (simp add: ws_invariant_def)
    then show ?thesis using cache refreshed_checked [of "ws_clients st" recent] Refresh False
      by (auto simp: ws_step_def refreshAll_def ws_invariant_def)
  qed
qed

lemma reachable_invariant: "ws_reachable webOrigin history recent st \<Longrightarrow> ws_invariant history recent st"
proof (induction rule: ws_reachable.induct)
  case start
  show ?case by (simp add: ws_invariant_def ws_start_def)
qed (rule step_invariant)

definition member_recently :: "WsWorld list \<Rightarrow> ConnData \<Rightarrow> string \<Rightarrow> bool" where
  "member_recently recent c t \<longleftrightarrow> (\<exists>w \<in> set recent. t \<in> loadTeams (wd_dir w) (cd_userId c))"

definition may_receive :: "WsWorld list \<Rightarrow> WsWorld list \<Rightarrow> WsWorld \<Rightarrow> ConnData \<Rightarrow> WsEventRoute \<Rightarrow> bool" where
  "may_receive history recent w c route =
    (case route of
       ToAll \<Rightarrow> True
     | ToTeam t \<Rightarrow> member_recently recent c t
     | ToOwner kind i \<Rightarrow> (\<exists>t. member_recently recent c t \<and>
         (\<exists>v \<in> set (history @ [w]). lookupOwner (wd_dir v) kind i = Some t \<and> wd_now w < wd_now v + OWNER_TTL_MS)))"


definition demo_event_directory :: Directory where
  "demo_event_directory =
    \<lparr>dir_users = [new_user ''u1'' 0 ''ana@example.com'' ''hash''], dir_sessions = [new_session ''s1'' 0 ''u1'' 5000], dir_teams = [],
     dir_members = [new_teamMember 0 ''t1'' ''u1''], dir_projects = [], dir_environments = [], dir_tokens = [], dir_servers = [],
     dir_services = [new_service ''v1'' 0 ''t1'' ''e1'' ''srv1'' ''web'' ''nginx'' ''nginx:1'' 80,
       new_service ''v2'' 0 ''t2'' ''e2'' ''srv1'' ''web'' ''nginx'' ''nginx:1'' 80],
     dir_applications = [], dir_databases = [], dir_deployments = [], dir_schedules = [], dir_storages = [], dir_channels = [], dir_tasks = []\<rparr>"

definition demo_ws_world :: WsWorld where
  "demo_ws_world = \<lparr>wd_dir = demo_event_directory, wd_now = 1000, wd_panelDomain = None, wd_panelFails = False,
     wd_sessionFails = (\<lambda>s. False), wd_teamsFail = (\<lambda>u. False), wd_ownerFails = (\<lambda>k. False)\<rparr>"

definition demo_upgrade :: UpgradeRequest where
  "demo_upgrade = \<lparr>ur_upgrade = Some ''websocket'', ur_origin = None, ur_cookie = Some ''a=b; yeah_session=s1'', ur_upgraded = True\<rparr>"

definition demo_status :: "string \<Rightarrow> jv" where
  "demo_status serviceId = JObj [(''type'', JStr ''service.status''), (''serviceId'', JStr serviceId), (''status'', JStr ''running'')]"


section \<open>The accepted origins\<close>

text \<open>
  apps/api/src/lib/origins.ts keeps the domain in memory; \<open>None\<close> is a query that failed. \<open>env\<close> is the variable
  WEB_ORIGIN of the process.
\<close>

definition DEV_DEFAULT :: string where
  "DEV_DEFAULT = ''http://localhost:5173,http://localhost:5174''"

definition refreshPanelDomain :: "string option option \<Rightarrow> string option \<Rightarrow> string option" where
  "refreshPanelDomain loaded current = default current loaded"

definition panel_allowedOrigins :: "string option \<Rightarrow> string option \<Rightarrow> string list" where
  "panel_allowedOrigins env current = map trim (split_str '','' (withPanelOrigin (Some (default DEV_DEFAULT env)) current))"

lemma normalizePanelDomain_valid: "normalizePanelDomain input = Inr d \<Longrightarrow> isValidHostname d \<and> d = normalizeHost input"
  by (simp add: normalizePanelDomain_def Let_def split: if_splits)

lemma panel_origin_form:
  assumes "isValidHostname d"
  shows "same_origin_form (''https://'' @ d) = ''https://'' @ d" and "CHR '','' \<notin> set (''https://'' @ d)"
    and "trim (''https://'' @ d) = ''https://'' @ d"
proof -
  have facts: "\<not> is_space c" "char_lower c = c" "c \<noteq> CHR ''/''" if "c \<in> set d" for c
    using host_char_facts [OF valid_hostname_chars [OF assms that]] by blast+
  have comma: "CHR '','' \<notin> set d"
    by (rule valid_hostname_absent [OF assms]) (simp add: host_char_def host_alnum_def char_class_defs)
  have "d \<noteq> []" using assms by (rule valid_hostname_nonempty)
  then obtain x y where d: "d = x @ [y]" by (metis rev_exhaust)
  have "strip_trailing (CHR ''/'') (''https://'' @ d) = ''https://'' @ d"
    using facts(3) [of y] by (intro strip_trailing_id) (auto simp: d suffix_def)
  moreover have "to_lower (''https://'' @ d) = ''https://'' @ d"
    using to_lower_id [of d] facts(2) unfolding to_lower_append by (simp add: to_lower_def char_lower_def char_class_defs)
  ultimately show "same_origin_form (''https://'' @ d) = ''https://'' @ d" by (simp only: same_origin_form_def)
  show "CHR '','' \<notin> set (''https://'' @ d)" using comma by simp
  show "trim (''https://'' @ d) = ''https://'' @ d"
    using facts(1) [of y] by (intro trim_ident) (auto simp: d char_class_defs)
qed

lemma configured_origins_clean:
  assumes "x \<in> set (configured_origins webOrigin)"
  shows "x \<noteq> []" and "trim x = x" and "CHR '','' \<notin> set x"
  using assms set_trim split_char_pieces [of _ "CHR '',''" "default [] webOrigin"] by (auto simp: configured_origins_def)

lemma allowed_of_list:
  assumes "\<And>x. x \<in> set l \<Longrightarrow> trim x = x \<and> CHR '','' \<notin> set x" and "l \<noteq> []"
  shows "isOriginAllowed origin (Some (join_str '','' l)) \<longleftrightarrow>
    (\<forall>x \<in> set l. same_origin_form x = []) \<or> \<not> str_truthy origin \<or>
    same_origin_form (the origin) \<in> same_origin_form ` set l - {[]}"
proof -
  have "split_str '','' (join_str '','' l) = l"
    using assms by (intro split_join_char) auto
  moreover have "map (\<lambda>x. same_origin_form (trim x)) l = map same_origin_form l"
    using assms(1) by simp
  ultimately show ?thesis
    by (auto simp: isOriginAllowed_def Let_def filter_empty_conv)
qed

text \<open>
  With a panel domain configured, a request is accepted exactly when it names no origin, when no origin
  is configured at all, or when its origin is the panel's own domain over HTTPS or one of the configured origins,
  up to trailing slashes and the case of letters.
\<close>
theorem panel_origins_accepted:
  assumes "normalizePanelDomain input = Inr d"
  shows "isOriginAllowed origin (Some (withPanelOrigin webOrigin (Some d))) \<longleftrightarrow>
    configured_origins webOrigin = [] \<or> \<not> str_truthy origin \<or>
    same_origin_form (the origin) \<in> insert (''https://'' @ d) (same_origin_form ` set (configured_origins webOrigin)) - {[]}"
proof -
  define own where "own = ''https://'' @ d"
  have valid: "isValidHostname d" using normalizePanelDomain_valid [OF assms] by blast
  note form = panel_origin_form [OF valid, folded own_def]
  have d: "str_truthy (Some d)" using valid_hostname_nonempty [OF valid] by (simp add: str_truthy_def)
  let ?web = "configured_origins webOrigin"
  show ?thesis unfolding own_def [symmetric]
  proof (cases "?web = []")
    case True
    then show "isOriginAllowed origin (Some (withPanelOrigin webOrigin (Some d))) \<longleftrightarrow> ?web = [] \<or> \<not> str_truthy origin \<or>
        same_origin_form (the origin) \<in> insert own (same_origin_form ` set ?web) - {[]}"
      by (simp add: withPanelOrigin_def isOriginAllowed_def same_origin_form_def trim_def trim_start_def trim_end_def strip_trailing_def)
  next
    case False
    define l where "l = (if own \<in> same_origin_form ` set ?web then ?web else ?web @ [own])"
    have join: "withPanelOrigin webOrigin (Some d) = join_str '','' l"
      using False d unfolding withPanelOrigin_def l_def Let_def list_ex_iff option.sel own_def [symmetric] by (auto simp: image_iff)
    have clean: "trim x = x \<and> CHR '','' \<notin> set x" if "x \<in> set l" for x
      using that configured_origins_clean form(2,3) by (auto simp: l_def split: if_splits)
    have forms: "same_origin_form ` set l = insert own (same_origin_form ` set ?web)"
      using form(1) by (auto simp: l_def split: if_splits)
    have "own \<noteq> []" "own \<in> same_origin_form ` set l" unfolding forms by (simp_all add: own_def)
    then have some: "\<not> (\<forall>x \<in> set l. same_origin_form x = [])" by auto
    have ne: "l \<noteq> []" using False by (simp add: l_def)
    show "isOriginAllowed origin (Some (withPanelOrigin webOrigin (Some d))) \<longleftrightarrow> ?web = [] \<or> \<not> str_truthy origin \<or>
        same_origin_form (the origin) \<in> insert own (same_origin_form ` set ?web) - {[]}"
      using False some by (simp only: join allowed_of_list [OF clean ne] forms simp_thms)
  qed
qed

theorem panel_origins_accepted_witness:
  "isOriginAllowed (Some ''https://Panel.Example.com/'') (Some (withPanelOrigin (Some ''http://10.0.0.1:3000'') (Some ''panel.example.com''))) \<and>
   \<not> isOriginAllowed (Some ''https://example.com'') (Some (withPanelOrigin (Some ''http://10.0.0.1:3000'') (Some ''panel.example.com'')))"
proof -
  have d: "normalizePanelDomain '' https://Panel.example.com/ '' = Inr ''panel.example.com''" by code_simp
  have "same_origin_form ''https://Panel.Example.com/'' = ''https://panel.example.com''"
    "same_origin_form ''https://example.com'' = ''https://example.com''"
    "configured_origins (Some ''http://10.0.0.1:3000'') = [''http://10.0.0.1:3000'']"
    "same_origin_form ''http://10.0.0.1:3000'' = ''http://10.0.0.1:3000''" by code_simp+
  then show ?thesis
    using panel_origins_accepted [OF d, of "Some ''https://Panel.Example.com/''" "Some ''http://10.0.0.1:3000''"]
      panel_origins_accepted [OF d, of "Some ''https://example.com''" "Some ''http://10.0.0.1:3000''"]
    by (simp add: str_truthy_def)
qed

end
