(* ===== verification/Provision.thy ===== *)
theory Provision
  imports ProxyPages Waker DatabaseCommands
begin

text \<open>
  The jobs that bring resources up on a server: the proxy (apps/worker/src/jobs/provisionProxy.ts), services and
  compose stacks (provisionService.ts, provisionService.commands.ts, lib/serviceMaintenance.ts and the catalog of
  packages/shared/src/serviceCatalog.ts), databases (provisionDatabase.ts) and the life cycle of applications
  (lifecycleApplication.ts). Each handler is an action on \<open>ProvState\<close>.

  The theorems show that a handler never leaves its resource in between: it returns with the connection closed,
  the stored status is final, and it is the status of the last event that was published.
\<close>

section \<open>State\<close>

record ProvState = JobState +
  pv_servers :: "Server list"
  pv_services :: "Service list"
  pv_databases :: "Database list"
  pv_applications :: "Application list"
  pv_panelDomain :: "string option"
  pv_conn :: bool

type_synonym 'a pact = "(ProvState, 'a) act"

definition set_server :: "string \<Rightarrow> (Server \<Rightarrow> Server) \<Rightarrow> unit pact" where
  "set_server i f = modify (\<lambda>s. s\<lparr>pv_servers := map (\<lambda>x. if srv_id x = i then f x else x) (pv_servers s)\<rparr>)"

definition set_service :: "string \<Rightarrow> (Service \<Rightarrow> Service) \<Rightarrow> unit pact" where
  "set_service i f = modify (\<lambda>s. s\<lparr>pv_services := map (\<lambda>x. if svc_id x = i then f x else x) (pv_services s)\<rparr>)"

definition set_database :: "string \<Rightarrow> (Database \<Rightarrow> Database) \<Rightarrow> unit pact" where
  "set_database i f = modify (\<lambda>s. s\<lparr>pv_databases := map (\<lambda>x. if dbs_id x = i then f x else x) (pv_databases s)\<rparr>)"

definition set_app :: "string \<Rightarrow> (Application \<Rightarrow> Application) \<Rightarrow> unit pact" where
  "set_app i f = modify (\<lambda>s. s\<lparr>pv_applications := map (\<lambda>x. if app_id x = i then f x else x) (pv_applications s)\<rparr>)"

definition row_of :: "(ProvState \<Rightarrow> 'r list) \<Rightarrow> ('r \<Rightarrow> bool) \<Rightarrow> 'r option pact" where
  "row_of rows P = gets (\<lambda>s. find P (rows s))"

definition pv_append :: "string \<Rightarrow> unit pact" where
  "pv_append t = modify (\<lambda>s. s\<lparr>js_log := js_log s @ t\<rparr>)"

definition open_conn :: "Runtime \<Rightarrow> Server \<Rightarrow> unit pact" where
  "open_conn rt server = andThen (connectSsh rt Target (srv_host server)) (modify (\<lambda>s. s\<lparr>pv_conn := True\<rparr>))"

definition end_conn :: "unit pact" where
  "end_conn = bind (gets pv_conn) (\<lambda>c. whenA c (andThen (emit (Close Target)) (modify (\<lambda>s. s\<lparr>pv_conn := False\<rparr>))))"

text \<open>\<open>const conn = await connectSsh(...); try body finally conn.end()\<close>.\<close>

definition connected :: "Runtime \<Rightarrow> Server \<Rightarrow> unit pact \<Rightarrow> unit pact" where
  "connected rt server body = andThen (open_conn rt server) (finally_do body end_conn)"

text \<open>A command whose whole output goes into the error, and one whose exit code alone counts.\<close>

definition run_output :: "Runtime \<Rightarrow> string \<Rightarrow> string \<Rightarrow> string pact" where
  "run_output rt command what =
    bind (execStream rt Target command) (\<lambda>r.
      (let output = concat (map fst (snd r))
       in if fst r \<noteq> 0 then throw (what @ '' exited with code '' @ int_str (fst r) @ '': '' @ trim output) else pure output))"

definition run_done :: "Runtime \<Rightarrow> string \<Rightarrow> string \<Rightarrow> unit pact" where
  "run_done rt command what = bind (run_output rt command what) (\<lambda>output. pure ())"

definition run_plain :: "Runtime \<Rightarrow> string \<Rightarrow> (int \<Rightarrow> string) \<Rightarrow> unit pact" where
  "run_plain rt command message =
    bind (execStream rt Target command) (\<lambda>r. whenA (fst r \<noteq> 0) (throw (message (fst r))))"

section \<open>The catalog of services\<close>

text \<open>Of a catalog entry, what provisioning and the creation of a service use; the texts for the reader are left out.\<close>

record ServiceCatalogEntry =
  cat_key :: string
  cat_name :: string
  cat_image :: string
  cat_port :: int
  cat_volumePath :: "string option"
  cat_envTemplate :: string

definition SERVICE_CATALOG :: "ServiceCatalogEntry list" where
  "SERVICE_CATALOG =
    [\<lparr>cat_key = ''uptime-kuma'', cat_name = ''Uptime Kuma'', cat_image = ''louislam/uptime-kuma:1'', cat_port = 3001,
      cat_volumePath = Some ''/app/data'', cat_envTemplate = []\<rparr>,
     \<lparr>cat_key = ''n8n'', cat_name = ''n8n'', cat_image = ''n8nio/n8n:latest'', cat_port = 5678, cat_volumePath = Some ''/home/node/.n8n'',
      cat_envTemplate = ''N8N_HOST=localhost'' @ [LF] @ ''N8N_PROTOCOL=http'' @ [LF] @ ''GENERIC_TIMEZONE=America/Sao_Paulo'' @ [LF]\<rparr>,
     \<lparr>cat_key = ''minio'', cat_name = ''MinIO'', cat_image = ''quay.io/minio/minio:latest'', cat_port = 9000, cat_volumePath = Some ''/data'',
      cat_envTemplate = ''MINIO_ROOT_USER=admin'' @ [LF] @ ''MINIO_ROOT_PASSWORD=changeme123'' @ [LF]\<rparr>,
     \<lparr>cat_key = ''rabbitmq'', cat_name = ''RabbitMQ'', cat_image = ''rabbitmq:3-management-alpine'', cat_port = 5672,
      cat_volumePath = Some ''/var/lib/rabbitmq'',
      cat_envTemplate = ''RABBITMQ_DEFAULT_USER=admin'' @ [LF] @ ''RABBITMQ_DEFAULT_PASS=changeme123'' @ [LF]\<rparr>,
     \<lparr>cat_key = ''meilisearch'', cat_name = ''Meilisearch'', cat_image = ''getmeili/meilisearch:latest'', cat_port = 7700,
      cat_volumePath = Some ''/meili_data'', cat_envTemplate = ''MEILI_MASTER_KEY=changeme123'' @ [LF]\<rparr>,
     \<lparr>cat_key = ''ghost'', cat_name = ''Ghost'', cat_image = ''ghost:5-alpine'', cat_port = 2368,
      cat_volumePath = Some ''/var/lib/ghost/content'', cat_envTemplate = ''NODE_ENV=production'' @ [LF]\<rparr>,
     \<lparr>cat_key = ''metabase'', cat_name = ''Metabase'', cat_image = ''metabase/metabase:latest'', cat_port = 3000,
      cat_volumePath = Some ''/metabase-data'', cat_envTemplate = ''MB_DB_FILE=/metabase-data/metabase.db'' @ [LF]\<rparr>,
     \<lparr>cat_key = ''portainer'', cat_name = ''Portainer'', cat_image = ''portainer/portainer-ce:latest'', cat_port = 9000,
      cat_volumePath = Some ''/data'', cat_envTemplate = []\<rparr>,
     \<lparr>cat_key = ''adminer'', cat_name = ''Adminer'', cat_image = ''adminer:latest'', cat_port = 8080, cat_volumePath = None,
      cat_envTemplate = []\<rparr>,
     \<lparr>cat_key = ''redis-commander'', cat_name = ''Redis Commander'', cat_image = ''rediscommander/redis-commander:latest'', cat_port = 8081,
      cat_volumePath = None, cat_envTemplate = ''REDIS_HOSTS=local:host.docker.internal:6379'' @ [LF]\<rparr>]"

definition findServiceCatalogEntry :: "string \<Rightarrow> ServiceCatalogEntry option" where
  "findServiceCatalogEntry key = find (\<lambda>entry. cat_key entry = key) SERVICE_CATALOG"

section \<open>Commands of services\<close>

definition containerNameForService :: "string \<Rightarrow> string" where
  "containerNameForService serviceId = ''yeah-svc-'' @ serviceId"

definition service_domain :: "Service \<Rightarrow> Server \<Rightarrow> string option" where
  "service_domain service server =
    (if str_truthy (svc_domain service) then svc_domain service
     else if srv_proxyStatus server \<noteq> ProxyActive \<or> \<not> str_truthy (srv_wildcardDomain server) then None
     else Some (resourceSlug (svc_name service) @ ''.'' @ the (srv_wildcardDomain server)))"

definition buildServiceRunCommand :: "Service \<Rightarrow> string \<Rightarrow> string \<Rightarrow> string option \<Rightarrow> string" where
  "buildServiceRunCommand service name envFilePath domain =
    (let volumePath = (case findServiceCatalogEntry (svc_catalogKey service) of Some entry \<Rightarrow> cat_volumePath entry | None \<Rightarrow> None);
         volumeFlag = (if str_truthy volumePath then ''-v '' @ shellQuote (name @ ''-data'') @ '':'' @ shellQuote (the volumePath) @ '' '' else []);
         base = ''docker run -d --name '' @ shellQuote name @ '' --env-file '' @ shellQuote envFilePath @ '' '' @ volumeFlag @
           LOG_ROTATION_FLAGS @ resourceLimitFlags service;
         restart = ''--restart unless-stopped '' @ shellQuote (svc_image service)
     in if \<not> str_truthy domain then base @ ''-p '' @ int_str (svc_port service) @ '':'' @ int_str (svc_port service) @ '' '' @ restart
        else base @ ''--network '' @ shellQuote PROXY_NETWORK_NAME @ '' '' @ ''--label traefik.enable=true '' @
          ''--label '' @ shellQuote (''traefik.http.routers.'' @ name @ ''.rule='' @ host_matcher (the domain)) @ '' '' @
          ''--label traefik.http.routers.'' @ name @ ''.entrypoints=websecure '' @
          ''--label traefik.http.routers.'' @ name @ ''.tls.certresolver=letsencrypt '' @
          ''--label traefik.http.services.'' @ name @ ''.loadbalancer.server.port='' @ int_str (svc_port service) @ '' '' @ restart)"

definition stackDir :: "string \<Rightarrow> string" where
  "stackDir serviceId = ''/opt/yeah-services/'' @ serviceId"

definition STACK_OVERRIDE_FILE :: string where
  "STACK_OVERRIDE_FILE = ''compose.yeah.override.yml''"

definition buildStackUpCommand :: "string \<Rightarrow> int \<Rightarrow> string" where
  "buildStackUpCommand serviceId waitSeconds =
    ''cd '' @ shellQuote (stackDir serviceId) @ '' && docker compose -p '' @ shellQuote (stackProject serviceId) @
    '' --env-file .env -f docker-compose.yml -f '' @ STACK_OVERRIDE_FILE @ '' '' @
    ''up -d --remove-orphans --wait --wait-timeout '' @ int_str (max 30 waitSeconds)"

definition buildStackStateCommand :: "string \<Rightarrow> string" where
  "buildStackStateCommand serviceId =
    ''docker ps -a --filter '' @ shellQuote (''label=com.docker.compose.project='' @ stackProject serviceId) @
    '' --format '' @ [SQ] @ ''{{.Names}}|{{.State}}'' @ [SQ]"

definition container_state :: "string \<Rightarrow> string option" where
  "container_state l = (case split_str ''|'' (trim l) of n # st # rest \<Rightarrow> if st = [] then None else Some st | _ \<Rightarrow> None)"

definition everyContainerUp :: "string \<Rightarrow> bool" where
  "everyContainerUp stateOutput =
    (let states = List.map_filter container_state (split_lines stateOutput)
     in states \<noteq> [] \<and> list_all (\<lambda>s. s = ''running'' \<or> s = ''restarting'') states)"

definition buildStackPullCommand :: "string \<Rightarrow> string" where
  "buildStackPullCommand serviceId =
    ''cd '' @ shellQuote (stackDir serviceId) @ '' && docker compose -p '' @ shellQuote (stackProject serviceId) @
    '' --env-file .env -f docker-compose.yml pull --quiet''"

section \<open>Maintenance of a service\<close>

definition serviceMaintenanceDynamicPath :: "string \<Rightarrow> string" where
  "serviceMaintenanceDynamicPath serviceId = PROXY_DIR @ ''/dynamic/'' @ serviceMaintenanceName serviceId @ ''.yml''"

definition serviceMaintenanceFiles :: "Service \<Rightarrow> Server \<Rightarrow> (string \<times> string) option" where
  "serviceMaintenanceFiles service server =
    (if \<not> svc_maintenanceMode service then None
     else
       (let hostnames = serviceMaintenanceHosts \<lparr>smi_domain = service_domain service server, smi_domains = svc_domains service,
              smi_containers = svc_maintenanceContainers service, smi_isStack = str_truthy (svc_composeContent service)\<rparr>
        in case serviceMaintenanceDynamicConfig (svc_id service) hostnames of
             None \<Rightarrow> None
           | Some dynamicYaml \<Rightarrow>
               Some (dynamicYaml, wakeConfigJson (serviceMaintenanceName (svc_id service)) hostnames 80 None
                 (Some (default [] (svc_maintenanceMessage service))))))"

definition applyServiceMaintenance :: "Runtime \<Rightarrow> Service \<Rightarrow> Server \<Rightarrow> unit pact" where
  "applyServiceMaintenance rt service server =
    (case serviceMaintenanceFiles service server of
       None \<Rightarrow> exec_quiet rt Target (removeServiceMaintenanceCommand (svc_id service))
     | Some (dynamicYaml, wakeJson) \<Rightarrow>
         seqs [installWaker rt,
               writeRemoteFile rt Target (wakeConfigPath (serviceMaintenanceName (svc_id service))) wakeJson,
               writeRemoteFile rt Target (serviceMaintenanceDynamicPath (svc_id service)) dynamicYaml])"

section \<open>The proxy\<close>

datatype ProxyAction = ProvisionProxy | RestartProxy | PanelRoute

definition proxy_status :: "string \<Rightarrow> ProxyStatus \<Rightarrow> unit pact" where
  "proxy_status serverId status =
    andThen (set_server serverId (\<lambda>x. x\<lparr>srv_proxyStatus := status\<rparr>)) (emit (Publish (ServerProxyEvent serverId status)))"

definition proxy_restart :: "Runtime \<Rightarrow> Server \<Rightarrow> unit pact" where
  "proxy_restart rt server =
    andThen
      (run_plain rt buildProxyRestartCommand (\<lambda>n.
        ''the proxy is not active on this server (docker restart exited with code '' @ int_str n @ '')''))
      (proxy_status (srv_id server) ProxyActive)"

definition panel_route :: "Runtime \<Rightarrow> Server \<Rightarrow> string option \<Rightarrow> unit pact" where
  "panel_route rt server domain =
    (let file = PROXY_DIR @ ''/dynamic/'' @ PANEL_ROUTE_FILE
     in connected rt server
          (if str_truthy domain then
             seqs [exec_quiet rt Target (''mkdir -p '' @ shellQuote (PROXY_DIR @ ''/dynamic'')),
                   writeRemoteFile rt Target file (panelRouteConfig (the domain)),
                   run_plain rt (panelAttachCommand PROXY_NETWORK_NAME PROXY_DIR False) (\<lambda>n.
                     ''the route was written, but the panel'' @ [SQ] @ ''s web container could not be connected to the proxy network '' @
                     ''(is the panel installed in /opt/yeah?)'')]
           else seqs [exec_quiet rt Target (''rm -f '' @ shellQuote file), exec_quiet rt Target (panelDetachCommand PROXY_NETWORK_NAME)]))"

definition proxy_command :: "Server \<Rightarrow> string" where
  "proxy_command server =
    (let acme = shellQuote (PROXY_DIR @ ''/acme.json'')
     in ''if [ -s '' @ acme @ '' ]; then cp -p '' @ acme @ '' '' @ acme @ ''.bak-$(date +%Y%m%d%H%M%S) && ls -1t '' @ acme @
        ''.bak-* | tail -n +4 | xargs -r rm -f; fi; '' @
        ''touch '' @ acme @ '' && chmod 600 '' @ acme @ '' && '' @
        ''docker network create '' @ shellQuote PROXY_NETWORK_NAME @ '' >/dev/null 2>&1 || true && '' @
        ''docker pull traefik:v2.11 >/dev/null 2>&1 || true && '' @
        ''docker rm -f '' @ shellQuote PROXY_CONTAINER_NAME @ '' >/dev/null 2>&1 || true && '' @
        ''docker run -d --name '' @ shellQuote PROXY_CONTAINER_NAME @ '' '' @
        ''--network '' @ shellQuote PROXY_NETWORK_NAME @ '' '' @
        ''-p 80:80 -p 443:443 '' @
        (if srv_trafficAnalyticsEnabled server then ''-p 127.0.0.1:8082:8082 '' else []) @
        ''-v /var/run/docker.sock:/var/run/docker.sock:ro '' @
        ''-v '' @ shellQuote (PROXY_DIR @ ''/traefik.yml'') @ '':/etc/traefik/traefik.yml:ro '' @
        ''-v '' @ acme @ '':/etc/traefik/acme.json '' @
        ''-v '' @ shellQuote (PROXY_DIR @ ''/dynamic'') @ '':/etc/traefik/dynamic '' @
        ''--restart unless-stopped traefik:v2.11'')"

definition proxy_files :: "Runtime \<Rightarrow> Server \<Rightarrow> unit pact" where
  "proxy_files rt server =
    (let errorPageFile = PROXY_DIR @ ''/dynamic/'' @ ERROR_PAGE_DYNAMIC_FILE
     in seqs
       [run_plain rt (''mkdir -p '' @ shellQuote (PROXY_DIR @ ''/dynamic'')) (\<lambda>n.
          ''mkdir -p '' @ PROXY_DIR @ ''/dynamic exited with code '' @ int_str n),
        writeRemoteFile rt Target (PROXY_DIR @ ''/traefik.yml'')
          (traefikStaticConfig (default [] (srv_acmeEmail server)) (srv_trafficAnalyticsEnabled server) (srv_errorPageEnabled server)),
        if srv_errorPageEnabled server then writeRemoteFile rt Target errorPageFile errorPageDynamicConfig
        else exec_quiet rt Target (''rm -f '' @ shellQuote errorPageFile)])"

definition proxy_error_page :: "Runtime \<Rightarrow> Server \<Rightarrow> unit pact" where
  "proxy_error_page rt server =
    (let wakerErrorConf = WAKE_CONFIG_DIR @ ''/'' @ ERROR_PAGE_WAKER_FILE
     in if srv_errorPageEnabled server
        then seqs [installWaker rt,
          writeRemoteFile rt Target wakerErrorConf (errorPageConfigJson (srv_errorPageTitle server) (srv_errorPageMessage server))]
        else exec_quiet rt Target (''rm -f '' @ shellQuote wakerErrorConf))"

definition proxy_provision :: "Runtime \<Rightarrow> Server \<Rightarrow> unit pact" where
  "proxy_provision rt server =
    seqs
      [proxy_files rt server,
       run_done rt (proxy_command server) ''docker run'',
       proxy_error_page rt server,
       proxy_status (srv_id server) ProxyActive]"

definition proxy_fail :: "string \<Rightarrow> string \<Rightarrow> unit pact" where
  "proxy_fail serverId message = proxy_status serverId ProxyError"

definition provisionProxy :: "Runtime \<Rightarrow> string \<Rightarrow> ProxyAction \<Rightarrow> unit pact" where
  "provisionProxy rt serverId action =
    bind (row_of pv_servers (\<lambda>x. srv_id x = serverId)) (\<lambda>server_opt.
      case server_opt of
        None \<Rightarrow> pure ()
      | Some server \<Rightarrow>
          (case action of
             RestartProxy \<Rightarrow> catch (connected rt server (proxy_restart rt server)) (proxy_fail serverId)
           | PanelRoute \<Rightarrow>
               catch (bind (gets pv_panelDomain) (panel_route rt server)) (\<lambda>message.
                 emit (Notify (srv_teamId server) ''deploy.failed'' (''Could not set up the panel domain on '' @ srv_name server) message LevelError))
           | ProvisionProxy \<Rightarrow>
               if \<not> str_truthy (srv_acmeEmail server)
               then proxy_fail serverId (''server has no email configured for Let'' @ [SQ] @ ''s Encrypt'')
               else catch (connected rt server (proxy_provision rt server)) (proxy_fail serverId)))"

section \<open>Services and stacks\<close>

datatype ServiceAction = DeployService | LifecycleService LifecycleAction | RoutingService

definition service_status :: "string \<Rightarrow> ServiceStatus \<Rightarrow> unit pact" where
  "service_status serviceId status =
    andThen (set_service serviceId (\<lambda>x. x\<lparr>svc_status := status\<rparr>)) (emit (Publish (ServiceStatusEvent serviceId status)))"

definition last_log :: "string \<Rightarrow> string" where
  "last_log log = drop (length log - 20000) log"

definition stack_status :: "string \<Rightarrow> ServiceStatus \<Rightarrow> string \<Rightarrow> unit pact" where
  "stack_status serviceId status log =
    andThen (set_service serviceId (\<lambda>x. x\<lparr>svc_status := status, svc_lastLog := last_log log\<rparr>))
      (emit (Publish (ServiceStatusEvent serviceId status)))"

text \<open>The closure \<open>run\<close> of \<open>provisionStack\<close>.\<close>

definition stack_run :: "Runtime \<Rightarrow> string \<Rightarrow> string \<Rightarrow> unit pact" where
  "stack_run rt command label =
    andThen (pv_append (''$ '' @ label @ [LF]))
      (bind (execStream rt Target command) (\<lambda>r.
        (let out = concat (map fst (snd r))
         in andThen (pv_append (if ends_with out [LF] \<or> out = [] then out else out @ [LF]))
              (whenA (fst r \<noteq> 0) (throw ([DQ] @ label @ [DQ] @ '' exited with code '' @ int_str (fst r)))))))"

definition stack_lifecycle :: "Runtime \<Rightarrow> string \<Rightarrow> LifecycleAction \<Rightarrow> unit pact" where
  "stack_lifecycle rt serviceId action =
    andThen
      (stack_run rt (composeLifecycleCommand action (stackProject serviceId) 10)
        (case action of StopAction \<Rightarrow> ''stopping the containers'' | StartAction \<Rightarrow> ''starting the containers''
         | RestartAction \<Rightarrow> ''restarting the containers''))
      (bind (gets js_log) (stack_status serviceId (if action = StopAction then ServiceStopped else ServiceRunning)))"

definition write_stack_file :: "Runtime \<Rightarrow> string \<Rightarrow> StackFileWrite \<Rightarrow> unit pact" where
  "write_stack_file rt dir file =
    andThen (writeRemoteFile rt Target (dir @ ''/'' @ sfw_path file) (sfw_content file))
      (whenA (sfw_executable file)
        (stack_run rt (''chmod +x '' @ shellQuote (dir @ ''/'' @ sfw_path file)) (''execute permission on '' @ sfw_path file)))"

definition write_stack_files :: "Runtime \<Rightarrow> (string \<Rightarrow> string option) \<Rightarrow> Service \<Rightarrow> unit pact" where
  "write_stack_files rt inherited service =
    (let dir = stackDir (svc_id service)
     in case svc_stackFiles service of
          None \<Rightarrow> pure ()
        | Some stack \<Rightarrow>
            (let env = rev (map (\<lambda>e. (env_key e, env_value e)) (parseEnvContent (svc_envContent service)))
             in andThen (stack_run rt (stackDirsCommand dir stack) ''creating the configuration file directories'')
                  (seqs (map (write_stack_file rt dir) (stackFileWrites inherited stack env)))))"

definition stack_up :: "Runtime \<Rightarrow> string \<Rightarrow> unit pact" where
  "stack_up rt serviceId =
    catch (stack_run rt (buildStackUpCommand serviceId 300) ''starting the stack'') (\<lambda>upErr.
      bind (execStream rt Target (buildStackStateCommand serviceId)) (\<lambda>r.
        if \<not> everyContainerUp (concat (map fst (snd r))) then throw upErr
        else pv_append ([LF] @ ''Warning: a container did not become \"healthy\" in time, but all of them are running '' @ em_dash @
          '' check the Logs tab. If the app responds, the template'' @ [SQ] @ ''s healthcheck is probably outdated.'' @ [LF])))"

definition stack_deploy ::
  "Runtime \<Rightarrow> (string \<Rightarrow> string + jv) \<Rightarrow> (string \<Rightarrow> string option) \<Rightarrow> Service \<Rightarrow> string \<Rightarrow> unit pact" where
  "stack_deploy rt yaml inherited service content =
    (case parseComposeStack yaml content of
       Inl e \<Rightarrow> throw e
     | Inr services \<Rightarrow>
         (let dir = stackDir (svc_id service); envNetwork = environmentNetworkName (svc_environmentId service)
          in seqs
            [stack_run rt (''mkdir -p '' @ shellQuote dir) ''preparing the directory'',
             writeRemoteFile rt Target (dir @ ''/docker-compose.yml'') content,
             writeRemoteFile rt Target (dir @ ''/.env'') (svc_envContent service),
             write_stack_files rt inherited service,
             writeRemoteFile rt Target (dir @ ''/'' @ STACK_OVERRIDE_FILE)
               (composeStackOverride services (stackProject (svc_id service)) (svc_domains service)),
             stack_run rt (ensureNetworkCommand envNetwork) ''environment network'',
             stack_run rt (buildStackPullCommand (svc_id service)) ''pulling the images'',
             stack_up rt (svc_id service),
             stack_run rt (stackNetworkJoinCommand (stackProject (svc_id service)) envNetwork (internalHostName (svc_name service))
               (svc_mainService service)) ''joining the environment network'',
             bind (gets js_log) (\<lambda>log. stack_status (svc_id service) ServiceRunning (log @ [LF] @ ''Stack no ar.'' @ [LF]))]))"

definition provisionStack ::
  "Runtime \<Rightarrow> (string \<Rightarrow> string + jv) \<Rightarrow> (string \<Rightarrow> string option) \<Rightarrow> Service \<Rightarrow> Server \<Rightarrow> LifecycleAction option \<Rightarrow> unit pact" where
  "provisionStack rt yaml inherited service server action =
    andThen (modify (\<lambda>s. s\<lparr>js_log := [], pv_conn := False\<rparr>))
      (finally_do
        (catch
          (andThen (open_conn rt server)
            (case action of
               Some a \<Rightarrow> stack_lifecycle rt (svc_id service) a
             | None \<Rightarrow> stack_deploy rt yaml inherited service (default [] (svc_composeContent service))))
          (\<lambda>message. bind (gets js_log) (\<lambda>log. stack_status (svc_id service) ServiceError (log @ [LF] @ ''Failed: '' @ message @ [LF]))))
        end_conn)"

definition service_steps :: "Runtime \<Rightarrow> Service \<Rightarrow> Server \<Rightarrow> unit pact" where
  "service_steps rt service server =
    (let name = containerNameForService (svc_id service); envFileDir = ''/opt/yeah-services/'' @ svc_id service;
         envFilePath = envFileDir @ ''/.env''; domain = service_domain service server
     in seqs
         [run_plain rt (''mkdir -p '' @ shellQuote envFileDir) (\<lambda>n. ''mkdir -p '' @ envFileDir @ '' exited with code '' @ int_str n),
          writeRemoteFile rt Target envFilePath (svc_envContent service),
          run_done rt (''docker rm -f '' @ shellQuote name @ '' >/dev/null 2>&1 || true && '' @
            buildServiceRunCommand service name envFilePath domain) ''docker run'',
          service_status (svc_id service) ServiceRunning])"

definition provisionService ::
  "Runtime \<Rightarrow> (string \<Rightarrow> string + jv) \<Rightarrow> (string \<Rightarrow> string option) \<Rightarrow> string \<Rightarrow> ServiceAction \<Rightarrow> unit pact" where
  "provisionService rt yaml inherited serviceId action =
    bind (row_of pv_services (\<lambda>x. svc_id x = serviceId)) (\<lambda>service_opt.
      case service_opt of
        None \<Rightarrow> pure ()
      | Some service \<Rightarrow>
          bind (row_of pv_servers (\<lambda>x. srv_id x = svc_serverId service)) (\<lambda>server_opt.
            case server_opt of
              None \<Rightarrow> set_service serviceId (\<lambda>x. x\<lparr>svc_status := ServiceError\<rparr>)
            | Some server \<Rightarrow>
                if action = RoutingService then connected rt server (applyServiceMaintenance rt service server)
                else if str_truthy (svc_composeContent service)
                then provisionStack rt yaml inherited service server (case action of LifecycleService a \<Rightarrow> Some a | _ \<Rightarrow> None)
                else catch (connected rt server (service_steps rt service server)) (\<lambda>message. service_status serviceId ServiceError)))"

section \<open>Databases\<close>

definition db_status :: "string \<Rightarrow> DatabaseStatus \<Rightarrow> unit pact" where
  "db_status databaseId status =
    andThen (set_database databaseId (\<lambda>x. x\<lparr>dbs_status := status\<rparr>)) (emit (Publish (DatabaseStatusEvent databaseId status)))"

definition all_digits :: "string \<Rightarrow> bool" where
  "all_digits s \<longleftrightarrow> s \<noteq> [] \<and> list_all is_digit s"

text \<open>\<open>engineUid\<close>: no identifier when the lookup fails or answers something else.\<close>

definition uid_command :: "Database \<Rightarrow> string" where
  "uid_command database =
    ''docker run --rm --entrypoint sh '' @ shellQuote (dbs_image database) @ '' -c '' @
    shellQuote (''id -u '' @ ENGINE_RUN_USER (dbs_engine database) @ '' 2>/dev/null'')"

definition engineUid :: "Runtime \<Rightarrow> Database \<Rightarrow> string option pact" where
  "engineUid rt database s =
    (case run_output rt (uid_command database) ''uid lookup'' s of
       (Inl e, s') \<Rightarrow> (Inr None, s')
     | (Inr output, s') \<Rightarrow> (Inr (if all_digits (trim output) then Some (trim output) else None), s'))"

definition installTlsFiles :: "Runtime \<Rightarrow> (string \<Rightarrow> string \<times> string) \<Rightarrow> Database \<Rightarrow> unit pact" where
  "installTlsFiles rt generateSelfSignedCert database =
    (let dir = dbCertDir (dbs_id database); (certPem, keyPem) = generateSelfSignedCert (internalHostName (dbs_name database));
         keyFiles = shellQuote (dir @ ''/server.key'') @ '' '' @ shellQuote (dir @ ''/server.pem'')
     in seqs
       [run_done rt (''mkdir -p '' @ shellQuote dir) ''mkdir'',
        writeRemoteFile rt Target (dir @ ''/server.crt'') certPem,
        writeRemoteFile rt Target (dir @ ''/server.key'') keyPem,
        writeRemoteFile rt Target (dir @ ''/server.pem'') (keyPem @ certPem),
        whenA (dbs_engine database = PostgreSQL) (writeRemoteFile rt Target (dir @ ''/pg_hba.conf'') postgresHbaConfig),
        bind (engineUid rt database) (\<lambda>uid.
          (let secret = (case uid of
                 Some u \<Rightarrow> ''chown '' @ u @ '':'' @ u @ '' '' @ keyFiles @ '' && chmod 600 '' @ keyFiles
               | None \<Rightarrow> ''chmod 644 '' @ keyFiles)
           in run_done rt (''chmod 644 '' @ shellQuote (dir @ ''/server.crt'') @ '' '' @ shellQuote (dir @ ''/pg_hba.conf'') @
                '' 2>/dev/null; '' @ secret @ '' && chmod 755 '' @ shellQuote dir) ''chmod''))])"

definition clickhouse_files :: "Runtime \<Rightarrow> Database \<Rightarrow> unit pact" where
  "clickhouse_files rt database =
    (let backups = shellQuote (dbBackupsDir (dbs_id database))
     in seqs
       [run_done rt (''mkdir -p '' @ shellQuote (dbConfigDir (dbs_id database)) @ '' '' @ backups) ''mkdir'',
        bind (engineUid rt database) (\<lambda>uid.
          case uid of
            Some u \<Rightarrow> run_done rt (''chown '' @ u @ '':'' @ u @ '' '' @ backups) ''chown''
          | None \<Rightarrow> run_done rt (''chmod 777 '' @ backups) ''chmod''),
        writeRemoteFile rt Target (dbConfigDir (dbs_id database) @ ''/backups.xml'') clickhouseBackupsConfig])"

definition database_steps :: "Runtime \<Rightarrow> (string \<Rightarrow> string \<times> string) \<Rightarrow> Database \<Rightarrow> unit pact" where
  "database_steps rt cert database =
    (let name = containerNameForDatabase (dbs_id database); networkName = environmentNetworkName (dbs_environmentId database)
     in seqs
       [run_done rt (ensureNetworkCommand networkName) ''docker network'',
        whenA (dbs_ssl database) (installTlsFiles rt cert database),
        whenA (dbs_engine database = ClickHouse) (clickhouse_files rt database),
        run_done rt (''docker rm -f '' @ shellQuote name @ '' >/dev/null 2>&1 || true && '' @
          buildDbRunCommand database name (name @ ''-data'') (Some \<lparr>ro_networkName = networkName, ro_alias = internalHostName (dbs_name database)\<rparr>))
          ''docker run'',
        whenA (dbs_healthEnabled database \<and> str_truthy (healthProbe database))
          (run_done rt (buildHealthWaitCommand name (dbHealthWaitSeconds database)) ''healthcheck''),
        db_status (dbs_id database) DbRunning])"

definition provisionDatabase :: "Runtime \<Rightarrow> (string \<Rightarrow> string \<times> string) \<Rightarrow> string \<Rightarrow> unit pact" where
  "provisionDatabase rt cert databaseId =
    bind (row_of pv_databases (\<lambda>x. dbs_id x = databaseId)) (\<lambda>database_opt.
      case database_opt of
        None \<Rightarrow> pure ()
      | Some database \<Rightarrow>
          bind (row_of pv_servers (\<lambda>x. srv_id x = dbs_serverId database)) (\<lambda>server_opt.
            case server_opt of
              None \<Rightarrow> set_database databaseId (\<lambda>x. x\<lparr>dbs_status := DbError\<rparr>)
            | Some server \<Rightarrow>
                catch (connected rt server (database_steps rt cert database)) (\<lambda>message. db_status databaseId DbError)))"

section \<open>The life cycle of an application\<close>

definition buildLifecycleCommand :: "LifecycleAction \<Rightarrow> string \<Rightarrow> int \<Rightarrow> string" where
  "buildLifecycleCommand action containerName graceSeconds =
    (let name = shellQuote containerName; grace = int_str (max 0 graceSeconds)
     in case action of
          StartAction \<Rightarrow> ''docker start '' @ name
        | StopAction \<Rightarrow> ''docker stop -t '' @ grace @ '' '' @ name
        | RestartAction \<Rightarrow> ''docker restart -t '' @ grace @ '' '' @ name)"

definition lifecycleResultStatus :: "LifecycleAction \<Rightarrow> ApplicationStatus" where
  "lifecycleResultStatus action = (if action = StopAction then AppStopped else AppRunning)"

definition action_str :: "LifecycleAction \<Rightarrow> string" where
  "action_str action = (case action of StartAction \<Rightarrow> ''start'' | StopAction \<Rightarrow> ''stop'' | RestartAction \<Rightarrow> ''restart'')"

definition application_status :: "string \<Rightarrow> ApplicationStatus \<Rightarrow> unit pact" where
  "application_status applicationId status =
    andThen (set_app applicationId (\<lambda>x. x\<lparr>app_status := status\<rparr>)) (emit (Publish (ApplicationStatusEvent applicationId status)))"

definition lifecycle_body :: "Runtime \<Rightarrow> Application \<Rightarrow> Server \<Rightarrow> LifecycleAction \<Rightarrow> unit pact" where
  "lifecycle_body rt application server action =
    andThen (open_conn rt server)
      (bind (execStream rt Target
          (if app_buildPack application = DockerCompose
           then composeLifecycleCommand action (composeProjectName (app_id application)) (app_stopGraceSeconds application)
           else buildLifecycleCommand action (''yeah-app-'' @ app_id application) (app_stopGraceSeconds application))) (\<lambda>r.
        (let output = trim (concat (map fst (snd r)))
         in andThen
              (whenA (fst r \<noteq> 0) (throw (if output \<noteq> [] then output else ''docker exited with code '' @ int_str (fst r))))
              (application_status (app_id application) (lifecycleResultStatus action)))))"

definition lifecycleApplication :: "Runtime \<Rightarrow> string \<Rightarrow> LifecycleAction \<Rightarrow> unit pact" where
  "lifecycleApplication rt applicationId action =
    bind (row_of pv_applications (\<lambda>x. app_id x = applicationId)) (\<lambda>application_opt.
      case application_opt of
        None \<Rightarrow> pure ()
      | Some application \<Rightarrow>
          bind (row_of pv_servers (\<lambda>x. srv_id x = app_serverId application)) (\<lambda>server_opt.
            case server_opt of
              None \<Rightarrow> pure ()
            | Some server \<Rightarrow>
                andThen (modify (\<lambda>s. s\<lparr>pv_conn := False\<rparr>))
                (finally_do
                  (catch (lifecycle_body rt application server action) (\<lambda>message.
                    andThen (application_status applicationId AppError)
                      (emit (Notify (app_teamId application) ''deploy.failed''
                        (''Failed to run '' @ [DQ] @ action_str action @ [DQ] @ '' on '' @ app_name application) message LevelError))))
                  end_conn)))"

section \<open>What was announced\<close>

text \<open>
  \<open>told pick statuses finals\<close>: the rows of a resource have one of its final statuses, and the last event that
  was published about the resource said so. \<open>pick\<close> selects the events of the resource, \<open>statuses\<close> its rows.
\<close>

definition published_status :: "(event \<Rightarrow> 'st option) \<Rightarrow> effect \<Rightarrow> 'st option" where
  "published_status pick e = (case e of Publish ev \<Rightarrow> pick ev | _ \<Rightarrow> None)"

definition last_event :: "(event \<Rightarrow> 'st option) \<Rightarrow> effect list \<Rightarrow> 'st option" where
  "last_event pick tr = (case rev (List.map_filter (published_status pick) tr) of [] \<Rightarrow> None | x # xs \<Rightarrow> Some x)"

definition told :: "(event \<Rightarrow> 'st option) \<Rightarrow> (ProvState \<Rightarrow> 'st list) \<Rightarrow> 'st set \<Rightarrow> ProvState \<Rightarrow> bool" where
  "told pick statuses finals s \<longleftrightarrow> (\<exists>st \<in> finals. last_event pick (js_trace s) = Some st \<and> set (statuses s) \<subseteq> {st})"

definition database_told :: "string \<Rightarrow> ProvState \<Rightarrow> bool" where
  "database_told i = told (\<lambda>e. case e of DatabaseStatusEvent j st \<Rightarrow> if j = i then Some st else None | _ \<Rightarrow> None)
    (\<lambda>s. map dbs_status (filter (\<lambda>x. dbs_id x = i) (pv_databases s))) {DbRunning, DbError}"

definition service_told :: "string \<Rightarrow> ProvState \<Rightarrow> bool" where
  "service_told i = told (\<lambda>e. case e of ServiceStatusEvent j st \<Rightarrow> if j = i then Some st else None | _ \<Rightarrow> None)
    (\<lambda>s. map svc_status (filter (\<lambda>x. svc_id x = i) (pv_services s))) {ServiceRunning, ServiceStopped, ServiceError}"

definition proxy_told :: "string \<Rightarrow> ProvState \<Rightarrow> bool" where
  "proxy_told i = told (\<lambda>e. case e of ServerProxyEvent j st \<Rightarrow> if j = i then Some st else None | _ \<Rightarrow> None)
    (\<lambda>s. map srv_proxyStatus (filter (\<lambda>x. srv_id x = i) (pv_servers s))) {ProxyActive, ProxyError}"

definition application_told :: "string \<Rightarrow> ProvState \<Rightarrow> bool" where
  "application_told i = told (\<lambda>e. case e of ApplicationStatusEvent j st \<Rightarrow> if j = i then Some st else None | _ \<Rightarrow> None)
    (\<lambda>s. map app_status (filter (\<lambda>x. app_id x = i) (pv_applications s))) {AppRunning, AppStopped, AppError}"

lemmas told_defs = database_told_def service_told_def proxy_told_def application_told_def

lemma last_event_snoc [simp]:
  "last_event pick (tr @ [e]) = (case published_status pick e of Some st \<Rightarrow> Some st | None \<Rightarrow> last_event pick tr)"
  by (simp add: last_event_def List.map_filter_def split: option.split)

lemma told_after:
  assumes "\<And>s. set (statuses (f s)) \<subseteq> {st}" and "st \<in> finals" and "pick ev = Some st"
    and "\<And>s t. statuses (s\<lparr>js_trace := t\<rparr>) = statuses s"
  shows "ensures (told pick statuses finals) (andThen (modify f) (emit (Publish ev)))"
  using assms by (auto simp: ensures_def told_def emit_def modify_def published_status_def)

lemma told_kept:
  assumes "published_status pick e = None" and "\<And>s t. statuses (s\<lparr>js_trace := t\<rparr>) = statuses s"
  shows "keeps (told pick statuses finals) (emit e)"
  using assms by (intro keeps_emit_by) (simp add: told_def)

lemma told_end:
  assumes "\<And>s t. statuses (s\<lparr>js_trace := t\<rparr>) = statuses s" and "\<And>s c. statuses (s\<lparr>pv_conn := c\<rparr>) = statuses s"
  shows "keeps (told pick statuses finals) end_conn"
  unfolding end_conn_def using assms
  by (intro keeps_rules told_kept keeps_modify) (simp_all add: told_def published_status_def)

lemma row_statuses:
  "set (map g (filter P (map (\<lambda>x. if P x then f x else x) xs))) \<subseteq> {st}" if "\<And>x. g (f x) = st"
  using that by (auto split: if_splits)

lemma told_write:
  assumes "\<And>x. g (h x) = st" and "\<And>s. rows (f s) = map (\<lambda>x. if P x then h x else x) (rows s)" and "st \<in> finals" and "pick ev = Some st"
    and "\<And>s t. rows (s\<lparr>js_trace := t\<rparr>) = rows s"
  shows "ensures (told pick (\<lambda>s. map g (filter P (rows s))) finals) (andThen (modify f) (emit (Publish ev)))"
proof (rule told_after)
  show "set (map g (filter P (rows (f s)))) \<subseteq> {st}" for s
    unfolding assms(2) by (rule row_statuses [where g = g and f = h, OF assms(1)])
qed (simp_all add: assms)

lemma db_status_told: "st \<in> {DbRunning, DbError} \<Longrightarrow> ensures (database_told i) (db_status i st)"
  unfolding database_told_def db_status_def set_database_def
  by (rule told_write [where rows = pv_databases and h = "\<lambda>x. x\<lparr>dbs_status := st\<rparr>"]) simp_all

lemma service_status_told: "st \<in> {ServiceRunning, ServiceStopped, ServiceError} \<Longrightarrow> ensures (service_told i) (service_status i st)"
  unfolding service_told_def service_status_def set_service_def
  by (rule told_write [where rows = pv_services and h = "\<lambda>x. x\<lparr>svc_status := st\<rparr>"]) simp_all

lemma stack_status_told: "st \<in> {ServiceRunning, ServiceStopped, ServiceError} \<Longrightarrow> ensures (service_told i) (stack_status i st log)"
  unfolding service_told_def stack_status_def set_service_def
  by (rule told_write [where rows = pv_services and h = "\<lambda>x. x\<lparr>svc_status := st, svc_lastLog := last_log log\<rparr>"]) simp_all

lemma proxy_status_told: "st \<in> {ProxyActive, ProxyError} \<Longrightarrow> ensures (proxy_told i) (proxy_status i st)"
  unfolding proxy_told_def proxy_status_def set_server_def
  by (rule told_write [where rows = pv_servers and h = "\<lambda>x. x\<lparr>srv_proxyStatus := st\<rparr>"]) simp_all

lemma application_status_told: "st \<in> {AppRunning, AppStopped, AppError} \<Longrightarrow> ensures (application_told i) (application_status i st)"
  unfolding application_told_def application_status_def set_app_def
  by (rule told_write [where rows = pv_applications and h = "\<lambda>x. x\<lparr>app_status := st\<rparr>"]) simp_all

lemmas status_told = db_status_told service_status_told stack_status_told proxy_status_told application_status_told

lemma end_keeps_told:
  "keeps (database_told i) end_conn" "keeps (service_told i) end_conn" "keeps (proxy_told i) end_conn" "keeps (application_told i) end_conn"
  unfolding told_defs by (intro told_end; simp)+

lemma returns_writes:
  "returns (db_status i a)" "returns (service_status i b)" "returns (stack_status i b l)" "returns (proxy_status i c)" "returns (application_status i d)"
  "returns end_conn"
  unfolding db_status_def service_status_def stack_status_def proxy_status_def application_status_def set_database_def set_service_def
    set_server_def set_app_def end_conn_def
  by (intro returns_rules)+

section \<open>Jobs that connect\<close>

definition job_settles :: "(ProvState \<Rightarrow> bool) \<Rightarrow> (string + unit) \<times> ProvState \<Rightarrow> bool" where
  "job_settles settled r \<longleftrightarrow> fst r = Inr () \<and> \<not> pv_conn (snd r) \<and> settled (snd r)"

lemma end_closes: "\<not> pv_conn (snd (end_conn s))"
  by (simp add: end_conn_def bind_def gets_def whenA_def pure_def andThen_def emit_def modify_def)

lemma end_ensures: "ensures (\<lambda>s. \<not> pv_conn s) end_conn"
  by (simp add: ensures_def end_closes)

lemma connectSsh_conn: "pv_conn (snd (connectSsh rt m a s)) = pv_conn s"
  by (auto simp: connectSsh_def emit_def act_defs bind_def andThen_def split: option.split)

lemma connected_closes: "keeps (\<lambda>s. \<not> pv_conn s) (connected rt server body)"
proof -
  have "snd (finally_do body end_conn s) = snd (end_conn (snd (body s)))" for s
    by (simp add: finally_do_def case_prod_unfold split: sum.split)
  then have "\<not> pv_conn (snd (finally_do body end_conn s))" for s by (simp add: end_closes)
  then show ?thesis
    using connectSsh_conn [of rt Target "srv_host server"]
    by (auto simp: keeps_def connected_def open_conn_def andThen_def snd_bind fst_bind modify_def split: sum.split)
qed

lemma connected_ensures: "ensures Q body \<Longrightarrow> keeps Q end_conn \<Longrightarrow> ensures Q (connected rt server body)"
  unfolding connected_def
  by (rule ensures_last) (auto simp: ensures_def keeps_def finally_do_def case_prod_unfold split: sum.splits)

lemma writes_keep_closed:
  "keeps (\<lambda>s. \<not> pv_conn s) (db_status i a)" "keeps (\<lambda>s. \<not> pv_conn s) (service_status i b)"
  "keeps (\<lambda>s. \<not> pv_conn s) (proxy_status i c)"
  unfolding db_status_def service_status_def proxy_status_def set_database_def set_service_def set_server_def
  by (intro keeps_rules keeps_modify keeps_emit; simp add: trace_only_def)+

locale connected_job = settling settled "\<lambda>s. True" "connected rt server steps" handler "pure ()"
  for settled and rt and server and steps and handler +
  assumes handler_keeps: "keeps (\<lambda>s. \<not> pv_conn s) (handler e)"
begin

lemma job: "\<not> pv_conn s \<Longrightarrow> job_settles settled (catch (connected rt server steps) handler s)"
proof -
  assume closed: "\<not> pv_conn s"
  have "returns (catch (connected rt server steps) handler)" by (rule returns_catch [OF handler_returns])
  then have "fst (catch (connected rt server steps) handler s) = Inr ()"
    unfolding returns_def by (metis (full_types) old.unit.exhaust)
  moreover have "keeps (\<lambda>s. \<not> pv_conn s) (catch (connected rt server steps) handler)"
    by (intro keeps_rules connected_closes handler_keeps)
  ultimately show ?thesis using closed settled_after by (simp add: job_settles_def keeps_def)
qed

end

lemma quiet_end: "returns (pure ())" "keeps Q (pure ())" "ensures (\<lambda>s. True) m"
  by (simp_all add: returns_rules keeps_pure ensures_def)

lemma ensures_seqs_last: "ensures Q m \<Longrightarrow> ensures Q (seqs [m])" "ensures Q (seqs ms) \<Longrightarrow> ensures Q (seqs (k # ms))"
  by (auto simp: ensures_def andThen_def fst_bind snd_bind pure_def split: sum.splits)

lemma steps_told:
  "ensures (database_told (dbs_id database)) (database_steps rt cert database)"
  "ensures (service_told (svc_id service)) (service_steps rt service server)"
  "ensures (proxy_told (srv_id server)) (proxy_restart rt server)"
  "ensures (proxy_told (srv_id server)) (proxy_provision rt server)"
  unfolding database_steps_def service_steps_def proxy_restart_def proxy_provision_def Let_def
  by (intro ensures_seqs_last ensures_last status_told; simp)+

interpretation database_job: connected_job "database_told (dbs_id database)" rt server "database_steps rt cert database"
  "\<lambda>m. db_status (dbs_id database) DbError" for database rt server cert
  by unfold_locales
    (intro connected_ensures steps_told end_keeps_told returns_writes status_told quiet_end writes_keep_closed; simp)+

interpretation service_job: connected_job "service_told (svc_id service)" rt server "service_steps rt service server"
  "\<lambda>m. service_status (svc_id service) ServiceError" for service rt server
  by unfold_locales
    (intro connected_ensures steps_told end_keeps_told returns_writes status_told quiet_end writes_keep_closed; simp)+

interpretation restart_job: connected_job "proxy_told (srv_id server)" rt server "proxy_restart rt server"
  "proxy_fail (srv_id server)" for rt server
  unfolding proxy_fail_def
  by unfold_locales
    (intro connected_ensures steps_told end_keeps_told returns_writes status_told quiet_end writes_keep_closed; simp)+

interpretation proxy_job: connected_job "proxy_told (srv_id server)" rt server "proxy_provision rt server"
  "proxy_fail (srv_id server)" for rt server
  unfolding proxy_fail_def
  by unfold_locales
    (intro connected_ensures steps_told end_keeps_told returns_writes status_told quiet_end writes_keep_closed; simp)+

text \<open>The stack and the life cycle open the connection inside the \<open>try\<close> block.\<close>

lemma stack_told:
  "ensures (service_told (svc_id service)) (stack_deploy rt yaml inherited service content)"
  "ensures (service_told (svc_id service)) (stack_lifecycle rt (svc_id service) action)"
proof -
  show "ensures (service_told (svc_id service)) (stack_deploy rt yaml inherited service content)"
  proof (cases "parseComposeStack yaml content")
    case (Inl e)
    then show ?thesis by (simp add: stack_deploy_def ensures_def throw_def)
  next
    case (Inr services)
    show ?thesis unfolding stack_deploy_def Inr sum.case Let_def
      by (intro ensures_seqs_last ensures_bind status_told) simp
  qed
  show "ensures (service_told (svc_id service)) (stack_lifecycle rt (svc_id service) action)"
    unfolding stack_lifecycle_def by (intro ensures_last ensures_bind status_told) simp
qed

interpretation stack_job: settling "service_told (svc_id service)" "\<lambda>s. \<not> pv_conn s"
  "andThen (open_conn rt server) (case action of Some a \<Rightarrow> stack_lifecycle rt (svc_id service) a
     | None \<Rightarrow> stack_deploy rt yaml inherited service (default [] (svc_composeContent service)))"
  "\<lambda>message. bind (gets js_log) (\<lambda>log. stack_status (svc_id service) ServiceError (log @ [LF] @ ''Failed: '' @ message @ [LF]))"
  end_conn for service rt server action yaml inherited
proof unfold_locales
  show "ensures (service_told (svc_id service)) (andThen (open_conn rt server) (case action of Some a \<Rightarrow> stack_lifecycle rt (svc_id service) a
      | None \<Rightarrow> stack_deploy rt yaml inherited service (default [] (svc_composeContent service))))"
    by (rule ensures_last) (simp add: stack_told split: option.split)
qed (intro returns_rules returns_writes ensures_bind status_told end_keeps_told end_ensures; simp)+

interpretation lifecycle_job: settling "application_told (app_id application)" "\<lambda>s. \<not> pv_conn s"
  "lifecycle_body rt application server action"
  "\<lambda>message. andThen (application_status (app_id application) AppError)
    (emit (Notify (app_teamId application) ''deploy.failed''
      (''Failed to run '' @ [DQ] @ action_str action @ [DQ] @ '' on '' @ app_name application) message LevelError))"
  end_conn for application rt server action
proof unfold_locales
  show "ensures (application_told (app_id application)) (lifecycle_body rt application server action)"
    unfolding lifecycle_body_def Let_def
    by (intro ensures_last ensures_bind status_told) (simp add: lifecycleResultStatus_def)
  have quiet: "keeps (application_told i) (emit (Notify a b c d e))" for i a b c d e
    unfolding application_told_def by (intro told_kept) (simp_all add: published_status_def)
  show "ensures (application_told (app_id application)) (andThen (application_status (app_id application) AppError)
      (emit (Notify (app_teamId application) ''deploy.failed''
        (''Failed to run '' @ [DQ] @ action_str action @ [DQ] @ '' on '' @ app_name application) message LevelError)))" for message
    by (intro ensures_kept status_told quiet) simp
qed (intro returns_rules returns_writes end_keeps_told end_ensures)+

lemma modify_left: "andThen (modify f) m s = m (f s)"
  by simp

lemma stack_settles:
  "job_settles (service_told (svc_id service)) (provisionStack rt yaml inherited service server action s)"
  unfolding provisionStack_def job_settles_def modify_left using stack_job.runs by blast


definition demo_prov_state :: ProvState where
  "demo_prov_state =
    \<lparr>js_trace = [], js_log = [], pv_servers = [(new_server ''srv1'' 0 ''t1'' ''main'' ''10.0.0.1'' ''key'')\<lparr>srv_acmeEmail := Some ''a@b.c''\<rparr>],
     pv_services = [new_service ''v1'' 0 ''t1'' ''e1'' ''srv1'' ''web'' ''nginx'' ''nginx:1'' 80], pv_databases = [], pv_applications = [],
     pv_panelDomain = None, pv_conn = False\<rparr>"

text \<open>A server on which every command fails.\<close>

definition broken :: Runtime where
  "broken = calm\<lparr>rt_exec := (\<lambda>tr m cmd. ExecClosed (Some 1) [])\<rparr>"


end
