(* ===== verification/PlatformOps.thy ===== *)
theory PlatformOps
  imports ProxyPages Remote Access
begin

text \<open>
  Updates of the panel itself: the job of apps/worker/src/jobs/platformOperation.ts with its commands
  (platformOperation.commands.ts) and the routes of apps/api/src/routes/updates.ts that start an operation and list
  the last ones.

  The job puts itself back into the queue while the update runs on the host: \<open>work\<close> runs the queued
  jobs one after the other, each in its own world (\<open>Runtime\<close>). The theorems show that this loop ends, what
  the log of an operation holds, and when two operations can run at once.
\<close>

section \<open>Commands\<close>

definition OK_MARKER :: string where
  "OK_MARKER = ''===YEAH_OP_OK===''"

definition FAIL_MARKER :: string where
  "FAIL_MARKER = ''===YEAH_OP_FAILED===''"

definition REMOTE_LOG_PATH :: string where
  "REMOTE_LOG_PATH = ''/opt/yeah/.update.log''"

definition SYSTEM_UPDATE_COMMAND :: string where
  "SYSTEM_UPDATE_COMMAND =
    ''export DEBIAN_FRONTEND=noninteractive && '' @
    ''apt-get update -qq && apt-get upgrade -y -qq && apt-get autoremove -y -qq''"

definition PRE_UPDATE_GUARD :: string where
  "PRE_UPDATE_GUARD =
    ''('' @ ''set -o pipefail; '' @
    ''used=$(df --output=pcent / | tail -1 | tr -dc 0-9); '' @
    ''if [ \"${YEAH_SKIP_DISK_CHECK:-0}\" != 1 ] && [ \"${used:-0}\" -ge 92 ]; then '' @
    ''echo \"UPDATE CANCELLED: the disk is at ${used}%. Free up space (Docker cleanup) or use YEAH_SKIP_DISK_CHECK=1.\"; exit 1; fi; '' @
    ''if [ \"${YEAH_BACKUP_BEFORE_UPDATE:-1}\" != 0 ]; then '' @
    ''PGU=$(grep -E \"^POSTGRES_USER=\" .env | cut -d= -f2-); PGD=$(grep -E \"^POSTGRES_DB=\" .env | cut -d= -f2-); '' @
    ''mkdir -p /root/yeah-backups; f=/root/yeah-backups/yeah-$(date +%Y%m%d-%H%M%S).sql.gz; '' @
    ''if docker compose -f docker-compose.prod.yml --env-file .env exec -T postgres pg_dump -U \"${PGU:-yeah}\" \"${PGD:-yeah}\" < /dev/null | gzip > \"$f\" && [ -s \"$f\" ]; then '' @
    ''echo \"database backup saved to $f\"; ls -1t /root/yeah-backups/yeah-*.sql.gz | tail -n +6 | xargs -r rm -f; '' @
    ''else rm -f \"$f\"; echo \"UPDATE CANCELLED: the database backup could not be made. Use YEAH_BACKUP_BEFORE_UPDATE=0 to skip it.\"; exit 1; fi; fi '' @
    '')''"

definition buildLaunchCommand :: string where
  "buildLaunchCommand =
    (let inner =
       PRE_UPDATE_GUARD @ '' && '' @
       ''git fetch --quiet origin && git reset --hard --quiet origin/main && '' @
       ''export YEAH_COMMIT=$(git rev-parse HEAD) && '' @
       ''docker compose -f docker-compose.prod.yml --env-file .env up -d --build && '' @
       ''{ '' @ panelAttachCommand PROXY_NETWORK_NAME PROXY_DIR True @ ''; true; } && '' @
       ''docker compose -f docker-compose.prod.yml --env-file .env run --rm api bun run --cwd ../../packages/db db:migrate < /dev/null '' @
       ''&& echo '' @ shellQuote OK_MARKER @ '' || echo '' @ shellQuote FAIL_MARKER
     in ''cd /opt/yeah && rm -f '' @ shellQuote REMOTE_LOG_PATH @ '' && '' @
        ''nohup bash -c '' @ shellQuote inner @ '' > '' @ shellQuote REMOTE_LOG_PATH @ '' 2>&1 < /dev/null & disown; echo LAUNCHED'')"

definition buildLogTailCommand :: string where
  "buildLogTailCommand = ''cat '' @ shellQuote REMOTE_LOG_PATH @ '' 2>/dev/null || true''"

section \<open>The job\<close>

record OpsState = JobState +
  ops_rows :: "PlatformOperation list"
  ops_servers :: "Server list"
  ops_queue :: "string list"
  ops_conn :: bool

type_synonym 'a oact = "(OpsState, 'a) act"

definition POLL_DELAY_MS :: int where
  "POLL_DELAY_MS = 5000"

definition LAUNCH_TIMEOUT_MS :: int where
  "LAUNCH_TIMEOUT_MS = 15 * 60 * 1000"

definition set_operation :: "string \<Rightarrow> (PlatformOperation \<Rightarrow> PlatformOperation) \<Rightarrow> unit oact" where
  "set_operation i f = modify (\<lambda>s. s\<lparr>ops_rows := map (\<lambda>x. if pop_id x = i then f x else x) (ops_rows s)\<rparr>)"

definition ops_now :: "Runtime \<Rightarrow> int oact" where
  "ops_now rt = gets (\<lambda>s. rt_now rt (js_trace s))"

definition findPlatformHost :: "Server option oact" where
  "findPlatformHost = gets (\<lambda>s. find srv_isPlatformHost (ops_servers s))"

text \<open>The result is an error text, or a connection.\<close>

definition connectToPlatformHost :: "Runtime \<Rightarrow> (string + unit) oact" where
  "connectToPlatformHost rt =
    bind findPlatformHost (\<lambda>host.
      case host of
        None \<Rightarrow> pure (Inl ''no server is marked as the platform host (installation without the automatic install.sh setup)'')
      | Some server \<Rightarrow>
          (\<lambda>s. case connectSsh rt Target (srv_host server) s of
                 (Inl e, s') \<Rightarrow> (Inr (Inl e), s')
               | (Inr u, s') \<Rightarrow> (Inr (Inr ()), s'\<lparr>ops_conn := True\<rparr>)))"

definition close_host :: "unit oact" where
  "close_host = andThen (emit (Close Target)) (modify (\<lambda>s. s\<lparr>ops_conn := False\<rparr>))"

definition appendLog :: "string \<Rightarrow> string \<Rightarrow> unit oact" where
  "appendLog operationId chunk =
    whenA (chunk \<noteq> [])
      (andThen (set_operation operationId (\<lambda>x. x\<lparr>pop_log := pop_log x @ chunk\<rparr>)) (emit (Publish (PlatformLog operationId chunk))))"

definition finish_operation :: "Runtime \<Rightarrow> string \<Rightarrow> PlatformOperationStatus \<Rightarrow> unit oact" where
  "finish_operation rt operationId status =
    bind (ops_now rt) (\<lambda>now.
      andThen (set_operation operationId (\<lambda>x. x\<lparr>pop_status := status, pop_finishedAt := Some now\<rparr>))
        (emit (Publish (PlatformStatusEvent operationId status))))"

definition give_up :: "Runtime \<Rightarrow> string \<Rightarrow> string \<Rightarrow> unit oact" where
  "give_up rt operationId text' = andThen (appendLog operationId text') (finish_operation rt operationId OpFailed)"

definition mark_running :: "Runtime \<Rightarrow> string \<Rightarrow> unit oact" where
  "mark_running rt operationId =
    bind (ops_now rt) (\<lambda>now.
      andThen (set_operation operationId (\<lambda>x. x\<lparr>pop_status := OpRunning, pop_startedAt := Some now\<rparr>))
        (emit (Publish (PlatformStatusEvent operationId OpRunning))))"

definition poll_again :: "string \<Rightarrow> unit oact" where
  "poll_again operationId = modify (\<lambda>s. s\<lparr>ops_queue := ops_queue s @ [operationId]\<rparr>)"

definition runSystemUpdate :: "Runtime \<Rightarrow> string \<Rightarrow> unit oact" where
  "runSystemUpdate rt operationId =
    andThen (mark_running rt operationId)
      (bind (connectToPlatformHost rt) (\<lambda>target.
        case target of
          Inl e \<Rightarrow> give_up rt operationId ([LF] @ ''falha: '' @ e @ [LF])
        | Inr u \<Rightarrow>
            finally_do
              (catch
                (bind (execStream rt Target SYSTEM_UPDATE_COMMAND) (\<lambda>r.
                  andThen (seqs (map (\<lambda>c. appendLog operationId (fst c)) (snd r)))
                    (finish_operation rt operationId (if fst r = 0 then OpSuccess else OpFailed))))
                (\<lambda>e. give_up rt operationId ([LF] @ ''falha: '' @ e @ [LF])))
              close_host))"

definition launchPlatformUpdate :: "Runtime \<Rightarrow> string \<Rightarrow> unit oact" where
  "launchPlatformUpdate rt operationId =
    bind (connectToPlatformHost rt) (\<lambda>target.
      case target of
        Inl e \<Rightarrow> give_up rt operationId ([LF] @ ''falha: '' @ e @ [LF])
      | Inr u \<Rightarrow>
          finally_do
            (catch
              (bind (execStream rt Target buildLaunchCommand) (\<lambda>r.
                andThen (seqs (map (\<lambda>c. appendLog operationId (fst c)) (snd r)))
                  (if fst r \<noteq> 0 \<or> \<not> list_ex (\<lambda>c. includes_str (fst c) ''LAUNCHED'') (snd r)
                   then give_up rt operationId ([LF] @ ''could not start the update in the background'' @ [LF])
                   else andThen (mark_running rt operationId) (poll_again operationId))))
              (\<lambda>e. give_up rt operationId ([LF] @ ''failed to start: '' @ e @ [LF])))
            close_host)"

definition poll_log :: "Runtime \<Rightarrow> string \<Rightarrow> unit oact" where
  "poll_log rt operationId =
    bind (execStream rt Target buildLogTailCommand) (\<lambda>r.
    bind (gets (\<lambda>s. case find (\<lambda>x. pop_id x = operationId) (ops_rows s) of Some x \<Rightarrow> pop_log x | None \<Rightarrow> [])) (\<lambda>currentLog.
      (let remoteLog = concat (map fst (snd r))
       in andThen (whenA (length remoteLog > length currentLog) (appendLog operationId (drop (length currentLog) remoteLog)))
            (if includes_str remoteLog OK_MARKER then finish_operation rt operationId OpSuccess
             else if includes_str remoteLog FAIL_MARKER then finish_operation rt operationId OpFailed
             else poll_again operationId))))"

definition pollPlatformUpdate :: "Runtime \<Rightarrow> PlatformOperation \<Rightarrow> unit oact" where
  "pollPlatformUpdate rt operation =
    bind (ops_now rt) (\<lambda>now.
      if (case pop_startedAt operation of Some t \<Rightarrow> now - t > LAUNCH_TIMEOUT_MS | None \<Rightarrow> False)
      then give_up rt (pop_id operation) ([LF] @ ''timed out waiting for the update to finish'' @ [LF])
      else bind (connectToPlatformHost rt) (\<lambda>target.
        case target of
          Inl e \<Rightarrow> poll_again (pop_id operation)
        | Inr u \<Rightarrow> finally_do (poll_log rt (pop_id operation)) close_host))"

definition platformOperation :: "Runtime \<Rightarrow> string \<Rightarrow> unit oact" where
  "platformOperation rt operationId =
    bind (gets (\<lambda>s. find (\<lambda>x. pop_id x = operationId) (ops_rows s))) (\<lambda>found.
      case found of
        None \<Rightarrow> pure ()
      | Some operation \<Rightarrow>
          if pop_kind operation = SystemUpdate then runSystemUpdate rt operationId
          else if pop_status operation = OpQueued then launchPlatformUpdate rt operationId
          else if pop_status operation = OpRunning then pollPlatformUpdate rt operation
          else pure ())"

section \<open>The queue\<close>

text \<open>The worker takes one job after the other; the \<open>k\<close>-th run happens in the world \<open>rts k\<close>.\<close>

fun work :: "(nat \<Rightarrow> Runtime) \<Rightarrow> nat \<Rightarrow> nat \<Rightarrow> OpsState \<Rightarrow> OpsState" where
  "work rts k 0 s = s"
| "work rts k (Suc n) s =
    (case ops_queue s of
       [] \<Rightarrow> s
     | i # q \<Rightarrow> work rts (Suc k) n (snd (platformOperation (rts k) i (s\<lparr>ops_queue := q\<rparr>))))"

section \<open>Starting an operation\<close>

text \<open>\<open>fresh\<close> is the identifier of the new row, \<open>now\<close> the time of its creation.\<close>

definition startPlatformOperation :: "string \<Rightarrow> int \<Rightarrow> PlatformOperationKind \<Rightarrow> OpsState \<Rightarrow> PlatformOperation option \<times> OpsState" where
  "startPlatformOperation fresh now kind s =
    (if list_ex (\<lambda>x. pop_status x = OpRunning) (ops_rows s) then (None, s)
     else
       (let operation = new_platformOperation fresh now kind
        in (Some operation, s\<lparr>ops_rows := ops_rows s @ [operation], ops_queue := ops_queue s @ [fresh]\<rparr>)))"

datatype update_reply = Unauthorized | NoPlatformHost | AlreadyRunning | Started PlatformOperation

definition hasPlatformHost :: "OpsState \<Rightarrow> bool" where
  "hasPlatformHost s = list_ex srv_isPlatformHost (ops_servers s)"

definition post_update_run ::
  "Directory \<Rightarrow> string option \<Rightarrow> string \<Rightarrow> int \<Rightarrow> PlatformOperationKind \<Rightarrow> OpsState \<Rightarrow> update_reply \<times> OpsState" where
  "post_update_run d session fresh now kind s =
    (if findSessionUser d now session = None then (Unauthorized, s)
     else if \<not> hasPlatformHost s then (NoPlatformHost, s)
     else case startPlatformOperation fresh now kind s of
            (None, s') \<Rightarrow> (AlreadyRunning, s')
          | (Some operation, s') \<Rightarrow> (Started operation, s'))"

definition last_operation :: "PlatformOperationKind \<Rightarrow> OpsState \<Rightarrow> PlatformOperation option" where
  "last_operation kind s =
    (case sort_by (\<lambda>a b. cmp_key pop_createdAt b a) (filter (\<lambda>x. pop_kind x = kind) (ops_rows s)) of
       x # _ \<Rightarrow> Some x | [] \<Rightarrow> None)"

section \<open>States of an operation\<close>

definition rows_all :: "string \<Rightarrow> (PlatformOperation \<Rightarrow> bool) \<Rightarrow> OpsState \<Rightarrow> bool" where
  "rows_all i P s \<longleftrightarrow> (\<exists>x \<in> set (ops_rows s). pop_id x = i) \<and> (\<forall>x \<in> set (ops_rows s). pop_id x = i \<longrightarrow> P x)"

definition op_queued :: "PlatformOperationKind \<Rightarrow> PlatformOperation \<Rightarrow> bool" where
  "op_queued kind x \<longleftrightarrow> pop_kind x = kind \<and> pop_status x = OpQueued"

definition op_running :: "int \<Rightarrow> PlatformOperation \<Rightarrow> bool" where
  "op_running t x \<longleftrightarrow> pop_kind x = PlatformUpdate \<and> pop_status x = OpRunning \<and> pop_startedAt x = Some t"

definition op_done :: "PlatformOperation \<Rightarrow> bool" where
  "op_done x \<longleftrightarrow> pop_status x \<in> {OpSuccess, OpFailed}"

definition tail_rejected :: "OpsState \<Rightarrow> bool" where
  "tail_rejected s \<longleftrightarrow> (\<exists>e. Exec Target buildLogTailCommand (ExecRejected e) \<in> set (js_trace s))"

lemma rows_all_find:
  "rows_all i P s \<Longrightarrow> \<exists>x. find (\<lambda>x. pop_id x = i) (ops_rows s) = Some x \<and> pop_id x = i \<and> P x"
proof -
  assume a: "rows_all i P s"
  then have "find (\<lambda>x. pop_id x = i) (ops_rows s) \<noteq> None" by (auto simp: rows_all_def find_None_iff)
  then obtain x where "find (\<lambda>x. pop_id x = i) (ops_rows s) = Some x" by blast
  with find_SomeD [OF this] a show ?thesis by (auto simp: rows_all_def)
qed

lemma rows_all_set:
  assumes "rows_all i P s" and "\<And>x. P x \<Longrightarrow> Q (f x)" and "\<And>x. pop_id (f x) = pop_id x"
  shows "rows_all i Q (s\<lparr>ops_rows := map (\<lambda>x. if pop_id x = i then f x else x) (ops_rows s)\<rparr>)"
  using assms by (auto simp: rows_all_def)

lemma rows_all_trace [simp]:
  "rows_all i P (s\<lparr>js_trace := t\<rparr>) = rows_all i P s" "rows_all i P (s\<lparr>ops_queue := q\<rparr>) = rows_all i P s"
  "rows_all i P (s\<lparr>ops_conn := c\<rparr>) = rows_all i P s"
  by (simp_all add: rows_all_def)

text \<open>An operation in a state, with what is in the queue.\<close>

definition op_at :: "string \<Rightarrow> (PlatformOperation \<Rightarrow> bool) \<Rightarrow> string list \<Rightarrow> OpsState \<Rightarrow> bool" where
  "op_at i P q s \<longleftrightarrow> rows_all i P s \<and> ops_queue s = q"

lemma op_at_trace_only: "trace_only (op_at i P q)"
  by (simp add: trace_only_def op_at_def)

lemma op_emit: "triple (op_at i P q) (emit e) (\<lambda>u. op_at i P q) E"
  unfolding emit_def by (intro triple_rules) (simp add: op_at_def)

lemma op_set:
  assumes "\<And>x. P x \<Longrightarrow> Q (f x)" and "\<And>x. pop_id (f x) = pop_id x"
  shows "triple (op_at i P q) (set_operation i f) (\<lambda>u. op_at i Q q) E"
  unfolding set_operation_def
  by (intro triple_rules) (auto simp: op_at_def intro!: rows_all_set [where P = P and Q = Q and f = f] assms)

lemma op_now: "triple (op_at i P q) (ops_now rt) (\<lambda>now s. op_at i P q s \<and> (\<exists>tr. now = rt_now rt tr)) E"
  unfolding ops_now_def by (intro triple_rules) auto

definition logless :: "(PlatformOperation \<Rightarrow> bool) \<Rightarrow> bool" where
  "logless P \<longleftrightarrow> (\<forall>x l. P x \<longrightarrow> P (x\<lparr>pop_log := l\<rparr>))"

lemma logless_states [simp]: "logless (op_queued kind)" "logless (op_running t)" "logless op_done" "logless (\<lambda>x. pop_kind x = k)"
  by (simp_all add: logless_def op_queued_def op_running_def op_done_def)

lemma op_append: "logless P \<Longrightarrow> triple (op_at i P q) (appendLog i c) (\<lambda>u. op_at i P q) E"
  unfolding appendLog_def whenA_def
  by (rule triple_rules op_set [of P P] op_emit | simp add: logless_def op_at_def)+

lemma op_finish:
  assumes "st \<in> {OpSuccess, OpFailed}"
  shows "triple (op_at i P q) (finish_operation rt i st) (\<lambda>u. op_at i op_done q) E"
proof -
  have set: "triple (op_at i P q) (set_operation i (\<lambda>x. x\<lparr>pop_status := st, pop_finishedAt := Some now\<rparr>)) (\<lambda>u. op_at i op_done q) E" for now
    by (rule op_set) (use assms in \<open>auto simp: op_done_def\<close>)
  show ?thesis unfolding finish_operation_def
    by (rule triple_bind [OF op_now], rule triple_andThen [OF triple_conseq [OF set] op_emit]) auto
qed

lemma op_give_up: "logless P \<Longrightarrow> triple (op_at i P q) (give_up rt i t) (\<lambda>u. op_at i op_done q) E"
  unfolding give_up_def by (rule triple_rules op_append op_finish | simp)+

lemma op_mark:
  "triple (op_at i (\<lambda>x. pop_kind x = PlatformUpdate) q) (mark_running rt i)
    (\<lambda>u s. \<exists>tr. op_at i (op_running (rt_now rt tr)) q s) E"
proof -
  have "triple (\<lambda>s. op_at i (\<lambda>x. pop_kind x = PlatformUpdate) q s \<and> (\<exists>tr. now = rt_now rt tr))
      (andThen (set_operation i (\<lambda>x. x\<lparr>pop_status := OpRunning, pop_startedAt := Some now\<rparr>)) (emit (Publish (PlatformStatusEvent i OpRunning))))
      (\<lambda>u s. \<exists>tr. op_at i (op_running (rt_now rt tr)) q s) E" for now
  proof (cases "\<exists>tr. now = rt_now rt tr")
    case True
    then obtain tr where now: "now = rt_now rt tr" by blast
    have "triple (op_at i (\<lambda>x. pop_kind x = PlatformUpdate) q)
        (set_operation i (\<lambda>x. x\<lparr>pop_status := OpRunning, pop_startedAt := Some now\<rparr>)) (\<lambda>u. op_at i (op_running now) q) E"
      by (rule op_set) (simp_all add: op_running_def)
    from triple_andThen [OF this op_emit] have "triple (op_at i (\<lambda>x. pop_kind x = PlatformUpdate) q)
        (andThen (set_operation i (\<lambda>x. x\<lparr>pop_status := OpRunning, pop_startedAt := Some now\<rparr>)) (emit (Publish (PlatformStatusEvent i OpRunning))))
        (\<lambda>u. op_at i (op_running now) q) E" .
    then show ?thesis by (rule triple_conseq) (auto simp: now)
  qed (simp add: triple_def)
  then show ?thesis unfolding mark_running_def by (rule triple_bind [OF op_now])
qed

lemma op_close: "triple (op_at i P q) close_host (\<lambda>u. op_at i P q) E"
  unfolding close_host_def by (rule triple_rules op_emit | simp add: op_at_def)+

lemma op_appends: "logless P \<Longrightarrow> triple (op_at i P q) (seqs (map (\<lambda>c. appendLog i (fst c)) cs)) (\<lambda>u. op_at i P q) E"
  by (induction cs) (auto intro!: triple_rules op_append)

lemma op_exec: "triple (op_at i P q) (execStream rt m cmd) (\<lambda>r. op_at i P q) (op_at i P q)"
  by (rule triple_keeps [OF keeps_execStream [OF op_at_trace_only]])

lemma op_connect: "triple (op_at i P q) (connectToPlatformHost rt) (\<lambda>r. op_at i P q) E"
proof -
  have conn: "op_at i P q (snd (connectSsh rt m a s))" if "op_at i P q s" for m a and s :: OpsState
    using keeps_connectSsh [OF op_at_trace_only, of i P q rt m a] that by (simp add: keeps_def)
  show ?thesis unfolding triple_def
  proof (intro allI impI)
    fix s assume s: "op_at i P q s"
    show "case fst (connectToPlatformHost rt s) of Inl e \<Rightarrow> E (snd (connectToPlatformHost rt s)) | Inr r \<Rightarrow> op_at i P q (snd (connectToPlatformHost rt s))"
    proof (cases "find srv_isPlatformHost (ops_servers s)")
      case None
      with s show ?thesis by (simp add: connectToPlatformHost_def findPlatformHost_def pure_def)
    next
      case (Some server)
      then show ?thesis using conn [OF s, of Target "srv_host server"]
        by (auto simp: connectToPlatformHost_def findPlatformHost_def op_at_def split: prod.split sum.split)
    qed
  qed
qed

section \<open>The loop ends\<close>

text \<open>Where a run leaves the operation \<open>i\<close> that it took: finished, or running with the next poll in the queue.\<close>

definition after_run :: "string \<Rightarrow> (int \<Rightarrow> bool) \<Rightarrow> OpsState \<Rightarrow> bool" where
  "after_run i T s \<longleftrightarrow> op_at i op_done [] s \<or> (\<exists>t. T t \<and> op_at i (op_running t) [i] s)"

lemma close_after: "triple (after_run i T) close_host (\<lambda>u. after_run i T) E"
  unfolding close_host_def emit_def
  by (simp add: triple_def andThen_def modify_def bind_def after_run_def op_at_def)

lemma false_triple: "triple (\<lambda>s. False) m Q E"
  by (simp add: triple_def)

lemma done_after: "triple P m (\<lambda>u. op_at i op_done []) E \<Longrightarrow> triple P m (\<lambda>u. after_run i T) E"
  by (erule triple_conseq) (auto simp: after_run_def)

lemma run_system:
  "triple (op_at i (op_queued SystemUpdate) []) (runSystemUpdate rt i) (\<lambda>u. op_at i op_done []) (\<lambda>s. False)"
proof -
  let ?P = "\<lambda>x. True"
  have logless: "logless ?P" by (simp add: logless_def)
  have set: "triple (op_at i (op_queued SystemUpdate) []) (set_operation i (\<lambda>x. x\<lparr>pop_status := OpRunning, pop_startedAt := Some now\<rparr>))
      (\<lambda>u. op_at i ?P []) E" for now E
    by (rule op_set) simp_all
  have mark: "triple (op_at i (op_queued SystemUpdate) []) (mark_running rt i) (\<lambda>u. op_at i ?P []) E" for E
    unfolding mark_running_def by (rule triple_bind [OF op_now], rule triple_andThen [OF triple_conseq [OF set] op_emit]) auto
  have body: "triple (op_at i ?P [])
      (bind (execStream rt Target SYSTEM_UPDATE_COMMAND) (\<lambda>r.
        andThen (seqs (map (\<lambda>c. appendLog i (fst c)) (snd r))) (finish_operation rt i (if fst r = 0 then OpSuccess else OpFailed))))
      (\<lambda>u. op_at i op_done []) (op_at i ?P [])"
    by (rule triple_bind [OF op_exec], rule triple_andThen [OF op_appends [OF logless]], rule op_finish) simp
  show ?thesis
    unfolding runSystemUpdate_def
  proof (rule triple_andThen [OF mark], rule triple_bind [OF op_connect])
    show "triple (op_at i ?P []) (case target of Inl e \<Rightarrow> give_up rt i ([LF] @ ''falha: '' @ e @ [LF])
        | Inr u \<Rightarrow> finally_do (catch (bind (execStream rt Target SYSTEM_UPDATE_COMMAND) (\<lambda>r.
              andThen (seqs (map (\<lambda>c. appendLog i (fst c)) (snd r))) (finish_operation rt i (if fst r = 0 then OpSuccess else OpFailed))))
            (\<lambda>e. give_up rt i ([LF] @ ''falha: '' @ e @ [LF]))) close_host)
        (\<lambda>u. op_at i op_done []) (\<lambda>s. False)" for target :: "string + unit"
      by (cases target)
        (auto intro!: op_give_up [OF logless] triple_finally [OF triple_catch [OF body op_give_up [OF logless]] op_close false_triple])
  qed
qed

lemma run_launch:
  "triple (op_at i (op_queued PlatformUpdate) []) (launchPlatformUpdate rt i) (\<lambda>u. after_run i (\<lambda>t. \<exists>tr. t = rt_now rt tr)) (\<lambda>s. False)"
proof -
  let ?T = "\<lambda>t. \<exists>tr. t = rt_now rt tr" and ?Q = "op_at i (op_queued PlatformUpdate) []"
  have again: "triple ?Q (andThen (mark_running rt i) (poll_again i)) (\<lambda>u. after_run i ?T) E" for E
  proof (rule triple_andThen)
    show "triple ?Q (mark_running rt i) (\<lambda>u s. \<exists>tr. op_at i (op_running (rt_now rt tr)) [] s) E"
      by (rule triple_conseq [OF op_mark]) (auto simp: op_at_def rows_all_def op_queued_def)
    show "triple (\<lambda>s. \<exists>tr. op_at i (op_running (rt_now rt tr)) [] s) (poll_again i) (\<lambda>u. after_run i ?T) E"
      by (auto simp: op_at_def poll_again_def triple_def modify_def after_run_def)
  qed
  have body: "triple ?Q
      (bind (execStream rt Target buildLaunchCommand) (\<lambda>r.
        andThen (seqs (map (\<lambda>c. appendLog i (fst c)) (snd r)))
          (if fst r \<noteq> 0 \<or> \<not> list_ex (\<lambda>c. includes_str (fst c) ''LAUNCHED'') (snd r)
           then give_up rt i ([LF] @ ''could not start the update in the background'' @ [LF])
           else andThen (mark_running rt i) (poll_again i))))
      (\<lambda>u. after_run i ?T) ?Q"
    by (rule triple_bind [OF op_exec], rule triple_andThen [OF op_appends], simp, rule triple_if, rule done_after, rule op_give_up, simp, rule again)
  have handler: "triple ?Q (give_up rt i t) (\<lambda>u. after_run i ?T) (\<lambda>s. False)" for t
    by (rule done_after, rule op_give_up) simp
  show ?thesis
    unfolding launchPlatformUpdate_def
  proof (rule triple_bind [OF op_connect])
    show "triple ?Q (case target of Inl e \<Rightarrow> give_up rt i ([LF] @ ''falha: '' @ e @ [LF])
        | Inr u \<Rightarrow> finally_do (catch
            (bind (execStream rt Target buildLaunchCommand) (\<lambda>r.
              andThen (seqs (map (\<lambda>c. appendLog i (fst c)) (snd r)))
                (if fst r \<noteq> 0 \<or> \<not> list_ex (\<lambda>c. includes_str (fst c) ''LAUNCHED'') (snd r)
                 then give_up rt i ([LF] @ ''could not start the update in the background'' @ [LF])
                 else andThen (mark_running rt i) (poll_again i))))
            (\<lambda>e. give_up rt i ([LF] @ ''failed to start: '' @ e @ [LF]))) close_host)
        (\<lambda>u. after_run i ?T) (\<lambda>s. False)" for target :: "string + unit"
    proof (cases target)
      case (Inl e)
      then show ?thesis using handler by simp
    next
      case (Inr u)
      show ?thesis unfolding Inr sum.case
        by (rule triple_finally [OF triple_catch [OF body handler] close_after false_triple])
    qed
  qed
qed

lemma tail_exec:
  "triple (op_at i P q) (execStream rt Target buildLogTailCommand) (\<lambda>r. op_at i P q) (\<lambda>s. op_at i P q s \<and> tail_rejected s)"
  by (auto simp: triple_def execStream_eval Let_def op_at_def tail_rejected_def split: outcome.split)

lemma close_rejected:
  "triple (\<lambda>s. op_at i P q s \<and> tail_rejected s) close_host (\<lambda>u s. op_at i P q s \<and> tail_rejected s) E"
  unfolding close_host_def emit_def
  by (simp add: triple_def andThen_def modify_def bind_def op_at_def tail_rejected_def)

lemma run_poll:
  assumes "pop_id operation = i" and "pop_startedAt operation = Some t"
  shows "triple (op_at i (op_running t) []) (pollPlatformUpdate rt operation) (\<lambda>u. after_run i (\<lambda>t'. t' = t))
    (\<lambda>s. op_at i (op_running t) [] s \<and> tail_rejected s)"
    and "(\<And>tr. rt_now rt tr - t > LAUNCH_TIMEOUT_MS) \<Longrightarrow>
      triple (op_at i (op_running t) []) (pollPlatformUpdate rt operation) (\<lambda>u. op_at i op_done []) (\<lambda>s. False)"
proof -
  let ?P = "op_at i (op_running t) []" and ?A = "after_run i (\<lambda>t'. t' = t)" and ?E = "\<lambda>s. op_at i (op_running t) [] s \<and> tail_rejected s"
  have again: "triple ?P (poll_again i) (\<lambda>u. ?A) E" for E
    by (auto simp: op_at_def poll_again_def triple_def modify_def after_run_def)
  have log: "triple ?P (poll_log rt i) (\<lambda>u. ?A) ?E"
    unfolding poll_log_def Let_def
  proof (rule triple_bind [OF tail_exec], rule triple_bind)
    show "triple ?P (gets f) (\<lambda>x. ?P) ?E" for f :: "OpsState \<Rightarrow> string" by (rule triple_basic)
    show "triple ?P (andThen (whenA b (appendLog i c)) (if ok then finish_operation rt i OpSuccess else if bad then finish_operation rt i OpFailed else poll_again i))
        (\<lambda>u. ?A) ?E" for b c ok bad
    proof (rule triple_andThen)
      show "triple ?P (whenA b (appendLog i c)) (\<lambda>u. ?P) ?E"
        unfolding whenA_def by (rule triple_if, rule op_append, simp, rule triple_basic)
      show "triple ?P (if ok then finish_operation rt i OpSuccess else if bad then finish_operation rt i OpFailed else poll_again i) (\<lambda>u. ?A) ?E"
        using done_after [OF op_finish] again by simp
    qed
  qed
  have connected: "triple ?P (bind (connectToPlatformHost rt) (\<lambda>target. case target of Inl e \<Rightarrow> poll_again i
      | Inr u \<Rightarrow> finally_do (poll_log rt i) close_host)) (\<lambda>u. ?A) ?E"
  proof (rule triple_bind [OF op_connect])
    show "triple ?P (case target of Inl e \<Rightarrow> poll_again i | Inr u \<Rightarrow> finally_do (poll_log rt i) close_host) (\<lambda>u. ?A) ?E"
      for target :: "string + unit"
      using again triple_finally [OF log close_after close_rejected] by (cases target) simp_all
  qed
  have late: "triple ?P (give_up rt i c) (\<lambda>u. op_at i op_done []) E" for c E
    by (rule op_give_up) simp
  show "triple ?P (pollPlatformUpdate rt operation) (\<lambda>u. ?A) ?E"
    unfolding pollPlatformUpdate_def assms option.case
  proof (rule triple_bind)
    show "triple ?P (ops_now rt) (\<lambda>now. ?P) ?E" unfolding ops_now_def by (rule triple_basic)
  qed (rule triple_if, rule done_after, rule late, rule connected)
  show "triple ?P (pollPlatformUpdate rt operation) (\<lambda>u. op_at i op_done []) (\<lambda>s. False)"
    if "\<And>tr. rt_now rt tr - t > LAUNCH_TIMEOUT_MS"
    unfolding pollPlatformUpdate_def assms option.case
    by (rule triple_bind [OF op_now], rule triple_if, rule triple_conseq [OF late]) (use that in \<open>auto simp: triple_def\<close>)
qed

lemma operation_cases:
  assumes "op_at i P [] s"
  shows "\<exists>x. pop_id x = i \<and> P x \<and> platformOperation rt i s =
    (if pop_kind x = SystemUpdate then runSystemUpdate rt i
     else if pop_status x = OpQueued then launchPlatformUpdate rt i
     else if pop_status x = OpRunning then pollPlatformUpdate rt x else pure ()) s"
proof -
  from assms rows_all_find [of i P s] obtain x where "find (\<lambda>x. pop_id x = i) (ops_rows s) = Some x" "pop_id x = i" "P x"
    by (auto simp: op_at_def)
  then show ?thesis by (auto simp: platformOperation_def intro!: exI [of _ x])
qed

definition clocked :: "(nat \<Rightarrow> Runtime) \<Rightarrow> (nat \<Rightarrow> int) \<Rightarrow> (nat \<Rightarrow> int) \<Rightarrow> bool" where
  "clocked rts lo hi \<longleftrightarrow> (\<forall>k tr. lo k \<le> rt_now (rts k) tr \<and> rt_now (rts k) tr \<le> hi k) \<and> (\<forall>k. hi k + POLL_DELAY_MS \<le> lo (Suc k))"

lemma clocked_late: "clocked rts lo hi \<Longrightarrow> hi 0 + POLL_DELAY_MS * int k \<le> hi k"
proof (induction k)
  case (Suc k)
  then have "hi k + POLL_DELAY_MS \<le> lo (Suc k)" "lo (Suc k) \<le> hi (Suc k)"
    unfolding clocked_def by (meson order_trans)+
  with Suc show ?case by (simp add: algebra_simps)
qed simp

definition over :: "string \<Rightarrow> OpsState \<Rightarrow> bool" where
  "over i s \<longleftrightarrow> op_at i op_done [] s \<or> ((\<exists>t. op_at i (op_running t) [] s) \<and> tail_rejected s)"

lemma triple_snd: "triple P m Q E \<Longrightarrow> P s \<Longrightarrow> (\<exists>x. Q x (snd (m s))) \<or> E (snd (m s))"
  by (cases "fst (m s)") (fastforce simp: triple_def)+

lemma poll_step:
  assumes "clocked rts lo hi" and "op_at i (op_running t) [] s" and "t \<le> hi 0" and "1 \<le> k"
  shows "over i (snd (platformOperation (rts k) i s)) \<or> (k < 181 \<and> op_at i (op_running t) [i] (snd (platformOperation (rts k) i s)))"
proof -
  from operation_cases [OF assms(2), of "rts k"] obtain x
    where x: "pop_id x = i" "pop_startedAt x = Some t" "platformOperation (rts k) i s = pollPlatformUpdate (rts k) x s"
    by (auto simp: op_running_def)
  show ?thesis
  proof (cases "k < 181")
    case True
    then show ?thesis
      using triple_snd [OF run_poll(1) [OF x(1,2), of "rts k"] assms(2)] x(3) by (auto simp: after_run_def over_def)
  next
    case False
    have "hi 0 + POLL_DELAY_MS * int (k - 1) \<le> hi (k - 1)" by (rule clocked_late [OF assms(1)])
    moreover have "hi (k - 1) + POLL_DELAY_MS \<le> lo k" using assms(1,4) unfolding clocked_def by (metis Suc_pred' less_le_trans zero_less_one)
    moreover have "int (k - 1) \<ge> 180" using False by simp
    ultimately have "lo k > t + LAUNCH_TIMEOUT_MS" using assms(3) by (simp add: POLL_DELAY_MS_def LAUNCH_TIMEOUT_MS_def)
    then have "rt_now (rts k) tr - t > LAUNCH_TIMEOUT_MS" for tr
      using assms(1) unfolding clocked_def by (smt (verit))
    from triple_snd [OF run_poll(2) [OF x(1,2) this] assms(2)] x(3) show ?thesis by (auto simp: over_def)
  qed
qed

lemma work_empty: "ops_queue s = [] \<Longrightarrow> work rts k n s = s"
  by (cases n) simp_all

lemma over_queue: "over i s \<Longrightarrow> ops_queue s = []"
  by (auto simp: over_def op_at_def)

lemma work_over:
  assumes "clocked rts lo hi" and "1 \<le> k" and "k + n = 182" and "t \<le> hi 0"
    and "over i s \<or> (k < 182 \<and> op_at i (op_running t) [i] s)"
  shows "over i (work rts k n s)"
  using assms(2,3,5)
proof (induction n arbitrary: k s)
  case (Suc n)
  show ?case
  proof (cases "over i s")
    case True
    then show ?thesis using work_empty [OF over_queue [OF True]] by simp
  next
    case False
    with Suc.prems have at: "op_at i (op_running t) [] (s\<lparr>ops_queue := []\<rparr>)" "ops_queue s = [i]" by (auto simp: op_at_def)
    from poll_step [OF assms(1) at(1) assms(4) Suc.prems(1)] Suc.prems
    show ?thesis unfolding work.simps at(2) list.case by (intro Suc.IH) auto
  qed
qed auto

text \<open>
  C28: an update of the panel comes to an end. However the host answers, once a queued operation has been taken
  the worker runs at most 182 jobs for it: afterwards none is left in the queue, and the operation has
  succeeded or failed, or it is left as running because the command that reads the log was refused, which the
  poll does not catch. A poll happens no earlier than its delay after the run before.
\<close>
theorem platform_update_ends:
  assumes "ops_queue s = [i]" and "rows_all i (op_queued kind) s" and "clocked rts lo hi"
  shows "ops_queue (work rts 0 182 s) = [] \<and>
    (rows_all i op_done (work rts 0 182 s) \<or>
     ((\<exists>t. rows_all i (op_running t) (work rts 0 182 s)) \<and> tail_rejected (work rts 0 182 s)))"
proof -
  have at: "op_at i (op_queued kind) [] (s\<lparr>ops_queue := []\<rparr>)" using assms(2) by (simp add: op_at_def)
  let ?s = "snd (platformOperation (rts 0) i (s\<lparr>ops_queue := []\<rparr>))"
  from operation_cases [OF at, of "rts 0"] obtain x where x: "op_queued kind x"
    "platformOperation (rts 0) i (s\<lparr>ops_queue := []\<rparr>) =
      (if kind = SystemUpdate then runSystemUpdate (rts 0) i else launchPlatformUpdate (rts 0) i) (s\<lparr>ops_queue := []\<rparr>)"
    by (auto simp: op_queued_def)
  have "over i ?s \<or> (\<exists>t \<le> hi 0. op_at i (op_running t) [i] ?s)"
  proof (cases kind)
    case SystemUpdate
    then show ?thesis using triple_snd [OF run_system at [unfolded SystemUpdate], of "rts 0"] x(2) by (auto simp: over_def)
  next
    case PlatformUpdate
    then show ?thesis using triple_snd [OF run_launch at [unfolded PlatformUpdate], of "rts 0"] x(2) assms(3)
      by (auto simp: over_def after_run_def clocked_def)
  qed
  then have "over i (work rts 1 181 ?s)"
  proof (elim disjE exE conjE)
    fix t assume "t \<le> hi 0" "op_at i (op_running t) [i] ?s"
    then show ?thesis using work_over [OF assms(3), of 1 181 t i ?s] by simp
  qed (use work_over [OF assms(3), of 1 181 "hi 0" i ?s] in simp)
  moreover have "work rts 0 182 s = work rts 1 181 ?s"
  proof -
    have "182 = Suc 181" by simp
    then show ?thesis using assms(1) by (simp only: work.simps list.case One_nat_def)
  qed
  ultimately show ?thesis by (auto simp: over_def op_at_def)
qed

definition demo_host :: Server where
  "demo_host = (new_server ''srv1'' 0 ''t1'' ''panel'' ''10.0.0.1'' ''key'')\<lparr>srv_isPlatformHost := True\<rparr>"

definition demo_ops :: OpsState where
  "demo_ops = \<lparr>js_trace = [], js_log = [], ops_rows = [new_platformOperation ''o1'' 0 PlatformUpdate], ops_servers = [demo_host],
     ops_queue = [''o1''], ops_conn = False\<rparr>"

text \<open>The launch is confirmed; the first poll sees a log without a marker, the second one with it.\<close>

definition demo_runs :: "nat \<Rightarrow> Runtime" where
  "demo_runs k = calm\<lparr>rt_now := (\<lambda>tr. 10000 * int k), rt_exec := (\<lambda>tr m cmd. ExecClosed (Some 0)
     [(if k = 0 then ''LAUNCHED'' @ [LF] else if k = 1 then ''building the images'' else ''building the images, done '' @ OK_MARKER, True)])\<rparr>"

theorem platform_update_ends_witness:
  "ops_queue (work demo_runs 0 182 demo_ops) = []"
proof -
  have "clocked demo_runs (\<lambda>k. 10000 * int k) (\<lambda>k. 10000 * int k)"
    by (simp add: clocked_def demo_runs_def POLL_DELAY_MS_def)
  moreover have "ops_queue demo_ops = [''o1'']" by (simp add: demo_ops_def)
  moreover have "rows_all ''o1'' (op_queued PlatformUpdate) demo_ops"
    by (simp add: demo_ops_def rows_all_def op_queued_def new_platformOperation_def)
  ultimately show ?thesis using platform_update_ends by blast
qed

section \<open>What goes wrong\<close>

text \<open>
  C29: a poll whose log command is refused blocks all further updates. The handler throws, the operation stays
  running with no job left for it, and from then on every request to start an update of the panel or of the
  system is answered that one is already running.
\<close>
theorem refused_poll_blocks_updates:
  assumes "rows_all i (op_running t) s" and "ops_queue s = [i]" and "find srv_isPlatformHost (ops_servers s) = Some server"
    and "\<And>tr. rt_now (rts k) tr - t \<le> LAUNCH_TIMEOUT_MS" and "\<And>tr. rt_connect (rts k) tr Target (srv_host server) = None"
    and "\<And>tr. rt_exec (rts k) tr Target buildLogTailCommand = ExecRejected e" and "findSessionUser d now session \<noteq> None"
  shows "ops_queue (work rts k 1 s) = [] \<and>
    fst (post_update_run d session fresh now kind (work rts k 1 s)) = AlreadyRunning"
proof -
  let ?s = "s\<lparr>ops_queue := []\<rparr>"
  have at: "op_at i (op_running t) [] ?s" using assms(1) by (simp add: op_at_def)
  from operation_cases [OF at, of "rts k"] obtain x where x: "pop_id x = i" "op_running t x"
    "platformOperation (rts k) i ?s = pollPlatformUpdate (rts k) x ?s" by (auto simp: op_running_def)
  have in_time: "(LAUNCH_TIMEOUT_MS < rt_now (rts k) tr - t) = False" for tr using assms(4) [of tr] by simp
  have "snd (pollPlatformUpdate (rts k) x ?s) =
      ?s\<lparr>js_trace := js_trace s @ [Connect Target (srv_host server) None, Exec Target buildLogTailCommand (ExecRejected e), Close Target], ops_conn := False\<rparr>"
    using assms(3,5,6) x(2)
    by (simp add: pollPlatformUpdate_def ops_now_def connectToPlatformHost_def findPlatformHost_def connectSsh_def emit_def poll_log_def
        execStream_eval close_host_def bind_def andThen_def gets_def pure_def modify_def finally_do_def op_running_def in_time)
  then have w: "work rts k 1 s =
      ?s\<lparr>js_trace := js_trace s @ [Connect Target (srv_host server) None, Exec Target buildLogTailCommand (ExecRejected e), Close Target], ops_conn := False\<rparr>"
    using x(3) assms(2) by simp
  have "list_ex (\<lambda>x. pop_status x = OpRunning) (ops_rows s)"
    using assms(1) by (auto simp: rows_all_def op_running_def list_ex_iff)
  moreover have "hasPlatformHost s"
    using assms(3) find_SomeD [OF assms(3)] by (auto simp: hasPlatformHost_def list_ex_iff)
  ultimately show ?thesis
    unfolding w using assms(7) by (simp add: post_update_run_def startPlatformOperation_def hasPlatformHost_def)
qed

definition demo_members :: Directory where
  "demo_members =
    \<lparr>dir_users = [new_user ''u1'' 0 ''ana@example.com'' ''hash''], dir_sessions = [new_session ''s1'' 0 ''u1'' 5000], dir_teams = [],
     dir_members = [], dir_projects = [], dir_environments = [], dir_tokens = [], dir_servers = [], dir_services = [],
     dir_applications = [], dir_databases = [], dir_deployments = [], dir_schedules = [], dir_storages = [], dir_channels = [], dir_tasks = []\<rparr>"

theorem refused_poll_blocks_updates_witness:
  "let s = demo_ops\<lparr>ops_rows := [(new_platformOperation ''o1'' 0 PlatformUpdate)\<lparr>pop_status := OpRunning, pop_startedAt := Some 0\<rparr>]\<rparr>;
       rts = (\<lambda>k. calm\<lparr>rt_now := (\<lambda>tr. 0), rt_exec := (\<lambda>tr m cmd. ExecRejected ''connection lost'')\<rparr>)
   in fst (post_update_run demo_members (Some ''s1'') ''o2'' 0 PlatformUpdate (work rts 1 1 s)) = AlreadyRunning"
proof -
  let ?s = "demo_ops\<lparr>ops_rows := [(new_platformOperation ''o1'' 0 PlatformUpdate)\<lparr>pop_status := OpRunning, pop_startedAt := Some 0\<rparr>]\<rparr>"
  have "rows_all ''o1'' (op_running 0) ?s" "ops_queue ?s = [''o1'']" "find srv_isPlatformHost (ops_servers ?s) = Some demo_host"
    by (simp_all add: demo_ops_def rows_all_def op_running_def new_platformOperation_def demo_host_def)
  from refused_poll_blocks_updates [OF this, where k = 1 and e = "''connection lost''" and d = demo_members and session = "Some ''s1''" and now = 0 and
      rts = "\<lambda>k. calm\<lparr>rt_now := (\<lambda>tr. 0), rt_exec := (\<lambda>tr m cmd. ExecRejected ''connection lost'')\<rparr>"]
  show ?thesis
    by (simp add: Let_def calm_def LAUNCH_TIMEOUT_MS_def findSessionUser_def demo_members_def new_user_def new_session_def str_truthy_def)
qed

lemma find_updated:
  "(\<And>x. pop_id (f x) = pop_id x) \<Longrightarrow>
    find (\<lambda>x. pop_id x = i) (map (\<lambda>x. if pop_id x = i then f x else x) xs) = map_option f (find (\<lambda>x. pop_id x = i) xs)"
  by (induction xs) auto

text \<open>
  The log of an update lags behind the log on the host. What a poll leaves in the row is the output of the
  launch followed by the remote log without as many leading characters as that output has, so the start of
  the remote log is never shown.
\<close>
theorem update_log_lags:
  assumes "find (\<lambda>x. pop_id x = i) (ops_rows s) = Some x" and "pop_log x = launch @ drop (length launch) remote"
    and "rt_exec rt (js_trace s) Target buildLogTailCommand = ExecClosed exit_code chunks"
    and "prefix remote (concat (map fst chunks))"
  shows "map_option pop_log (find (\<lambda>x. pop_id x = i) (ops_rows (snd (poll_log rt i s)))) =
    Some (launch @ drop (length launch) (concat (map fst chunks)))"
proof -
  let ?R = "concat (map fst chunks)"
  have grown: "(if length (pop_log x) < length ?R then pop_log x @ drop (length (pop_log x)) ?R else pop_log x) = launch @ drop (length launch) ?R"
  proof (cases "length launch \<le> length remote")
    case True
    then have len: "length (pop_log x) = length remote" using assms(2) by simp
    obtain rest where R: "?R = remote @ rest" using assms(4) by (auto simp: prefix_def)
    show ?thesis using True assms(2) by (auto simp: len R)
  next
    case False
    then show ?thesis using assms(2) by simp
  qed
  have rest: "map_option pop_log (find (\<lambda>x. pop_id x = i) (ops_rows (snd ((if a then finish_operation rt i OpSuccess else if b then finish_operation rt i OpFailed
      else poll_again i) t)))) = map_option pop_log (find (\<lambda>x. pop_id x = i) (ops_rows t))" for a b t
    by (simp add: finish_operation_def ops_now_def set_operation_def emit_def poll_again_def find_updated bind_def andThen_def act_defs option.map_comp comp_def)
  define t where "t = s\<lparr>js_trace := js_trace s @ [Exec Target buildLogTailCommand (ExecClosed exit_code chunks)]\<rparr>"
  let ?grow = "whenA (length (pop_log x) < length ?R) (appendLog i (drop (length (pop_log x)) ?R))"
  have "poll_log rt i s = andThen ?grow (if includes_str ?R OK_MARKER then finish_operation rt i OpSuccess
      else if includes_str ?R FAIL_MARKER then finish_operation rt i OpFailed else poll_again i) t"
    using assms(1,3) by (simp add: poll_log_def execStream_eval bind_def gets_def t_def Let_def)
  moreover have "returns ?grow"
    unfolding appendLog_def set_operation_def by (intro returns_rules)
  ultimately have "snd (poll_log rt i s) = snd ((if includes_str ?R OK_MARKER then finish_operation rt i OpSuccess
      else if includes_str ?R FAIL_MARKER then finish_operation rt i OpFailed else poll_again i) (snd (?grow t)))"
    by (simp only: returns_left)
  moreover have "map_option pop_log (find (\<lambda>x. pop_id x = i) (ops_rows (snd (?grow t)))) = Some (launch @ drop (length launch) ?R)"
    using assms(1) grown
    by (auto simp: t_def andThen_def whenA_def appendLog_def set_operation_def emit_def modify_def pure_def bind_def find_updated split: if_splits)
  ultimately show ?thesis using rest by simp
qed

theorem update_log_lags_witness:
  "let s = demo_ops\<lparr>ops_rows := [(new_platformOperation ''o1'' 0 PlatformUpdate)\<lparr>pop_log := ''LAUNCHED'' @ [LF]\<rparr>]\<rparr>;
       rt = calm\<lparr>rt_exec := (\<lambda>tr m cmd. ExecClosed (Some 0) [(''UPDATE CANCELLED: the disk is at 95%.'', True)])\<rparr>
   in map_option pop_log (find (\<lambda>x. pop_id x = ''o1'') (ops_rows (snd (poll_log rt ''o1'' s)))) =
      Some (''LAUNCHED'' @ [LF] @ ''NCELLED: the disk is at 95%.'')"
proof -
  let ?s = "demo_ops\<lparr>ops_rows := [(new_platformOperation ''o1'' 0 PlatformUpdate)\<lparr>pop_log := ''LAUNCHED'' @ [LF]\<rparr>]\<rparr>"
  let ?rt = "calm\<lparr>rt_exec := (\<lambda>tr m cmd. ExecClosed (Some 0) [(''UPDATE CANCELLED: the disk is at 95%.'', True)])\<rparr>"
  have "map_option pop_log (find (\<lambda>x. pop_id x = ''o1'') (ops_rows (snd (poll_log ?rt ''o1'' ?s)))) =
    Some ((''LAUNCHED'' @ [LF]) @ drop (length (''LAUNCHED'' @ [LF])) (concat (map fst [(''UPDATE CANCELLED: the disk is at 95%.'', True)])))"
    by (rule update_log_lags [where remote = "[]" and exit_code = "Some 0"
        and x = "(new_platformOperation ''o1'' 0 PlatformUpdate)\<lparr>pop_log := ''LAUNCHED'' @ [LF]\<rparr>"]) (simp_all add: new_platformOperation_def)
  then show ?thesis by (simp add: Let_def)
qed

end
