(* ===== verification/Secrets.thy ===== *)
theory Secrets
  imports JsValue JsNumber "HOL-Library.Word"
begin

unbundle bit_operations_syntax

text \<open>
  Secrets at rest and authenticator codes: the envelope of packages/db/src/encryption.ts with its key ring, the two
  passes of packages/db/src/encryptExisting.ts over the stored secrets, and apps/api/src/lib/totp.ts. Bytes are
  \<open>8 word\<close>, the shifts of the source are those of its 32-bit integers. The primitives of the platform (AES-GCM,
  HMAC, SHA-256, random bytes) are parameters.

  The lemmas show that both text encodings of bytes are read back, that a stored secret survives a key rotation
  and the encryption of old rows, and that the codes accepted are those of the time-based one-time password
  algorithm for three time steps.
\<close>

section \<open>Bits\<close>

type_synonym bytes = "8 word list"

text \<open>The last \<open>n\<close> bits of a word, highest first, and the word of such a list.\<close>

definition bits_of :: "nat \<Rightarrow> 'a::len word \<Rightarrow> bool list" where
  "bits_of n w = map (bit w) (rev [0..<n])"

definition of_bits :: "bool list \<Rightarrow> 'a::len word" where
  "of_bits bs = horner_sum of_bool 2 (rev bs)"

text \<open>Groups of \<open>k\<close> bits, the last one filled up with zeros or dropped.\<close>

function padded :: "nat \<Rightarrow> bool list \<Rightarrow> bool list list" where
  "padded k bs =
    (if k = 0 \<or> bs = [] then []
     else if length bs \<le> k then [bs @ replicate (k - length bs) False]
     else take k bs # padded k (drop k bs))"
  by pat_completeness auto
termination by (relation "measure (\<lambda>(k, bs). length bs)") auto

function whole :: "nat \<Rightarrow> bool list \<Rightarrow> bool list list" where
  "whole k bs = (if k = 0 \<or> length bs < k then [] else take k bs # whole k (drop k bs))"
  by pat_completeness auto
termination by (relation "measure (\<lambda>(k, bs). length bs)") auto

declare padded.simps [simp del] whole.simps [simp del]

definition byte_bits :: "bytes \<Rightarrow> bool list" where
  "byte_bits bs = concat (map (bits_of 8) bs)"

lemma length_bits_of [simp]: "length (bits_of n w) = n"
  by (simp add: bits_of_def)

lemma bits_of_nth [simp]: "i < n \<Longrightarrow> bits_of n w ! i = bit w (n - 1 - i)"
  by (simp add: bits_of_def rev_nth)

lemma bits_of_0 [simp]: "bits_of 0 w = []"
  by (simp add: bits_of_def)

lemma length_byte_bits [simp]: "length (byte_bits bs) = 8 * length bs"
  by (induction bs) (simp_all add: byte_bits_def)

lemma byte_bits_simps [simp]: "byte_bits [] = []" "byte_bits (b # bs) = bits_of 8 b @ byte_bits bs"
  by (simp_all add: byte_bits_def)

lemma of_bits_of: "n \<le> LENGTH('b) \<Longrightarrow> of_bits (bits_of n (w :: 'a::len word)) = (take_bit n (ucast w) :: 'b::len word)"
  by (rule bit_word_eqI) (auto simp: of_bits_def bit_horner_sum_bit_iff rev_nth bit_simps)

lemma of_bits_bits [simp]: "of_bits (bits_of 8 (w :: 8 word)) = w"
  by (rule bit_word_eqI) (auto simp: of_bits_def bit_horner_sum_bit_iff rev_nth)

lemma bits_of_of_bits: "length bs \<le> LENGTH('a) \<Longrightarrow> bits_of (length bs) (of_bits bs :: 'a::len word) = bs"
  by (rule nth_equalityI) (auto simp: of_bits_def bit_horner_sum_bit_iff rev_nth)

text \<open>Appending \<open>k\<close> bits by a shift, and reading the leading ones by the opposite shift and a mask.\<close>

lemma bits_push:
  fixes v :: "32 word" and b :: "'a::len word"
  assumes "k + n \<le> 32" and "\<And>i. bit b i \<Longrightarrow> i < k"
  shows "bits_of (n + k) (push_bit k v OR ucast b) = bits_of n v @ bits_of k b"
proof (rule nth_equalityI)
  fix i assume i: "i < length (bits_of (n + k) (push_bit k v OR ucast b))"
  show "bits_of (n + k) (push_bit k v OR ucast b) ! i = (bits_of n v @ bits_of k b) ! i"
  proof (cases "i < n")
    case True
    have "\<not> bit b (n + k - Suc i)" using assms(2) [of "n + k - Suc i"] True by auto
    with True i assms(1) show ?thesis by (auto simp: nth_append bit_simps)
  next
    case False
    with i have "\<not> k \<le> n + k - Suc i" by simp
    then show ?thesis using False i assms(1) by (auto simp: nth_append bit_simps intro!: arg_cong [where f = "bit b"])
  qed
qed simp

lemma bits_lead:
  fixes v :: "32 word"
  assumes "k \<le> n" and "k \<le> 32"
  shows "bits_of k (drop_bit (n - k) v AND mask k) = take k (bits_of n v)"
  by (rule nth_equalityI) (use assms in \<open>auto simp: bit_simps intro!: arg_cong [where f = "bit v"]\<close>)

lemma bits_lead_pad:
  fixes v :: "32 word"
  assumes "n \<le> k" and "k < 32"
  shows "bits_of k (push_bit (k - n) v AND mask k) = bits_of n v @ replicate (k - n) False"
  by (rule nth_equalityI) (use assms in \<open>auto simp: bit_simps nth_append intro!: arg_cong [where f = "bit v"]\<close>)

lemma bits_rest: "k \<le> n \<Longrightarrow> drop k (bits_of n v) = bits_of (n - k) v"
  by (rule nth_equalityI) (auto intro!: arg_cong [where f = "bit v"])

lemma bits_split:
  fixes v :: "32 word"
  shows "k \<le> n \<Longrightarrow> k \<le> 32 \<Longrightarrow> bits_of n v = bits_of k (drop_bit (n - k) v AND mask k) @ bits_of (n - k) v"
  by (simp add: bits_lead bits_rest [symmetric])

section \<open>Groups\<close>

lemma padded_Nil [simp]: "padded k [] = []"
  by (simp add: padded.simps)

lemma padded_step: "0 < k \<Longrightarrow> length g = k \<Longrightarrow> padded k (g @ bs) = g # padded k bs"
  by (subst padded.simps) auto

lemma padded_last: "0 < length bs \<Longrightarrow> length bs \<le> k \<Longrightarrow> padded k bs = [bs @ replicate (k - length bs) False]"
  by (cases "k = 0") (simp_all add: padded.simps [of k bs])

lemma padded_length: "g \<in> set (padded k bs) \<Longrightarrow> length g = k"
proof (induction k bs rule: padded.induct)
  case (1 k bs)
  from 1(2) show ?case
    by (subst (asm) padded.simps) (use 1(1) in \<open>auto split: if_splits\<close>)
qed

lemma padded_concat:
  "0 < k \<Longrightarrow> \<exists>j < k. concat (padded k bs) = bs @ replicate j False"
proof (induction k bs rule: padded.induct)
  case (1 k bs)
  show ?case
  proof (cases "bs = [] \<or> length bs \<le> k")
    case True
    then show ?thesis
    proof (cases "bs = []")
      case False
      with True have "concat (padded k bs) = bs @ replicate (k - length bs) False" by (simp add: padded_last)
      moreover have "k - length bs < k" using 1(2) False by (intro diff_less) auto
      ultimately show ?thesis by blast
    qed (use 1(2) in auto)
  next
    case False
    with 1 obtain j where "j < k" "concat (padded k (drop k bs)) = drop k bs @ replicate j False" by auto
    moreover have "padded k bs = take k bs # padded k (drop k bs)" using False 1(2) by (subst padded.simps) auto
    ultimately show ?thesis by (metis append.assoc append_take_drop_id concat.simps(2))
  qed
qed

lemma whole_short: "length bs < k \<Longrightarrow> whole k bs = []"
  by (simp add: whole.simps)

lemma whole_step: "0 < k \<Longrightarrow> length g = k \<Longrightarrow> whole k (g @ bs) = g # whole k bs"
  by (subst whole.simps) auto

lemma whole_byte_bits: "length rest < 8 \<Longrightarrow> map of_bits (whole 8 (byte_bits bs @ rest)) = bs"
  by (induction bs) (auto simp: whole_short whole_step)

text \<open>Writing bytes in groups of \<open>k\<close> bits and reading the groups back.\<close>

lemma groups_roundtrip:
  assumes "0 < k" and "k \<le> 8"
  shows "map of_bits (whole 8 (concat (padded k (byte_bits bs)))) = bs"
proof -
  obtain j where "j < k" "concat (padded k (byte_bits bs)) = byte_bits bs @ replicate j False"
    using padded_concat [OF assms(1)] by blast
  with assms(2) show ?thesis by (simp add: whole_byte_bits)
qed

section \<open>Base 32\<close>

definition B32 :: string where
  "B32 = ''ABCDEFGHIJKLMNOPQRSTUVWXYZ234567''"

text \<open>The inner loop of \<open>base32Encode\<close>: the digits that are complete, and how many bits are left.\<close>

fun base32_digits :: "32 word \<Rightarrow> nat \<Rightarrow> string \<times> nat" where
  "base32_digits value bits =
    (if bits \<ge> 5 then
       (let (out, rest) = base32_digits value (bits - 5)
        in ((B32 ! unat (drop_bit (bits - 5) value AND 31)) # out, rest))
     else ([], bits))"

declare base32_digits.simps [simp del]

fun base32_loop :: "bytes \<Rightarrow> nat \<Rightarrow> 32 word \<Rightarrow> string" where
  "base32_loop [] bits value = (if bits > 0 then [B32 ! unat (push_bit (5 - bits) value AND 31)] else [])"
| "base32_loop (byte # buf) bits value =
    (let value' = push_bit 8 value OR ucast byte; (out, rest) = base32_digits value' (bits + 8)
     in out @ base32_loop buf rest value')"

definition base32Encode :: "bytes \<Rightarrow> string" where
  "base32Encode buf = base32_loop buf 0 0"

fun base32_read :: "string \<Rightarrow> nat \<Rightarrow> 32 word \<Rightarrow> string + bytes" where
  "base32_read [] bits value = Inr []"
| "base32_read (ch # s) bits value =
    (case index_of [ch] B32 of
       None \<Rightarrow> Inl ''invalid base32''
     | Some idx \<Rightarrow>
         (let value' = push_bit 5 value OR of_nat idx
          in if bits + 5 \<ge> 8
             then map_sum id (Cons (ucast (drop_bit (bits + 5 - 8) value' AND 255))) (base32_read s (bits + 5 - 8) value')
             else base32_read s (bits + 5) value'))"

definition base32Decode :: "string \<Rightarrow> string + bytes" where
  "base32Decode str = base32_read (strip_trailing (CHR ''='') (to_upper str)) 0 0"

text \<open>What the loops compute: one digit for every five bits.\<close>

definition b32_digit :: "bool list \<Rightarrow> char" where
  "b32_digit g = B32 ! unat (of_bits g :: 32 word)"

lemma mask_numerals: "(31 :: 32 word) = mask 5" "(255 :: 32 word) = mask 8"
  by (simp_all add: mask_eq_exp_minus_1)

lemma b32_digit_word: "v AND mask 5 = v \<Longrightarrow> b32_digit (bits_of 5 v) = B32 ! unat (v :: 32 word)"
proof -
  assume "v AND mask 5 = v"
  moreover have "of_bits (bits_of 5 v) = (take_bit 5 v :: 32 word)" by (subst of_bits_of) simp_all
  ultimately show ?thesis by (simp add: b32_digit_def take_bit_eq_mask)
qed

lemma base32_digits_bits:
  "bits \<le> 32 \<Longrightarrow> base32_digits v bits = (out, rest) \<Longrightarrow>
    rest < 5 \<and> (\<forall>bs. out @ map b32_digit (padded 5 (bits_of rest v @ bs)) = map b32_digit (padded 5 (bits_of bits v @ bs)))"
proof (induction v bits arbitrary: out rest rule: base32_digits.induct)
  case (1 v bits)
  show ?case
  proof (cases "bits \<ge> 5")
    case True
    obtain out' where out': "base32_digits v (bits - 5) = (out', rest)" "out = (B32 ! unat (drop_bit (bits - 5) v AND 31)) # out'"
      using 1(3) True by (subst (asm) base32_digits.simps) (auto simp: Let_def split: prod.splits)
    have lead: "bits_of bits v = bits_of 5 (drop_bit (bits - 5) v AND mask 5) @ bits_of (bits - 5) v"
      using True by (intro bits_split) simp_all
    have digit: "b32_digit (bits_of 5 (drop_bit (bits - 5) v AND mask 5)) = B32 ! unat (drop_bit (bits - 5) v AND 31)"
      by (subst b32_digit_word) (simp_all add: mask_numerals)
    from 1(1) [OF True] out'(1) 1(2) have "rest < 5 \<and> (\<forall>bs. out' @ map b32_digit (padded 5 (bits_of rest v @ bs)) =
        map b32_digit (padded 5 (bits_of (bits - 5) v @ bs)))" by simp
    then show ?thesis using digit by (simp add: lead out'(2) padded_step)
  qed (use 1(3) in \<open>auto simp: base32_digits.simps [of v bits]\<close>)
qed

lemma base32_loop_bits:
  "bits < 5 \<Longrightarrow> base32_loop buf bits v = map b32_digit (padded 5 (bits_of bits v @ byte_bits buf))"
proof (induction buf bits v rule: base32_loop.induct)
  case (1 bits v)
  show ?case
  proof (cases "bits = 0")
    case False
    have "b32_digit (bits_of bits v @ replicate (5 - bits) False) = B32 ! unat (push_bit (5 - bits) v AND 31)"
      using 1 bits_lead_pad [of bits 5 v] b32_digit_word [of "push_bit (5 - bits) v AND mask 5"] by (simp add: mask_numerals and.assoc)
    with False 1 show ?thesis by (simp add: padded_last)
  qed simp
next
  case (2 byte buf bits v)
  let ?v = "push_bit 8 v OR ucast byte"
  obtain out rest where d: "base32_digits ?v (bits + 8) = (out, rest)" by force
  with base32_digits_bits [OF _ this] 2(2) have rest: "rest < 5"
    "\<And>bs. out @ map b32_digit (padded 5 (bits_of rest ?v @ bs)) = map b32_digit (padded 5 (bits_of (bits + 8) ?v @ bs))" by auto
  have "bits_of (bits + 8) ?v = bits_of bits v @ bits_of 8 byte"
    using 2(2) by (intro bits_push) (auto dest: bit_imp_le_length)
  with 2(1) [OF refl d [symmetric] refl rest(1)] rest(2) show ?case by (simp add: d Let_def)
qed

lemma take_bit_byte [simp]: "take_bit 8 (x :: 8 word) = x"
  by (rule bit_word_eqI) (simp add: bit_simps)

lemma of_bits_low: "of_bits (bits_of 8 ((x :: 32 word) AND mask 8)) = (ucast (x AND 255) :: 8 word)"
  by (subst of_bits_of) (simp_all add: mask_numerals)

lemma of_bits_small:
  assumes "length g = 5"
  shows "(of_bits g :: 32 word) = take_bit 5 (of_bits g)" and "unat (of_bits g :: 32 word) < 32"
proof -
  have "bits_of 5 (of_bits g :: 32 word) = g" using bits_of_of_bits [of g, where 'a = 32] assms by simp
  from of_bits_of [of 5 "of_bits g :: 32 word", where 'b = 32, unfolded this]
  show small: "(of_bits g :: 32 word) = take_bit 5 (of_bits g)" by (simp only: ucast_id len_num1 len_bit0)
  show "unat (of_bits g :: 32 word) < 32"
    using arg_cong [OF small, of unat] take_bit_nat_less_exp [of 5 "unat (of_bits g :: 32 word)"] by (simp add: unsigned_take_bit_eq)
qed

lemma B32_index: "n < 32 \<Longrightarrow> index_of [B32 ! n] B32 = Some n"
proof -
  have "\<forall>n \<in> set [0..<32]. index_of [B32 ! n] B32 = Some n" by code_simp
  then show "n < 32 \<Longrightarrow> index_of [B32 ! n] B32 = Some n" by simp
qed

lemma base32_read_bits:
  "bits < 8 \<Longrightarrow> (\<forall>g \<in> set gs. length g = 5) \<Longrightarrow>
    base32_read (map b32_digit gs) bits v = Inr (map of_bits (whole 8 (bits_of bits v @ concat gs)))"
proof (induction gs arbitrary: bits v)
  case (Cons g gs)
  define w where "w = (of_bits g :: 32 word)"
  have g: "bits_of 5 w = g" using Cons.prems(2) bits_of_of_bits [of g, where 'a = 32] by (simp add: w_def)
  have small: "w = take_bit 5 w" and "unat w < 32" using of_bits_small [of g] Cons.prems(2) by (simp_all add: w_def)
  then have idx: "index_of [b32_digit g] B32 = Some (unat w)" by (simp add: b32_digit_def w_def [symmetric] B32_index)
  let ?v = "push_bit 5 v OR w"
  have bit5: "bit w i \<Longrightarrow> i < 5" for i by (subst (asm) small) (simp add: bit_simps)
  have pushed: "bits_of (bits + 5) ?v = bits_of bits v @ g"
    using bits_push [of 5 bits w v] bit5 Cons.prems(1) by (simp add: g)
  show ?case
  proof (cases "bits + 5 \<ge> 8")
    case True
    have lead: "bits_of (bits + 5) ?v = bits_of 8 (drop_bit (bits + 5 - 8) ?v AND mask 8) @ bits_of (bits + 5 - 8) ?v"
      using True by (intro bits_split) simp_all
    have "whole 8 (bits_of bits v @ g @ concat gs) =
        bits_of 8 (drop_bit (bits + 5 - 8) ?v AND mask 8) # whole 8 (bits_of (bits + 5 - 8) ?v @ concat gs)"
      using pushed lead by (metis append.assoc length_bits_of whole_step zero_less_numeral)
    then show ?thesis
      using Cons.IH [of "bits + 5 - 8" ?v] Cons.prems True by (simp add: idx Let_def of_bits_low)
  next
    case False
    then show ?thesis using Cons.IH [of "bits + 5" ?v] Cons.prems pushed by (simp add: idx Let_def)
  qed
qed (simp add: whole_short)

lemma b32_digit_in: "length g = 5 \<Longrightarrow> b32_digit g \<in> set B32"
  unfolding b32_digit_def using of_bits_small(2) [of g] by (intro nth_mem) (simp add: B32_def)

lemma strip_trailing_absent: "c \<notin> set s \<Longrightarrow> strip_trailing c s = s"
  by (cases s rule: rev_cases) (auto simp: strip_trailing_def)

theorem base32_roundtrip: "base32Decode (base32Encode buf) = Inr buf"
proof -
  let ?gs = "padded 5 (byte_bits buf)"
  have digits: "set (map b32_digit ?gs) \<subseteq> set B32" using padded_length [of _ 5 "byte_bits buf"] by (auto intro: b32_digit_in)
  have B32: "\<forall>c \<in> set B32. char_upper c = c" "CHR ''='' \<notin> set B32" by code_simp+
  have "to_upper (map b32_digit ?gs) = map b32_digit ?gs" unfolding to_upper_def by (rule map_idI) (use digits B32(1) in blast)
  moreover have "strip_trailing (CHR ''='') (map b32_digit ?gs) = map b32_digit ?gs"
    by (rule strip_trailing_absent) (use digits B32(2) in blast)
  moreover have "base32_read (map b32_digit ?gs) 0 0 = Inr buf"
    using base32_read_bits [of 0 ?gs 0] padded_length [of _ 5 "byte_bits buf"] groups_roundtrip [of 5 buf] by simp
  ultimately show ?thesis by (simp add: base32Decode_def base32Encode_def base32_loop_bits)
qed

section \<open>Authenticator codes\<close>

text \<open>HMAC-SHA1 is the parameter \<open>hmacSha1\<close>: key, message, the twenty bytes of the code.\<close>

definition counter_bytes :: "int \<Rightarrow> bytes" where
  "counter_bytes n = map (\<lambda>i. ucast (drop_bit (8 * i) (of_int n :: 64 word))) (rev [0..<8])"

definition dynamic_truncation :: "bytes \<Rightarrow> 32 word" where
  "dynamic_truncation hmac =
    (let offset = unat ((hmac ! (length hmac - 1)) AND 15)
     in push_bit 24 (ucast ((hmac ! offset) AND 127)) OR push_bit 16 (ucast (hmac ! (offset + 1))) OR
        push_bit 8 (ucast (hmac ! (offset + 2))) OR ucast (hmac ! (offset + 3)))"

definition totpAt :: "(bytes \<Rightarrow> bytes \<Rightarrow> bytes) \<Rightarrow> string \<Rightarrow> int \<Rightarrow> string + string" where
  "totpAt hmacSha1 secret timeMs =
    map_sum id (\<lambda>key. pad_zeros 6 (nat_str (unat (dynamic_truncation (hmacSha1 key (counter_bytes (timeMs div 1000 div 30)))) mod 10 ^ 6)))
      (base32Decode secret)"

text \<open>\<open>timingSafeEqual\<close> refuses buffers of different lengths.\<close>

definition timingSafeEqual :: "string \<Rightarrow> string \<Rightarrow> string + bool" where
  "timingSafeEqual a b = (if length a \<noteq> length b then Inl ''Input buffers must have the same byte length'' else Inr (a = b))"

text \<open>\<open>some\<close>: the first hit or the first error decides.\<close>

fun any_of :: "('a \<Rightarrow> string + bool) \<Rightarrow> 'a list \<Rightarrow> string + bool" where
  "any_of f [] = Inr False"
| "any_of f (x # xs) = (case f x of Inl e \<Rightarrow> Inl e | Inr True \<Rightarrow> Inr True | Inr False \<Rightarrow> any_of f xs)"

definition six_digits :: "string \<Rightarrow> bool" where
  "six_digits code' \<longleftrightarrow> length code' = 6 \<and> list_all is_digit code'"

definition verifyTotp :: "(bytes \<Rightarrow> bytes \<Rightarrow> bytes) \<Rightarrow> string \<Rightarrow> string \<Rightarrow> int \<Rightarrow> string + bool" where
  "verifyTotp hmacSha1 secret code' nowMs =
    (if \<not> six_digits code' then Inr False
     else any_of (\<lambda>step. case totpAt hmacSha1 secret (nowMs + step * 30000) of
                           Inl e \<Rightarrow> Inl e | Inr expected \<Rightarrow> timingSafeEqual expected code') [-1, 0, 1])"

text \<open>The one-time password of RFC 4226 in plain arithmetic, and the six digits it is shown as.\<close>

definition hotp :: "(bytes \<Rightarrow> bytes \<Rightarrow> bytes) \<Rightarrow> bytes \<Rightarrow> int \<Rightarrow> nat" where
  "hotp hmacSha1 key counter =
    (let h = hmacSha1 key (counter_bytes counter); off = unat (last h) mod 16
     in (((unat (h ! off) mod 128 * 256 + unat (h ! (off + 1))) * 256 + unat (h ! (off + 2))) * 256 + unat (h ! (off + 3))) mod 1000000)"

definition shown :: "nat \<Rightarrow> string" where
  "shown n = pad_zeros 6 (nat_str n)"

lemma unat_byte: "unat (x :: 8 word) < 256"
  using unsigned_less [where w = x and 'a = nat] by simp

lemma unat_append_byte:
  fixes v :: "32 word" and b :: "8 word"
  assumes "unat v < 2 ^ 24"
  shows "unat (push_bit 8 v OR ucast b) = unat v * 256 + unat b"
proof -
  have "push_bit 8 v OR ucast b = push_bit 8 v + ucast b"
    by (rule disjunctive_add [symmetric]) (auto simp: bit_simps dest: bit_imp_le_length)
  also have "\<dots> = of_nat (unat v * 256 + unat b)" by (simp add: push_bit_eq_mult)
  finally have "unat (push_bit 8 v OR ucast b) = (unat v * 256 + unat b) mod 2 ^ 32"
    using unat_of_nat [of "unat v * 256 + unat b", where 'a = 32] by (simp only: len_bit0 len_num1) simp
  moreover have "unat v * 256 + unat b < 2 ^ 32" using assms unat_byte [of b] by simp
  ultimately show ?thesis by simp
qed

lemma unat_low: "unat (x AND 127) = unat (x :: 8 word) mod 128" "unat (x AND 15) = unat (x :: 8 word) mod 16"
proof -
  have "unat (x AND mask n) = unat x mod 2 ^ n" for n
    unfolding take_bit_eq_mask [symmetric] unsigned_take_bit_eq by (rule take_bit_eq_mod)
  from this [of 7] this [of 4] show "unat (x AND 127) = unat x mod 128" "unat (x AND 15) = unat x mod 16"
    by (simp_all add: mask_eq_exp_minus_1)
qed

lemma unat_ucast_byte: "unat (ucast (x :: 8 word) :: 32 word) = unat x"
  using unat_byte [of x] by (simp add: unsigned_ucast_eq take_bit_nat_eq_self)

lemma dynamic_truncation_unat:
  assumes "length h = 20"
  shows "unat (dynamic_truncation h) mod 1000000 =
    (let off = unat (last h) mod 16
     in (((unat (h ! off) mod 128 * 256 + unat (h ! (off + 1))) * 256 + unat (h ! (off + 2))) * 256 + unat (h ! (off + 3))) mod 1000000)"
proof -
  define off where "off = unat (last h) mod 16"
  have "h \<noteq> []" using assms by auto
  then have last: "h ! (length h - Suc 0) = last h" by (simp add: last_conv_nth)
  let ?a = "ucast (h ! off AND 127) :: 32 word"
  have a: "unat ?a = unat (h ! off) mod 128" by (simp add: unat_ucast_byte unat_low)
  have nested: "dynamic_truncation h = push_bit 8 (push_bit 8 (push_bit 8 ?a OR ucast (h ! (off + 1))) OR ucast (h ! (off + 2))) OR ucast (h ! (off + 3))"
    by (simp add: dynamic_truncation_def last unat_low Let_def off_def push_bit_or or.assoc push_bit_push_bit)
  have b: "unat (push_bit 8 ?a OR ucast (h ! (off + 1))) = unat (h ! off) mod 128 * 256 + unat (h ! (off + 1))" (is "unat ?b = _")
    by (subst unat_append_byte) (simp_all add: a)
  have c: "unat (push_bit 8 ?b OR ucast (h ! (off + 2))) = (unat (h ! off) mod 128 * 256 + unat (h ! (off + 1))) * 256 + unat (h ! (off + 2))" (is "unat ?c = _")
    using unat_byte [of "h ! (off + 1)"] b by (subst unat_append_byte) simp_all
  have "unat (push_bit 8 ?c OR ucast (h ! (off + 3))) =
      ((unat (h ! off) mod 128 * 256 + unat (h ! (off + 1))) * 256 + unat (h ! (off + 2))) * 256 + unat (h ! (off + 3))"
    using unat_byte [of "h ! (off + 1)"] unat_byte [of "h ! (off + 2)"] c by (subst unat_append_byte) simp_all
  then show ?thesis by (simp add: nested off_def [symmetric] Let_def)
qed

lemma totpAt_encoded:
  assumes "\<And>k m. length (hmacSha1 k m) = 20"
  shows "totpAt hmacSha1 (base32Encode key) t = Inr (shown (hotp hmacSha1 key (t div 30000)))"
proof -
  have "t div 1000 div 30 = t div 30000" by (simp add: zdiv_zmult2_eq [symmetric])
  then show ?thesis
    using dynamic_truncation_unat [OF assms, of key "counter_bytes (t div 30000)"]
    by (simp add: totpAt_def base32_roundtrip shown_def hotp_def Let_def)
qed

lemma nat_str_length: "n < 10 ^ Suc k \<Longrightarrow> length (nat_str n) \<le> Suc k"
proof (induction k arbitrary: n)
  case 0
  then show ?case by (subst nat_str.simps) simp
next
  case (Suc k)
  show ?case
  proof (cases "n < 10")
    case False
    have "n div 10 < 10 ^ Suc k" using Suc.prems by (simp add: less_mult_imp_div_less mult.commute)
    from Suc.IH [OF this] False show ?thesis by (subst nat_str.simps) simp
  qed (subst nat_str.simps, simp)
qed

lemma zero_digit: "is_digit (CHR ''0'')"
  by code_simp

lemma shown_six: "n < 1000000 \<Longrightarrow> six_digits (shown n)"
proof -
  assume "n < 1000000"
  then have "length (nat_str n) \<le> 6" using nat_str_length [of n 5] by simp
  moreover have "list_all is_digit (shown n)"
    using nat_str_digits [of n] by (auto simp: shown_def pad_zeros_def list_all_iff zero_digit)
  ultimately show ?thesis by (simp add: six_digits_def shown_def pad_zeros_def)
qed

text \<open>
  C30: the codes of an authenticator app. For a secret the panel generated, a text is accepted as a code exactly
  when it is the six-digit one-time password of the current thirty-second step or of one of its two
  neighbours; the check never fails with an error.
\<close>
theorem totp_codes_exact:
  assumes "\<And>k m. length (hmacSha1 k m) = 20"
  shows "verifyTotp hmacSha1 (base32Encode key) given now =
    Inr (\<exists>step \<in> {now div 30000 - 1, now div 30000, now div 30000 + 1}. given = shown (hotp hmacSha1 key step))"
proof -
  let ?h = "\<lambda>step. hotp hmacSha1 key step"
  have six: "six_digits (shown (?h step))" for step by (rule shown_six) (simp add: hotp_def Let_def)
  have steps: "(now - 30000) div 30000 = now div 30000 - 1" "(now + 30000) div 30000 = 1 + now div 30000" by simp_all
  show ?thesis
  proof (cases "six_digits given")
    case True
    then have safe: "timingSafeEqual (shown (?h step)) given = Inr (shown (?h step) = given)" for step
      using six [of step] by (simp add: timingSafeEqual_def six_digits_def)
    show ?thesis
      using True steps by (auto simp: add.commute [of _ "1 :: int"] verifyTotp_def totpAt_encoded [OF assms] safe split: bool.splits)
  next
    case False
    then show ?thesis using six by (auto simp: verifyTotp_def)
  qed
qed

text \<open>A stand-in for HMAC-SHA1 that mixes key and message into twenty bytes.\<close>

definition demo_hmac :: "bytes \<Rightarrow> bytes \<Rightarrow> bytes" where
  "demo_hmac key m = map (\<lambda>i. sum_list key + (of_nat i + 1) * sum_list m) [0..<20]"

theorem totp_codes_exact_witness:
  "verifyTotp demo_hmac (base32Encode [1, 2, 3]) (shown (hotp demo_hmac [1, 2, 3] 56666666)) 1700000001000 = Inr True"
proof -
  have "length (demo_hmac k m) = 20" for k m by (simp add: demo_hmac_def)
  from totp_codes_exact [OF this, where key = "[1, 2, 3]" and given = "shown (hotp demo_hmac [1, 2, 3] 56666666)" and now = 1700000001000]
  show ?thesis by simp
qed

section \<open>Base 64\<close>

text \<open>
  \<open>toString("base64url")\<close> writes one digit for every six bits, without padding; reading accepts the digits of both
  alphabets and skips every other character.
\<close>

definition B64 :: string where
  "B64 = ''ABCDEFGHIJKLMNOPQRSTUVWXYZabcdefghijklmnopqrstuvwxyz0123456789-_''"

definition base64url :: "bytes \<Rightarrow> string" where
  "base64url bs = map (\<lambda>g. B64 ! unat (of_bits g :: 8 word)) (padded 6 (byte_bits bs))"

definition b64_value :: "char \<Rightarrow> nat option" where
  "b64_value c = (if c = CHR ''+'' then Some 62 else if c = CHR ''/'' then Some 63 else index_of [c] B64)"

definition from_base64url :: "string \<Rightarrow> bytes" where
  "from_base64url s = map of_bits (whole 8 (concat (map (\<lambda>n. bits_of 6 (of_nat n :: 8 word)) (List.map_filter b64_value s))))"

lemma b64_value_digit: "n < 64 \<Longrightarrow> b64_value (B64 ! n) = Some n"
proof -
  have "\<forall>n \<in> set [0..<64]. b64_value (B64 ! n) = Some n" by code_simp
  then show "n < 64 \<Longrightarrow> b64_value (B64 ! n) = Some n" by simp
qed

lemma six_bits_value:
  assumes "length g = 6"
  shows "b64_value (B64 ! unat (of_bits g :: 8 word)) = Some (unat (of_bits g :: 8 word))"
    and "bits_of 6 (of_bits g :: 8 word) = g"
proof -
  show g: "bits_of 6 (of_bits g :: 8 word) = g" using bits_of_of_bits [of g, where 'a = 8] assms by simp
  from of_bits_of [of 6 "of_bits g :: 8 word", where 'b = 8, unfolded this]
  have small: "(of_bits g :: 8 word) = take_bit 6 (of_bits g)" by (simp only: ucast_id len_num1 len_bit0)
  have "unat (of_bits g :: 8 word) < 64"
    using arg_cong [OF small, of unat] take_bit_nat_less_exp [of 6 "unat (of_bits g :: 8 word)"] by (simp add: unsigned_take_bit_eq)
  then show "b64_value (B64 ! unat (of_bits g :: 8 word)) = Some (unat (of_bits g :: 8 word))" by (rule b64_value_digit)
qed

lemma base64url_roundtrip: "from_base64url (base64url bs) = bs"
proof -
  have "map (\<lambda>n. bits_of 6 (of_nat n :: 8 word)) (List.map_filter b64_value (map (\<lambda>g. B64 ! unat (of_bits g :: 8 word)) gs)) = gs"
    if "\<forall>g \<in> set gs. length g = 6" for gs
    using that by (induction gs) (auto simp: six_bits_value List.map_filter_simps)
  from this [of "padded 6 (byte_bits bs)"] padded_length [of _ 6 "byte_bits bs"] show ?thesis
    by (simp add: from_base64url_def base64url_def groups_roundtrip)
qed

section \<open>Encrypted values\<close>

text \<open>
  \<open>Cipher\<close> is AES-256-GCM with the derivation of its key: sealing takes the key, the initialisation vector and the
  text and gives the tag and the ciphertext; opening fails for a wrong key or a changed value.
\<close>

record 'k Cipher =
  ci_derive :: "string \<Rightarrow> 'k"
  ci_seal :: "'k \<Rightarrow> bytes \<Rightarrow> string \<Rightarrow> bytes \<times> bytes"
  ci_open :: "'k \<Rightarrow> bytes \<Rightarrow> bytes \<Rightarrow> bytes \<Rightarrow> string option"

record KeyEnv =
  ke_key :: "string option"
  ke_previous :: "string option"
  ke_production :: bool

definition ENC_PREFIX :: string where
  "ENC_PREFIX = ''enc:v1:''"

definition IV_BYTES :: nat where
  "IV_BYTES = 12"

definition TAG_BYTES :: nat where
  "TAG_BYTES = 16"

definition DEV_FALLBACK_KEY :: string where
  "DEV_FALLBACK_KEY = ''yeah-dev-only-encryption-key-do-not-use-in-production''"

text \<open>The texts of the keys, the current one first. The cache of the source holds the result for the same texts.\<close>

definition key_texts :: "KeyEnv \<Rightarrow> string + string list" where
  "key_texts env =
    (let primary = map_option trim (ke_key env);
         previous = filter (\<lambda>k. k \<noteq> []) (map trim (split_str '','' (default [] (ke_previous env))))
     in if str_truthy primary then Inr (the primary # previous)
        else if ke_production env
        then Inl (''ENCRYPTION_KEY is required in production '' @ em_dash @ '' set it in .env (any long random string).'')
        else Inr (DEV_FALLBACK_KEY # previous))"

definition keyring :: "'k Cipher \<Rightarrow> KeyEnv \<Rightarrow> string + 'k list" where
  "keyring ci env = map_sum id (map (ci_derive ci)) (key_texts env)"

definition isEncrypted :: "string \<Rightarrow> bool" where
  "isEncrypted value = starts_with value ENC_PREFIX"

definition envelope :: "string \<Rightarrow> bytes" where
  "envelope stored = from_base64url (drop (length ENC_PREFIX) stored)"

definition opened :: "'k Cipher \<Rightarrow> 'k \<Rightarrow> bytes \<Rightarrow> string option" where
  "opened ci key raw =
    ci_open ci key (take IV_BYTES raw) (take TAG_BYTES (drop IV_BYTES raw)) (drop (IV_BYTES + TAG_BYTES) raw)"

definition usesCurrentKey :: "'k Cipher \<Rightarrow> KeyEnv \<Rightarrow> string \<Rightarrow> bool" where
  "usesCurrentKey ci env stored =
    (if \<not> isEncrypted stored then False
     else if length (envelope stored) < IV_BYTES + TAG_BYTES then False
     else case keyring ci env of Inl e \<Rightarrow> False | Inr keys \<Rightarrow> opened ci (hd keys) (envelope stored) \<noteq> None)"

definition encryptSecret :: "'k Cipher \<Rightarrow> KeyEnv \<Rightarrow> bytes \<Rightarrow> string \<Rightarrow> string + string" where
  "encryptSecret ci env iv plaintext =
    map_sum id (\<lambda>keys. case ci_seal ci (hd keys) iv plaintext of
        (tag, ciphertext) \<Rightarrow> ENC_PREFIX @ base64url (iv @ tag @ ciphertext)) (keyring ci env)"

fun try_keys :: "'k Cipher \<Rightarrow> bytes \<Rightarrow> 'k list \<Rightarrow> string option" where
  "try_keys ci raw [] = None"
| "try_keys ci raw (key # keys) = (case opened ci key raw of Some text' \<Rightarrow> Some text' | None \<Rightarrow> try_keys ci raw keys)"

definition decryptSecret :: "'k Cipher \<Rightarrow> KeyEnv \<Rightarrow> string \<Rightarrow> string + string" where
  "decryptSecret ci env stored =
    (if \<not> isEncrypted stored then Inr stored
     else if length (envelope stored) < IV_BYTES + TAG_BYTES then Inl ''encrypted value is truncated''
     else case keyring ci env of
       Inl e \<Rightarrow> Inl e
     | Inr keys \<Rightarrow>
         (case try_keys ci (envelope stored) keys of
            Some text' \<Rightarrow> Inr text'
          | None \<Rightarrow> Inl (''cannot decrypt stored secret '' @ em_dash @ '' ENCRYPTION_KEY does not match the one it was encrypted with'')))"

text \<open>The column type: \<open>null\<close> passes through.\<close>

definition to_driver :: "'k Cipher \<Rightarrow> KeyEnv \<Rightarrow> bytes \<Rightarrow> string option \<Rightarrow> string + string option" where
  "to_driver ci env iv value = (case value of None \<Rightarrow> Inr None | Some v \<Rightarrow> map_sum id Some (encryptSecret ci env iv v))"

definition from_driver :: "'k Cipher \<Rightarrow> KeyEnv \<Rightarrow> string option \<Rightarrow> string + string option" where
  "from_driver ci env value = (case value of None \<Rightarrow> Inr None | Some v \<Rightarrow> map_sum id Some (decryptSecret ci env v))"

text \<open>
  What the code relies on: the tag has its sixteen bytes, a sealed text opens with its key, and with no key derived
  from another text.
\<close>

definition cipher_laws :: "'k Cipher \<Rightarrow> bool" where
  "cipher_laws ci \<longleftrightarrow>
    (\<forall>k iv p. length (fst (ci_seal ci k iv p)) = TAG_BYTES \<and>
       ci_open ci k iv (fst (ci_seal ci k iv p)) (snd (ci_seal ci k iv p)) = Some p) \<and>
    (\<forall>a b iv p. a \<noteq> b \<longrightarrow>
       ci_open ci (ci_derive ci b) iv (fst (ci_seal ci (ci_derive ci a) iv p)) (snd (ci_seal ci (ci_derive ci a) iv p)) = None)"

lemma encryptSecret_envelope:
  assumes "cipher_laws ci" and "length iv = IV_BYTES" and "keyring ci env = Inr (k # ks)"
  obtains stored where "encryptSecret ci env iv p = Inr stored" "isEncrypted stored" "\<not> length (envelope stored) < IV_BYTES + TAG_BYTES"
    "\<And>k'. opened ci k' (envelope stored) = ci_open ci k' iv (fst (ci_seal ci k iv p)) (snd (ci_seal ci k iv p))"
proof -
  obtain tag ct where sealed: "ci_seal ci k iv p = (tag, ct)" by force
  then have tag: "length tag = TAG_BYTES" using assms(1) by (metis cipher_laws_def fst_conv)
  let ?s = "ENC_PREFIX @ base64url (iv @ tag @ ct)"
  have raw: "envelope ?s = iv @ tag @ ct" by (simp add: envelope_def base64url_roundtrip)
  show ?thesis
  proof (rule that)
    show "encryptSecret ci env iv p = Inr ?s" using assms(3) sealed by (simp add: encryptSecret_def)
    show "isEncrypted ?s" by (simp add: isEncrypted_def starts_with_def)
    show "\<not> length (envelope ?s) < IV_BYTES + TAG_BYTES" using assms(2) tag by (simp add: raw)
    show "opened ci k' (envelope ?s) = ci_open ci k' iv (fst (ci_seal ci k iv p)) (snd (ci_seal ci k iv p))" for k'
      using assms(2) tag sealed by (simp add: opened_def raw)
  qed
qed

section \<open>Rotating the key\<close>

lemma in_trim: "c \<in> set s \<Longrightarrow> \<not> is_space c \<Longrightarrow> c \<in> set (trim s)"
proof -
  have keep: "c \<in> set (dropWhile is_space t)" if "c \<in> set t" "\<not> is_space c" for t
    using that by (metis UnE set_append set_takeWhileD takeWhile_dropWhile_id)
  assume "c \<in> set s" "\<not> is_space c"
  then show ?thesis using keep [of s] keep [of "rev (dropWhile is_space s)"] by (simp add: trim_def trim_start_def trim_end_def)
qed

lemma opened_derived:
  assumes "cipher_laws ci"
    and "\<And>k'. opened ci k' raw = ci_open ci k' iv (fst (ci_seal ci (ci_derive ci k) iv p)) (snd (ci_seal ci (ci_derive ci k) iv p))"
  shows "opened ci (ci_derive ci a) raw = (if a = k then Some p else None)"
  using assms(1) unfolding assms(2) cipher_laws_def by auto

lemma try_keys_derived:
  assumes "cipher_laws ci"
    and "\<And>k'. opened ci k' raw = ci_open ci k' iv (fst (ci_seal ci (ci_derive ci k) iv p)) (snd (ci_seal ci (ci_derive ci k) iv p))"
  shows "try_keys ci raw (map (ci_derive ci) texts) = (if k \<in> set texts then Some p else None)"
proof (induction texts)
  case (Cons a texts)
  then show ?case using opened_derived [OF assms, of a] by auto
qed simp

lemma key_texts_given:
  assumes "ke_key env = Some k" and "trim k \<noteq> []"
  shows "key_texts env = Inr (trim k # filter (\<lambda>k. k \<noteq> []) (map trim (split_str '','' (default [] (ke_previous env)))))"
  using assms by (simp add: key_texts_def str_truthy_def Let_def)

lemma previous_texts:
  assumes "rest = [] \<or> (\<exists>r. rest = '','' @ r)" and "trim k \<noteq> []"
  shows "trim k \<in> set (filter (\<lambda>k. k \<noteq> []) (map trim (split_str '','' (k @ rest)))) \<longleftrightarrow> CHR '','' \<notin> set k"
proof (cases "CHR '','' \<in> set k")
  case True
  have "\<not> is_space (CHR '','')" by code_simp
  with True have "CHR '','' \<in> set (trim k)" by (intro in_trim)
  moreover have "CHR '','' \<notin> set (trim x)" if "x \<in> set (split_str '','' (k @ rest))" for x
    using split_char_pieces [OF that] set_trim [of x] by blast
  ultimately show ?thesis using True by auto
next
  case False
  then have "k \<in> set (split_str '','' (k @ rest))" using assms(1) by (auto simp: split_char_absent split_char_append)
  with False assms(2) show ?thesis by auto
qed

text \<open>
  C31: rotating the encryption key. A secret is stored under a key, then the key is moved to the front of the
  previous keys and a new one is set. The stored text is decrypted to the secret exactly when the old key has no
  comma (or the new key is the old one), and it counts as encrypted with the current key exactly when
  the new key is the old one up to surrounding blanks.
\<close>
theorem rotation_keeps_secrets:
  assumes "cipher_laws ci" and "length iv = IV_BYTES" and "encryptSecret ci env iv p = Inr stored"
    and "ke_key env = Some k" and "trim k \<noteq> []" and "ke_key env' = Some k'" and "trim k' \<noteq> []"
    and "ke_previous env' = Some (k @ rest)" and "rest = [] \<or> (\<exists>r. rest = '','' @ r)"
  shows "(decryptSecret ci env' stored = Inr p \<longleftrightarrow> CHR '','' \<notin> set k \<or> trim k' = trim k) \<and>
    (usesCurrentKey ci env' stored \<longleftrightarrow> trim k' = trim k)"
proof -
  obtain ks where "keyring ci env = Inr (ci_derive ci (trim k) # ks)"
    using key_texts_given [OF assms(4,5)] by (auto simp: keyring_def)
  from encryptSecret_envelope [OF assms(1,2) this, of p] assms(3) have stored: "isEncrypted stored"
    "\<not> length (envelope stored) < IV_BYTES + TAG_BYTES"
    "\<And>x. opened ci x (envelope stored) =
      ci_open ci x iv (fst (ci_seal ci (ci_derive ci (trim k)) iv p)) (snd (ci_seal ci (ci_derive ci (trim k)) iv p))"
    by (metis Inr_inject)+
  let ?previous = "filter (\<lambda>k. k \<noteq> []) (map trim (split_str '','' (k @ rest)))"
  have ring: "keyring ci env' = Inr (map (ci_derive ci) (trim k' # ?previous))"
    using key_texts_given [OF assms(6,7)] assms(8) by (simp add: keyring_def default_def)
  have "decryptSecret ci env' stored = Inr p \<longleftrightarrow> trim k \<in> set (trim k' # ?previous)"
    using stored(1,2) try_keys_derived [OF assms(1) stored(3), of "trim k' # ?previous"]
    by (simp add: decryptSecret_def ring split: option.splits)
  moreover have "usesCurrentKey ci env' stored \<longleftrightarrow> trim k' = trim k"
    using stored(1,2) opened_derived [OF assms(1) stored(3), of "trim k'"] by (simp add: usesCurrentKey_def ring)
  ultimately show ?thesis using previous_texts [OF assms(9,5)] by auto
qed

text \<open>A cipher without any secrecy that keeps the laws: the tag is empty bytes and the ciphertext names the key.\<close>

definition demo_cipher :: "string Cipher" where
  "demo_cipher = \<lparr>ci_derive = (\<lambda>k. k),
     ci_seal = (\<lambda>k iv p. (replicate 16 0, map (of_nat \<circ> code) (json_str k @ p))),
     ci_open = (\<lambda>k iv tag ct. case read_json_str (map (\<lambda>w. char_of (unat w)) ct) of
        Some (k', p) \<Rightarrow> if k' = k then Some p else None | None \<Rightarrow> None)\<rparr>"

lemma demo_cipher_laws: "cipher_laws demo_cipher"
proof -
  have "char_of (unat (of_nat (code c) :: 8 word)) = c" for c
    using code_less_256 [of c] by (simp add: unat_of_nat char_of_code)
  then have text': "map (\<lambda>w. char_of (unat w)) (map (of_nat \<circ> code) s :: 8 word list) = s" for s
    by (simp add: comp_def)
  show ?thesis
    by (simp only: cipher_laws_def demo_cipher_def Cipher.simps fst_conv snd_conv text' read_json_str_inverse)
      (simp add: TAG_BYTES_def)
qed

theorem rotation_keeps_secrets_witness:
  "let env = \<lparr>ke_key = Some ''first key'', ke_previous = None, ke_production = True\<rparr>;
       env' = \<lparr>ke_key = Some ''second key'', ke_previous = Some ''first key'', ke_production = True\<rparr>
   in \<exists>stored. encryptSecret demo_cipher env (replicate 12 0) ''hunter2'' = Inr stored \<and> decryptSecret demo_cipher env' stored = Inr ''hunter2''"
proof -
  let ?env = "\<lparr>ke_key = Some ''first key'', ke_previous = None, ke_production = True\<rparr>"
  let ?env' = "\<lparr>ke_key = Some ''second key'', ke_previous = Some ''first key'', ke_production = True\<rparr>"
  have trims: "trim ''first key'' \<noteq> []" "trim ''second key'' \<noteq> []" by code_simp+
  obtain stored where stored: "encryptSecret demo_cipher ?env (replicate 12 0) ''hunter2'' = Inr stored"
    using key_texts_given [of ?env "''first key''"] trims(1) by (auto simp: encryptSecret_def keyring_def split: prod.splits)
  have "decryptSecret demo_cipher ?env' stored = Inr ''hunter2''"
    using rotation_keeps_secrets [OF demo_cipher_laws _ stored _ trims(1) _ trims(2), where env' = ?env' and rest = "[]"]
    by (simp add: IV_BYTES_def)
  with stored show ?thesis by (auto simp: Let_def)
qed

section \<open>Rewriting stored secrets\<close>

text \<open>
  The columns that hold secrets, and what is stored in one of them: the id of each row with the text as it is in
  the database. \<open>fails\<close> tells which updates the database refuses, \<open>iv\<close> gives the random bytes of an update.
\<close>

type_synonym secret_rows = "(string \<times> string option) list"

definition SECRET_COLUMNS :: "string list" where
  "SECRET_COLUMNS =
    [''servers.private_key'', ''databases.password'', ''s3_storages.secret_access_key'', ''notification_channels.url'',
     ''notification_channels.telegram_bot_token'', ''notification_channels.smtp_password'', ''applications.env_content'', ''services.env_content'',
     ''applications.deploy_key'', ''servers.cloudflare_tunnel_token'', ''notification_channels.pushover_user_key'', ''notification_channels.pushover_api_token'',
     ''registries.password'', ''ssh_keys.private_key'', ''git_sources.token'', ''git_sources.webhook_secret'',
     ''log_drains.loki_password'', ''log_drains.axiom_token'', ''log_drains.new_relic_license_key'', ''log_drains.aws_secret_access_key'',
     ''shared_variables.value'', ''users.totp_secret'', ''application_volumes.file_content'']"

datatype row_result = Skipped | Rewritten string | Refused string

definition write_value :: "string \<Rightarrow> string \<Rightarrow> secret_rows \<Rightarrow> secret_rows" where
  "write_value i v rows = map (\<lambda>(j, w). if j = i then (j, Some v) else (j, w)) rows"

text \<open>The loop over the selected rows: how many were rewritten, and the reports of those that could not be.\<close>

fun rewrite_rows :: "(string \<Rightarrow> string \<Rightarrow> row_result) \<Rightarrow> (string \<times> string) list \<Rightarrow> secret_rows \<Rightarrow> (nat \<times> string list) \<times> secret_rows" where
  "rewrite_rows f [] rows = ((0, []), rows)"
| "rewrite_rows f ((i, v) # selected) rows =
    (case f i v of
       Skipped \<Rightarrow> rewrite_rows f selected rows
     | Rewritten w \<Rightarrow> apfst (apfst Suc) (rewrite_rows f selected (write_value i w rows))
     | Refused e \<Rightarrow> apfst (apsnd (Cons e)) (rewrite_rows f selected rows))"

definition select_rows :: "(string \<Rightarrow> bool) \<Rightarrow> secret_rows \<Rightarrow> (string \<times> string) list" where
  "select_rows P rows = List.map_filter (\<lambda>(i, v). case v of Some s \<Rightarrow> if P s then Some (i, s) else None | None \<Rightarrow> None) rows"

text \<open>The loop over the columns; the store gives the rows of a column.\<close>

fun rewrite_columns ::
  "(string \<Rightarrow> secret_rows \<Rightarrow> (nat \<times> string list) \<times> secret_rows) \<Rightarrow> string list \<Rightarrow> (string \<Rightarrow> secret_rows) \<Rightarrow>
   (nat \<times> string list) \<times> (string \<Rightarrow> secret_rows)" where
  "rewrite_columns g [] store = ((0, []), store)"
| "rewrite_columns g (label # labels) store =
    (let ((n, es), rows) = g label (store label); ((m, fs), store') = rewrite_columns g labels (store(label := rows))
     in ((n + m, es @ fs), store'))"

definition not_yet_encrypted :: "string \<Rightarrow> bool" where
  "not_yet_encrypted s \<longleftrightarrow> s \<noteq> [] \<and> \<not> starts_with s ENC_PREFIX"

definition encrypt_row ::
  "'k Cipher \<Rightarrow> KeyEnv \<Rightarrow> (string \<Rightarrow> string \<Rightarrow> bytes) \<Rightarrow> (string \<Rightarrow> string \<Rightarrow> bool) \<Rightarrow> string \<Rightarrow> string \<Rightarrow> string \<Rightarrow> row_result" where
  "encrypt_row ci env iv fails label i v =
    (if isEncrypted v then Skipped
     else case encryptSecret ci env (iv label i) v of
            Inl e \<Rightarrow> Refused e
          | Inr w \<Rightarrow> if fails label i then Refused ''update failed'' else Rewritten w)"

definition encryptExistingSecrets ::
  "'k Cipher \<Rightarrow> KeyEnv \<Rightarrow> (string \<Rightarrow> string \<Rightarrow> bytes) \<Rightarrow> (string \<Rightarrow> string \<Rightarrow> bool) \<Rightarrow> (string \<Rightarrow> secret_rows) \<Rightarrow> nat \<times> (string \<Rightarrow> secret_rows)" where
  "encryptExistingSecrets ci env iv fails store =
    apfst fst (rewrite_columns (\<lambda>label rows. rewrite_rows (encrypt_row ci env iv fails label) (select_rows not_yet_encrypted rows) rows)
      SECRET_COLUMNS store)"

text \<open>
  The second pass compares with \<open>like enc:v1:%\<close>: a pattern of SQL has to be a literal in quotes, so the query itself
  fails and no column is reached.
\<close>

definition sql_literal :: "string \<Rightarrow> string option" where
  "sql_literal source = (if length source \<ge> 2 \<and> hd source = SQ \<and> last source = SQ then Some (butlast (tl source)) else None)"

definition rekey_row ::
  "'k Cipher \<Rightarrow> KeyEnv \<Rightarrow> (string \<Rightarrow> string \<Rightarrow> bytes) \<Rightarrow> (string \<Rightarrow> string \<Rightarrow> bool) \<Rightarrow> string \<Rightarrow> string \<Rightarrow> string \<Rightarrow> row_result" where
  "rekey_row ci env iv fails label i v =
    (let refused = (\<lambda>e. Refused (label @ '' ('' @ i @ ''): '' @ e))
     in if usesCurrentKey ci env v then Skipped
        else case decryptSecret ci env v of
               Inl e \<Rightarrow> refused e
             | Inr plaintext \<Rightarrow>
                 (case encryptSecret ci env (iv label i) plaintext of
                    Inl e \<Rightarrow> refused e
                  | Inr w \<Rightarrow> if fails label i then refused ''update failed'' else Rewritten w))"

definition reencryptSecrets ::
  "'k Cipher \<Rightarrow> KeyEnv \<Rightarrow> (string \<Rightarrow> string \<Rightarrow> bytes) \<Rightarrow> (string \<Rightarrow> string \<Rightarrow> bool) \<Rightarrow> (string \<Rightarrow> secret_rows) \<Rightarrow>
   (string + nat \<times> string list) \<times> (string \<Rightarrow> secret_rows)" where
  "reencryptSecrets ci env iv fails store =
    (case sql_literal ''enc:v1:%'' of
       None \<Rightarrow> (Inl ''syntax error'', store)
     | Some pattern \<Rightarrow>
         apfst Inr (rewrite_columns
           (\<lambda>label rows. rewrite_rows (rekey_row ci env iv fails label) (select_rows (\<lambda>s. starts_with s (butlast pattern)) rows) rows)
           SECRET_COLUMNS store))"

lemma rekey_fails: "reencryptSecrets ci env iv fails store = (Inl ''syntax error'', store)"
  by (simp add: reencryptSecrets_def sql_literal_def)

lemma write_value_lookup:
  "map_of (write_value i v rows) j = (if j = i then map_option (\<lambda>w. Some v) (map_of rows j) else map_of rows j)"
  by (induction rows) (auto simp: write_value_def)

lemma rewrite_rows_lookup:
  assumes "distinct (map fst selected)"
  shows "map_of (snd (rewrite_rows f selected rows)) i =
    (case map_of selected i of
       Some v \<Rightarrow> (case f i v of Rewritten w \<Rightarrow> map_option (\<lambda>u. Some w) (map_of rows i) | _ \<Rightarrow> map_of rows i)
     | None \<Rightarrow> map_of rows i)"
  using assms
proof (induction f selected rows rule: rewrite_rows.induct)
  case (2 f j v selected rows)
  then have IH: "f j v = Rewritten w \<Longrightarrow> map_of (snd (rewrite_rows f selected (write_value j w rows))) i =
      (case map_of selected i of Some v' \<Rightarrow> (case f i v' of Rewritten w' \<Rightarrow> map_option (\<lambda>u. Some w') (map_of (write_value j w rows) i)
        | _ \<Rightarrow> map_of (write_value j w rows) i) | None \<Rightarrow> map_of (write_value j w rows) i)" for w by simp
  have new: "map_of selected j = None" using 2(4) by (auto simp: map_of_eq_None_iff)
  show ?case
    using 2 IH new
    by (cases "f j v"; cases "i = j")
      (auto simp: write_value_lookup option.map_comp comp_def split: option.splits row_result.splits)
qed simp

lemma select_rows_lookup:
  "distinct (map fst rows) \<Longrightarrow>
    map_of (select_rows P rows) i = (case map_of rows i of Some (Some s) \<Rightarrow> if P s then Some s else None | _ \<Rightarrow> None) \<and>
    distinct (map fst (select_rows P rows)) \<and> fst ` set (select_rows P rows) \<subseteq> fst ` set rows"
proof (induction rows)
  case (Cons r rows)
  obtain j v where r: "r = (j, v)" by force
  have absent: "map_of rows j = None" using Cons.prems by (auto simp: r map_of_eq_None_iff)
  with Cons show ?case
    by (cases v) (auto simp: r select_rows_def List.map_filter_simps split: option.splits)
qed (simp add: select_rows_def List.map_filter_simps)

lemma rewrite_columns_store:
  "distinct labels \<Longrightarrow> snd (rewrite_columns g labels store) label = (if label \<in> set labels then snd (g label (store label)) else store label)"
proof (induction labels arbitrary: store)
  case (Cons l labels)
  obtain n es rows where g: "g l (store l) = ((n, es), rows)" by (metis prod.exhaust)
  then have "snd (rewrite_columns g (l # labels) store) = snd (rewrite_columns g labels (store(l := rows)))"
    by (simp split: prod.split)
  then show ?case using Cons.prems g by (auto simp: Cons.IH)
qed simp

lemma columns_distinct: "distinct SECRET_COLUMNS"
  by code_simp

lemma encrypt_row_result:
  assumes "cipher_laws ci" and "\<And>l i. length (iv l i) = IV_BYTES" and "keyring ci env = Inr (k # ks)" and "not_yet_encrypted v"
  shows "if fails l i then \<exists>e. encrypt_row ci env iv fails l i v = Refused e
    else \<exists>w. encrypt_row ci env iv fails l i v = Rewritten w \<and> \<not> not_yet_encrypted w \<and> decryptSecret ci env w = Inr v"
proof -
  obtain stored where stored: "encryptSecret ci env (iv l i) v = Inr stored" "isEncrypted stored" "\<not> length (envelope stored) < IV_BYTES + TAG_BYTES"
    "\<And>k'. opened ci k' (envelope stored) = ci_open ci k' (iv l i) (fst (ci_seal ci k (iv l i) v)) (snd (ci_seal ci k (iv l i) v))"
    using encryptSecret_envelope [OF assms(1) assms(2) [of l i] assms(3), of v] by blast
  have "opened ci k (envelope stored) = Some v" using assms(1) by (simp add: stored(4) cipher_laws_def)
  then have "decryptSecret ci env stored = Inr v" using stored by (simp add: decryptSecret_def assms(3))
  moreover have "\<not> isEncrypted v" "\<not> not_yet_encrypted stored" using assms(4) stored(2) by (simp_all add: not_yet_encrypted_def isEncrypted_def)
  ultimately show ?thesis using stored(1) by (auto simp: encrypt_row_def)
qed

text \<open>
  Encrypting the secrets of older rows. Reading any row of any column gives the same value before and after
  the pass, and whatever updates the database refuses, afterwards every other non-empty value of a secret column
  is stored in encrypted form.
\<close>
theorem existing_secrets_encrypted:
  assumes "cipher_laws ci" and "\<And>l i. length (iv l i) = IV_BYTES" and "keyring ci env = Inr (k # ks)"
    and "\<And>l. distinct (map fst (store l))"
  shows "map_option (from_driver ci env) (map_of (snd (encryptExistingSecrets ci env iv fails store) label) i) =
      map_option (from_driver ci env) (map_of (store label) i) \<and>
    (label \<in> set SECRET_COLUMNS \<and> \<not> fails label i \<and> map_of (snd (encryptExistingSecrets ci env iv fails store) label) i = Some (Some v) \<longrightarrow>
      v = [] \<or> isEncrypted v)"
proof (cases "label \<in> set SECRET_COLUMNS")
  case True
  let ?rows = "store label" and ?f = "encrypt_row ci env iv fails label"
  have after: "snd (encryptExistingSecrets ci env iv fails store) label = snd (rewrite_rows ?f (select_rows not_yet_encrypted ?rows) ?rows)"
    using True by (simp add: encryptExistingSecrets_def rewrite_columns_store [OF columns_distinct])
  note selected = select_rows_lookup [OF assms(4) [of label], of not_yet_encrypted i]
  note lookup = rewrite_rows_lookup [OF selected [THEN conjunct2, THEN conjunct1], of ?f ?rows i]
  show ?thesis
  proof (cases "\<exists>s. map_of ?rows i = Some (Some s) \<and> not_yet_encrypted s")
    case True
    then obtain s where s: "map_of ?rows i = Some (Some s)" "not_yet_encrypted s" by blast
    have plain: "from_driver ci env (Some s) = Inr (Some s)"
      using s(2) by (simp add: from_driver_def decryptSecret_def not_yet_encrypted_def isEncrypted_def)
    have here: "map_of (snd (encryptExistingSecrets ci env iv fails store) label) i =
        (case ?f i s of Rewritten w \<Rightarrow> Some (Some w) | _ \<Rightarrow> Some (Some s))"
      using lookup selected s by (simp add: after split: row_result.splits)
    show ?thesis
    proof (cases "fails label i")
      case True
      then obtain e where "?f i s = Refused e" using encrypt_row_result [where iv = iv and fails = fails and l = label and i = i, OF assms(1,2,3) s(2)] by auto
      with here True s(1) show ?thesis by simp
    next
      case False
      then obtain w where "?f i s = Rewritten w" "\<not> not_yet_encrypted w" "decryptSecret ci env w = Inr s"
        using encrypt_row_result [where iv = iv and fails = fails and l = label and i = i, OF assms(1,2,3) s(2)] by auto
      with here s(1) plain show ?thesis by (auto simp: from_driver_def not_yet_encrypted_def isEncrypted_def)
    qed
  next
    case False
    then have "map_of (select_rows not_yet_encrypted ?rows) i = None" using selected by (auto split: option.splits)
    with lookup False show ?thesis by (auto simp: after not_yet_encrypted_def isEncrypted_def)
  qed
next
  case False
  then show ?thesis by (simp add: encryptExistingSecrets_def rewrite_columns_store [OF columns_distinct])
qed

theorem existing_secrets_encrypted_witness:
  "let env = \<lparr>ke_key = Some ''key'', ke_previous = None, ke_production = True\<rparr>;
       store = (\<lambda>l. if l = ''users.totp_secret'' then [(''u1'', Some ''JBSWY3DP''), (''u2'', None)] else [])
   in map_option (from_driver demo_cipher env)
        (map_of (snd (encryptExistingSecrets demo_cipher env (\<lambda>l i. replicate 12 0) (\<lambda>l i. False) store) ''users.totp_secret'') ''u1'') =
      Some (Inr (Some ''JBSWY3DP''))"
proof -
  let ?env = "\<lparr>ke_key = Some ''key'', ke_previous = None, ke_production = True\<rparr>"
  let ?store = "\<lambda>l. if l = ''users.totp_secret'' then [(''u1'', Some ''JBSWY3DP''), (''u2'', None)] else []"
  have "trim ''key'' \<noteq> []" "trim [] = []" by code_simp+
  then have "keyring demo_cipher ?env = Inr (ci_derive demo_cipher (trim ''key'') # [])"
    using key_texts_given [of ?env "''key''"] by (simp add: keyring_def default_def)
  from existing_secrets_encrypted [OF demo_cipher_laws _ this, where iv = "\<lambda>l i. replicate 12 0" and store = ?store
      and fails = "\<lambda>l i. False" and label = "''users.totp_secret''" and i = "''u1''"]
  have "map_option (from_driver demo_cipher ?env)
      (map_of (snd (encryptExistingSecrets demo_cipher ?env (\<lambda>l i. replicate 12 0) (\<lambda>l i. False) ?store) ''users.totp_secret'') ''u1'') =
      map_option (from_driver demo_cipher ?env) (map_of (?store ''users.totp_secret'') ''u1'')"
    by (simp add: IV_BYTES_def)
  then show ?thesis by (simp add: Let_def from_driver_def decryptSecret_def isEncrypted_def starts_with_def ENC_PREFIX_def)
qed

end
