(* ===== verification/Accounts.thy ===== *)
theory Accounts
  imports Access Gates Secrets DatabaseCommands
begin

text \<open>
  How people get in: registration, sign-in, the second factor and sign-out (apps/api/src/routes/auth.ts), passkeys
  (routes/passkeys.ts with lib/webauthnChallenges.ts), the audit rows of these events (lib/audit.ts and the
  throttle of packages/shared/src/audit.ts), the server of the host (lib/localhostServer.ts), and the recovery of a
  lost password from the host (packages/db/src/passwordReset.ts). The state is \<open>AccountWorld\<close>; a request is a
  function of it that gives an answer and the next state. Hashes, random values, the WebAuthn library and the
  parsing of a URL are parameters; the shape checks of the framework on bodies are left out.

  The theorems show that only a registration of the first account, a password with its second factor or a
  verified passkey creates a session, that a recovery code works once, that there is never more than one account,
  and that a reset of the password signs everybody out and lets its owner in again.
\<close>

section \<open>Parameters\<close>

text \<open>The primitives: they are the same for every request.\<close>

record Crypto =
  cr_hmacSha1 :: "bytes \<Rightarrow> bytes \<Rightarrow> bytes"
  cr_sha256 :: "string \<Rightarrow> string"
  cr_verify :: "string \<Rightarrow> string \<Rightarrow> bool"
  wa_hostname :: "string \<Rightarrow> string option"
  wa_id :: "string \<Rightarrow> string"

record Credential =
  wc_id :: string
  wc_publicKey :: bytes
  wc_counter :: int
  wc_transports :: "string list option"

text \<open>
  What one request sees: the time, the ids of the rows it may insert (by kind), its random values, the hash of a
  password with this request's salt, its headers and cookies, and the answers of the WebAuthn library.
\<close>

record AccountEnv =
  ae_now :: int
  ae_id :: "string \<Rightarrow> string"
  ae_hash :: "string \<Rightarrow> string"
  ae_secret :: bytes
  ae_codes :: "bytes list"
  ae_iso :: "int \<Rightarrow> string"
  ae_ip :: string
  ae_origin :: "string option"
  ae_webOrigin :: "string option"
  ae_origins :: "string list"
  ae_session :: "string option"
  ae_challengeCookie :: "string option"
  ae_challenge :: string
  ae_register :: "string \<Rightarrow> string \<Rightarrow> string \<Rightarrow> string \<Rightarrow> string + Credential option"
  ae_authenticate :: "string \<Rightarrow> string \<Rightarrow> string \<Rightarrow> string \<Rightarrow> Passkey \<Rightarrow> string + int option"
  ae_localKey :: "string option"
  ae_localHost :: "string option"
  ae_localPort :: "string option"
  ae_localUser :: "string option"

record AccountWorld =
  ac_dir :: Directory
  ac_passkeys :: "Passkey list"
  ac_challenges :: challenges
  ac_seen :: "(string \<times> int) list"
  ac_audit :: "AuditEvent list"
  ac_checks :: "string list"

datatype cookie_change = SetSession string CookieOptions | RemoveSession | SetChallenge string | RemoveChallenge

datatype reply = Reply int jv "cookie_change list"

definition refuse :: "int \<Rightarrow> string \<Rightarrow> reply" where
  "refuse status message = Reply status (JObj [(''error'', JStr message)]) []"

definition refuse_code :: "int \<Rightarrow> string \<Rightarrow> string \<Rightarrow> reply" where
  "refuse_code status message code' = Reply status (JObj [(''error'', JStr message), (''code'', JStr code')]) []"

text \<open>An exception of a handler is answered by the framework.\<close>

definition failed :: "string \<Rightarrow> reply" where
  "failed message = Reply 500 (JStr message) []"

definition ok_reply :: reply where
  "ok_reply = Reply 200 (JObj [(''ok'', JBool True)]) []"

fun accepted :: "reply \<Rightarrow> bool" where
  "accepted (Reply status body cookies) \<longleftrightarrow> status = 200"

definition get_user :: "AccountEnv \<Rightarrow> AccountWorld \<Rightarrow> User option" where
  "get_user env w = findSessionUser (ac_dir w) (ae_now env) (ae_session env)"

definition set_users :: "(User list \<Rightarrow> User list) \<Rightarrow> AccountWorld \<Rightarrow> AccountWorld" where
  "set_users f w = w\<lparr>ac_dir := (ac_dir w)\<lparr>dir_users := f (dir_users (ac_dir w))\<rparr>\<rparr>"

definition update_user :: "string \<Rightarrow> (User \<Rightarrow> User) \<Rightarrow> AccountWorld \<Rightarrow> AccountWorld" where
  "update_user i f = set_users (map (\<lambda>u. if usr_id u = i then f u else u))"

section \<open>Audit rows of sign-ins\<close>

datatype AuthEventKind = SignIn | SignInPasskey | SignInFailed | SecondFactorFailed | SignOut

fun auth_kind_str :: "AuthEventKind \<Rightarrow> string" where
  "auth_kind_str SignIn = ''sign-in''"
| "auth_kind_str SignInPasskey = ''sign-in-passkey''"
| "auth_kind_str SignInFailed = ''sign-in-failed''"
| "auth_kind_str SecondFactorFailed = ''second-factor-failed''"
| "auth_kind_str SignOut = ''sign-out''"

fun describeAuthEvent :: "AuthEventKind \<Rightarrow> string \<times> string" where
  "describeAuthEvent SignIn = (''Signed in'', ''info'')"
| "describeAuthEvent SignInPasskey = (''Signed in with a passkey'', ''info'')"
| "describeAuthEvent SignInFailed = (''Failed sign-in attempt (wrong password)'', ''warning'')"
| "describeAuthEvent SecondFactorFailed = (''Failed sign-in attempt (wrong two-factor code)'', ''warning'')"
| "describeAuthEvent SignOut = (''Signed out'', ''info'')"

text \<open>The class \<open>AuditThrottle\<close>, its map as a list of pairs with distinct keys.\<close>

definition throttle_allow :: "int \<Rightarrow> nat \<Rightarrow> string \<Rightarrow> int \<Rightarrow> (string \<times> int) list \<Rightarrow> bool \<times> (string \<times> int) list" where
  "throttle_allow windowMs maxKeys key now seen =
    (if (case map_of seen key of Some previous \<Rightarrow> now - previous < windowMs | None \<Rightarrow> False) then (False, seen)
     else
       (let swept = (if length seen \<ge> maxKeys then sweep_entries (\<lambda>t. now - t \<ge> windowMs) seen else seen);
            kept = (if length swept \<ge> maxKeys then [] else swept)
        in (True, (key, now) # filter (\<lambda>p. fst p \<noteq> key) kept)))"

definition failureThrottle :: "string \<Rightarrow> int \<Rightarrow> (string \<times> int) list \<Rightarrow> bool \<times> (string \<times> int) list" where
  "failureThrottle = throttle_allow (5 * 60000) 10000"

definition auth_row :: "AccountEnv \<Rightarrow> User \<Rightarrow> AuthEventKind \<Rightarrow> string \<Rightarrow> TeamMember \<Rightarrow> AuditEvent" where
  "auth_row env user kind path m =
    (let (action, level) = describeAuthEvent kind
     in \<lparr>aud_id = ae_id env (''audit:'' @ tm_teamId m), aud_teamId = tm_teamId m, aud_userId = Some (usr_id user),
         aud_actor = Some (usr_email user), aud_action = action, aud_level = level, aud_resourceType = ''session'',
         aud_resourceId = None, aud_refs = None, aud_ip = Some (ae_ip env), aud_method = ''POST'', aud_path = take 512 path,
         aud_createdAt = ae_now env\<rparr>)"

definition recordAuthEvent :: "AccountEnv \<Rightarrow> User \<Rightarrow> AuthEventKind \<Rightarrow> string \<Rightarrow> AccountWorld \<Rightarrow> AccountWorld" where
  "recordAuthEvent env user kind path w =
    (let (allowed, seen) = (if kind = SignInFailed \<or> kind = SecondFactorFailed
           then failureThrottle (auth_kind_str kind @ '':'' @ usr_id user @ '':'' @ ae_ip env) (ae_now env) (ac_seen w)
           else (True, ac_seen w));
         rows = map (auth_row env user kind path) (filter (\<lambda>m. tm_userId m = usr_id user) (dir_members (ac_dir w)))
     in if allowed then w\<lparr>ac_seen := seen, ac_audit := ac_audit w @ rows\<rparr> else w\<lparr>ac_seen := seen\<rparr>)"

section \<open>The second factor\<close>

text \<open>
  The list of hashes is only ever written by \<open>JSON.stringify\<close>; the reader takes exactly an array of texts in this
  compact form, everything else is an error of \<open>JSON.parse\<close>.
\<close>

definition texts_json :: "string list \<Rightarrow> string" where
  "texts_json xs = json_compact (JArr (map JStr xs))"

fun read_texts :: "nat \<Rightarrow> string \<Rightarrow> string list option" where
  "read_texts 0 s = None"
| "read_texts (Suc n) s =
    (case read_json_str s of
       Some (x, c # rest) \<Rightarrow>
         if c = CHR '','' then map_option (Cons x) (read_texts n rest)
         else if c = CHR '']'' \<and> rest = [] then Some [x] else None
     | _ \<Rightarrow> None)"

definition parse_texts :: "string \<Rightarrow> string list option" where
  "parse_texts s = (if s = ''[]'' then Some [] else if s \<noteq> [] \<and> hd s = CHR ''['' then read_texts (length s) (tl s) else None)"

definition hex :: "bytes \<Rightarrow> string" where
  "hex bs = concat (map (\<lambda>b. [hex_digit (unat b div 16), hex_digit (unat b mod 16)]) bs)"

definition generateTotpSecret :: "bytes \<Rightarrow> string" where
  "generateTotpSecret random = base32Encode random"

definition generateRecoveryCodes :: "bytes list \<Rightarrow> string list" where
  "generateRecoveryCodes random = map hex (take 8 random)"

definition hashRecoveryCode :: "Crypto \<Rightarrow> string \<Rightarrow> string" where
  "hashRecoveryCode cr code' = cr_sha256 cr (to_lower (trim code'))"

definition otpauthUri :: "string \<Rightarrow> string \<Rightarrow> string" where
  "otpauthUri secret email = ''otpauth://totp/yeah:'' @ encodeURIComponent email @ ''?secret='' @ secret @ ''&issuer=yeah''"

definition totp_accepts :: "Crypto \<Rightarrow> AccountEnv \<Rightarrow> User \<Rightarrow> string \<Rightarrow> string + bool" where
  "totp_accepts cr env user code' =
    (case usr_totpSecret user of
       Some secret \<Rightarrow> if secret = [] then Inr False else verifyTotp (cr_hmacSha1 cr) secret code' (ae_now env)
     | None \<Rightarrow> Inr False)"

definition recovery_hashes :: "User \<Rightarrow> string list option" where
  "recovery_hashes user = (if str_truthy (usr_totpRecoveryHashes user) then parse_texts (the (usr_totpRecoveryHashes user)) else Some [])"

definition checkSecondFactor :: "Crypto \<Rightarrow> AccountEnv \<Rightarrow> User \<Rightarrow> string \<Rightarrow> AccountWorld \<Rightarrow> (string + bool) \<times> AccountWorld" where
  "checkSecondFactor cr env user code' w =
    (case totp_accepts cr env user (trim code') of
       Inl e \<Rightarrow> (Inl e, w)
     | Inr True \<Rightarrow> (Inr True, w)
     | Inr False \<Rightarrow>
         (case recovery_hashes user of
            None \<Rightarrow> (Inl ''JSON Parse error'', w)
          | Some hashes \<Rightarrow>
              (let hash = hashRecoveryCode cr code'
               in if hash \<notin> set hashes then (Inr False, w)
                  else (Inr True, update_user (usr_id user)
                    (\<lambda>u. u\<lparr>usr_totpRecoveryHashes := Some (texts_json (filter (\<lambda>h. h \<noteq> hash) hashes))\<rparr>) w))))"

section \<open>auth.ts\<close>

definition toSafeUser :: "AccountEnv \<Rightarrow> User \<Rightarrow> jv" where
  "toSafeUser env user =
    JObj [(''id'', JStr (usr_id user)), (''email'', JStr (usr_email user)),
      (''name'', case usr_name user of Some n \<Rightarrow> JStr n | None \<Rightarrow> JNull), (''totpEnabled'', JBool (usr_totpEnabled user)),
      (''createdAt'', JStr (ae_iso env (usr_createdAt user)))]"

definition hasAnyUser :: "AccountWorld \<Rightarrow> bool" where
  "hasAnyUser w \<longleftrightarrow> dir_users (ac_dir w) \<noteq> []"

text \<open>A new session and the cookie that carries it.\<close>

definition start_session :: "AccountEnv \<Rightarrow> string \<Rightarrow> AccountWorld \<Rightarrow> cookie_change \<times> AccountWorld" where
  "start_session env userId w =
    (case createSession (ae_id env ''session'') (ae_now env) userId (ac_dir w) of
       ((i, expires), d) \<Rightarrow> (SetSession i (sessionCookieOptions (ae_webOrigin env) expires (ae_origin env)), w\<lparr>ac_dir := d\<rparr>))"

text \<open>\<open>None\<close>: the insert of the server fails, because the port is no whole number.\<close>

definition createLocalhostServerIfConfigured :: "AccountEnv \<Rightarrow> string \<Rightarrow> AccountWorld \<Rightarrow> AccountWorld option" where
  "createLocalhostServerIfConfigured env teamId w =
    (if \<not> str_truthy (ae_localKey env) then Some w
     else
       (let host = default ''host.docker.internal'' (ae_localHost env);
            port = (if str_truthy (ae_localPort env)
                    then (case js_Number (the (ae_localPort env)) of Finite q \<Rightarrow> if of_int \<lfloor>q\<rfloor> = q then Some \<lfloor>q\<rfloor> else None | _ \<Rightarrow> None)
                    else Some 22);
            privateKey = map (\<lambda>b. char_of (unat b)) (from_base64url (the (ae_localKey env)))
        in case port of
             None \<Rightarrow> None
           | Some p \<Rightarrow>
               (let server = (new_server (ae_id env ''server'') (ae_now env) teamId ''Local server'' host privateKey)
                      \<lparr>srv_port := p, srv_sshUser := default ''root'' (ae_localUser env), srv_isPlatformHost := True\<rparr>
                in Some (w\<lparr>ac_dir := (ac_dir w)\<lparr>dir_servers := dir_servers (ac_dir w) @ [server]\<rparr>,
                           ac_checks := ac_checks w @ [srv_id server]\<rparr>))))"

definition register_team :: "AccountEnv \<Rightarrow> string \<Rightarrow> string option \<Rightarrow> AccountWorld \<Rightarrow> AccountWorld" where
  "register_team env userId name w =
    (let team = (new_team (ae_id env ''team'') (ae_now env) (if str_truthy name then the name @ [SQ] @ ''s team'' else ''Personal''))
           \<lparr>team_personal := True\<rparr>;
         member = (new_teamMember (ae_now env) (team_id team) userId)\<lparr>tm_role := OwnerRole\<rparr>;
         d = (ac_dir w)\<lparr>dir_teams := dir_teams (ac_dir w) @ [team], dir_members := dir_members (ac_dir w) @ [member]\<rparr>
     in w\<lparr>ac_dir := snd (createDefaultProject (ae_id env ''project'') (ae_id env ''environment'') (ae_now env) (team_id team) d)\<rparr>)"

definition post_register :: "AccountEnv \<Rightarrow> string \<Rightarrow> string \<Rightarrow> string option \<Rightarrow> AccountWorld \<Rightarrow> reply \<times> AccountWorld" where
  "post_register env email password name w =
    (if hasAnyUser w then (refuse 403 (''sign-up disabled '' @ em_dash @ '' this instance already has an account''), w)
     else if list_ex (\<lambda>u. usr_email u = email) (dir_users (ac_dir w)) then (refuse 409 ''email already registered'', w)
     else
       (let user = (new_user (ae_id env ''user'') (ae_now env) email (ae_hash env password))\<lparr>usr_name := name\<rparr>;
            w1 = register_team env (usr_id user) name (set_users (\<lambda>us. us @ [user]) w)
        in case createLocalhostServerIfConfigured env (ae_id env ''team'') w1 of
             None \<Rightarrow> (failed ''invalid input syntax for type integer'', w1)
           | Some w2 \<Rightarrow>
               (let (cookie, w3) = start_session env (usr_id user) w2
                in (Reply 200 (JObj [(''user'', toSafeUser env user)]) [cookie], w3))))"

definition verifyPasswordOrDummy :: "Crypto \<Rightarrow> string \<Rightarrow> string option \<Rightarrow> bool" where
  "verifyPasswordOrDummy cr password hash = (if str_truthy hash then cr_verify cr password (the hash) else False)"

text \<open>What follows when both factors have been accepted.\<close>

definition signed_in :: "AccountEnv \<Rightarrow> User \<Rightarrow> AccountWorld \<Rightarrow> reply \<times> AccountWorld" where
  "signed_in env user w =
    (let (cookie, w1) = start_session env (usr_id user) w
     in (Reply 200 (JObj [(''user'', toSafeUser env user)]) [cookie], recordAuthEvent env user SignIn ''/auth/login'' w1))"

definition post_login :: "Crypto \<Rightarrow> AccountEnv \<Rightarrow> string \<Rightarrow> string \<Rightarrow> string option \<Rightarrow> AccountWorld \<Rightarrow> reply \<times> AccountWorld" where
  "post_login cr env email password code' w =
    (case find (\<lambda>u. usr_email u = email) (dir_users (ac_dir w)) of
       None \<Rightarrow> (refuse 401 ''invalid credentials'', w)
     | Some user \<Rightarrow>
         if \<not> verifyPasswordOrDummy cr password (Some (usr_passwordHash user))
         then (refuse 401 ''invalid credentials'', recordAuthEvent env user SignInFailed ''/auth/login'' w)
         else if usr_totpEnabled user \<and> str_truthy (usr_totpSecret user) then
           (if \<not> str_truthy code' then (refuse_code 401 ''provide the two-factor verification code'' ''totp_required'', w)
            else case checkSecondFactor cr env user (the code') w of
              (Inl e, w1) \<Rightarrow> (failed e, w1)
            | (Inr False, w1) \<Rightarrow> (refuse_code 401 ''invalid code'' ''totp_invalid'', recordAuthEvent env user SecondFactorFailed ''/auth/login'' w1)
            | (Inr True, w1) \<Rightarrow> signed_in env user w1)
         else signed_in env user w)"

definition post_2fa_setup :: "AccountEnv \<Rightarrow> AccountWorld \<Rightarrow> reply \<times> AccountWorld" where
  "post_2fa_setup env w =
    (case get_user env w of
       None \<Rightarrow> (refuse 401 ''unauthorized'', w)
     | Some user \<Rightarrow>
         if usr_totpEnabled user then (refuse 409 ''two-factor authentication is already enabled'', w)
         else
           (let secret = generateTotpSecret (ae_secret env)
            in (Reply 200 (JObj [(''secret'', JStr secret), (''otpauthUri'', JStr (otpauthUri secret (usr_email user)))]) [],
                update_user (usr_id user) (\<lambda>u. u\<lparr>usr_totpSecret := Some secret\<rparr>) w)))"

definition post_2fa_enable :: "Crypto \<Rightarrow> AccountEnv \<Rightarrow> string \<Rightarrow> AccountWorld \<Rightarrow> reply \<times> AccountWorld" where
  "post_2fa_enable cr env code' w =
    (case get_user env w of
       None \<Rightarrow> (refuse 401 ''unauthorized'', w)
     | Some user \<Rightarrow>
         if usr_totpEnabled user \<or> \<not> str_truthy (usr_totpSecret user) then (refuse 409 ''start the setup again'', w)
         else
           (case totp_accepts cr env user code' of
              Inl e \<Rightarrow> (failed e, w)
            | Inr False \<Rightarrow> (refuse 400 ''invalid code'', w)
            | Inr True \<Rightarrow>
                (let recoveryCodes = generateRecoveryCodes (ae_codes env)
                 in (Reply 200 (JObj [(''recoveryCodes'', JArr (map JStr recoveryCodes))]) [],
                     update_user (usr_id user) (\<lambda>u. u\<lparr>usr_totpEnabled := True,
                       usr_totpRecoveryHashes := Some (texts_json (map (hashRecoveryCode cr) recoveryCodes))\<rparr>) w))))"

definition post_2fa_disable :: "Crypto \<Rightarrow> AccountEnv \<Rightarrow> string \<Rightarrow> string \<Rightarrow> AccountWorld \<Rightarrow> reply \<times> AccountWorld" where
  "post_2fa_disable cr env password code' w =
    (case get_user env w of
       None \<Rightarrow> (refuse 401 ''unauthorized'', w)
     | Some user \<Rightarrow>
         if \<not> usr_totpEnabled user then (ok_reply, w)
         else if \<not> cr_verify cr password (usr_passwordHash user) then (refuse 400 ''invalid password or code'', w)
         else case checkSecondFactor cr env user code' w of
           (Inl e, w1) \<Rightarrow> (failed e, w1)
         | (Inr False, w1) \<Rightarrow> (refuse 400 ''invalid password or code'', w1)
         | (Inr True, w1) \<Rightarrow>
             (ok_reply, update_user (usr_id user) (\<lambda>u. u\<lparr>usr_totpEnabled := False, usr_totpSecret := None, usr_totpRecoveryHashes := None\<rparr>) w1))"

definition post_logout :: "AccountEnv \<Rightarrow> AccountWorld \<Rightarrow> reply \<times> AccountWorld" where
  "post_logout env w =
    (let w1 = (case get_user env w of Some user \<Rightarrow> recordAuthEvent env user SignOut ''/auth/logout'' w | None \<Rightarrow> w)
     in (Reply 204 JUndef [RemoveSession], w1\<lparr>ac_dir := destroySession (ae_session env) (ac_dir w1)\<rparr>))"

definition get_me :: "AccountEnv \<Rightarrow> AccountWorld \<Rightarrow> reply" where
  "get_me env w =
    (case get_user env w of None \<Rightarrow> refuse 401 ''unauthorized'' | Some user \<Rightarrow> Reply 200 (JObj [(''user'', toSafeUser env user)]) [])"

definition get_setup_status :: "AccountWorld \<Rightarrow> reply" where
  "get_setup_status w = Reply 200 (JObj [(''needsSetup'', JBool (\<not> hasAnyUser w))]) []"

section \<open>passkeys.ts\<close>

definition relyingParty :: "Crypto \<Rightarrow> string option \<Rightarrow> string list \<Rightarrow> (string \<times> string) option" where
  "relyingParty cr origin allowed =
    (if \<not> str_truthy origin \<or> the origin \<notin> set allowed then None
     else case wa_hostname cr (the origin) of None \<Rightarrow> None | Some host \<Rightarrow> Some (host, the origin))"

text \<open>The options for the browser are the library's; of them the server keeps the challenge.\<close>

definition passkey_register_options :: "Crypto \<Rightarrow> AccountEnv \<Rightarrow> AccountWorld \<Rightarrow> reply \<times> AccountWorld" where
  "passkey_register_options cr env w =
    (case get_user env w of
       None \<Rightarrow> (refuse 401 ''unauthorized'', w)
     | Some user \<Rightarrow>
         (case relyingParty cr (ae_origin env) (ae_origins env) of
            None \<Rightarrow> (refuse 400 (''this address is not in WEB_ORIGIN '' @ em_dash @ '' passkeys only work on the configured panel address''), w)
          | Some rp \<Rightarrow>
              (Reply 200 (JObj [(''challenge'', JStr (ae_challenge env))]) [],
               w\<lparr>ac_challenges := put (''reg:'' @ usr_id user) (ae_challenge env) (ae_now env) (ac_challenges w)\<rparr>)))"

definition store_passkey :: "AccountEnv \<Rightarrow> User \<Rightarrow> string \<Rightarrow> Credential \<Rightarrow> AccountWorld \<Rightarrow> AccountWorld" where
  "store_passkey env user name credential w =
    w\<lparr>ac_passkeys := ac_passkeys w @
      [(new_passkey (ae_id env ''passkey'') (ae_now env) (usr_id user) (if trim name \<noteq> [] then trim name else ''Passkey'')
          (wc_id credential) (base64url (wc_publicKey credential)))
        \<lparr>pk_counter := wc_counter credential, pk_transports := map_option texts_json (wc_transports credential)\<rparr>]\<rparr>"

definition passkey_register_verify :: "Crypto \<Rightarrow> AccountEnv \<Rightarrow> string \<Rightarrow> string \<Rightarrow> AccountWorld \<Rightarrow> reply \<times> AccountWorld" where
  "passkey_register_verify cr env name response w =
    (case get_user env w of
       None \<Rightarrow> (refuse 401 ''unauthorized'', w)
     | Some user \<Rightarrow>
         (let (challenge, cs) = take_challenge (''reg:'' @ usr_id user) (ae_now env) (ac_challenges w); w1 = w\<lparr>ac_challenges := cs\<rparr>
          in case (relyingParty cr (ae_origin env) (ae_origins env), challenge) of
               (Some (rpID, origin), Some expected) \<Rightarrow>
                 if expected = [] then (refuse 400 (''the registration request expired '' @ em_dash @ '' try again''), w1)
                 else (case ae_register env response expected origin rpID of
                    Inl e \<Rightarrow> (refuse 400 (''could not verify the passkey: '' @ e), w1)
                  | Inr None \<Rightarrow> (refuse 400 ''could not verify the passkey'', w1)
                  | Inr (Some credential) \<Rightarrow> (ok_reply, store_passkey env user name credential w1))
             | _ \<Rightarrow> (refuse 400 (''the registration request expired '' @ em_dash @ '' try again''), w1)))"

definition passkey_delete :: "AccountEnv \<Rightarrow> string \<Rightarrow> AccountWorld \<Rightarrow> reply \<times> AccountWorld" where
  "passkey_delete env passkeyId w =
    (case get_user env w of
       None \<Rightarrow> (refuse 401 ''unauthorized'', w)
     | Some user \<Rightarrow>
         (ok_reply, w\<lparr>ac_passkeys := filter (\<lambda>p. \<not> (pk_id p = passkeyId \<and> pk_userId p = usr_id user)) (ac_passkeys w)\<rparr>))"

definition passkey_list :: "AccountEnv \<Rightarrow> AccountWorld \<Rightarrow> reply" where
  "passkey_list env w =
    (case get_user env w of
       None \<Rightarrow> refuse 401 ''unauthorized''
     | Some user \<Rightarrow>
         Reply 200 (JObj [(''passkeys'', JArr (map (\<lambda>p. JObj [(''id'', JStr (pk_id p)), (''name'', JStr (pk_name p)),
           (''createdAt'', JStr (ae_iso env (pk_createdAt p))),
           (''lastUsedAt'', case pk_lastUsedAt p of Some t \<Rightarrow> JStr (ae_iso env t) | None \<Rightarrow> JNull)])
           (filter (\<lambda>p. pk_userId p = usr_id user) (ac_passkeys w))))]) [])"

definition passkey_login_options :: "Crypto \<Rightarrow> AccountEnv \<Rightarrow> AccountWorld \<Rightarrow> reply \<times> AccountWorld" where
  "passkey_login_options cr env w =
    (case relyingParty cr (ae_origin env) (ae_origins env) of
       None \<Rightarrow> (refuse 400 ''this address is not in WEB_ORIGIN'', w)
     | Some rp \<Rightarrow>
         (Reply 200 (JObj [(''challenge'', JStr (ae_challenge env))]) [SetChallenge (ae_id env ''challenge'')],
          w\<lparr>ac_challenges := put (''auth:'' @ ae_id env ''challenge'') (ae_challenge env) (ae_now env) (ac_challenges w)\<rparr>))"

definition add_cookie :: "cookie_change \<Rightarrow> reply \<times> AccountWorld \<Rightarrow> reply \<times> AccountWorld" where
  "add_cookie c r = (case r of (Reply status body cookies, w) \<Rightarrow> (Reply status body (c # cookies), w))"

definition passkey_signed_in :: "Crypto \<Rightarrow> AccountEnv \<Rightarrow> string \<Rightarrow> string \<Rightarrow> string \<Rightarrow> string \<Rightarrow> AccountWorld \<Rightarrow> reply \<times> AccountWorld" where
  "passkey_signed_in cr env response expected origin rpID w =
    (case find (\<lambda>p. pk_credentialId p = wa_id cr response) (ac_passkeys w) of
       None \<Rightarrow> (refuse 401 ''passkey not recognized'', w)
     | Some stored \<Rightarrow>
         (case ae_authenticate env response expected origin rpID stored of
            Inl e \<Rightarrow> (refuse 401 (''invalid passkey: '' @ e), w)
          | Inr None \<Rightarrow> (refuse 401 ''invalid passkey'', w)
          | Inr (Some counter) \<Rightarrow>
              (let w1 = w\<lparr>ac_passkeys := map (\<lambda>p. if pk_id p = pk_id stored then p\<lparr>pk_counter := counter, pk_lastUsedAt := Some (ae_now env)\<rparr> else p)
                     (ac_passkeys w)\<rparr>
               in case find (\<lambda>u. usr_id u = pk_userId stored) (dir_users (ac_dir w1)) of
                    None \<Rightarrow> (refuse 401 ''user not found'', w1)
                  | Some user \<Rightarrow>
                      (let (cookie, w2) = start_session env (usr_id user) w1
                       in (Reply 200 (JObj [(''user'', JObj [(''id'', JStr (usr_id user)), (''email'', JStr (usr_email user))])]) [cookie],
                           recordAuthEvent env user SignInPasskey ''/auth/passkeys/login/verify'' w2)))))"

definition passkey_login_verify :: "Crypto \<Rightarrow> AccountEnv \<Rightarrow> string \<Rightarrow> AccountWorld \<Rightarrow> reply \<times> AccountWorld" where
  "passkey_login_verify cr env response w =
    (let (challenge, cs) = (case ae_challengeCookie env of
           Some key \<Rightarrow> take_challenge (''auth:'' @ key) (ae_now env) (ac_challenges w) | None \<Rightarrow> (None, ac_challenges w));
         w1 = w\<lparr>ac_challenges := cs\<rparr>
     in add_cookie RemoveChallenge
          (case (relyingParty cr (ae_origin env) (ae_origins env), challenge) of
             (Some (rpID, origin), Some expected) \<Rightarrow>
               if expected = [] then (refuse 400 (''the sign-in request expired '' @ em_dash @ '' try again''), w1)
               else passkey_signed_in cr env response expected origin rpID w1
           | _ \<Rightarrow> (refuse 400 (''the sign-in request expired '' @ em_dash @ '' try again''), w1)))"

section \<open>Requests\<close>

datatype auth_request =
  GetSetupStatus | GetMe
| PostRegister string string "string option"
| PostLogin string string "string option"
| Post2faSetup | Post2faEnable string | Post2faDisable string string
| PostLogout
| GetPasskeys | PostPasskeyOptions | PostPasskeyVerify string string | DeletePasskey string
| PostPasskeyLoginOptions | PostPasskeyLogin string

definition account_request :: "Crypto \<Rightarrow> AccountEnv \<Rightarrow> auth_request \<Rightarrow> AccountWorld \<Rightarrow> reply \<times> AccountWorld" where
  "account_request cr env req w =
    (case req of
       GetSetupStatus \<Rightarrow> (get_setup_status w, w)
     | GetMe \<Rightarrow> (get_me env w, w)
     | PostRegister email password name \<Rightarrow> post_register env email password name w
     | PostLogin email password code' \<Rightarrow> post_login cr env email password code' w
     | Post2faSetup \<Rightarrow> post_2fa_setup env w
     | Post2faEnable code' \<Rightarrow> post_2fa_enable cr env code' w
     | Post2faDisable password code' \<Rightarrow> post_2fa_disable cr env password code' w
     | PostLogout \<Rightarrow> post_logout env w
     | GetPasskeys \<Rightarrow> (passkey_list env w, w)
     | PostPasskeyOptions \<Rightarrow> passkey_register_options cr env w
     | PostPasskeyVerify name response \<Rightarrow> passkey_register_verify cr env name response w
     | DeletePasskey passkeyId \<Rightarrow> passkey_delete env passkeyId w
     | PostPasskeyLoginOptions \<Rightarrow> passkey_login_options cr env w
     | PostPasskeyLogin response \<Rightarrow> passkey_login_verify cr env response w)"

fun account_run :: "Crypto \<Rightarrow> (AccountEnv \<times> auth_request) list \<Rightarrow> AccountWorld \<Rightarrow> AccountWorld" where
  "account_run cr [] w = w"
| "account_run cr ((env, req) # reqs) w = account_run cr reqs (snd (account_request cr env req w))"

section \<open>A lost password\<close>

definition MIN_PASSWORD_LENGTH :: nat where
  "MIN_PASSWORD_LENGTH = 8"

definition ALPHABET :: string where
  "ALPHABET = ''abcdefghijkmnopqrstuvwxyzABCDEFGHJKLMNPQRSTUVWXYZ23456789''"

text \<open>\<open>random\<close> are the results of \<open>randomInt\<close>, each below the size of the alphabet.\<close>

definition generateRecoveryPassword :: "nat list \<Rightarrow> string" where
  "generateRecoveryPassword random = map (\<lambda>i. ALPHABET ! i) (take 20 random)"

record ResetArgs =
  ra_email :: "string option"
  ra_disable2fa :: bool
  ra_password :: "string option"
  ra_error :: "string option"

fun parseResetArgs :: "string list \<Rightarrow> string option \<Rightarrow> string option \<Rightarrow> bool \<Rightarrow> ResetArgs" where
  "parseResetArgs [] newPassword email disable2fa =
    \<lparr>ra_email = email, ra_disable2fa = disable2fa, ra_password = (if str_truthy newPassword then newPassword else None), ra_error = None\<rparr>"
| "parseResetArgs (arg # argv) newPassword email disable2fa =
    (if arg = ''--disable-2fa'' then parseResetArgs argv newPassword email True
     else if starts_with arg ''--''
     then \<lparr>ra_email = email, ra_disable2fa = disable2fa, ra_password = None, ra_error = Some (''unknown option '' @ arg)\<rparr>
     else if email = None then parseResetArgs argv newPassword (Some (to_lower (trim arg))) disable2fa
     else \<lparr>ra_email = email, ra_disable2fa = disable2fa, ra_password = None, ra_error = Some ''give at most one e-mail address''\<rparr>)"

record ResetResult =
  rs_email :: string
  rs_sessionsEnded :: nat
  rs_twoFactorDisabled :: bool

definition reset_target :: "string option \<Rightarrow> User list \<Rightarrow> string + User" where
  "reset_target email all =
    (if all = [] then Inl ''there are no accounts yet: open the panel and create the first one''
     else if \<not> str_truthy email then
       (if length all > 1 then Inl (''there is more than one account; say which one: '' @ join_str '', '' (map usr_email all)) else Inr (hd all))
     else case find (\<lambda>u. to_lower (usr_email u) = the email) all of
       None \<Rightarrow> Inl (''no account with the e-mail '' @ the email)
     | Some target \<Rightarrow> Inr target)"

definition resetUserPassword ::
  "(string \<Rightarrow> string) \<Rightarrow> string option \<Rightarrow> string \<Rightarrow> bool \<Rightarrow> AccountWorld \<Rightarrow> (string + ResetResult) \<times> AccountWorld" where
  "resetUserPassword hash email password disable2fa w =
    (if length password < MIN_PASSWORD_LENGTH then (Inl ''the password must be at least 8 characters'', w)
     else case reset_target email (dir_users (ac_dir w)) of
       Inl e \<Rightarrow> (Inl e, w)
     | Inr target \<Rightarrow>
         (let w1 = update_user (usr_id target) (\<lambda>u.
                (if disable2fa then u\<lparr>usr_totpEnabled := False, usr_totpSecret := None, usr_totpRecoveryHashes := None\<rparr> else u)
                  \<lparr>usr_passwordHash := hash password\<rparr>) w;
              (ended, kept) = partition (\<lambda>s. sess_userId s = usr_id target) (dir_sessions (ac_dir w1))
          in (Inr \<lparr>rs_email = usr_email target, rs_sessionsEnded = length ended, rs_twoFactorDisabled = disable2fa\<rparr>,
              w1\<lparr>ac_dir := (ac_dir w1)\<lparr>dir_sessions := kept\<rparr>\<rparr>)))"

section \<open>What requests leave alone\<close>

named_theorems account_frame

lemma record_frame [account_frame]:
  "ac_dir (recordAuthEvent env user kind path w) = ac_dir w" "ac_passkeys (recordAuthEvent env user kind path w) = ac_passkeys w"
  "ac_challenges (recordAuthEvent env user kind path w) = ac_challenges w"
  by (simp_all add: recordAuthEvent_def split: prod.split)

lemma update_frame [account_frame]:
  "dir_sessions (ac_dir (update_user i f w)) = dir_sessions (ac_dir w)" "ac_passkeys (update_user i f w) = ac_passkeys w"
  "dir_users (ac_dir (update_user i f w)) = map (\<lambda>u. if usr_id u = i then f u else u) (dir_users (ac_dir w))"
  "dir_members (ac_dir (update_user i f w)) = dir_members (ac_dir w)"
  by (simp_all add: update_user_def set_users_def)

lemma second_factor_cases:
  "checkSecondFactor cr env user c w =
    (case totp_accepts cr env user (trim c) of
       Inl e \<Rightarrow> (Inl e, w)
     | Inr b \<Rightarrow>
         if b then (Inr True, w)
         else case recovery_hashes user of
           None \<Rightarrow> (Inl ''JSON Parse error'', w)
         | Some hashes \<Rightarrow>
             if hashRecoveryCode cr c \<in> set hashes
             then (Inr True, update_user (usr_id user)
               (\<lambda>u. u\<lparr>usr_totpRecoveryHashes := Some (texts_json (filter (\<lambda>h. h \<noteq> hashRecoveryCode cr c) hashes))\<rparr>) w)
             else (Inr False, w))"
  by (auto simp: checkSecondFactor_def Let_def split: sum.split bool.split option.split)

definition second_factor_ok :: "Crypto \<Rightarrow> AccountEnv \<Rightarrow> User \<Rightarrow> string \<Rightarrow> bool" where
  "second_factor_ok cr env user c \<longleftrightarrow>
    totp_accepts cr env user (trim c) = Inr True \<or> (\<exists>hs. recovery_hashes user = Some hs \<and> hashRecoveryCode cr c \<in> set hs)"

lemma second_factor_ok: "fst (checkSecondFactor cr env user c w) = Inr True \<Longrightarrow> second_factor_ok cr env user c"
  unfolding second_factor_cases by (auto simp: second_factor_ok_def split: sum.splits option.splits if_splits)

lemma second_factor_frame [account_frame]:
  "dir_sessions (ac_dir (snd (checkSecondFactor cr env user c w))) = dir_sessions (ac_dir w)"
  "length (dir_users (ac_dir (snd (checkSecondFactor cr env user c w)))) = length (dir_users (ac_dir w))"
  unfolding second_factor_cases by (auto simp: account_frame split: sum.splits option.splits if_splits)

lemma start_session_frame [account_frame]:
  "dir_sessions (ac_dir (snd (start_session env u w))) =
    dir_sessions (ac_dir w) @ [new_session (ae_id env ''session'') (ae_now env) u (ae_now env + SESSION_TTL_MS)]"
  "dir_users (ac_dir (snd (start_session env u w))) = dir_users (ac_dir w)"
  by (simp_all add: start_session_def createSession_def Let_def)

lemma register_team_frame [account_frame]:
  "dir_sessions (ac_dir (register_team env u name w)) = dir_sessions (ac_dir w)"
  "dir_users (ac_dir (register_team env u name w)) = dir_users (ac_dir w)"
  by (simp_all add: register_team_def createDefaultProject_def Let_def)

lemma localhost_frame:
  "createLocalhostServerIfConfigured env t w = Some w' \<Longrightarrow>
    dir_sessions (ac_dir w') = dir_sessions (ac_dir w) \<and> dir_users (ac_dir w') = dir_users (ac_dir w)"
  by (auto simp: createLocalhostServerIfConfigured_def Let_def split: if_splits option.splits)

lemma set_users_frame [account_frame]:
  "dir_sessions (ac_dir (set_users f w)) = dir_sessions (ac_dir w)" "dir_users (ac_dir (set_users f w)) = f (dir_users (ac_dir w))"
  by (simp_all add: set_users_def)

lemma signed_in_frame [account_frame]:
  "dir_sessions (ac_dir (snd (signed_in env user w))) =
    dir_sessions (ac_dir w) @ [new_session (ae_id env ''session'') (ae_now env) (usr_id user) (ae_now env + SESSION_TTL_MS)]"
  "dir_users (ac_dir (snd (signed_in env user w))) = dir_users (ac_dir w)"
  by (simp_all add: signed_in_def account_frame case_prod_beta Let_def)

section \<open>Who gets a session\<close>

text \<open>What a request has to show for a session of the user \<open>u\<close>.\<close>

definition entitled :: "Crypto \<Rightarrow> AccountEnv \<Rightarrow> auth_request \<Rightarrow> AccountWorld \<Rightarrow> string \<Rightarrow> bool" where
  "entitled cr env req w u =
    (case req of
       PostRegister email password name \<Rightarrow> dir_users (ac_dir w) = [] \<and> u = ae_id env ''user''
     | PostLogin email password code' \<Rightarrow>
         list_ex (\<lambda>user. usr_id user = u \<and> usr_email user = email \<and> cr_verify cr password (usr_passwordHash user) \<and>
           (usr_totpEnabled user \<and> str_truthy (usr_totpSecret user) \<longrightarrow>
              (case code' of Some c \<Rightarrow> second_factor_ok cr env user c | None \<Rightarrow> False))) (dir_users (ac_dir w))
     | PostPasskeyLogin response \<Rightarrow>
         list_ex (\<lambda>pk. pk_userId pk = u \<and> pk_credentialId pk = wa_id cr response \<and>
           (case (relyingParty cr (ae_origin env) (ae_origins env), ae_challengeCookie env) of
              (Some (rpID, origin), Some key) \<Rightarrow>
                (case fst (take_challenge (''auth:'' @ key) (ae_now env) (ac_challenges w)) of
                   Some expected \<Rightarrow> (case ae_authenticate env response expected origin rpID pk of Inr (Some n) \<Rightarrow> True | _ \<Rightarrow> False)
                 | None \<Rightarrow> False)
            | _ \<Rightarrow> False)) (ac_passkeys w)
     | _ \<Rightarrow> False)"

definition sessions_of :: "reply \<times> AccountWorld \<Rightarrow> Session list" where
  "sessions_of r = dir_sessions (ac_dir (snd r))"

text \<open>The sessions of \<open>r\<close> are those of \<open>w\<close>, some removed and at most a new one of a user with \<open>P\<close>.\<close>

definition only_for :: "(string \<Rightarrow> bool) \<Rightarrow> AccountEnv \<Rightarrow> AccountWorld \<Rightarrow> reply \<times> AccountWorld \<Rightarrow> bool" where
  "only_for P env w r \<longleftrightarrow> (\<forall>s \<in> set (sessions_of r). s \<in> set (dir_sessions (ac_dir w)) \<or>
    P (sess_userId s) \<and> sess_expiresAt s = ae_now env + SESSION_TTL_MS)"

lemma only_for_same: "sessions_of r = dir_sessions (ac_dir w) \<Longrightarrow> only_for P env w r"
  by (simp add: only_for_def)

lemma only_for_new:
  "sessions_of r = dir_sessions (ac_dir w) @ [new_session i (ae_now env) u (ae_now env + SESSION_TTL_MS)] \<Longrightarrow> P u \<Longrightarrow> only_for P env w r"
  by (auto simp: only_for_def new_session_def)

lemma register_sessions: "only_for (entitled cr env (PostRegister email password name) w) env w (post_register env email password name w)"
proof (cases "dir_users (ac_dir w) = []")
  case True
  let ?user = "(new_user (ae_id env ''user'') (ae_now env) email (ae_hash env password))\<lparr>usr_name := name\<rparr>"
  let ?w1 = "register_team env (usr_id ?user) name (set_users (\<lambda>us. us @ [?user]) w)"
  show ?thesis
  proof (cases "createLocalhostServerIfConfigured env (ae_id env ''team'') ?w1")
    case None
    with True show ?thesis
      by (intro only_for_same) (simp add: post_register_def hasAnyUser_def Let_def sessions_of_def account_frame)
  next
    case (Some w2)
    with True localhost_frame [OF Some] show ?thesis
      by (intro only_for_new [where i = "ae_id env ''session''" and u = "ae_id env ''user''"])
        (simp_all add: post_register_def hasAnyUser_def Let_def sessions_of_def account_frame case_prod_beta entitled_def new_user_def)
  qed
qed (auto simp: post_register_def hasAnyUser_def sessions_of_def intro!: only_for_same)

lemma login_sessions: "only_for (entitled cr env (PostLogin email password code') w) env w (post_login cr env email password code' w)"
proof (cases "find (\<lambda>u. usr_email u = email) (dir_users (ac_dir w))")
  case (Some user)
  then have user: "user \<in> set (dir_users (ac_dir w))" "usr_email user = email" by (auto dest: find_SomeD)
  show ?thesis
  proof (cases "verifyPasswordOrDummy cr password (Some (usr_passwordHash user))")
    case True
    then have pw: "cr_verify cr password (usr_passwordHash user)" by (simp add: verifyPasswordOrDummy_def split: if_splits)
    show ?thesis
    proof (cases "usr_totpEnabled user \<and> str_truthy (usr_totpSecret user)")
      case two: True
      show ?thesis
      proof (cases "fst (checkSecondFactor cr env user (the code') w) = Inr True \<and> str_truthy code'")
        case ok: True
        then have factor: "second_factor_ok cr env user (the code')" "\<exists>c. code' = Some c"
          using second_factor_ok by (auto simp: str_truthy_def split: option.splits)
        obtain w1 where w1: "checkSecondFactor cr env user (the code') w = (Inr True, w1)" using ok by (metis prod.collapse)
        have frame: "dir_sessions (ac_dir w1) = dir_sessions (ac_dir w)"
          using second_factor_frame(1) [of cr env user "the code'" w] w1 by simp
        from factor(2) obtain c where "code' = Some c" by blast
        with ok two user pw factor(1) w1 frame Some True show ?thesis
          by (intro only_for_new [where i = "ae_id env ''session''" and u = "usr_id user"])
            (auto simp: post_login_def sessions_of_def account_frame entitled_def list_ex_iff)
      next
        case False
        obtain b w1 where w1: "checkSecondFactor cr env user (the code') w = (b, w1)" by force
        then have "dir_sessions (ac_dir w1) = dir_sessions (ac_dir w)"
          using second_factor_frame(1) [of cr env user "the code'" w] by simp
        with w1 False two Some True show ?thesis
          by (intro only_for_same) (auto simp: post_login_def sessions_of_def account_frame split: sum.split bool.split)
      qed
    next
      case False
      with Some True user pw show ?thesis
        by (intro only_for_new [where i = "ae_id env ''session''" and u = "usr_id user"])
          (auto simp: post_login_def sessions_of_def account_frame entitled_def list_ex_iff)
    qed
  qed (use Some in \<open>auto simp: post_login_def sessions_of_def account_frame intro!: only_for_same\<close>)
qed (auto simp: post_login_def sessions_of_def intro!: only_for_same)

lemma passkey_sessions: "only_for (entitled cr env (PostPasskeyLogin response) w) env w (passkey_login_verify cr env response w)"
proof -
  have cookie: "snd (add_cookie c r) = snd r" for c r
    by (simp add: add_cookie_def split: prod.split reply.split)
  let ?ch = "case ae_challengeCookie env of Some key \<Rightarrow> take_challenge (''auth:'' @ key) (ae_now env) (ac_challenges w) | None \<Rightarrow> (None, ac_challenges w)"
  define w1 where "w1 = w\<lparr>ac_challenges := snd ?ch\<rparr>"
  show ?thesis
  proof (cases "\<exists>rpID origin expected stored n user. relyingParty cr (ae_origin env) (ae_origins env) = Some (rpID, origin) \<and> fst ?ch = Some expected \<and>
      find (\<lambda>p. pk_credentialId p = wa_id cr response) (ac_passkeys w) = Some stored \<and>
      ae_authenticate env response expected origin rpID stored = Inr (Some n) \<and> expected \<noteq> [] \<and>
      find (\<lambda>u. usr_id u = pk_userId stored) (dir_users (ac_dir w)) = Some user")
    case True
    then obtain rpID origin expected stored n user where ok: "relyingParty cr (ae_origin env) (ae_origins env) = Some (rpID, origin)"
      "fst ?ch = Some expected" "find (\<lambda>p. pk_credentialId p = wa_id cr response) (ac_passkeys w) = Some stored"
      "ae_authenticate env response expected origin rpID stored = Inr (Some n)" "expected \<noteq> []"
      "find (\<lambda>u. usr_id u = pk_userId stored) (dir_users (ac_dir w)) = Some user" by blast
    then obtain key where key: "ae_challengeCookie env = Some key" by (cases "ae_challengeCookie env") auto
    have stored: "stored \<in> set (ac_passkeys w)" "pk_credentialId stored = wa_id cr response" using find_SomeD [OF ok(3)] by auto
    have user: "usr_id user = pk_userId stored" using find_SomeD [OF ok(6)] by simp
    show ?thesis
    proof (rule only_for_new [where i = "ae_id env ''session''" and u = "usr_id user"])
      show "sessions_of (passkey_login_verify cr env response w) =
          dir_sessions (ac_dir w) @ [new_session (ae_id env ''session'') (ae_now env) (usr_id user) (ae_now env + SESSION_TTL_MS)]"
        using ok key by (simp add: passkey_login_verify_def cookie case_prod_beta Let_def passkey_signed_in_def sessions_of_def account_frame)
      show "entitled cr env (PostPasskeyLogin response) w (usr_id user)"
        using ok key stored user by (auto simp: entitled_def list_ex_iff intro!: bexI [of _ stored])
    qed
  next
    case False
    then have "sessions_of (passkey_login_verify cr env response w) = dir_sessions (ac_dir w)"
      by (auto simp: passkey_login_verify_def cookie case_prod_beta Let_def passkey_signed_in_def sessions_of_def
          split: option.split sum.split prod.split)
    then show ?thesis by (rule only_for_same)
  qed
qed

lemma other_sessions:
  "only_for P env w (post_2fa_setup env w)" "only_for P env w (post_2fa_enable cr env c w)" "only_for P env w (post_2fa_disable cr env password c w)"
  "only_for P env w (post_logout env w)" "only_for P env w (passkey_register_options cr env w)" "only_for P env w (passkey_register_verify cr env name response w)"
  "only_for P env w (passkey_delete env i w)" "only_for P env w (passkey_login_options cr env w)"
proof -
  show "only_for P env w (post_2fa_disable cr env password c w)"
  proof (intro only_for_same)
    have "dir_sessions (ac_dir w1) = dir_sessions (ac_dir w)" if "checkSecondFactor cr env user c w = (b, w1)" for user b w1
      using second_factor_frame(1) [of cr env user c w] that by simp
    then show "sessions_of (post_2fa_disable cr env password c w) = dir_sessions (ac_dir w)"
      by (auto simp: post_2fa_disable_def sessions_of_def account_frame split: option.split prod.split sum.split bool.split)
  qed
  show "only_for P env w (post_logout env w)"
    by (auto simp: only_for_def sessions_of_def post_logout_def Let_def destroySession_def account_frame split: option.split if_splits)
qed (auto simp: sessions_of_def account_frame Let_def case_prod_beta post_2fa_setup_def post_2fa_enable_def passkey_register_options_def
    passkey_register_verify_def store_passkey_def passkey_delete_def passkey_login_options_def
    intro!: only_for_same split: option.split sum.split bool.split)

text \<open>
  C32: a session is only created for credentials. Whatever request arrives in whatever state, every session
  afterwards was there before, or it expires thirty days later and belongs to a user who is entitled to it: the
  new user of a registration on an instance without accounts, a user whose password was given and, when the second
  factor is on, whose current authenticator code or unused recovery code was given, or the owner of a passkey that
  the library has verified for the challenge stored, unexpired, under the caller's cookie.
\<close>
theorem sessions_need_credentials:
  assumes "session \<in> set (sessions_of (account_request cr env req w))" and "session \<notin> set (dir_sessions (ac_dir w))"
  shows "entitled cr env req w (sess_userId session) \<and> sess_expiresAt session = ae_now env + SESSION_TTL_MS"
proof -
  have "only_for (entitled cr env req w) env w (account_request cr env req w)"
  proof (cases req)
    case GetSetupStatus
    then show ?thesis by (simp add: account_request_def only_for_def sessions_of_def)
  next
    case GetMe
    then show ?thesis by (simp add: account_request_def only_for_def sessions_of_def)
  next
    case GetPasskeys
    then show ?thesis by (simp add: account_request_def only_for_def sessions_of_def)
  qed (simp_all add: account_request_def register_sessions login_sessions passkey_sessions other_sessions)
  with assms show ?thesis by (auto simp: only_for_def)
qed

section \<open>One account\<close>

definition users_of :: "reply \<times> AccountWorld \<Rightarrow> User list" where
  "users_of r = dir_users (ac_dir (snd r))"

lemma passkey_users: "dir_users (ac_dir (snd (passkey_signed_in cr env response expected origin rpID w))) = dir_users (ac_dir w)"
  by (auto simp: passkey_signed_in_def case_prod_beta Let_def account_frame split: option.split sum.split)

lemma request_users:
  assumes "\<And>email password name. req \<noteq> PostRegister email password name \<or> dir_users (ac_dir w) \<noteq> []"
  shows "length (users_of (account_request cr env req w)) = length (dir_users (ac_dir w))"
proof -
  have factor: "length (dir_users (ac_dir w1)) = length (dir_users (ac_dir w))" if "checkSecondFactor cr env user c w = (b, w1)" for user c b w1
    using second_factor_frame(2) [of cr env user c w] that by simp
  have cookie: "snd (add_cookie c r) = snd r" for c r
    by (simp add: add_cookie_def split: prod.split reply.split)
  show ?thesis
  proof (cases req)
    case (PostRegister email password name)
    then show ?thesis using assms [of email password name] by (simp add: account_request_def users_of_def post_register_def hasAnyUser_def)
  next
    case (PostLogin email password code')
    then show ?thesis
      by (auto simp: account_request_def users_of_def post_login_def account_frame factor split: option.split prod.split sum.split bool.split)
  next
    case (Post2faDisable password c)
    then show ?thesis
      by (auto simp: account_request_def users_of_def post_2fa_disable_def account_frame factor split: option.split prod.split sum.split bool.split)
  next
    case (PostPasskeyLogin response)
    then show ?thesis
      by (auto simp: account_request_def users_of_def passkey_login_verify_def cookie case_prod_beta Let_def passkey_users split: option.split)
  next
    case PostLogout
    then show ?thesis
      by (auto simp: account_request_def users_of_def post_logout_def Let_def destroySession_def account_frame split: option.split)
  qed (auto simp: account_request_def users_of_def account_frame Let_def case_prod_beta post_2fa_setup_def post_2fa_enable_def
      passkey_register_options_def passkey_register_verify_def store_passkey_def passkey_delete_def passkey_login_options_def
      split: option.split sum.split bool.split)
qed

lemma register_users:
  "dir_users (ac_dir w) = [] \<Longrightarrow> length (users_of (post_register env email password name w)) = 1"
  using localhost_frame
  by (auto simp: users_of_def post_register_def hasAnyUser_def Let_def case_prod_beta account_frame split: option.split)

lemma one_account_step:
  "length (dir_users (ac_dir w)) \<le> 1 \<Longrightarrow> length (users_of (account_request cr env req w)) \<le> 1"
proof (cases "\<exists>email password name. req = PostRegister email password name \<and> dir_users (ac_dir w) = []")
  case True
  then show ?thesis using register_users by (auto simp: account_request_def)
next
  case False
  assume "length (dir_users (ac_dir w)) \<le> 1"
  with request_users [of req w cr env] False show ?thesis by auto
qed

lemma one_account_run:
  "length (dir_users (ac_dir w)) \<le> 1 \<Longrightarrow> length (dir_users (ac_dir (account_run cr reqs w))) \<le> 1"
proof (induction cr reqs w rule: account_run.induct)
  case (2 cr env req reqs w)
  then show ?case using one_account_step [of w cr env req] by (simp add: users_of_def)
qed simp

text \<open>
  An instance has at most one account. However many requests arrive at an instance without accounts, at most
  one account exists afterwards, and while one exists every registration is refused.
\<close>
theorem single_account:
  assumes "dir_users (ac_dir w) = []"
  shows "length (dir_users (ac_dir (account_run cr reqs w))) \<le> 1 \<and>
    (dir_users (ac_dir (account_run cr reqs w)) \<noteq> [] \<longrightarrow>
      \<not> accepted (fst (account_request cr env (PostRegister email password name) (account_run cr reqs w))))"
  using one_account_run [of w cr reqs] assms by (simp add: account_request_def post_register_def hasAnyUser_def refuse_def)

section \<open>Recovery codes\<close>

lemma read_texts_inverse:
  "xs \<noteq> [] \<Longrightarrow> length xs \<le> n \<Longrightarrow> read_texts n (join_str '','' (map json_str xs) @ '']'') = Some xs"
proof (induction xs arbitrary: n)
  case (Cons x xs)
  then obtain m where n: "n = Suc m" by (cases n) auto
  show ?case
  proof (cases "xs = []")
    case True
    then show ?thesis using read_json_str_inverse [of x "'']''"] by (simp add: n)
  next
    case False
    have "join_str '','' (map json_str (x # xs)) @ '']'' = json_str x @ CHR '','' # (join_str '','' (map json_str xs) @ '']'')"
      using False by (simp add: join_str_Cons)
    then show ?thesis using Cons.IH [of m] Cons.prems False by (simp add: n read_json_str_inverse)
  qed
qed simp

lemma json_texts_length: "length xs \<le> length (join_str '','' (map json_str xs))"
  by (induction xs rule: induct_list012) (simp_all add: json_str_def)

lemma parse_texts_inverse: "parse_texts (texts_json xs) = Some xs"
proof (cases "xs = []")
  case False
  have compact: "texts_json xs = CHR ''['' # join_str '','' (map json_str xs) @ '']''"
    by (simp add: texts_json_def comp_def)
  have "texts_json xs \<noteq> ''[]''" using json_texts_length [of xs] False by (cases "join_str '','' (map json_str xs)") (auto simp: compact)
  moreover have "read_texts (length (texts_json xs)) (tl (texts_json xs)) = Some xs"
    unfolding compact list.sel using False json_texts_length [of xs] by (intro read_texts_inverse) simp_all
  moreover have "texts_json xs \<noteq> []" "hd (texts_json xs) = CHR ''[''" by (simp_all add: compact)
  ultimately show ?thesis by (simp only: parse_texts_def if_False simp_thms if_True)
qed (simp add: parse_texts_def texts_json_def)

definition left_hashes :: "AccountWorld \<Rightarrow> string set" where
  "left_hashes w = (\<Union>u \<in> set (dir_users (ac_dir w)). set (default [] (recovery_hashes u)))"

lemma left_update:
  assumes "\<And>u. u \<in> set (dir_users (ac_dir w)) \<Longrightarrow> usr_id u = i \<Longrightarrow> set (default [] (recovery_hashes (f u))) \<subseteq> set (default [] (recovery_hashes u)) - X"
    and "\<And>u. u \<in> set (dir_users (ac_dir w)) \<Longrightarrow> usr_id u \<noteq> i \<Longrightarrow> set (default [] (recovery_hashes u)) \<inter> X = {}"
  shows "left_hashes (update_user i f w) \<subseteq> left_hashes w - X"
  using assms by (fastforce simp: left_hashes_def account_frame)

lemma get_user_in: "get_user env w = Some user \<Longrightarrow> user \<in> set (dir_users (ac_dir w))"
  by (auto simp: get_user_def findSessionUser_def split: if_splits option.splits dest: find_SomeD)

lemma one_user: "length us \<le> 1 \<Longrightarrow> u \<in> set us \<Longrightarrow> v \<in> set us \<Longrightarrow> u = v"
  by (cases us) auto

lemma second_factor_left:
  assumes "length (dir_users (ac_dir w)) \<le> 1" and "user \<in> set (dir_users (ac_dir w))" and "checkSecondFactor cr env user c w = (b, w1)"
  shows "left_hashes w1 \<subseteq> left_hashes w"
    and "b = Inr True \<Longrightarrow> totp_accepts cr env user (trim c) = Inr False \<Longrightarrow> hashRecoveryCode cr c \<in> left_hashes w \<and> hashRecoveryCode cr c \<notin> left_hashes w1"
proof -
  let ?h = "hashRecoveryCode cr c"
  have used: "left_hashes (update_user (usr_id user) (\<lambda>u. u\<lparr>usr_totpRecoveryHashes := Some (texts_json (filter (\<lambda>h. h \<noteq> ?h) hashes))\<rparr>) w)
      \<subseteq> left_hashes w - {?h}" if "recovery_hashes user = Some hashes" for hashes
  proof (rule left_update)
    fix u assume "u \<in> set (dir_users (ac_dir w))"
    then have "u = user" using one_user [OF assms(1)] assms(2) by blast
    then show "set (default [] (recovery_hashes (u\<lparr>usr_totpRecoveryHashes := Some (texts_json (filter (\<lambda>h. h \<noteq> ?h) hashes))\<rparr>))) \<subseteq>
        set (default [] (recovery_hashes u)) - {?h}"
      using that by (auto simp: recovery_hashes_def str_truthy_def parse_texts_inverse default_def)
  next
    fix u assume "u \<in> set (dir_users (ac_dir w))" "usr_id u \<noteq> usr_id user"
    then show "set (default [] (recovery_hashes u)) \<inter> {?h} = {}" using one_user [OF assms(1)] assms(2) by blast
  qed
  let ?spent = "\<lambda>hashes. update_user (usr_id user) (\<lambda>u. u\<lparr>usr_totpRecoveryHashes := Some (texts_json (filter (\<lambda>h. h \<noteq> ?h) hashes))\<rparr>) w"
  have cases: "w1 = w \<and> (b = Inr True \<longrightarrow> totp_accepts cr env user (trim c) = Inr True) \<or>
      (\<exists>hashes. recovery_hashes user = Some hashes \<and> ?h \<in> set hashes \<and> w1 = ?spent hashes)"
    using assms(3) unfolding second_factor_cases by (auto split: sum.splits option.splits if_splits)
  show "left_hashes w1 \<subseteq> left_hashes w"
    using cases
  proof (elim disjE exE conjE)
    fix hashes assume "recovery_hashes user = Some hashes" "w1 = ?spent hashes"
    then show ?thesis using used [of hashes] by blast
  qed simp
  assume "b = Inr True" "totp_accepts cr env user (trim c) = Inr False"
  then obtain hashes where hashes: "recovery_hashes user = Some hashes" "?h \<in> set hashes" "w1 = ?spent hashes" using cases by auto
  then have "?h \<in> left_hashes w" unfolding left_hashes_def using assms(2) by (intro UN_I [of user]) (simp_all add: default_def)
  with used [OF hashes(1)] hashes(3) show "?h \<in> left_hashes w \<and> ?h \<notin> left_hashes w1" by blast
qed

lemma left_same: "dir_users (ac_dir w1) = dir_users (ac_dir w) \<Longrightarrow> left_hashes w1 = left_hashes w"
  by (simp add: left_hashes_def)

lemma left_update_sub:
  assumes "\<And>u. set (default [] (recovery_hashes (f u))) \<subseteq> set (default [] (recovery_hashes u))"
  shows "left_hashes (update_user i f w) \<subseteq> left_hashes w"
  using left_update [of w i f "{}"] assms by auto

lemma request_left:
  assumes "length (dir_users (ac_dir w)) \<le> 1" and "\<And>c. req \<noteq> Post2faEnable c"
  shows "left_hashes (snd (account_request cr env req w)) \<subseteq> left_hashes w"
proof -
  have factor: "left_hashes w1 \<subseteq> left_hashes w"
    if "user \<in> set (dir_users (ac_dir w))" "checkSecondFactor cr env user c w = (b, w1)" for user c b w1
    using second_factor_left(1) [OF assms(1) that] .
  have cookie: "snd (add_cookie c r) = snd r" for c r
    by (simp add: add_cookie_def split: prod.split reply.split)
  have recorded: "left_hashes (recordAuthEvent env user kind path v) = left_hashes v" for user kind path v
    by (rule left_same) (simp add: account_frame)
  have signed: "left_hashes (snd (signed_in env user v)) = left_hashes v" for user v
    by (rule left_same) (simp add: account_frame)
  show ?thesis
  proof (cases req)
    case (PostRegister email password name)
    show ?thesis
    proof (cases "dir_users (ac_dir w) = []")
      case True
      have "left_hashes (snd (post_register env email password name w)) = {}"
        using True localhost_frame
        by (auto simp: left_hashes_def post_register_def hasAnyUser_def Let_def case_prod_beta account_frame recovery_hashes_def new_user_def
            str_truthy_def default_def split: option.split)
      with PostRegister show ?thesis by (simp add: account_request_def)
    qed (simp add: PostRegister account_request_def post_register_def hasAnyUser_def)
  next
    case (PostLogin email password code')
    show ?thesis
    proof (cases "find (\<lambda>u. usr_email u = email) (dir_users (ac_dir w))")
      case None
      with PostLogin show ?thesis by (simp add: account_request_def post_login_def)
    next
      case (Some user)
      then have "user \<in> set (dir_users (ac_dir w))" by (auto dest: find_SomeD)
      then have "left_hashes w1 \<subseteq> left_hashes w" if "checkSecondFactor cr env user c w = (b, w1)" for c b w1
        using factor that by blast
      with Some PostLogin show ?thesis
        by (auto simp: account_request_def post_login_def recorded signed split: prod.splits sum.splits bool.splits dest!: subsetD)
    qed
  next
    case (Post2faDisable password c)
    show ?thesis
    proof (cases "get_user env w")
      case None
      with Post2faDisable show ?thesis by (simp add: account_request_def post_2fa_disable_def)
    next
      case (Some user)
      have off: "left_hashes (update_user i (\<lambda>u. u\<lparr>usr_totpEnabled := False, usr_totpSecret := None, usr_totpRecoveryHashes := None\<rparr>) v)
          \<subseteq> left_hashes v" for i v
        by (rule left_update_sub) (simp add: recovery_hashes_def str_truthy_def default_def)
      obtain b w1 where w1: "checkSecondFactor cr env user c w = (b, w1)" by force
      let ?w2 = "update_user (usr_id user) (\<lambda>u. u\<lparr>usr_totpEnabled := False, usr_totpSecret := None, usr_totpRecoveryHashes := None\<rparr>) w1"
      have "snd (account_request cr env req w) \<in> {w, w1, ?w2}"
        using Some Post2faDisable w1 by (simp add: account_request_def post_2fa_disable_def split: sum.split bool.split)
      then show ?thesis
        using factor [OF get_user_in [OF Some] w1] subset_trans [OF off [of "usr_id user" w1] factor [OF get_user_in [OF Some] w1]]
        by (elim insertE) simp_all
    qed
  next
    case (PostPasskeyLogin response)
    have "dir_users (ac_dir (snd (passkey_login_verify cr env response w))) = dir_users (ac_dir w)"
      by (auto simp: passkey_login_verify_def cookie case_prod_beta Let_def passkey_users split: option.split)
    from left_same [OF this] show ?thesis by (simp add: PostPasskeyLogin account_request_def)
  next
    case Post2faSetup
    have "left_hashes (update_user i (\<lambda>u. u\<lparr>usr_totpSecret := v\<rparr>) w) \<subseteq> left_hashes w" for i v
      by (rule left_update_sub) (simp add: recovery_hashes_def)
    with Post2faSetup show ?thesis by (simp add: account_request_def post_2fa_setup_def Let_def split: option.split)
  next
    case PostLogout
    have "dir_users (ac_dir (snd (post_logout env w))) = dir_users (ac_dir w)"
      by (auto simp: post_logout_def Let_def destroySession_def account_frame split: option.split)
    from left_same [OF this] show ?thesis by (simp add: PostLogout account_request_def)
  next
    case PostPasskeyOptions
    have "dir_users (ac_dir (snd (passkey_register_options cr env w))) = dir_users (ac_dir w)"
      by (auto simp: passkey_register_options_def split: option.split)
    from left_same [OF this] show ?thesis by (simp add: PostPasskeyOptions account_request_def)
  next
    case (PostPasskeyVerify name response)
    have "dir_users (ac_dir (snd (passkey_register_verify cr env name response w))) = dir_users (ac_dir w)"
      by (auto simp: passkey_register_verify_def store_passkey_def case_prod_beta Let_def split: option.split sum.split)
    from left_same [OF this] show ?thesis by (simp add: PostPasskeyVerify account_request_def)
  next
    case (DeletePasskey i)
    have "dir_users (ac_dir (snd (passkey_delete env i w))) = dir_users (ac_dir w)"
      by (auto simp: passkey_delete_def split: option.split)
    from left_same [OF this] show ?thesis by (simp add: DeletePasskey account_request_def)
  next
    case PostPasskeyLoginOptions
    have "dir_users (ac_dir (snd (passkey_login_options cr env w))) = dir_users (ac_dir w)"
      by (auto simp: passkey_login_options_def split: option.split)
    from left_same [OF this] show ?thesis by (simp add: PostPasskeyLoginOptions account_request_def)
  qed (use assms(2) in \<open>simp_all add: account_request_def\<close>)
qed

lemma run_left:
  "length (dir_users (ac_dir w)) \<le> 1 \<Longrightarrow> (\<And>env c. (env, Post2faEnable c) \<notin> set reqs) \<Longrightarrow>
    left_hashes (account_run cr reqs w) \<subseteq> left_hashes w"
proof (induction cr reqs w rule: account_run.induct)
  case (2 cr env req reqs w)
  have "left_hashes (snd (account_request cr env req w)) \<subseteq> left_hashes w"
    using 2(2,3) by (intro request_left) auto
  moreover have "left_hashes (account_run cr reqs (snd (account_request cr env req w))) \<subseteq> left_hashes (snd (account_request cr env req w))"
    using 2(2,3) one_account_step [OF 2(2), of cr env req] by (intro 2(1)) (auto simp: users_of_def)
  ultimately show ?case by simp
qed simp

text \<open>
  C33: a recovery code lets its owner in once. When a sign-in has been accepted with a code that was no current
  authenticator code, then after any further requests that do not switch the second factor on again, no sign-in with the
  same code is accepted, as long as the second factor is still on and the code is still no authenticator code.
\<close>
theorem recovery_code_once:
  assumes "length (dir_users (ac_dir w)) \<le> 1" and "post_login cr env email password (Some c) w = (r, w1)" and "accepted r"
    and "\<forall>u \<in> set (dir_users (ac_dir w)). usr_totpEnabled u \<and> str_truthy (usr_totpSecret u) \<and> totp_accepts cr env u (trim c) = Inr False"
    and "\<And>e c. (e, Post2faEnable c) \<notin> set reqs"
    and "\<forall>u \<in> set (dir_users (ac_dir (account_run cr reqs w1))).
      usr_totpEnabled u \<and> str_truthy (usr_totpSecret u) \<and> totp_accepts cr env' u (trim c) = Inr False"
  shows "\<not> accepted (fst (post_login cr env' email' password' (Some c) (account_run cr reqs w1)))"
proof -
  have refusals: "\<not> accepted (refuse 401 m)" "\<not> accepted (refuse_code 401 m k)" "\<not> accepted (failed m)" for m k
    by (simp_all add: refuse_def refuse_code_def failed_def)
  obtain user where user: "find (\<lambda>u. usr_email u = email) (dir_users (ac_dir w)) = Some user"
    using assms(2,3) refusals by (cases "find (\<lambda>u. usr_email u = email) (dir_users (ac_dir w))") (auto simp: post_login_def)
  then have mem: "user \<in> set (dir_users (ac_dir w))" by (auto dest: find_SomeD)
  obtain b w0 where w0: "checkSecondFactor cr env user c w = (b, w0)" by force
  have on: "usr_totpEnabled user" "str_truthy (usr_totpSecret user)" "totp_accepts cr env user (trim c) = Inr False"
    using assms(4) mem by auto
  have "b = Inr True \<and> w1 = snd (signed_in env user w0)"
    using assms(2,3) user on(1,2) w0 refusals
    by (auto simp: post_login_def str_truthy_def split: if_splits sum.splits bool.splits)
  then have "hashRecoveryCode cr c \<notin> left_hashes w1"
    using second_factor_left(2) [OF assms(1) mem w0 _ on(3)] left_same [of w1 w0] by (simp add: account_frame)
  moreover have "length (dir_users (ac_dir w1)) \<le> 1"
    using one_account_step [OF assms(1), of cr env "PostLogin email password (Some c)"] assms(2) by (simp add: users_of_def account_request_def)
  ultimately have gone: "hashRecoveryCode cr c \<notin> left_hashes (account_run cr reqs w1)"
    using run_left [of w1 reqs cr] assms(5) by blast
  show ?thesis
  proof (cases "find (\<lambda>u. usr_email u = email') (dir_users (ac_dir (account_run cr reqs w1)))")
    case None
    then show ?thesis by (simp add: post_login_def refusals)
  next
    case (Some u)
    then have u: "u \<in> set (dir_users (ac_dir (account_run cr reqs w1)))" by (auto dest: find_SomeD)
    have "fst (checkSecondFactor cr env' u c (account_run cr reqs w1)) \<noteq> Inr True"
      using gone u assms(6) unfolding second_factor_cases
      by (auto simp: left_hashes_def default_def split: option.splits)
    with Some u assms(6) show ?thesis
      by (auto simp: post_login_def refusals split: prod.split sum.split bool.split)
  qed
qed

section \<open>After a reset\<close>

text \<open>
  A reset of the password lets its owner back in and everybody else out. After a reset that also turns the second
  factor off, no stored session belongs to the account, and a sign-in with its address and the new password,
  and no code, is accepted.
\<close>
theorem reset_recovers_account:
  assumes "resetUserPassword hash email password True w = (Inr result, w1)"
    and "distinct (map usr_id (dir_users (ac_dir w)))" and "distinct (map usr_email (dir_users (ac_dir w)))"
    and "cr_verify cr password (hash password)" and "hash password \<noteq> []"
  shows "\<exists>user \<in> set (dir_users (ac_dir w1)). usr_email user = rs_email result \<and>
    list_all (\<lambda>s. sess_userId s \<noteq> usr_id user) (dir_sessions (ac_dir w1)) \<and>
    accepted (fst (post_login cr env (rs_email result) password None w1))"
proof -
  obtain target where target: "reset_target email (dir_users (ac_dir w)) = Inr target"
    using assms(1) by (auto simp: resetUserPassword_def Let_def split: if_splits sum.splits)
  then have mem: "target \<in> set (dir_users (ac_dir w))"
    by (auto simp: reset_target_def split: if_splits option.splits dest: find_SomeD)
  let ?f = "\<lambda>u. u\<lparr>usr_totpEnabled := False, usr_totpSecret := None, usr_totpRecoveryHashes := None, usr_passwordHash := hash password\<rparr>"
  have users: "dir_users (ac_dir w1) = map (\<lambda>u. if usr_id u = usr_id target then ?f u else u) (dir_users (ac_dir w))"
    and sessions: "list_all (\<lambda>s. sess_userId s \<noteq> usr_id target) (dir_sessions (ac_dir w1))" and result: "rs_email result = usr_email target"
    using assms(1) target by (auto simp: resetUserPassword_def Let_def account_frame list_all_iff split: if_splits)
  have found: "find (\<lambda>u. usr_email u = usr_email target) (map (\<lambda>u. if usr_id u = usr_id target then ?f u else u) us) = Some (?f target)"
    if "target \<in> set us" "distinct (map usr_id us)" "distinct (map usr_email us)" for us
    using that by (induction us) (auto simp: image_iff)
  have "accepted (fst (post_login cr env (usr_email target) password None w1))"
    using found [OF mem assms(2,3)] assms(4,5)
    by (simp add: post_login_def users verifyPasswordOrDummy_def str_truthy_def signed_in_def case_prod_beta Let_def)
  moreover have "?f target \<in> set (dir_users (ac_dir w1))" using mem by (force simp: users)
  ultimately show ?thesis using sessions result by (intro bexI [of _ "?f target"]) simp_all
qed

section \<open>Examples\<close>

definition demo_crypto :: Crypto where
  "demo_crypto = \<lparr>cr_hmacSha1 = demo_hmac, cr_sha256 = (\<lambda>s. s), cr_verify = (\<lambda>p h. h = ''h:'' @ p), wa_hostname = Some, wa_id = (\<lambda>r. r)\<rparr>"

definition demo_request :: "int \<Rightarrow> AccountEnv" where
  "demo_request now =
    \<lparr>ae_now = now, ae_id = (\<lambda>kind. kind @ ''1''), ae_hash = (\<lambda>p. ''h:'' @ p), ae_secret = [1, 2, 3], ae_codes = [], ae_iso = (\<lambda>t. []),
     ae_ip = ''10.0.0.9'', ae_origin = None, ae_webOrigin = None, ae_origins = [], ae_session = None, ae_challengeCookie = None,
     ae_challenge = ''c'', ae_register = (\<lambda>r c o' h. Inr None), ae_authenticate = (\<lambda>r c o' h p. Inr None),
     ae_localKey = None, ae_localHost = None, ae_localPort = None, ae_localUser = None\<rparr>"

definition no_accounts :: AccountWorld where
  "no_accounts =
    \<lparr>ac_dir = \<lparr>dir_users = [], dir_sessions = [], dir_teams = [], dir_members = [], dir_projects = [], dir_environments = [], dir_tokens = [],
       dir_servers = [], dir_services = [], dir_applications = [], dir_databases = [], dir_deployments = [], dir_schedules = [],
       dir_storages = [], dir_channels = [], dir_tasks = []\<rparr>,
     ac_passkeys = [], ac_challenges = (\<lambda>k. None), ac_seen = [], ac_audit = [], ac_checks = []\<rparr>"

definition ana :: User where
  "ana = (new_user ''u1'' 0 ''ana@example.com'' ''h:password'')
     \<lparr>usr_totpEnabled := True, usr_totpSecret := Some ''AEBAG'', usr_totpRecoveryHashes := Some (texts_json [''0a1b2c3d4e''])\<rparr>"

definition one_account :: AccountWorld where
  "one_account = set_users (\<lambda>us. [ana]) no_accounts"

lemmas demo_defs = demo_crypto_def demo_request_def no_accounts_def ana_def one_account_def set_users_def new_user_def

lemma ana_recovery: "totp_accepts demo_crypto (demo_request t) u ''0a1b2c3d4e'' = Inr False"
  by (simp add: totp_accepts_def verifyTotp_def six_digits_def split: option.split)

lemma trim_code: "trim ''0a1b2c3d4e'' = ''0a1b2c3d4e''" "to_lower ''0a1b2c3d4e'' = ''0a1b2c3d4e''"
  by code_simp+

lemma ana_factor:
  "checkSecondFactor demo_crypto (demo_request t) ana ''0a1b2c3d4e'' one_account =
    (Inr True, update_user ''u1'' (\<lambda>u. u\<lparr>usr_totpRecoveryHashes := Some (texts_json [])\<rparr>) one_account)"
proof -
  have "recovery_hashes ana = Some [''0a1b2c3d4e'']"
    unfolding recovery_hashes_def by (simp add: ana_def new_user_def parse_texts_inverse str_truthy_def) (simp add: texts_json_def)
  then show ?thesis
    unfolding second_factor_cases trim_code ana_recovery
    by (simp add: hashRecoveryCode_def trim_code demo_crypto_def) (simp add: ana_def new_user_def)
qed

lemma ana_signs_in:
  "accepted (fst (post_login demo_crypto (demo_request t) ''ana@example.com'' ''password'' (Some ''0a1b2c3d4e'') one_account))"
  using ana_factor [of t]
  by (simp add: post_login_def one_account_def set_users_def verifyPasswordOrDummy_def str_truthy_def signed_in_def case_prod_beta Let_def)
    (simp add: ana_def new_user_def demo_crypto_def no_accounts_def)

theorem sessions_need_credentials_witness:
  "entitled demo_crypto (demo_request 5) (PostRegister ''ana@example.com'' ''password'' None) no_accounts ''user1''"
proof -
  let ?req = "PostRegister ''ana@example.com'' ''password'' None" and ?s = "new_session ''session1'' 5 ''user1'' (5 + SESSION_TTL_MS)"
  have "?s \<in> set (sessions_of (account_request demo_crypto (demo_request 5) ?req no_accounts))"
    by (simp add: sessions_of_def account_request_def post_register_def hasAnyUser_def no_accounts_def demo_request_def Let_def
        createLocalhostServerIfConfigured_def str_truthy_def case_prod_beta account_frame new_user_def)
  moreover have "?s \<notin> set (dir_sessions (ac_dir no_accounts))" by (simp add: no_accounts_def)
  ultimately have "entitled demo_crypto (demo_request 5) ?req no_accounts (sess_userId ?s)"
    using sessions_need_credentials by blast
  then show ?thesis by (simp add: new_session_def)
qed

theorem single_account_witness:
  "length (dir_users (ac_dir (account_run demo_crypto [(demo_request 5, PostRegister ''a@b.c'' ''password'' None),
     (demo_request 6, PostRegister ''d@e.f'' ''password'' None)] no_accounts))) \<le> 1"
proof -
  have "dir_users (ac_dir no_accounts) = []" by (simp add: no_accounts_def)
  from single_account [OF this] show ?thesis by blast
qed

theorem recovery_code_once_witness:
  "\<not> accepted (fst (post_login demo_crypto (demo_request 9) ''ana@example.com'' ''password'' (Some ''0a1b2c3d4e'')
     (snd (post_login demo_crypto (demo_request 5) ''ana@example.com'' ''password'' (Some ''0a1b2c3d4e'') one_account))))"
proof -
  let ?login = "post_login demo_crypto (demo_request 5) ''ana@example.com'' ''password'' (Some ''0a1b2c3d4e'') one_account"
  have users: "dir_users (ac_dir one_account) = [ana]" by (simp add: one_account_def account_frame)
  have on: "usr_totpEnabled ana" "str_truthy (usr_totpSecret ana)" by (simp_all add: ana_def str_truthy_def)
  have after: "dir_users (ac_dir (snd ?login)) = [ana\<lparr>usr_totpRecoveryHashes := Some (texts_json [])\<rparr>]"
    using ana_factor [of 5] users on
    by (simp add: post_login_def verifyPasswordOrDummy_def str_truthy_def account_frame) (simp add: ana_def new_user_def demo_crypto_def)
  have "\<not> accepted (fst (post_login demo_crypto (demo_request 9) ''ana@example.com'' ''password'' (Some ''0a1b2c3d4e'')
      (account_run demo_crypto [] (snd ?login))))"
  proof (rule recovery_code_once [where r = "fst ?login" and w = one_account and env = "demo_request 5"
        and email = "''ana@example.com''" and password = "''password''"])
    show "length (dir_users (ac_dir one_account)) \<le> 1" by (simp add: users)
    show "?login = (fst ?login, snd ?login)" by simp
    show "accepted (fst ?login)" by (rule ana_signs_in)
    show "\<forall>u \<in> set (dir_users (ac_dir one_account)). usr_totpEnabled u \<and> str_truthy (usr_totpSecret u) \<and>
        totp_accepts demo_crypto (demo_request 5) u (trim ''0a1b2c3d4e'') = Inr False"
      using on by (simp add: users trim_code ana_recovery)
    show "\<forall>u \<in> set (dir_users (ac_dir (account_run demo_crypto [] (snd ?login)))). usr_totpEnabled u \<and> str_truthy (usr_totpSecret u) \<and>
        totp_accepts demo_crypto (demo_request 9) u (trim ''0a1b2c3d4e'') = Inr False"
      using on by (simp add: after trim_code ana_recovery)
  qed simp
  then show ?thesis by simp
qed

theorem reset_recovers_account_witness:
  "let (result, w) = resetUserPassword (\<lambda>p. ''h:'' @ p) (Some ''ana@example.com'') ''new password'' True one_account
   in case result of Inr rs \<Rightarrow> accepted (fst (post_login demo_crypto (demo_request 7) (rs_email rs) ''new password'' None w)) | Inl e \<Rightarrow> False"
proof -
  let ?reset = "resetUserPassword (\<lambda>p. ''h:'' @ p) (Some ''ana@example.com'') ''new password'' True one_account"
  have users: "dir_users (ac_dir one_account) = [ana]" by (simp add: one_account_def account_frame)
  have "to_lower ''ana@example.com'' = ''ana@example.com''" by code_simp
  then have "reset_target (Some ''ana@example.com'') [ana] = Inr ana"
    by (simp add: reset_target_def str_truthy_def) (simp add: ana_def new_user_def)
  then obtain rs w1 where reset: "?reset = (Inr rs, w1)"
    by (simp add: resetUserPassword_def users MIN_PASSWORD_LENGTH_def Let_def)
  have "accepted (fst (post_login demo_crypto (demo_request 7) (rs_email rs) ''new password'' None w1))"
    using reset_recovers_account [OF reset, where cr = demo_crypto and env = "demo_request 7"] users by (auto simp: demo_crypto_def)
  with reset show ?thesis by simp
qed

end
