(* ===== verification/Upkeep.thy ===== *)
theory Upkeep
  imports ProxyPages Waker Tables Docker JsNumber
begin

text \<open>
  The periodic and small jobs of the worker: scheduled tasks of applications (apps/worker/src/jobs/scheduledTask.ts
  and scheduledTask.commands.ts), the cleanup of a server (dockerCleanup.ts, dockerCleanup.commands.ts,
  lib/defaultCleanup.ts), the backup of the panel's own database (instanceBackup.ts,
  packages/shared/src/instanceBackup.ts, packages/db/src/instanceSettings.ts), the test of a connection
  (checkServer.ts), certificates of registries (caCertificate.ts), the Cloudflare tunnel (cloudflareTunnel.ts), the
  retention of logs (logRetention.ts) and the warnings about
  tokens and certificates (apiTokenExpiry.ts, tlsCheck.ts). Each handler is an action on \<open>UpkeepState\<close>.

  The theorems show that the jobs with a history always return with their row settled, the connection closed and the
  history bounded; that a cleanup spares the images kept for a rollback; and that the retention of panel backups
  keeps exactly the newest ones and deletes nothing that is not one of them.
\<close>

section \<open>State\<close>

record UpkeepState = JobState +
  uk_servers :: "Server list"
  uk_applications :: "Application list"
  uk_services :: "Service list"
  uk_deployments :: "Deployment list"
  uk_backupRuns :: "BackupExecution list"
  uk_operations :: "PlatformOperation list"
  uk_archives :: "VolumeBackup list"
  uk_audit :: "AuditEvent list"
  uk_tasks :: "ScheduledTask list"
  uk_taskRuns :: "ScheduledTaskExecution list"
  uk_cleanups :: "DockerCleanup list"
  uk_cleanupRuns :: "DockerCleanupExecution list"
  uk_storages :: "S3Storage list"
  uk_settings :: "InstanceSettings list"
  uk_certificates :: "CaCertificate list"
  uk_tokens :: "ApiToken list"
  uk_schedules :: "(string \<times> string \<times> string) list"
  uk_conn :: bool
  uk_exitCode :: "int option"
  uk_failure :: "string option"
  uk_notifyTeam :: "string option"

type_synonym 'a uact = "(UpkeepState, 'a) act"

definition row_where :: "(UpkeepState \<Rightarrow> 'r list) \<Rightarrow> ('r \<Rightarrow> bool) \<Rightarrow> 'r option uact" where
  "row_where rows P = gets (\<lambda>s. find P (rows s))"

definition clock :: "Runtime \<Rightarrow> int uact" where
  "clock rt = gets (\<lambda>s. rt_now rt (js_trace s))"

definition connect_server :: "Runtime \<Rightarrow> Server \<Rightarrow> unit uact" where
  "connect_server rt server = andThen (connectSsh rt Target (srv_host server)) (modify (\<lambda>s. s\<lparr>uk_conn := True\<rparr>))"

definition disconnect :: "unit uact" where
  "disconnect = bind (gets uk_conn) (\<lambda>c. whenA c (andThen (emit (Close Target)) (modify (\<lambda>s. s\<lparr>uk_conn := False\<rparr>))))"

text \<open>\<open>const conn = await connectSsh(...); try body finally conn.end()\<close>.\<close>

definition with_server :: "Runtime \<Rightarrow> Server \<Rightarrow> unit uact \<Rightarrow> unit uact" where
  "with_server rt server body = andThen (connect_server rt server) (finally_do body disconnect)"

definition output_of :: "int \<times> (string \<times> bool) list \<Rightarrow> string" where
  "output_of r = concat (map fst (snd r))"

section \<open>Notifications\<close>

definition OPT_IN_NOTIFICATION_EVENTS :: "string list" where
  "OPT_IN_NOTIFICATION_EVENTS = [''backup.success'', ''task.success'', ''docker-cleanup.success'', ''container.status'']"

text \<open>The channels an event of a team goes to.\<close>

definition notifyTeam :: "NotificationChannel list \<Rightarrow> string \<Rightarrow> string \<Rightarrow> NotificationChannel list" where
  "notifyTeam channels teamId event =
    filter (\<lambda>c. nch_enabled c \<and>
        (case nch_events c of None \<Rightarrow> event \<notin> set OPT_IN_NOTIFICATION_EVENTS | Some events \<Rightarrow> event \<in> set events))
      (filter (\<lambda>c. nch_teamId c = teamId) channels)"

section \<open>Scheduled tasks\<close>

definition buildTaskCommand :: "string \<Rightarrow> string \<Rightarrow> string" where
  "buildTaskCommand containerName command = ''docker exec '' @ shellQuote containerName @ '' sh -c '' @ shellQuote command"

definition MAX_TASK_LOG_BYTES :: nat where
  "MAX_TASK_LOG_BYTES = 200000"

definition KEEP_EXECUTIONS :: nat where
  "KEEP_EXECUTIONS = 50"

definition TRUNCATED :: string where
  "TRUNCATED = [LF] @ ''[output truncated]'' @ [LF]"

definition appendCapped :: "nat \<Rightarrow> string \<Rightarrow> string \<Rightarrow> string" where
  "appendCapped maxBytes current chunk =
    (if length current \<ge> maxBytes then current
     else let room = maxBytes - length current
          in if length chunk \<le> room then current @ chunk else current @ take room chunk @ TRUNCATED)"

definition task_log :: "string \<Rightarrow> unit uact" where
  "task_log chunk = modify (\<lambda>s. s\<lparr>js_log := appendCapped MAX_TASK_LOG_BYTES (js_log s) chunk\<rparr>)"

definition set_failure :: "string \<Rightarrow> unit uact" where
  "set_failure message = modify (\<lambda>s. s\<lparr>uk_failure := Some message\<rparr>)"

text \<open>
  \<open>limit\<close> gives the chunks that have arrived when the time limit passes before the command is over, \<open>None\<close> when the
  command is faster. Ending the connection kills the command.
\<close>

definition run_task_command :: "Runtime \<Rightarrow> (effect list \<Rightarrow> (string \<times> bool) list option) \<Rightarrow> ScheduledTask \<Rightarrow> string \<Rightarrow> unit uact" where
  "run_task_command rt limit task command =
    bind (gets (\<lambda>s. limit (js_trace s))) (\<lambda>timedOut.
      case timedOut of
        Some chunks \<Rightarrow>
          seqs [emit (Exec Target command (ExecClosed None chunks)),
                seqs (map (\<lambda>c. task_log (fst c)) chunks),
                set_failure (''exceeded the '' @ int_str (stk_timeoutSeconds task) @ ''s limit''),
                emit (Close Target)]
      | None \<Rightarrow>
          bind (execStream rt Target command) (\<lambda>r.
            seqs [seqs (map (\<lambda>c. task_log (fst c)) (snd r)),
                  modify (\<lambda>s. s\<lparr>uk_exitCode := Some (fst r)\<rparr>),
                  whenA (fst r \<noteq> 0) (set_failure (''exited with code '' @ int_str (fst r)))]))"

definition task_command :: "Application \<Rightarrow> ScheduledTask \<Rightarrow> string" where
  "task_command application task =
    (if app_buildPack application = DockerCompose
     then composeExecCommand (composeProjectName (app_id application)) (app_composeService application) (stk_command task)
     else buildTaskCommand (''yeah-app-'' @ app_id application) (stk_command task))"

definition task_body :: "Runtime \<Rightarrow> (effect list \<Rightarrow> (string \<times> bool) list option) \<Rightarrow> ScheduledTask \<Rightarrow> Application \<Rightarrow> Server \<Rightarrow> unit uact" where
  "task_body rt limit task application server =
    andThen (connect_server rt server) (run_task_command rt limit task (task_command application task))"

definition set_task_run :: "string \<Rightarrow> (ScheduledTaskExecution \<Rightarrow> ScheduledTaskExecution) \<Rightarrow> unit uact" where
  "set_task_run i f = modify (\<lambda>s. s\<lparr>uk_taskRuns := map (\<lambda>x. if ste_id x = i then f x else x) (uk_taskRuns s)\<rparr>)"

text \<open>The history of a task, newest first, after the rows that are kept.\<close>

definition old_task_runs :: "string \<Rightarrow> ScheduledTaskExecution list \<Rightarrow> string list" where
  "old_task_runs taskId rows =
    map ste_id (drop KEEP_EXECUTIONS (sort_by (descending (cmp_key ste_startedAt)) (filter (\<lambda>x. ste_taskId x = taskId) rows)))"

definition trim_task_runs :: "string \<Rightarrow> unit uact" where
  "trim_task_runs taskId = modify (\<lambda>s. s\<lparr>uk_taskRuns :=
    filter (\<lambda>x. ste_id x \<notin> set (old_task_runs taskId (uk_taskRuns s))) (uk_taskRuns s)\<rparr>)"

definition task_status_str :: "bool \<Rightarrow> string" where
  "task_status_str failed = (if failed then ''failed'' else ''success'')"

definition task_result :: "Runtime \<Rightarrow> string \<Rightarrow> ScheduledTask \<Rightarrow> Application \<Rightarrow> unit uact" where
  "task_result rt executionId task application =
    bind (gets uk_failure) (\<lambda>failure. bind (gets uk_exitCode) (\<lambda>exitCode.
      (let bad = str_truthy failure; message = default [] failure in
       seqs
        [whenA bad (task_log ([LF] @ ''['' @ message @ '']'' @ [LF])),
         bind (clock rt) (\<lambda>now. bind (gets js_log) (\<lambda>log.
           set_task_run executionId (\<lambda>x. x\<lparr>ste_status := (if bad then TaskFailed else TaskSuccess), ste_log := log,
             ste_exitCode := exitCode, ste_finishedAt := Some now\<rparr>))),
         trim_task_runs (stk_id task),
         if bad
         then emit (Notify (app_teamId application) ''task.failed''
           (''Task '' @ [DQ] @ stk_name task @ [DQ] @ '' failed on '' @ app_name application) message LevelError)
         else emit (Notify (app_teamId application) ''task.success''
           (''Task '' @ [DQ] @ stk_name task @ [DQ] @ '' completed on '' @ app_name application)
           (''Exit code '' @ int_str (default 0 exitCode) @ ''.'') LevelInfo),
         bind (gets js_log) (\<lambda>log. emit (ForwardLog log [(''app'', app_name application), (''task'', stk_name task),
           (''job'', ''scheduled-task''), (''status'', task_status_str bad)]))])))"

definition fresh_task :: "unit uact" where
  "fresh_task = modify (\<lambda>s. s\<lparr>js_log := [], uk_conn := False, uk_exitCode := None, uk_failure := None\<rparr>)"

definition run_task ::
  "Runtime \<Rightarrow> (effect list \<Rightarrow> (string \<times> bool) list option) \<Rightarrow> string \<Rightarrow> bool \<Rightarrow> ScheduledTask \<Rightarrow> Application \<Rightarrow> Server \<Rightarrow> unit uact" where
  "run_task rt limit executionId manual task application server =
    seqs
     [bind (clock rt) (\<lambda>now. modify (\<lambda>s. s\<lparr>uk_taskRuns := uk_taskRuns s @
        [(new_scheduledTaskExecution executionId now (stk_id task))\<lparr>ste_manual := manual\<rparr>]\<rparr>)),
      fresh_task,
      finally_do (catch (task_body rt limit task application server) set_failure) disconnect,
      task_result rt executionId task application]"

definition scheduledTask ::
  "Runtime \<Rightarrow> (effect list \<Rightarrow> (string \<times> bool) list option) \<Rightarrow> string \<Rightarrow> string \<Rightarrow> bool \<Rightarrow> unit uact" where
  "scheduledTask rt limit executionId taskId manual =
    bind (row_where uk_tasks (\<lambda>x. stk_id x = taskId)) (\<lambda>task_opt. case task_opt of None \<Rightarrow> pure () | Some task \<Rightarrow>
      if \<not> stk_enabled task \<and> \<not> manual then pure ()
      else bind (row_where uk_applications (\<lambda>x. app_id x = stk_applicationId task)) (\<lambda>app_opt. case app_opt of None \<Rightarrow> pure () | Some application \<Rightarrow>
        bind (row_where uk_servers (\<lambda>x. srv_id x = app_serverId application)) (\<lambda>server_opt. case server_opt of None \<Rightarrow> pure () | Some server \<Rightarrow>
          run_task rt limit executionId manual task application server)))"

section \<open>Cleaning up a server\<close>

record DockerCleanupOptions =
  dco_pruneImages :: bool
  dco_pruneVolumes :: bool
  dco_removeImageIds :: "string list option"

definition buildDockerPruneCommand :: "DockerCleanupOptions \<Rightarrow> string" where
  "buildDockerPruneCommand opts =
    ''docker system prune -f'' @ (if dco_pruneImages opts \<and> dco_removeImageIds opts = None then '' -a'' else []) @
    (if dco_pruneVolumes opts then '' --volumes'' else [])"

definition hex_id :: "string \<Rightarrow> bool" where
  "hex_id i \<longleftrightarrow> rx_test (rx_between 12 64 (RCls (\<lambda>c. is_digit c \<or> in_range 97 102 c))) i"

definition buildImageRemovalCommand :: "DockerCleanupOptions \<Rightarrow> string option" where
  "buildImageRemovalCommand opts =
    (case dco_removeImageIds opts of
       None \<Rightarrow> None
     | Some removeImageIds \<Rightarrow>
         if \<not> dco_pruneImages opts \<or> removeImageIds = [] then None
         else let ids = filter hex_id removeImageIds
              in if ids = [] then None
                 else Some (''(docker image rm -f '' @ join_str '' '' ids @ '' >/dev/null 2>&1 || true)''))"

definition buildHostCleanupCommand :: "DockerCleanupOptions \<Rightarrow> string" where
  "buildHostCleanupCommand opts =
    join_str '' ; ''
      ([buildDockerPruneCommand opts] @
       (case buildImageRemovalCommand opts of Some command \<Rightarrow> [command] | None \<Rightarrow> []) @
       [''docker builder prune -f --filter until=72h'',
        ''(journalctl --vacuum-time=14d >/dev/null 2>&1 || true)'',
        ''(apt-get clean >/dev/null 2>&1 || true)''])"

text \<open>
  A match of the pattern at the front of a text: the amount and the unit. A match never contains the start of
  another one, so looking at every position in turn finds what \<open>matchAll\<close> finds. Sums are exact rationals.
\<close>

definition UNITS :: "(string \<times> rat) list" where
  "UNITS = [(''B'', 1), (''KB'', 1024), (''MB'', 1024 ^ 2), (''GB'', 1024 ^ 3), (''TB'', 1024 ^ 4)]"

definition reclaimed_line :: "string \<Rightarrow> (string \<times> rat) option" where
  "reclaimed_line s =
    (let lead = ''total reclaimed space:''; r = dropWhile is_space (drop (length lead) s);
         amount = takeWhile (\<lambda>c. is_digit c \<or> c = CHR ''.'') r;
         unit_text = to_lower (dropWhile is_space (drop (length amount) r))
     in if to_lower (take (length lead) s) \<noteq> lead \<or> amount = [] then None
        else map_option (\<lambda>(u, factor). (amount, factor)) (find (\<lambda>(u, factor). starts_with unit_text (to_lower u)) UNITS))"

fun reclaimed_matches :: "string \<Rightarrow> (string \<times> rat) list" where
  "reclaimed_matches [] = []"
| "reclaimed_matches (c # s) = (case reclaimed_line (c # s) of Some m \<Rightarrow> [m] | None \<Rightarrow> []) @ reclaimed_matches s"

definition parseReclaimedBytes :: "string \<Rightarrow> int option" where
  "parseReclaimedBytes output =
    (let found = List.map_filter (\<lambda>(amount, factor). case js_parseFloat amount of Finite a \<Rightarrow> Some (a * factor) | _ \<Rightarrow> None)
           (reclaimed_matches output)
     in if found = [] then None else Some \<lfloor>sum_list found + 1 / 2\<rfloor>)"

definition KEEP_CLEANUPS :: nat where
  "KEEP_CLEANUPS = 20"

definition set_cleanup_run :: "string \<Rightarrow> (DockerCleanupExecution \<Rightarrow> DockerCleanupExecution) \<Rightarrow> unit uact" where
  "set_cleanup_run i f = modify (\<lambda>s. s\<lparr>uk_cleanupRuns := map (\<lambda>x. if dce_id x = i then f x else x) (uk_cleanupRuns s)\<rparr>)"

definition deployment_status_str :: "DeploymentStatus \<Rightarrow> string" where
  "deployment_status_str st =
    (case st of DepQueued \<Rightarrow> ''queued'' | DepRunning \<Rightarrow> ''running'' | DepSuccess \<Rightarrow> ''success'' | DepFailed \<Rightarrow> ''failed'')"

text \<open>The deployments of an application whose images are kept, from the last 200 rows.\<close>

definition retained_deployments :: "Runtime \<Rightarrow> Application \<Rightarrow> UpkeepState \<Rightarrow> DeploymentLike list" where
  "retained_deployments rt app s =
    (let rows = take 200 (sort_by (descending (cmp_key dep_createdAt)) (filter (\<lambda>d. dep_applicationId d = app_id app) (uk_deployments s)))
     in deploymentsToRetain (rt_localeCompare rt)
          (map (\<lambda>d. \<lparr>dl_id = dep_id d, dl_status = deployment_status_str (dep_status d), dl_commitSha = dep_commitSha d,
                     dl_createdAt = rt_toISOString rt (dep_createdAt d)\<rparr>) rows)
          (app_rollbackImages app))"

definition rollbackImageRefs :: "Runtime \<Rightarrow> string \<Rightarrow> UpkeepState \<Rightarrow> string list" where
  "rollbackImageRefs rt serverId s =
    uniq (concat (map (\<lambda>app. map (\<lambda>d. deploymentImageRef (app_id app) (dl_id d)) (retained_deployments rt app s))
      (filter (\<lambda>app. app_serverId app = serverId \<and> app_rollbackImages app > 0) (uk_applications s))))"

text \<open>The options of the run, after the images in use have been listed.\<close>

definition cleanup_options :: "Runtime \<Rightarrow> string \<Rightarrow> DockerCleanup option \<Rightarrow> DockerCleanupOptions uact" where
  "cleanup_options rt serverId schedule =
    (let opts = \<lparr>dco_pruneImages = (case schedule of Some x \<Rightarrow> dcl_pruneImages x | None \<Rightarrow> False),
                 dco_pruneVolumes = (case schedule of Some x \<Rightarrow> dcl_pruneVolumes x | None \<Rightarrow> False), dco_removeImageIds = None\<rparr>
     in if \<not> dco_pruneImages opts then pure opts
        else bind (gets (rollbackImageRefs rt serverId)) (\<lambda>protectedRefs.
          if protectedRefs = [] then pure opts
          else bind (exec_stdout rt Target dockerImagesCommand) (\<lambda>listing.
            pure (opts\<lparr>dco_removeImageIds := Some (selectImagesToRemove (parseDockerImages listing) protectedRefs)\<rparr>))))"

definition last_chars :: "nat \<Rightarrow> string \<Rightarrow> string" where
  "last_chars n s = drop (length s - n) s"

definition megabytes_freed :: "int \<Rightarrow> string" where
  "megabytes_freed freed = int_str \<lfloor>of_int freed / 1024 ^ 2 + 1 / 2 :: rat\<rfloor> @ '' MB freed.''"

definition cleanup_body :: "Runtime \<Rightarrow> string \<Rightarrow> DockerCleanup option \<Rightarrow> Server \<Rightarrow> unit uact" where
  "cleanup_body rt executionId schedule server =
    bind (cleanup_options rt (srv_id server) schedule) (\<lambda>opts.
    bind (execStream rt Target (buildHostCleanupCommand opts)) (\<lambda>r.
      (let output = output_of r; freed = parseReclaimedBytes output in
       seqs
        [whenA (fst r \<noteq> 0) (throw (''the cleanup exited with code '' @ int_str (fst r) @ '': '' @ last_chars 500 (trim output))),
         bind (clock rt) (\<lambda>now. set_cleanup_run executionId (\<lambda>x. x\<lparr>dce_status := ExecutionSuccess, dce_log := output,
           dce_reclaimedBytes := freed, dce_finishedAt := Some now\<rparr>)),
         emit (Notify (srv_teamId server) ''docker-cleanup.success'' (''Cleanup completed on '' @ srv_name server)
           (case freed of None \<Rightarrow> ''Cleanup completed.'' | Some n \<Rightarrow> megabytes_freed n) LevelInfo)])))"

definition cleanup_failed :: "Runtime \<Rightarrow> string \<Rightarrow> Server \<Rightarrow> string \<Rightarrow> unit uact" where
  "cleanup_failed rt executionId server message =
    seqs
     [bind (clock rt) (\<lambda>now. set_cleanup_run executionId (\<lambda>x. x\<lparr>dce_status := ExecutionFailed, dce_log := message, dce_finishedAt := Some now\<rparr>)),
      emit (Notify (srv_teamId server) ''docker-cleanup.failed'' (''Docker cleanup failed on '' @ srv_name server) message LevelError)]"

definition doomed_cleanup_runs :: "string \<Rightarrow> DockerCleanupExecution list \<Rightarrow> string list" where
  "doomed_cleanup_runs serverId rows =
    map dce_id (drop KEEP_CLEANUPS (sort_by (descending (cmp_key dce_createdAt)) (filter (\<lambda>x. dce_serverId x = serverId) rows)))"

definition trim_cleanup_runs :: "string \<Rightarrow> unit uact" where
  "trim_cleanup_runs serverId = modify (\<lambda>s. s\<lparr>uk_cleanupRuns :=
    filter (\<lambda>x. dce_id x \<notin> set (doomed_cleanup_runs serverId (uk_cleanupRuns s))) (uk_cleanupRuns s)\<rparr>)"

definition run_cleanup :: "Runtime \<Rightarrow> string \<Rightarrow> bool \<Rightarrow> DockerCleanup option \<Rightarrow> Server \<Rightarrow> unit uact" where
  "run_cleanup rt executionId manual schedule server =
    seqs
     [bind (clock rt) (\<lambda>now. modify (\<lambda>s. s\<lparr>uk_cleanupRuns := uk_cleanupRuns s @
        [(new_dockerCleanupExecution executionId now (srv_id server))\<lparr>dce_status := ExecutionRunning, dce_manual := manual,
          dce_startedAt := Some now\<rparr>]\<rparr>)),
      modify (\<lambda>s. s\<lparr>uk_conn := False\<rparr>),
      catch (with_server rt server (cleanup_body rt executionId schedule server)) (cleanup_failed rt executionId server),
      trim_cleanup_runs (srv_id server)]"

definition dockerCleanup :: "Runtime \<Rightarrow> string \<Rightarrow> string \<Rightarrow> bool \<Rightarrow> unit uact" where
  "dockerCleanup rt executionId serverId manual =
    bind (row_where uk_servers (\<lambda>x. srv_id x = serverId)) (\<lambda>server_opt. case server_opt of None \<Rightarrow> pure () | Some server \<Rightarrow>
      bind (row_where uk_cleanups (\<lambda>x. dcl_serverId x = serverId)) (\<lambda>schedule.
        if \<not> manual \<and> (case schedule of Some x \<Rightarrow> \<not> dcl_enabled x | None \<Rightarrow> True) then pure ()
        else run_cleanup rt executionId manual schedule server))"

text \<open>The cleanup every server gets once; \<open>new_id\<close> are the identifiers of the new rows.\<close>

definition ensureDefaultCleanups :: "string \<Rightarrow> string \<Rightarrow> int \<Rightarrow> (string \<Rightarrow> string) \<Rightarrow> UpkeepState \<Rightarrow> nat \<times> UpkeepState" where
  "ensureDefaultCleanups cron timezone now new_id s =
    (let missing = filter (\<lambda>i. \<not> list_ex (\<lambda>c. dcl_serverId c = i) (uk_cleanups s)) (map srv_id (uk_servers s))
     in (length missing,
         s\<lparr>uk_cleanups := uk_cleanups s @ map (\<lambda>i. (new_dockerCleanup (new_id i) now i)\<lparr>dcl_enabled := True, dcl_cron := cron,
             dcl_timezone := timezone\<rparr>) missing,
           uk_schedules := uk_schedules s @ map (\<lambda>i. (i, cron, timezone)) missing\<rparr>))"

section \<open>Backups of the panel\<close>

definition INSTANCE_BACKUP_PREFIX :: string where
  "INSTANCE_BACKUP_PREFIX = ''yeah-instance/''"

definition INSTANCE_BACKUP_MAX_RETENTION :: int where
  "INSTANCE_BACKUP_MAX_RETENTION = 90"

definition INSTANCE_BACKUP_STAGING_DIR :: string where
  "INSTANCE_BACKUP_STAGING_DIR = ''/opt/yeah-backups/instance''"

definition KEY_PATTERN :: rx where
  "KEY_PATTERN = rx_seq [rx_lit (INSTANCE_BACKUP_PREFIX @ ''yeah-''), rx_times 8 (RCls is_digit), rx_lit ''-'',
     rx_times 6 (RCls is_digit), rx_lit ''.sql.gz'']"

definition MIN_GAP_MS :: int where
  "MIN_GAP_MS = 20 * 60 * 60 * 1000"

record InstanceBackupSchedule =
  ibs_enabled :: bool
  ibs_storageId :: "string option"
  ibs_hourUtc :: int
  ibs_lastAt :: "int option"

text \<open>The hour of a time value: the epoch began at midnight, and a day has no leap seconds.\<close>

definition utc_hours :: "int \<Rightarrow> int" where
  "utc_hours t = t div 3600000 mod 24"

definition isInstanceBackupDue :: "int \<Rightarrow> InstanceBackupSchedule \<Rightarrow> bool \<Rightarrow> bool" where
  "isInstanceBackupDue now s force =
    (if \<not> str_truthy (ibs_storageId s) then False
     else if force then True
     else if \<not> ibs_enabled s then False
     else if utc_hours now \<noteq> ibs_hourUtc s then False
     else case ibs_lastAt s of None \<Rightarrow> True | Some t \<Rightarrow> now - t \<ge> MIN_GAP_MS)"

text \<open>A number that is no integer is \<open>None\<close>.\<close>

definition validateInstanceBackupSettings :: "int option \<Rightarrow> int option \<Rightarrow> string option" where
  "validateInstanceBackupSettings hourUtc retention =
    (if (case hourUtc of Some h \<Rightarrow> h < 0 \<or> h > 23 | None \<Rightarrow> True) then Some ''the hour must be a whole number from 0 to 23''
     else if (case retention of Some n \<Rightarrow> n < 1 \<or> n > INSTANCE_BACKUP_MAX_RETENTION | None \<Rightarrow> True)
     then Some (''keep between 1 and '' @ int_str INSTANCE_BACKUP_MAX_RETENTION @ '' backups'')
     else None)"

text \<open>The fields of a date in UTC, as \<open>getUTCFullYear\<close> and its companions give them (the month from 0).\<close>

record Utc =
  utc_year :: nat
  utc_month :: nat
  utc_date :: nat
  utc_hour :: nat
  utc_minute :: nat
  utc_second :: nat

definition two_digits :: "nat \<Rightarrow> string" where
  "two_digits n = pad_zeros 2 (nat_str n)"

definition instanceBackupKey :: "Utc \<Rightarrow> string" where
  "instanceBackupKey at' =
    (let d = nat_str (utc_year at') @ two_digits (utc_month at' + 1) @ two_digits (utc_date at');
         t = two_digits (utc_hour at') @ two_digits (utc_minute at') @ two_digits (utc_second at')
     in INSTANCE_BACKUP_PREFIX @ ''yeah-'' @ d @ ''-'' @ t @ ''.sql.gz'')"

definition instanceBackupsToDelete :: "string list \<Rightarrow> int \<Rightarrow> string list" where
  "instanceBackupsToDelete keys keep =
    (let ours = rev (sort_by cmp_units (filter (rx_test KEY_PATTERN) keys)) in drop (nat (max 0 keep)) ours)"

definition buildInstanceDumpCommand :: "string \<Rightarrow> string \<Rightarrow> string" where
  "buildInstanceDumpCommand installDir outPath =
    (let tmp = outPath @ ''.partial'';
         dir = (case last_index_of (CHR ''/'') outPath of Some i \<Rightarrow> take i outPath | None \<Rightarrow> butlast outPath);
         inner = ''set -o pipefail; mkdir -p '' @ shellQuote dir @ '' && cd '' @ shellQuote installDir @ '' && '' @
           ''docker compose -f docker-compose.prod.yml --env-file .env exec -T postgres sh -c '' @
           shellQuote (''pg_dump -U \"$POSTGRES_USER\" \"$POSTGRES_DB\"'') @ '' < /dev/null | gzip > '' @ shellQuote tmp @ '' && '' @
           ''gzip -t '' @ shellQuote tmp @ '' && [ \"$(wc -c < '' @ shellQuote tmp @ '')\" -gt 200 ] && mv '' @ shellQuote tmp @ '' '' @ shellQuote outPath
     in ''bash -c '' @ shellQuote (inner @ '' || { rm -f '' @ shellQuote tmp @ ''; exit 1; }''))"

text \<open>The single row of settings, created on the first write; \<open>new_id\<close> is the identifier it gets.\<close>

definition getInstanceBackupSettings :: "InstanceSettings list \<Rightarrow> InstanceSettings" where
  "getInstanceBackupSettings rows = (case rows of row # _ \<Rightarrow> row | [] \<Rightarrow> new_instanceSettings [] 0)"

definition updateInstanceBackupColumns :: "string \<Rightarrow> int \<Rightarrow> (InstanceSettings \<Rightarrow> InstanceSettings) \<Rightarrow> InstanceSettings list \<Rightarrow> InstanceSettings list" where
  "updateInstanceBackupColumns new_id now patch rows =
    (case rows of
       row # _ \<Rightarrow> map (\<lambda>r. if ins_id r = ins_id row then (patch r)\<lparr>ins_updatedAt := now\<rparr> else r) rows
     | [] \<Rightarrow> [patch (new_instanceSettings new_id now)])"

definition patch_settings :: "Runtime \<Rightarrow> string \<Rightarrow> (InstanceSettings \<Rightarrow> InstanceSettings) \<Rightarrow> unit uact" where
  "patch_settings rt new_id patch =
    bind (clock rt) (\<lambda>now. modify (\<lambda>s. s\<lparr>uk_settings := updateInstanceBackupColumns new_id now patch (uk_settings s)\<rparr>))"

text \<open>\<open>utc\<close> splits a time, \<open>list_keys\<close> lists the first 1000 objects below a prefix of a storage.\<close>

record InstanceBackupEnv =
  ib_settingsId :: string
  ib_utc :: "int \<Rightarrow> Utc"
  ib_list :: "effect list \<Rightarrow> string \<Rightarrow> string \<Rightarrow> string + string list"

definition list_objects :: "InstanceBackupEnv \<Rightarrow> string \<Rightarrow> string \<Rightarrow> string list uact" where
  "list_objects ib storageId key_prefix =
    bind (gets (\<lambda>s. ib_list ib (js_trace s) storageId key_prefix)) (\<lambda>out. case out of Inl e \<Rightarrow> throw e | Inr keys \<Rightarrow> pure keys)"

definition delete_quietly :: "Runtime \<Rightarrow> string \<Rightarrow> string \<Rightarrow> unit uact" where
  "delete_quietly rt storageId key = ignore_errors (bind (s3_delete rt storageId key) (\<lambda>r. pure ()))"

definition parsed_bytes :: "string \<Rightarrow> int" where
  "parsed_bytes s = (case js_parseInt10 (trim s) of Finite r \<Rightarrow> \<lfloor>r\<rfloor> | _ \<Rightarrow> 0)"

definition upload_dump :: "Runtime \<Rightarrow> string \<Rightarrow> string \<Rightarrow> string \<Rightarrow> int \<Rightarrow> unit uact" where
  "upload_dump rt storageId key remote sizeBytes =
    finally_do
      (bind (openRemoteReadStream rt Target remote) (\<lambda>r. bind (uploadStream rt storageId key) (\<lambda>sent.
        whenA (sizeBytes > 0 \<and> sent \<noteq> sizeBytes)
          (throw (''the upload sent '' @ int_str sent @ '' bytes but the dump has '' @ int_str sizeBytes)))))
      (removeRemoteFile Target remote)"

definition dump_instance :: "Runtime \<Rightarrow> InstanceBackupEnv \<Rightarrow> int \<Rightarrow> string \<Rightarrow> S3Storage \<Rightarrow> Server \<Rightarrow> int uact" where
  "dump_instance rt ib retention key storage server =
    (let remote = INSTANCE_BACKUP_STAGING_DIR @ ''/'' @ drop (length INSTANCE_BACKUP_PREFIX) key in
     bind (execStream rt Target (buildInstanceDumpCommand PANEL_INSTALL_DIR remote)) (\<lambda>dump.
       andThen (whenA (fst dump \<noteq> 0) (throw (''the database dump failed on '' @ srv_name server @ '' (is the panel installed in '' @
           PANEL_INSTALL_DIR @ ''?) '' @ take 200 (trim (output_of dump)))))
         (bind (execStream rt Target (''wc -c < '' @ shellQuote remote)) (\<lambda>size.
           (let sizeBytes = parsed_bytes (output_of size) in
            andThen (upload_dump rt (s3_id storage) key remote sizeBytes)
              (bind (list_objects ib (s3_id storage) INSTANCE_BACKUP_PREFIX) (\<lambda>keys.
                andThen (seqs (map (delete_quietly rt (s3_id storage)) (instanceBackupsToDelete keys retention)))
                  (pure sizeBytes))))))))"

text \<open>A connection around an action with a result.\<close>

definition connected_result :: "Runtime \<Rightarrow> Server \<Rightarrow> int uact \<Rightarrow> int uact" where
  "connected_result rt server body =
    andThen (connect_server rt server) (\<lambda>s. case body s of (r, t) \<Rightarrow> (case disconnect t of (Inl e, u) \<Rightarrow> (Inl e, u) | (Inr x, u) \<Rightarrow> (r, u)))"

definition instance_body :: "Runtime \<Rightarrow> InstanceBackupEnv \<Rightarrow> InstanceSettings \<Rightarrow> S3Storage option \<Rightarrow> Server option \<Rightarrow> unit uact" where
  "instance_body rt ib settings storage_opt server_opt =
    (case storage_opt of
       None \<Rightarrow> throw ''the backup destination no longer exists: choose another one in Settings''
     | Some storage \<Rightarrow>
         (case server_opt of
            None \<Rightarrow> throw ''no server hosts the panel, so there is no database to dump from''
          | Some server \<Rightarrow>
              andThen (modify (\<lambda>s. s\<lparr>uk_notifyTeam := Some (s3_teamId storage)\<rparr>))
                (bind (clock rt) (\<lambda>now.
                  (let key = instanceBackupKey (ib_utc ib now) in
                   bind (connected_result rt server (dump_instance rt ib (ins_backupRetention settings) key storage server)) (\<lambda>sizeBytes.
                     patch_settings rt (ib_settingsId ib) (\<lambda>r. r\<lparr>ins_backupLastAt := Some now, ins_backupLastStatus := Some ''success'',
                       ins_backupLastError := None, ins_backupLastSizeBytes := Some sizeBytes\<rparr>)))))))"

definition instance_failed :: "Runtime \<Rightarrow> InstanceBackupEnv \<Rightarrow> string \<Rightarrow> unit uact" where
  "instance_failed rt ib message =
    andThen (patch_settings rt (ib_settingsId ib) (\<lambda>r. r\<lparr>ins_backupLastStatus := Some ''failed'', ins_backupLastError := Some (take 500 message)\<rparr>))
      (bind (gets uk_notifyTeam) (\<lambda>team. whenA (str_truthy team)
        (emit (Notify (the team) ''backup.failed'' (''Backup of the panel'' @ [SQ] @ ''s database failed'') message LevelError))))"

definition run_instance_backup :: "Runtime \<Rightarrow> InstanceBackupEnv \<Rightarrow> InstanceSettings \<Rightarrow> unit uact" where
  "run_instance_backup rt ib settings =
    bind (case ins_backupStorageId settings of
            Some i \<Rightarrow> if i \<noteq> [] then row_where uk_storages (\<lambda>x. s3_id x = i) else pure None
          | None \<Rightarrow> pure None) (\<lambda>storage_opt.
    bind (row_where uk_servers srv_isPlatformHost) (\<lambda>server_opt.
      seqs
       [patch_settings rt (ib_settingsId ib) (\<lambda>r. r\<lparr>ins_backupLastStatus := Some ''running'', ins_backupLastError := None\<rparr>),
        modify (\<lambda>s. s\<lparr>uk_conn := False, uk_notifyTeam := (case storage_opt of Some x \<Rightarrow> Some (s3_teamId x)
          | None \<Rightarrow> map_option srv_teamId server_opt)\<rparr>),
        catch (instance_body rt ib settings storage_opt server_opt) (instance_failed rt ib)]))"

definition instanceBackup :: "Runtime \<Rightarrow> InstanceBackupEnv \<Rightarrow> bool \<Rightarrow> unit uact" where
  "instanceBackup rt ib force =
    bind (gets (\<lambda>s. getInstanceBackupSettings (uk_settings s))) (\<lambda>settings.
    bind (clock rt) (\<lambda>now.
      whenA (isInstanceBackupDue now \<lparr>ibs_enabled = ins_backupEnabled settings, ibs_storageId = ins_backupStorageId settings,
          ibs_hourUtc = ins_backupHourUtc settings, ibs_lastAt = ins_backupLastAt settings\<rparr> force)
        (run_instance_backup rt ib settings)))"

section \<open>The test of a connection\<close>

definition set_servers :: "string \<Rightarrow> (Server \<Rightarrow> Server) \<Rightarrow> unit uact" where
  "set_servers i f = modify (\<lambda>s. s\<lparr>uk_servers := map (\<lambda>x. if srv_id x = i then f x else x) (uk_servers s)\<rparr>)"

text \<open>\<open>test\<close> is \<open>testSshConnection\<close>: whether it worked and the version of Docker, or an exception.\<close>

definition checkServer :: "Runtime \<Rightarrow> (effect list \<Rightarrow> Server \<Rightarrow> string + (bool \<times> string option)) \<Rightarrow> string \<Rightarrow> unit uact" where
  "checkServer rt test serverId =
    bind (row_where uk_servers (\<lambda>x. srv_id x = serverId)) (\<lambda>server_opt. case server_opt of None \<Rightarrow> pure () | Some server \<Rightarrow>
      bind (gets (\<lambda>s. case test (js_trace s) server of Inr r \<Rightarrow> r | Inl e \<Rightarrow> (False, None))) (\<lambda>(good, version).
        (let status = (if good then ServerConnected else ServerError) in
         seqs
          [bind (clock rt) (\<lambda>now. set_servers serverId (\<lambda>x. x\<lparr>srv_status := status, srv_dockerVersion := version, srv_lastCheckedAt := Some now\<rparr>)),
           emit (Publish (ServerStatusEvent serverId status version)),
           if srv_status server \<noteq> ServerError \<and> \<not> good
           then emit (Notify (srv_teamId server) ''server.down'' (''Server '' @ srv_name server @ '' unreachable'')
             ''The SSH connection failed the connection test.'' LevelError)
           else whenA (srv_status server = ServerError \<and> good)
             (emit (Notify (srv_teamId server) ''server.reconnected'' (''Server '' @ srv_name server @ '' reconnected'')
               ''The SSH connection is working again.'' LevelInfo))])))"

section \<open>Certificates of registries\<close>

definition caCertDir :: "string \<Rightarrow> string" where
  "caCertDir host = ''/etc/docker/certs.d/'' @ host"

definition buildInstallCaCertCommand :: "string \<Rightarrow> string" where
  "buildInstallCaCertCommand host = ''mkdir -p '' @ shellQuote (caCertDir host)"

definition buildRemoveCaCertCommand :: "string \<Rightarrow> string" where
  "buildRemoveCaCertCommand host = ''rm -rf '' @ shellQuote (caCertDir host)"

definition set_certificate :: "string \<Rightarrow> string \<Rightarrow> BackupExecutionStatus \<Rightarrow> string option \<Rightarrow> unit uact" where
  "set_certificate serverId host status failure = modify (\<lambda>s. s\<lparr>uk_certificates := map (\<lambda>x. if ca_serverId x = serverId \<and> ca_host x = host
     then x\<lparr>ca_status := status, ca_error := failure\<rparr> else x) (uk_certificates s)\<rparr>)"

definition checked_command :: "Runtime \<Rightarrow> string \<Rightarrow> (int \<Rightarrow> string) \<Rightarrow> unit uact" where
  "checked_command rt command message =
    bind (execStream rt Target command) (\<lambda>r. whenA (fst r \<noteq> 0) (throw (message (fst r))))"

definition exit_text :: "string \<Rightarrow> int \<Rightarrow> string" where
  "exit_text what n = what @ '' (exit code '' @ int_str n @ '')''"

definition certificate_steps :: "Runtime \<Rightarrow> string \<Rightarrow> string \<Rightarrow> bool \<Rightarrow> string option \<Rightarrow> unit uact" where
  "certificate_steps rt serverId host install pem =
    (if install then
       (if \<not> str_truthy pem then throw ''empty certificate''
        else seqs
         [checked_command rt (buildInstallCaCertCommand host) (exit_text (''could not create '' @ caCertDir host)),
          writeRemoteFile rt Target (caCertDir host @ ''/ca.crt'') (if ends_with (the pem) [LF] then the pem else the pem @ [LF]),
          set_certificate serverId host ExecutionSuccess None])
     else seqs
      [checked_command rt (buildRemoveCaCertCommand host) (exit_text (''could not remove '' @ caCertDir host)),
       modify (\<lambda>s. s\<lparr>uk_certificates := filter (\<lambda>x. \<not> (ca_serverId x = serverId \<and> ca_host x = host)) (uk_certificates s)\<rparr>)])"

definition caCertificate :: "Runtime \<Rightarrow> string \<Rightarrow> string \<Rightarrow> bool \<Rightarrow> string option \<Rightarrow> unit uact" where
  "caCertificate rt serverId host install pem =
    bind (row_where uk_servers (\<lambda>x. srv_id x = serverId)) (\<lambda>server_opt. case server_opt of None \<Rightarrow> pure () | Some server \<Rightarrow>
      catch (with_server rt server (certificate_steps rt serverId host install pem))
        (\<lambda>message. set_certificate serverId host ExecutionFailed (Some message)))"

section \<open>The Cloudflare tunnel\<close>

definition CLOUDFLARE_TUNNEL_CONTAINER_NAME :: string where
  "CLOUDFLARE_TUNNEL_CONTAINER_NAME = ''yeah-cf-tunnel''"

definition buildInstallCloudflareTunnelCommand :: "string \<Rightarrow> string" where
  "buildInstallCloudflareTunnelCommand token =
    ''docker network create '' @ shellQuote PROXY_NETWORK_NAME @ '' >/dev/null 2>&1 || true && '' @
    ''docker rm -f '' @ shellQuote CLOUDFLARE_TUNNEL_CONTAINER_NAME @ '' >/dev/null 2>&1 || true && '' @
    ''docker run -d --name '' @ shellQuote CLOUDFLARE_TUNNEL_CONTAINER_NAME @ '' '' @
    ''--network '' @ shellQuote PROXY_NETWORK_NAME @ '' '' @
    ''--restart unless-stopped cloudflare/cloudflared:latest '' @
    ''tunnel --no-autoupdate run --token '' @ shellQuote token"

definition buildRemoveCloudflareTunnelCommand :: string where
  "buildRemoveCloudflareTunnelCommand = ''docker rm -f '' @ shellQuote CLOUDFLARE_TUNNEL_CONTAINER_NAME @ '' >/dev/null 2>&1 || true''"

definition tunnel_steps :: "Runtime \<Rightarrow> string \<Rightarrow> bool \<Rightarrow> string option \<Rightarrow> unit uact" where
  "tunnel_steps rt serverId install token =
    (if install then
       (if \<not> str_truthy token then throw ''empty token''
        else seqs
         [checked_command rt (buildInstallCloudflareTunnelCommand (the token)) (\<lambda>n. ''docker run exited with code '' @ int_str n),
          set_servers serverId (\<lambda>x. x\<lparr>srv_cloudflareTunnelStatus := ProxyActive, srv_cloudflareTunnelError := None\<rparr>)])
     else seqs
      [checked_command rt buildRemoveCloudflareTunnelCommand (\<lambda>n. ''docker rm exited with code '' @ int_str n),
       set_servers serverId (\<lambda>x. x\<lparr>srv_cloudflareTunnelStatus := ProxyInactive, srv_cloudflareTunnelError := None, srv_cloudflareTunnelToken := None\<rparr>)])"

definition cloudflareTunnel :: "Runtime \<Rightarrow> string \<Rightarrow> bool \<Rightarrow> string option \<Rightarrow> unit uact" where
  "cloudflareTunnel rt serverId install token =
    bind (row_where uk_servers (\<lambda>x. srv_id x = serverId)) (\<lambda>server_opt. case server_opt of None \<Rightarrow> pure () | Some server \<Rightarrow>
      catch (with_server rt server (tunnel_steps rt serverId install token))
        (\<lambda>message. set_servers serverId (\<lambda>x. x\<lparr>srv_cloudflareTunnelStatus := ProxyError, srv_cloudflareTunnelError := Some message\<rparr>)))"

section \<open>Retention of logs\<close>

text \<open>
  \<open>new Date(t)\<close>: the fraction of a millisecond is cut off, and a time more than 8640000000000000 ms from the epoch
  gives an invalid date, on which the query throws.
\<close>

definition date_of :: "rat \<Rightarrow> int option" where
  "date_of t =
    (if \<bar>t\<bar> > 8640000000000000 then None else Some (if t < 0 then - \<lfloor>- t\<rfloor> else \<lfloor>t\<rfloor>))"

definition days_before :: "int \<Rightarrow> rat \<Rightarrow> int option" where
  "days_before now days = date_of (of_int now - days * 24 * 60 * 60 * 1000)"

text \<open>\<open>None\<close>: nothing is swept.\<close>

definition cutoff_of :: "rat \<Rightarrow> int \<Rightarrow> string option \<Rightarrow> int option option" where
  "cutoff_of default_days now envValue =
    (case (if str_truthy envValue then js_Number (the envValue) else Finite default_days) of
       Finite days \<Rightarrow> if days \<le> 0 then None else Some (days_before now days)
     | _ \<Rightarrow> None)"

definition retentionCutoff :: "int \<Rightarrow> string option \<Rightarrow> int option option" where
  "retentionCutoff = cutoff_of 90"

definition auditCutoff :: "int \<Rightarrow> string option \<Rightarrow> int option option" where
  "auditCutoff = cutoff_of 365"

definition before_cutoff :: "int \<Rightarrow> int option \<Rightarrow> bool" where
  "before_cutoff cutoff finishedAt = (case finishedAt of Some t \<Rightarrow> t < cutoff | None \<Rightarrow> False)"

definition clear_logs :: "int \<Rightarrow> unit uact" where
  "clear_logs cutoff = modify (\<lambda>s. s\<lparr>
     uk_deployments := map (\<lambda>x. if before_cutoff cutoff (dep_finishedAt x) then x\<lparr>dep_log := []\<rparr> else x) (uk_deployments s),
     uk_backupRuns := map (\<lambda>x. if before_cutoff cutoff (bex_finishedAt x) then x\<lparr>bex_log := []\<rparr> else x) (uk_backupRuns s),
     uk_cleanupRuns := map (\<lambda>x. if before_cutoff cutoff (dce_finishedAt x) then x\<lparr>dce_log := []\<rparr> else x) (uk_cleanupRuns s),
     uk_operations := map (\<lambda>x. if before_cutoff cutoff (pop_finishedAt x) then x\<lparr>pop_log := []\<rparr> else x) (uk_operations s),
     uk_taskRuns := map (\<lambda>x. if before_cutoff cutoff (ste_finishedAt x) then x\<lparr>ste_log := []\<rparr> else x) (uk_taskRuns s),
     uk_archives := map (\<lambda>x. if before_cutoff cutoff (vbk_finishedAt x) then x\<lparr>vbk_log := []\<rparr> else x) (uk_archives s)\<rparr>)"

definition swept :: "int option option \<Rightarrow> (int \<Rightarrow> unit uact) \<Rightarrow> unit uact" where
  "swept cutoff sweep' = (case cutoff of None \<Rightarrow> pure () | Some None \<Rightarrow> throw ''Invalid Date'' | Some (Some t) \<Rightarrow> sweep' t)"

definition logRetention :: "Runtime \<Rightarrow> string option \<Rightarrow> string option \<Rightarrow> unit uact" where
  "logRetention rt auditDays logDays =
    seqs
     [bind (clock rt) (\<lambda>now. swept (auditCutoff now auditDays)
        (\<lambda>cutoff. modify (\<lambda>s. s\<lparr>uk_audit := filter (\<lambda>e. \<not> aud_createdAt e < cutoff) (uk_audit s)\<rparr>))),
      bind (clock rt) (\<lambda>now. swept (retentionCutoff now logDays) clear_logs)]"

section \<open>Warnings\<close>

definition DAY_MS :: int where
  "DAY_MS = 1000 * 60 * 60 * 24"

definition expiring_tokens :: "int \<Rightarrow> ApiToken list \<Rightarrow> ApiToken list" where
  "expiring_tokens now tokens =
    filter (\<lambda>t. (case tok_expiresAt t of Some e \<Rightarrow> e \<le> now + 7 * DAY_MS | None \<Rightarrow> False) \<and> tok_expiryWarningSentAt t = None) tokens"

text \<open>\<open>ellipsis\<close> is the character U+2026 in UTF-8.\<close>

definition ellipsis :: string where
  "ellipsis = [CHR 0xE2, CHR 0x80, CHR 0xA6]"

definition token_warning :: "ApiToken \<Rightarrow> int \<Rightarrow> effect" where
  "token_warning token now =
    (let left = the (tok_expiresAt token) - now; days = max 0 (- (- left div DAY_MS));
         shown = ''The token '' @ [DQ] @ tok_name token @ [DQ] @ '' ('' @ tok_tokenPrefix token @ ellipsis @ '') ''
     in Notify (tok_teamId token) ''api-token.expiring''
          (''API token '' @ [DQ] @ tok_name token @ [DQ] @ '' expires in '' @ int_str days @ '' day(s)'')
          (if days \<le> 0
           then shown @ ''has expired or expires today '' @ em_dash @
             '' generate a new one in Keys & Tokens before scripts/CI that depend on it stop working.''
           else shown @ ''expires in '' @ int_str days @ '' day(s). Generate a new one in Keys & Tokens in good time if anything still depends on it.'')
          (if days \<le> 0 then LevelError else LevelWarning))"

definition warn_token :: "Runtime \<Rightarrow> ApiToken \<Rightarrow> unit uact" where
  "warn_token rt token =
    seqs
     [bind (clock rt) (\<lambda>now. emit (token_warning token now)),
      bind (clock rt) (\<lambda>now. modify (\<lambda>s. s\<lparr>uk_tokens := map (\<lambda>t. if tok_id t = tok_id token then t\<lparr>tok_expiryWarningSentAt := Some now\<rparr> else t)
        (uk_tokens s)\<rparr>))]"

definition apiTokenExpiry :: "Runtime \<Rightarrow> unit uact" where
  "apiTokenExpiry rt =
    bind (clock rt) (\<lambda>now. bind (gets (\<lambda>s. expiring_tokens now (uk_tokens s))) (\<lambda>rows. seqs (map (warn_token rt) rows)))"

text \<open>\<open>checkExpiry\<close> gives the end of the certificate a domain presents, or an error.\<close>

definition EXPIRY_THRESHOLD_DAYS :: int where
  "EXPIRY_THRESHOLD_DAYS = 14"

definition tls_warning :: "Runtime \<Rightarrow> string \<Rightarrow> string \<Rightarrow> int \<Rightarrow> int \<Rightarrow> effect" where
  "tls_warning rt teamId domain validTo days =
    Notify teamId ''tls.expiring'' (''Certificate for '' @ domain @ '' expires in '' @ int_str days @ '' day(s)'')
      (if days \<le> 0
       then ''The certificate for '' @ domain @ '' has expired or expires today '' @ em_dash @ '' Traefik'' @ [SQ] @ ''s automatic renewal may have failed.''
       else ''The certificate for '' @ domain @ '' expires in '' @ int_str days @ '' day(s) ('' @ take 10 (rt_toISOString rt validTo) @
         ''). If Traefik does not renew it on its own via Let'' @ [SQ] @ ''s Encrypt, check that port 80 is reachable and the DNS points to this server.'')
      (if days \<le> 0 then LevelError else LevelWarning)"

definition checkOne :: "Runtime \<Rightarrow> (effect list \<Rightarrow> string \<Rightarrow> string + int) \<Rightarrow> string \<times> string \<Rightarrow> unit uact" where
  "checkOne rt checkExpiry target =
    bind (gets (\<lambda>s. checkExpiry (js_trace s) (snd target))) (\<lambda>found. case found of
      Inl e \<Rightarrow> pure ()
    | Inr validTo \<Rightarrow> bind (clock rt) (\<lambda>now.
        (let days = (validTo - now) div DAY_MS
         in whenA (days \<le> EXPIRY_THRESHOLD_DAYS) (emit (tls_warning rt (fst target) (snd target) validTo days)))))"

definition tlsCheck :: "Runtime \<Rightarrow> (effect list \<Rightarrow> string \<Rightarrow> string + int) \<Rightarrow> unit uact" where
  "tlsCheck rt checkExpiry =
    bind (gets (\<lambda>s. List.map_filter (\<lambda>a. map_option (Pair (app_teamId a)) (app_domain a)) (uk_applications s) @
                    List.map_filter (\<lambda>x. map_option (Pair (svc_teamId x)) (svc_domain x)) (uk_services s))) (\<lambda>targets.
      seqs (map (checkOne rt checkExpiry) targets))"

section \<open>Intervals\<close>

definition intervalMsFromEnv :: "string option \<Rightarrow> rat \<Rightarrow> rat \<Rightarrow> rat \<Rightarrow> int" where
  "intervalMsFromEnv v defaultSeconds minSeconds maxSeconds =
    (let seconds = (case (if str_truthy v then js_Number (the v) else NaN) of
           Finite n \<Rightarrow> if n > 0 then n else defaultSeconds | _ \<Rightarrow> defaultSeconds)
     in \<lfloor>min maxSeconds (max minSeconds seconds) * 1000 + 1 / 2\<rfloor>)"

section \<open>Jobs with a history settle\<close>

lemmas write_defs = set_failure_def task_log_def set_task_run_def set_cleanup_run_def trim_task_runs_def trim_cleanup_runs_def
  set_servers_def set_certificate_def patch_settings_def clock_def row_where_def

lemma returns_clock [returns_rules]: "returns (clock rt)" "returns (row_where rows P)"
  by (simp_all add: clock_def row_where_def returns_rules)

lemma returns_upkeep_writes [returns_rules]:
  "returns (set_failure m)" "returns (task_log c)" "returns (set_task_run i f)" "returns (set_cleanup_run i g)" "returns (trim_task_runs t)"
  "returns (trim_cleanup_runs t)" "returns (patch_settings rt n h)"
  unfolding write_defs by (intro returns_rules)+

lemma returns_disconnect [returns_rules]: "returns disconnect"
  unfolding disconnect_def by (intro returns_rules)

lemma disconnect_closes: "\<not> uk_conn (snd (disconnect s))"
  by (simp add: disconnect_def bind_def gets_def whenA_def pure_def andThen_def emit_def modify_def)

lemma snd_finally: "snd (finally_do m f s) = snd (f (snd (m s)))"
  by (simp add: finally_do_def case_prod_unfold split: sum.split)

lemma finally_closes: "\<not> uk_conn (snd (finally_do m disconnect s))"
  by (simp add: snd_finally disconnect_closes)

lemma upkeep_connectSsh_conn: "uk_conn (snd (connectSsh rt m a s)) = uk_conn s"
  by (auto simp: connectSsh_def emit_def act_defs bind_def andThen_def split: option.split)

lemma with_server_closes: "keeps (\<lambda>s. \<not> uk_conn s) (with_server rt server body)"
  using upkeep_connectSsh_conn [of rt Target "srv_host server"] finally_closes
  by (auto simp: keeps_def with_server_def connect_server_def andThen_def snd_bind fst_bind modify_def split: sum.split)

lemma with_server_ensures: "ensures Q body \<Longrightarrow> keeps Q disconnect \<Longrightarrow> ensures Q (with_server rt server body)"
  unfolding with_server_def
  by (rule ensures_last) (auto simp: ensures_def keeps_def finally_do_def case_prod_unfold split: sum.splits)

text \<open>An action that always returns, with an invariant.\<close>

definition always :: "('s \<Rightarrow> bool) \<Rightarrow> ('s, unit) act \<Rightarrow> ('s \<Rightarrow> bool) \<Rightarrow> bool" where
  "always P m Q \<longleftrightarrow> (\<forall>s. P s \<longrightarrow> fst (m s) = Inr () \<and> Q (snd (m s)))"

lemma always_keeps: "returns m \<Longrightarrow> keeps P m \<Longrightarrow> always P m P"
  unfolding always_def returns_def keeps_def by (metis (full_types) old.unit.exhaust)

lemma always_ensures: "returns m \<Longrightarrow> ensures Q m \<Longrightarrow> keeps P m \<Longrightarrow> always P m (\<lambda>s. P s \<and> Q s)"
  unfolding always_def returns_def keeps_def ensures_def by (metis (full_types) old.unit.exhaust)

lemma always_seqs: "always P (seqs []) P" "always P m Q \<Longrightarrow> always Q (seqs ms) R \<Longrightarrow> always P (seqs (m # ms)) R"
  by (auto simp: always_def pure_def andThen_def fst_bind snd_bind)

lemma always_modify: "(\<And>s. P s \<Longrightarrow> Q (f s)) \<Longrightarrow> always P (modify f) Q"
  by (simp add: always_def modify_def)

lemma always_gets: "(\<And>x. always (\<lambda>s. P s \<and> x = f s) (k x) Q) \<Longrightarrow> always P (bind (gets f) k) Q"
  by (auto simp: always_def)

text \<open>Of a sorted history, deleting the rows after the first \<open>n\<close> leaves at most \<open>n\<close>.\<close>

lemma trimmed_length: "length (filter (\<lambda>x. key x \<notin> set (map key (drop n (sort_by cmp ys)))) ys) \<le> n"
proof -
  define zs where "zs = sort_by cmp ys"
  let ?Q = "\<lambda>x. key x \<notin> set (map key (drop n zs))"
  have "length (filter ?Q ys) = length (filter ?Q zs)"
    unfolding size_mset [symmetric] mset_filter zs_def by simp
  also have "\<dots> = length (filter ?Q (take n zs)) + length (filter ?Q (drop n zs))"
    by (simp only: filter_append [symmetric] length_append [symmetric] append_take_drop_id)
  also have "filter ?Q (drop n zs) = []" by (simp add: filter_empty_conv)
  also have "length (filter ?Q (take n zs)) + length [] \<le> n" using length_filter_le [of ?Q "take n zs"] by simp
  finally show ?thesis unfolding zs_def .
qed

lemma list_all_keyed_update:
  "(\<And>x. key x = i \<Longrightarrow> P (f x)) \<Longrightarrow> (\<And>x. key x \<noteq> i \<Longrightarrow> P x) \<Longrightarrow> list_all P (map (\<lambda>x. if key x = i then f x else x) xs)"
  by (auto simp: list_all_iff)

lemma filter_swap: "filter P (filter Q xs) = filter Q (filter P xs)"
  by (induction xs) auto

definition task_done :: "string \<Rightarrow> UpkeepState \<Rightarrow> bool" where
  "task_done i s \<longleftrightarrow> list_all (\<lambda>x. ste_id x = i \<longrightarrow> ste_status x \<noteq> TaskRunning \<and> ste_finishedAt x \<noteq> None \<and>
     length (ste_log x) \<le> MAX_TASK_LOG_BYTES + length TRUNCATED) (uk_taskRuns s)"

definition capped :: "UpkeepState \<Rightarrow> bool" where
  "capped s \<longleftrightarrow> length (js_log s) \<le> MAX_TASK_LOG_BYTES + length TRUNCATED"

definition task_history :: "string \<Rightarrow> UpkeepState \<Rightarrow> bool" where
  "task_history t s \<longleftrightarrow> length (filter (\<lambda>x. ste_taskId x = t) (uk_taskRuns s)) \<le> KEEP_EXECUTIONS"

lemma appendCapped_bound: "length current \<le> n + length TRUNCATED \<Longrightarrow> length (appendCapped n current chunk) \<le> n + length TRUNCATED"
  by (auto simp: appendCapped_def Let_def)

lemma capped_log: "keeps capped (task_log c)"
  unfolding task_log_def by (rule keeps_modify) (simp add: capped_def appendCapped_bound)

lemma quiet_trace: "trace_only capped" "trace_only (\<lambda>s. \<not> uk_conn s)" "trace_only (task_done i)" "trace_only (task_history t)"
  by (simp_all add: trace_only_def capped_def task_done_def task_history_def)

lemma capped_task_body: "keeps capped (task_body rt limit task application server)"
  unfolding task_body_def connect_server_def run_task_command_def seqs.simps write_defs
  by (intro keeps_rules keeps_calls quiet_trace capped_log [unfolded task_log_def] keeps_modify) (simp_all add: capped_def)

lemma capped_disconnect: "keeps capped disconnect"
  unfolding disconnect_def by (intro keeps_rules keeps_emit quiet_trace keeps_modify) (simp add: capped_def)

lemma task_ran:
  "always capped (finally_do (catch (task_body rt limit task application server) set_failure) disconnect) (\<lambda>s. capped s \<and> \<not> uk_conn s)"
proof (rule always_ensures)
  show "returns (finally_do (catch (task_body rt limit task application server) set_failure) disconnect)"
    by (intro returns_finally returns_catch returns_rules)
  show "keeps capped (finally_do (catch (task_body rt limit task application server) set_failure) disconnect)"
    unfolding set_failure_def
    by (intro keeps_rules capped_task_body capped_disconnect keeps_modify) (simp add: capped_def)
qed (simp add: ensures_def finally_closes)

definition task_settled :: "string \<Rightarrow> string \<Rightarrow> UpkeepState \<Rightarrow> bool" where
  "task_settled i t s \<longleftrightarrow> task_done i s \<and> task_history t s \<and> \<not> uk_conn s"

lemma task_done_set:
  assumes "\<And>x. ste_status (f x) \<noteq> TaskRunning \<and> ste_finishedAt (f x) \<noteq> None \<and> length (ste_log (f x)) \<le> MAX_TASK_LOG_BYTES + length TRUNCATED"
  shows "task_done i (s\<lparr>uk_taskRuns := map (\<lambda>x. if ste_id x = i then f x else x) (uk_taskRuns s)\<rparr>)"
proof -
  have "uk_taskRuns (s\<lparr>uk_taskRuns := rows\<rparr>) = rows" for rows by simp
  then show ?thesis unfolding task_done_def using assms
    by (simp only:) (intro list_all_keyed_update [where key = ste_id]; simp)
qed

lemma task_row_written:
  "always (\<lambda>s. capped s \<and> \<not> uk_conn s)
     (bind (clock rt) (\<lambda>now. bind (gets js_log) (\<lambda>log.
        set_task_run i (\<lambda>x. x\<lparr>ste_status := (if bad then TaskFailed else TaskSuccess), ste_log := log, ste_exitCode := c, ste_finishedAt := Some now\<rparr>))))
     (\<lambda>s. task_done i s \<and> \<not> uk_conn s)"
  unfolding clock_def set_task_run_def
  by (intro always_gets always_modify conjI task_done_set) (auto simp: capped_def)

lemma task_trimmed: "always (\<lambda>s. task_done i s \<and> \<not> uk_conn s) (trim_task_runs t) (task_settled i t)"
  unfolding trim_task_runs_def
proof (rule always_modify)
  fix s assume d: "task_done i s \<and> \<not> uk_conn s"
  have "length (filter (\<lambda>x. ste_taskId x = t) (filter (\<lambda>x. ste_id x \<notin> set (old_task_runs t (uk_taskRuns s))) (uk_taskRuns s))) \<le> KEEP_EXECUTIONS"
    unfolding old_task_runs_def by (subst filter_swap) (rule trimmed_length)
  with d show "task_settled i t (s\<lparr>uk_taskRuns := filter (\<lambda>x. ste_id x \<notin> set (old_task_runs t (uk_taskRuns s))) (uk_taskRuns s)\<rparr>)"
    by (auto simp: task_settled_def task_done_def task_history_def list_all_iff)
qed

lemma task_result_settles: "always (\<lambda>s. capped s \<and> \<not> uk_conn s) (task_result rt i task application) (task_settled i (stk_id task))"
proof -
  have settled: "trace_only (task_settled i (stk_id task))"
    by (simp add: trace_only_def task_settled_def task_done_def task_history_def)
  have tail: "always (task_settled i (stk_id task)) (if bad then emit e else emit e') (task_settled i (stk_id task))"
    "always (task_settled i (stk_id task)) (bind (gets js_log) (\<lambda>log. emit (g log))) (task_settled i (stk_id task))" for bad e e' g
    by (intro always_keeps returns_rules keeps_rules keeps_emit settled)+
  have mark: "always (\<lambda>s. capped s \<and> \<not> uk_conn s) (whenA bad (task_log c)) (\<lambda>s. capped s \<and> \<not> uk_conn s)" for bad c
    by (auto simp: always_def whenA_def pure_def task_log_def modify_def capped_def intro: appendCapped_bound)
  show ?thesis
    unfolding task_result_def Let_def
    by (simp only: always_def bind_simps)
      (intro allI impI, rule always_seqs(2) [OF mark always_seqs(2) [OF task_row_written always_seqs(2) [OF task_trimmed
         always_seqs(2) [OF tail(1) always_seqs(2) [OF tail(2) always_seqs(1)]]]], unfolded always_def, rule_format])
qed

lemma run_task_settles: "always (\<lambda>s. True) (run_task rt limit i manual task application server) (task_settled i (stk_id task))"
proof -
  have insert: "always (\<lambda>s. True) (bind (clock rt) (\<lambda>now. modify (f now))) (\<lambda>s. True)" for f
    by (simp add: always_def clock_def modify_def)
  have fresh: "always (\<lambda>s. True) fresh_task capped"
    unfolding fresh_task_def by (rule always_modify) (simp add: capped_def)
  show ?thesis unfolding run_task_def
    by (rule always_seqs(2) [OF insert always_seqs(2) [OF fresh always_seqs(2) [OF task_ran always_seqs(2) [OF task_result_settles always_seqs(1)]]]])
qed

subsection \<open>Cleanups\<close>

definition cleanup_done :: "string \<Rightarrow> UpkeepState \<Rightarrow> bool" where
  "cleanup_done i s \<longleftrightarrow> list_all (\<lambda>x. dce_id x = i \<longrightarrow> dce_status x \<in> {ExecutionSuccess, ExecutionFailed} \<and> dce_finishedAt x \<noteq> None) (uk_cleanupRuns s)"

definition cleanup_history :: "string \<Rightarrow> UpkeepState \<Rightarrow> bool" where
  "cleanup_history t s \<longleftrightarrow> length (filter (\<lambda>x. dce_serverId x = t) (uk_cleanupRuns s)) \<le> KEEP_CLEANUPS"

definition cleanup_settled :: "string \<Rightarrow> string \<Rightarrow> UpkeepState \<Rightarrow> bool" where
  "cleanup_settled i t s \<longleftrightarrow> cleanup_done i s \<and> cleanup_history t s \<and> \<not> uk_conn s"

lemma cleanup_done_set:
  assumes "\<And>x. dce_status (f x) \<in> {ExecutionSuccess, ExecutionFailed} \<and> dce_finishedAt (f x) \<noteq> None"
  shows "cleanup_done i (s\<lparr>uk_cleanupRuns := map (\<lambda>x. if dce_id x = i then f x else x) (uk_cleanupRuns s)\<rparr>)"
proof -
  have "uk_cleanupRuns (s\<lparr>uk_cleanupRuns := rows\<rparr>) = rows" for rows by simp
  then show ?thesis unfolding cleanup_done_def using assms
    by (simp only:) (intro list_all_keyed_update [where key = dce_id]; simp)
qed

lemma cleanup_written:
  assumes "\<And>now x. dce_status (f now x) \<in> {ExecutionSuccess, ExecutionFailed} \<and> dce_finishedAt (f now x) \<noteq> None"
  shows "ensures (cleanup_done i) (bind (clock rt) (\<lambda>now. set_cleanup_run i (f now)))"
  unfolding clock_def set_cleanup_run_def ensures_def bind_simps modify_def
  using cleanup_done_set [OF assms] by simp

lemma cleanup_trace: "trace_only (cleanup_done i)"
  by (simp add: trace_only_def cleanup_done_def)

lemma cleanup_done_disconnect: "keeps (cleanup_done i) disconnect"
  unfolding disconnect_def by (intro keeps_rules keeps_emit cleanup_trace keeps_modify) (simp add: cleanup_done_def)

lemma cleanup_body_done: "ensures (cleanup_done i) (cleanup_body rt i schedule server)"
  unfolding cleanup_body_def Let_def seqs.simps
  by (intro ensures_bind ensures_last ensures_kept [OF cleanup_written] keeps_rules keeps_emit cleanup_trace) simp

lemma cleanup_failed_done: "ensures (cleanup_done i) (cleanup_failed rt i server message)"
  unfolding cleanup_failed_def seqs.simps
  by (intro ensures_kept [OF cleanup_written] keeps_rules keeps_emit cleanup_trace) simp

interpretation cleanup_job: settling "cleanup_done i" "\<lambda>s. True" "with_server rt server (cleanup_body rt i schedule server)"
    "cleanup_failed rt i server" "pure ()" for rt i schedule server
proof
  show "returns (cleanup_failed rt i server e)" for e
    unfolding cleanup_failed_def by (intro returns_rules)
qed (simp_all add: with_server_ensures cleanup_body_done cleanup_done_disconnect cleanup_failed_done keeps_pure returns_rules ensures_def [of "\<lambda>s. True"])

lemma cleanup_ran:
  "always (\<lambda>s. \<not> uk_conn s) (catch (with_server rt server (cleanup_body rt i schedule server)) (cleanup_failed rt i server))
    (\<lambda>s. \<not> uk_conn s \<and> cleanup_done i s)"
proof (rule always_ensures)
  show "returns (catch (with_server rt server (cleanup_body rt i schedule server)) (cleanup_failed rt i server))"
    by (rule returns_catch) (rule cleanup_job.handler_returns)
  have "keeps (\<lambda>s. \<not> uk_conn s) (cleanup_failed rt i server e)" for e
    unfolding cleanup_failed_def write_defs by (intro keeps_rules keeps_emit quiet_trace keeps_modify) simp
  then show "keeps (\<lambda>s. \<not> uk_conn s) (catch (with_server rt server (cleanup_body rt i schedule server)) (cleanup_failed rt i server))"
    by (intro keeps_rules with_server_closes)
qed (simp add: ensures_def cleanup_job.settled_after)

lemma cleanup_trimmed: "always (\<lambda>s. \<not> uk_conn s \<and> cleanup_done i s) (trim_cleanup_runs t) (cleanup_settled i t)"
  unfolding trim_cleanup_runs_def
proof (rule always_modify)
  fix s assume d: "\<not> uk_conn s \<and> cleanup_done i s"
  have "length (filter (\<lambda>x. dce_serverId x = t) (filter (\<lambda>x. dce_id x \<notin> set (doomed_cleanup_runs t (uk_cleanupRuns s))) (uk_cleanupRuns s))) \<le> KEEP_CLEANUPS"
    unfolding doomed_cleanup_runs_def by (subst filter_swap) (rule trimmed_length)
  with d show "cleanup_settled i t (s\<lparr>uk_cleanupRuns := filter (\<lambda>x. dce_id x \<notin> set (doomed_cleanup_runs t (uk_cleanupRuns s))) (uk_cleanupRuns s)\<rparr>)"
    by (auto simp: cleanup_settled_def cleanup_done_def cleanup_history_def list_all_iff)
qed

lemma run_cleanup_settles: "always (\<lambda>s. True) (run_cleanup rt i manual schedule server) (cleanup_settled i (srv_id server))"
proof -
  have insert: "always (\<lambda>s. True) (bind (clock rt) (\<lambda>now. modify (f now))) (\<lambda>s. True)" for f
    by (simp add: always_def clock_def modify_def)
  have fresh: "always (\<lambda>s. True) (modify (\<lambda>s. s\<lparr>uk_conn := False\<rparr>)) (\<lambda>s. \<not> uk_conn s)" by (rule always_modify) simp
  show ?thesis unfolding run_cleanup_def
    by (rule always_seqs(2) [OF insert always_seqs(2) [OF fresh always_seqs(2) [OF cleanup_ran always_seqs(2) [OF cleanup_trimmed always_seqs(1)]]]])
qed

subsection \<open>Backups of the panel\<close>

definition instance_done :: "UpkeepState \<Rightarrow> bool" where
  "instance_done s \<longleftrightarrow> ins_backupLastStatus (getInstanceBackupSettings (uk_settings s)) \<in> {Some ''success'', Some ''failed''}"

lemma settings_patched:
  "ins_backupLastStatus (patch r) = st \<Longrightarrow> (\<And>r. ins_backupLastStatus (patch r) = st) \<Longrightarrow>
    ins_backupLastStatus (getInstanceBackupSettings (updateInstanceBackupColumns n now patch rows)) = st"
  by (cases rows) (auto simp: getInstanceBackupSettings_def updateInstanceBackupColumns_def)

lemma patch_done:
  assumes "\<And>r. ins_backupLastStatus (patch r) = Some st" and "st \<in> {''success'', ''failed''}"
  shows "ensures instance_done (patch_settings rt n patch)"
  using assms settings_patched [where patch = patch and st = "Some st"]
  by (auto simp: ensures_def patch_settings_def clock_def modify_def instance_done_def)

lemma patch_closed: "keeps (\<lambda>s. \<not> uk_conn s) (patch_settings rt n patch)"
  unfolding patch_settings_def clock_def by (intro keeps_rules keeps_modify) simp

lemma connected_result_closes: "keeps (\<lambda>s. \<not> uk_conn s) (connected_result rt server body)"
  using upkeep_connectSsh_conn [of rt Target "srv_host server"] disconnect_closes
  by (auto simp: keeps_def connected_result_def connect_server_def andThen_def snd_bind fst_bind modify_def case_prod_unfold
      split: sum.split)

lemma instance_body_rules:
  "ensures instance_done (instance_body rt ib settings storage_opt server_opt)"
  "keeps (\<lambda>s. \<not> uk_conn s) (instance_body rt ib settings storage_opt server_opt)"
proof -
  have stop: "ensures instance_done (throw e)" for e by (simp add: ensures_def throw_def)
  show "ensures instance_done (instance_body rt ib settings storage_opt server_opt)"
    unfolding instance_body_def Let_def
    by (auto split: option.split intro!: stop ensures_last ensures_bind patch_done [where st = "''success''"])
  show "keeps (\<lambda>s. \<not> uk_conn s) (instance_body rt ib settings storage_opt server_opt)"
    unfolding instance_body_def Let_def clock_def
    by (intro keeps_rules keeps_modify connected_result_closes patch_closed) simp
qed

lemma instance_failed_rules:
  "returns (instance_failed rt ib message)" "ensures instance_done (instance_failed rt ib message)"
  "keeps (\<lambda>s. \<not> uk_conn s) (instance_failed rt ib message)"
proof -
  have tail: "trace_only instance_done" by (simp add: trace_only_def instance_done_def)
  show "returns (instance_failed rt ib message)" unfolding instance_failed_def by (intro returns_rules)
  show "ensures instance_done (instance_failed rt ib message)"
    unfolding instance_failed_def
    by (intro ensures_kept [OF patch_done [where st = "''failed''"]] keeps_rules keeps_emit tail) simp_all
  show "keeps (\<lambda>s. \<not> uk_conn s) (instance_failed rt ib message)"
    unfolding instance_failed_def by (intro keeps_rules keeps_emit quiet_trace patch_closed)
qed

interpretation instance_job: settling instance_done "\<lambda>s. True" "instance_body rt ib settings storage_opt server_opt"
    "instance_failed rt ib" "pure ()" for rt ib settings storage_opt server_opt
  by unfold_locales (simp_all add: instance_body_rules instance_failed_rules keeps_pure returns_rules ensures_def [of "\<lambda>s. True"])

lemma instance_ran:
  "always (\<lambda>s. \<not> uk_conn s) (catch (instance_body rt ib settings storage_opt server_opt) (instance_failed rt ib))
    (\<lambda>s. \<not> uk_conn s \<and> instance_done s)"
  by (intro always_ensures returns_catch instance_failed_rules keeps_rules instance_body_rules)
    (simp add: ensures_def instance_job.settled_after)

lemma run_instance_settles: "always (\<lambda>s. True) (run_instance_backup rt ib settings) (\<lambda>s. \<not> uk_conn s \<and> instance_done s)"
proof -
  have mark: "always (\<lambda>s. True) (patch_settings rt n patch) (\<lambda>s. True)" for n patch
    by (simp add: always_def patch_settings_def clock_def modify_def)
  have fresh: "always (\<lambda>s. True) (modify (\<lambda>s. s\<lparr>uk_conn := False, uk_notifyTeam := x\<rparr>)) (\<lambda>s. \<not> uk_conn s)" for x
    by (rule always_modify) simp
  have steps: "always (\<lambda>s. True) (seqs [patch_settings rt n patch, modify (\<lambda>s. s\<lparr>uk_conn := False, uk_notifyTeam := x\<rparr>),
      catch (instance_body rt ib settings storage_opt server_opt) (instance_failed rt ib)]) (\<lambda>s. \<not> uk_conn s \<and> instance_done s)"
    for n patch x storage_opt server_opt
    by (rule always_seqs(2) [OF mark always_seqs(2) [OF fresh always_seqs(2) [OF instance_ran always_seqs(1)]]])
  show ?thesis
    using steps unfolding run_instance_backup_def row_where_def always_def
    by (auto split: option.split if_split)
qed

subsection \<open>The handlers\<close>

definition settles_or_skips :: "(UpkeepState \<Rightarrow> bool) \<Rightarrow> UpkeepState \<Rightarrow> (string + unit) \<times> UpkeepState \<Rightarrow> bool" where
  "settles_or_skips settled s r \<longleftrightarrow> fst r = Inr () \<and> (snd r = s \<or> settled (snd r))"


section \<open>A cleanup spares the images of rollbacks\<close>

text \<open>
  What the options of a cleanup have to be like, given the effects of the run: no image is removed, or nothing is kept
  for rollbacks, or the images are removed one by one and none of them carries a kept reference in the listing the
  server gave.
\<close>

definition spares :: "Runtime \<Rightarrow> string \<Rightarrow> UpkeepState \<Rightarrow> effect set \<Rightarrow> DockerCleanupOptions \<Rightarrow> bool" where
  "spares rt serverId s effects opts \<longleftrightarrow>
    \<not> dco_pruneImages opts \<or> rollbackImageRefs rt serverId s = [] \<or>
    (\<exists>ids exit_code chunks. dco_removeImageIds opts = Some ids \<and>
       Exec Target dockerImagesCommand (ExecClosed exit_code chunks) \<in> effects \<and>
       (\<forall>row \<in> set (parseDockerImages (concat (map fst (filter snd chunks)))).
          img_ref row \<in> set (rollbackImageRefs rt serverId s) \<longrightarrow> img_id row \<notin> set ids))"

definition cleanup_effect :: "Runtime \<Rightarrow> string \<Rightarrow> UpkeepState \<Rightarrow> effect set \<Rightarrow> effect \<Rightarrow> bool" where
  "cleanup_effect rt serverId s effects e \<longleftrightarrow>
    (\<forall>m cmd out. e = Exec m cmd out \<longrightarrow> cmd = dockerImagesCommand \<or> (\<exists>opts. cmd = buildHostCleanupCommand opts \<and> spares rt serverId s effects opts))"

definition new_effects :: "UpkeepState \<Rightarrow> UpkeepState \<Rightarrow> effect set" where
  "new_effects s t = set (drop (length (js_trace s)) (js_trace t))"

definition sparing :: "Runtime \<Rightarrow> string \<Rightarrow> UpkeepState \<Rightarrow> UpkeepState \<Rightarrow> bool" where
  "sparing rt serverId s t \<longleftrightarrow> uk_applications t = uk_applications s \<and> uk_deployments t = uk_deployments s \<and>
     length (js_trace s) \<le> length (js_trace t) \<and> (\<forall>e \<in> new_effects s t. cleanup_effect rt serverId s (new_effects s t) e)"

lemma spares_mono: "M \<subseteq> N \<Longrightarrow> spares rt i s M opts \<Longrightarrow> spares rt i s N opts"
  unfolding spares_def by blast

lemma cleanup_effect_mono: "M \<subseteq> N \<Longrightarrow> cleanup_effect rt i s M e \<Longrightarrow> cleanup_effect rt i s N e"
  unfolding cleanup_effect_def by (metis spares_mono)

lemma new_effects_add:
  "length (js_trace s) \<le> length (js_trace t) \<Longrightarrow> new_effects s (t\<lparr>js_trace := js_trace t @ [e]\<rparr>) = insert e (new_effects s t)"
  by (auto simp: new_effects_def)

lemma sparing_add:
  assumes "sparing rt i s t" and "cleanup_effect rt i s (insert e (new_effects s t)) e"
  shows "sparing rt i s (t\<lparr>js_trace := js_trace t @ [e]\<rparr>)"
  using assms cleanup_effect_mono [of "new_effects s t" "insert e (new_effects s t)" rt i s]
  by (auto simp: sparing_def new_effects_add)

lemma sparing_quiet: "(\<And>m cmd out. e \<noteq> Exec m cmd out) \<Longrightarrow> sparing rt i s t \<Longrightarrow> sparing rt i s (t\<lparr>js_trace := js_trace t @ [e]\<rparr>)"
  by (rule sparing_add) (simp_all add: cleanup_effect_def)

lemma sparing_refs: "sparing rt i s t \<Longrightarrow> rollbackImageRefs rt i t = rollbackImageRefs rt i s"
  by (simp add: sparing_def rollbackImageRefs_def retained_deployments_def)

lemma sparing_modify:
  "(\<And>t. uk_applications (f t) = uk_applications t \<and> uk_deployments (f t) = uk_deployments t \<and> js_trace (f t) = js_trace t) \<Longrightarrow>
    keeps (sparing rt i s) (modify f)"
  by (rule keeps_modify) (simp add: sparing_def new_effects_def)

lemma keeps_triple: "triple I m (\<lambda>x. I) I \<Longrightarrow> keeps I m"
  by (fastforce simp: triple_def keeps_def split: sum.splits)

lemma spares_selected:
  assumes "Exec Target dockerImagesCommand (ExecClosed c chunks) \<in> M" and "refs = rollbackImageRefs rt i s"
  shows "spares rt i s M (opts\<lparr>dco_removeImageIds := Some (selectImagesToRemove (parseDockerImages (concat (map fst (filter snd chunks)))) refs)\<rparr>)"
  using assms by (auto simp: spares_def Docker.cleanup_selects_unprotected)

lemma options_spare:
  "triple (sparing rt i s) (cleanup_options rt i schedule) (\<lambda>opts t. sparing rt i s t \<and> spares rt i s (new_effects s t) opts) (sparing rt i s)"
proof -
  have listing: "triple (sparing rt i s) (exec_stdout rt Target dockerImagesCommand)
      (\<lambda>listing t. sparing rt i s t \<and> (\<exists>c chunks. Exec Target dockerImagesCommand (ExecClosed c chunks) \<in> new_effects s t \<and>
         listing = concat (map fst (filter snd chunks)))) (sparing rt i s)"
    unfolding exec_stdout_def
  proof (rule triple_bind)
    show "triple (sparing rt i s) (execStream rt Target dockerImagesCommand)
      (\<lambda>r t. sparing rt i s t \<and> (\<exists>c. Exec Target dockerImagesCommand (ExecClosed c (snd r)) \<in> new_effects s t)) (sparing rt i s)"
      unfolding triple_def
    proof (intro allI impI)
      fix t assume t: "sparing rt i s t"
      define out where "out = rt_exec rt (js_trace t) Target dockerImagesCommand"
      define u where "u = t\<lparr>js_trace := js_trace t @ [Exec Target dockerImagesCommand out]\<rparr>"
      have "sparing rt i s u" unfolding u_def by (rule sparing_add [OF t]) (simp add: cleanup_effect_def)
      moreover have "Exec Target dockerImagesCommand out \<in> new_effects s u"
        unfolding u_def using t by (simp add: new_effects_add sparing_def)
      moreover have "execStream rt Target dockerImagesCommand t =
          (case out of ExecRejected e \<Rightarrow> (Inl e, u) | ExecClosed c chunks \<Rightarrow> (Inr (default 0 c, chunks), u))"
        unfolding execStream_eval Let_def u_def out_def ..
      ultimately show "case fst (execStream rt Target dockerImagesCommand t) of Inl e \<Rightarrow> sparing rt i s (snd (execStream rt Target dockerImagesCommand t))
        | Inr r \<Rightarrow> sparing rt i s (snd (execStream rt Target dockerImagesCommand t)) \<and>
            (\<exists>c. Exec Target dockerImagesCommand (ExecClosed c (snd r)) \<in> new_effects s (snd (execStream rt Target dockerImagesCommand t)))"
        by (cases out) auto
    qed
  next
    show "triple (\<lambda>t. sparing rt i s t \<and> (\<exists>c. Exec Target dockerImagesCommand (ExecClosed c (snd r)) \<in> new_effects s t))
        (pure (concat (map fst (filter snd (snd r)))))
        (\<lambda>listing t. sparing rt i s t \<and> (\<exists>c chunks. Exec Target dockerImagesCommand (ExecClosed c chunks) \<in> new_effects s t \<and>
           listing = concat (map fst (filter snd chunks)))) (sparing rt i s)" for r
      by (rule triple_basic(1)) auto
  qed
  have given: "(H \<Longrightarrow> triple P m Q E) \<Longrightarrow> triple (\<lambda>s. P s \<and> H) m Q E" for H P m Q E by (auto simp: triple_def)
  show ?thesis
    unfolding cleanup_options_def Let_def
  proof (rule triple_if, rule triple_basic(1))
    show "triple (sparing rt i s) (bind (gets (rollbackImageRefs rt i)) (\<lambda>refs. if refs = [] then pure opts
        else bind (exec_stdout rt Target dockerImagesCommand) (\<lambda>listing.
          pure (opts\<lparr>dco_removeImageIds := Some (selectImagesToRemove (parseDockerImages listing) refs)\<rparr>))))
        (\<lambda>opts t. sparing rt i s t \<and> spares rt i s (new_effects s t) opts) (sparing rt i s)" for opts
    proof (rule triple_bind, rule triple_basic(3))
      show "sparing rt i s t \<and> rollbackImageRefs rt i t = rollbackImageRefs rt i s" if "sparing rt i s t" for t
        using that sparing_refs by blast
      show "triple (\<lambda>t. sparing rt i s t \<and> refs = rollbackImageRefs rt i s) (if refs = [] then pure opts
          else bind (exec_stdout rt Target dockerImagesCommand) (\<lambda>listing.
            pure (opts\<lparr>dco_removeImageIds := Some (selectImagesToRemove (parseDockerImages listing) refs)\<rparr>)))
          (\<lambda>opts t. sparing rt i s t \<and> spares rt i s (new_effects s t) opts) (sparing rt i s)" for refs
      proof (rule given, rule triple_if)
        assume "refs = rollbackImageRefs rt i s" "refs = []"
        then show "triple (sparing rt i s) (pure opts) (\<lambda>opts t. sparing rt i s t \<and> spares rt i s (new_effects s t) opts) (sparing rt i s)"
          by (intro triple_basic(1)) (simp add: spares_def)
      next
        assume refs: "refs = rollbackImageRefs rt i s"
        show "triple (sparing rt i s) (bind (exec_stdout rt Target dockerImagesCommand) (\<lambda>listing.
            pure (opts\<lparr>dco_removeImageIds := Some (selectImagesToRemove (parseDockerImages listing) refs)\<rparr>)))
            (\<lambda>opts t. sparing rt i s t \<and> spares rt i s (new_effects s t) opts) (sparing rt i s)"
          by (rule triple_bind [OF listing], rule triple_basic(1)) (auto intro: spares_selected [OF _ refs])
      qed
    qed
  qed (simp add: spares_def)
qed

lemma cleanup_body_sparing: "keeps (sparing rt (srv_id server) s) (cleanup_body rt i schedule server)"
proof (rule keeps_triple)
  let ?I = "sparing rt (srv_id server) s"
  have exec: "triple (\<lambda>t. ?I t \<and> spares rt (srv_id server) s (new_effects s t) opts) (execStream rt Target (buildHostCleanupCommand opts))
      (\<lambda>r. ?I) ?I" for opts
  proof -
    have add: "?I (t\<lparr>js_trace := js_trace t @ [Exec Target (buildHostCleanupCommand opts) out]\<rparr>)"
      if "?I t \<and> spares rt (srv_id server) s (new_effects s t) opts" for t out
      using that by (intro sparing_add) (auto simp: cleanup_effect_def intro: spares_mono [OF subset_insertI])
    show ?thesis
      unfolding triple_def execStream_eval Let_def using add by (auto split: outcome.split)
  qed
  have rest: "triple ?I (seqs [whenA b (throw e), bind (clock rt) (\<lambda>now. set_cleanup_run i (f now)), emit (Notify a1 a2 a3 a4 a5)])
      (\<lambda>u. ?I) ?I" for b e f a1 a2 a3 a4 a5
    unfolding clock_def set_cleanup_run_def seqs.simps
    by (rule triple_keeps) (intro keeps_rules sparing_modify keeps_emit_by sparing_quiet; simp)
  show "triple ?I (cleanup_body rt i schedule server) (\<lambda>u. ?I) ?I"
    unfolding cleanup_body_def Let_def
    by (rule triple_bind [OF options_spare], rule triple_bind [OF exec], rule rest)
qed

lemma connection_sparing: "keeps (sparing rt i s) (connect_server rt server)" "keeps (sparing rt i s) disconnect"
  unfolding connect_server_def disconnect_def
  by (intro keeps_rules sparing_modify keeps_connectSsh_by keeps_emit_by sparing_quiet; simp)+

lemma run_cleanup_sparing: "keeps (sparing rt (srv_id server) s) (run_cleanup rt i manual schedule server)"
proof -
  have failed: "keeps (sparing rt (srv_id server) s) (cleanup_failed rt i server message)" for message
    unfolding cleanup_failed_def clock_def set_cleanup_run_def
    by (intro keeps_rules sparing_modify keeps_emit_by sparing_quiet; simp)
  show ?thesis
    unfolding run_cleanup_def with_server_def clock_def trim_cleanup_runs_def
    by (intro keeps_rules sparing_modify connection_sparing cleanup_body_sparing failed; simp)
qed

text \<open>
  C35: a cleanup spares the images kept for rollbacks. Every command a cleanup runs on a server is the listing of the
  images or the cleanup itself, and a cleanup that removes images while an application of the server keeps images for
  rollbacks leaves the blanket option out and removes only listed ids: none of them is the id of an image that
  has, in the listing the server gave, the reference of one of the kept deployments.
\<close>
theorem cleanup_spares_rollback_images:
  assumes "js_trace (snd (dockerCleanup rt i serverId manual s)) = js_trace s @ es" and "Exec m cmd out \<in> set es"
  shows "cmd = dockerImagesCommand \<or> (\<exists>opts. cmd = buildHostCleanupCommand opts \<and> spares rt serverId s (set es) opts)"
proof -
  have "sparing rt serverId s (snd (dockerCleanup rt i serverId manual s))"
  proof -
    have start: "sparing rt serverId s s" by (simp add: sparing_def new_effects_def)
    have "sparing rt serverId s (snd (run_cleanup rt i manual schedule server s))" if "srv_id server = serverId" for schedule server
      using run_cleanup_sparing [of rt server s] that start by (auto simp: keeps_def)
    with start show ?thesis
      by (auto simp: dockerCleanup_def row_where_def pure_def find_Some_iff split: option.split)
  qed
  moreover have "new_effects s (snd (dockerCleanup rt i serverId manual s)) = set es"
    using assms(1) by (simp add: new_effects_def)
  ultimately show ?thesis using assms(2) unfolding sparing_def cleanup_effect_def by (metis (full_types))
qed

section \<open>The newest backups of the panel are kept\<close>

text \<open>The moment a key was made at, as the number its digits form.\<close>

definition own_key :: "string \<Rightarrow> bool" where
  "own_key k \<longleftrightarrow> rx_test KEY_PATTERN k"

definition backup_stamp :: "string \<Rightarrow> nat" where
  "backup_stamp k = nat_of_digits (filter is_digit k)"

definition valid_utc :: "Utc \<Rightarrow> bool" where
  "valid_utc d \<longleftrightarrow> 1000 \<le> utc_year d \<and> utc_year d < 10000 \<and> utc_month d < 12 \<and> utc_date d < 32 \<and> utc_hour d < 24 \<and>
     utc_minute d < 60 \<and> utc_second d < 60"

definition date_number :: "Utc \<Rightarrow> nat" where
  "date_number d = ((((utc_year d * 100 + (utc_month d + 1)) * 100 + utc_date d) * 100 + utc_hour d) * 100 + utc_minute d) * 100 + utc_second d"

lemma digits_append: "nat_of_digits (s @ t) = nat_of_digits s * 10 ^ length t + nat_of_digits t"
proof (induction t rule: rev_induct)
  case (snoc c t)
  then show ?case by (simp add: nat_of_digits_def algebra_simps)
qed (simp add: nat_of_digits_def)

lemma digits_Cons: "nat_of_digits (c # t) = (code c - 48) * 10 ^ length t + nat_of_digits t"
  using digits_append [of "[c]" t] by (simp add: nat_of_digits_def)

lemma digit_code: "is_digit c \<Longrightarrow> 48 \<le> code c \<and> code c \<le> 57"
  by (simp add: is_digit_def in_range_def)

lemma digits_bound: "list_all is_digit t \<Longrightarrow> nat_of_digits t < 10 ^ length t"
proof (induction t)
  case (Cons c t)
  then have "(code c - 48) * 10 ^ length t + nat_of_digits t < 9 * 10 ^ length t + 10 ^ length t"
    using digit_code [of c] by (intro add_le_less_mono) (simp_all add: le_diff_conv)
  then show ?case by (simp add: digits_Cons)
qed (simp add: nat_of_digits_def)

text \<open>Texts of digits of the same length are ordered like the numbers they show.\<close>

lemma digits_order:
  "length s = length t \<Longrightarrow> list_all is_digit s \<Longrightarrow> list_all is_digit t \<Longrightarrow>
    cmp_units (s @ u) (t @ v) = (if nat_of_digits s < nat_of_digits t then -1 else if nat_of_digits t < nat_of_digits s then 1 else cmp_units u v)"
proof (induction s arbitrary: t)
  case (Cons c s)
  then obtain d r where t: "t = d # r" by (cases t) auto
  have b: "nat_of_digits s < 10 ^ length s" "nat_of_digits r < 10 ^ length s"
    using Cons.prems t digits_bound [of s] digits_bound [of r] by simp_all
  have step: "x * n + p < y * n + q" if "x < y" "p < n" for x y n p q :: nat
  proof -
    have "x * n + p < x * n + n" using that by simp
    also have "\<dots> = Suc x * n" by simp
    also have "\<dots> \<le> y * n" using that by (intro mult_le_mono1) simp
    finally show ?thesis by simp
  qed
  consider "code c < code d" | "code d < code c" | "code c = code d" by linarith
  then show ?case
  proof cases
    case 1
    then have "nat_of_digits (c # s) < nat_of_digits t"
      using step [of "code c - 48" "code d - 48" "nat_of_digits s" "10 ^ length s"] Cons.prems t b digit_code [of c] digit_code [of d]
      by (auto simp: digits_Cons)
    with 1 show ?thesis by (simp add: t)
  next
    case 2
    then have "nat_of_digits t < nat_of_digits (c # s)"
      using step [of "code d - 48" "code c - 48" "nat_of_digits r" "10 ^ length s"] Cons.prems t b digit_code [of c] digit_code [of d]
      by (auto simp: digits_Cons)
    with 2 show ?thesis by (simp add: t)
  next
    case 3
    then show ?thesis using Cons t by (simp add: digits_Cons)
  qed
qed (simp add: nat_of_digits_def)

lemma cmp_units_prefix: "cmp_units (p @ s) (p @ t) = cmp_units s t"
  by (induction p) simp_all

lemma own_key_form:
  "own_key k \<longleftrightarrow> (\<exists>d t. k = INSTANCE_BACKUP_PREFIX @ ''yeah-'' @ d @ ''-'' @ t @ ''.sql.gz'' \<and> length d = 8 \<and> length t = 6 \<and>
     list_all is_digit d \<and> list_all is_digit t)"
  unfolding own_key_def KEY_PATTERN_def rx_test_accepts rx_seq.simps accepts_RSeq accepts_rx_lit accepts_times_cls accepts_REps list_all_iff
  by fastforce

lemma key_stamp:
  assumes "list_all is_digit d" and "list_all is_digit t"
  shows "backup_stamp (INSTANCE_BACKUP_PREFIX @ ''yeah-'' @ d @ ''-'' @ t @ ''.sql.gz'') = nat_of_digits (d @ t)"
proof -
  have "filter is_digit (INSTANCE_BACKUP_PREFIX @ ''yeah-'') = []" "filter is_digit ''-'' = []" "filter is_digit ''.sql.gz'' = []"
    by code_simp+
  then have "filter is_digit (INSTANCE_BACKUP_PREFIX @ ''yeah-'' @ d @ ''-'' @ t @ ''.sql.gz'') = d @ t"
    unfolding filter_append append_assoc [symmetric] using assms by (simp add: filter_id_conv list_all_iff)
  then show ?thesis by (simp add: backup_stamp_def)
qed

lemma own_key_order:
  assumes "own_key j" and "own_key k"
  shows "cmp_units j k \<le> 0 \<longleftrightarrow> backup_stamp j \<le> backup_stamp k"
proof -
  obtain d t where j: "j = INSTANCE_BACKUP_PREFIX @ ''yeah-'' @ d @ ''-'' @ t @ ''.sql.gz''" "length d = 8" "length t = 6"
    "list_all is_digit d" "list_all is_digit t" using assms(1) unfolding own_key_form by blast
  obtain e u where k: "k = INSTANCE_BACKUP_PREFIX @ ''yeah-'' @ e @ ''-'' @ u @ ''.sql.gz''" "length e = 8" "length u = 6"
    "list_all is_digit e" "list_all is_digit u" using assms(2) unfolding own_key_form by blast
  have "cmp_units j k = cmp_units (d @ ''-'' @ t @ ''.sql.gz'') (e @ ''-'' @ u @ ''.sql.gz'')"
    unfolding j(1) k(1) cmp_units_prefix ..
  also have "\<dots> = (if nat_of_digits d < nat_of_digits e then -1 else if nat_of_digits e < nat_of_digits d then 1
      else if nat_of_digits t < nat_of_digits u then -1 else if nat_of_digits u < nat_of_digits t then 1 else 0)"
    using digits_order [of d e] digits_order [of t u] j k by (simp add: cmp_units_prefix)
  finally have "cmp_units j k \<le> 0 \<longleftrightarrow> nat_of_digits d < nat_of_digits e \<or> nat_of_digits d = nat_of_digits e \<and> nat_of_digits t \<le> nat_of_digits u"
    by auto
  also have "\<dots> \<longleftrightarrow> nat_of_digits (d @ t) \<le> nat_of_digits (e @ u)"
    using digits_bound [OF j(5)] digits_bound [OF k(5)] j(3) k(3) by (auto simp: digits_append)
  finally show ?thesis unfolding j(1) k(1) key_stamp [OF j(4,5)] key_stamp [OF k(4,5)] .
qed

lemma descending_drop:
  "sorted_wrt (\<lambda>a b. f b < f a) zs \<Longrightarrow> k \<in> set zs \<Longrightarrow> k \<in> set (drop n zs) \<longleftrightarrow> n \<le> length (filter (\<lambda>j. f k < f j) zs)"
  for f :: "'a \<Rightarrow> nat"
proof (induction zs arbitrary: n)
  case (Cons z zs)
  show ?case
  proof (cases "k = z")
    case True
    then have "filter (\<lambda>j. f k < f j) (z # zs) = []" using Cons.prems by (auto simp: filter_empty_conv)
    moreover have "k \<notin> set (drop m zs)" for m using Cons.prems True by (auto dest: in_set_dropD)
    ultimately show ?thesis using True by (cases n) auto
  next
    case False
    with Cons show ?thesis by (cases n) auto
  qed
qed simp

text \<open>The keys of valid dates are keys, and their stamps are ordered like the dates.\<close>

lemma two_digits_form: "n < 100 \<Longrightarrow> length (two_digits n) = 2 \<and> list_all is_digit (two_digits n) \<and> nat_of_digits (two_digits n) = n"
proof -
  assume n: "n < 100"
  show ?thesis
  proof (cases "n < 10")
    case True
    then have "nat_str n = [char_of (48 + n)]" by (subst nat_str.simps) simp
    with True show ?thesis using nat_str_digits [of n] nat_of_digits_nat_str [of n]
      by (simp add: two_digits_def pad_zeros_def list_all_iff digits_Cons is_digit_def in_range_def code_def)
  next
    case False
    then have "nat_str n = [char_of (48 + n div 10), char_of (48 + n mod 10)]"
      using n by (subst nat_str.simps) (subst nat_str.simps, simp)
    then show ?thesis using nat_str_digits [of n] nat_of_digits_nat_str [of n]
      by (simp add: two_digits_def pad_zeros_def list_all_iff)
  qed
qed

lemma year_form: "1000 \<le> n \<Longrightarrow> n < 10000 \<Longrightarrow> length (nat_str n) = 4"
proof -
  assume n: "1000 \<le> n" "n < 10000"
  then have "1000 div 10 \<le> n div 10" "n div 10 < 1000" by (intro div_le_mono, simp_all add: less_mult_imp_div_less)
  moreover from this have "1000 div 10 div 10 \<le> n div 10 div 10" "n div 10 div 10 < 100" by (intro div_le_mono, simp_all add: less_mult_imp_div_less)
  moreover from this have "n div 10 div 10 div 10 < 10" by (simp add: less_mult_imp_div_less)
  ultimately show ?thesis by (subst nat_str.simps, subst nat_str.simps, subst nat_str.simps, subst nat_str.simps) (use n in simp)
qed

lemma key_of_date:
  assumes "valid_utc d"
  shows "own_key (instanceBackupKey d) \<and> backup_stamp (instanceBackupKey d) = date_number d"
proof -
  let ?d = "nat_str (utc_year d) @ two_digits (utc_month d + 1) @ two_digits (utc_date d)"
  let ?t = "two_digits (utc_hour d) @ two_digits (utc_minute d) @ two_digits (utc_second d)"
  have key: "instanceBackupKey d = INSTANCE_BACKUP_PREFIX @ ''yeah-'' @ ?d @ ''-'' @ ?t @ ''.sql.gz''"
    by (simp add: instanceBackupKey_def)
  have two: "length (two_digits n) = 2" "list_all is_digit (two_digits n)" "nat_of_digits (two_digits n) = n"
    if "n \<in> {utc_month d + 1, utc_date d, utc_hour d, utc_minute d, utc_second d}" for n
    using that assms two_digits_form [of n] by (auto simp: valid_utc_def)
  have year: "length (nat_str (utc_year d)) = 4" "list_all is_digit (nat_str (utc_year d))"
    using assms year_form nat_str_digits by (auto simp: valid_utc_def list_all_iff)
  have parts: "length ?d = 8" "length ?t = 6" "list_all is_digit ?d" "list_all is_digit ?t"
    using two year by simp_all
  have "own_key (instanceBackupKey d)" unfolding own_key_form key using parts by blast
  moreover have "nat_of_digits (?d @ ?t) = date_number d"
    using two by (simp add: digits_append date_number_def algebra_simps)
  ultimately show ?thesis unfolding key key_stamp [OF parts(3,4)] by simp
qed

text \<open>
  The retention of panel backups. Of the objects listed, with distinct keys, those deleted are exactly the keys of
  the panel's own form for which at least as many newer ones are listed as are to be kept: no other object is touched, and the
  newest remain. The key a backup gets at a date of four-digit year is of that form, and the order of keys is the
  order of their dates.
\<close>
theorem instance_retention_keeps_newest:
  assumes "distinct keys"
  shows "(k \<in> set (instanceBackupsToDelete keys keep) \<longleftrightarrow> k \<in> set keys \<and> own_key k \<and>
      nat keep \<le> length (filter (\<lambda>j. own_key j \<and> backup_stamp k < backup_stamp j) keys)) \<and>
    (valid_utc d \<longrightarrow> own_key (instanceBackupKey d) \<and> backup_stamp (instanceBackupKey d) = date_number d)"
proof -
  define ours where "ours = filter own_key keys"
  define zs where "zs = rev (sort_by cmp_units ours)"
  have own: "own_key j" if "j \<in> set zs" for j using that by (simp add: zs_def ours_def)
  have "distinct ours" using assms by (simp add: ours_def)
  then have distinct: "distinct zs" by (simp add: zs_def)
  have "sorted_wrt (\<lambda>a b. cmp_units b a \<le> 0) zs"
    unfolding zs_def sorted_wrt_rev by (rule units.sorted_sort_by)
  then have sorted: "sorted_wrt (\<lambda>a b. backup_stamp b < backup_stamp a) zs"
    using distinct own
  proof (induction zs)
    case (Cons z zs)
    have "backup_stamp j < backup_stamp z" if "j \<in> set zs" for j
    proof -
      have "cmp_units j z \<le> 0" "j \<noteq> z" "own_key j" "own_key z" using Cons.prems that by auto
      then show ?thesis
        using own_key_order [of j z] own_key_order [of z j] cmp_units_antisym [of j z] cmp_units_zero [of j z] by force
    qed
    with Cons show ?case by simp
  qed simp
  have deleted: "instanceBackupsToDelete keys keep = drop (nat keep) zs"
    by (simp add: instanceBackupsToDelete_def Let_def zs_def ours_def own_key_def [abs_def] max_def)
  have "length (filter (\<lambda>j. backup_stamp k < backup_stamp j) zs) = length (filter (\<lambda>j. own_key j \<and> backup_stamp k < backup_stamp j) keys)"
  proof -
    have "mset (filter (\<lambda>j. backup_stamp k < backup_stamp j) zs) = mset (filter (\<lambda>j. own_key j \<and> backup_stamp k < backup_stamp j) keys)"
      by (simp add: zs_def ours_def filter_filter_mset conj_commute)
    then show ?thesis by (rule mset_eq_length)
  qed
  moreover have "k \<in> set zs \<longleftrightarrow> k \<in> set keys \<and> own_key k" by (simp add: zs_def ours_def)
  ultimately show ?thesis
    using descending_drop [OF sorted, of k "nat keep"] key_of_date [of d] unfolding deleted by (auto dest: in_set_dropD)
qed

lemma nonempty_length: "x \<in> set xs \<Longrightarrow> nat 1 \<le> length xs"
  by (cases xs) auto

theorem instance_retention_keeps_newest_witness:
  "''yeah-instance/yeah-20260101-030000.sql.gz'' \<in> set (instanceBackupsToDelete
     [''yeah-instance/notes.txt'', ''yeah-instance/yeah-20260102-030000.sql.gz'', ''yeah-instance/yeah-20260101-030000.sql.gz''] 1)"
  (is "?k \<in> set (instanceBackupsToDelete ?keys 1)")
proof -
  let ?j = "''yeah-instance/yeah-20260102-030000.sql.gz''"
  define older where "older = \<lparr>utc_year = 2026, utc_month = 0, utc_date = 1, utc_hour = 3, utc_minute = 0, utc_second = 0\<rparr>"
  define newer where "newer = older\<lparr>utc_date := 2\<rparr>"
  have keys: "?k = instanceBackupKey older" "?j = instanceBackupKey newer"
    by (simp_all add: instanceBackupKey_def two_digits_def pad_zeros_def INSTANCE_BACKUP_PREFIX_def older_def newer_def nat_str.simps char_of_def bit_0)
  have "valid_utc older" "valid_utc newer" "date_number older < date_number newer"
    by (simp_all add: older_def newer_def valid_utc_def date_number_def)
  then have own: "own_key ?k" "own_key ?j" "backup_stamp ?k < backup_stamp ?j"
    unfolding keys using key_of_date by simp_all
  then have "?j \<in> set (filter (\<lambda>j. own_key j \<and> backup_stamp ?k < backup_stamp j) ?keys)" by simp
  then have "nat 1 \<le> length (filter (\<lambda>j. own_key j \<and> backup_stamp ?k < backup_stamp j) ?keys)"
    by (rule nonempty_length)
  moreover have "?k \<in> set ?keys" by simp
  moreover have "distinct ?keys" by simp
  ultimately show ?thesis
    using instance_retention_keeps_newest [THEN conjunct1, THEN iffD2, of ?keys ?k 1] own(1) by blast
qed

text \<open>A server with one application that keeps one image, and three images of which the first is kept.\<close>

definition demo_runtime :: Runtime where
  "demo_runtime = calm\<lparr>rt_exec := (\<lambda>tr m cmd. if cmd = dockerImagesCommand
     then ExecClosed (Some 0) [(''IMG|aaaaaaaaaaaa|yeah-app-a|dep-2|1MB|now'' @ [LF] @ ''IMG|bbbbbbbbbbbb|yeah-app-a|dep-1|1MB|now'' @ [LF], True)]
     else ExecClosed (Some 0) []), rt_localeCompare := cmp_units\<rparr>"

definition demo_upkeep :: UpkeepState where
  "demo_upkeep = \<lparr>js_trace = [], js_log = [],
     uk_servers = [new_server ''s'' 0 ''t'' ''main'' ''10.0.0.1'' ''key''],
     uk_applications = [(new_application ''a'' 0 ''t'' ''e'' ''s'' ''shop'' ''https://example.com/shop.git'')\<lparr>app_rollbackImages := 1\<rparr>],
     uk_services = [], uk_deployments = [(new_deployment ''1'' 10 ''a'')\<lparr>dep_status := DepSuccess\<rparr>, (new_deployment ''2'' 20 ''a'')\<lparr>dep_status := DepSuccess\<rparr>],
     uk_backupRuns = [], uk_operations = [], uk_archives = [], uk_audit = [], uk_tasks = [], uk_taskRuns = [],
     uk_cleanups = [(new_dockerCleanup ''c'' 0 ''s'')\<lparr>dcl_enabled := True, dcl_pruneImages := True\<rparr>],
     uk_cleanupRuns = [], uk_storages = [], uk_settings = [], uk_certificates = [], uk_tokens = [], uk_schedules = [],
     uk_conn = False, uk_exitCode = None, uk_failure = None, uk_notifyTeam = None\<rparr>"

definition demo_cleanup_command :: string where
  "demo_cleanup_command = ''docker system prune -f ; (docker image rm -f bbbbbbbbbbbb >/dev/null 2>&1 || true) ; '' @
     ''docker builder prune -f --filter until=72h ; (journalctl --vacuum-time=14d >/dev/null 2>&1 || true) ; (apt-get clean >/dev/null 2>&1 || true)''"

theorem cleanup_spares_rollback_images_witness:
  "\<exists>opts. demo_cleanup_command = buildHostCleanupCommand opts \<and>
     spares demo_runtime ''s'' demo_upkeep (set (js_trace (snd (dockerCleanup demo_runtime ''x'' ''s'' True demo_upkeep)))) opts"
proof -
  let ?trace = "js_trace (snd (dockerCleanup demo_runtime ''x'' ''s'' True demo_upkeep))"
  have "?trace = js_trace demo_upkeep @ ?trace" by (simp add: demo_upkeep_def)
  moreover have "Exec Target demo_cleanup_command (ExecClosed (Some 0) []) \<in> set ?trace" by code_simp
  ultimately have "demo_cleanup_command = dockerImagesCommand \<or>
      (\<exists>opts. demo_cleanup_command = buildHostCleanupCommand opts \<and> spares demo_runtime ''s'' demo_upkeep (set ?trace) opts)"
    by (rule cleanup_spares_rollback_images)
  moreover have "demo_cleanup_command \<noteq> dockerImagesCommand" by code_simp
  ultimately show ?thesis by blast
qed

end
