(* ===== verification/Webhooks.thy ===== *)
theory Webhooks
  imports TokenApi GitRefs Compose Remote DumpCommands JsNumber "HOL-Library.Countable"
begin

text \<open>
  Deployments started from outside: the webhooks of GitHub (apps/api/src/routes/githubWebhook.ts), of the other git
  providers (routes/gitSourceWebhook.ts with lib/gitWebhooks.ts) and of a pipeline (routes/deployHook.ts with
  lib/deployRules.ts), the previews of pull requests (lib/previews.ts, lib/appCopy.ts, lib/appTeardown.ts), and the
  routes that connect a team to its sources (routes/github.ts with lib/oauthState.ts and packages/github,
  routes/gitSources.ts).

  The state is \<open>HookState\<close>: the tables, the deployments put on the queue and the trace of the one SSH session
  the API opens itself, to take a preview down. The environment \<open>HookEnv\<close> gives the primitives of the platform
  (\<open>hk_hmac secret body\<close> is the SHA-256 HMAC in hexadecimal, \<open>hk_json\<close> is \<open>JSON.parse\<close> with \<open>None\<close> where it
  throws) and what GitHub and the providers answer. A handler returns an answer or, as \<open>Inl\<close>, what it throws, with
  the new state. Of a payload signed by GitHub the documented shape is used: the number of an installation is a number.
\<close>

record GithubConfig =
  gc_appId :: string
  gc_appSlug :: string
  gc_privateKey :: string
  gc_webhookSecret :: string

record InstallationRepo =
  ir_fullName :: string
  ir_defaultBranch :: string
  ir_private :: bool

record HookState = JobState +
  hs_dir :: Directory
  hs_volumes :: "ApplicationVolume list"
  hs_installations :: "GithubInstallation list"
  hs_sources :: "GitSource list"
  hs_jobs :: "string list"

record HookEnv =
  hk_now :: int
  hk_fresh :: "HookState \<Rightarrow> string"
  hk_random24 :: string
  hk_hmac :: "string \<Rightarrow> string \<Rightarrow> string"
  hk_sha256 :: "string \<Rightarrow> string"
  hk_json :: "string \<Rightarrow> jv option"
  hk_env :: "string \<Rightarrow> string option"
  hk_fromBase64 :: "string \<Rightarrow> string"
  hk_nonint :: string
  hk_iso :: "int \<Rightarrow> string"
  hk_btoa :: "string \<Rightarrow> string"
  hk_installation :: "GithubConfig \<Rightarrow> int \<Rightarrow> string + (string \<times> string)"
  hk_installationToken :: "GithubConfig \<Rightarrow> int \<Rightarrow> string + string"
  hk_repoPage :: "string \<Rightarrow> nat \<Rightarrow> string + InstallationRepo list"
  hk_fetch :: "RepoListRequest \<Rightarrow> string + (int \<times> (string + jv))"

type_synonym handler = "HookState \<Rightarrow> (string + response) \<times> HookState"

section \<open>gitWebhooks.ts\<close>

text \<open>Headers by their name in lower case, as \<open>Headers.get\<close> finds them.\<close>

type_synonym headers = "string \<Rightarrow> string option"

definition safeEqual :: "string \<Rightarrow> string \<Rightarrow> bool" where
  "safeEqual a b \<longleftrightarrow> length a = length b \<and> list_all2 (=) a b"

definition orElse :: "'a option \<Rightarrow> 'a option \<Rightarrow> 'a option" where
  "orElse a b = (case a of Some x \<Rightarrow> Some x | None \<Rightarrow> b)"

definition verifyGitWebhook ::
  "(string \<Rightarrow> string \<Rightarrow> string) \<Rightarrow> GitProvider \<Rightarrow> headers \<Rightarrow> string \<Rightarrow> string \<Rightarrow> bool" where
  "verifyGitWebhook hmacHex provider headers rawBody secret =
    (if secret = [] then False
     else
       (let expected = hmacHex secret rawBody in
        case provider of
          Gitlab \<Rightarrow> (case headers ''x-gitlab-token'' of Some token \<Rightarrow> safeEqual token secret | None \<Rightarrow> False)
        | Gitea \<Rightarrow>
            (let bare = orElse (headers ''x-gitea-signature'') (headers ''x-forgejo-signature'') in
             if str_truthy bare then safeEqual (the bare) expected
             else (case headers ''x-hub-signature-256'' of
                     Some prefixed \<Rightarrow> safeEqual prefixed (''sha256='' @ expected) | None \<Rightarrow> False))
        | Bitbucket \<Rightarrow>
            (case headers ''x-hub-signature'' of Some sig \<Rightarrow> safeEqual sig (''sha256='' @ expected) | None \<Rightarrow> False)))"

record ParsedPush =
  pp_repo :: string
  pp_branches :: "(string \<times> jv) list"

definition branchOf :: "jv \<Rightarrow> string option" where
  "branchOf ref =
    (case ref of JStr s \<Rightarrow> if starts_with s ''refs/heads/'' then Some (drop (length ''refs/heads/'') s) else None | _ \<Rightarrow> None)"

text \<open>Of a message that must be a string only a string is kept; Bitbucket's is kept as it is.\<close>

definition str_or_null :: "jv \<Rightarrow> jv" where
  "str_or_null v = (case v of JStr s \<Rightarrow> JStr s | _ \<Rightarrow> JNull)"

definition nullish :: "jv \<Rightarrow> bool" where
  "nullish v \<longleftrightarrow> v = JUndef \<or> v = JNull"

definition changed_branch :: "jv \<Rightarrow> (string \<times> jv) option" where
  "changed_branch c =
    (let n = jget ''new'' c in
     case jget ''name'' n of
       JStr name \<Rightarrow>
         if jget ''type'' n = JStr ''branch''
         then (let m = jget ''message'' (jget ''target'' n) in Some (name, if nullish m then JNull else m))
         else None
     | _ \<Rightarrow> None)"

definition parseGitPush :: "GitProvider \<Rightarrow> headers \<Rightarrow> jv \<Rightarrow> string + ParsedPush option" where
  "parseGitPush provider headers payload =
    (if \<not> (case payload of JObj _ \<Rightarrow> True | JArr _ \<Rightarrow> True | _ \<Rightarrow> False) then Inr None
     else
       case provider of
         Gitlab \<Rightarrow>
           (if headers ''x-gitlab-event'' \<noteq> Some ''Push Hook'' then Inr None
            else
              (case (jget ''path_with_namespace'' (jget ''project'' payload), branchOf (jget ''ref'' payload)) of
                 (JStr repo, Some branch) \<Rightarrow>
                   if branch = [] then Inr None
                   else
                     (let commits = (case jget ''commits'' payload of JArr xs \<Rightarrow> xs | _ \<Rightarrow> []);
                          message = (if commits = [] then JUndef else jget ''message'' (last commits))
                      in Inr (Some \<lparr>pp_repo = repo, pp_branches = [(branch, str_or_null message)]\<rparr>))
               | _ \<Rightarrow> Inr None))
       | Gitea \<Rightarrow>
           (if orElse (orElse (headers ''x-gitea-event'') (headers ''x-forgejo-event'')) (headers ''x-github-event'') \<noteq> Some ''push''
            then Inr None
            else
              (case (jget ''full_name'' (jget ''repository'' payload), branchOf (jget ''ref'' payload)) of
                 (JStr repo, Some branch) \<Rightarrow>
                   if branch = [] then Inr None
                   else Inr (Some \<lparr>pp_repo = repo,
                          pp_branches = [(branch, str_or_null (jget ''message'' (jget ''head_commit'' payload)))]\<rparr>)
               | _ \<Rightarrow> Inr None))
       | Bitbucket \<Rightarrow>
           (if headers ''x-event-key'' \<noteq> Some ''repo:push'' then Inr None
            else
              (case (jget ''full_name'' (jget ''repository'' payload), jget ''changes'' (jget ''push'' payload)) of
                 (JStr repo, JArr changes) \<Rightarrow>
                   if list_ex nullish changes then Inl ''TypeError''
                   else
                     (let branches = List.map_filter changed_branch changes
                      in Inr (if branches = [] then None else Some \<lparr>pp_repo = repo, pp_branches = branches\<rparr>))
               | _ \<Rightarrow> Inr None)))"

section \<open>deployRules.ts\<close>

definition skip_markers :: "string list" where
  "skip_markers = [''[skip ci]'', ''[skip cd]'', ''[no ci]'', ''[no cd]'', ''[ci skip]'', ''[cd skip]'']"

definition shouldSkipDeploy :: "string \<Rightarrow> jv \<Rightarrow> bool" where
  "shouldSkipDeploy nonint message \<longleftrightarrow>
    jtruthy message \<and> list_ex (includes_str (to_lower (js_String nonint message))) skip_markers"

definition hashDeployToken :: "(string \<Rightarrow> string) \<Rightarrow> string \<Rightarrow> string" where
  "hashDeployToken sha256 token = sha256 token"

record AdvancedSettingsInput =
  as_healthPath :: "string option"
  as_healthIntervalSeconds :: jv
  as_healthTimeoutSeconds :: jv
  as_healthRetries :: jv
  as_healthStartPeriodSeconds :: jv
  as_dockerOptions :: string
  as_stopGraceSeconds :: jv

definition health_path_ok :: "string \<Rightarrow> bool" where
  "health_path_ok path \<longleftrightarrow>
    path \<noteq> [] \<and> hd path = CHR ''/'' \<and>
    list_all (\<lambda>c. \<not> is_space c \<and> \<not> one_of ([SQ, DQ, BQ, BS] @ ''$;&|<>'') c) (tl path)"

definition out_of_range :: "jv \<Rightarrow> int \<Rightarrow> int \<Rightarrow> bool" where
  "out_of_range v lo hi = (case v of JNum n \<Rightarrow> n < lo \<or> n > hi | _ \<Rightarrow> True)"

definition validateAdvancedSettings :: "AdvancedSettingsInput \<Rightarrow> string option" where
  "validateAdvancedSettings input =
    (let path = map_option trim (as_healthPath input);
         ranges = [(''healthcheck interval'', as_healthIntervalSeconds input, 1, 3600),
                   (''timeout do healthcheck'', as_healthTimeoutSeconds input, 1, 300),
                   (''healthcheck retries'', as_healthRetries input, 1, 20),
                   (''healthcheck start period'', as_healthStartPeriodSeconds input, 0, 3600),
                   (''stop grace period'', as_stopGraceSeconds input, 0, 600)]
     in if str_truthy path \<and> \<not> health_path_ok (the path)
        then Some ''the healthcheck path must start with / and cannot contain spaces or shell special characters''
        else
          (case find (\<lambda>(label, v, lo, hi). out_of_range v lo hi) ranges of
             Some (label, v, lo, hi) \<Rightarrow> Some (label @ '' must be an integer between '' @ int_str lo @ '' and '' @ int_str hi)
           | None \<Rightarrow> (case parseDockerOptions (as_dockerOptions input) of Inl e \<Rightarrow> Some e | Inr _ \<Rightarrow> None)))"

section \<open>Copying and taking down an application (appCopy.ts, appTeardown.ts)\<close>

text \<open>The identity and the time of creation, which the copy leaves out, come from the insert.\<close>

definition applicationCopyValues :: "Application \<Rightarrow> (Application \<Rightarrow> Application) \<Rightarrow> Application" where
  "applicationCopyValues app overrides =
    overrides (app\<lparr>app_status := AppIdle, app_domain := None, app_extraDomains := [], app_wwwRedirect := NoRedirect,
      app_deployTokenHash := None, app_deployedConfig := None, app_previewEnabled := False, app_previewOfId := None,
      app_prNumber := None\<rparr>)"

definition teardown_command :: "Application \<Rightarrow> ApplicationVolume list \<Rightarrow> string" where
  "teardown_command application volumes =
    (let containerName = ''yeah-app-'' @ app_id application;
         appDir = ''/opt/yeah-apps/'' @ app_id application;
         backupsDir = ''/opt/yeah-backups/volumes/'' @ app_id application;
         volumeRm = join_str '' && ''
           (map (\<lambda>v. ''docker volume rm '' @ shellQuote (volumeName (vol_id v)) @ '' >/dev/null 2>&1 || true'') volumes);
         dynamicRm = ''rm -f '' @ shellQuote (PROXY_DIR @ ''/dynamic/'' @ containerName @ ''.yml'') @ '' >/dev/null 2>&1 || true''
     in (if app_buildPack application = DockerCompose then composeTeardownCommand (composeProjectName (app_id application))
         else ''docker rm -f '' @ shellQuote containerName @ '' >/dev/null 2>&1 || true'') @
        '' && '' @ dynamicRm @
        '' && rm -rf '' @ shellQuote appDir @ '' '' @ shellQuote backupsDir @ '' >/dev/null 2>&1 || true'' @
        (if volumeRm \<noteq> [] then '' && '' @ volumeRm else []))"

definition tearDownApplication ::
  "Runtime \<Rightarrow> Application \<Rightarrow> Server \<Rightarrow> ApplicationVolume list \<Rightarrow> ('x) JobState_scheme \<Rightarrow> string option \<times> ('x) JobState_scheme" where
  "tearDownApplication rt application server volumes s =
    (case andThen (connectSsh rt Target (srv_host server))
            (finally_do (exec_quiet rt Target (teardown_command application volumes)) (emit (Close Target))) s of
       (Inl e, s') \<Rightarrow> (Some e, s')
     | (Inr u, s') \<Rightarrow> (None, s'))"

section \<open>packages/github and oauthState.ts\<close>

definition getGithubConfig :: "(string \<Rightarrow> string option) \<Rightarrow> (string \<Rightarrow> string) \<Rightarrow> GithubConfig option" where
  "getGithubConfig env fromBase64 =
    (let appId = env ''GITHUB_APP_ID''; appSlug = env ''GITHUB_APP_SLUG'';
         privateKeyB64 = env ''GITHUB_APP_PRIVATE_KEY_BASE64''; webhookSecret = env ''GITHUB_APP_WEBHOOK_SECRET''
     in if \<not> str_truthy appId \<or> \<not> str_truthy appSlug \<or> \<not> str_truthy privateKeyB64 \<or> \<not> str_truthy webhookSecret then None
        else Some \<lparr>gc_appId = the appId, gc_appSlug = the appSlug, gc_privateKey = fromBase64 (the privateKeyB64),
               gc_webhookSecret = the webhookSecret\<rparr>)"

definition verifyWebhookSignature :: "(string \<Rightarrow> string \<Rightarrow> string) \<Rightarrow> string \<Rightarrow> string option \<Rightarrow> string \<Rightarrow> bool" where
  "verifyWebhookSignature hmacHex rawBody signatureHeader secret =
    (case signatureHeader of
       None \<Rightarrow> False
     | Some header \<Rightarrow>
         if \<not> starts_with header ''sha256='' then False
         else safeEqual (''sha256='' @ hmacHex secret rawBody) header)"

text \<open>The loop over the pages runs as long as GitHub answers full pages.\<close>

partial_function (option) repo_pages ::
  "(nat \<Rightarrow> string + InstallationRepo list) \<Rightarrow> nat \<Rightarrow> InstallationRepo list \<Rightarrow> (string + InstallationRepo list) option" where
  "repo_pages fetch_page page repos =
    (case fetch_page page of
       Inl e \<Rightarrow> Some (Inl e)
     | Inr body \<Rightarrow> if length body < 100 then Some (Inr (repos @ body)) else repo_pages fetch_page (page + 1) (repos @ body))"

definition listInstallationRepos :: "(nat \<Rightarrow> string + InstallationRepo list) \<Rightarrow> (string + InstallationRepo list) option" where
  "listInstallationRepos fetch_page = repo_pages fetch_page 1 []"

definition OAUTH_STATE_TTL_MS :: int where
  "OAUTH_STATE_TTL_MS = 10 * 60 * 1000"

text \<open>
  \<open>OAuthCodec\<close> holds the primitives: \<open>oc_hmac secret text\<close> is the HMAC in base64url, \<open>oc_encode\<close> and
  \<open>oc_decode\<close> are base64url, \<open>oc_stringify\<close> and \<open>oc_parse\<close> are JSON.
\<close>

record OAuthCodec =
  oc_secret :: "string option"
  oc_hmac :: "string \<Rightarrow> string \<Rightarrow> string"
  oc_encode :: "string \<Rightarrow> string"
  oc_decode :: "string \<Rightarrow> string"
  oc_stringify :: "jv \<Rightarrow> string"
  oc_parse :: "string \<Rightarrow> jv option"

definition secret_missing :: string where
  "secret_missing = ''SESSION_SECRET is not set''"

definition sign :: "OAuthCodec \<Rightarrow> string \<Rightarrow> string + string" where
  "sign c body =
    (if \<not> str_truthy (oc_secret c) then Inl secret_missing
     else Inr (oc_hmac c (the (oc_secret c)) (''github-oauth-state:'' @ body)))"

definition createOAuthState :: "OAuthCodec \<Rightarrow> string \<Rightarrow> string \<Rightarrow> int \<Rightarrow> string + string" where
  "createOAuthState c teamId userId now =
    (let payload = JObj [(''teamId'', JStr teamId), (''userId'', JStr userId), (''exp'', JNum (now + OAUTH_STATE_TTL_MS))];
         body = oc_encode c (oc_stringify c payload)
     in map_sum id (\<lambda>signature. body @ ''.'' @ signature) (sign c body))"

definition read_payload :: "OAuthCodec \<Rightarrow> string \<Rightarrow> int \<Rightarrow> (string \<times> string) option" where
  "read_payload c body now =
    (case oc_parse c (oc_decode c body) of
       None \<Rightarrow> None
     | Some payload \<Rightarrow>
         (case (jget ''teamId'' payload, jget ''userId'' payload, jget ''exp'' payload) of
            (JStr teamId, JStr userId, JNum expires) \<Rightarrow> if expires < now then None else Some (teamId, userId)
          | _ \<Rightarrow> None))"

definition verifyOAuthState :: "OAuthCodec \<Rightarrow> string \<Rightarrow> int \<Rightarrow> string + (string \<times> string) option" where
  "verifyOAuthState c state now =
    (case split_str ''.'' state of
       [body, signature] \<Rightarrow>
         if body = [] \<or> signature = [] then Inr None
         else
           (case sign c body of
              Inl e \<Rightarrow> Inl e
            | Inr expected \<Rightarrow> if \<not> safeEqual expected signature then Inr None else Inr (read_payload c body now))
     | _ \<Rightarrow> Inr None)"

section \<open>Queueing a deployment\<close>

definition queue_deployment :: "HookEnv \<Rightarrow> string \<Rightarrow> HookState \<Rightarrow> HookState" where
  "queue_deployment ev applicationId s =
    (let deployment = new_deployment (hk_fresh ev s) (hk_now ev) applicationId
     in s\<lparr>hs_dir := (hs_dir s)\<lparr>dir_deployments := dir_deployments (hs_dir s) @ [deployment]\<rparr>,
          hs_jobs := hs_jobs s @ [dep_id deployment]\<rparr>)"

definition ignored :: "jv \<Rightarrow> string + response" where
  "ignored reason = Inr (200, JObj [(''ok'', JBool True), (''ignored'', reason)])"

definition refused :: "int \<Rightarrow> string \<Rightarrow> string + response" where
  "refused status message = Inr (status, error_body message)"

definition triggered :: "nat \<Rightarrow> string + response" where
  "triggered n = Inr (200, JObj [(''ok'', JBool True), (''triggered'', JNum (int n))])"

section \<open>deployHook.ts\<close>

definition deployHookRoutes :: "HookEnv \<Rightarrow> string \<Rightarrow> handler" where
  "deployHookRoutes ev token s =
    (case find (\<lambda>a. app_deployTokenHash a = Some (hashDeployToken (hk_sha256 ev) token)) (dir_applications (hs_dir s)) of
       None \<Rightarrow> (refused 404 ''not found'', s)
     | Some application \<Rightarrow>
         if app_status application = AppDeploying then (refused 409 ''a deployment is already in progress'', s)
         else (Inr (200, JObj [(''ok'', JBool True), (''deploymentId'', JStr (hk_fresh ev s))]),
               queue_deployment ev (app_id application) s))"

section \<open>gitSourceWebhook.ts\<close>

definition hex_either_case :: "char \<Rightarrow> bool" where
  "hex_either_case c \<longleftrightarrow> in_range 97 102 (char_lower c) \<or> is_digit c"

definition uuid_rx :: rx where
  "uuid_rx =
    (let hex = RCls hex_either_case; dash = RCls (one_of ''-'')
     in rx_seq [rx_times 8 hex, dash, rx_times 4 hex, dash, rx_times 4 hex, dash, rx_times 4 hex, dash, rx_times 12 hex])"

text \<open>The database reads an id in either case and stores it in lower case.\<close>

definition source_applications :: "Directory \<Rightarrow> string \<Rightarrow> string \<Rightarrow> string \<Rightarrow> Application list" where
  "source_applications d sourceId repo branch =
    filter (\<lambda>a. app_gitSourceId a = Some sourceId \<and> app_gitRepo a = Some repo \<and> app_branch a = branch \<and> app_previewOfId a = None)
      (dir_applications d)"

definition deploy_branch :: "HookEnv \<Rightarrow> string \<Rightarrow> string \<Rightarrow> string \<times> jv \<Rightarrow> nat \<times> HookState \<Rightarrow> nat \<times> HookState" where
  "deploy_branch ev sourceId repo change ns =
    (case change of (branch, message) \<Rightarrow>
       if shouldSkipDeploy (hk_nonint ev) message then ns
       else fold (\<lambda>a (n, s). (n + 1, queue_deployment ev (app_id a) s))
              (source_applications (hs_dir (snd ns)) sourceId repo branch) ns)"

definition gitSourceWebhookRoutes :: "HookEnv \<Rightarrow> headers \<Rightarrow> string \<Rightarrow> string \<Rightarrow> handler" where
  "gitSourceWebhookRoutes ev headers rawBody sourceId s =
    (let source = (if rx_test uuid_rx sourceId then find (\<lambda>g. gs_id g = to_lower sourceId) (hs_sources s) else None) in
     case source of
       None \<Rightarrow> (refused 401 ''invalid signature'', s)
     | Some g \<Rightarrow>
         if \<not> verifyGitWebhook (hk_hmac ev) (gs_provider g) headers rawBody (gs_webhookSecret g)
         then (refused 401 ''invalid signature'', s)
         else
           (case hk_json ev rawBody of
              None \<Rightarrow> (ignored (JStr ''not json''), s)
            | Some payload \<Rightarrow>
                (case parseGitPush (gs_provider g) headers payload of
                   Inl e \<Rightarrow> (Inl e, s)
                 | Inr None \<Rightarrow> (ignored (JStr ''not a branch push''), s)
                 | Inr (Some push) \<Rightarrow>
                     (case fold (deploy_branch ev (gs_id g) (pp_repo push)) (pp_branches push) (0, s) of
                        (n, s') \<Rightarrow> (triggered n, s')))))"

section \<open>Pull requests (previews.ts)\<close>

datatype PreviewAction = PreviewDeployed | PreviewRemoved | PreviewSkipped

record PreviewResult =
  pvr_parent :: string
  pvr_action :: PreviewAction
  pvr_reason :: "string option"
  pvr_previewId :: "string option"

text \<open>
  Deleting an application deletes, by the foreign keys, its previews, and the deployments, volumes and tasks of all
  of them. A preview has no previews of its own.
\<close>

definition delete_application :: "string \<Rightarrow> ('x) JobState_scheme \<Rightarrow> Directory \<times> ApplicationVolume list \<Rightarrow> Directory \<times> ApplicationVolume list" where
  "delete_application i s dv =
    (case dv of (d, volumes) \<Rightarrow>
       (let gone = (\<lambda>j. j = i \<or> list_ex (\<lambda>a. app_id a = j \<and> app_previewOfId a = Some i) (dir_applications d))
        in (d\<lparr>dir_applications := filter (\<lambda>a. \<not> gone (app_id a)) (dir_applications d),
              dir_deployments := filter (\<lambda>p. \<not> gone (dep_applicationId p)) (dir_deployments d),
              dir_tasks := filter (\<lambda>t. \<not> gone (stk_applicationId t)) (dir_tasks d)\<rparr>,
            filter (\<lambda>v. \<not> gone (vol_applicationId v)) volumes)))"

definition copy_volume :: "HookEnv \<Rightarrow> string \<Rightarrow> ApplicationVolume \<Rightarrow> HookState \<Rightarrow> HookState" where
  "copy_volume ev previewId v s =
    s\<lparr>hs_volumes := hs_volumes s @
        [(new_applicationVolume (hk_fresh ev s) (hk_now ev) previewId (vol_name v) (vol_mountPath v))
           \<lparr>vol_kind := vol_kind v, vol_hostPath := vol_hostPath v, vol_fileContent := vol_fileContent v\<rparr>]\<rparr>"

definition preview_row :: "HookEnv \<Rightarrow> PullRequestEvent \<Rightarrow> Application \<Rightarrow> string \<Rightarrow> HookState \<Rightarrow> Application" where
  "preview_row ev pr parent wildcardDomain s =
    applicationCopyValues (parent\<lparr>app_id := hk_fresh ev s, app_createdAt := hk_now ev\<rparr>)
      (\<lambda>a. a\<lparr>app_name := previewName (app_name parent) (pr_number pr), app_branch := pr_headRef pr,
             app_domain := Some (previewDomain (app_name parent) (pr_number pr) wildcardDomain),
             app_previewOfId := Some (app_id parent), app_prNumber := Some (pr_number pr)\<rparr>)"

definition create_preview :: "HookEnv \<Rightarrow> PullRequestEvent \<Rightarrow> Application \<Rightarrow> string \<Rightarrow> HookState \<Rightarrow> HookState" where
  "create_preview ev pr parent wildcardDomain s =
    (let preview = preview_row ev pr parent wildcardDomain s;
         s1 = s\<lparr>hs_dir := (hs_dir s)\<lparr>dir_applications := dir_applications (hs_dir s) @ [preview]\<rparr>\<rparr>
     in fold (copy_volume ev (app_id preview)) (filter (\<lambda>v. vol_applicationId v = app_id parent) (hs_volumes s)) s1)"

definition preview_result :: "string \<Rightarrow> PreviewAction \<Rightarrow> string option \<Rightarrow> string option \<Rightarrow> PreviewResult" where
  "preview_result parent action reason previewId =
    \<lparr>pvr_parent = parent, pvr_action = action, pvr_reason = reason, pvr_previewId = previewId\<rparr>"

definition close_preview :: "Runtime \<Rightarrow> Server option \<Rightarrow> Application \<Rightarrow> HookState \<Rightarrow> HookState" where
  "close_preview rt server existing s =
    (let volumes = filter (\<lambda>v. vol_applicationId v = app_id existing) (hs_volumes s);
         s1 = (case server of None \<Rightarrow> s | Some sv \<Rightarrow> snd (tearDownApplication rt existing sv volumes s));
         (d, vs) = delete_application (app_id existing) s1 (hs_dir s1, hs_volumes s1)
     in s1\<lparr>hs_dir := d, hs_volumes := vs\<rparr>)"

definition preview_parent ::
  "HookEnv \<Rightarrow> Runtime \<Rightarrow> PullRequestEvent \<Rightarrow> Application \<Rightarrow> HookState \<Rightarrow> PreviewResult \<times> HookState" where
  "preview_parent ev rt pr parent s =
    (let d = hs_dir s;
         existing = find (\<lambda>a. app_previewOfId a = Some (app_id parent) \<and> app_prNumber a = Some (pr_number pr)) (dir_applications d);
         server = find (\<lambda>v. srv_id v = app_serverId parent) (dir_servers d)
     in if pr_action pr = Closed then
          (case existing of
             None \<Rightarrow> (preview_result (app_id parent) PreviewSkipped (Some ''no preview'') None, s)
           | Some e \<Rightarrow> (preview_result (app_id parent) PreviewRemoved None (Some (app_id e)), close_preview rt server e s))
        else
          (case server of
             None \<Rightarrow> (preview_result (app_id parent) PreviewSkipped
                         (Some ''the server needs an active proxy and a wildcard domain'') None, s)
           | Some sv \<Rightarrow>
               if srv_proxyStatus sv \<noteq> ProxyActive \<or> \<not> str_truthy (srv_wildcardDomain sv)
               then (preview_result (app_id parent) PreviewSkipped
                       (Some ''the server needs an active proxy and a wildcard domain'') None, s)
               else
                 (let (i, s1) =
                    (case existing of
                       Some e \<Rightarrow> (app_id e, s\<lparr>hs_dir := d\<lparr>dir_applications :=
                          map (\<lambda>a. if app_id a = app_id e then a\<lparr>app_branch := pr_headRef pr\<rparr> else a) (dir_applications d)\<rparr>\<rparr>)
                     | None \<Rightarrow> (hk_fresh ev s, create_preview ev pr parent (the (srv_wildcardDomain sv)) s))
                  in (preview_result (app_id parent) PreviewDeployed None (Some i), queue_deployment ev i s1))))"

definition preview_parents :: "PullRequestEvent \<Rightarrow> Directory \<Rightarrow> Application list" where
  "preview_parents pr d =
    filter (\<lambda>a. app_githubInstallationId a = pr_installationId pr \<and> app_githubRepo a = Some (pr_repo pr) \<and>
                app_branch a = pr_baseRef pr \<and> app_previewEnabled a) (dir_applications d)"

definition preview_step ::
  "HookEnv \<Rightarrow> Runtime \<Rightarrow> PullRequestEvent \<Rightarrow> Application \<Rightarrow> PreviewResult list \<times> HookState \<Rightarrow> PreviewResult list \<times> HookState" where
  "preview_step ev rt pr parent rs = (case preview_parent ev rt pr parent (snd rs) of (r, s) \<Rightarrow> (fst rs @ [r], s))"

definition handlePullRequestEvent :: "HookEnv \<Rightarrow> Runtime \<Rightarrow> PullRequestEvent \<Rightarrow> HookState \<Rightarrow> PreviewResult list \<times> HookState" where
  "handlePullRequestEvent ev rt pr s =
    (if pr_fromFork pr \<or> pr_installationId pr = None then ([], s)
     else fold (preview_step ev rt pr) (preview_parents pr (hs_dir s)) ([], s))"

section \<open>githubWebhook.ts\<close>

fun preview_action_str :: "PreviewAction \<Rightarrow> string" where
  "preview_action_str PreviewDeployed = ''deployed''"
| "preview_action_str PreviewRemoved = ''removed''"
| "preview_action_str PreviewSkipped = ''skipped''"

definition preview_json :: "PreviewResult \<Rightarrow> jv" where
  "preview_json r =
    JObj ([(''parent'', JStr (pvr_parent r)), (''action'', JStr (preview_action_str (pvr_action r)))] @
      (case pvr_reason r of Some t \<Rightarrow> [(''reason'', JStr t)] | None \<Rightarrow> []) @
      (case pvr_previewId r of Some i \<Rightarrow> [(''previewId'', JStr i)] | None \<Rightarrow> []))"

definition pushed_applications :: "Directory \<Rightarrow> jv \<Rightarrow> jv \<Rightarrow> string \<Rightarrow> Application list" where
  "pushed_applications d installationId repo branch =
    filter (\<lambda>a. (case app_githubInstallationId a of Some n \<Rightarrow> installationId = JNum n | None \<Rightarrow> False) \<and>
                (case app_githubRepo a of Some r \<Rightarrow> repo = JStr r | None \<Rightarrow> False) \<and>
                app_branch a = branch \<and> app_previewOfId a = None) (dir_applications d)"

definition github_push :: "HookEnv \<Rightarrow> jv \<Rightarrow> handler" where
  "github_push ev payload s =
    (if nullish payload then (Inl ''TypeError'', s)
     else
       (let installationId = jget ''id'' (jget ''installation'' payload) in
        if \<not> jtruthy installationId then (ignored (JStr ''no installation''), s)
        else if shouldSkipDeploy (hk_nonint ev) (jget ''message'' (jget ''head_commit'' payload))
        then (ignored (JStr ''skip marker in commit message''), s)
        else
          (case jget ''ref'' payload of
             JStr ref \<Rightarrow>
               (let branch = replace_first ''refs/heads/'' [] ref in
                if branch = ref then (ignored (JStr ''not a branch push''), s)
                else if \<not> list_ex (\<lambda>i. installationId = JNum (ghi_installationId i)) (hs_installations s)
                then (ignored (JStr ''unknown installation''), s)
                else if nullish (jget ''repository'' payload) then (Inl ''TypeError'', s)
                else
                  (let matches = pushed_applications (hs_dir s) installationId (jget ''full_name'' (jget ''repository'' payload)) branch
                   in (triggered (length matches), fold (\<lambda>a. queue_deployment ev (app_id a)) matches s)))
           | _ \<Rightarrow> (Inl ''TypeError'', s))))"

definition githubWebhookRoutes :: "HookEnv \<Rightarrow> Runtime \<Rightarrow> headers \<Rightarrow> string \<Rightarrow> handler" where
  "githubWebhookRoutes ev rt headers rawBody s =
    (case getGithubConfig (hk_env ev) (hk_fromBase64 ev) of
       None \<Rightarrow> (refused 404 ''not found'', s)
     | Some config \<Rightarrow>
         if \<not> verifyWebhookSignature (hk_hmac ev) rawBody (headers ''x-hub-signature-256'') (gc_webhookSecret config)
         then (refused 401 ''invalid signature'', s)
         else
           (let event = headers ''x-github-event'' in
            if event = Some ''pull_request'' then
              (case hk_json ev rawBody of
                 None \<Rightarrow> (Inl ''SyntaxError'', s)
               | Some payload \<Rightarrow>
                   (case parsePullRequestEvent payload of
                      None \<Rightarrow> (ignored (JStr ''pull_request action''), s)
                    | Some pr \<Rightarrow>
                        if pr_fromFork pr then (ignored (JStr ''pull request from a fork''), s)
                        else
                          (case handlePullRequestEvent ev rt pr s of
                             (results, s') \<Rightarrow>
                               (Inr (200, JObj [(''ok'', JBool True), (''previews'', JArr (map preview_json results))]), s'))))
            else if event \<noteq> Some ''push'' then (ignored (opt_json JStr event), s)
            else (case hk_json ev rawBody of None \<Rightarrow> (Inl ''SyntaxError'', s) | Some payload \<Rightarrow> github_push ev payload s)))"

section \<open>routes/github.ts\<close>

definition team_user :: "HookEnv \<Rightarrow> string option \<Rightarrow> string \<Rightarrow> HookState \<Rightarrow> (int \<times> string) + User" where
  "team_user ev sessionId teamId s =
    (case findSessionUser (hs_dir s) (hk_now ev) sessionId of
       None \<Rightarrow> Inl (401, ''unauthorized'')
     | Some user \<Rightarrow> if assertMember (hs_dir s) teamId (usr_id user) then Inr user else Inl (403, ''forbidden''))"

definition for_member :: "HookEnv \<Rightarrow> string option \<Rightarrow> string \<Rightarrow> (User \<Rightarrow> handler) \<Rightarrow> handler" where
  "for_member ev sessionId teamId h s =
    (case team_user ev sessionId teamId s of
       Inl (status, message) \<Rightarrow> (refused status message, s)
     | Inr user \<Rightarrow> h user s)"

definition github_config :: "HookEnv \<Rightarrow> GithubConfig option" where
  "github_config ev = getGithubConfig (hk_env ev) (hk_fromBase64 ev)"

definition toInstallationDto :: "HookEnv \<Rightarrow> GithubInstallation \<Rightarrow> jv" where
  "toInstallationDto ev i =
    JObj [(''id'', JStr (ghi_id i)), (''teamId'', JStr (ghi_teamId i)), (''installationId'', JNum (ghi_installationId i)),
          (''accountLogin'', JStr (ghi_accountLogin i)), (''accountType'', JStr (ghi_accountType i)),
          (''createdAt'', JStr (hk_iso ev (ghi_createdAt i)))]"

definition webOrigin :: "(string \<Rightarrow> string option) \<Rightarrow> string" where
  "webOrigin env = trim (hd (split_str '','' (default ''http://localhost:5173'' (env ''WEB_ORIGIN''))))"

definition own_installation :: "HookState \<Rightarrow> string \<Rightarrow> GithubInstallation option" where
  "own_installation s teamId = find (\<lambda>i. ghi_teamId i = teamId) (hs_installations s)"

definition get_github :: "HookEnv \<Rightarrow> string option \<Rightarrow> string \<Rightarrow> handler" where
  "get_github ev sessionId teamId =
    for_member ev sessionId teamId (\<lambda>user s.
      (Inr (200, JObj [(''configured'', JBool (github_config ev \<noteq> None)),
                       (''installation'', opt_json (toInstallationDto ev) (own_installation s teamId))]), s))"

definition get_install_url :: "HookEnv \<Rightarrow> OAuthCodec \<Rightarrow> string option \<Rightarrow> string \<Rightarrow> handler" where
  "get_install_url ev c sessionId teamId =
    for_member ev sessionId teamId (\<lambda>user s.
      case github_config ev of
        None \<Rightarrow> (refused 400 ''GitHub App is not configured on this server'', s)
      | Some config \<Rightarrow>
          (case createOAuthState c teamId (usr_id user) (hk_now ev) of
             Inl e \<Rightarrow> (Inl e, s)
           | Inr state \<Rightarrow>
               (Inr (200, JObj [(''url'', JStr (''https://github.com/apps/'' @ gc_appSlug config @
                  ''/installations/new?state='' @ encodeURIComponent state))]), s)))"

text \<open>A number that is a positive integer, as \<open>Number.isInteger\<close> and the comparison accept it.\<close>

definition positive_integer :: "jsnum \<Rightarrow> int option" where
  "positive_integer n = (case n of Finite r \<Rightarrow> if r = of_int \<lfloor>r\<rfloor> \<and> 0 < r then Some \<lfloor>r\<rfloor> else None | _ \<Rightarrow> None)"

definition connect_installation ::
  "HookEnv \<Rightarrow> string \<Rightarrow> int \<Rightarrow> string \<Rightarrow> string \<Rightarrow> HookState \<Rightarrow> GithubInstallation list" where
  "connect_installation ev teamId installationId login type s =
    (if list_ex (\<lambda>i. ghi_teamId i = teamId) (hs_installations s)
     then map (\<lambda>i. if ghi_teamId i = teamId
                   then i\<lparr>ghi_installationId := installationId, ghi_accountLogin := login, ghi_accountType := type\<rparr> else i) (hs_installations s)
     else hs_installations s @ [new_githubInstallation (hk_fresh ev s) (hk_now ev) teamId installationId login type])"

definition wrong_session :: string where
  "wrong_session = ''this connection was started by another session '' @ em_dash @ '' sign in to the right account and try again''"

definition github_callback :: "HookEnv \<Rightarrow> OAuthCodec \<Rightarrow> string option \<Rightarrow> string option \<Rightarrow> string option \<Rightarrow> handler" where
  "github_callback ev c sessionId installationIdRaw state s =
    (case github_config ev of
       None \<Rightarrow> (refused 400 ''GitHub App is not configured on this server'', s)
     | Some config \<Rightarrow>
         if \<not> str_truthy installationIdRaw \<or> \<not> str_truthy state
         then (refused 400 (''invalid callback '' @ em_dash @ '' installation_id or state is missing''), s)
         else
           (case positive_integer (js_Number (the installationIdRaw)) of
              None \<Rightarrow> (refused 400 (''invalid callback '' @ em_dash @ '' installation_id''), s)
            | Some installationId \<Rightarrow>
                (case verifyOAuthState c (the state) (hk_now ev) of
                   Inl e \<Rightarrow> (Inl e, s)
                 | Inr None \<Rightarrow>
                     (refused 400 (''invalid or expired state '' @ em_dash @ '' go back to the GitHub screen and click connect again''), s)
                 | Inr (Some (teamId, userId)) \<Rightarrow>
                     (case findSessionUser (hs_dir s) (hk_now ev) sessionId of
                        None \<Rightarrow> (refused 403 wrong_session, s)
                      | Some user \<Rightarrow>
                          if usr_id user \<noteq> userId \<or> \<not> assertMember (hs_dir s) teamId (usr_id user)
                          then (refused 403 wrong_session, s)
                          else
                            (case hk_installation ev config installationId of
                               Inl e \<Rightarrow> (Inl e, s)
                             | Inr (login, type) \<Rightarrow>
                                 (Inr (302, JStr (webOrigin (hk_env ev) @ ''/teams/'' @ teamId @ ''/servers'')),
                                  s\<lparr>hs_installations := connect_installation ev teamId installationId login type s\<rparr>))))))"

definition repo_json :: "InstallationRepo \<Rightarrow> jv" where
  "repo_json r = JObj [(''fullName'', JStr (ir_fullName r)), (''defaultBranch'', JStr (ir_defaultBranch r)), (''private'', JBool (ir_private r))]"

text \<open>\<open>None\<close> where the listing of the repositories never ends.\<close>

definition get_github_repos :: "HookEnv \<Rightarrow> string option \<Rightarrow> string \<Rightarrow> HookState \<Rightarrow> (string + response) option" where
  "get_github_repos ev sessionId teamId s =
    (case team_user ev sessionId teamId s of
       Inl (status, message) \<Rightarrow> Some (refused status message)
     | Inr user \<Rightarrow>
         (case github_config ev of
            None \<Rightarrow> Some (refused 400 ''GitHub App is not configured on this server'')
          | Some config \<Rightarrow>
              (case own_installation s teamId of
                 None \<Rightarrow> Some (refused 404 ''no GitHub installation connected'')
               | Some installation \<Rightarrow>
                   (case hk_installationToken ev config (ghi_installationId installation) of
                      Inl e \<Rightarrow> Some (Inl e)
                    | Inr token \<Rightarrow>
                        map_option (map_sum id (\<lambda>repos. (200, JObj [(''repos'', JArr (map repo_json repos))])))
                          (listInstallationRepos (hk_repoPage ev token))))))"

definition get_github_resources :: "HookEnv \<Rightarrow> string option \<Rightarrow> string \<Rightarrow> handler" where
  "get_github_resources ev sessionId teamId =
    for_member ev sessionId teamId (\<lambda>user s.
      let d = hs_dir s;
          rows = concat (map (\<lambda>a.
            concat (map (\<lambda>e.
              map (\<lambda>p. JObj
                [(''applicationId'', JStr (app_id a)), (''applicationName'', JStr (app_name a)),
                 (''repo'', JStr (default [] (app_githubRepo a))), (''branch'', JStr (app_branch a)),
                 (''projectId'', JStr (prj_id p)), (''projectName'', JStr (prj_name p)),
                 (''environmentId'', JStr (envt_id e)), (''environmentName'', JStr (envt_name e))])
                (filter (\<lambda>p. prj_id p = envt_projectId e) (dir_projects d)))
              (filter (\<lambda>e. envt_id e = app_environmentId a) (dir_environments d))))
            (filter (\<lambda>a. app_teamId a = teamId \<and> app_githubInstallationId a \<noteq> None) (dir_applications d)))
      in (Inr (200, JObj [(''resources'', JArr rows)]), s))"

definition delete_github :: "HookEnv \<Rightarrow> string option \<Rightarrow> string \<Rightarrow> handler" where
  "delete_github ev sessionId teamId =
    for_member ev sessionId teamId (\<lambda>user s.
      (Inr (200, JObj [(''ok'', JBool True)]),
       s\<lparr>hs_installations := filter (\<lambda>i. ghi_teamId i \<noteq> teamId) (hs_installations s)\<rparr>))"

section \<open>routes/gitSources.ts\<close>

fun provider_str :: "GitProvider \<Rightarrow> string" where
  "provider_str Gitlab = ''gitlab''"
| "provider_str Bitbucket = ''bitbucket''"
| "provider_str Gitea = ''gitea''"

definition source_json :: "HookEnv \<Rightarrow> GitSource \<Rightarrow> jv" where
  "source_json ev g =
    JObj [(''id'', JStr (gs_id g)), (''provider'', JStr (provider_str (gs_provider g))), (''name'', JStr (gs_name g)),
          (''baseUrl'', JStr (gs_baseUrl g)), (''username'', JStr (gs_username g)), (''hasToken'', JBool (gs_token g \<noteq> [])),
          (''webhookPath'', JStr (''/webhooks/git/'' @ gs_id g)), (''createdAt'', JStr (hk_iso ev (gs_createdAt g)))]"

definition resolveBaseUrl :: "GitProvider \<Rightarrow> string option \<Rightarrow> string option" where
  "resolveBaseUrl provider input =
    (if provider = Bitbucket then provider_default_url Bitbucket
     else
       (let url = normalizeGitBaseUrl (if str_truthy input then the input else default [] (provider_default_url provider))
        in if isValidGitBaseUrl url then Some url else None))"

record SourceBody =
  sb_provider :: GitProvider
  sb_name :: string
  sb_baseUrl :: "string option"
  sb_username :: "string option"
  sb_token :: string

definition list_sources :: "HookEnv \<Rightarrow> (string \<Rightarrow> string \<Rightarrow> int) \<Rightarrow> string option \<Rightarrow> string \<Rightarrow> handler" where
  "list_sources ev collate sessionId teamId =
    for_member ev sessionId teamId (\<lambda>user s.
      (Inr (200, JObj [(''sources'', JArr (map (source_json ev)
         (sort_by (\<lambda>a b. collate (gs_name a) (gs_name b)) (filter (\<lambda>g. gs_teamId g = teamId) (hs_sources s)))))]), s))"

definition own_source :: "HookState \<Rightarrow> string \<Rightarrow> string \<Rightarrow> GitSource option" where
  "own_source s teamId sourceId = find (\<lambda>g. gs_id g = sourceId \<and> gs_teamId g = teamId) (hs_sources s)"

definition create_source :: "HookEnv \<Rightarrow> string option \<Rightarrow> string \<Rightarrow> SourceBody \<Rightarrow> handler" where
  "create_source ev sessionId teamId body =
    for_member ev sessionId teamId (\<lambda>user s.
      case resolveBaseUrl (sb_provider body) (sb_baseUrl body) of
        None \<Rightarrow> (refused 400 ''provide the server URL (e.g. https://git.example.com)'', s)
      | Some baseUrl \<Rightarrow>
          if trim (sb_name body) = [] \<or> sb_token body = [] then (refused 400 ''informe nome e token'', s)
          else if sb_provider body \<noteq> Gitlab \<and> \<not> str_truthy (map_option trim (sb_username body))
          then (refused 400 ''provide the username (Bitbucket uses username + app password)'', s)
          else if list_ex (\<lambda>g. gs_teamId g = teamId \<and> gs_name g = trim (sb_name body)) (hs_sources s)
          then (refused 409 ''a source with this name already exists'', s)
          else
            (let row = (new_gitSource (hk_fresh ev s) (hk_now ev) teamId (sb_provider body) (trim (sb_name body)) baseUrl
                          (sb_token body) (hk_random24 ev))\<lparr>gs_username := default [] (map_option trim (sb_username body))\<rparr>
             in (Inr (200, JObj [(''source'', source_json ev row)]), s\<lparr>hs_sources := hs_sources s @ [row]\<rparr>)))"

definition get_webhook_secret :: "HookEnv \<Rightarrow> string option \<Rightarrow> string \<Rightarrow> string \<Rightarrow> handler" where
  "get_webhook_secret ev sessionId teamId sourceId =
    for_member ev sessionId teamId (\<lambda>user s.
      case own_source s teamId sourceId of
        None \<Rightarrow> (refused 404 ''source not found'', s)
      | Some row \<Rightarrow>
          (Inr (200, JObj [(''secret'', JStr (gs_webhookSecret row)), (''path'', JStr (''/webhooks/git/'' @ gs_id row))]), s))"

definition git_repo_json :: "GitRepoDto \<Rightarrow> jv" where
  "git_repo_json r = JObj [(''fullName'', JStr (repo_fullName r)), (''defaultBranch'', JStr (repo_defaultBranch r)), (''private'', JBool (repo_private r))]"

definition get_source_repos :: "HookEnv \<Rightarrow> string option \<Rightarrow> string \<Rightarrow> string \<Rightarrow> handler" where
  "get_source_repos ev sessionId teamId sourceId =
    for_member ev sessionId teamId (\<lambda>user s.
      case own_source s teamId sourceId of
        None \<Rightarrow> (refused 404 ''source not found'', s)
      | Some row \<Rightarrow>
          (case hk_fetch ev (repoListRequest (hk_btoa ev) (gs_provider row) (gs_baseUrl row) (gs_username row) (gs_token row)) of
             Inl e \<Rightarrow> (refused 502 (''could not reach the provider: '' @ e), s)
           | Inr (status, body) \<Rightarrow>
               if status < 200 \<or> status > 299
               then (refused 502 (''the provider rejected the token (HTTP '' @ int_str status @ '')''), s)
               else
                 (case body of
                    Inl e \<Rightarrow> (refused 502 (''could not reach the provider: '' @ e), s)
                  | Inr v \<Rightarrow> (Inr (200, JObj [(''repos'', JArr (map git_repo_json (parseRepoList (gs_provider row) v)))]), s))))"

definition delete_source :: "HookEnv \<Rightarrow> string option \<Rightarrow> string \<Rightarrow> string \<Rightarrow> handler" where
  "delete_source ev sessionId teamId sourceId =
    for_member ev sessionId teamId (\<lambda>user s.
      if own_source s teamId sourceId = None then (refused 404 ''source not found'', s)
      else (Inr (200, JObj [(''ok'', JBool True)]),
        s\<lparr>hs_sources := filter (\<lambda>g. \<not> (gs_id g = sourceId \<and> gs_teamId g = teamId)) (hs_sources s),
          hs_dir := (hs_dir s)\<lparr>dir_applications :=
            map (\<lambda>a. if app_gitSourceId a = Some sourceId then a\<lparr>app_gitSourceId := None\<rparr> else a) (dir_applications (hs_dir s))\<rparr>\<rparr>))"

section \<open>Nothing is started without the secret\<close>

datatype HookRequest =
    GithubHook headers string
  | GitSourceHook headers string string
  | TokenHook string

fun hook_handler :: "HookEnv \<Rightarrow> Runtime \<Rightarrow> HookRequest \<Rightarrow> handler" where
  "hook_handler ev rt (GithubHook headers body) = githubWebhookRoutes ev rt headers body"
| "hook_handler ev rt (GitSourceHook headers body sourceId) = gitSourceWebhookRoutes ev headers body sourceId"
| "hook_handler ev rt (TokenHook token) = deployHookRoutes ev token"

text \<open>What each provider has to send: the secret itself (GitLab) or the HMAC of the very body under it.\<close>

fun carries_secret :: "(string \<Rightarrow> string \<Rightarrow> string) \<Rightarrow> headers \<Rightarrow> string \<Rightarrow> string \<Rightarrow> GitProvider \<Rightarrow> bool" where
  "carries_secret hmacHex headers body secret Gitlab \<longleftrightarrow> headers ''x-gitlab-token'' = Some secret"
| "carries_secret hmacHex headers body secret Bitbucket \<longleftrightarrow>
    headers ''x-hub-signature'' = Some (''sha256='' @ hmacHex secret body)"
| "carries_secret hmacHex headers body secret Gitea \<longleftrightarrow>
    headers ''x-gitea-signature'' = Some (hmacHex secret body) \<or> headers ''x-forgejo-signature'' = Some (hmacHex secret body) \<or>
    headers ''x-hub-signature-256'' = Some (''sha256='' @ hmacHex secret body)"

fun authentic :: "HookEnv \<Rightarrow> HookState \<Rightarrow> HookRequest \<Rightarrow> bool" where
  "authentic ev s (GithubHook headers body) \<longleftrightarrow>
    (case hk_env ev ''GITHUB_APP_WEBHOOK_SECRET'' of
       Some secret \<Rightarrow> secret \<noteq> [] \<and> headers ''x-hub-signature-256'' = Some (''sha256='' @ hk_hmac ev secret body)
     | None \<Rightarrow> False)"
| "authentic ev s (GitSourceHook headers body sourceId) \<longleftrightarrow>
    list_ex (\<lambda>g. gs_id g = to_lower sourceId \<and> gs_webhookSecret g \<noteq> [] \<and>
      carries_secret (hk_hmac ev) headers body (gs_webhookSecret g) (gs_provider g)) (hs_sources s)"
| "authentic ev s (TokenHook token) \<longleftrightarrow>
    list_ex (\<lambda>a. app_deployTokenHash a = Some (hk_sha256 ev token)) (dir_applications (hs_dir s))"

lemma safeEqual_iff [simp]: "safeEqual a b \<longleftrightarrow> a = b"
  by (auto simp: safeEqual_def list.rel_eq)

lemma verifyGitWebhook_carries:
  "verifyGitWebhook hmacHex provider headers body secret \<Longrightarrow> secret \<noteq> [] \<and> carries_secret hmacHex headers body secret provider"
  by (cases provider)
    (auto simp: verifyGitWebhook_def Let_def orElse_def str_truthy_def split: if_splits option.splits)

lemma verifyWebhookSignature_iff:
  "verifyWebhookSignature hmacHex body header secret \<longleftrightarrow> header = Some (''sha256='' @ hmacHex secret body)"
  by (auto simp: verifyWebhookSignature_def starts_with_def split: option.splits)

lemma github_config_secret:
  "getGithubConfig env f = Some config \<Longrightarrow> env ''GITHUB_APP_WEBHOOK_SECRET'' = Some (gc_webhookSecret config) \<and> gc_webhookSecret config \<noteq> []"
  by (auto simp: getGithubConfig_def Let_def str_truthy_def split: if_splits option.splits)

lemma find_none_ex: "find P xs = None \<longleftrightarrow> \<not> list_ex P xs"
  using find_iff [of P xs] by auto

text \<open>
  C36: A webhook or deploy hook that does not carry its secret changes nothing (no deployment, no preview, no job,
  no command on a server) and is refused. For GitHub the secret is the one of the App, for another provider that of
  the very source it names, for a deploy hook the token whose digest an application stores.
\<close>

theorem webhooks_need_their_secret:
  assumes "\<not> authentic ev s request"
  shows "snd (hook_handler ev rt request s) = s \<and>
    fst (hook_handler ev rt request s) \<in> {refused 401 ''invalid signature'', refused 404 ''not found''}"
proof (cases request)
  case (GithubHook headers body)
  show ?thesis
  proof (cases "getGithubConfig (hk_env ev) (hk_fromBase64 ev)")
    case None
    with GithubHook show ?thesis by (simp add: githubWebhookRoutes_def)
  next
    case (Some config)
    from assms GithubHook github_config_secret [OF Some]
    have "\<not> verifyWebhookSignature (hk_hmac ev) body (headers ''x-hub-signature-256'') (gc_webhookSecret config)"
      by (simp add: verifyWebhookSignature_iff)
    with GithubHook Some show ?thesis by (simp add: githubWebhookRoutes_def)
  qed
next
  case (GitSourceHook headers body sourceId)
  define source where "source = (if rx_test uuid_rx sourceId then find (\<lambda>g. gs_id g = to_lower sourceId) (hs_sources s) else None)"
  show ?thesis
  proof (cases source)
    case None
    with GitSourceHook show ?thesis by (simp add: gitSourceWebhookRoutes_def source_def Let_def)
  next
    case (Some g)
    then have g: "g \<in> set (hs_sources s) \<and> gs_id g = to_lower sourceId"
      using find_SomeD [of "\<lambda>g. gs_id g = to_lower sourceId" "hs_sources s" g] by (simp add: source_def split: if_splits)
    have "\<not> verifyGitWebhook (hk_hmac ev) (gs_provider g) headers body (gs_webhookSecret g)"
    proof
      assume "verifyGitWebhook (hk_hmac ev) (gs_provider g) headers body (gs_webhookSecret g)"
      from verifyGitWebhook_carries [OF this] g have "authentic ev s request"
        by (auto simp only: GitSourceHook authentic.simps list_ex_iff)
      with assms show False ..
    qed
    with GitSourceHook Some show ?thesis by (simp add: gitSourceWebhookRoutes_def source_def Let_def)
  qed
next
  case (TokenHook token)
  with assms show ?thesis
    by (simp add: deployHookRoutes_def hashDeployToken_def find_none_ex [THEN iffD2])
qed

section \<open>What a push deploys\<close>

text \<open>The queued deployments \<open>ds\<close> are the only difference between two states.\<close>

definition with_deployments :: "Deployment list \<Rightarrow> HookState \<Rightarrow> HookState" where
  "with_deployments ds s =
    s\<lparr>hs_dir := (hs_dir s)\<lparr>dir_deployments := dir_deployments (hs_dir s) @ ds\<rparr>, hs_jobs := hs_jobs s @ map dep_id ds\<rparr>"

lemma with_no_deployments [simp]: "with_deployments [] s = s"
  by (simp add: with_deployments_def)

lemma with_deployments_twice: "with_deployments es (with_deployments ds s) = with_deployments (ds @ es) s"
  by (simp add: with_deployments_def)

lemma queue_is_with: "queue_deployment ev i s = with_deployments [new_deployment (hk_fresh ev s) (hk_now ev) i] s"
  by (simp add: queue_deployment_def with_deployments_def Let_def)

lemma applications_with [simp]: "dir_applications (hs_dir (with_deployments ds s)) = dir_applications (hs_dir s)"
  by (simp add: with_deployments_def)

definition queues :: "string list \<Rightarrow> HookState \<Rightarrow> HookState \<Rightarrow> bool" where
  "queues ids s s' \<longleftrightarrow> (\<exists>ds. map dep_applicationId ds = ids \<and> list_all (\<lambda>d. dep_status d = DepQueued) ds \<and> s' = with_deployments ds s)"

lemma queues_none: "queues [] s s"
  by (simp add: queues_def)

lemma queues_more: "queues ids s s' \<Longrightarrow> queues js s' s'' \<Longrightarrow> queues (ids @ js) s s''"
  unfolding queues_def by (metis list_all_append map_append with_deployments_twice)

lemma queues_one: "queues [i] s (queue_deployment ev i s)"
  unfolding queues_def by (rule exI [of _ "[new_deployment (hk_fresh ev s) (hk_now ev) i]"]) (simp add: queue_is_with new_deployment_def)

lemma queues_fold: "queues (map app_id as) s (fold (\<lambda>a. queue_deployment ev (app_id a)) as s)"
proof (induction as arbitrary: s)
  case (Cons a as)
  show ?case using queues_more [OF queues_one [of "app_id a" s ev] Cons.IH] by simp
qed (simp add: queues_none)

lemma counting_fold:
  "fold (\<lambda>a (n, s). (Suc n, queue_deployment ev (app_id a) s)) as (n, s) =
   (n + length as, fold (\<lambda>a. queue_deployment ev (app_id a)) as s)"
  by (induction as arbitrary: n s) simp_all

lemma queues_applications: "queues ids s s' \<Longrightarrow> dir_applications (hs_dir s') = dir_applications (hs_dir s)"
  by (auto simp: queues_def)

definition branch_targets :: "HookEnv \<Rightarrow> Directory \<Rightarrow> string \<Rightarrow> string \<Rightarrow> string \<times> jv \<Rightarrow> string list" where
  "branch_targets ev d sourceId repo change =
    (case change of (branch, message) \<Rightarrow>
       if shouldSkipDeploy (hk_nonint ev) message then [] else map app_id (source_applications d sourceId repo branch))"

lemma source_applications_same:
  "dir_applications d = dir_applications d' \<Longrightarrow> source_applications d i r b = source_applications d' i r b"
  by (simp add: source_applications_def)

lemma deploy_branch_queues:
  "deploy_branch ev i r change (n, s) =
     (n + length (branch_targets ev (hs_dir s) i r change), snd (deploy_branch ev i r change (n, s))) \<and>
   queues (branch_targets ev (hs_dir s) i r change) s (snd (deploy_branch ev i r change (n, s)))"
proof (cases change)
  case (Pair branch message)
  then show ?thesis
    by (cases "shouldSkipDeploy (hk_nonint ev) message")
      (simp_all add: deploy_branch_def branch_targets_def counting_fold queues_none queues_fold)
qed

lemma branch_targets_same:
  "dir_applications d = dir_applications d' \<Longrightarrow> branch_targets ev d i r = branch_targets ev d' i r"
  by (simp add: branch_targets_def source_applications_same [of d d'] fun_eq_iff)

lemma branches_queue:
  "\<exists>s'. fold (deploy_branch ev i r) changes (n, s) = (n + length (concat (map (branch_targets ev (hs_dir s) i r) changes)), s') \<and>
        queues (concat (map (branch_targets ev (hs_dir s) i r) changes)) s s'"
proof (induction changes arbitrary: n s)
  case (Cons c changes)
  obtain s1 where one: "deploy_branch ev i r c (n, s) = (n + length (branch_targets ev (hs_dir s) i r c), s1)"
      "queues (branch_targets ev (hs_dir s) i r c) s s1"
    using deploy_branch_queues [of ev i r c n s] by blast
  have same: "branch_targets ev (hs_dir s1) i r = branch_targets ev (hs_dir s) i r"
    by (rule branch_targets_same [OF queues_applications [OF one(2)]])
  from Cons.IH [of "n + length (branch_targets ev (hs_dir s) i r c)" s1] obtain s2 where
    "fold (deploy_branch ev i r) changes (n + length (branch_targets ev (hs_dir s) i r c), s1) =
       (n + length (branch_targets ev (hs_dir s) i r c) + length (concat (map (branch_targets ev (hs_dir s) i r) changes)), s2)"
    "queues (concat (map (branch_targets ev (hs_dir s) i r) changes)) s1 s2"
    by (auto simp: same)
  with one queues_more [OF one(2)] show ?case by (simp add: add.assoc)
qed (simp add: queues_none)


section \<open>The state of the connection with GitHub\<close>

text \<open>What the platform promises of its encodings.\<close>

definition state_payload :: "string \<Rightarrow> string \<Rightarrow> int \<Rightarrow> jv" where
  "state_payload teamId userId expires = JObj [(''teamId'', JStr teamId), (''userId'', JStr userId), (''exp'', JNum expires)]"

definition codec_ok :: "OAuthCodec \<Rightarrow> bool" where
  "codec_ok c \<longleftrightarrow> str_truthy (oc_secret c) \<and>
    (\<forall>t. oc_decode c (oc_encode c t) = t \<and> CHR ''.'' \<notin> set (oc_encode c t) \<and> (t \<noteq> [] \<longrightarrow> oc_encode c t \<noteq> [])) \<and>
    (\<forall>t u e. oc_parse c (oc_stringify c (state_payload t u e)) = Some (state_payload t u e) \<and> oc_stringify c (state_payload t u e) \<noteq> []) \<and>
    (\<forall>k t. oc_hmac c k t \<noteq> [] \<and> CHR ''.'' \<notin> set (oc_hmac c k t))"

definition signature_of :: "OAuthCodec \<Rightarrow> string \<Rightarrow> string" where
  "signature_of c body = oc_hmac c (the (oc_secret c)) (''github-oauth-state:'' @ body)"

lemma split_two: "CHR ''.'' \<notin> set a \<Longrightarrow> CHR ''.'' \<notin> set b \<Longrightarrow> split_str ''.'' (a @ ''.'' @ b) = [a, b]"
  by (simp add: split_char_append split_char_absent)

lemma split_two_iff:
  "CHR ''.'' \<notin> set b \<Longrightarrow> split_str ''.'' state = [a, b] \<longleftrightarrow> state = a @ ''.'' @ b \<and> CHR ''.'' \<notin> set a"
  using split_two [of a b] join_split_str [of "''.''" state] split_char_pieces [of a "CHR ''.''" state] by auto

lemma verify_iff:
  assumes "codec_ok c"
  shows "verifyOAuthState c state later = Inr (Some (t, u)) \<longleftrightarrow>
    (\<exists>body. state = body @ ''.'' @ signature_of c body \<and> body \<noteq> [] \<and> CHR ''.'' \<notin> set body \<and>
      read_payload c body later = Some (t, u))" (is "?v \<longleftrightarrow> ?e")
proof -
  from assms have sig: "signature_of c b \<noteq> []" "CHR ''.'' \<notin> set (signature_of c b)" and
      key: "sign c b = Inr (signature_of c b)" for b
    by (auto simp: codec_ok_def signature_of_def sign_def)
  have "?v \<longleftrightarrow> (\<exists>body. split_str ''.'' state = [body, signature_of c body] \<and> body \<noteq> [] \<and> read_payload c body later = Some (t, u))"
    using sig by (auto simp: verifyOAuthState_def key split: list.splits if_splits)
  also have "\<dots> \<longleftrightarrow> ?e" using split_two_iff [OF sig(2)] by auto
  finally show ?thesis .
qed

lemma created_verifies:
  assumes "codec_ok c" and "createOAuthState c teamId userId now = Inr made"
  shows "verifyOAuthState c made later = Inr (if later \<le> now + 600000 then Some (teamId, userId) else None)"
proof -
  define body where "body = oc_encode c (oc_stringify c (state_payload teamId userId (now + OAUTH_STATE_TTL_MS)))"
  from assms(2) have made: "made = body @ ''.'' @ signature_of c body" and key: "sign c body = Inr (signature_of c body)"
    using assms(1) by (auto simp: createOAuthState_def state_payload_def [symmetric] body_def [symmetric] sign_def signature_of_def codec_ok_def Let_def)
  have ok: "body \<noteq> []" "CHR ''.'' \<notin> set body" "signature_of c body \<noteq> []" "CHR ''.'' \<notin> set (signature_of c body)"
      "oc_decode c body = oc_stringify c (state_payload teamId userId (now + OAUTH_STATE_TTL_MS))"
    using assms(1) by (auto simp: body_def codec_ok_def signature_of_def)
  have "read_payload c body later = (if later \<le> now + 600000 then Some (teamId, userId) else None)"
    using assms(1) by (auto simp: read_payload_def ok(5) codec_ok_def OAUTH_STATE_TTL_MS_def) (auto simp: state_payload_def)
  then show "verifyOAuthState c made later = Inr (if later \<le> now + 600000 then Some (teamId, userId) else None)"
    unfolding verifyOAuthState_def made split_two [OF ok(2,4)] using ok key by simp
qed

text \<open>
  A state is accepted for a team and a user exactly when it is a text followed by the server's own signature of
  that text, and the text says that team and user and a time that has not passed; and a state made for a team and a
  user is accepted for them up to ten minutes after it was made, and for nobody afterwards.
\<close>

theorem oauth_states_exact:
  assumes "codec_ok c"
  shows "(verifyOAuthState c state later = Inr (Some (t, u)) \<longleftrightarrow>
      (\<exists>body. state = body @ ''.'' @ signature_of c body \<and> body \<noteq> [] \<and> CHR ''.'' \<notin> set body \<and>
        read_payload c body later = Some (t, u))) \<and>
    (createOAuthState c teamId userId now = Inr made \<longrightarrow>
      verifyOAuthState c made later = Inr (if later \<le> now + 600000 then Some (teamId, userId) else None))"
  using verify_iff [OF assms] created_verifies [OF assms] by blast

definition demo_codec :: OAuthCodec where
  "demo_codec =
    \<lparr>oc_secret = Some ''k'', oc_hmac = (\<lambda>k t. ''m''), oc_encode = (\<lambda>t. nat_str (Countable.to_nat t)),
     oc_decode = (\<lambda>s. Countable.from_nat (nat_of_digits s)),
     oc_stringify = (\<lambda>v. case v of JObj [(a, JStr t), (b, JStr u), (d, JNum e)] \<Rightarrow> nat_str (Countable.to_nat (t, u, e)) | _ \<Rightarrow> ''x''),
     oc_parse = (\<lambda>s. case Countable.from_nat (nat_of_digits s) of (t, u, e) \<Rightarrow> Some (state_payload t u e))\<rparr>"

lemma demo_codec_ok: "codec_ok demo_codec"
proof -
  have "nat_str n \<noteq> [] \<and> CHR ''.'' \<notin> set (nat_str n) \<and> nat_of_digits (nat_str n) = n" for n
    using nat_str_digits [of n] by (auto simp: is_digit_def in_range_def code_def)
  then show ?thesis by (simp add: codec_ok_def demo_codec_def state_payload_def str_truthy_def)
qed

theorem oauth_states_exact_witness:
  "codec_ok demo_codec \<and> (\<exists>made. createOAuthState demo_codec ''t'' ''u'' 5 = Inr made \<and>
     verifyOAuthState demo_codec made 600005 = Inr (Some (''t'', ''u'')) \<and> verifyOAuthState demo_codec made 600006 = Inr None)"
proof -
  obtain made where made: "createOAuthState demo_codec ''t'' ''u'' 5 = Inr made"
    by (simp add: createOAuthState_def sign_def demo_codec_def str_truthy_def Let_def)
  show ?thesis
    using demo_codec_ok made oauth_states_exact [OF demo_codec_ok, THEN conjunct2, THEN mp, OF made, of 600005]
      oauth_states_exact [OF demo_codec_ok, THEN conjunct2, THEN mp, OF made, of 600006] by simp
qed

section \<open>Listing the repositories ends\<close>

text \<open>What GitHub documents of a paged listing: page \<open>p\<close>, counted from 1, is the p-th hundred.\<close>

definition pages_of :: "InstallationRepo list \<Rightarrow> nat \<Rightarrow> string + InstallationRepo list" where
  "pages_of repos page = Inr (take 100 (drop (100 * (page - 1)) repos))"

lemma repo_pages_all:
  "0 < page \<Longrightarrow> repo_pages (pages_of repos) page found = Some (Inr (found @ drop (100 * (page - 1)) repos))"
proof (induction "length repos - 100 * (page - 1)" arbitrary: page found rule: less_induct)
  case less
  show ?case
  proof (cases "length (drop (100 * (page - 1)) repos) < 100")
    case True
    then show ?thesis by (subst repo_pages.simps) (simp add: pages_of_def)
  next
    case False
    from less.prems obtain p where p: "page = Suc p" by (cases page) auto
    have "repo_pages (pages_of repos) (page + 1) (found @ take 100 (drop (100 * p) repos)) =
        Some (Inr ((found @ take 100 (drop (100 * p) repos)) @ drop (100 * page) repos))"
      using less.hyps [of "page + 1"] False p by simp
    moreover have "take 100 (drop (100 * p) repos) @ drop (100 * page) repos = drop (100 * p) repos"
      using append_take_drop_id [of 100 "drop (100 * p) repos"] by (simp add: p add.commute)
    ultimately show ?thesis using False by (subst repo_pages.simps) (simp add: pages_of_def p)
  qed
qed

text \<open>
  The loop over the pages of an installation's repositories ends whenever the pages come from one finite list,
  also when the last page is full, and returns that list, complete and in order.
\<close>

theorem installation_repos_listed: "listInstallationRepos (pages_of repos) = Some (Inr repos)"
  by (simp add: listInstallationRepos_def repo_pages_all)

section \<open>The volumes of a preview\<close>

lemma copy_volume_same [simp]: "hs_dir (copy_volume ev i v s) = hs_dir s"
  by (simp add: copy_volume_def)

lemma copies_keep_dir [simp]: "hs_dir (fold (copy_volume ev i) vs s) = hs_dir s"
  by (induction vs arbitrary: s) simp_all

definition copy_of :: "HookState \<Rightarrow> string \<Rightarrow> ApplicationVolume \<Rightarrow> ApplicationVolume \<Rightarrow> bool" where
  "copy_of s i v v' \<longleftrightarrow> vol_applicationId v' = i \<and> vol_mountPath v' = vol_mountPath v \<and> vol_kind v' = vol_kind v \<and>
     vol_hostPath v' = vol_hostPath v \<and> vol_fileContent v' = vol_fileContent v \<and> vol_id v' \<notin> vol_id ` set (hs_volumes s)"

lemma copies:
  assumes fresh: "\<And>s'. hk_fresh ev s' \<notin> vol_id ` set (hs_volumes s')"
    and sub: "set (hs_volumes s) \<subseteq> set (hs_volumes s1)"
  shows "\<exists>cs. hs_volumes (fold (copy_volume ev i) vs s1) = hs_volumes s1 @ cs \<and> list_all2 (copy_of s i) vs cs"
  using sub
proof (induction vs arbitrary: s1)
  case (Cons v vs)
  define c where "c = (new_applicationVolume (hk_fresh ev s1) (hk_now ev) i (vol_name v) (vol_mountPath v))
           \<lparr>vol_kind := vol_kind v, vol_hostPath := vol_hostPath v, vol_fileContent := vol_fileContent v\<rparr>"
  have added: "hs_volumes (copy_volume ev i v s1) = hs_volumes s1 @ [c]" by (simp add: copy_volume_def c_def)
  have "copy_of s i v c"
    using fresh [of s1] Cons.prems by (auto simp: copy_of_def c_def new_applicationVolume_def)
  moreover obtain cs where "hs_volumes (fold (copy_volume ev i) vs (copy_volume ev i v s1)) = (hs_volumes s1 @ [c]) @ cs"
      "list_all2 (copy_of s i) vs cs"
    using Cons.IH [of "copy_volume ev i v s1"] Cons.prems by (auto simp: added)
  ultimately show ?case by (intro exI [of _ "c # cs"]) simp
qed simp

definition on_host :: "ApplicationVolume \<Rightarrow> bool" where
  "on_host v \<longleftrightarrow> (vol_kind v = BindVolume \<or> vol_kind v = DatabaseVolume) \<and> str_truthy (vol_hostPath v)"

text \<open>
  C39: A new preview gets one volume for each volume of its parent, at the same mount path. A named volume becomes
  another Docker volume than every volume of the installation; a volume on the host or of a database is mounted from
  the very same place as the parent's, so there the preview does work on the parent's data.
\<close>

theorem preview_volumes_exact:
  assumes "\<And>s'. hk_fresh ev s' \<notin> vol_id ` set (hs_volumes s')"
  shows "\<exists>cs. hs_volumes (create_preview ev pr parent domain s) = hs_volumes s @ cs \<and>
    list_all2 (\<lambda>v c. vol_applicationId c = hk_fresh ev s \<and> vol_mountPath c = vol_mountPath v \<and>
        (on_host v \<longrightarrow> volume_source (Some (hk_fresh ev s)) c = volume_source (Some (app_id parent)) v) \<and>
        (vol_kind v = NamedVolume \<longrightarrow> volume_source (Some (hk_fresh ev s)) c \<notin> (volumeName \<circ> vol_id) ` set (hs_volumes s)))
      (filter (\<lambda>v. vol_applicationId v = app_id parent) (hs_volumes s)) cs"
proof -
  define row where "row = preview_row ev pr parent domain s"
  define s1 where "s1 = s\<lparr>hs_dir := (hs_dir s)\<lparr>dir_applications := dir_applications (hs_dir s) @ [row]\<rparr>\<rparr>"
  have "app_id row = hk_fresh ev s" by (simp add: row_def preview_row_def applicationCopyValues_def)
  then obtain cs where cs: "hs_volumes (create_preview ev pr parent domain s) = hs_volumes s @ cs"
      "list_all2 (copy_of s (hk_fresh ev s)) (filter (\<lambda>v. vol_applicationId v = app_id parent) (hs_volumes s)) cs"
    using copies [of ev s s1 "app_id row", OF assms] by (auto simp: create_preview_def row_def s1_def Let_def)
  have "copy_of s (hk_fresh ev s) v c \<Longrightarrow>
      vol_applicationId c = hk_fresh ev s \<and> vol_mountPath c = vol_mountPath v \<and>
      (on_host v \<longrightarrow> volume_source (Some (hk_fresh ev s)) c = volume_source (Some (app_id parent)) v) \<and>
      (vol_kind v = NamedVolume \<longrightarrow> volume_source (Some (hk_fresh ev s)) c \<notin> (volumeName \<circ> vol_id) ` set (hs_volumes s))" for v c
    by (auto simp: copy_of_def volume_source_def on_host_def volumeName_def)
  with cs show ?thesis by (auto elim!: list_all2_mono)
qed

section \<open>What a pull request can touch\<close>

lemma teardown_trace_only:
  assumes "trace_only I" and "I s" shows "I (snd (tearDownApplication rt application server volumes s))"
proof -
  have "keeps I (andThen (connectSsh rt Target (srv_host server))
      (finally_do (exec_quiet rt Target (teardown_command application volumes)) (emit (Close Target))))"
    by (intro keeps_rules keeps_calls assms(1))
  with assms(2) show ?thesis
    by (auto simp: tearDownApplication_def keeps_def split: prod.split sum.split dest: spec [of _ s])
qed

lemma teardown_keeps [simp]:
  "hs_dir (snd (tearDownApplication rt application server volumes s)) = hs_dir s"
  "hs_volumes (snd (tearDownApplication rt application server volumes s)) = hs_volumes s"
  using teardown_trace_only [of "\<lambda>t. hs_dir t = hs_dir s \<and> hs_volumes t = hs_volumes s" s rt application server volumes]
  by (simp_all add: trace_only_def)

definition apps_of :: "HookState \<Rightarrow> Application list" where
  "apps_of s = dir_applications (hs_dir s)"

definition preview_for :: "PullRequestEvent \<Rightarrow> Application list \<Rightarrow> Application \<Rightarrow> bool" where
  "preview_for pr parents a \<longleftrightarrow> list_ex (\<lambda>p. app_previewOfId a = Some (app_id p)) parents \<and>
     app_prNumber a = Some (pr_number pr) \<and> app_branch a = pr_headRef pr"

definition spares :: "PullRequestEvent \<Rightarrow> Application list \<Rightarrow> Application list \<Rightarrow> Application list \<Rightarrow> bool" where
  "spares pr parents as as' \<longleftrightarrow> filter (\<lambda>a. app_previewOfId a = None) as' = filter (\<lambda>a. app_previewOfId a = None) as \<and>
     distinct (map app_id as') \<and> (\<forall>a \<in> set as' - set as. preview_for pr parents a)"

lemma spares_refl: "distinct (map app_id as) \<Longrightarrow> spares pr parents as as"
  by (simp add: spares_def)

lemma spares_trans: "spares pr parents as bs \<Longrightarrow> spares pr parents bs cs \<Longrightarrow> spares pr parents as cs"
  by (auto simp: spares_def)

lemma same_row: "distinct (map f xs) \<Longrightarrow> x \<in> set xs \<Longrightarrow> y \<in> set xs \<Longrightarrow> f x = f y \<Longrightarrow> x = y"
  by (auto simp: distinct_map inj_on_def)

lemma deletion_spares:
  assumes "distinct (map app_id as)" and "e \<in> set as" and "app_previewOfId e \<noteq> None"
  shows "spares pr parents as
    (filter (\<lambda>a. \<not> (app_id a = app_id e \<or> list_ex (\<lambda>b. app_id b = app_id a \<and> app_previewOfId b = Some (app_id e)) as)) as)"
proof -
  have keep: "app_id a \<noteq> app_id e \<and> \<not> list_ex (\<lambda>b. app_id b = app_id a \<and> app_previewOfId b = Some (app_id e)) as"
    if "a \<in> set as" "app_previewOfId a = None" for a
    using that assms same_row [OF assms(1)] by (fastforce simp: list_ex_iff)
  have "filter (\<lambda>a. app_previewOfId a = None \<and> \<not> (app_id a = app_id e \<or> list_ex (\<lambda>b. app_id b = app_id a \<and> app_previewOfId b = Some (app_id e)) as)) as =
      filter (\<lambda>a. app_previewOfId a = None) as"
    by (rule filter_cong) (use keep in auto)
  then show ?thesis using assms(1) by (auto simp: spares_def distinct_map_filter conj_commute)
qed

lemma update_spares:
  assumes "distinct (map app_id as)" and "e \<in> set as" and "app_previewOfId e = Some (app_id p)" and "p \<in> set parents"
    and "app_prNumber e = Some (pr_number pr)"
  shows "spares pr parents as (map (\<lambda>a. if app_id a = app_id e then a\<lparr>app_branch := pr_headRef pr\<rparr> else a) as)"
proof -
  let ?f = "\<lambda>a. if app_id a = app_id e then a\<lparr>app_branch := pr_headRef pr\<rparr> else a"
  have only: "a = e" if "a \<in> set as" "app_id a = app_id e" for a using same_row [OF assms(1)] that assms(2) by blast
  have "filter (\<lambda>a. app_previewOfId a = None) (map ?f as) = map ?f (filter (\<lambda>a. app_previewOfId a = None) as)"
    by (simp add: filter_map o_def if_distrib cong: if_cong)
  also have "\<dots> = filter (\<lambda>a. app_previewOfId a = None) as"
    by (rule map_idI) (use only assms(3) in \<open>force split: if_splits\<close>)
  finally have real: "filter (\<lambda>a. app_previewOfId a = None) (map ?f as) = filter (\<lambda>a. app_previewOfId a = None) as" .
  have ids: "map app_id (map ?f as) = map app_id as" by simp
  have "preview_for pr parents b" if "b \<in> set (map ?f as) - set as" for b
  proof -
    from that obtain a where a: "a \<in> set as" "b = ?f a" by auto
    with that have "app_id a = app_id e" by (auto split: if_splits)
    with a only have "b = e\<lparr>app_branch := pr_headRef pr\<rparr>" by auto
    then show ?thesis using assms by (auto simp: preview_for_def list_ex_iff)
  qed
  then show ?thesis unfolding spares_def ids using real assms(1) by blast
qed

lemma create_spares:
  assumes "distinct (map app_id as)" and "app_id row \<notin> app_id ` set as" and "preview_for pr parents row"
  shows "spares pr parents as (as @ [row])"
proof -
  have "app_previewOfId row \<noteq> None" using assms(3) by (auto simp: preview_for_def list_ex_iff)
  with assms show ?thesis by (auto simp: spares_def)
qed

lemma apps_of_queue [simp]: "apps_of (queue_deployment ev i s) = apps_of s"
  by (simp add: apps_of_def queue_is_with)

lemma apps_of_create: "apps_of (create_preview ev pr parent domain s) = apps_of s @ [preview_row ev pr parent domain s]"
  by (simp add: apps_of_def create_preview_def Let_def)

lemma apps_of_close:
  "apps_of (close_preview rt server e s) =
   filter (\<lambda>a. \<not> (app_id a = app_id e \<or> list_ex (\<lambda>b. app_id b = app_id a \<and> app_previewOfId b = Some (app_id e)) (apps_of s))) (apps_of s)"
  by (cases server) (simp_all add: apps_of_def close_preview_def delete_application_def Let_def)

lemma preview_row_for: "p \<in> set parents \<Longrightarrow> preview_for pr parents (preview_row ev pr p domain s)"
  by (auto simp: preview_for_def preview_row_def applicationCopyValues_def list_ex_iff)

lemma preview_row_id: "app_id (preview_row ev pr p domain s) = hk_fresh ev s"
  by (simp add: preview_row_def applicationCopyValues_def)

lemma preview_parent_spares:
  assumes "distinct (map app_id (apps_of s))" and fresh: "\<And>s'. hk_fresh ev s' \<notin> app_id ` set (apps_of s')" and "p \<in> set parents"
  shows "spares pr parents (apps_of s) (apps_of (snd (preview_parent ev rt pr p s)))"
proof -
  define existing where "existing = find (\<lambda>a. app_previewOfId a = Some (app_id p) \<and> app_prNumber a = Some (pr_number pr)) (dir_applications (hs_dir s))"
  have found: "e \<in> set (apps_of s) \<and> app_previewOfId e = Some (app_id p) \<and> app_prNumber e = Some (pr_number pr)" if "existing = Some e" for e
    using find_SomeD that unfolding existing_def apps_of_def by fast
  have refl: "spares pr parents (apps_of s) (apps_of s)" by (rule spares_refl [OF assms(1)])
  have closed: "spares pr parents (apps_of s) (apps_of (close_preview rt server e s))" if "existing = Some e" for server e
    using deletion_spares [OF assms(1), of e pr parents] found [OF that] by (simp add: apps_of_close)
  have updated: "spares pr parents (apps_of s)
      (map (\<lambda>a. if app_id a = app_id e then a\<lparr>app_branch := pr_headRef pr\<rparr> else a) (dir_applications (hs_dir s)))"
    if "existing = Some e" for e
    using update_spares [OF assms(1), of e p parents pr] found [OF that] assms(3) by (simp add: apps_of_def)
  have created: "spares pr parents (apps_of s) (apps_of s @ [preview_row ev pr p domain s])" for domain
    using create_spares [OF assms(1), of "preview_row ev pr p domain s"] fresh [of s] preview_row_for [OF assms(3)]
    by (simp add: preview_row_id)
  show ?thesis
    unfolding preview_parent_def Let_def existing_def [symmetric]
    using refl closed updated created
    by (auto simp: apps_of_create split: option.split if_split) (simp_all add: apps_of_def)
qed

lemma preview_steps_spare:
  assumes fresh: "\<And>s'. hk_fresh ev s' \<notin> app_id ` set (apps_of s')" and "set ps \<subseteq> set parents"
    and "distinct (map app_id (apps_of (snd rs)))"
  shows "spares pr parents (apps_of (snd rs)) (apps_of (snd (fold (preview_step ev rt pr) ps rs)))"
  using assms(2,3)
proof (induction ps arbitrary: rs)
  case (Cons p ps)
  define rs1 where "rs1 = preview_step ev rt pr p rs"
  have one: "spares pr parents (apps_of (snd rs)) (apps_of (snd rs1))"
    using preview_parent_spares [OF Cons.prems(2) fresh, of p parents pr rt] Cons.prems(1)
    by (simp add: rs1_def preview_step_def case_prod_unfold)
  then have "distinct (map app_id (apps_of (snd rs1)))" by (simp add: spares_def)
  from spares_trans [OF one Cons.IH [OF _ this]] Cons.prems(1) show ?case by (simp add: rs1_def)
qed (simp add: spares_refl)


section \<open>Connecting an installation\<close>

lemma callback_cases:
  assumes "codec_ok c"
  shows "hs_installations (snd (github_callback ev c sessionId raw state s)) = hs_installations s \<or>
    (\<exists>user teamId body config n login type.
      findSessionUser (hs_dir s) (hk_now ev) sessionId = Some user \<and> assertMember (hs_dir s) teamId (usr_id user) \<and>
      state = Some (body @ ''.'' @ signature_of c body) \<and> read_payload c body (hk_now ev) = Some (teamId, usr_id user) \<and>
      github_config ev = Some config \<and> hk_installation ev config n = Inr (login, type) \<and>
      hs_installations (snd (github_callback ev c sessionId raw state s)) = connect_installation ev teamId n login type s)"
proof (cases "state")
  case None
  then show ?thesis by (simp add: github_callback_def str_truthy_def split: option.split)
next
  case (Some shown)
  show ?thesis
  proof (cases "\<exists>t u. verifyOAuthState c shown (hk_now ev) = Inr (Some (t, u))")
    case True
    then obtain t u body where v: "verifyOAuthState c shown (hk_now ev) = Inr (Some (t, u))"
      and body: "shown = body @ ''.'' @ signature_of c body" "read_payload c body (hk_now ev) = Some (t, u)"
      using verify_iff [OF assms] by blast
    have "hs_installations (snd (github_callback ev c sessionId raw (Some shown) s)) = hs_installations s \<or>
      (\<exists>user config n login type. findSessionUser (hs_dir s) (hk_now ev) sessionId = Some user \<and> usr_id user = u \<and>
        assertMember (hs_dir s) t u \<and> github_config ev = Some config \<and> hk_installation ev config n = Inr (login, type) \<and>
        hs_installations (snd (github_callback ev c sessionId raw (Some shown) s)) = connect_installation ev t n login type s)"
      unfolding github_callback_def by (simp add: v split: option.split sum.split prod.split) metis
    with Some body show ?thesis by blast
  next
    case False
    then show ?thesis
      unfolding github_callback_def Some by (auto split: option.split sum.split prod.split)
  qed
qed


text \<open>The number of the installation is no part of the state: whoever may connect may connect any of them.\<close>

lemma callback_takes_any_number:
  assumes "github_config ev = Some config" and "verifyOAuthState c text (hk_now ev) = Inr (Some (teamId, usr_id user))"
    and "findSessionUser (hs_dir s) (hk_now ev) sessionId = Some user" and "assertMember (hs_dir s) teamId (usr_id user)"
    and "text \<noteq> []" and "number \<noteq> []" and "positive_integer (js_Number number) = Some n"
    and "hk_installation ev config n = Inr (login, type)"
  shows "hs_installations (snd (github_callback ev c sessionId (Some number) (Some text) s)) =
    connect_installation ev teamId n login type s"
  using assms by (simp add: github_callback_def str_truthy_def)

section \<open>An installation for examples\<close>

definition demo_source_id :: string where
  "demo_source_id = ''00000000-0000-0000-0000-000000000000''"

definition demo_app :: Application where
  "demo_app = (new_application ''a'' 0 ''team'' ''env'' ''srv'' ''shop'' [])
     \<lparr>app_gitSourceId := Some demo_source_id, app_gitRepo := Some ''g/shop'', app_githubInstallationId := Some 7,
      app_githubRepo := Some ''g/shop'', app_previewEnabled := True\<rparr>"

definition demo_payload :: jv where
  "demo_payload = JObj [(''ref'', JStr ''refs/heads/main''), (''project'', JObj [(''path_with_namespace'', JStr ''g/shop'')])]"

definition demo_hooks :: HookEnv where
  "demo_hooks =
    \<lparr>hk_now = 5, hk_fresh = (\<lambda>s. concat (map app_id (dir_applications (hs_dir s))) @ concat (map vol_id (hs_volumes s)) @ ''x''),
     hk_random24 = ''s'', hk_hmac = (\<lambda>k b. k @ b), hk_sha256 = id, hk_json = (\<lambda>t. if t = ''push'' then Some demo_payload else None),
     hk_env = (\<lambda>k. Some ''v''), hk_fromBase64 = id, hk_nonint = ''0.5'', hk_iso = int_str, hk_btoa = id,
     hk_installation = (\<lambda>c n. Inr (''login'', ''User'')), hk_installationToken = (\<lambda>c n. Inr ''t''),
     hk_repoPage = (\<lambda>t p. Inr []), hk_fetch = (\<lambda>r. Inl ''offline'')\<rparr>"

definition demo_volume :: ApplicationVolume where
  "demo_volume = (new_applicationVolume ''v'' 0 ''a'' ''data'' ''/data'')\<lparr>vol_kind := BindVolume, vol_hostPath := Some ''/srv/data''\<rparr>"

definition demo_hook_state :: HookState where
  "demo_hook_state =
    \<lparr>js_trace = [], js_log = [],
     hs_dir = demo_directory\<lparr>dir_applications := [demo_app],
       dir_servers := [(new_server ''srv'' 0 ''team'' ''s'' ''h'' ''k'')\<lparr>srv_proxyStatus := ProxyActive, srv_wildcardDomain := Some ''example.com''\<rparr>]\<rparr>,
     hs_volumes = [demo_volume], hs_installations = [new_githubInstallation ''i'' 0 ''team'' 7 ''g'' ''User''],
     hs_sources = [new_gitSource demo_source_id 0 ''team'' Gitlab ''lab'' ''https://gitlab.com'' ''t'' ''secret''], hs_jobs = []\<rparr>"

lemma longer_not_in: "x \<in> f ` set xs \<Longrightarrow> length x \<le> length (concat (map f xs))" for f :: "'r \<Rightarrow> 'c list"
  by (induction xs) auto

lemma demo_fresh:
  "hk_fresh demo_hooks s \<notin> app_id ` set (dir_applications (hs_dir s))" "hk_fresh demo_hooks s \<notin> vol_id ` set (hs_volumes s)"
  using longer_not_in [of "hk_fresh demo_hooks s" app_id "dir_applications (hs_dir s)"]
    longer_not_in [of "hk_fresh demo_hooks s" vol_id "hs_volumes s"]
  by (auto simp: demo_hooks_def)

theorem webhooks_need_their_secret_witness:
  "snd (hook_handler demo_hooks calm (TokenHook ''t'') demo_hook_state) = demo_hook_state"
proof -
  have "\<not> authentic demo_hooks demo_hook_state (TokenHook ''t'')" by code_simp
  from webhooks_need_their_secret [OF this] show ?thesis by blast
qed


definition demo_pull_request :: PullRequestEvent where
  "demo_pull_request = \<lparr>pr_action = Opened, pr_number = 3, pr_headRef = ''feature'', pr_baseRef = ''main'', pr_repo = ''g/shop'',
     pr_fromFork = False, pr_installationId = Some 7\<rparr>"


theorem preview_volumes_exact_witness:
  "\<exists>c. hs_volumes (create_preview demo_hooks demo_pull_request demo_app ''example.com'' demo_hook_state) = [demo_volume, c] \<and>
     volume_source (Some ''avx'') c = ''/srv/data''"
proof -
  have fresh: "hk_fresh demo_hooks demo_hook_state = ''avx''" by code_simp
  have vols: "hs_volumes demo_hook_state = [demo_volume]" "vol_applicationId demo_volume = app_id demo_app" "on_host demo_volume"
    "volume_source (Some (app_id demo_app)) demo_volume = ''/srv/data''" by code_simp+
  from preview_volumes_exact [OF demo_fresh(2), of demo_pull_request demo_app "''example.com''" demo_hook_state]
  show ?thesis by (auto simp: vols fresh list_all2_Cons1)
qed

definition demo_signed_in :: HookState where
  "demo_signed_in = demo_hook_state\<lparr>hs_dir := (hs_dir demo_hook_state)
     \<lparr>dir_users := [new_user ''u'' 0 ''u@example.com'' ''h''], dir_sessions := [new_session ''s'' 0 ''u'' 100],
      dir_teams := [new_team ''team'' 0 ''Team''], dir_members := [new_teamMember 0 ''team'' ''u'']\<rparr>\<rparr>"


end
