(* ===== verification/Spec2Isabelle.thy ===== *)
theory Spec2Isabelle
  imports Shell EnvFile Traefik Compose Docker DeployCommands GitRefs DeployProofs Tables DatabaseCommands DumpCommands BackupJobs Gates MemoryGuard ContainerWatch FileBrowser TokenApi Events Provision PlatformOps Accounts Upkeep Webhooks
begin

text \<open>
  A verification development for yeah, a self-hosted platform that deploys applications, databases and services to
  servers over SSH.

  THE PROGRAM. The panel (apps/web) talks to an API (apps/api) over HTTP. The API keeps its rows in PostgreSQL
  (packages/db) and puts jobs on queues (packages/queue); the worker (apps/worker) takes them, opens an SSH connection
  to a server (packages/ssh), runs commands there, writes the outcome to the rows and publishes events. The event
  service (apps/ws) forwards those events to the browsers of the right team. packages/shared holds the functions both
  sides rely on: quoting, validators, parsers, command builders and policies.

  THE THEORIES, from the ground up.
  Prelude, JsRegex, JsValue and JsNumber are the part of the language and its standard library that the code uses:
  strings, stable sorting, maps in insertion order, regular expressions by derivatives, values of unknown shape, and
  the reading of numbers.
  Rows and Tables are packages/db/src/schema: a record per table and an insert with the defaults of the schema.
  Shell is shell.ts, with a POSIX reader as the specification of quoting; EnvFile is env.ts and redact.ts.
  Docker, Compose, GitRefs, Traefik and ProxyPages are the registries, rollback images, compose projects, git sources,
  previews, routing and proxy pages of packages/shared.
  DeployCommands, DatabaseCommands, DumpCommands and Waker are the command builders of the jobs.
  Remote is the language of the job handlers: actions on an explicit state that return a value or throw, with every
  external call in a trace and its outcome chosen by a runtime from that trace.
  Deploy, DeployRules and DeployProofs are the deploy job; BackupJobs the backups, restores and archives; Provision
  the jobs of proxies, services, databases and applications; PlatformOps the updates of the panel; Upkeep the periodic
  and small jobs; MemoryGuard and ContainerWatch the two watchers.
  Gates are the circuit breaker, throttle, rate limiter and one-shot challenges.
  Access (sessions, teams, tokens), TokenApi (the token API and MCP), Secrets (encryption at rest, authenticator
  codes), Accounts (sign-in, second factor, passkeys, reset), Webhooks (webhooks, pull requests, connections to git)
  and Events (the event service) are the API; FileBrowser is the browser of files in a container.

  HOW THE CODE IS MODELLED. A definition has the name of the function it translates; a part of a function is a
  definition of its own whose name says what it does. A table is a list of rows and a query with limit 1 is \<open>find\<close>.
  A thrown error is \<open>Inl\<close>, a handler of a request is a function from a state to an answer and the next state, a
  handler of a job an action of Remote. Times are milliseconds, strings are lists of code units below 256. What is not
  in the repository is a parameter: the database's choice of ids, the clock, HMAC, digests and ciphers, the YAML, JSON
  and URL parsers, collation, and the answers of servers, of GitHub and of storages. Its documented behaviour is a
  named hypothesis where a theorem needs it (\<open>codec_ok\<close>, \<open>pages_of\<close>, freshness of ids, distinct primary keys), and a
  witness shows an instance.

  WHAT IS PROVED. Commands are read by a shell as the intended words, whatever the values in them (Shell,
  DeployCommands, DatabaseCommands, FileBrowser). Parsers invert printers (EnvFile, Docker, FileBrowser, Secrets).
  Every job returns and leaves its rows settled and its connection closed, whatever the server does (locale \<open>settling\<close>
  of Remote, interpreted for each job). The deploy job keeps its log redacted and its old container until the new
  version may start (locale \<open>deploy_invariant\<close>). The gates and watchers are equal to short specifications on the whole
  history (locale \<open>expiring\<close>). A token, a session or a webhook has only the effects its secret allows, and only in its
  team (TokenApi, Accounts, Webhooks, Events). Retention and cleanup remove what they should and nothing else
  (BackupJobs, Upkeep).

  BOUNDS. Recursion follows the data almost everywhere. \<open>work\<close> of PlatformOps runs the delayed jobs of one update with
  a number of runs; 182 is enough, one launch and 181 polls, because each poll is at least five seconds after the one
  before and an update is given up after fifteen minutes. \<open>repo_pages\<close> of Webhooks is a partial function, because its
  loop ends only if GitHub's pages do.

  NOT MODELLED. The web interface and the command line client, which render and call the API. The API routes for
  editing the rows of applications, databases, services, servers and teams: they check a membership, which is
  modelled, validate with modelled functions, and queue modelled jobs. The terminal, which is a stream. The collection
  of metrics, whose values are floating-point numbers. Clients of external services (queues, notifications, log
  drains). Generation of keys and certificates. Of what is modelled: failures of the database or of Redis within a
  handler, the check of request shapes by the web framework, and handlers that overlap (each runs to its end before
  the next one starts, unless its theory says otherwise).
\<close>

end
